(* ===== verification/Prelude.thy ===== *)
theory Prelude
  imports Main "HOL-Library.Word" "HOL-Library.AList" "HOL-Library.Sublist" "HOL-Library.Multiset"
begin

text \<open>
  Shared vocabulary of the development: results of fallible Go functions, Go maps,
  the parts of the packages strings and strconv the program uses, and non-blocking
  sends on buffered Go channels, with the generic lemmas the component theories share.
\<close>

named_theorems ops \<open>definitions of operations, unfolded to reason about one operation\<close>
named_theorems gomap \<open>lookup laws of Go maps\<close>
named_theorems strs \<open>laws of the string helpers\<close>

section \<open>Results\<close>

text \<open>A Go function returning a value and an error returns one or the other here:
  \<open>Err e\<close> is the error return, \<open>Ok v\<close> the return with a nil error.\<close>

abbreviation Err :: "'e \<Rightarrow> 'e + 'a" where "Err \<equiv> Inl"
abbreviation Ok :: "'a \<Rightarrow> 'e + 'a" where "Ok \<equiv> Inr"

definition is_ok :: "'e + 'a \<Rightarrow> bool" where
  "is_ok r = (case r of Inl _ \<Rightarrow> False | Inr _ \<Rightarrow> True)"

lemma is_ok_simps [simp]: "is_ok (Ok v)" "\<not> is_ok (Err e)"
  by (simp_all add: is_ok_def)

section \<open>Go maps\<close>

text \<open>A Go map is an association list whose keys are distinct. The order of the list is the
  order a range loop over the map happens to visit: every theorem is about all lists, so
  about all orders.\<close>

type_synonym ('k, 'v) gomap = "('k \<times> 'v) list"

abbreviation gm_get :: "('k, 'v) gomap \<Rightarrow> 'k \<Rightarrow> 'v option" where
  "gm_get m k \<equiv> map_of m k"
abbreviation gm_put :: "('k, 'v) gomap \<Rightarrow> 'k \<Rightarrow> 'v \<Rightarrow> ('k, 'v) gomap" where
  "gm_put m k v \<equiv> AList.update k v m"
abbreviation gm_del :: "('k, 'v) gomap \<Rightarrow> 'k \<Rightarrow> ('k, 'v) gomap" where
  "gm_del m k \<equiv> AList.delete k m"
abbreviation gm_keys :: "('k, 'v) gomap \<Rightarrow> 'k list" where
  "gm_keys m \<equiv> map fst m"
abbreviation gm_vals :: "('k, 'v) gomap \<Rightarrow> 'v list" where
  "gm_vals m \<equiv> map snd m"
abbreviation gm_ok :: "('k, 'v) gomap \<Rightarrow> bool" where
  "gm_ok m \<equiv> distinct (map fst m)"

lemma gm_get_put [gomap, simp]:
  "gm_get (gm_put m k v) k' = (if k' = k then Some v else gm_get m k')"
  by (simp add: update_conv')

lemma gm_get_del [gomap, simp]:
  "gm_get (gm_del m k) k' = (if k' = k then None else gm_get m k')"
  by (simp add: delete_conv')

lemma gm_ok_put [intro, simp]: "gm_ok m \<Longrightarrow> gm_ok (gm_put m k v)"
  by (rule distinct_update)

lemma gm_ok_del [intro, simp]: "gm_ok m \<Longrightarrow> gm_ok (gm_del m k)"
  by (rule distinct_delete)

lemma gm_keys_put [gomap, simp]: "set (gm_keys (gm_put m k v)) = insert k (set (gm_keys m))"
  by (induction m) auto

lemma gm_keys_del [gomap, simp]: "set (gm_keys (gm_del m k)) = set (gm_keys m) - {k}"
  by (simp add: delete_keys) 

lemma gm_dom_put [gomap, simp]: "fst ` set (gm_put m k v) = insert k (fst ` set m)"
  by (induction m) auto

lemma gm_dom_del [gomap, simp]: "fst ` set (gm_del m k) = fst ` set m - {k}"
  by (auto simp: AList.delete_eq)

lemma gm_get_None_iff: "gm_get m k = None \<longleftrightarrow> k \<notin> set (gm_keys m)"
  by (simp add: map_of_eq_None_iff)

lemma gm_get_mem: "gm_ok m \<Longrightarrow> gm_get m k = Some v \<longleftrightarrow> (k, v) \<in> set m"
  by (simp add: map_of_eq_Some_iff)

lemma gm_put_fresh: "gm_get m k = None \<Longrightarrow> gm_put m k v = m @ [(k, v)]"
  by (induction m) (auto split: if_splits)

lemma gm_put_vals:
  "set (gm_vals (gm_put m k v)) \<subseteq> insert v (set (gm_vals m))"
  by (induction m) auto

lemma gm_put_list_all:
  "list_all P m \<Longrightarrow> P (k, v) \<Longrightarrow> list_all P (gm_put m k v)"
  by (induction m) auto

lemma gm_del_list_all: "list_all P m \<Longrightarrow> list_all P (gm_del m k)"
  by (induction m) (auto simp: AList.delete_eq)

lemma gm_length_put:
  "length (gm_put m k v) = (if gm_get m k = None then Suc (length m) else length m)"
  by (induction m) auto

section \<open>Strings\<close>

text \<open>\<open>strings.Split\<close> with a one-character separator, \<open>strings.Join\<close>, \<open>strings.HasPrefix\<close>,
  \<open>strings.HasSuffix\<close> and \<open>strings.Contains\<close>.\<close>

fun split_on :: "char \<Rightarrow> string \<Rightarrow> string list" where
  "split_on c [] = [[]]"
| "split_on c (x # xs) =
     (if x = c then [] # split_on c xs
      else case split_on c xs of [] \<Rightarrow> [[x]] | p # ps \<Rightarrow> (x # p) # ps)"

fun join_with :: "string \<Rightarrow> string list \<Rightarrow> string" where
  "join_with sep [] = []"
| "join_with sep [x] = x"
| "join_with sep (x # y # r) = x @ sep @ join_with sep (y # r)"

definition has_prefix :: "string \<Rightarrow> string \<Rightarrow> bool" where
  "has_prefix s p = (take (length p) s = p)"

definition has_suffix :: "string \<Rightarrow> string \<Rightarrow> bool" where
  "has_suffix s p = has_prefix (rev s) (rev p)"

fun str_contains :: "string \<Rightarrow> string \<Rightarrow> bool" where
  "str_contains [] p = (p = [])"
| "str_contains (x # xs) p = (has_prefix (x # xs) p \<or> str_contains xs p)"

definition trim_prefix :: "string \<Rightarrow> string \<Rightarrow> string" where
  "trim_prefix s p = (if has_prefix s p then drop (length p) s else s)"

lemma split_on_not_Nil [simp]: "split_on c s \<noteq> []"
  by (induction s) (auto split: list.splits)

lemma join_split_on [strs]: "join_with [c] (split_on c s) = s"
proof (induction s)
  case (Cons x xs)
  then show ?case
    by (cases "split_on c xs" rule: list.exhaust; cases "tl (split_on c xs)") auto
qed simp

lemma split_on_notin [strs]: "p \<in> set (split_on c s) \<Longrightarrow> c \<notin> set p"
  by (induction s arbitrary: p) (auto split: if_splits list.splits)

lemma split_on_single [strs]: "c \<notin> set s \<Longrightarrow> split_on c s = [s]"
  by (induction s) auto

lemma split_on_append [strs]: "c \<notin> set a \<Longrightarrow> split_on c (a @ c # s) = a # split_on c s"
  by (induction a) auto

lemma split_on_join [strs]:
  "ps \<noteq> [] \<Longrightarrow> \<forall>p\<in>set ps. c \<notin> set p \<Longrightarrow> split_on c (join_with [c] ps) = ps"
proof (induction "[c]" ps rule: join_with.induct)
  case (3 x y r)
  then show ?case by (simp add: split_on_append)
qed (simp_all add: split_on_single)

lemma has_prefix_iff [strs]: "has_prefix s p \<longleftrightarrow> prefix p s"
  by (metis has_prefix_def append_eq_conv_conj prefix_def)

lemma has_suffix_iff [strs]: "has_suffix s p \<longleftrightarrow> suffix p s"
  by (simp add: has_suffix_def has_prefix_iff suffix_to_prefix)

section \<open>Decimal numbers\<close>

text \<open>\<open>strconv.FormatUint(n, 10)\<close> and \<open>strconv.ParseUint(s, 10, 32)\<close>: the parser rejects the
  empty string, any character that is not a decimal digit, and a value that does not fit in
  32 bits.\<close>

definition digit_char :: "nat \<Rightarrow> char" where
  "digit_char d = char_of (48 + d)"

definition is_digit :: "char \<Rightarrow> bool" where
  "is_digit c = (48 \<le> (of_char c :: nat) \<and> (of_char c :: nat) \<le> 57)"

definition digit_val :: "char \<Rightarrow> nat" where
  "digit_val c = of_char c - 48"

fun format_nat :: "nat \<Rightarrow> string" where
  "format_nat n = (if n < 10 then [digit_char n]
                   else format_nat (n div 10) @ [digit_char (n mod 10)])"

declare format_nat.simps [simp del]

definition digits_val :: "string \<Rightarrow> nat" where
  "digits_val s = foldl (\<lambda>a c. 10 * a + digit_val c) 0 s"

definition parse_uint32 :: "string \<Rightarrow> 32 word option" where
  "parse_uint32 s =
     (if s = [] \<or> \<not> list_all is_digit s \<or> 2 ^ 32 \<le> digits_val s then None
      else Some (word_of_nat (digits_val s)))"

definition format_uint32 :: "32 word \<Rightarrow> string" where
  "format_uint32 w = format_nat (unat w)"

lemma digit_char_props [simp]:
  assumes "d < 10"
  shows "is_digit (digit_char d)" "digit_val (digit_char d) = d"
  using assms by (simp_all add: is_digit_def digit_char_def digit_val_def)

lemma digit_char_simps:
  "digit_char 0 = CHR ''0''"
  "digit_char (Suc 0) = CHR ''1''"
  "digit_char 2 = CHR ''2''"
  "digit_char 3 = CHR ''3''"
  "digit_char 4 = CHR ''4''"
  "digit_char 5 = CHR ''5''"
  "digit_char 6 = CHR ''6''"
  "digit_char 7 = CHR ''7''"
  "digit_char 8 = CHR ''8''"
  "digit_char 9 = CHR ''9''"
  by code_simp+

lemma format_nat_digits: "list_all is_digit (format_nat n)"
  by (induction n rule: format_nat.induct) (subst format_nat.simps, auto)

lemma format_nat_not_Nil [simp]: "format_nat n \<noteq> []"
  by (subst format_nat.simps) auto

lemma digits_val_format_nat [simp]: "digits_val (format_nat n) = n"
proof (induction n rule: format_nat.induct)
  case (1 n)
  show ?case
  proof (cases "n < 10")
    case True
    then show ?thesis by (subst format_nat.simps) (simp add: digits_val_def)
  next
    case False
    with 1 have "digits_val (format_nat (n div 10)) = n div 10" by simp
    with False show ?thesis
      by (subst format_nat.simps) (simp add: digits_val_def)
  qed
qed

lemma format_uint32_digits: "list_all is_digit (format_uint32 w)"
  by (simp add: format_uint32_def format_nat_digits)

lemma parse_format_uint32 [simp]: "parse_uint32 (format_uint32 w) = Some w"
proof -
  have "unat w < 2 ^ 32" using unsigned_less [of w] by simp
  then show ?thesis
    by (simp add: parse_uint32_def format_uint32_def format_nat_digits)
qed

lemma digit_notin: "list_all is_digit s \<Longrightarrow> \<not> is_digit c \<Longrightarrow> c \<notin> set s"
  by (auto simp: list_all_iff)

lemma format_uint32_notin [simp]: "\<not> is_digit c \<Longrightarrow> c \<notin> set (format_uint32 w)"
  using digit_notin format_uint32_digits by blast

lemma format_uint32_not_Nil [simp]: "format_uint32 w \<noteq> []"
  by (simp add: format_uint32_def)

section \<open>Buffered channels\<close>

text \<open>A buffered channel seen by its sender: the queued messages, the capacity and whether it
  was closed. \<open>chan_try_send\<close> is the non-blocking send of a select with a default branch: the
  message is dropped when the buffer is full, and the program panics (None) when the channel is
  closed. \<open>chan_close\<close> panics on a closed channel. \<open>chan_recv\<close> takes the oldest message.\<close>

record 'a chan =
  ch_buf :: "'a list"
  ch_cap :: nat
  ch_closed :: bool

definition make_chan :: "nat \<Rightarrow> 'a chan" where
  "make_chan n = \<lparr>ch_buf = [], ch_cap = n, ch_closed = False\<rparr>"

definition chan_try_send :: "'a chan \<Rightarrow> 'a \<Rightarrow> 'a chan option" where
  "chan_try_send c x =
     (if ch_closed c then None
      else if length (ch_buf c) < ch_cap c then Some (c\<lparr>ch_buf := ch_buf c @ [x]\<rparr>)
      else Some c)"

definition chan_close :: "'a chan \<Rightarrow> 'a chan option" where
  "chan_close c = (if ch_closed c then None else Some (c\<lparr>ch_closed := True\<rparr>))"

definition chan_recv :: "'a chan \<Rightarrow> ('a \<times> 'a chan) option" where
  "chan_recv c = (case ch_buf c of [] \<Rightarrow> None | x # xs \<Rightarrow> Some (x, c\<lparr>ch_buf := xs\<rparr>))"

definition chan_ok :: "'a chan \<Rightarrow> bool" where
  "chan_ok c = (length (ch_buf c) \<le> ch_cap c)"

lemma make_chan_simps [simp]:
  "chan_ok (make_chan n)" "\<not> ch_closed (make_chan n)" "ch_buf (make_chan n) = []"
  "ch_cap (make_chan n) = n"
  by (simp_all add: chan_ok_def make_chan_def)

lemma chan_try_send_ok:
  "chan_ok c \<Longrightarrow> chan_try_send c x = Some c' \<Longrightarrow>
     chan_ok c' \<and> ch_cap c' = ch_cap c \<and> \<not> ch_closed c' \<and> prefix (ch_buf c) (ch_buf c')"
  by (auto simp: chan_try_send_def chan_ok_def split: if_splits)

lemma chan_try_send_open: "\<not> ch_closed c \<Longrightarrow> \<exists>c'. chan_try_send c x = Some c'"
  by (simp add: chan_try_send_def)

section \<open>Generic list lemmas\<close>

lemma foldl_invariant:
  "P s \<Longrightarrow> (\<And>s x. x \<in> set xs \<Longrightarrow> P s \<Longrightarrow> P (f s x)) \<Longrightarrow> P (foldl f s xs)"
  by (induction xs arbitrary: s) auto

lemma find_Some_mem: "List.find P xs = Some x \<Longrightarrow> x \<in> set xs \<and> P x"
  by (auto simp: find_Some_iff)

lemma find_key_unique:
  "distinct (map f xs) \<Longrightarrow> x \<in> set xs \<Longrightarrow> List.find (\<lambda>y. f y = f x) xs = Some x"
  by (induction xs) (auto simp: image_iff)

lemma find_perm_unique:
  "(\<And>x y. x \<in> set xs \<Longrightarrow> y \<in> set xs \<Longrightarrow> P x \<Longrightarrow> P y \<Longrightarrow> x = y) \<Longrightarrow> mset xs = mset ys \<Longrightarrow>
     List.find P xs = List.find P ys"
  by (smt (verit, best) find_None_iff2 find_Some_mem mset_eq_setD not_Some_eq)

end
