(* ===== verification/Interfaces.thy ===== *)
theory Interfaces
  imports Prelude
begin

text \<open>
  The interfaces the components offer each other, as locales. Each is interpreted on the
  program's own definitions in the theory of the component that provides it.
\<close>

section \<open>Enumerations with a textual name\<close>

text \<open>A protobuf enumeration printed by one switch and read back by another: the unspecified
  value is what the reader answers for a name it does not know.\<close>

locale enum_codec =
  fixes to_str :: "'e \<Rightarrow> string" and of_str :: "string \<Rightarrow> 'e" and unspecified :: 'e
  assumes of_to: "e \<noteq> unspecified \<Longrightarrow> of_str (to_str e) = e"
    and to_of: "of_str s \<noteq> unspecified \<Longrightarrow> to_str (of_str s) = s"
    and clean: "CHR ''-'' \<notin> set (to_str e)"
    and nonempty: "to_str e \<noteq> []"
begin

lemma of_str_eq_iff: "e \<noteq> unspecified \<Longrightarrow> of_str s = e \<longleftrightarrow> s = to_str e"
  using of_to [of e] to_of [of s] by auto

lemma to_str_inj:
  "e \<noteq> unspecified \<Longrightarrow> e' \<noteq> unspecified \<Longrightarrow> to_str e = to_str e' \<longleftrightarrow> e = e'"
  by (metis of_to)

lemma of_str_unspecified_iff:
  "of_str s = unspecified \<longleftrightarrow> (\<forall>e. e \<noteq> unspecified \<longrightarrow> s \<noteq> to_str e)"
  using of_to to_of by fastforce

end

section \<open>Keyed stores\<close>

text \<open>A component that keeps values under a key: what a lookup returns after an insertion, and
  the invariant insertions keep. The extension also removes entries.\<close>

locale keyed_store =
  fixes get :: "'s \<Rightarrow> 'k \<Rightarrow> 'v option" and put :: "'s \<Rightarrow> 'k \<Rightarrow> 'v \<Rightarrow> 's"
    and inv :: "'s \<Rightarrow> bool"
  assumes get_put: "inv s \<Longrightarrow> get (put s k v) k' = (if k' = k then Some v else get s k')"
    and inv_put: "inv s \<Longrightarrow> inv (put s k v)"
begin

lemma get_put_same: "inv s \<Longrightarrow> get (put s k v) k = Some v"
  by (simp add: get_put)

lemma get_put_other: "inv s \<Longrightarrow> k' \<noteq> k \<Longrightarrow> get (put s k v) k' = get s k'"
  by (simp add: get_put)

lemma inv_puts: "inv s \<Longrightarrow> inv (foldl (\<lambda>s (k, v). put s k v) s kvs)"
  by (rule foldl_invariant) (auto intro: inv_put)

lemma get_puts:
  "inv s \<Longrightarrow> get (foldl (\<lambda>s (k, v). put s k v) s kvs) k =
     (case map_of (rev kvs) k of Some v \<Rightarrow> Some v | None \<Rightarrow> get s k)"
proof (induction kvs arbitrary: s)
  case (Cons kv kvs)
  obtain k0 v0 where kv: "kv = (k0, v0)" by (cases kv)
  have "get (foldl (\<lambda>s (k, v). put s k v) (put s k0 v0) kvs) k =
      (case map_of (rev kvs) k of Some v \<Rightarrow> Some v | None \<Rightarrow> get (put s k0 v0) k)"
    using Cons.IH Cons.prems inv_put by blast
  then show ?case
    using Cons.prems by (simp add: kv get_put map_add_def split: option.splits)
qed simp

end

locale keyed_store_del = keyed_store get put inv
  for get :: "'s \<Rightarrow> 'k \<Rightarrow> 'v option" and put :: "'s \<Rightarrow> 'k \<Rightarrow> 'v \<Rightarrow> 's" and inv :: "'s \<Rightarrow> bool" +
  fixes del :: "'s \<Rightarrow> 'k \<Rightarrow> 's"
  assumes get_del: "inv s \<Longrightarrow> get (del s k) k' = (if k' = k then None else get s k')"
    and inv_del: "inv s \<Longrightarrow> inv (del s k)"
begin

lemma get_del_same: "inv s \<Longrightarrow> get (del s k) k = None"
  by (simp add: get_del)

lemma del_put: "inv s \<Longrightarrow> get (del (put s k v) k) k' = (if k' = k then None else get s k')"
  by (simp add: get_del get_put inv_put)

lemma get_dels:
  "inv s \<Longrightarrow> get (foldl del s ks) k = (if k \<in> set ks then None else get s k)"
  by (induction ks arbitrary: s) (auto simp: get_del inv_del)

end

text \<open>A store that refuses a key it already holds, or a key it does not admit.\<close>

locale write_once_store =
  fixes get :: "'s \<Rightarrow> 'k \<Rightarrow> 'v option" and register :: "'s \<Rightarrow> 'k \<Rightarrow> 'v \<Rightarrow> 's option"
    and admissible :: "'k \<Rightarrow> bool" and inv :: "'s \<Rightarrow> bool"
  assumes register_None: "register s k v = None \<longleftrightarrow> \<not> admissible k \<or> get s k \<noteq> None"
    and get_register: "inv s \<Longrightarrow> register s k v = Some s' \<Longrightarrow>
      get s' k' = (if k' = k then Some v else get s k')"
    and inv_register: "inv s \<Longrightarrow> register s k v = Some s' \<Longrightarrow> inv s'"
begin

lemma register_stable:
  "inv s \<Longrightarrow> register s k v = Some s' \<Longrightarrow> get s k' = Some v' \<Longrightarrow> get s' k' = Some v'"
  using get_register register_None [of s k v] by auto

lemma register_twice: "inv s \<Longrightarrow> register s k v = Some s' \<Longrightarrow> register s' k v' = None"
  using get_register [of s k v s' k] register_None [of s' k v'] by simp

lemma register_all_stable:
  "inv s \<Longrightarrow> get s k' = Some v' \<Longrightarrow>
   get (foldl (\<lambda>s (k, v). case register s k v of None \<Rightarrow> s | Some s' \<Rightarrow> s') s kvs) k' = Some v'"
proof (induction kvs arbitrary: s)
  case (Cons kv kvs)
  obtain k v where kv: "kv = (k, v)" by (cases kv)
  show ?case
  proof (cases "register s k v")
    case None then show ?thesis using Cons by (simp add: kv)
  next
    case (Some s')
    then show ?thesis
      using Cons.IH [of s'] Cons.prems inv_register register_stable by (simp add: kv)
  qed
qed simp

end

section \<open>File stores\<close>

text \<open>Files written and read under paths: what is read after a write that succeeds, at the place
  written and elsewhere. Two paths are the same place when they have the same canonical form.\<close>

locale file_store =
  fixes content :: "'s \<Rightarrow> 'p \<Rightarrow> 'c option" and store :: "'s \<Rightarrow> 'p \<Rightarrow> 'c \<Rightarrow> 's option"
    and place :: "'s \<Rightarrow> 'p \<Rightarrow> 'q"
  assumes content_write:
      "store s p c = Some s' \<Longrightarrow> content s' q = (if place s q = place s p then Some c else content s q)"
    and place_write: "store s p c = Some s' \<Longrightarrow> place s' q = place s q"
begin

fun write_all :: "'s \<Rightarrow> ('p \<times> 'c) list \<Rightarrow> 's option" where
  "write_all s [] = Some s"
| "write_all s ((p, c) # pcs) = (case store s p c of None \<Rightarrow> None | Some s' \<Rightarrow> write_all s' pcs)"

lemma place_write_all: "write_all s pcs = Some s' \<Longrightarrow> place s' q = place s q"
  by (induction s pcs rule: write_all.induct) (auto simp: place_write split: option.splits)

lemma content_write_all_other:
  "write_all s pcs = Some s' \<Longrightarrow> \<forall>(p, c)\<in>set pcs. place s p \<noteq> place s q \<Longrightarrow> content s' q = content s q"
proof (induction s pcs rule: write_all.induct)
  case (2 s p c pcs)
  then obtain s1 where s1: "store s p c = Some s1" "write_all s1 pcs = Some s'" by (auto split: option.splits)
  have "content s' q = content s1 q"
    using "2.IH" [OF s1(1) s1(2)] "2.prems"(2) place_write [OF s1(1)] by auto
  with content_write [OF s1(1), of q] "2.prems"(2) show ?case by auto
qed simp

lemma content_write_all:
  "write_all s pcs = Some s' \<Longrightarrow> distinct (map (\<lambda>(p, c). place s p) pcs) \<Longrightarrow> (p, c) \<in> set pcs \<Longrightarrow>
   content s' p = Some c"
proof (induction s pcs rule: write_all.induct)
  case (2 s p0 c0 pcs)
  then obtain s1 where s1: "store s p0 c0 = Some s1" "write_all s1 pcs = Some s'" by (auto split: option.splits)
  have pl: "place s1 q = place s q" for q using place_write [OF s1(1)] .
  show ?case
  proof (cases "(p, c) = (p0, c0)")
    case True
    have "\<forall>(q, d)\<in>set pcs. place s1 q \<noteq> place s1 p" using "2.prems"(2) True by (auto simp: pl image_iff)
    from content_write_all_other [OF s1(2) this] content_write [OF s1(1), of p] True show ?thesis by simp
  next
    case False
    with "2.prems" show ?thesis by (intro "2.IH" [OF s1(1) s1(2)]) (auto simp: pl)
  qed
qed simp

end

section \<open>Queues\<close>

text \<open>A first-in first-out queue seen through its contents: the removal returns the oldest
  element.\<close>

locale fifo_queue =
  fixes contents :: "'q \<Rightarrow> 'a list" and enq :: "'q \<Rightarrow> 'a \<Rightarrow> 'q"
    and deq :: "'q \<Rightarrow> ('a \<times> 'q) option"
  assumes contents_enq: "contents (enq q x) = contents q @ [x]"
    and deq_empty: "contents q = [] \<Longrightarrow> deq q = None"
    and deq_cons: "contents q = x # xs \<Longrightarrow> \<exists>q'. deq q = Some (x, q') \<and> contents q' = xs"
begin

lemma deq_None_iff: "deq q = None \<longleftrightarrow> contents q = []"
  by (metis deq_cons deq_empty list.exhaust option.distinct(1))

lemma deq_Some: "deq q = Some (x, q') \<Longrightarrow> contents q = x # contents q'"
proof -
  assume *: "deq q = Some (x, q')"
  obtain y ys where y: "contents q = y # ys"
    by (metis * deq_empty list.exhaust option.distinct(1))
  from deq_cons [OF y] * show "contents q = x # contents q'" using y by auto
qed

lemma contents_enqs: "contents (foldl enq q xs) = contents q @ xs"
  by (induction xs arbitrary: q) (simp_all add: contents_enq)

end

section \<open>Machines driven by operations\<close>

text \<open>A component whose state changes only by its operations: what holds at the start and is
  kept by every operation holds after any sequence of operations.\<close>

locale op_machine =
  fixes start :: "'s \<Rightarrow> bool" and exec :: "'s \<Rightarrow> 'op \<Rightarrow> 's" and inv :: "'s \<Rightarrow> bool"
  assumes start_inv: "start s \<Longrightarrow> inv s"
    and exec_inv: "inv s \<Longrightarrow> inv (exec s op)"
begin

lemma run_inv: "start s \<Longrightarrow> inv (foldl exec s trace)"
  by (rule foldl_invariant) (auto intro: start_inv exec_inv)

lemma run_append_inv: "inv s \<Longrightarrow> inv (foldl exec s (t1 @ t2))"
  by (rule foldl_invariant) (auto intro: exec_inv)

end

text \<open>The same for a step relation with labels, where a step may have several outcomes.\<close>

inductive reach :: "('s \<Rightarrow> bool) \<Rightarrow> ('s \<Rightarrow> 'l \<Rightarrow> 's \<Rightarrow> bool) \<Rightarrow> 's \<Rightarrow> bool"
  for start step where
  reach_start: "start s \<Longrightarrow> reach start step s"
| reach_step: "reach start step s \<Longrightarrow> step s l s' \<Longrightarrow> reach start step s'"

locale step_system =
  fixes start :: "'s \<Rightarrow> bool" and step :: "'s \<Rightarrow> 'l \<Rightarrow> 's \<Rightarrow> bool" and inv :: "'s \<Rightarrow> bool"
  assumes start_inv: "start s \<Longrightarrow> inv s"
    and step_inv: "inv s \<Longrightarrow> step s l s' \<Longrightarrow> inv s'"
begin

lemma reach_inv: "reach start step s \<Longrightarrow> inv s"
  by (induction rule: reach.induct) (auto intro: start_inv step_inv)

end

end
