(* ===== verification/RuntimeRegistry.thy ===== *)
theory RuntimeRegistry
  imports Interfaces
begin

text \<open>
  The registry of executable runtimes (pkg/runtime/registry.go) and the composite discoverer
  (pkg/runtime/discoverer.go). A runtime is a value of an arbitrary type: what the registry
  asks of it (its identifier, the language of its metadata or an error, whether it is
  available or an error) are arguments of the operations, as they are methods of the Runtime
  interface in the code. A nil runtime is None.
\<close>

datatype registry_error =
  RegisterNil
| RegisterEmptyID
| AlreadyRegistered string

record 'r Registry =
  reg_runtimes :: "(string, 'r) gomap"

definition NewRegistry :: "'r Registry" where
  "NewRegistry = \<lparr>reg_runtimes = []\<rparr>"

definition Registry_Register ::
  "('r \<Rightarrow> string) \<Rightarrow> 'r option \<Rightarrow> 'r Registry \<Rightarrow> registry_error option \<times> 'r Registry" where
  "Registry_Register RuntimeID runtime r =
     (case runtime of
        None \<Rightarrow> (Some RegisterNil, r)
      | Some rt \<Rightarrow>
          (let rid = RuntimeID rt in
           if rid = '''' then (Some RegisterEmptyID, r)
           else if gm_get (reg_runtimes r) rid \<noteq> None then (Some (AlreadyRegistered rid), r)
           else (None, r\<lparr>reg_runtimes := gm_put (reg_runtimes r) rid rt\<rparr>)))"

definition Registry_Get :: "'r Registry \<Rightarrow> string \<Rightarrow> 'r option" where
  "Registry_Get r rid = gm_get (reg_runtimes r) rid"

definition Registry_All :: "'r Registry \<Rightarrow> 'r list" where
  "Registry_All r = map snd (reg_runtimes r)"

definition Registry_Find :: "('r \<Rightarrow> bool) \<Rightarrow> 'r Registry \<Rightarrow> 'r list" where
  "Registry_Find p r = filter p (map snd (reg_runtimes r))"

definition Registry_FindByLanguage ::
  "('r \<Rightarrow> 'e + string) \<Rightarrow> string \<Rightarrow> 'r Registry \<Rightarrow> 'r list" where
  "Registry_FindByLanguage language_of lang r =
     filter (\<lambda>rt. case language_of rt of Inl _ \<Rightarrow> False | Inr l \<Rightarrow> l = lang)
       (map snd (reg_runtimes r))"

definition Registry_Available :: "('r \<Rightarrow> 'e + bool) \<Rightarrow> 'r Registry \<Rightarrow> 'r list" where
  "Registry_Available available r =
     filter (\<lambda>rt. case available rt of Inl _ \<Rightarrow> False | Inr ok \<Rightarrow> ok) (map snd (reg_runtimes r))"

definition Registry_Count :: "'r Registry \<Rightarrow> nat" where
  "Registry_Count r = length (reg_runtimes r)"

text \<open>A discoverer registers the runtimes it finds and may report an error; the composite one
  runs each in turn and reports the last error.\<close>

type_synonym ('r, 'e) Discoverer = "'r Registry \<Rightarrow> 'e option \<times> 'r Registry"

fun multi_discover :: "('r, 'e) Discoverer list \<Rightarrow> 'e option \<Rightarrow> 'r Registry \<Rightarrow> 'e option \<times> 'r Registry" where
  "multi_discover [] lastErr r = (lastErr, r)"
| "multi_discover (d # ds) lastErr r =
     (case d r of (err, r') \<Rightarrow>
        multi_discover ds (case err of None \<Rightarrow> lastErr | Some e \<Rightarrow> Some e) r')"

definition multiDiscoverer_Discover ::
  "('r, 'e) Discoverer list \<Rightarrow> 'r Registry \<Rightarrow> 'e option \<times> 'r Registry" where
  "multiDiscoverer_Discover ds r = multi_discover ds None r"

section \<open>The registry as a store\<close>

text \<open>Every runtime is filed under its own identifier, which is not empty.\<close>

definition registry_ok :: "('r \<Rightarrow> string) \<Rightarrow> 'r Registry \<Rightarrow> bool" where
  "registry_ok RuntimeID r =
     (gm_ok (reg_runtimes r) \<and>
      list_all (\<lambda>(k, rt). k = RuntimeID rt \<and> k \<noteq> '''') (reg_runtimes r))"

definition registry_add :: "('r \<Rightarrow> string) \<Rightarrow> 'r Registry \<Rightarrow> 'r \<Rightarrow> 'r Registry option" where
  "registry_add RuntimeID r rt =
     (case Registry_Register RuntimeID (Some rt) r of
        (None, r') \<Rightarrow> Some r' | (Some _, _) \<Rightarrow> None)"

lemma registry_ok_new [simp]: "registry_ok f NewRegistry"
  by (simp add: registry_ok_def NewRegistry_def)

lemma Registry_Register_cases:
  obtains (nil) "runtime = None" "Registry_Register f runtime r = (Some RegisterNil, r)"
  | (refused) rt e where "runtime = Some rt" "Registry_Register f runtime r = (Some e, r)"
      "f rt = '''' \<or> gm_get (reg_runtimes r) (f rt) \<noteq> None"
  | (added) rt where "runtime = Some rt" "f rt \<noteq> ''''" "gm_get (reg_runtimes r) (f rt) = None"
      "Registry_Register f runtime r =
         (None, r\<lparr>reg_runtimes := reg_runtimes r @ [(f rt, rt)]\<rparr>)"
proof (cases runtime)
  case None
  then show thesis by (intro nil) (simp_all add: Registry_Register_def)
next
  case (Some rt)
  show thesis
  proof (cases "f rt = [] \<or> gm_get (reg_runtimes r) (f rt) \<noteq> None")
    case True
    with Some show thesis
      by (intro refused [OF Some, of "if f rt = [] then RegisterEmptyID
          else AlreadyRegistered (f rt)"]) (auto simp: Registry_Register_def Let_def)
  next
    case False
    with Some show thesis
      by (intro added [OF Some]) (auto simp: Registry_Register_def Let_def gm_put_fresh)
  qed
qed

text \<open>The registry, keyed by the identifiers its runtimes carry, is a write-once store.\<close>

definition registry_put :: "'r Registry \<Rightarrow> string \<Rightarrow> 'r \<Rightarrow> 'r Registry option" where
  "registry_put r k rt = registry_add (\<lambda>_. k) r rt"

interpretation reg: write_once_store Registry_Get registry_put "\<lambda>k. k \<noteq> ''''"
  "\<lambda>r. gm_ok (reg_runtimes r)"
  by unfold_locales
     (auto simp: registry_put_def registry_add_def Registry_Register_def Registry_Get_def Let_def
       split: if_splits)

lemma registry_ok_Register:
  assumes "registry_ok f r"
  shows "registry_ok f (snd (Registry_Register f runtime r))"
  using assms
  by (cases rule: Registry_Register_cases [of runtime f r])
     (auto simp: registry_ok_def map_of_eq_None_iff)

text \<open>Registering keeps the registry keyed by its runtimes' own non-empty identifiers. A
  registration succeeds exactly when the runtime is not nil, has an identifier and the
  identifier is free; then a lookup finds it and every earlier entry is kept. A refused
  registration changes nothing.\<close>
theorem Registry_Register_spec:
  assumes "registry_ok f r" and "Registry_Register f runtime r = (err, r')"
  shows "registry_ok f r' \<and>
    (err = None \<longleftrightarrow> (\<exists>rt. runtime = Some rt \<and> f rt \<noteq> '''' \<and> Registry_Get r (f rt) = None)) \<and>
    (\<forall>rid. Registry_Get r' rid =
       (if err = None \<and> rid = f (the runtime) then runtime else Registry_Get r rid)) \<and>
    Registry_Count r' = Registry_Count r + (if err = None then 1 else 0)"
proof -
  have "registry_ok f r'"
    using registry_ok_Register [OF assms(1), of runtime] assms(2) by simp
  moreover have "(err = None \<longleftrightarrow> (\<exists>rt. runtime = Some rt \<and> f rt \<noteq> '''' \<and> Registry_Get r (f rt) = None)) \<and>
    (\<forall>rid. Registry_Get r' rid =
       (if err = None \<and> rid = f (the runtime) then runtime else Registry_Get r rid)) \<and>
    Registry_Count r' = Registry_Count r + (if err = None then 1 else 0)"
    using assms(2)
    by (cases rule: Registry_Register_cases [of runtime f r])
       (auto simp: Registry_Get_def Registry_Count_def map_add_def split: option.split)
  ultimately show ?thesis by blast
qed

theorem Registry_Register_spec_witness:
  "Registry_Get (snd (Registry_Register id (Some ''gcc'') NewRegistry)) ''gcc'' = Some ''gcc''"
proof -
  have "Registry_Register id (Some ''gcc'') NewRegistry =
      (None, \<lparr>reg_runtimes = [(''gcc'', ''gcc'')]\<rparr>)"
    by (simp add: Registry_Register_def NewRegistry_def Let_def)
  note reg = this
  from Registry_Register_spec [OF registry_ok_new reg]
  have "Registry_Get \<lparr>reg_runtimes = [(''gcc'', ''gcc'')]\<rparr> ''gcc'' = Some ''gcc''"
    by (elim conjE allE [where x = "''gcc''"]) (simp only: simp_thms if_True id_apply option.sel)
  then show ?thesis by (simp only: reg snd_conv)
qed


lemma multi_discover_ok:
  "(\<And>d r. d \<in> set ds \<Longrightarrow> P r \<Longrightarrow> P (snd (d r))) \<Longrightarrow> P r \<Longrightarrow> P (snd (multi_discover ds e r))"
proof (induction ds arbitrary: e r)
  case (Cons d ds)
  obtain e' r' where d: "d r = (e', r')" by (cases "d r")
  have "P r'" using Cons.prems(1) [of d r] Cons.prems(2) d by simp
  then show ?case using Cons.IH [of r'] Cons.prems(1) d by simp
qed simp

text \<open>Discoverers that only register runtimes keep the registry well formed, whatever some of
  them report.\<close>
lemma multiDiscoverer_Discover_ok:
  assumes "\<And>d r. d \<in> set ds \<Longrightarrow> registry_ok f r \<Longrightarrow> registry_ok f (snd (d r))" and "registry_ok f r"
  shows "registry_ok f (snd (multiDiscoverer_Discover ds r))"
  using multi_discover_ok [of ds "registry_ok f"] assms
  by (simp add: multiDiscoverer_Discover_def)

end
