(* ===== verification/ProtoTypes.thy ===== *)
theory ProtoTypes
  imports Prelude
begin

text \<open>
  The protobuf messages about runtimes (internal/gen/buildozer/proto/v1/runtime.pb.go and
  vocabulary.pb.go): enumerations with the constructor names of the generated code and the
  names their String method returns, and messages as records. A pointer field that may be nil
  is an option. An enumeration number the generated code gives no name is not modelled.
\<close>

section \<open>Enumerations\<close>

datatype RuntimePlatform =
  RUNTIME_PLATFORM_UNSPECIFIED | RUNTIME_PLATFORM_NATIVE_LINUX | RUNTIME_PLATFORM_DOCKER_LINUX

datatype RuntimeToolchain =
  RUNTIME_TOOLCHAIN_UNSPECIFIED | RUNTIME_TOOLCHAIN_C | RUNTIME_TOOLCHAIN_CPP
| RUNTIME_TOOLCHAIN_GO | RUNTIME_TOOLCHAIN_RUST

datatype CppLanguage = CPP_LANGUAGE_UNSPECIFIED | CPP_LANGUAGE_C | CPP_LANGUAGE_CPP

datatype CppCompiler = CPP_COMPILER_UNSPECIFIED | CPP_COMPILER_GCC | CPP_COMPILER_CLANG

datatype CpuArchitecture =
  CPU_ARCHITECTURE_UNSPECIFIED | CPU_ARCHITECTURE_X86_64 | CPU_ARCHITECTURE_AARCH64
| CPU_ARCHITECTURE_ARM

datatype CRuntime = C_RUNTIME_UNSPECIFIED | C_RUNTIME_GLIBC | C_RUNTIME_MUSL

datatype CppAbi = CPP_ABI_UNSPECIFIED | CPP_ABI_ITANIUM

datatype CppStdlib = CPP_STDLIB_UNSPECIFIED | CPP_STDLIB_LIBSTDCXX | CPP_STDLIB_LIBCXX

datatype ApiProtocol = API_PROTOCOL_UNSPECIFIED | API_PROTOCOL_GRPC | API_PROTOCOL_REST

text \<open>The String methods: the name tables of the generated code.\<close>

fun RuntimePlatform_name :: "RuntimePlatform \<Rightarrow> string" where
  "RuntimePlatform_name RUNTIME_PLATFORM_UNSPECIFIED = ''RUNTIME_PLATFORM_UNSPECIFIED''"
| "RuntimePlatform_name RUNTIME_PLATFORM_NATIVE_LINUX = ''RUNTIME_PLATFORM_NATIVE_LINUX''"
| "RuntimePlatform_name RUNTIME_PLATFORM_DOCKER_LINUX = ''RUNTIME_PLATFORM_DOCKER_LINUX''"

fun RuntimeToolchain_name :: "RuntimeToolchain \<Rightarrow> string" where
  "RuntimeToolchain_name RUNTIME_TOOLCHAIN_UNSPECIFIED = ''RUNTIME_TOOLCHAIN_UNSPECIFIED''"
| "RuntimeToolchain_name RUNTIME_TOOLCHAIN_C = ''RUNTIME_TOOLCHAIN_C''"
| "RuntimeToolchain_name RUNTIME_TOOLCHAIN_CPP = ''RUNTIME_TOOLCHAIN_CPP''"
| "RuntimeToolchain_name RUNTIME_TOOLCHAIN_GO = ''RUNTIME_TOOLCHAIN_GO''"
| "RuntimeToolchain_name RUNTIME_TOOLCHAIN_RUST = ''RUNTIME_TOOLCHAIN_RUST''"

fun CppLanguage_name :: "CppLanguage \<Rightarrow> string" where
  "CppLanguage_name CPP_LANGUAGE_UNSPECIFIED = ''CPP_LANGUAGE_UNSPECIFIED''"
| "CppLanguage_name CPP_LANGUAGE_C = ''CPP_LANGUAGE_C''"
| "CppLanguage_name CPP_LANGUAGE_CPP = ''CPP_LANGUAGE_CPP''"

fun CppCompiler_name :: "CppCompiler \<Rightarrow> string" where
  "CppCompiler_name CPP_COMPILER_UNSPECIFIED = ''CPP_COMPILER_UNSPECIFIED''"
| "CppCompiler_name CPP_COMPILER_GCC = ''CPP_COMPILER_GCC''"
| "CppCompiler_name CPP_COMPILER_CLANG = ''CPP_COMPILER_CLANG''"

fun CpuArchitecture_name :: "CpuArchitecture \<Rightarrow> string" where
  "CpuArchitecture_name CPU_ARCHITECTURE_UNSPECIFIED = ''CPU_ARCHITECTURE_UNSPECIFIED''"
| "CpuArchitecture_name CPU_ARCHITECTURE_X86_64 = ''CPU_ARCHITECTURE_X86_64''"
| "CpuArchitecture_name CPU_ARCHITECTURE_AARCH64 = ''CPU_ARCHITECTURE_AARCH64''"
| "CpuArchitecture_name CPU_ARCHITECTURE_ARM = ''CPU_ARCHITECTURE_ARM''"

fun CRuntime_name :: "CRuntime \<Rightarrow> string" where
  "CRuntime_name C_RUNTIME_UNSPECIFIED = ''C_RUNTIME_UNSPECIFIED''"
| "CRuntime_name C_RUNTIME_GLIBC = ''C_RUNTIME_GLIBC''"
| "CRuntime_name C_RUNTIME_MUSL = ''C_RUNTIME_MUSL''"

fun CppAbi_name :: "CppAbi \<Rightarrow> string" where
  "CppAbi_name CPP_ABI_UNSPECIFIED = ''CPP_ABI_UNSPECIFIED''"
| "CppAbi_name CPP_ABI_ITANIUM = ''CPP_ABI_ITANIUM''"

fun CppStdlib_name :: "CppStdlib \<Rightarrow> string" where
  "CppStdlib_name CPP_STDLIB_UNSPECIFIED = ''CPP_STDLIB_UNSPECIFIED''"
| "CppStdlib_name CPP_STDLIB_LIBSTDCXX = ''CPP_STDLIB_LIBSTDCXX''"
| "CppStdlib_name CPP_STDLIB_LIBCXX = ''CPP_STDLIB_LIBCXX''"

section \<open>Messages\<close>

record Version =
  ver_major :: "32 word"
  ver_minor :: "32 word option"
  ver_patch :: "32 word option"
  ver_prerelease :: "string option"
  ver_metadata :: "string option"
  ver_codename :: "string option"

record ApiUri =
  uri_host :: string
  uri_port :: "32 word"
  uri_protocol :: ApiProtocol
  uri_subpath :: string

record CppToolchain =
  cpp_language :: CppLanguage
  cpp_compiler :: CppCompiler
  cpp_compiler_version :: "Version option"
  cpp_architecture :: CpuArchitecture
  cpp_c_runtime :: CRuntime
  cpp_c_runtime_version :: "Version option"
  cpp_abi :: CppAbi
  cpp_stdlib :: CppStdlib
  cpp_abi_modifiers :: "string list"

record GoToolchain =
  go_version :: "Version option"
  go_os :: string
  go_arch :: string
  go_cgo_enabled :: bool

record RustToolchain =
  rust_version :: "Version option"
  rust_target_triple :: string
  rust_edition :: string

text \<open>The oneof field of a Runtime; a variant holds a pointer, which may be nil.\<close>

datatype ToolchainSpec =
  NoSpec
| Runtime_Cpp "CppToolchain option"
| Runtime_Go "GoToolchain option"
| Runtime_Rust "RustToolchain option"

text \<open>Of the fields of Runtime, the recipe, the resource limit, the docker image digest and the
  load are left out: the modelled code neither reads nor writes them.\<close>

record Runtime =
  rt_id :: string
  rt_platform :: RuntimePlatform
  rt_toolchain :: RuntimeToolchain
  rt_spec :: ToolchainSpec
  rt_description :: "string option"
  rt_peer_ids :: "string list"

definition GetCpp :: "Runtime \<Rightarrow> CppToolchain option" where
  "GetCpp rt = (case rt_spec rt of Runtime_Cpp c \<Rightarrow> c | _ \<Rightarrow> None)"

definition GetGo :: "Runtime \<Rightarrow> GoToolchain option" where
  "GetGo rt = (case rt_spec rt of Runtime_Go c \<Rightarrow> c | _ \<Rightarrow> None)"

definition GetRust :: "Runtime \<Rightarrow> RustToolchain option" where
  "GetRust rt = (case rt_spec rt of Runtime_Rust c \<Rightarrow> c | _ \<Rightarrow> None)"

text \<open>A query: accepted platforms and toolchains, and for each parameter the accepted values
  (the map's values are pointers to string arrays, and may be nil).\<close>

record RuntimeMatchQuery =
  q_platforms :: "RuntimePlatform list"
  q_toolchains :: "RuntimeToolchain list"
  q_params :: "(string, string list option) gomap"

definition empty_version :: Version where
  "empty_version = \<lparr>ver_major = 0, ver_minor = None, ver_patch = None,
     ver_prerelease = None, ver_metadata = None, ver_codename = None\<rparr>"

end
