(* ===== verification/Peers.thy ===== *)
theory Peers
  imports Interfaces ProtoTypes
begin

text \<open>
  The table of known peers (pkg/peers/manager.go and pkg/peers/types.go). The time is an
  argument of the operations that read the clock; the discovery and offline callbacks are the
  values of \<open>PeerEvent\<close> an operation returns, in the order they are called. The deep copies the
  getters return are the values themselves.
\<close>

record PeerInfo =
  pi_id :: string
  pi_host :: string
  pi_port :: int
  pi_runtimes :: "Runtime list"
  pi_is_alive :: bool
  pi_discovered_at :: int
  pi_last_seen_at :: int
  pi_endpoint :: string
  pi_is_local :: bool

datatype PeerEvent = PeerDiscovered PeerInfo | PeerOffline PeerInfo

record PeerManager =
  pm_peers :: "(string, PeerInfo) gomap"
  pm_local_peer :: "PeerInfo option"
  pm_on_discovered :: bool
  pm_on_offline :: bool

definition NewPeerManager :: PeerManager where
  "NewPeerManager = \<lparr>pm_peers = [], pm_local_peer = None,
     pm_on_discovered = False, pm_on_offline = False\<rparr>"

definition SetLocalPeer :: "int \<Rightarrow> PeerInfo option \<Rightarrow> PeerManager \<Rightarrow> PeerManager" where
  "SetLocalPeer now peer pm =
     pm\<lparr>pm_local_peer := map_option (\<lambda>p. p\<lparr>pi_is_local := True, pi_is_alive := True,
          pi_discovered_at := now, pi_last_seen_at := now\<rparr>) peer\<rparr>"

definition GetLocalPeer :: "PeerManager \<Rightarrow> PeerInfo option" where
  "GetLocalPeer pm = pm_local_peer pm"

definition OnPeerDiscovered :: "bool \<Rightarrow> PeerManager \<Rightarrow> PeerManager" where
  "OnPeerDiscovered fn pm = pm\<lparr>pm_on_discovered := fn\<rparr>"

definition OnPeerOffline :: "bool \<Rightarrow> PeerManager \<Rightarrow> PeerManager" where
  "OnPeerOffline fn pm = pm\<lparr>pm_on_offline := fn\<rparr>"

definition RegisterPeer ::
  "int \<Rightarrow> PeerInfo option \<Rightarrow> PeerManager \<Rightarrow> bool \<times> PeerEvent list \<times> PeerManager" where
  "RegisterPeer now peer pm =
     (case peer of
        None \<Rightarrow> (False, [], pm)
      | Some p \<Rightarrow>
          (case gm_get (pm_peers pm) (pi_id p) of
             Some existing \<Rightarrow>
               (False, [], pm\<lparr>pm_peers := gm_put (pm_peers pm) (pi_id p)
                  (existing\<lparr>pi_host := pi_host p, pi_port := pi_port p, pi_runtimes := pi_runtimes p,
                     pi_is_alive := True, pi_last_seen_at := now, pi_endpoint := pi_endpoint p,
                     pi_is_local := pi_is_local p\<rparr>)\<rparr>)
           | None \<Rightarrow>
               (let p' = p\<lparr>pi_discovered_at := now, pi_last_seen_at := now, pi_is_alive := True\<rparr>
                in (True, if pm_on_discovered pm then [PeerDiscovered p'] else [],
                    pm\<lparr>pm_peers := gm_put (pm_peers pm) (pi_id p) p'\<rparr>))))"

definition GetPeer :: "PeerManager \<Rightarrow> string \<Rightarrow> PeerInfo option" where
  "GetPeer pm pid = gm_get (pm_peers pm) pid"

definition GetAllPeers :: "PeerManager \<Rightarrow> PeerInfo list" where
  "GetAllPeers pm = map snd (pm_peers pm)"

definition GetAllPeersIncludingLocal :: "PeerManager \<Rightarrow> PeerInfo list" where
  "GetAllPeersIncludingLocal pm =
     (case pm_local_peer pm of None \<Rightarrow> [] | Some p \<Rightarrow> [p]) @ map snd (pm_peers pm)"

definition RemovePeer :: "string \<Rightarrow> PeerManager \<Rightarrow> PeerEvent list \<times> PeerManager" where
  "RemovePeer pid pm =
     (case gm_get (pm_peers pm) pid of
        None \<Rightarrow> ([], pm)
      | Some p \<Rightarrow> (if pm_on_offline pm then [PeerOffline p] else [],
                  pm\<lparr>pm_peers := gm_del (pm_peers pm) pid\<rparr>))"

definition MarkPeerOffline :: "string \<Rightarrow> PeerManager \<Rightarrow> PeerEvent list \<times> PeerManager" where
  "MarkPeerOffline pid pm =
     (case gm_get (pm_peers pm) pid of
        None \<Rightarrow> ([], pm)
      | Some p \<Rightarrow>
          (let p' = p\<lparr>pi_is_alive := False\<rparr>
           in (if pm_on_offline pm then [PeerOffline p'] else [],
               pm\<lparr>pm_peers := gm_put (pm_peers pm) pid p'\<rparr>)))"

definition PeerCount :: "PeerManager \<Rightarrow> nat" where
  "PeerCount pm = length (pm_peers pm)"

definition TotalPeerCount :: "PeerManager \<Rightarrow> nat" where
  "TotalPeerCount pm = length (pm_peers pm) + (if pm_local_peer pm \<noteq> None then 1 else 0)"

definition HasPeer :: "PeerManager \<Rightarrow> string \<Rightarrow> bool" where
  "HasPeer pm pid = (gm_get (pm_peers pm) pid \<noteq> None)"

definition ClearPeers :: "PeerManager \<Rightarrow> PeerManager" where
  "ClearPeers pm = pm\<lparr>pm_peers := []\<rparr>"

section \<open>The table as a store\<close>

text \<open>Peers are filed under their own identifier, and were not seen before they were discovered.\<close>

definition peers_ok :: "PeerManager \<Rightarrow> bool" where
  "peers_ok pm = (gm_ok (pm_peers pm) \<and> list_all (\<lambda>(k, p). pi_id p = k) (pm_peers pm))"

definition peer_put :: "PeerManager \<Rightarrow> string \<Rightarrow> PeerInfo \<Rightarrow> PeerManager" where
  "peer_put pm k p = pm\<lparr>pm_peers := gm_put (pm_peers pm) k p\<rparr>"

definition peer_del :: "PeerManager \<Rightarrow> string \<Rightarrow> PeerManager" where
  "peer_del pm k = snd (RemovePeer k pm)"

interpretation peers: keyed_store_del GetPeer peer_put "\<lambda>pm. gm_ok (pm_peers pm)" peer_del
  by unfold_locales
     (auto simp: GetPeer_def peer_put_def peer_del_def RemovePeer_def split: option.split)

lemma peers_ok_get: "peers_ok pm \<Longrightarrow> gm_get (pm_peers pm) k = Some p \<Longrightarrow> pi_id p = k"
  by (auto simp: peers_ok_def list_all_iff dest!: map_of_SomeD)


lemma peers_ok_put: "peers_ok pm \<Longrightarrow> pi_id p = k \<Longrightarrow> peers_ok (pm\<lparr>pm_peers := gm_put (pm_peers pm) k p\<rparr>)"
  by (simp add: peers_ok_def gm_put_list_all)

text \<open>What the manager files for a registration.\<close>

definition registered :: "int \<Rightarrow> PeerInfo \<Rightarrow> PeerInfo option \<Rightarrow> PeerInfo" where
  "registered now p old =
     p\<lparr>pi_discovered_at := (case old of None \<Rightarrow> now | Some o' \<Rightarrow> pi_discovered_at o'),
       pi_last_seen_at := now, pi_is_alive := True\<rparr>"

lemma RegisterPeer_unfold:
  assumes "peers_ok pm"
  shows "RegisterPeer now (Some p) pm =
    (\<not> HasPeer pm (pi_id p),
     if HasPeer pm (pi_id p) \<or> \<not> pm_on_discovered pm then []
     else [PeerDiscovered (registered now p None)],
     peer_put pm (pi_id p) (registered now p (GetPeer pm (pi_id p))))"
proof (cases "gm_get (pm_peers pm) (pi_id p)")
  case None
  then show ?thesis
    by (simp add: RegisterPeer_def HasPeer_def registered_def peer_put_def GetPeer_def Let_def)
next
  case (Some q)
  have "q\<lparr>pi_host := pi_host p, pi_port := pi_port p, pi_runtimes := pi_runtimes p,
      pi_is_alive := True, pi_last_seen_at := now, pi_endpoint := pi_endpoint p,
      pi_is_local := pi_is_local p\<rparr> = registered now p (Some q)"
    using peers_ok_get [OF assms Some] by (cases p; cases q) (simp add: registered_def)
  with Some show ?thesis
    by (simp add: RegisterPeer_def HasPeer_def peer_put_def GetPeer_def)
qed

text \<open>Registering a peer files it under its identifier, alive and seen now; a known peer keeps
  the time it was discovered, a new one is discovered now, counted, and reported once to the
  discovery callback. The other peers and the local one are untouched, and the table stays
  keyed by the peers' identifiers.\<close>
theorem RegisterPeer_spec:
  assumes "peers_ok pm" and "RegisterPeer now (Some p) pm = (isNew, evs, pm')"
  shows "peers_ok pm' \<and> isNew = (\<not> HasPeer pm (pi_id p)) \<and>
    GetPeer pm' (pi_id p) = Some (registered now p (GetPeer pm (pi_id p))) \<and>
    (\<forall>k. k \<noteq> pi_id p \<longrightarrow> GetPeer pm' k = GetPeer pm k) \<and>
    evs = (if isNew \<and> pm_on_discovered pm then [PeerDiscovered (registered now p None)] else []) \<and>
    PeerCount pm' = PeerCount pm + (if isNew then 1 else 0) \<and>
    pm_local_peer pm' = pm_local_peer pm"
proof -
  let ?v = "registered now p (GetPeer pm (pi_id p))"
  have pm': "pm' = peer_put pm (pi_id p) ?v"
    and new: "isNew = (\<not> HasPeer pm (pi_id p))"
    and evs: "evs = (if HasPeer pm (pi_id p) \<or> \<not> pm_on_discovered pm then []
      else [PeerDiscovered (registered now p None)])"
    using assms(2) by (auto simp: RegisterPeer_unfold [OF assms(1)])
  have ok: "gm_ok (pm_peers pm)" using assms(1) by (simp add: peers_ok_def)
  have "peers_ok pm'"
    using peers_ok_put [OF assms(1), of ?v "pi_id p"] by (simp add: pm' peer_put_def registered_def)
  moreover have "PeerCount pm' = PeerCount pm + (if isNew then 1 else 0)"
    by (simp add: pm' new peer_put_def PeerCount_def HasPeer_def gm_length_put)
  ultimately show ?thesis
    using new evs peers.get_put [OF ok] by (auto simp: pm') (simp_all add: peer_put_def)
qed

definition sample_peer :: PeerInfo where
  "sample_peer = \<lparr>pi_id = ''b'', pi_host = ''h'', pi_port = 1, pi_runtimes = [], pi_is_alive = False,
     pi_discovered_at = 0, pi_last_seen_at = 0, pi_endpoint = ''h:1'', pi_is_local = False\<rparr>"

lemma peers_ok_new [simp]: "peers_ok NewPeerManager"
  by (simp add: peers_ok_def NewPeerManager_def)

theorem RegisterPeer_spec_witness:
  "\<exists>pm'. GetPeer pm' ''b'' = Some (registered 7 sample_peer None) \<and>
     RegisterPeer 7 (Some sample_peer) (OnPeerDiscovered True NewPeerManager) =
       (True, [PeerDiscovered (registered 7 sample_peer None)], pm')"
proof -
  let ?pm = "OnPeerDiscovered True NewPeerManager"
  have ok: "peers_ok ?pm" by (simp add: peers_ok_def OnPeerDiscovered_def NewPeerManager_def)
  obtain n evs pm' where r: "RegisterPeer 7 (Some sample_peer) ?pm = (n, evs, pm')"
    by (cases "RegisterPeer 7 (Some sample_peer) ?pm") auto
  from RegisterPeer_spec [OF ok r] r show ?thesis
    by (simp add: HasPeer_def GetPeer_def OnPeerDiscovered_def NewPeerManager_def sample_peer_def)
qed

text \<open>Every operation keeps the table well formed.\<close>

datatype PeerOp =
  OpSetLocal int "PeerInfo option"
| OpRegister int "PeerInfo option"
| OpRemove string
| OpOffline string
| OpClear

fun peer_exec :: "PeerManager \<Rightarrow> PeerOp \<Rightarrow> PeerManager" where
  "peer_exec pm (OpSetLocal now p) = SetLocalPeer now p pm"
| "peer_exec pm (OpRegister now p) = snd (snd (RegisterPeer now p pm))"
| "peer_exec pm (OpRemove k) = snd (RemovePeer k pm)"
| "peer_exec pm (OpOffline k) = snd (MarkPeerOffline k pm)"
| "peer_exec pm OpClear = ClearPeers pm"

lemma peer_exec_ok: "peers_ok pm \<Longrightarrow> peers_ok (peer_exec pm op)"
proof (cases op)
  case (OpRegister now po)
  assume ok: "peers_ok pm"
  show ?thesis
  proof (cases po)
    case None then show ?thesis using ok OpRegister by (simp add: RegisterPeer_def)
  next
    case (Some p)
    then show ?thesis
      using ok OpRegister peers_ok_put [OF ok, of "registered now p (GetPeer pm (pi_id p))" "pi_id p"]
      by (simp add: RegisterPeer_unfold peer_put_def registered_def)
  qed
next
  case (OpOffline k)
  assume ok: "peers_ok pm"
  show ?thesis
  proof (cases "gm_get (pm_peers pm) k")
    case (Some p)
    with peers_ok_get [OF ok Some] peers_ok_put [OF ok, of "p\<lparr>pi_is_alive := False\<rparr>" k] OpOffline
    show ?thesis by (simp add: MarkPeerOffline_def Let_def)
  qed (use ok OpOffline in \<open>simp add: MarkPeerOffline_def\<close>)
qed (auto simp: SetLocalPeer_def RemovePeer_def ClearPeers_def peers_ok_def gm_del_list_all
    split: option.split)

interpretation peer_machine: op_machine "\<lambda>pm. pm = NewPeerManager" peer_exec peers_ok
  by unfold_locales (auto intro: peer_exec_ok)

text \<open>After any sequence of operations on a new peer manager, every peer is filed under its own
  identifier and no identifier twice.\<close>
theorem peer_manager_invariant:
  "peers_ok (foldl peer_exec NewPeerManager ops)"
  using peer_machine.run_inv by blast

end
