(* ===== verification/RuntimeId.thy ===== *)
theory RuntimeId
  imports Interfaces ProtoTypes
begin

text \<open>
  Runtime identifiers (pkg/runtime/proto.go and pkg/runtime/parsers.go): the textual form
  \<open>native_linux-cpp-gcc-10.2.1-glibc-2.31-libstdc++-x86_64\<close>, its generation from a Runtime
  message, its parser, and the round trips between them.
\<close>

section \<open>Platform and toolchain segments\<close>

datatype GoRuntimePlatform = RuntimePlatformNativeLinux | RuntimePlatformDockerLinux

fun RuntimePlatform_String :: "GoRuntimePlatform \<Rightarrow> string" where
  "RuntimePlatform_String RuntimePlatformNativeLinux = ''native_linux''"
| "RuntimePlatform_String RuntimePlatformDockerLinux = ''docker_linux''"

datatype GoRuntimeToolchain = RuntimeToolchainC | RuntimeToolchainCpp

fun RuntimeToolchain_String :: "GoRuntimeToolchain \<Rightarrow> string" where
  "RuntimeToolchain_String RuntimeToolchainC = ''c''"
| "RuntimeToolchain_String RuntimeToolchainCpp = ''cpp''"

datatype id_error =
  EmptyRuntimeID
| TooFewParts string
| UnknownPlatform string
| MissingToolchain string
| UnknownToolchain string
| NoParserRegistered string
| CppTooFewParts nat
| CppBadPartCount nat
| InvalidCompiler string
| InvalidCRuntime string
| InvalidArchitecture string
| InvalidStdlib string
| ParserFailed string id_error

definition ParseRuntimePlatform :: "string \<Rightarrow> id_error + GoRuntimePlatform" where
  "ParseRuntimePlatform s =
     (if s = ''native_linux'' then Ok RuntimePlatformNativeLinux
      else if s = ''docker_linux'' then Ok RuntimePlatformDockerLinux
      else Err (UnknownPlatform s))"

definition ParseRuntimeToolchain :: "string \<Rightarrow> id_error + GoRuntimeToolchain" where
  "ParseRuntimeToolchain s =
     (if s = ''c'' then Ok RuntimeToolchainC
      else if s = ''cpp'' then Ok RuntimeToolchainCpp
      else Err (UnknownToolchain s))"

section \<open>Enumeration names\<close>

definition parseLanguage :: "string \<Rightarrow> CppLanguage" where
  "parseLanguage s = (if s = ''c'' then CPP_LANGUAGE_C
     else if s = ''cpp'' then CPP_LANGUAGE_CPP else CPP_LANGUAGE_UNSPECIFIED)"

definition parseCompiler :: "string \<Rightarrow> CppCompiler" where
  "parseCompiler s = (if s = ''gcc'' then CPP_COMPILER_GCC
     else if s = ''clang'' then CPP_COMPILER_CLANG else CPP_COMPILER_UNSPECIFIED)"

definition parseArchitecture :: "string \<Rightarrow> CpuArchitecture" where
  "parseArchitecture s = (if s = ''x86_64'' then CPU_ARCHITECTURE_X86_64
     else if s = ''aarch64'' then CPU_ARCHITECTURE_AARCH64
     else if s = ''arm'' then CPU_ARCHITECTURE_ARM else CPU_ARCHITECTURE_UNSPECIFIED)"

definition parseCRuntime :: "string \<Rightarrow> CRuntime" where
  "parseCRuntime s = (if s = ''glibc'' then C_RUNTIME_GLIBC
     else if s = ''musl'' then C_RUNTIME_MUSL else C_RUNTIME_UNSPECIFIED)"

definition parseStdlib :: "string \<Rightarrow> CppStdlib" where
  "parseStdlib s = (if s = ''libstdc++'' then CPP_STDLIB_LIBSTDCXX
     else if s = ''libc++'' then CPP_STDLIB_LIBCXX else CPP_STDLIB_UNSPECIFIED)"

fun languageToString :: "CppLanguage \<Rightarrow> string" where
  "languageToString CPP_LANGUAGE_C = ''c''"
| "languageToString CPP_LANGUAGE_CPP = ''cpp''"
| "languageToString _ = ''unknown''"

fun compilerToString :: "CppCompiler \<Rightarrow> string" where
  "compilerToString CPP_COMPILER_GCC = ''gcc''"
| "compilerToString CPP_COMPILER_CLANG = ''clang''"
| "compilerToString _ = ''unknown''"

fun architectureToString :: "CpuArchitecture \<Rightarrow> string" where
  "architectureToString CPU_ARCHITECTURE_X86_64 = ''x86_64''"
| "architectureToString CPU_ARCHITECTURE_AARCH64 = ''aarch64''"
| "architectureToString CPU_ARCHITECTURE_ARM = ''arm''"
| "architectureToString _ = ''unknown''"

fun cRuntimeToString :: "CRuntime \<Rightarrow> string" where
  "cRuntimeToString C_RUNTIME_GLIBC = ''glibc''"
| "cRuntimeToString C_RUNTIME_MUSL = ''musl''"
| "cRuntimeToString _ = ''unknown''"

fun stdlibToString :: "CppStdlib \<Rightarrow> string" where
  "stdlibToString CPP_STDLIB_LIBSTDCXX = ''libstdc++''"
| "stdlibToString CPP_STDLIB_LIBCXX = ''libc++''"
| "stdlibToString _ = ''unknown''"

text \<open>Each printer and reader is an \<open>enum_codec\<close>.\<close>

interpretation lang: enum_codec languageToString parseLanguage CPP_LANGUAGE_UNSPECIFIED
proof (unfold_locales, goal_cases)
  case (1 e) then show ?case by (cases e) (auto simp: parseLanguage_def)
next
  case (2 s) then show ?case by (auto simp: parseLanguage_def split: if_splits)
next
  case (3 e) then show ?case by (cases e) auto
next
  case (4 e) then show ?case by (cases e) auto
qed

interpretation comp: enum_codec compilerToString parseCompiler CPP_COMPILER_UNSPECIFIED
proof (unfold_locales, goal_cases)
  case (1 e) then show ?case by (cases e) (auto simp: parseCompiler_def)
next
  case (2 s) then show ?case by (auto simp: parseCompiler_def split: if_splits)
next
  case (3 e) then show ?case by (cases e) auto
next
  case (4 e) then show ?case by (cases e) auto
qed

interpretation arch: enum_codec architectureToString parseArchitecture CPU_ARCHITECTURE_UNSPECIFIED
proof (unfold_locales, goal_cases)
  case (1 e) then show ?case by (cases e) (auto simp: parseArchitecture_def)
next
  case (2 s) then show ?case by (auto simp: parseArchitecture_def split: if_splits)
next
  case (3 e) then show ?case by (cases e) auto
next
  case (4 e) then show ?case by (cases e) auto
qed

interpretation crt: enum_codec cRuntimeToString parseCRuntime C_RUNTIME_UNSPECIFIED
proof (unfold_locales, goal_cases)
  case (1 e) then show ?case by (cases e) (auto simp: parseCRuntime_def)
next
  case (2 s) then show ?case by (auto simp: parseCRuntime_def split: if_splits)
next
  case (3 e) then show ?case by (cases e) auto
next
  case (4 e) then show ?case by (cases e) auto
qed

interpretation stdlib: enum_codec stdlibToString parseStdlib CPP_STDLIB_UNSPECIFIED
proof (unfold_locales, goal_cases)
  case (1 e) then show ?case by (cases e) (auto simp: parseStdlib_def)
next
  case (2 s) then show ?case by (auto simp: parseStdlib_def split: if_splits)
next
  case (3 e) then show ?case by (cases e) auto
next
  case (4 e) then show ?case by (cases e) auto
qed

section \<open>Versions\<close>

text \<open>The strings of a version: a segment that is not a 32-bit decimal number leaves its field
  at the zero value (Major) or unset (Minor, Patch).\<close>

definition parseVersion :: "string \<Rightarrow> Version" where
  "parseVersion s =
     (if s = '''' \<or> s = ''unknown'' then empty_version
      else let parts = split_on (CHR ''.'') s in
        empty_version
          \<lparr>ver_major := (if 0 < length parts
              then (case parse_uint32 (parts ! 0) of Some n \<Rightarrow> n | None \<Rightarrow> 0) else 0),
           ver_minor := (if 1 < length parts then parse_uint32 (parts ! 1) else None),
           ver_patch := (if 2 < length parts then parse_uint32 (parts ! 2) else None)\<rparr>)"

definition versionToString :: "Version option \<Rightarrow> string" where
  "versionToString v = (case v of None \<Rightarrow> ''0''
    | Some v \<Rightarrow> format_uint32 (ver_major v)
        @ (case ver_minor v of None \<Rightarrow> '''' | Some m \<Rightarrow> ''.'' @ format_uint32 m)
        @ (case ver_patch v of None \<Rightarrow> '''' | Some p \<Rightarrow> ''.'' @ format_uint32 p))"

section \<open>The parser of C and C++ runtimes\<close>

definition CppRuntimeParser_Parse :: "string list \<Rightarrow> id_error + Runtime" where
  "CppRuntimeParser_Parse ps =
     (if length ps < 5 then Err (CppTooFewParts (length ps))
      else let compiler = parseCompiler (ps ! 0) in
      if compiler = CPP_COMPILER_UNSPECIFIED then Err (InvalidCompiler (ps ! 0))
      else let compilerVersion = parseVersion (ps ! 1); cRuntime = parseCRuntime (ps ! 2) in
      if cRuntime = C_RUNTIME_UNSPECIFIED then Err (InvalidCRuntime (ps ! 2))
      else let cRuntimeVersion = parseVersion (ps ! 3);
               build = (\<lambda>lang stdlib arch.
                 \<lparr>rt_id = '''', rt_platform = RUNTIME_PLATFORM_UNSPECIFIED,
                  rt_toolchain = RUNTIME_TOOLCHAIN_C,
                  rt_spec = Runtime_Cpp (Some
                    \<lparr>cpp_language = lang, cpp_compiler = compiler,
                     cpp_compiler_version = Some compilerVersion, cpp_architecture = arch,
                     cpp_c_runtime = cRuntime, cpp_c_runtime_version = Some cRuntimeVersion,
                     cpp_abi = CPP_ABI_UNSPECIFIED, cpp_stdlib = stdlib,
                     cpp_abi_modifiers = []\<rparr>),
                  rt_description = None, rt_peer_ids = []\<rparr>)
      in if length ps = 5 then
           (let arch = parseArchitecture (ps ! 4) in
            if arch = CPU_ARCHITECTURE_UNSPECIFIED then Err (InvalidArchitecture (ps ! 4))
            else Ok (build CPP_LANGUAGE_C CPP_STDLIB_UNSPECIFIED arch))
         else if length ps = 6 then
           (let stdlib = parseStdlib (ps ! 4) in
            if stdlib = CPP_STDLIB_UNSPECIFIED then Err (InvalidStdlib (ps ! 4))
            else let arch = parseArchitecture (ps ! 5) in
            if arch = CPU_ARCHITECTURE_UNSPECIFIED then Err (InvalidArchitecture (ps ! 5))
            else Ok (build CPP_LANGUAGE_CPP stdlib arch))
         else Err (CppBadPartCount (length ps)))"

section \<open>Runtime identifiers\<close>

text \<open>The parsers registered by the package's init function.\<close>

definition runtimeParsers :: "(string, string list \<Rightarrow> id_error + Runtime) gomap" where
  "runtimeParsers =
     [(''native_linux-c'', CppRuntimeParser_Parse),
      (''native_linux-cpp'', CppRuntimeParser_Parse)]"

text \<open>First stage of the parser: the platform, and the index of the toolchain segment.\<close>

definition parse_platform_stage :: "string list \<Rightarrow> id_error + (GoRuntimePlatform \<times> nat)" where
  "parse_platform_stage parts =
     (let single = (case ParseRuntimePlatform (parts ! 0) of
                      Inl e \<Rightarrow> Err e | Inr p \<Rightarrow> Ok (p, 1))
      in if 4 \<le> length parts \<and> (parts ! 0 = ''native'' \<or> parts ! 0 = ''docker'')
         then (case ParseRuntimePlatform (parts ! 0 @ ''_'' @ parts ! 1) of
                 Inr p \<Rightarrow> Ok (p, 2) | Inl _ \<Rightarrow> single)
         else single)"

fun platform_to_proto :: "GoRuntimePlatform \<Rightarrow> RuntimePlatform" where
  "platform_to_proto RuntimePlatformNativeLinux = RUNTIME_PLATFORM_NATIVE_LINUX"
| "platform_to_proto RuntimePlatformDockerLinux = RUNTIME_PLATFORM_DOCKER_LINUX"

definition ParseRuntimeID :: "string \<Rightarrow> id_error + Runtime" where
  "ParseRuntimeID rid =
     (if rid = '''' then Err EmptyRuntimeID
      else let parts = split_on (CHR ''-'') rid in
      if length parts < 4 then Err (TooFewParts rid)
      else case parse_platform_stage parts of
        Inl e \<Rightarrow> Err e
      | Inr (platform, idx) \<Rightarrow>
          if length parts \<le> idx then Err (MissingToolchain rid)
          else (case ParseRuntimeToolchain (parts ! idx) of
            Inl e \<Rightarrow> Err e
          | Inr toolchain \<Rightarrow>
              (let key = RuntimePlatform_String platform @ ''-'' @ RuntimeToolchain_String toolchain
               in case gm_get runtimeParsers key of
                    None \<Rightarrow> Err (NoParserRegistered key)
                  | Some parse \<Rightarrow> (case parse (drop (idx + 1) parts) of
                      Inl e \<Rightarrow> Err (ParserFailed rid e)
                    | Inr rt \<Rightarrow> Ok (rt\<lparr>rt_id := rid, rt_platform := platform_to_proto platform\<rparr>)))))"

definition RuntimeToID :: "Runtime \<Rightarrow> string" where
  "RuntimeToID rt = (case GetCpp rt of None \<Rightarrow> rt_id rt
    | Some cpp \<Rightarrow>
      (let platform = (if rt_platform rt = RUNTIME_PLATFORM_DOCKER_LINUX
                       then ''docker_linux'' else ''native_linux'');
           base = platform @ ''-'' @ languageToString (cpp_language cpp)
             @ ''-'' @ compilerToString (cpp_compiler cpp)
             @ ''-'' @ versionToString (cpp_compiler_version cpp)
             @ ''-'' @ cRuntimeToString (cpp_c_runtime cpp)
             @ ''-'' @ versionToString (cpp_c_runtime_version cpp);
           withStdlib = (if cpp_language cpp = CPP_LANGUAGE_CPP
             then base @ ''-'' @ stdlibToString (cpp_stdlib cpp) else base)
       in withStdlib @ ''-'' @ architectureToString (cpp_architecture cpp)))"

section \<open>Segments of a generated identifier\<close>

text \<open>A toolchain whose identifier can be read back: every enumeration specified, the
  versions present and canonical (a patch only after a minor, no pre-release data), the
  standard library present for C++ only.\<close>

definition version_canonical :: "Version \<Rightarrow> bool" where
  "version_canonical v = ((ver_patch v \<noteq> None \<longrightarrow> ver_minor v \<noteq> None) \<and>
     ver_prerelease v = None \<and> ver_metadata v = None \<and> ver_codename v = None)"

definition version_ok :: "Version option \<Rightarrow> bool" where
  "version_ok vo = (case vo of None \<Rightarrow> False | Some v \<Rightarrow> version_canonical v)"

definition toolchain_complete :: "CppToolchain \<Rightarrow> bool" where
  "toolchain_complete c =
     (cpp_language c \<noteq> CPP_LANGUAGE_UNSPECIFIED \<and> cpp_compiler c \<noteq> CPP_COMPILER_UNSPECIFIED \<and>
      cpp_architecture c \<noteq> CPU_ARCHITECTURE_UNSPECIFIED \<and> cpp_c_runtime c \<noteq> C_RUNTIME_UNSPECIFIED \<and>
      version_ok (cpp_compiler_version c) \<and> version_ok (cpp_c_runtime_version c) \<and>
      (cpp_language c = CPP_LANGUAGE_CPP \<longleftrightarrow> cpp_stdlib c \<noteq> CPP_STDLIB_UNSPECIFIED) \<and>
      cpp_abi c = CPP_ABI_UNSPECIFIED \<and> cpp_abi_modifiers c = [])"

definition toolchain_segments :: "CppToolchain \<Rightarrow> string list" where
  "toolchain_segments c =
     [compilerToString (cpp_compiler c), versionToString (cpp_compiler_version c),
      cRuntimeToString (cpp_c_runtime c), versionToString (cpp_c_runtime_version c)]
     @ (if cpp_language c = CPP_LANGUAGE_CPP then [stdlibToString (cpp_stdlib c)] else [])
     @ [architectureToString (cpp_architecture c)]"

definition platform_segment :: "Runtime \<Rightarrow> string" where
  "platform_segment rt = (if rt_platform rt = RUNTIME_PLATFORM_DOCKER_LINUX
     then ''docker_linux'' else ''native_linux'')"

lemma RuntimeToID_join:
  assumes "GetCpp rt = Some c"
  shows "RuntimeToID rt = join_with ''-''
    (platform_segment rt # languageToString (cpp_language c) # toolchain_segments c)"
  using assms by (simp add: RuntimeToID_def platform_segment_def toolchain_segments_def Let_def)

lemma versionToString_notin [simp]:
  "CHR ''-'' \<notin> set (versionToString v)"
  by (auto simp: versionToString_def is_digit_def split: option.splits)

lemma toolchain_segments_clean: "\<forall>p\<in>set (toolchain_segments c). CHR ''-'' \<notin> set p"
  by (auto simp: toolchain_segments_def comp.clean crt.clean stdlib.clean arch.clean)

lemma split_RuntimeToID:
  assumes "GetCpp rt = Some c"
  shows "split_on (CHR ''-'') (RuntimeToID rt) =
    platform_segment rt # languageToString (cpp_language c) # toolchain_segments c"
  unfolding RuntimeToID_join [OF assms]
  by (rule split_on_join) (auto simp: platform_segment_def lang.clean toolchain_segments_clean)

section \<open>Round trips\<close>

lemma versionToString_starts:
  "\<exists>d r. versionToString (Some v) = d # r \<and> is_digit d"
proof -
  have "format_uint32 (ver_major v) \<noteq> []" "list_all is_digit (format_uint32 (ver_major v))"
    by (simp_all add: format_uint32_digits)
  then show ?thesis
    by (cases "format_uint32 (ver_major v)") (auto simp: versionToString_def)
qed

lemma versionToString_not_keyword [simp]:
  "versionToString (Some v) \<noteq> ''''" "versionToString (Some v) \<noteq> ''unknown''"
  using versionToString_starts [of v] by (auto simp: is_digit_def)

lemma dot_notin_number [simp]: "CHR ''.'' \<notin> set (format_uint32 w)"
  by (rule format_uint32_notin) (simp add: is_digit_def)

lemma split_versionToString:
  assumes "version_canonical v"
  shows "split_on (CHR ''.'') (versionToString (Some v)) =
    format_uint32 (ver_major v)
      # (case ver_minor v of None \<Rightarrow> [] | Some m \<Rightarrow> format_uint32 m
           # (case ver_patch v of None \<Rightarrow> [] | Some p \<Rightarrow> [format_uint32 p]))"
  using assms
  by (auto simp: versionToString_def version_canonical_def strs split: option.splits)

lemma parseVersion_versionToString [simp]:
  assumes "version_canonical v"
  shows "parseVersion (versionToString (Some v)) = v"
  using assms
  by (auto simp: parseVersion_def split_versionToString Let_def empty_version_def
      version_canonical_def split: option.splits)

lemma version_ok_round [simp]:
  "version_ok vo \<Longrightarrow> Some (parseVersion (versionToString vo)) = vo"
  by (auto simp: version_ok_def split: option.splits)

lemma CppRuntimeParser_Parse_segments:
  assumes "toolchain_complete c"
  shows "CppRuntimeParser_Parse (toolchain_segments c) =
    Ok \<lparr>rt_id = '''', rt_platform = RUNTIME_PLATFORM_UNSPECIFIED,
        rt_toolchain = RUNTIME_TOOLCHAIN_C, rt_spec = Runtime_Cpp (Some c),
        rt_description = None, rt_peer_ids = []\<rparr>"
proof (cases "cpp_language c = CPP_LANGUAGE_CPP")
  case True
  with assms show ?thesis
    by (simp add: toolchain_complete_def toolchain_segments_def CppRuntimeParser_Parse_def
        Let_def comp.of_to crt.of_to arch.of_to stdlib.of_to)
next
  case False
  with assms have "cpp_language c = CPP_LANGUAGE_C"
    by (cases "cpp_language c") (auto simp: toolchain_complete_def)
  with assms show ?thesis
    by (simp add: toolchain_complete_def toolchain_segments_def CppRuntimeParser_Parse_def
        Let_def comp.of_to crt.of_to arch.of_to)
qed

lemma toolchain_segments_length:
  "length (toolchain_segments c) = (if cpp_language c = CPP_LANGUAGE_CPP then 6 else 5)"
  by (simp add: toolchain_segments_def)

lemma RuntimeToID_not_empty [simp]: "GetCpp rt = Some c \<Longrightarrow> RuntimeToID rt \<noteq> ''''"
  using split_RuntimeToID [of rt c] by force

lemma platform_stage_segment:
  "4 \<le> length (platform_segment rt # ps) \<Longrightarrow>
   parse_platform_stage (platform_segment rt # ps) =
     Ok (if rt_platform rt = RUNTIME_PLATFORM_DOCKER_LINUX then RuntimePlatformDockerLinux
         else RuntimePlatformNativeLinux, 1)"
  by (simp add: parse_platform_stage_def platform_segment_def ParseRuntimePlatform_def)

lemma ParseRuntimeToolchain_language:
  "l \<noteq> CPP_LANGUAGE_UNSPECIFIED \<Longrightarrow> ParseRuntimeToolchain (languageToString l) =
     Ok (if l = CPP_LANGUAGE_CPP then RuntimeToolchainCpp else RuntimeToolchainC)"
  by (cases l) (simp_all add: ParseRuntimeToolchain_def)

lemma ParseRuntimeID_generated:
  assumes "GetCpp rt = Some c" and "cpp_language c \<noteq> CPP_LANGUAGE_UNSPECIFIED"
  shows "ParseRuntimeID (RuntimeToID rt) =
    (if rt_platform rt = RUNTIME_PLATFORM_DOCKER_LINUX
     then Err (NoParserRegistered (''docker_linux-'' @ languageToString (cpp_language c)))
     else case CppRuntimeParser_Parse (toolchain_segments c) of
       Inl e \<Rightarrow> Err (ParserFailed (RuntimeToID rt) e)
     | Inr r \<Rightarrow> Ok (r\<lparr>rt_id := RuntimeToID rt, rt_platform := RUNTIME_PLATFORM_NATIVE_LINUX\<rparr>))"
  using assms
  by (cases "cpp_language c")
     (simp_all add: ParseRuntimeID_def split_RuntimeToID platform_stage_segment
        toolchain_segments_length ParseRuntimeToolchain_def runtimeParsers_def Let_def
        split: sum.splits)

text \<open>C1. The identifier of a native C or C++ runtime with a complete toolchain parses back to
  that toolchain: ParseRuntimeID inverts RuntimeToID on native runtimes.\<close>
theorem ParseRuntimeID_RuntimeToID:
  assumes "GetCpp rt = Some c" and "toolchain_complete c"
    and "rt_platform rt \<noteq> RUNTIME_PLATFORM_DOCKER_LINUX"
  shows "ParseRuntimeID (RuntimeToID rt) =
    Ok \<lparr>rt_id = RuntimeToID rt, rt_platform = RUNTIME_PLATFORM_NATIVE_LINUX,
        rt_toolchain = RUNTIME_TOOLCHAIN_C, rt_spec = Runtime_Cpp (Some c),
        rt_description = None, rt_peer_ids = []\<rparr>"
  using assms ParseRuntimeID_generated [of rt c]
  by (simp add: CppRuntimeParser_Parse_segments toolchain_complete_def)

definition gcc_10_x86_64 :: CppToolchain where
  "gcc_10_x86_64 = \<lparr>cpp_language = CPP_LANGUAGE_CPP, cpp_compiler = CPP_COMPILER_GCC,
     cpp_compiler_version = Some (empty_version\<lparr>ver_major := 10, ver_minor := Some 2, ver_patch := Some 1\<rparr>),
     cpp_architecture = CPU_ARCHITECTURE_X86_64, cpp_c_runtime = C_RUNTIME_GLIBC,
     cpp_c_runtime_version = Some (empty_version\<lparr>ver_major := 2, ver_minor := Some 31\<rparr>),
     cpp_abi = CPP_ABI_UNSPECIFIED, cpp_stdlib = CPP_STDLIB_LIBSTDCXX, cpp_abi_modifiers = []\<rparr>"

definition native_gcc_10 :: Runtime where
  "native_gcc_10 = \<lparr>rt_id = '''', rt_platform = RUNTIME_PLATFORM_NATIVE_LINUX,
     rt_toolchain = RUNTIME_TOOLCHAIN_CPP, rt_spec = Runtime_Cpp (Some gcc_10_x86_64),
     rt_description = None, rt_peer_ids = []\<rparr>"

lemma gcc_10_complete [simp]: "toolchain_complete gcc_10_x86_64"
  by (simp add: gcc_10_x86_64_def toolchain_complete_def version_ok_def version_canonical_def
      empty_version_def)

lemma GetCpp_native_gcc_10 [simp]: "GetCpp native_gcc_10 = Some gcc_10_x86_64"
  by (simp add: native_gcc_10_def GetCpp_def)

lemma RuntimeToID_native_gcc_10:
  "RuntimeToID native_gcc_10 = ''native_linux-cpp-gcc-10.2.1-glibc-2.31-libstdc++-x86_64''"
  by (simp add: native_gcc_10_def RuntimeToID_def GetCpp_def gcc_10_x86_64_def versionToString_def
      empty_version_def format_uint32_def format_nat.simps digit_char_simps)

theorem ParseRuntimeID_RuntimeToID_witness:
  "\<exists>r. ParseRuntimeID (RuntimeToID native_gcc_10) = Ok r \<and> rt_spec r = rt_spec native_gcc_10 \<and>
     rt_id r = ''native_linux-cpp-gcc-10.2.1-glibc-2.31-libstdc++-x86_64''"
proof -
  have "rt_platform native_gcc_10 \<noteq> RUNTIME_PLATFORM_DOCKER_LINUX"
    by (simp add: native_gcc_10_def)
  from ParseRuntimeID_RuntimeToID [OF GetCpp_native_gcc_10 gcc_10_complete this]
  show ?thesis by (simp add: RuntimeToID_native_gcc_10) (simp add: native_gcc_10_def)
qed

text \<open>The identifier RuntimeToID gives a docker runtime is never accepted: no parser is
  registered for docker platforms, so ParseRuntimeID is not its inverse there.\<close>
theorem ParseRuntimeID_docker_rejected:
  assumes "GetCpp rt = Some c" and "cpp_language c \<noteq> CPP_LANGUAGE_UNSPECIFIED"
    and "rt_platform rt = RUNTIME_PLATFORM_DOCKER_LINUX"
  shows "ParseRuntimeID (RuntimeToID rt) =
    Err (NoParserRegistered (''docker_linux-'' @ languageToString (cpp_language c)))"
  using assms ParseRuntimeID_generated [of rt c] by simp

theorem ParseRuntimeID_docker_rejected_witness:
  "ParseRuntimeID (RuntimeToID (native_gcc_10\<lparr>rt_platform := RUNTIME_PLATFORM_DOCKER_LINUX\<rparr>)) =
     Err (NoParserRegistered ''docker_linux-cpp'')"
  by (subst ParseRuntimeID_docker_rejected [of _ gcc_10_x86_64])
     (simp_all add: native_gcc_10_def GetCpp_def gcc_10_x86_64_def)

text \<open>Two native runtimes with complete toolchains have the same identifier only when
  their toolchains are equal.\<close>
theorem RuntimeToID_identifies_toolchain:
  assumes "GetCpp r1 = Some c1" "toolchain_complete c1"
    and "GetCpp r2 = Some c2" "toolchain_complete c2"
    and "rt_platform r1 \<noteq> RUNTIME_PLATFORM_DOCKER_LINUX"
    and "rt_platform r2 \<noteq> RUNTIME_PLATFORM_DOCKER_LINUX"
    and "RuntimeToID r1 = RuntimeToID r2"
  shows "c1 = c2"
proof -
  have "CppRuntimeParser_Parse (toolchain_segments c1) = CppRuntimeParser_Parse (toolchain_segments c2)"
    using split_RuntimeToID [OF assms(1)] split_RuntimeToID [OF assms(3)] assms(7) by simp
  with assms(2,4) show ?thesis
    by (simp add: CppRuntimeParser_Parse_segments)
qed

theorem RuntimeToID_identifies_toolchain_witness:
  "\<exists>r. r \<noteq> native_gcc_10 \<and> RuntimeToID r = RuntimeToID native_gcc_10 \<and>
     gcc_10_x86_64 = the (GetCpp r)"
proof (intro exI conjI)
  let ?r = "native_gcc_10\<lparr>rt_id := ''x''\<rparr>"
  show "?r \<noteq> native_gcc_10" by (simp add: native_gcc_10_def)
  show eq: "RuntimeToID ?r = RuntimeToID native_gcc_10"
    by (simp add: RuntimeToID_def GetCpp_def native_gcc_10_def)
  have cpp: "GetCpp ?r = Some gcc_10_x86_64" by (simp add: GetCpp_def native_gcc_10_def)
  have plat: "rt_platform ?r \<noteq> RUNTIME_PLATFORM_DOCKER_LINUX"
    "rt_platform native_gcc_10 \<noteq> RUNTIME_PLATFORM_DOCKER_LINUX"
    by (simp_all add: native_gcc_10_def)
  have "gcc_10_x86_64 = gcc_10_x86_64"
    by (rule RuntimeToID_identifies_toolchain [OF GetCpp_native_gcc_10 gcc_10_complete cpp
          gcc_10_complete plat(2) plat(1) eq [symmetric]])
  then show "gcc_10_x86_64 = the (GetCpp ?r)" by (simp add: cpp)
qed

section \<open>What an accepted identifier means\<close>

lemma CppRuntimeParser_Parse_sound:
  assumes "CppRuntimeParser_Parse ps = Ok r"
  shows "\<exists>c. r = \<lparr>rt_id = '''', rt_platform = RUNTIME_PLATFORM_UNSPECIFIED,
      rt_toolchain = RUNTIME_TOOLCHAIN_C, rt_spec = Runtime_Cpp (Some c),
      rt_description = None, rt_peer_ids = []\<rparr> \<and>
    cpp_compiler c \<noteq> CPP_COMPILER_UNSPECIFIED \<and> cpp_c_runtime c \<noteq> C_RUNTIME_UNSPECIFIED \<and>
    cpp_architecture c \<noteq> CPU_ARCHITECTURE_UNSPECIFIED \<and>
    (cpp_language c, cpp_stdlib c \<noteq> CPP_STDLIB_UNSPECIFIED) =
      (if length ps = 5 then (CPP_LANGUAGE_C, False) else (CPP_LANGUAGE_CPP, True)) \<and>
    length ps \<in> {5, 6}"
  using assms by (auto simp: CppRuntimeParser_Parse_def Let_def split: if_splits)

lemma runtimeParsers_range:
  "gm_get runtimeParsers k = Some f \<Longrightarrow>
     f = CppRuntimeParser_Parse \<and> (k = ''native_linux-c'' \<or> k = ''native_linux-cpp'')"
  by (auto simp: runtimeParsers_def split: if_splits)

lemma ParseRuntimeID_Ok:
  assumes "ParseRuntimeID rid = Ok r"
  obtains idx r' where "parse_platform_stage (split_on (CHR ''-'') rid) =
      Ok (RuntimePlatformNativeLinux, idx)"
    "CppRuntimeParser_Parse (drop (idx + 1) (split_on (CHR ''-'') rid)) = Ok r'"
    "r = r'\<lparr>rt_id := rid, rt_platform := RUNTIME_PLATFORM_NATIVE_LINUX\<rparr>"
    "split_on (CHR ''-'') rid ! idx \<in> {''c'', ''cpp''}"
proof -
  let ?ps = "split_on (CHR ''-'') rid"
  from assms obtain p idx t f r' where *:
    "parse_platform_stage ?ps = Ok (p, idx)" "ParseRuntimeToolchain (?ps ! idx) = Ok t"
    "gm_get runtimeParsers (RuntimePlatform_String p @ ''-'' @ RuntimeToolchain_String t) = Some f"
    "f (drop (idx + 1) ?ps) = Ok r'"
    "r = r'\<lparr>rt_id := rid, rt_platform := platform_to_proto p\<rparr>"
    by (auto simp: ParseRuntimeID_def Let_def split: if_splits sum.splits option.splits prod.splits)
  from runtimeParsers_range [OF *(3)] have "f = CppRuntimeParser_Parse" "p = RuntimePlatformNativeLinux"
    by (cases p; cases t; auto)+
  with * that show thesis
    by (auto simp: ParseRuntimeToolchain_def split: if_splits)
qed

text \<open>A runtime ParseRuntimeID accepts carries the identifier it was parsed from, is a native
  Linux runtime of the C toolchain with a specified compiler, C runtime and architecture, and
  its language is C++ exactly when a standard library is given: the toolchain segment of the
  identifier (c or cpp) decides neither.\<close>
theorem ParseRuntimeID_sound:
  assumes "ParseRuntimeID rid = Ok r"
  shows "rt_id r = rid \<and> rt_platform r = RUNTIME_PLATFORM_NATIVE_LINUX \<and>
    rt_toolchain r = RUNTIME_TOOLCHAIN_C \<and>
    (\<exists>c. GetCpp r = Some c \<and> cpp_compiler c \<noteq> CPP_COMPILER_UNSPECIFIED \<and>
       cpp_c_runtime c \<noteq> C_RUNTIME_UNSPECIFIED \<and>
       cpp_architecture c \<noteq> CPU_ARCHITECTURE_UNSPECIFIED \<and>
       cpp_language c = (if cpp_stdlib c = CPP_STDLIB_UNSPECIFIED
                         then CPP_LANGUAGE_C else CPP_LANGUAGE_CPP))"
proof -
  from ParseRuntimeID_Ok [OF assms] obtain idx r' where
    "CppRuntimeParser_Parse (drop (idx + 1) (split_on (CHR ''-'') rid)) = Ok r'"
    "r = r'\<lparr>rt_id := rid, rt_platform := RUNTIME_PLATFORM_NATIVE_LINUX\<rparr>" by metis
  with CppRuntimeParser_Parse_sound show ?thesis
    by (fastforce simp: GetCpp_def split: if_splits)
qed

theorem ParseRuntimeID_sound_witness:
  "\<exists>r. ParseRuntimeID ''native_linux-cpp-gcc-10-glibc-2-arm'' = Ok r \<and>
     rt_toolchain r = RUNTIME_TOOLCHAIN_C \<and> rt_platform r = RUNTIME_PLATFORM_NATIVE_LINUX"
proof -
  obtain r where r: "ParseRuntimeID ''native_linux-cpp-gcc-10-glibc-2-arm'' = Ok r"
    by (simp add: ParseRuntimeID_def parse_platform_stage_def ParseRuntimePlatform_def
        ParseRuntimeToolchain_def runtimeParsers_def CppRuntimeParser_Parse_def parseCompiler_def
        parseCRuntime_def parseArchitecture_def Let_def)
  from ParseRuntimeID_sound [OF r] r show ?thesis by blast
qed

end
