(* ===== verification/JobTypes.thy ===== *)
theory JobTypes
  imports ProtoTypes
begin

text \<open>
  The protobuf messages about jobs (internal/gen/buildozer/proto/v1/job.pb.go and
  job_data.pb.go), as records and datatypes. Timestamps are the milliseconds of TimeStamp; a
  pointer or a slice of pointers that may hold nil is an option or a list of options. The bytes of
  a file are an option, because the code tells a nil slice from an empty one.
\<close>

datatype TimeUnit =
  TIME_UNIT_UNSPECIFIED | TIME_UNIT_MILLISECOND | TIME_UNIT_SECOND | TIME_UNIT_MINUTE
| TIME_UNIT_HOUR | TIME_UNIT_DAY

datatype HashAlgorithm =
  HASH_ALGORITHM_UNSPECIFIED | HASH_ALGORITHM_SHA256 | HASH_ALGORITHM_SHA512
| HASH_ALGORITHM_BLAKE3

type_synonym byte = "8 word"

record TimeDuration =
  dur_count :: int
  dur_unit :: TimeUnit

record Hash =
  hash_algorithm :: HashAlgorithm
  hash_value :: string

datatype JobData_DataType =
  DATA_TYPE_UNSPECIFIED | DATA_TYPE_FILE | DATA_TYPE_DIRECTORY | DATA_TYPE_STREAM_CHUNK
| DATA_TYPE_REFERENCE

record FileJobData =
  fjd_path :: string
  fjd_mode :: "32 word"
  fjd_content :: "byte list option"
  fjd_content_hash :: "Hash option"
  fjd_is_symlink :: bool
  fjd_symlink_target :: string

record DirectoryJobData =
  djd_path :: string
  djd_file_hashes :: "(string, Hash) gomap"

record StreamChunk =
  sc_stream_id :: string
  sc_chunk_number :: "32 word"
  sc_total_chunks :: "32 word"
  sc_data :: "byte list"
  sc_is_final :: bool

record JobDataReference =
  ref_id :: string
  ref_type :: JobData_DataType
  ref_hash :: "Hash option"
  ref_peer_id :: "string option"

datatype JobDataPayload =
  NoData
| JobData_File "FileJobData option"
| JobData_Directory "DirectoryJobData option"
| JobData_StreamChunk "StreamChunk option"
| JobData_Reference "JobDataReference option"

text \<open>The size, the producing and consuming runtimes and the retention policy of a JobData are left
  out: the modelled code does not read them.\<close>

record JobData =
  jd_id :: string
  jd_type :: JobData_DataType
  jd_data :: JobDataPayload
  jd_created_at :: "int option"

record CppCompileJob =
  cc_source_files :: "string list"
  cc_compiler_args :: "string list"
  cc_include_dirs :: "string list"
  cc_defines :: "string list"
  cc_output_file :: string

record CppLinkJob =
  cl_object_files :: "string list"
  cl_libraries :: "string list"
  cl_library_files :: "string list"
  cl_library_dirs :: "string list"
  cl_linker_args :: "string list"
  cl_output_file :: string
  cl_is_shared_library :: bool

record CppArchiveJob =
  ca_input_files :: "string list"
  ca_ar_flags :: "string list"
  ca_output_file :: string

datatype RuntimeRequirement =
  NoRequirement
| Job_Runtime "Runtime option"
| Job_RuntimeMatchQuery "RuntimeMatchQuery option"

datatype JobSpec =
  NoJobSpec
| Job_CppCompile "CppCompileJob option"
| Job_CppLink "CppLinkJob option"
| Job_CppArchive "CppArchiveJob option"

record Job =
  job_id :: string
  job_requirement :: RuntimeRequirement
  job_input_data_ids :: "string list"
  job_spec :: JobSpec
  job_content_hash :: "Hash option"
  job_source_client_id :: string
  job_submitted_at :: "int option"
  job_timeout :: "TimeDuration option"
  job_dependency_ids :: "string list"
  job_inputs :: "JobData option list"
  job_outputs :: "JobData option list"
  job_cwd :: string

definition GetRuntime :: "Job \<Rightarrow> Runtime option" where
  "GetRuntime j = (case job_requirement j of Job_Runtime r \<Rightarrow> r | _ \<Rightarrow> None)"

definition GetRuntimeMatchQuery :: "Job \<Rightarrow> RuntimeMatchQuery option" where
  "GetRuntimeMatchQuery j = (case job_requirement j of Job_RuntimeMatchQuery q \<Rightarrow> q | _ \<Rightarrow> None)"

datatype JobStatus =
  JOB_STATUS_UNSPECIFIED | JOB_STATUS_RECEIVED | JOB_STATUS_READY | JOB_STATUS_SCHEDULED
| JOB_STATUS_INPUT_TRANSFER | JOB_STATUS_RUNNING | JOB_STATUS_COMPLETED
| JOB_STATUS_OUTPUT_TRANSFER | JOB_STATUS_FAILED | JOB_STATUS_CANCELLED | JOB_STATUS_QUEUED

datatype ResultStatus =
  RESULT_UNSPECIFIED | RESULT_COMPLETED | RESULT_FAILED | RESULT_CANCELLED

record JobResult =
  jr_job_id :: string
  jr_status :: ResultStatus
  jr_output_data_ids :: "string list"
  jr_log_output :: string
  jr_error_message :: string
  jr_executing_peer_id :: string
  jr_started_at :: "int option"
  jr_completed_at :: "int option"
  jr_runtime_used :: "Runtime option"
  jr_exit_code :: "32 word"
  jr_outputs :: "JobData option list"

record JobProgress =
  jp_job_id :: string
  jp_status :: JobStatus
  jp_percent :: "32 word option"
  jp_updated_at :: "int option"
  jp_executing_peer_id :: string
  jp_log_output :: string
  jp_result :: "JobResult option"

text \<open>What a runtime is asked to execute and what it returns (pkg/runtime/types.go).\<close>

record ExecutionResult =
  er_exit_code :: int
  er_stdout :: "byte list"
  er_stderr :: "byte list"
  er_output :: "JobData option list"
  er_work_dir :: string
  er_execution_id :: string

end
