(* ===== verification/NativeRuntime.thy ===== *)
theory NativeRuntime
  imports RuntimeId JobTypes
begin

text \<open>
  The native C and C++ runtime (pkg/runtimes/cpp/native/types.go, cpp_runtime.go and
  executor.go): the toolchain it is built from, its identifier, its protobuf form, the query
  matcher, and the command lines it runs for a job. The compiler and archiver processes, the
  creation of directories and the conversion of output files to JobData are the operating
  system's and the stager's: they are arguments.
\<close>

section \<open>Toolchains\<close>

datatype Language = LanguageUnspecified | LanguageC | LanguageCpp
datatype Compiler = CompilerUnspecified | CompilerGCC | CompilerClang
datatype Architecture =
  ArchitectureUnspecified | ArchitectureX86_64 | ArchitectureAArch64 | ArchitectureARM
datatype NativeCRuntime = CRuntimeUnspecified | CRuntimeGlibc | CRuntimeMusl
datatype NativeCppStdlib = CppStdlibUnspecified | CppStdlibLibstdcxx | CppStdlibLibcxx
datatype NativeCppAbi = CppAbiUnspecified | CppAbiItanium

fun Compiler_String :: "Compiler \<Rightarrow> string" where
  "Compiler_String CompilerUnspecified = ''unspecified''"
| "Compiler_String CompilerGCC = ''gcc''"
| "Compiler_String CompilerClang = ''clang''"

fun Architecture_String :: "Architecture \<Rightarrow> string" where
  "Architecture_String ArchitectureUnspecified = ''unspecified''"
| "Architecture_String ArchitectureX86_64 = ''x86_64''"
| "Architecture_String ArchitectureAArch64 = ''aarch64''"
| "Architecture_String ArchitectureARM = ''arm''"

fun CRuntime_String :: "NativeCRuntime \<Rightarrow> string" where
  "CRuntime_String CRuntimeUnspecified = ''unspecified''"
| "CRuntime_String CRuntimeGlibc = ''glibc''"
| "CRuntime_String CRuntimeMusl = ''musl''"

fun CppStdlib_String :: "NativeCppStdlib \<Rightarrow> string" where
  "CppStdlib_String CppStdlibUnspecified = ''unspecified''"
| "CppStdlib_String CppStdlibLibstdcxx = ''libstdc++''"
| "CppStdlib_String CppStdlibLibcxx = ''libc++''"

fun CppAbi_String :: "NativeCppAbi \<Rightarrow> string" where
  "CppAbi_String CppAbiUnspecified = ''unspecified''"
| "CppAbi_String CppAbiItanium = ''itanium''"

record Toolchain =
  tc_language :: Language
  tc_compiler :: Compiler
  tc_compiler_path :: string
  tc_archiver_path :: string
  tc_compiler_version :: string
  tc_architecture :: Architecture
  tc_c_runtime :: NativeCRuntime
  tc_c_runtime_version :: string
  tc_cpp_abi :: NativeCppAbi
  tc_cpp_stdlib :: NativeCppStdlib
  tc_abi_modifiers :: "string list"

section \<open>Identifier\<close>

definition NativeRuntimeID :: "Toolchain \<Rightarrow> string" where
  "NativeRuntimeID t =
     (let languageName = (if tc_language t = LanguageCpp then ''cpp'' else ''c'');
          compilerName = (case tc_compiler t of CompilerGCC \<Rightarrow> ''gcc'' | CompilerClang \<Rightarrow> ''clang''
            | _ \<Rightarrow> ''unknown'');
          cruntimeName = (case tc_c_runtime t of CRuntimeGlibc \<Rightarrow> ''glibc'' | CRuntimeMusl \<Rightarrow> ''musl''
            | _ \<Rightarrow> ''unknown'');
          base = ''native_linux'' @ ''-'' @ languageName @ ''-'' @ compilerName
            @ ''-'' @ tc_compiler_version t @ ''-'' @ cruntimeName @ ''-'' @ tc_c_runtime_version t;
          stdlibName = (case tc_cpp_stdlib t of CppStdlibLibstdcxx \<Rightarrow> ''libstdc++''
            | CppStdlibLibcxx \<Rightarrow> ''libc++'' | _ \<Rightarrow> ''unknown'');
          withStdlib = (if tc_language t = LanguageCpp then base @ ''-'' @ stdlibName else base)
      in withStdlib @ ''-'' @ Architecture_String (tc_architecture t))"

section \<open>Versions\<close>

text \<open>\<open>strings.FieldsFunc\<close>: the maximal non-empty runs of characters that are no separators.\<close>

function fields_func :: "(char \<Rightarrow> bool) \<Rightarrow> string \<Rightarrow> string list" where
  "fields_func sep [] = []"
| "fields_func sep (c # cs) =
     (if sep c then fields_func sep cs
      else (c # takeWhile (\<lambda>x. \<not> sep x) cs) # fields_func sep (dropWhile (\<lambda>x. \<not> sep x) cs))"
  by pat_completeness auto
termination
  by (relation "measure (\<lambda>(sep, s). length s)") (auto simp: le_imp_less_Suc length_dropWhile_le)

definition isNumeric :: "string \<Rightarrow> bool" where
  "isNumeric s = (s \<noteq> [] \<and> list_all is_digit s)"

definition NativeParseVersionString :: "string \<Rightarrow> Version" where
  "NativeParseVersionString s =
     (if s = '''' \<or> s = ''unknown'' then empty_version
      else let parts = fields_func (\<lambda>c. c = CHR ''.'' \<or> c = CHR ''-'') s;
               v0 = empty_version;
               v1 = (if 0 < length parts
                     then (case parse_uint32 (parts ! 0) of Some n \<Rightarrow> v0\<lparr>ver_major := n\<rparr> | None \<Rightarrow> v0)
                     else v0);
               v2 = (if 1 < length parts
                     then (if isNumeric (parts ! 1)
                           then (case parse_uint32 (parts ! 1) of
                                   Some m \<Rightarrow> v1\<lparr>ver_minor := Some m\<rparr> | None \<Rightarrow> v1)
                           else v1\<lparr>ver_prerelease := Some (parts ! 1)\<rparr>)
                     else v1)
           in if 2 < length parts
              then (if isNumeric (parts ! 2)
                    then (case parse_uint32 (parts ! 2) of
                            Some p \<Rightarrow> v2\<lparr>ver_patch := Some p\<rparr> | None \<Rightarrow> v2)
                    else if parts ! 2 \<noteq> '''' then v2\<lparr>ver_prerelease := Some (parts ! 2)\<rparr> else v2)
              else v2)"

section \<open>Protobuf form\<close>

definition ProtoLanguage :: "Toolchain \<Rightarrow> CppLanguage" where
  "ProtoLanguage t = (case tc_language t of LanguageC \<Rightarrow> CPP_LANGUAGE_C
     | LanguageCpp \<Rightarrow> CPP_LANGUAGE_CPP | _ \<Rightarrow> CPP_LANGUAGE_UNSPECIFIED)"

definition ProtoCompiler :: "Toolchain \<Rightarrow> CppCompiler" where
  "ProtoCompiler t = (case tc_compiler t of CompilerGCC \<Rightarrow> CPP_COMPILER_GCC
     | CompilerClang \<Rightarrow> CPP_COMPILER_CLANG | _ \<Rightarrow> CPP_COMPILER_UNSPECIFIED)"

definition ProtoArchitecture :: "Toolchain \<Rightarrow> CpuArchitecture" where
  "ProtoArchitecture t = (case tc_architecture t of ArchitectureX86_64 \<Rightarrow> CPU_ARCHITECTURE_X86_64
     | ArchitectureAArch64 \<Rightarrow> CPU_ARCHITECTURE_AARCH64 | ArchitectureARM \<Rightarrow> CPU_ARCHITECTURE_ARM
     | _ \<Rightarrow> CPU_ARCHITECTURE_UNSPECIFIED)"

definition ProtoCRuntime :: "Toolchain \<Rightarrow> CRuntime" where
  "ProtoCRuntime t = (case tc_c_runtime t of CRuntimeGlibc \<Rightarrow> C_RUNTIME_GLIBC
     | CRuntimeMusl \<Rightarrow> C_RUNTIME_MUSL | _ \<Rightarrow> C_RUNTIME_UNSPECIFIED)"

definition ProtoCppStdlib :: "Toolchain \<Rightarrow> CppStdlib" where
  "ProtoCppStdlib t = (case tc_cpp_stdlib t of CppStdlibLibstdcxx \<Rightarrow> CPP_STDLIB_LIBSTDCXX
     | CppStdlibLibcxx \<Rightarrow> CPP_STDLIB_LIBCXX | _ \<Rightarrow> CPP_STDLIB_UNSPECIFIED)"

definition ProtoCppAbi :: "Toolchain \<Rightarrow> CppAbi" where
  "ProtoCppAbi t = (case tc_cpp_abi t of CppAbiItanium \<Rightarrow> CPP_ABI_ITANIUM
     | _ \<Rightarrow> CPP_ABI_UNSPECIFIED)"

definition ProtoCppToolchain :: "Toolchain \<Rightarrow> RuntimeToolchain" where
  "ProtoCppToolchain t = (case tc_language t of LanguageC \<Rightarrow> RUNTIME_TOOLCHAIN_C
     | LanguageCpp \<Rightarrow> RUNTIME_TOOLCHAIN_CPP | _ \<Rightarrow> RUNTIME_TOOLCHAIN_UNSPECIFIED)"

definition NativeProto :: "Toolchain \<Rightarrow> Runtime" where
  "NativeProto t =
     \<lparr>rt_id = NativeRuntimeID t, rt_platform = RUNTIME_PLATFORM_NATIVE_LINUX,
      rt_toolchain = ProtoCppToolchain t,
      rt_spec = Runtime_Cpp (Some
        \<lparr>cpp_language = ProtoLanguage t, cpp_compiler = ProtoCompiler t,
         cpp_compiler_version = Some (NativeParseVersionString (tc_compiler_version t)),
         cpp_architecture = ProtoArchitecture t, cpp_c_runtime = ProtoCRuntime t,
         cpp_c_runtime_version = Some (NativeParseVersionString (tc_c_runtime_version t)),
         cpp_abi = ProtoCppAbi t, cpp_stdlib = ProtoCppStdlib t,
         cpp_abi_modifiers = tc_abi_modifiers t\<rparr>),
      rt_description = None, rt_peer_ids = []\<rparr>"

section \<open>Matching a query\<close>

datatype native_error =
  QueryNil
| UnknownParameter string
| InputNotReference nat
| RequestNil | FullJobNil | CompileJobNil | LinkJobNil | ArchiveJobNil | UnsupportedJobType
| NoSourceFiles | NoObjectFiles | NoInputFiles | NoOutputFile
| OutputDirFailed | CommandFailed | OutputDataFailed

text \<open>Each matchX method accepts an empty list of values, the protobuf name or the plain name.\<close>

definition accepts :: "string list \<Rightarrow> string \<Rightarrow> string \<Rightarrow> bool" where
  "accepts values protoName name = (length values = 0 \<or> protoName \<in> set values \<or> name \<in> set values)"

definition matchesRuntimeParameter ::
  "(Version \<Rightarrow> string) \<Rightarrow> Toolchain \<Rightarrow> string \<Rightarrow> string list \<Rightarrow> native_error + bool" where
  "matchesRuntimeParameter vstr t key values =
     (if key = ''compiler'' then
        Ok (accepts values (CppCompiler_name (ProtoCompiler t)) (Compiler_String (tc_compiler t)))
      else if key = ''compiler_version'' then
        Ok (accepts values (vstr (NativeParseVersionString (tc_compiler_version t))) (tc_compiler_version t))
      else if key = ''cruntime'' \<or> key = ''c_runtime'' then
        Ok (accepts values (CRuntime_name (ProtoCRuntime t)) (CRuntime_String (tc_c_runtime t)))
      else if key = ''cruntime_version'' \<or> key = ''c_runtime_version'' then
        Ok (accepts values (vstr (NativeParseVersionString (tc_c_runtime_version t))) (tc_c_runtime_version t))
      else if key = ''cpp_stdlib'' then
        Ok (accepts values (CppStdlib_name (ProtoCppStdlib t)) (CppStdlib_String (tc_cpp_stdlib t)))
      else if key = ''cpp_abi'' then
        Ok (accepts values (CppAbi_name (ProtoCppAbi t)) (CppAbi_String (tc_cpp_abi t)))
      else if key = ''architecture'' then
        Ok (accepts values (CpuArchitecture_name (ProtoArchitecture t)) (Architecture_String (tc_architecture t)))
      else Err (UnknownParameter key))"

text \<open>The loop over the parameters stops at the first that does not match or is unknown, in the
  order the map is visited. None is the panic of reading a nil constraint.\<close>

fun matchesRuntimeParameters ::
  "(Version \<Rightarrow> string) \<Rightarrow> Toolchain \<Rightarrow> (string, string list option) gomap
    \<Rightarrow> (native_error + bool) option" where
  "matchesRuntimeParameters vstr t [] = Some (Ok True)"
| "matchesRuntimeParameters vstr t ((key, constraint) # rest) =
     (case constraint of
        None \<Rightarrow> None
      | Some values \<Rightarrow>
          (case matchesRuntimeParameter vstr t key values of
             Inl e \<Rightarrow> Some (Err e)
           | Inr b \<Rightarrow> if b then matchesRuntimeParameters vstr t rest else Some (Ok False)))"

definition NativeMatchesQuery ::
  "(Version \<Rightarrow> string) \<Rightarrow> Toolchain \<Rightarrow> RuntimeMatchQuery option \<Rightarrow> (native_error + bool) option" where
  "NativeMatchesQuery vstr t query =
     (case query of
        None \<Rightarrow> Some (Err QueryNil)
      | Some q \<Rightarrow>
          if 0 < length (q_platforms q) \<and> RUNTIME_PLATFORM_NATIVE_LINUX \<notin> set (q_platforms q)
          then Some (Ok False)
          else if 0 < length (q_toolchains q) \<and> ProtoCppToolchain t \<notin> set (q_toolchains q)
          then Some (Ok False)
          else matchesRuntimeParameters vstr t (q_params q))"

section \<open>Executing a job\<close>

record CompileJob =
  cj_source_files :: "string list"
  cj_include_dirs :: "string list"
  cj_defines :: "(string, string) gomap"
  cj_compiler_flags :: "string list"
  cj_output_file :: string

record LinkJob =
  lj_object_files :: "string list"
  lj_library_files :: "string list"
  lj_libraries :: "string list"
  lj_linker_flags :: "string list"
  lj_output_file :: string
  lj_shared_library :: bool

record ArchiveJob =
  aj_input_files :: "string list"
  aj_ar_flags :: "string list"
  aj_output_file :: string

text \<open>A define \<open>KEY=VALUE\<close> is split at its first equals sign, unless that is its first character.\<close>

definition parse_define :: "string \<Rightarrow> string \<times> string" where
  "parse_define d =
     (let key = takeWhile (\<lambda>c. c \<noteq> CHR ''='') d
      in if key \<noteq> [] \<and> length key < length d then (key, drop (length key + 1) d) else (d, ''''))"

definition protoCompileJobToConcrete :: "CppCompileJob \<Rightarrow> CompileJob" where
  "protoCompileJobToConcrete p =
     \<lparr>cj_source_files = cc_source_files p, cj_include_dirs = cc_include_dirs p,
      cj_defines = foldl (\<lambda>m d. case parse_define d of (k, v) \<Rightarrow> gm_put m k v) [] (cc_defines p),
      cj_compiler_flags = cc_compiler_args p, cj_output_file = cc_output_file p\<rparr>"

definition protoLinkJobToConcrete :: "CppLinkJob \<Rightarrow> LinkJob" where
  "protoLinkJobToConcrete p =
     \<lparr>lj_object_files = cl_object_files p, lj_library_files = cl_library_files p,
      lj_libraries = cl_libraries p, lj_linker_flags = cl_linker_args p,
      lj_output_file = cl_output_file p, lj_shared_library = cl_is_shared_library p\<rparr>"

definition protoArchiveJobToConcrete :: "CppArchiveJob \<Rightarrow> ArchiveJob" where
  "protoArchiveJobToConcrete p =
     \<lparr>aj_input_files = ca_input_files p, aj_ar_flags = ca_ar_flags p,
      aj_output_file = ca_output_file p\<rparr>"

text \<open>The command lines of the executor; the order of the defines is the map's.\<close>

definition compile_args :: "CompileJob \<Rightarrow> string list" where
  "compile_args j =
     [''-c''] @ cj_source_files j
     @ map (\<lambda>dir. ''-I'' @ dir) (cj_include_dirs j)
     @ map (\<lambda>(key, val). ''-D'' @ key @ ''='' @ val) (cj_defines j)
     @ cj_compiler_flags j
     @ (if cj_output_file j \<noteq> '''' then [''-o'', cj_output_file j] else [])"

definition link_args :: "LinkJob \<Rightarrow> string list" where
  "link_args j =
     (if lj_shared_library j then [''-shared''] else [])
     @ lj_object_files j @ lj_library_files j
     @ map (\<lambda>lib. ''-l'' @ lib) (lj_libraries j)
     @ lj_linker_flags j
     @ (if lj_output_file j \<noteq> '''' then [''-o'', lj_output_file j] else [])"

definition archive_args :: "ArchiveJob \<Rightarrow> string list" where
  "archive_args j =
     (if 0 < length (aj_ar_flags j) then [concat (aj_ar_flags j)] else [])
     @ [aj_output_file j] @ aj_input_files j"

text \<open>The world of the executor: running a command gives its output and exit code or an error;
  converting the output files to JobData may fail; so may creating the output directory.\<close>

record exec_env =
  env_run :: "string \<Rightarrow> string list \<Rightarrow> (byte list \<times> byte list \<times> int) option"
  env_stage :: "string list \<Rightarrow> JobData option list option"
  env_mkdir :: "string \<Rightarrow> bool"

record Executor =
  ex_compiler_path :: string
  ex_archiver_path :: string
  ex_work_dir :: string

definition prepareExecutionResult ::
  "exec_env \<Rightarrow> Executor \<Rightarrow> int \<Rightarrow> byte list \<Rightarrow> byte list \<Rightarrow> string list
    \<Rightarrow> native_error + ExecutionResult" where
  "prepareExecutionResult env e exitCode out err outputPaths =
     (let result = (\<lambda>outputs. \<lparr>er_exit_code = exitCode, er_stdout = out, er_stderr = err,
            er_output = outputs, er_work_dir = ex_work_dir e, er_execution_id = ''''\<rparr>)
      in if exitCode = 0 \<and> 0 < length outputPaths
         then (case env_stage env outputPaths of
                 None \<Rightarrow> Err OutputDataFailed | Some outputs \<Rightarrow> Ok (result outputs))
         else Ok (result []))"

definition run_and_collect ::
  "exec_env \<Rightarrow> Executor \<Rightarrow> string \<Rightarrow> string list \<Rightarrow> string \<Rightarrow> native_error + ExecutionResult" where
  "run_and_collect env e command args output =
     (case env_run env command args of
        None \<Rightarrow> Err CommandFailed
      | Some (out, err, code) \<Rightarrow> prepareExecutionResult env e code out err [output])"

definition ExecuteCompileJob ::
  "exec_env \<Rightarrow> Executor \<Rightarrow> CompileJob \<Rightarrow> native_error + ExecutionResult" where
  "ExecuteCompileJob env e j =
     (if length (cj_source_files j) = 0 then Err NoSourceFiles
      else if cj_output_file j = '''' then Err NoOutputFile
      else run_and_collect env e (ex_compiler_path e) (compile_args j) (cj_output_file j))"

definition ExecuteLinkJob ::
  "exec_env \<Rightarrow> Executor \<Rightarrow> LinkJob \<Rightarrow> native_error + ExecutionResult" where
  "ExecuteLinkJob env e j =
     (if length (lj_object_files j) = 0 then Err NoObjectFiles
      else if lj_output_file j = '''' then Err NoOutputFile
      else run_and_collect env e (ex_compiler_path e) (link_args j) (lj_output_file j))"

definition ExecuteArchiveJob ::
  "exec_env \<Rightarrow> Executor \<Rightarrow> ArchiveJob \<Rightarrow> native_error + ExecutionResult" where
  "ExecuteArchiveJob env e j =
     (if length (aj_input_files j) = 0 then Err NoInputFiles
      else if aj_output_file j = '''' then Err NoOutputFile
      else run_and_collect env e (ex_archiver_path e) (archive_args j) (aj_output_file j))"

text \<open>The runtime: inputs must be references, the output directory is created, the job is run and
  the result carries the runtime's identifier. The work directory passed on is empty, so the
  directory created is the output file's own.\<close>

fun validateInputsAreReferences :: "nat \<Rightarrow> JobData option list \<Rightarrow> native_error option" where
  "validateInputsAreReferences i [] = None"
| "validateInputsAreReferences i (input # rest) =
     (case input of
        None \<Rightarrow> validateInputsAreReferences (i + 1) rest
      | Some d \<Rightarrow> (case jd_data d of
          JobData_Reference _ \<Rightarrow> validateInputsAreReferences (i + 1) rest
        | _ \<Rightarrow> Some (InputNotReference i)))"

definition ensureOutputDirectories :: "exec_env \<Rightarrow> string \<Rightarrow> native_error option" where
  "ensureOutputDirectories env output =
     (if output \<noteq> '''' \<and> \<not> env_mkdir env output then Some OutputDirFailed else None)"

definition native_execute ::
  "exec_env \<Rightarrow> Executor \<Rightarrow> Toolchain \<Rightarrow> Job \<Rightarrow> native_error + ExecutionResult" where
  "native_execute env e t job =
     (let finish = map_sum id (\<lambda>r. r\<lparr>er_execution_id := NativeRuntimeID t\<rparr>)
      in case job_spec job of
        Job_CppCompile None \<Rightarrow> Err CompileJobNil
      | Job_CppCompile (Some c) \<Rightarrow>
          (case ensureOutputDirectories env (cc_output_file c) of
             Some err \<Rightarrow> Err err
           | None \<Rightarrow> finish (ExecuteCompileJob env e (protoCompileJobToConcrete c)))
      | Job_CppLink None \<Rightarrow> Err LinkJobNil
      | Job_CppLink (Some l) \<Rightarrow>
          (case ensureOutputDirectories env (cl_output_file l) of
             Some err \<Rightarrow> Err err
           | None \<Rightarrow> finish (ExecuteLinkJob env e (protoLinkJobToConcrete l)))
      | Job_CppArchive None \<Rightarrow> Err ArchiveJobNil
      | Job_CppArchive (Some a) \<Rightarrow>
          (case ensureOutputDirectories env (ca_output_file a) of
             Some err \<Rightarrow> Err err
           | None \<Rightarrow> finish (ExecuteArchiveJob env e (protoArchiveJobToConcrete a)))
      | NoJobSpec \<Rightarrow> Err UnsupportedJobType)"

text \<open>Execute, on a request that may be nil or hold no job.\<close>

definition NativeExecute ::
  "exec_env \<Rightarrow> Executor \<Rightarrow> Toolchain \<Rightarrow> Job option option \<Rightarrow> native_error + ExecutionResult" where
  "NativeExecute env e t req =
     (case req of
        None \<Rightarrow> Err RequestNil
      | Some None \<Rightarrow> Err FullJobNil
      | Some (Some job) \<Rightarrow>
          (case validateInputsAreReferences 0 (job_inputs job) of
             Some err \<Rightarrow> Err err
           | None \<Rightarrow> native_execute env e t job))"

section \<open>Identifiers and protobuf form agree\<close>

lemma fields_func_word:
  assumes "a \<noteq> []" and "\<forall>x\<in>set a. \<not> sep x"
  shows "fields_func sep a = [a]"
proof -
  obtain c cs where a: "a = c # cs" using assms(1) by (cases a) auto
  with assms(2) show ?thesis by (simp add: takeWhile_eq_all_conv [THEN iffD2] dropWhile_eq_Nil_conv [THEN iffD2])
qed

lemma fields_func_append:
  assumes "a \<noteq> []" and "\<forall>x\<in>set a. \<not> sep x" and "sep c"
  shows "fields_func sep (a @ c # s) = a # fields_func sep s"
proof -
  obtain d ds where a: "a = d # ds" using assms(1) by (cases a) auto
  have "takeWhile (\<lambda>x. \<not> sep x) (ds @ c # s) = ds" "dropWhile (\<lambda>x. \<not> sep x) (ds @ c # s) = c # s"
    using assms(2,3) a by (simp_all add: takeWhile_append dropWhile_append)
  with a assms(2,3) show ?thesis by simp
qed

lemma number_no_sep: "\<forall>x\<in>set (format_uint32 w). \<not> (x = CHR ''.'' \<or> x = CHR ''-'')"
proof -
  have "CHR ''.'' \<notin> set (format_uint32 w)" "CHR ''-'' \<notin> set (format_uint32 w)"
    by (rule format_uint32_notin, simp add: is_digit_def)+
  then show ?thesis by blast
qed

lemmas fields_number = fields_func_word [OF format_uint32_not_Nil number_no_sep]
  fields_func_append [OF format_uint32_not_Nil number_no_sep]

lemma isNumeric_format [simp]: "isNumeric (format_uint32 w)"
  by (simp add: isNumeric_def format_uint32_digits)

text \<open>The native version parser also reads back what versionToString prints.\<close>
lemma NativeParseVersionString_versionToString [simp]:
  assumes "version_canonical v"
  shows "NativeParseVersionString (versionToString (Some v)) = v"
proof -
  let ?sep = "\<lambda>c. c = CHR ''.'' \<or> c = CHR ''-''"
  have "fields_func ?sep (versionToString (Some v)) =
      format_uint32 (ver_major v)
      # (case ver_minor v of None \<Rightarrow> [] | Some m \<Rightarrow> format_uint32 m
           # (case ver_patch v of None \<Rightarrow> [] | Some p \<Rightarrow> [format_uint32 p]))"
    using assms
    by (cases "ver_minor v"; cases "ver_patch v")
       (simp_all add: versionToString_def version_canonical_def fields_number)
  then show ?thesis
    using assms
    by (cases "ver_minor v"; cases "ver_patch v")
       (simp_all add: NativeParseVersionString_def Let_def version_canonical_def empty_version_def)
qed

text \<open>A detected toolchain: everything specified, versions of one to three numbers.\<close>

definition version_text :: "string \<Rightarrow> bool" where
  "version_text s = (\<exists>v. version_canonical v \<and> s = versionToString (Some v))"

definition native_complete :: "Toolchain \<Rightarrow> bool" where
  "native_complete t =
     (tc_language t \<noteq> LanguageUnspecified \<and> tc_compiler t \<noteq> CompilerUnspecified \<and>
      tc_architecture t \<noteq> ArchitectureUnspecified \<and> tc_c_runtime t \<noteq> CRuntimeUnspecified \<and>
      (tc_language t = LanguageCpp \<longleftrightarrow> tc_cpp_stdlib t \<noteq> CppStdlibUnspecified) \<and>
      version_text (tc_compiler_version t) \<and> version_text (tc_c_runtime_version t))"

lemma version_text_round:
  assumes "version_text s"
  shows "versionToString (Some (NativeParseVersionString s)) = s"
    "version_canonical (NativeParseVersionString s)"
proof -
  from assms obtain v where "version_canonical v" "s = versionToString (Some v)"
    by (auto simp: version_text_def)
  then show "versionToString (Some (NativeParseVersionString s)) = s"
    "version_canonical (NativeParseVersionString s)" by simp_all
qed

definition native_cpp :: "Toolchain \<Rightarrow> CppToolchain" where
  "native_cpp t = the (GetCpp (NativeProto t))"

lemma GetCpp_NativeProto: "GetCpp (NativeProto t) = Some (native_cpp t)"
  by (simp add: native_cpp_def NativeProto_def GetCpp_def)

lemma RuntimeToID_NativeProto:
  assumes "native_complete t"
  shows "RuntimeToID (NativeProto t) = NativeRuntimeID t"
  using assms
  by (cases "tc_language t"; cases "tc_compiler t"; cases "tc_architecture t"; cases "tc_c_runtime t";
      cases "tc_cpp_stdlib t"; simp add: native_complete_def)
     (simp_all add: RuntimeToID_def GetCpp_def NativeProto_def Let_def
       NativeRuntimeID_def version_text_round ProtoLanguage_def ProtoCompiler_def
       ProtoArchitecture_def ProtoCRuntime_def ProtoCppStdlib_def)

definition without_abi :: "CppToolchain \<Rightarrow> CppToolchain" where
  "without_abi c = c\<lparr>cpp_abi := CPP_ABI_UNSPECIFIED, cpp_abi_modifiers := []\<rparr>"

lemma native_cpp_complete:
  "native_complete t \<Longrightarrow> toolchain_complete (without_abi (native_cpp t))"
  by (cases "tc_language t"; cases "tc_cpp_stdlib t")
     (auto simp: native_complete_def toolchain_complete_def native_cpp_def NativeProto_def GetCpp_def
       without_abi_def version_ok_def version_text_round ProtoLanguage_def ProtoCompiler_def
       ProtoArchitecture_def ProtoCRuntime_def ProtoCppStdlib_def
       split: Compiler.splits Architecture.splits NativeCRuntime.splits)

lemma RuntimeToID_without_abi:
  "RuntimeToID (rt\<lparr>rt_spec := Runtime_Cpp (Some (without_abi c))\<rparr>) =
     RuntimeToID (rt\<lparr>rt_spec := Runtime_Cpp (Some c)\<rparr>)"
  by (simp add: RuntimeToID_def GetCpp_def without_abi_def Let_def)

text \<open>The identifier a native runtime reports is the one RuntimeToID computes from the
  protobuf message it reports, and parsing it back gives that message's toolchain, up to the
  ABI, which identifiers do not carry.\<close>
theorem native_identifier_agrees:
  assumes "native_complete t"
  shows "RuntimeToID (NativeProto t) = NativeRuntimeID t \<and>
    (\<exists>r. ParseRuntimeID (NativeRuntimeID t) = Ok r \<and> rt_id r = rt_id (NativeProto t) \<and>
       rt_platform r = rt_platform (NativeProto t) \<and>
       GetCpp r = map_option without_abi (GetCpp (NativeProto t)))"
proof -
  let ?rt = "(NativeProto t)\<lparr>rt_spec := Runtime_Cpp (Some (without_abi (native_cpp t)))\<rparr>"
  have spec: "rt_spec (NativeProto t) = Runtime_Cpp (Some (native_cpp t))"
    by (simp add: native_cpp_def NativeProto_def GetCpp_def)
  have rid: "RuntimeToID ?rt = NativeRuntimeID t"
    using RuntimeToID_NativeProto [OF assms] by (simp add: RuntimeToID_without_abi flip: spec)
  have "GetCpp ?rt = Some (without_abi (native_cpp t))" by (simp add: GetCpp_def)
  moreover have "rt_platform ?rt \<noteq> RUNTIME_PLATFORM_DOCKER_LINUX" by (simp add: NativeProto_def)
  ultimately have "ParseRuntimeID (RuntimeToID ?rt) =
      Ok \<lparr>rt_id = RuntimeToID ?rt, rt_platform = RUNTIME_PLATFORM_NATIVE_LINUX,
          rt_toolchain = RUNTIME_TOOLCHAIN_C, rt_spec = Runtime_Cpp (Some (without_abi (native_cpp t))),
          rt_description = None, rt_peer_ids = []\<rparr>"
    using ParseRuntimeID_generated [of ?rt "without_abi (native_cpp t)"] native_cpp_complete [OF assms]
    by (simp add: CppRuntimeParser_Parse_segments toolchain_complete_def)
  then show ?thesis
    using RuntimeToID_NativeProto [OF assms] rid GetCpp_NativeProto [of t]
    by (simp add: GetCpp_def NativeProto_def)
qed

definition clang_14 :: Toolchain where
  "clang_14 = \<lparr>tc_language = LanguageC, tc_compiler = CompilerClang, tc_compiler_path = ''/usr/bin/clang'',
     tc_archiver_path = ''/usr/bin/ar'', tc_compiler_version = ''14.0.6'',
     tc_architecture = ArchitectureAArch64, tc_c_runtime = CRuntimeMusl, tc_c_runtime_version = ''1.2'',
     tc_cpp_abi = CppAbiItanium, tc_cpp_stdlib = CppStdlibUnspecified, tc_abi_modifiers = []\<rparr>"

lemma version_text_14: "version_text ''14.0.6''" "version_text ''1.2''"
proof -
  have "''14.0.6'' = versionToString (Some (empty_version\<lparr>ver_major := 14, ver_minor := Some 0, ver_patch := Some 6\<rparr>))"
    "''1.2'' = versionToString (Some (empty_version\<lparr>ver_major := 1, ver_minor := Some 2\<rparr>))"
    by (simp_all add: versionToString_def empty_version_def format_uint32_def format_nat.simps
        digit_char_simps)
  moreover have "version_canonical (empty_version\<lparr>ver_major := 14, ver_minor := Some 0, ver_patch := Some 6\<rparr>)"
    "version_canonical (empty_version\<lparr>ver_major := 1, ver_minor := Some 2\<rparr>)"
    by (simp_all add: version_canonical_def empty_version_def)
  ultimately show "version_text ''14.0.6''" "version_text ''1.2''"
    unfolding version_text_def by blast+
qed

lemma clang_14_complete: "native_complete clang_14"
  by (simp add: native_complete_def clang_14_def version_text_14)

theorem native_identifier_agrees_witness:
  "\<exists>r. ParseRuntimeID ''native_linux-c-clang-14.0.6-musl-1.2-aarch64'' = Ok r \<and>
     rt_id r = ''native_linux-c-clang-14.0.6-musl-1.2-aarch64''"
proof -
  have "NativeRuntimeID clang_14 = ''native_linux-c-clang-14.0.6-musl-1.2-aarch64''"
    by (simp add: NativeRuntimeID_def clang_14_def)
  with native_identifier_agrees [OF clang_14_complete] show ?thesis
    by (auto simp: NativeProto_def)
qed

section \<open>What a job runs\<close>

text \<open>The library directories of a link job have no influence on what the native runtime does
  with it: the conversion to the executor's LinkJob drops them, so the -L options of a link
  command line never reach the linker.\<close>
theorem link_library_dirs_ignored:
  "native_execute env e t (j\<lparr>job_spec := Job_CppLink (Some (l\<lparr>cl_library_dirs := dirs\<rparr>))\<rparr>) =
   native_execute env e t (j\<lparr>job_spec := Job_CppLink (Some l)\<rparr>)"
proof -
  have "protoLinkJobToConcrete (l\<lparr>cl_library_dirs := dirs\<rparr>) = protoLinkJobToConcrete l"
    by (simp add: protoLinkJobToConcrete_def)
  then show ?thesis by (simp add: native_execute_def split: option.split)
qed

definition define_flag :: "string \<Rightarrow> string" where
  "define_flag d = (case parse_define d of (k, v) \<Rightarrow> ''-D'' @ k @ ''='' @ v)"

lemma foldl_put_distinct:
  "distinct (map fst kvs) \<Longrightarrow> (\<forall>k\<in>set (map fst kvs). k \<notin> set (map fst m)) \<Longrightarrow>
   foldl (\<lambda>m (k, v). gm_put m k v) m kvs = m @ kvs"
proof (induction kvs arbitrary: m)
  case (Cons kv kvs)
  obtain k v where kv: "kv = (k, v)" by (cases kv)
  have "gm_put m k v = m @ [(k, v)]"
    using Cons.prems(2) kv by (intro gm_put_fresh) (auto simp: map_of_eq_None_iff)
  moreover have "foldl (\<lambda>m (k, v). gm_put m k v) (m @ [(k, v)]) kvs = (m @ [(k, v)]) @ kvs"
    using Cons.prems kv by (intro Cons.IH) auto
  ultimately show ?case by (simp add: kv)
qed simp

lemma compile_defines:
  assumes "distinct (map (\<lambda>d. fst (parse_define d)) (cc_defines p))"
  shows "cj_defines (protoCompileJobToConcrete p) = map parse_define (cc_defines p)"
proof -
  have "foldl (\<lambda>m d. case parse_define d of (k, v) \<Rightarrow> gm_put m k v) [] (cc_defines p) =
      foldl (\<lambda>m (k, v). gm_put m k v) [] (map parse_define (cc_defines p))"
    by (simp add: foldl_map)
  with assms foldl_put_distinct [of "map parse_define (cc_defines p)" "[]"] show ?thesis
    by (simp add: protoCompileJobToConcrete_def comp_def)
qed

lemma parse_define_valued:
  assumes "d = k @ ''='' @ v" "CHR ''='' \<notin> set k" "k \<noteq> []"
  shows "parse_define d = (k, v)"
proof -
  have "takeWhile (\<lambda>c. c \<noteq> CHR ''='') d = k"
    unfolding assms(1) using assms(2) by (subst takeWhile_append2) auto
  then show ?thesis using assms(1,3) by (simp add: parse_define_def Let_def)
qed

lemma parse_define_bare: "CHR ''='' \<notin> set d \<Longrightarrow> parse_define d = (d, '''')"
proof -
  assume "CHR ''='' \<notin> set d"
  then have *: "takeWhile (\<lambda>c. c \<noteq> CHR ''='') d = d" by (subst takeWhile_eq_all_conv) auto
  show ?thesis unfolding parse_define_def Let_def * by simp
qed

lemma compile_command:
  assumes "distinct (map (\<lambda>d. fst (parse_define d)) (cc_defines p))"
  shows "compile_args (protoCompileJobToConcrete p) =
      [''-c''] @ cc_source_files p @ map (\<lambda>d. ''-I'' @ d) (cc_include_dirs p)
      @ map define_flag (cc_defines p) @ cc_compiler_args p
      @ (if cc_output_file p = [] then [] else [''-o'', cc_output_file p])"
  by (simp add: compile_args_def compile_defines [OF assms] define_flag_def [abs_def] comp_def)
     (simp add: protoCompileJobToConcrete_def)

text \<open>The command line of a compile job: the sources after -c, an -I for every include
  directory, a -D for every define (whose keys are distinct), the extra flags, and the output
  last. A define with a value is passed as it was given; one without a value is passed as
  \<open>-DKEY=\<close>, which defines it as empty and not as 1.\<close>
theorem compile_args_spec:
  assumes "distinct (map (\<lambda>d. fst (parse_define d)) (cc_defines p))"
  shows "compile_args (protoCompileJobToConcrete p) =
      [''-c''] @ cc_source_files p @ map (\<lambda>d. ''-I'' @ d) (cc_include_dirs p)
      @ map define_flag (cc_defines p) @ cc_compiler_args p
      @ (if cc_output_file p = [] then [] else [''-o'', cc_output_file p]) \<and>
    (\<forall>d. CHR ''='' \<notin> set d \<longrightarrow> define_flag d = ''-D'' @ d @ ''='') \<and>
    (\<forall>k v. CHR ''='' \<notin> set k \<and> k \<noteq> [] \<longrightarrow>
       define_flag (k @ ''='' @ v) = ''-D'' @ k @ ''='' @ v)"
proof (intro conjI allI impI)
  show "compile_args (protoCompileJobToConcrete p) =
      [''-c''] @ cc_source_files p @ map (\<lambda>d. ''-I'' @ d) (cc_include_dirs p)
      @ map define_flag (cc_defines p) @ cc_compiler_args p
      @ (if cc_output_file p = [] then [] else [''-o'', cc_output_file p])"
    using assms by (rule compile_command)
next
  fix d assume "CHR ''='' \<notin> set d"
  then show "define_flag d = ''-D'' @ d @ ''=''"
    by (simp add: define_flag_def parse_define_bare)
next
  fix k v assume "CHR ''='' \<notin> set k \<and> k \<noteq> []"
  then have "parse_define (k @ ''='' @ v) = (k, v)" by (intro parse_define_valued) auto
  then show "define_flag (k @ ''='' @ v) = ''-D'' @ k @ ''='' @ v"
    by (simp only: define_flag_def prod.case)
qed

theorem compile_args_spec_witness:
  "compile_args (protoCompileJobToConcrete
     \<lparr>cc_source_files = [''a.c''], cc_compiler_args = [''-O2''], cc_include_dirs = [''inc''],
      cc_defines = [''DEBUG''], cc_output_file = ''a.o''\<rparr>) =
   [''-c'', ''a.c'', ''-Iinc'', ''-DDEBUG='', ''-O2'', ''-o'', ''a.o'']"
proof -
  let ?p = "\<lparr>cc_source_files = [''a.c''], cc_compiler_args = [''-O2''], cc_include_dirs = [''inc''],
      cc_defines = [''DEBUG''], cc_output_file = ''a.o''\<rparr>"
  have d: "distinct (map (\<lambda>d. fst (parse_define d)) (cc_defines ?p))" by simp
  have "CHR ''='' \<notin> set ''DEBUG''" by simp
  with compile_args_spec [OF d] have "define_flag ''DEBUG'' = ''-D'' @ ''DEBUG'' @ ''=''" by blast
  with compile_args_spec [OF d] show ?thesis by simp
qed

lemma validate_None_iff:
  "validateInputsAreReferences i inputs = None \<longleftrightarrow>
     (\<forall>d. Some d \<in> set inputs \<longrightarrow> (\<exists>r. jd_data d = JobData_Reference r))"
  by (induction inputs arbitrary: i) (auto split: option.splits JobDataPayload.splits)

lemma run_and_collect_ok:
  "run_and_collect env e cmd args out = Ok r \<Longrightarrow>
     (er_exit_code r \<noteq> 0 \<longrightarrow> er_output r = []) \<and> er_work_dir r = ex_work_dir e \<and>
     (\<exists>o1 o2. env_run env cmd args = Some (o1, o2, er_exit_code r) \<and>
        er_stdout r = o1 \<and> er_stderr r = o2)"
  by (auto simp: run_and_collect_def prepareExecutionResult_def Let_def
      split: option.splits if_splits)

definition ran_without_stale_output :: "ExecutionResult \<Rightarrow> bool" where
  "ran_without_stale_output r = (er_exit_code r \<noteq> 0 \<longrightarrow> er_output r = [])"

lemma execute_jobs_ok:
  "ExecuteCompileJob env e c = Ok r \<Longrightarrow> ran_without_stale_output r"
  "ExecuteLinkJob env e l = Ok r \<Longrightarrow> ran_without_stale_output r"
  "ExecuteArchiveJob env e a = Ok r \<Longrightarrow> ran_without_stale_output r"
  by (auto simp: ran_without_stale_output_def ExecuteCompileJob_def ExecuteLinkJob_def
      ExecuteArchiveJob_def split: if_splits dest!: run_and_collect_ok)

lemma map_sum_Ok: "map_sum id f x = Ok r \<longleftrightarrow> (\<exists>y. x = Ok y \<and> r = f y)"
  by (cases x) auto

lemma native_execute_ok:
  assumes "native_execute env e t job = Ok r"
  shows "er_execution_id r = NativeRuntimeID t \<and> ran_without_stale_output r \<and>
    job_spec job \<notin> {NoJobSpec, Job_CppCompile None, Job_CppLink None, Job_CppArchive None}"
proof -
  from assms obtain y where y: "r = y\<lparr>er_execution_id := NativeRuntimeID t\<rparr>" "ran_without_stale_output y"
    by (auto simp: native_execute_def Let_def map_sum_Ok dest: execute_jobs_ok
        split: JobSpec.splits option.splits)
  have "job_spec job \<notin> {NoJobSpec, Job_CppCompile None, Job_CppLink None, Job_CppArchive None}"
    using assms by (auto simp: native_execute_def Let_def)
  with y show ?thesis by (simp add: ran_without_stale_output_def)
qed

text \<open>A native execution succeeds only on a job with a specification whose inputs are all
  references, never embedded content; its result carries the runtime's identifier, and reports
  no outputs when the command failed.\<close>
theorem NativeExecute_ok:
  assumes "NativeExecute env e t req = Ok r"
  shows "\<exists>job. req = Some (Some job) \<and>
    (\<forall>d. Some d \<in> set (job_inputs job) \<longrightarrow> (\<exists>ref. jd_data d = JobData_Reference ref)) \<and>
    job_spec job \<noteq> NoJobSpec \<and> er_execution_id r = NativeRuntimeID t \<and>
    (er_exit_code r \<noteq> 0 \<longrightarrow> er_output r = [])"
proof -
  from assms obtain job where job: "req = Some (Some job)"
    "validateInputsAreReferences 0 (job_inputs job) = None" "native_execute env e t job = Ok r"
    by (auto simp: NativeExecute_def split: option.splits)
  with native_execute_ok [OF job(3)] validate_None_iff [of 0 "job_inputs job"] show ?thesis
    by (auto simp: ran_without_stale_output_def)
qed

definition link_job :: Job where
  "link_job = \<lparr>job_id = ''j'', job_requirement = NoRequirement, job_input_data_ids = [],
     job_spec = Job_CppLink (Some \<lparr>cl_object_files = [''a.o''], cl_libraries = [''m''],
       cl_library_files = [], cl_library_dirs = [''lib''], cl_linker_args = [],
       cl_output_file = ''a'', cl_is_shared_library = False\<rparr>),
     job_content_hash = None, job_source_client_id = '''', job_submitted_at = None,
     job_timeout = None, job_dependency_ids = [], job_inputs = [], job_outputs = [], job_cwd = ''''\<rparr>"

definition failing_env :: exec_env where
  "failing_env = \<lparr>env_run = (\<lambda>cmd args. if args = [''a.o'', ''-lm'', ''-o'', ''a'']
       then Some ([], [], 1) else None),
     env_stage = (\<lambda>_. None), env_mkdir = (\<lambda>_. True)\<rparr>"

theorem NativeExecute_ok_witness:
  "\<exists>r. NativeExecute failing_env \<lparr>ex_compiler_path = ''cc'', ex_archiver_path = ''ar'', ex_work_dir = ''/w''\<rparr>
      clang_14 (Some (Some link_job)) = Ok r \<and> er_output r = [] \<and> er_exit_code r = 1"
proof -
  let ?e = "\<lparr>ex_compiler_path = ''cc'', ex_archiver_path = ''ar'', ex_work_dir = ''/w''\<rparr>"
  obtain r where r: "NativeExecute failing_env ?e clang_14 (Some (Some link_job)) = Ok r"
    "er_exit_code r = 1"
    by (simp add: NativeExecute_def native_execute_def link_job_def failing_env_def
        ensureOutputDirectories_def ExecuteLinkJob_def protoLinkJobToConcrete_def link_args_def
        run_and_collect_def prepareExecutionResult_def Let_def)
  with NativeExecute_ok [OF r(1)] show ?thesis by auto
qed

end
