(* ===== verification/RuntimeMatch.thy ===== *)
theory RuntimeMatch
  imports ProtoTypes
begin

text \<open>
  Matching runtimes against a query, twice in the program: the daemon's RuntimeManager
  (pkg/daemon/runtime_matcher.go, with the cache of pkg/daemon/runtime_manager.go) and the
  peers' RemoteRuntimesManager (pkg/peers/remote_manager.go, the matching part). The text form
  protobuf gives a Version message is not code of the repository: it is the argument \<open>vstr\<close>.
\<close>

section \<open>The daemon's matcher\<close>

definition daemon_extractRuntimeParameters ::
  "(Version \<Rightarrow> string) \<Rightarrow> Runtime \<Rightarrow> (string, string) gomap" where
  "daemon_extractRuntimeParameters vstr rt =
     [(''platform'', RuntimePlatform_name (rt_platform rt)),
      (''toolchain'', RuntimeToolchain_name (rt_toolchain rt))]
     @ (case rt_spec rt of
          Runtime_Cpp (Some c) \<Rightarrow>
            [(''c_runtime'', CRuntime_name (cpp_c_runtime c))]
            @ (case cpp_c_runtime_version c of None \<Rightarrow> [] | Some v \<Rightarrow> [(''c_runtime_version'', vstr v)])
            @ [(''architecture'', CpuArchitecture_name (cpp_architecture c))]
            @ (if cpp_stdlib c \<noteq> CPP_STDLIB_UNSPECIFIED
               then [(''cpp_stdlib'', CppStdlib_name (cpp_stdlib c))] else [])
            @ (if cpp_compiler c \<noteq> CPP_COMPILER_UNSPECIFIED
               then [(''compiler'', CppCompiler_name (cpp_compiler c))] else [])
            @ (case cpp_compiler_version c of None \<Rightarrow> [] | Some v \<Rightarrow> [(''compiler_version'', vstr v)])
        | Runtime_Go (Some g) \<Rightarrow>
            [(''goarch'', go_arch g), (''goos'', go_os g)]
            @ (case go_version g of None \<Rightarrow> [] | Some v \<Rightarrow> [(''go_version'', vstr v)])
        | Runtime_Rust (Some r) \<Rightarrow>
            [(''target_triple'', rust_target_triple r), (''edition'', rust_edition r)]
            @ (case rust_version r of None \<Rightarrow> [] | Some v \<Rightarrow> [(''rust_version'', vstr v)])
        | _ \<Rightarrow> [])"

fun stringInList :: "string \<Rightarrow> string list \<Rightarrow> bool" where
  "stringInList s [] = False"
| "stringInList s (item # items) = (s = item \<or> stringInList s items)"

fun daemon_parametersMatch ::
  "(string, string) gomap \<Rightarrow> (string, string list option) gomap \<Rightarrow> bool" where
  "daemon_parametersMatch runtimeParams [] = True"
| "daemon_parametersMatch runtimeParams ((name, constraint) # rest) =
     (case constraint of
        None \<Rightarrow> daemon_parametersMatch runtimeParams rest
      | Some values \<Rightarrow>
          if values = [] then daemon_parametersMatch runtimeParams rest
          else (case gm_get runtimeParams name of
                  None \<Rightarrow> False
                | Some v \<Rightarrow> stringInList v values \<and> daemon_parametersMatch runtimeParams rest))"

definition daemon_runtimeMatchesQuery ::
  "(Version \<Rightarrow> string) \<Rightarrow> Runtime \<Rightarrow> RuntimeMatchQuery \<Rightarrow> bool" where
  "daemon_runtimeMatchesQuery vstr rt q =
     (if 0 < length (q_platforms q) \<and> \<not> list_ex (\<lambda>qp. rt_platform rt = qp) (q_platforms q) then False
      else if 0 < length (q_toolchains q) \<and> \<not> list_ex (\<lambda>qt. rt_toolchain rt = qt) (q_toolchains q)
      then False
      else if 0 < length (q_params q) \<and>
          \<not> daemon_parametersMatch (daemon_extractRuntimeParameters vstr rt) (q_params q)
      then False
      else True)"

section \<open>The daemon's cache of runtimes\<close>

text \<open>The cache after the detections so far. A call made while another call detects waits for it
  (\<open>Waiting\<close>); the detection itself is a placeholder that finds nothing.\<close>

record 'e DaemonRuntimeManager =
  drm_runtimes :: "Runtime list"
  drm_detectionNotes :: string
  drm_lastDetectionErr :: "'e option"
  drm_detectedAt :: "int option"
  drm_isDetecting :: bool

datatype 'e list_outcome = Listed "Runtime list" string "'e option" | Waiting

definition NewDaemonRuntimeManager :: "'e DaemonRuntimeManager" where
  "NewDaemonRuntimeManager = \<lparr>drm_runtimes = [], drm_detectionNotes = '''',
     drm_lastDetectionErr = None, drm_detectedAt = None, drm_isDetecting = False\<rparr>"

definition detectRuntimes :: "Runtime list \<times> string \<times> 'e option" where
  "detectRuntimes = ([], ''C/C++ runtime detection not yet implemented in daemon'', None)"

text \<open>The comparison of the oneof field with a nil wrapper is false, as a wrapper is never nil.\<close>

definition matchesFilter :: "Runtime \<Rightarrow> string \<Rightarrow> bool" where
  "matchesFilter rt flt =
     (if flt = ''cpp'' \<or> flt = ''c++'' then False \<and> GetCpp rt \<noteq> None
      else if flt = ''go'' then False \<and> GetGo rt \<noteq> None
      else if flt = ''rust'' then False \<and> GetRust rt \<noteq> None
      else False)"

definition filterRuntimes :: "Runtime list \<Rightarrow> string \<Rightarrow> Runtime list" where
  "filterRuntimes rts flt = (if flt = '''' then rts else filter (\<lambda>rt. matchesFilter rt flt) rts)"

definition daemon_detectAndCache ::
  "int \<Rightarrow> string \<Rightarrow> 'e DaemonRuntimeManager \<Rightarrow> 'e list_outcome \<times> 'e DaemonRuntimeManager" where
  "daemon_detectAndCache now flt m =
     (case detectRuntimes of (rts, notes, err) \<Rightarrow>
       (Listed (filterRuntimes rts flt) notes err,
        m\<lparr>drm_runtimes := rts, drm_detectionNotes := notes, drm_lastDetectionErr := err,
          drm_detectedAt := Some now, drm_isDetecting := False\<rparr>))"

definition daemon_ListRuntimes ::
  "int \<Rightarrow> string \<Rightarrow> 'e DaemonRuntimeManager \<Rightarrow> 'e list_outcome \<times> 'e DaemonRuntimeManager" where
  "daemon_ListRuntimes now flt m =
     (if drm_detectedAt m \<noteq> None
      then (Listed (filterRuntimes (drm_runtimes m) flt) (drm_detectionNotes m)
              (drm_lastDetectionErr m), m)
      else if drm_isDetecting m then (Waiting, m)
      else daemon_detectAndCache now flt m)"

datatype 'e match_error = NilQuery | ListFailed 'e

text \<open>Match and GetRuntime, once the listing they start with has returned.\<close>

definition daemon_Match ::
  "(Version \<Rightarrow> string) \<Rightarrow> RuntimeMatchQuery option \<Rightarrow> Runtime list \<times> 'e option
    \<Rightarrow> 'e match_error + Runtime list" where
  "daemon_Match vstr query listed =
     (case query of None \<Rightarrow> Err NilQuery
      | Some q \<Rightarrow> (case listed of (rts, err) \<Rightarrow>
          (case err of Some e \<Rightarrow> Err (ListFailed e)
           | None \<Rightarrow> Ok (filter (\<lambda>rt. daemon_runtimeMatchesQuery vstr rt q) rts))))"

definition daemon_GetRuntime ::
  "string \<Rightarrow> Runtime list \<times> 'e option \<Rightarrow> 'e + Runtime option" where
  "daemon_GetRuntime rid listed =
     (case listed of (rts, err) \<Rightarrow>
        (case err of Some e \<Rightarrow> Err e | None \<Rightarrow> Ok (List.find (\<lambda>rt. rt_id rt = rid) rts)))"

section \<open>The peers' matcher\<close>

definition peers_extractRuntimeParameters ::
  "(Version \<Rightarrow> string) \<Rightarrow> Runtime \<Rightarrow> (string, string list) gomap" where
  "peers_extractRuntimeParameters vstr rt =
     [(''platform'', [RuntimePlatform_name (rt_platform rt)]),
      (''toolchain'', [RuntimeToolchain_name (rt_toolchain rt)])]
     @ (case rt_spec rt of
          Runtime_Cpp (Some c) \<Rightarrow>
            [(''c_runtime'', [CRuntime_name (cpp_c_runtime c)])]
            @ (case cpp_c_runtime_version c of None \<Rightarrow> [] | Some v \<Rightarrow> [(''c_runtime_version'', [vstr v])])
            @ [(''architecture'', [CpuArchitecture_name (cpp_architecture c)])]
            @ (if cpp_stdlib c \<noteq> CPP_STDLIB_UNSPECIFIED
               then [(''cpp_stdlib'', [CppStdlib_name (cpp_stdlib c)])] else [])
            @ (if cpp_compiler c \<noteq> CPP_COMPILER_UNSPECIFIED
               then [(''compiler'', [CppCompiler_name (cpp_compiler c)])] else [])
            @ (case cpp_compiler_version c of None \<Rightarrow> [] | Some v \<Rightarrow> [(''compiler_version'', [vstr v])])
        | _ \<Rightarrow> [])"

text \<open>None is the panic of reading the values of a nil constraint.\<close>

fun peers_parametersMatch ::
  "(string, string list) gomap \<Rightarrow> (string, string list option) gomap \<Rightarrow> bool option" where
  "peers_parametersMatch runtimeParams [] = Some True"
| "peers_parametersMatch runtimeParams ((name, constraint) # rest) =
     (case constraint of
        None \<Rightarrow> None
      | Some values \<Rightarrow>
          if values = [] then peers_parametersMatch runtimeParams rest
          else (case gm_get runtimeParams name of
                  None \<Rightarrow> Some False
                | Some rvs \<Rightarrow>
                    if list_ex (\<lambda>qv. list_ex (\<lambda>rv. qv = rv) rvs) values
                    then peers_parametersMatch runtimeParams rest else Some False))"

definition peers_runtimeMatchesQuery ::
  "(Version \<Rightarrow> string) \<Rightarrow> Runtime \<Rightarrow> RuntimeMatchQuery \<Rightarrow> bool option" where
  "peers_runtimeMatchesQuery vstr rt q =
     (if 0 < length (q_platforms q) \<and> \<not> list_ex (\<lambda>qp. rt_platform rt = qp) (q_platforms q)
      then Some False
      else if 0 < length (q_toolchains q) \<and> \<not> list_ex (\<lambda>qt. rt_toolchain rt = qt) (q_toolchains q)
      then Some False
      else if 0 < length (q_params q)
      then peers_parametersMatch (peers_extractRuntimeParameters vstr rt) (q_params q)
      else Some True)"

section \<open>What a query asks\<close>

text \<open>The contract both matchers implement, on the value a runtime gives each parameter.\<close>

definition constraint_met :: "(string, string) gomap \<Rightarrow> string \<times> string list option \<Rightarrow> bool" where
  "constraint_met ps c = (case c of (name, vo) \<Rightarrow>
     (case vo of None \<Rightarrow> True
      | Some vs \<Rightarrow> vs = [] \<or> (\<exists>v. gm_get ps name = Some v \<and> v \<in> set vs)))"

definition query_met :: "(string, string) gomap \<Rightarrow> Runtime \<Rightarrow> RuntimeMatchQuery \<Rightarrow> bool" where
  "query_met ps rt q =
     ((q_platforms q = [] \<or> rt_platform rt \<in> set (q_platforms q)) \<and>
      (q_toolchains q = [] \<or> rt_toolchain rt \<in> set (q_toolchains q)) \<and>
      (\<forall>c\<in>set (q_params q). constraint_met ps c))"

lemma stringInList_iff: "stringInList s xs \<longleftrightarrow> s \<in> set xs"
  by (induction xs) auto

lemma daemon_parametersMatch_iff:
  "daemon_parametersMatch ps cs \<longleftrightarrow> (\<forall>c\<in>set cs. constraint_met ps c)"
proof (induction cs)
  case (Cons c cs)
  obtain name co where c: "c = (name, co)" by (cases c)
  show ?case
    using Cons.IH
    by (cases co; cases "gm_get ps name") (simp_all add: c constraint_met_def stringInList_iff)
qed simp

lemma daemon_runtimeMatchesQuery_iff:
  "daemon_runtimeMatchesQuery vstr rt q \<longleftrightarrow>
     query_met (daemon_extractRuntimeParameters vstr rt) rt q"
  by (auto simp: daemon_runtimeMatchesQuery_def query_met_def daemon_parametersMatch_iff list_ex_iff)

text \<open>A matcher: it accepts everything for an empty query, and each field of the query is a
  separate constraint.\<close>

locale runtime_matcher =
  fixes matches :: "Runtime \<Rightarrow> RuntimeMatchQuery \<Rightarrow> bool"
    and value_of :: "Runtime \<Rightarrow> (string, string) gomap"
    and admits :: "RuntimeMatchQuery \<Rightarrow> bool"
  assumes matches_iff: "admits q \<Longrightarrow> matches rt q \<longleftrightarrow> query_met (value_of rt) rt q"
begin

lemma matches_empty:
  "admits q \<Longrightarrow> q_platforms q = [] \<Longrightarrow> q_toolchains q = [] \<Longrightarrow> q_params q = [] \<Longrightarrow> matches rt q"
  by (simp add: matches_iff query_met_def)

lemma matches_narrow:
  assumes "admits q" "admits q'" "matches rt q'"
    and "q_platforms q = [] \<or> q_platforms q' \<noteq> [] \<and> set (q_platforms q') \<subseteq> set (q_platforms q)"
    and "q_toolchains q = [] \<or> q_toolchains q' \<noteq> [] \<and> set (q_toolchains q') \<subseteq> set (q_toolchains q)"
    and "set (q_params q) \<subseteq> set (q_params q')"
  shows "matches rt q"
  using assms by (auto simp: matches_iff query_met_def)

lemma matches_order:
  assumes "admits q" "admits q'" "set (q_platforms q) = set (q_platforms q')"
    "set (q_toolchains q) = set (q_toolchains q')" "set (q_params q) = set (q_params q')"
  shows "matches rt q \<longleftrightarrow> matches rt q'"
proof -
  have "q_platforms q = [] \<longleftrightarrow> q_platforms q' = []" "q_toolchains q = [] \<longleftrightarrow> q_toolchains q' = []"
    using assms(3,4) by (auto simp flip: set_empty)
  with assms show ?thesis by (simp add: matches_iff query_met_def)
qed

end

interpretation dm: runtime_matcher "daemon_runtimeMatchesQuery vstr"
  "daemon_extractRuntimeParameters vstr" "\<lambda>_. True" for vstr
  by unfold_locales (rule daemon_runtimeMatchesQuery_iff)

text \<open>The peers' parameters are the daemon's, without those of Go and Rust, each in a list.\<close>

definition peers_value_of :: "(Version \<Rightarrow> string) \<Rightarrow> Runtime \<Rightarrow> (string, string) gomap" where
  "peers_value_of vstr rt = map (\<lambda>(k, vs). (k, hd vs)) (peers_extractRuntimeParameters vstr rt)"

definition no_nil_constraint :: "RuntimeMatchQuery \<Rightarrow> bool" where
  "no_nil_constraint q = list_all (\<lambda>(k, c). c \<noteq> None) (q_params q)"

lemma peers_params_singleton:
  "(k, vs) \<in> set (peers_extractRuntimeParameters vstr rt) \<Longrightarrow> \<exists>v. vs = [v]"
  by (auto simp: peers_extractRuntimeParameters_def split: ToolchainSpec.splits option.splits if_splits)

lemma map_of_singletons:
  "(\<And>k vs. (k, vs) \<in> set m \<Longrightarrow> \<exists>v. vs = [v]) \<Longrightarrow>
     map_of m k = map_option (\<lambda>v. [v]) (map_of (map (\<lambda>(k, vs). (k, hd vs)) m) k)"
proof (induction m)
  case (Cons a m)
  then show ?case by (cases a) fastforce
qed simp

lemma peers_get:
  "gm_get (peers_extractRuntimeParameters vstr rt) k =
     map_option (\<lambda>v. [v]) (gm_get (peers_value_of vstr rt) k)"
  unfolding peers_value_of_def by (rule map_of_singletons) (rule peers_params_singleton)

lemma peers_parametersMatch_iff:
  "list_all (\<lambda>(k, c). c \<noteq> None) cs \<Longrightarrow>
   peers_parametersMatch (peers_extractRuntimeParameters vstr rt) cs =
     Some (\<forall>c\<in>set cs. constraint_met (peers_value_of vstr rt) c)"
proof (induction cs)
  case (Cons c cs)
  obtain name co where c: "c = (name, co)" by (cases c)
  with Cons.prems obtain vs where co: "co = Some vs" by auto
  show ?case
    using Cons
    by (cases "gm_get (peers_value_of vstr rt) name")
       (auto simp: c co constraint_met_def peers_get list_ex_iff)
qed simp

lemma peers_runtimeMatchesQuery_iff:
  "no_nil_constraint q \<Longrightarrow>
   peers_runtimeMatchesQuery vstr rt q = Some (query_met (peers_value_of vstr rt) rt q)"
  by (auto simp: peers_runtimeMatchesQuery_def query_met_def peers_parametersMatch_iff list_ex_iff
      no_nil_constraint_def)

interpretation pm: runtime_matcher "\<lambda>rt q. peers_runtimeMatchesQuery vstr rt q = Some True"
  "peers_value_of vstr" no_nil_constraint for vstr
  by unfold_locales (simp add: peers_runtimeMatchesQuery_iff)

definition cpp_or_bare :: "Runtime \<Rightarrow> bool" where
  "cpp_or_bare rt = (GetGo rt = None \<and> GetRust rt = None)"

lemma peers_value_of_daemon:
  "cpp_or_bare rt \<Longrightarrow> peers_value_of vstr rt = daemon_extractRuntimeParameters vstr rt"
  by (auto simp: cpp_or_bare_def GetGo_def GetRust_def peers_value_of_def
      peers_extractRuntimeParameters_def daemon_extractRuntimeParameters_def
      split: ToolchainSpec.splits option.splits)

text \<open>C31. On runtimes that are neither Go nor Rust, and queries without nil constraints, the two
  matchers of the program agree, and the peers' one does not panic.\<close>
theorem matchers_agree:
  assumes "cpp_or_bare rt" and "no_nil_constraint q"
  shows "peers_runtimeMatchesQuery vstr rt q = Some (daemon_runtimeMatchesQuery vstr rt q)"
  using assms
  by (simp add: peers_runtimeMatchesQuery_iff daemon_runtimeMatchesQuery_iff peers_value_of_daemon)

definition bare_native :: Runtime where
  "bare_native = \<lparr>rt_id = ''r'', rt_platform = RUNTIME_PLATFORM_NATIVE_LINUX,
     rt_toolchain = RUNTIME_TOOLCHAIN_C, rt_spec = NoSpec, rt_description = None, rt_peer_ids = []\<rparr>"

definition platform_query :: RuntimeMatchQuery where
  "platform_query = \<lparr>q_platforms = [RUNTIME_PLATFORM_NATIVE_LINUX], q_toolchains = [],
     q_params = [(''toolchain'', Some [''RUNTIME_TOOLCHAIN_C'']), (''compiler'', Some [])]\<rparr>"

theorem matchers_agree_witness:
  "peers_runtimeMatchesQuery (\<lambda>_. '''') bare_native platform_query = Some True \<and>
   daemon_runtimeMatchesQuery (\<lambda>_. '''') bare_native platform_query"
proof -
  have "daemon_runtimeMatchesQuery (\<lambda>_. '''') bare_native platform_query"
    by (simp add: daemon_runtimeMatchesQuery_def daemon_extractRuntimeParameters_def bare_native_def
        platform_query_def)
  with matchers_agree [of bare_native platform_query "\<lambda>_. ''''"] show ?thesis
    by (simp add: cpp_or_bare_def no_nil_constraint_def bare_native_def platform_query_def
        GetGo_def GetRust_def)
qed

text \<open>The daemon's matcher keeps exactly the runtimes that meet every platform, toolchain and
  parameter constraint of the query, an empty or nil list of values being no constraint; the
  order in which the parameters are visited is irrelevant, and a query with more constraints
  selects a subset.\<close>
theorem daemon_Match_spec:
  "daemon_Match vstr (Some q) (rts, None) =
     Ok (filter (\<lambda>rt. query_met (daemon_extractRuntimeParameters vstr rt) rt q) rts) \<and>
   (set (q_params q') = set (q_params q) \<longrightarrow>
     daemon_Match vstr (Some (q\<lparr>q_params := q_params q'\<rparr>)) (rts, None :: 'e option) =
     daemon_Match vstr (Some q) (rts, None))"
proof -
  have "set (q_params q') = set (q_params q) \<Longrightarrow>
      daemon_runtimeMatchesQuery vstr rt (q\<lparr>q_params := q_params q'\<rparr>) =
      daemon_runtimeMatchesQuery vstr rt q" for rt
    by (rule dm.matches_order) auto
  then show ?thesis
    by (auto simp: daemon_Match_def daemon_runtimeMatchesQuery_iff)
qed

text \<open>Filtering the daemon's cached runtimes by language selects nothing, for every filter
  but the empty one: the comparison with a typed nil in matchesFilter is never true.\<close>
theorem filterRuntimes_selects_nothing:
  assumes "flt \<noteq> ''''"
  shows "filterRuntimes rts flt = []"
  using assms by (simp add: filterRuntimes_def matchesFilter_def)

theorem filterRuntimes_selects_nothing_witness:
  "\<forall>c. filterRuntimes [bare_native\<lparr>rt_spec := Runtime_Cpp (Some c)\<rparr>] ''cpp'' = []"
  by (intro allI filterRuntimes_selects_nothing) simp

theorem daemon_Match_spec_witness:
  "daemon_Match (\<lambda>_. '''') (Some (platform_query\<lparr>q_params := q_params platform_query @ q_params platform_query\<rparr>))
     ([bare_native], None :: unit option) = daemon_Match (\<lambda>_. '''') (Some platform_query) ([bare_native], None)"
proof -
  let ?q2 = "platform_query\<lparr>q_params := q_params platform_query @ q_params platform_query\<rparr>"
  have "set (q_params ?q2) = set (q_params platform_query) \<longrightarrow>
      daemon_Match (\<lambda>_. '''') (Some (platform_query\<lparr>q_params := q_params ?q2\<rparr>)) ([bare_native], None :: unit option) =
      daemon_Match (\<lambda>_. '''') (Some platform_query) ([bare_native], None)"
    by (rule daemon_Match_spec [THEN conjunct2])
  then show ?thesis by simp
qed

end
