(* ===== verification/ParMap.thy ===== *)
theory ParMap
  imports Prelude
begin

text \<open>
  The fork-join helpers of internal/utils/map.go. The goroutines of a call complete in some
  order: the argument \<open>sched\<close> is the list of the element indices in that order, a permutation of
  the indices, and each definition writes what a goroutine stores or sends when it completes.
  The transformation \<open>fn\<close> is the caller's function; its errors are values of type \<open>go_error\<close>.
\<close>

datatype 'e go_error = Single 'e | MultiError "'e go_error list"

definition AggregateErrors :: "'e go_error option list \<Rightarrow> 'e go_error option" where
  "AggregateErrors errs =
     (let nonNil = map the (filter (\<lambda>e. e \<noteq> None) errs)
      in if length nonNil = 0 then None
         else if length nonNil = 1 then Some (nonNil ! 0)
         else Some (MultiError nonNil))"

text \<open>\<open>errors.Is\<close>: an error is the target, or a MultiError one of whose errors is.\<close>

fun error_Is :: "'e go_error \<Rightarrow> 'e \<Rightarrow> bool" where
  "error_Is (Single e) target = (e = target)"
| "error_Is (MultiError es) target = list_ex (\<lambda>e. error_Is e target) es"

text \<open>\<open>errors.As\<close>, for the errors that \<open>p\<close> is a type of: the first one found.\<close>

fun error_As :: "('e \<Rightarrow> bool) \<Rightarrow> 'e go_error \<Rightarrow> 'e option"
  and errors_As :: "('e \<Rightarrow> bool) \<Rightarrow> 'e go_error list \<Rightarrow> 'e option" where
  "error_As p (Single e) = (if p e then Some e else None)"
| "error_As p (MultiError es) = errors_As p es"
| "errors_As p [] = None"
| "errors_As p (e # es) = (case error_As p e of Some x \<Rightarrow> Some x | None \<Rightarrow> errors_As p es)"

text \<open>The text of an error, given the texts of the caller's errors.\<close>

fun error_text :: "('e \<Rightarrow> string) \<Rightarrow> 'e go_error \<Rightarrow> string" where
  "error_text show_e (Single e) = show_e e"
| "error_text show_e (MultiError es) =
     (case es of
        [] \<Rightarrow> ''''
      | [e] \<Rightarrow> error_text show_e e
      | _ \<Rightarrow> format_nat (length es) @ '' errors occurred: ['' @ join_with '' '' (map (error_text show_e) es) @ '']'')"

lemma error_As_Is:
  "(\<exists>x. error_As p e = Some x) \<longleftrightarrow> (\<exists>x. p x \<and> error_Is e x)"
  "(\<exists>x. errors_As p es = Some x) \<longleftrightarrow> (\<exists>x. p x \<and> list_ex (\<lambda>e. error_Is e x) es)"
proof (induction p e and p es rule: error_As_errors_As.induct)
  case (4 p e es)
  then show ?case by (cases "error_As p e") auto
qed auto

text \<open>The schedules of a call on \<open>n\<close> elements.\<close>

definition schedule :: "nat \<Rightarrow> nat list \<Rightarrow> bool" where
  "schedule n sched = (distinct sched \<and> set sched = {..<n})"

subsection \<open>Map\<close>

text \<open>The two slices a call fills; a slot of \<open>results\<close> a goroutine has not written holds the zero
  value of the result type, here None.\<close>

definition Map_complete ::
  "('t \<Rightarrow> 'e go_error + 'u) \<Rightarrow> 't list \<Rightarrow> 'u option list \<times> 'e go_error option list \<Rightarrow> nat
    \<Rightarrow> 'u option list \<times> 'e go_error option list" where
  "Map_complete fn input st idx =
     (case st of (results, errs) \<Rightarrow>
        (case fn (input ! idx) of
           Inl e \<Rightarrow> (results, errs[idx := Some e])
         | Inr r \<Rightarrow> (results[idx := Some r], errs)))"

definition par_Map ::
  "('t \<Rightarrow> 'e go_error + 'u) \<Rightarrow> nat list \<Rightarrow> 't list \<Rightarrow> 'e go_error + 'u option list" where
  "par_Map fn sched input =
     (if length input = 0 then Ok []
      else case foldl (Map_complete fn input)
                  (replicate (length input) None, replicate (length input) None) sched of
        (results, errs) \<Rightarrow>
          (case AggregateErrors errs of Some e \<Rightarrow> Err e | None \<Rightarrow> Ok results))"

subsection \<open>FilterMap\<close>

definition FilterMap_complete ::
  "('t \<Rightarrow> 'e go_error + ('u \<times> bool)) \<Rightarrow> 't list \<Rightarrow> (nat \<times> 'u) list \<times> 'e go_error list \<Rightarrow> nat
    \<Rightarrow> (nat \<times> 'u) list \<times> 'e go_error list" where
  "FilterMap_complete fn input st idx =
     (case st of (resultsChan, errsChan) \<Rightarrow>
        (case fn (input ! idx) of
           Inl e \<Rightarrow> (resultsChan, errsChan @ [e])
         | Inr (r, include) \<Rightarrow>
             (if include then resultsChan @ [(idx, r)] else resultsChan, errsChan)))"

definition par_FilterMap ::
  "('t \<Rightarrow> 'e go_error + ('u \<times> bool)) \<Rightarrow> nat list \<Rightarrow> 't list \<Rightarrow> 'e go_error option + 'u list" where
  "par_FilterMap fn sched input =
     (if length input = 0 then Ok []
      else case foldl (FilterMap_complete fn input) ([], []) sched of
        (resultsChan, allErrs) \<Rightarrow>
          if 0 < length allErrs then Err (AggregateErrors (map Some allErrs))
          else let resultsMap = foldl (\<lambda>m (i, v). gm_put m i v) [] resultsChan
               in Ok (List.map_filter (gm_get resultsMap) [0..<length input]))"

subsection \<open>ForEach\<close>

definition par_ForEach ::
  "('t \<Rightarrow> 'e go_error option) \<Rightarrow> nat list \<Rightarrow> 't list \<Rightarrow> 'e go_error option" where
  "par_ForEach fn sched input =
     (if length input = 0 then None
      else AggregateErrors (map Some (foldl (\<lambda>errsChan idx.
        case fn (input ! idx) of None \<Rightarrow> errsChan | Some e \<Rightarrow> errsChan @ [e]) [] sched)))"

section \<open>The sequential meaning\<close>

definition errors_of :: "('t \<Rightarrow> 'e + 'u) \<Rightarrow> 't list \<Rightarrow> 'e list" where
  "errors_of fn xs = List.map_filter (\<lambda>x. case fn x of Inl e \<Rightarrow> Some e | Inr _ \<Rightarrow> None) xs"

lemma map_filter_Some: "map the (filter (\<lambda>e. e \<noteq> None) (map f xs)) = List.map_filter f xs"
  by (induction xs) (auto simp: List.map_filter_simps split: option.splits)

lemma AggregateErrors_cong:
  "map the (filter (\<lambda>e. e \<noteq> None) es) = map the (filter (\<lambda>e. e \<noteq> None) es') \<Longrightarrow>
     AggregateErrors es = AggregateErrors es'"
  by (simp only: AggregateErrors_def)

lemma nonnil_map_Some: "map the (filter (\<lambda>e. e \<noteq> None) (map Some es)) = es"
  by (induction es) auto

lemma AggregateErrors_None_iff: "AggregateErrors errs = None \<longleftrightarrow> (\<forall>e\<in>set errs. e = None)"
  by (auto simp: AggregateErrors_def Let_def filter_empty_conv)

lemma error_Is_AggregateErrors:
  "(case AggregateErrors errs of None \<Rightarrow> False | Some e \<Rightarrow> error_Is e t) \<longleftrightarrow>
     (\<exists>e\<in>set errs. \<exists>x. e = Some x \<and> error_Is x t)"
proof -
  define ne where "ne = map the (filter (\<lambda>e. e \<noteq> None) errs)"
  have mem: "x \<in> set ne \<longleftrightarrow> Some x \<in> set errs" for x
    by (auto simp: ne_def image_iff)
  have "AggregateErrors errs = (if length ne = 0 then None
      else if length ne = 1 then Some (ne ! 0) else Some (MultiError ne))"
    by (simp add: AggregateErrors_def ne_def Let_def)
  then have "(case AggregateErrors errs of None \<Rightarrow> False | Some e \<Rightarrow> error_Is e t) \<longleftrightarrow>
      (\<exists>x\<in>set ne. error_Is x t)"
    by (cases ne rule: list.exhaust; cases "tl ne") (auto simp: list_ex_iff)
  then show ?thesis using mem by blast
qed

lemma map_upt_cond: "map (\<lambda>i. if i < length xs then f (xs ! i) else c) [0..<length xs] = map f xs"
  by (rule nth_equalityI) auto

text \<open>What the two slices hold after a part of the schedule.\<close>
lemma Map_complete_foldl:
  assumes "distinct sched" "set sched \<subseteq> {..<length input}"
  shows "foldl (Map_complete fn input)
      (replicate (length input) None, replicate (length input) None) sched =
    (map (\<lambda>i. if i \<in> set sched then (case fn (input ! i) of Inl _ \<Rightarrow> None | Inr r \<Rightarrow> Some r) else None)
       [0..<length input],
     map (\<lambda>i. if i \<in> set sched then (case fn (input ! i) of Inl e \<Rightarrow> Some e | Inr _ \<Rightarrow> None) else None)
       [0..<length input])"
  using assms
proof (induction sched rule: rev_induct)
  case Nil
  then show ?case by (simp add: map_replicate_const)
next
  case (snoc j sched)
  then have j: "j < length input" "j \<notin> set sched" by auto
  show ?case
  proof (cases "fn (input ! j)")
    case (Inl e)
    with snoc j show ?thesis
      by (auto simp: Map_complete_def intro!: nth_equalityI simp: nth_list_update)
  next
    case (Inr r)
    with snoc j show ?thesis
      by (auto simp: Map_complete_def intro!: nth_equalityI simp: nth_list_update)
  qed
qed

lemma par_Map_result:
  assumes "schedule (length input) sched"
  shows "par_Map fn sched input =
    (case AggregateErrors (map Some (errors_of fn input)) of
       Some e \<Rightarrow> Err e
     | None \<Rightarrow> Ok (map (\<lambda>x. case fn x of Inl _ \<Rightarrow> None | Inr r \<Rightarrow> Some r) input))"
proof (cases "input = []")
  case True
  then show ?thesis
    by (simp add: par_Map_def errors_of_def List.map_filter_simps AggregateErrors_def)
next
  case False
  have in_sched: "i \<in> set sched \<longleftrightarrow> i < length input" for i
    using assms by (auto simp: schedule_def)
  have f: "foldl (Map_complete fn input)
      (replicate (length input) None, replicate (length input) None) sched =
      (map (\<lambda>x. case fn x of Inl _ \<Rightarrow> None | Inr r \<Rightarrow> Some r) input,
       map (\<lambda>x. case fn x of Inl e \<Rightarrow> Some e | Inr _ \<Rightarrow> None) input)"
  proof -
    have "distinct sched" "set sched \<subseteq> {..<length input}" using assms by (simp_all add: schedule_def)
    from Map_complete_foldl [OF this, of fn]
    show ?thesis
      unfolding in_sched
      by (simp only: map_upt_cond [of input "\<lambda>x. case fn x of Inl _ \<Rightarrow> None | Inr r \<Rightarrow> Some r" None]
          map_upt_cond [of input "\<lambda>x. case fn x of Inl e \<Rightarrow> Some e | Inr _ \<Rightarrow> None" None])
  qed
  have "AggregateErrors (map (\<lambda>x. case fn x of Inl e \<Rightarrow> Some e | Inr _ \<Rightarrow> None) input) =
      AggregateErrors (map Some (errors_of fn input))"
    by (rule AggregateErrors_cong)
       (simp only: nonnil_map_Some, simp only: map_filter_Some errors_of_def)
  then show ?thesis by (simp only: par_Map_def f prod.case) (simp add: False)
qed

text \<open>Map is deterministic: in whatever order its goroutines complete, it returns the results
  in the order of the input when no element fails, and otherwise the errors of the failing
  elements, in the order of the input, aggregated into one.\<close>
theorem par_Map_spec:
  assumes "schedule (length input) sched"
  shows "par_Map fn sched input =
    (case AggregateErrors (map Some (errors_of fn input)) of
       Some e \<Rightarrow> Err e
     | None \<Rightarrow> Ok (map (\<lambda>x. case fn x of Inl _ \<Rightarrow> None | Inr r \<Rightarrow> Some r) input))"
  using assms by (rule par_Map_result)

theorem par_Map_spec_witness:
  "par_Map (\<lambda>n. if n < 3 then Ok (n + 1) else Err (Single n)) [2, 0, 1] [1, 5, (2::nat)] =
     Err (Single 5)"
  by (subst par_Map_spec)
     (auto simp: schedule_def errors_of_def List.map_filter_simps AggregateErrors_def)

subsection \<open>FilterMap and ForEach\<close>

definition included :: "('t \<Rightarrow> 'e + ('u \<times> bool)) \<Rightarrow> 't \<Rightarrow> 'u option" where
  "included fn x = (case fn x of Inl _ \<Rightarrow> None | Inr (r, inc) \<Rightarrow> if inc then Some r else None)"

definition failed :: "('t \<Rightarrow> 'e + 'u) \<Rightarrow> 't \<Rightarrow> 'e option" where
  "failed fn x = (case fn x of Inl e \<Rightarrow> Some e | Inr _ \<Rightarrow> None)"

lemma errors_of_failed: "errors_of fn xs = List.map_filter (failed fn) xs"
  by (simp add: errors_of_def failed_def [abs_def])

lemma map_filter_append: "List.map_filter f (xs @ ys) = List.map_filter f xs @ List.map_filter f ys"
  by (simp add: List.map_filter_def)

lemma map_filter_mset: "mset xs = mset ys \<Longrightarrow> mset (List.map_filter f xs) = mset (List.map_filter f ys)"
  by (simp add: List.map_filter_def)

lemma map_filter_nth: "List.map_filter (\<lambda>i. f (xs ! i)) [0..<length xs] = List.map_filter f xs"
proof -
  have "List.map_filter (\<lambda>i. f (xs ! i)) is = List.map_filter f (map ((!) xs) is)" for "is"
    by (induction "is") (auto simp: List.map_filter_simps split: option.splits)
  then show ?thesis by (simp add: map_nth)
qed

lemma FilterMap_complete_foldl:
  "foldl (FilterMap_complete fn input) ([], []) sched =
     (List.map_filter (\<lambda>i. map_option (\<lambda>r. (i, r)) (included fn (input ! i))) sched,
      List.map_filter (\<lambda>i. failed fn (input ! i)) sched)"
  by (induction sched rule: rev_induct)
     (auto simp: FilterMap_complete_def included_def failed_def map_filter_append
       List.map_filter_simps split: sum.split prod.split)

lemma collected_get:
  "gm_get (foldl (\<lambda>m (i, v). gm_put m i v) []
      (List.map_filter (\<lambda>i. map_option (\<lambda>r. (i, r)) (f i)) sched)) i =
   (if i \<in> set sched then f i else None)"
  by (induction sched rule: rev_induct)
     (auto simp: map_filter_append List.map_filter_simps split: option.split)

lemma schedule_mset: "schedule n sched \<Longrightarrow> mset sched = mset [0..<n]"
  using set_eq_iff_mset_eq_distinct [of sched "[0..<n]"]
  by (simp add: schedule_def atLeast0LessThan)

lemma schedule_errors:
  "schedule (length input) sched \<Longrightarrow>
     mset (List.map_filter (\<lambda>i. failed fn (input ! i)) sched) = mset (errors_of fn input)"
  using map_filter_mset [OF schedule_mset, of "length input" sched "\<lambda>i. failed fn (input ! i)"]
  by (simp only: map_filter_nth errors_of_failed)

text \<open>FilterMap returns the values of the included elements in the order of the input, in
  whatever order the goroutines complete; when some elements fail it returns all their errors
  aggregated, in some order.\<close>
theorem par_FilterMap_spec:
  assumes "schedule (length input) sched"
  shows "if errors_of fn input = []
    then par_FilterMap fn sched input = Ok (List.map_filter (included fn) input)
    else \<exists>es. mset es = mset (errors_of fn input) \<and>
           par_FilterMap fn sched input = Err (AggregateErrors (map Some es))"
proof (cases "input = []")
  case True
  then show ?thesis by (simp add: par_FilterMap_def errors_of_def List.map_filter_simps)
next
  case False
  define es where "es = List.map_filter (\<lambda>i. failed fn (input ! i)) sched"
  have es: "mset es = mset (errors_of fn input)"
    using schedule_errors [OF assms, of fn] by (simp only: es_def)
  have all: "\<forall>i\<in>set [0..<length input]. i \<in> set sched"
    using assms by (simp add: schedule_def)
  show ?thesis
  proof (cases "errors_of fn input = []")
    case no_err: True
    with es have "es = []" by simp
    moreover have "List.map_filter (\<lambda>i. if i \<in> set sched then included fn (input ! i) else None)
        [0..<length input] = List.map_filter (included fn) input"
    proof -
      have "List.map_filter (\<lambda>i. if i \<in> set sched then included fn (input ! i) else None) [0..<length input]
          = List.map_filter (\<lambda>i. included fn (input ! i)) [0..<length input]"
        unfolding List.map_filter_def using all by (intro map_cong filter_cong) auto
      then show ?thesis by (simp only: map_filter_nth)
    qed
    ultimately show ?thesis
      using no_err False
      by (simp add: par_FilterMap_def FilterMap_complete_foldl es_def [symmetric]
          collected_get [abs_def, of "\<lambda>i. included fn (input ! i)", simplified, abs_def] Let_def)
  next
    case err: False
    with es have "es \<noteq> []" by auto
    then have "par_FilterMap fn sched input = Err (AggregateErrors (map Some es))"
      using False by (simp add: par_FilterMap_def FilterMap_complete_foldl es_def [symmetric])
    with es err show ?thesis by auto
  qed
qed

theorem par_FilterMap_spec_witness:
  "par_FilterMap (\<lambda>n. if n < 9 then Ok (n, odd n) else Err (Single n)) [2, 0, 1] [1, 2, (3::nat)] =
     Ok [1, 3]"
proof -
  have "schedule (length [1, 2, 3::nat]) [2, 0, 1]"
    by (simp add: schedule_def) auto
  from par_FilterMap_spec [OF this, of "\<lambda>n. if n < 9 then Ok (n, odd n) else Err (Single n)"]
  show ?thesis
    by (simp add: errors_of_def included_def List.map_filter_simps)
qed

lemma par_ForEach_collect:
  "foldl (\<lambda>errsChan idx. case fn (input ! idx) of None \<Rightarrow> errsChan | Some e \<Rightarrow> errsChan @ [e]) [] sched =
     List.map_filter (\<lambda>i. fn (input ! i)) sched"
  by (induction sched rule: rev_induct)
     (auto simp: map_filter_append List.map_filter_simps split: option.split)

lemma all_None_map_Some: "(\<forall>e\<in>set (map Some es). e = None) \<longleftrightarrow> es = []"
  by (cases es) auto

lemma map_filter_Nil_iff: "List.map_filter g xs = [] \<longleftrightarrow> (\<forall>x\<in>set xs. g x = None)"
  by (auto simp: List.map_filter_def filter_empty_conv)

text \<open>ForEach succeeds exactly when every element does, and reports every error.\<close>
lemma par_ForEach_None_iff:
  assumes "schedule (length input) sched"
  shows "par_ForEach fn sched input = None \<longleftrightarrow> (\<forall>x\<in>set input. fn x = None)"
proof -
  have "set sched = {..<length input}" using assms by (simp add: schedule_def)
  then have "(\<forall>i\<in>set sched. fn (input ! i) = None) \<longleftrightarrow> (\<forall>x\<in>set input. fn x = None)"
    by (simp add: all_set_conv_all_nth [of input] Ball_def [of "{..<length input}"])
  then show ?thesis
    by (simp add: par_ForEach_def par_ForEach_collect AggregateErrors_None_iff all_None_map_Some
        map_filter_Nil_iff del: set_map)
qed

end
