(* ===== verification/RuntimeManagers.thy ===== *)
theory RuntimeManagers
  imports Peers NativeRuntime RuntimeMatch RuntimeRegistry ParMap
begin

text \<open>
  The runtime managers (pkg/runtimes/manager.go, pkg/runtimes/remote/manager.go) and the RPC
  service over them (pkg/runtimes/service.go): the local manager and its cache, the remote
  manager that asks every peer, and the aggregated manager that merges the two. The RPC calls
  to the peers, and the discovery of the toolchains installed on the machine, are arguments.
\<close>

section \<open>Executable runtimes\<close>

text \<open>A runtime.Runtime of the program: the native one, or the stub of a peer's runtime (inside
  the input-embedding sandbox, which forwards the methods used here).\<close>

datatype RuntimeImpl = NativeImpl Toolchain | RemoteImpl Runtime string

fun impl_RuntimeID :: "RuntimeImpl \<Rightarrow> string" where
  "impl_RuntimeID (NativeImpl t) = NativeRuntimeID t"
| "impl_RuntimeID (RemoteImpl rt peer) = rt_id rt"

fun impl_Proto :: "RuntimeImpl \<Rightarrow> Runtime" where
  "impl_Proto (NativeImpl t) = NativeProto t"
| "impl_Proto (RemoteImpl rt peer) = rt"

section \<open>The local manager\<close>

record 'e LocalRuntimesManager =
  lrm_runtimes :: "RuntimeImpl list"
  lrm_notes :: string
  lrm_last_err :: "'e option"
  lrm_detected_at :: "int option"
  lrm_is_detecting :: bool

definition NewLocalRuntimesManager :: "'e LocalRuntimesManager" where
  "NewLocalRuntimesManager = \<lparr>lrm_runtimes = [], lrm_notes = '''', lrm_last_err = None,
     lrm_detected_at = None, lrm_is_detecting = False\<rparr>"

definition detectRuntimesSuper ::
  "(RuntimeImpl, 'd) Discoverer list \<Rightarrow> RuntimeImpl list \<times> string \<times> 'e option" where
  "detectRuntimesSuper discoverers =
     (let reg = snd (multiDiscoverer_Discover discoverers NewRegistry);
          found = Registry_All reg
      in if length found = 0 then (found, ''No runtimes detected on system'', None)
         else (found, ''Runtime detection complete'', None))"

text \<open>The steps of a detection, as other calls may run between them: it is marked as running, then
  its result is cached, then the mark is removed.\<close>

definition local_begin_detect :: "'e LocalRuntimesManager \<Rightarrow> 'e LocalRuntimesManager" where
  "local_begin_detect m = m\<lparr>lrm_is_detecting := True\<rparr>"

definition local_cache_result ::
  "int \<Rightarrow> RuntimeImpl list \<times> string \<times> 'e option \<Rightarrow> 'e LocalRuntimesManager \<Rightarrow> 'e LocalRuntimesManager" where
  "local_cache_result now res m =
     (case res of (rts, notes, err) \<Rightarrow>
        m\<lparr>lrm_runtimes := rts, lrm_notes := notes, lrm_last_err := err, lrm_detected_at := Some now\<rparr>)"

definition local_end_detect :: "'e LocalRuntimesManager \<Rightarrow> 'e LocalRuntimesManager" where
  "local_end_detect m = m\<lparr>lrm_is_detecting := False\<rparr>"

definition local_cached :: "'e LocalRuntimesManager \<Rightarrow> RuntimeImpl list \<times> string \<times> 'e option" where
  "local_cached m = (lrm_runtimes m, lrm_notes m, lrm_last_err m)"

text \<open>GetRuntimes run to its end with no other call in between; None means that it waits for the
  detection another call is running.\<close>

definition local_GetRuntimes ::
  "int \<Rightarrow> (RuntimeImpl, 'd) Discoverer list \<Rightarrow> 'e LocalRuntimesManager
    \<Rightarrow> (RuntimeImpl list \<times> string \<times> 'e option) option \<times> 'e LocalRuntimesManager" where
  "local_GetRuntimes now ds m =
     (if lrm_detected_at m \<noteq> None then (Some (local_cached m), m)
      else if lrm_is_detecting m then (None, m)
      else let res = detectRuntimesSuper ds
           in (Some res, local_end_detect (local_cache_result now res (local_begin_detect m))))"

text \<open>The other methods, as functions of what GetRuntimes returned.\<close>

definition local_ListRuntimes ::
  "RuntimeImpl list \<times> string \<times> 'e option \<Rightarrow> Runtime list \<times> string \<times> 'e option" where
  "local_ListRuntimes got =
     (case got of (rts, notes, err) \<Rightarrow>
        (case err of Some e \<Rightarrow> ([], notes, Some e) | None \<Rightarrow> (map impl_Proto rts, notes, None)))"

definition local_GetRuntimeByID ::
  "string \<Rightarrow> RuntimeImpl list \<times> string \<times> 'e option \<Rightarrow> 'e + RuntimeImpl option" where
  "local_GetRuntimeByID rid got =
     (case got of (rts, notes, err) \<Rightarrow>
        (case err of Some e \<Rightarrow> Err e
         | None \<Rightarrow> Ok (List.find (\<lambda>rt. impl_RuntimeID rt = rid) rts)))"

text \<open>The runtimes that match; a runtime whose check fails is skipped. None is a panic.\<close>

fun local_match_loop ::
  "(RuntimeImpl \<Rightarrow> RuntimeMatchQuery \<Rightarrow> (native_error + bool) option) \<Rightarrow> RuntimeMatchQuery
    \<Rightarrow> RuntimeImpl list \<Rightarrow> Runtime list option" where
  "local_match_loop matches q [] = Some []"
| "local_match_loop matches q (rt # rts) =
     (case matches rt q of
        None \<Rightarrow> None
      | Some res \<Rightarrow>
          (case local_match_loop matches q rts of
             None \<Rightarrow> None
           | Some rest \<Rightarrow>
               Some (case res of Inl _ \<Rightarrow> rest | Inr b \<Rightarrow> if b then impl_Proto rt # rest else rest)))"

datatype 'e manager_error = ManagerErr 'e | MatchQueryNil | PeerManagerMissing | RemoteNotFound string

definition local_Match ::
  "(RuntimeImpl \<Rightarrow> RuntimeMatchQuery \<Rightarrow> (native_error + bool) option) \<Rightarrow> RuntimeMatchQuery option
    \<Rightarrow> RuntimeImpl list \<times> string \<times> 'e option \<Rightarrow> ('e manager_error + Runtime list) option" where
  "local_Match matches query got =
     (case got of (rts, notes, err) \<Rightarrow>
        (case err of Some e \<Rightarrow> Some (Err (ManagerErr e))
         | None \<Rightarrow> (case query of None \<Rightarrow> Some (Err MatchQueryNil)
            | Some q \<Rightarrow> map_option Ok (local_match_loop matches q rts))))"

section \<open>The remote manager\<close>

definition filterRemotePeers :: "PeerInfo list \<Rightarrow> PeerInfo list" where
  "filterRemotePeers ps = filter (\<lambda>p. \<not> pi_is_local p) ps"

text \<open>Map's result as Go sees it: on an error the slice of results is nil.\<close>

definition go_results :: "'e + 'u option list \<Rightarrow> 'u option list \<times> 'e option" where
  "go_results r = (case r of Inl e \<Rightarrow> ([], Some e) | Inr rs \<Rightarrow> (rs, None))"

definition peer_runtimes :: "Runtime list option list \<Rightarrow> Runtime list" where
  "peer_runtimes results = concat (map (\<lambda>r. case r of None \<Rightarrow> [] | Some rts \<Rightarrow> rts) results)"

definition success_count :: "Runtime list option list \<Rightarrow> nat" where
  "success_count results =
     length (filter (\<lambda>r. case r of None \<Rightarrow> False | Some rts \<Rightarrow> 0 < length rts) results)"

definition remote_ListRuntimes ::
  "(PeerInfo \<Rightarrow> 'e go_error + Runtime list) \<Rightarrow> nat list \<Rightarrow> PeerManager option
    \<Rightarrow> Runtime list \<times> string \<times> 'e go_error option" where
  "remote_ListRuntimes rpc sched pmo =
     (case pmo of
        None \<Rightarrow> ([], ''No peer manager configured'', None)
      | Some pm \<Rightarrow>
          (let remotePeers = filterRemotePeers (GetAllPeersIncludingLocal pm)
           in if length remotePeers = 0 then ([], ''No remote peers available'', None)
              else case go_results (par_Map rpc sched remotePeers) of (results, mapErr) \<Rightarrow>
                (let allRuntimes = peer_runtimes results;
                     successCount = success_count results;
                     notes = ''Retrieved '' @ format_nat (length allRuntimes) @ '' runtimes from ''
                       @ format_nat successCount @ ''/'' @ format_nat (length remotePeers)
                       @ '' remote peers''
                 in if successCount = 0 \<and> mapErr \<noteq> None then ([], notes, mapErr)
                    else (allRuntimes, notes, None))))"

text \<open>The runtimes of the peers as runtimes of this daemon: each is wrapped with the identifier of the peer that
  offered it.\<close>

definition named_answer ::
  "(PeerInfo \<Rightarrow> 'e go_error + Runtime list) \<Rightarrow> PeerInfo \<Rightarrow> 'e go_error + string \<times> Runtime list" where
  "named_answer rpc peer = (case rpc peer of Inl e \<Rightarrow> Err e | Inr rts \<Rightarrow> Ok (pi_id peer, rts))"

definition wrap_answers :: "(string \<times> Runtime list) option list \<Rightarrow> RuntimeImpl list" where
  "wrap_answers results =
     concat (map (\<lambda>r. case r of None \<Rightarrow> [] | Some (peerId, rts) \<Rightarrow> map (\<lambda>rt. RemoteImpl rt peerId) rts) results)"

definition remote_GetRuntimes ::
  "(PeerInfo \<Rightarrow> 'e go_error + Runtime list) \<Rightarrow> nat list \<Rightarrow> PeerManager option
    \<Rightarrow> RuntimeImpl list \<times> string \<times> 'e go_error manager_error option" where
  "remote_GetRuntimes rpc sched pmo =
     (case pmo of
        None \<Rightarrow> ([], '''', Some PeerManagerMissing)
      | Some pm \<Rightarrow>
          (let remotePeers = filterRemotePeers (GetAllPeersIncludingLocal pm)
           in if length remotePeers = 0 then ([], ''No remote peers available'', None)
              else case go_results (par_Map (named_answer rpc) sched remotePeers) of (results, mapErr) \<Rightarrow>
                (let allRuntimes = wrap_answers results;
                     successCount = success_count (map (map_option snd) results);
                     notes = ''Created runtime implementations from '' @ format_nat (length allRuntimes)
                       @ ''/'' @ format_nat successCount @ '' remote peers''
                 in (case mapErr of
                       Some e \<Rightarrow> if successCount = 0 then ([], notes, Some (ManagerErr e)) else (allRuntimes, notes, None)
                     | None \<Rightarrow> (allRuntimes, notes, None)))))"

definition remote_Match ::
  "(PeerInfo \<Rightarrow> RuntimeMatchQuery \<Rightarrow> 'e go_error + Runtime list) \<Rightarrow> nat list
    \<Rightarrow> PeerManager option \<Rightarrow> RuntimeMatchQuery option
    \<Rightarrow> 'e go_error manager_error + Runtime list" where
  "remote_Match rpc sched pmo query =
     (case query of
        None \<Rightarrow> Err MatchQueryNil
      | Some q \<Rightarrow> (case pmo of
          None \<Rightarrow> Err PeerManagerMissing
        | Some pm \<Rightarrow>
            (let remotePeers = filterRemotePeers (GetAllPeersIncludingLocal pm)
             in if length remotePeers = 0 then Ok []
                else case go_results (par_Map (\<lambda>p. rpc p q) sched remotePeers) of
                  (results, mapErr) \<Rightarrow>
                    (case mapErr of
                       Some e \<Rightarrow> if success_count results = 0 then Err (ManagerErr e)
                                 else Ok (peer_runtimes results)
                     | None \<Rightarrow> Ok (peer_runtimes results)))))"

text \<open>The answer of a peer to GetRuntime: an RPC error, or a message whose runtime and whose error
  text may be missing.\<close>

record GetRuntimeResponse =
  grr_runtime :: "Runtime option"
  grr_error :: "string option"

text \<open>NewRemoteRuntime reads the identifier of the message it wraps: a nil one is a panic (None).\<close>

definition NewRemoteRuntime :: "Runtime option \<Rightarrow> string \<Rightarrow> RuntimeImpl option" where
  "NewRemoteRuntime proto peerId = map_option (\<lambda>rt. RemoteImpl rt peerId) proto"

definition remote_search ::
  "(PeerInfo \<Rightarrow> string \<Rightarrow> 'e + GetRuntimeResponse) \<Rightarrow> string \<Rightarrow> PeerInfo
    \<Rightarrow> 'e go_error + (string \<times> Runtime option \<times> bool)" where
  "remote_search rpc rid peer =
     (case rpc peer rid of
        Inl _ \<Rightarrow> Ok (pi_id peer, None, False)
      | Inr resp \<Rightarrow> Ok (pi_id peer, grr_runtime resp, True))"

definition remote_GetRuntimeByID ::
  "(PeerInfo \<Rightarrow> string \<Rightarrow> 'e + GetRuntimeResponse) \<Rightarrow> nat list \<Rightarrow> PeerManager option \<Rightarrow> string
    \<Rightarrow> ('e manager_error + RuntimeImpl) option" where
  "remote_GetRuntimeByID rpc sched pmo rid =
     (case pmo of
        None \<Rightarrow> Some (Err PeerManagerMissing)
      | Some pm \<Rightarrow>
          (let remotePeers = filterRemotePeers (GetAllPeersIncludingLocal pm);
               results = List.map_filter id
                 (fst (go_results (par_Map (remote_search rpc rid) sched remotePeers)))
           in case List.find (\<lambda>(peerId, rt, found). found) results of
                None \<Rightarrow> Some (Err (RemoteNotFound rid))
              | Some (peerId, rt, found) \<Rightarrow> map_option Ok (NewRemoteRuntime rt peerId)))"

section \<open>The aggregated manager\<close>

text \<open>\<open>string(rune(n))\<close>: the UTF-8 encoding of the code point n.\<close>

definition rune_string :: "nat \<Rightarrow> string" where
  "rune_string n =
     (if n < 128 then [char_of n]
      else if n < 2048 then [char_of (192 + n div 64), char_of (128 + n mod 64)]
      else if 55296 \<le> n \<and> n < 57344 \<or> 1114112 \<le> n
      then [char_of (239::nat), char_of (191::nat), char_of (189::nat)]
      else if n < 65536
      then [char_of (224 + n div 4096), char_of (128 + n div 64 mod 64), char_of (128 + n mod 64)]
      else [char_of (240 + n div 262144), char_of (128 + n div 4096 mod 64),
            char_of (128 + n div 64 mod 64), char_of (128 + n mod 64)])"

text \<open>The peer identifiers of a remote runtime added to those of the runtime already known; \<open>seen\<close>
  is the set the loop keeps.\<close>

fun merge_peer_ids :: "string list \<Rightarrow> string set \<Rightarrow> string list \<Rightarrow> string list" where
  "merge_peer_ids ids seen [] = ids"
| "merge_peer_ids ids seen (pid # pids) =
     (if pid \<in> seen then merge_peer_ids ids seen pids
      else merge_peer_ids (ids @ [pid]) (insert pid seen) pids)"

definition add_local_runtime ::
  "(string, Runtime) gomap \<Rightarrow> Runtime option \<Rightarrow> (string, Runtime) gomap" where
  "add_local_runtime m rto =
     (case rto of None \<Rightarrow> m
      | Some rt \<Rightarrow> if rt_id rt \<noteq> '''' then gm_put m (rt_id rt) rt else m)"

definition add_remote_runtime ::
  "(string, Runtime) gomap \<Rightarrow> Runtime option \<Rightarrow> (string, Runtime) gomap" where
  "add_remote_runtime m rto =
     (case rto of None \<Rightarrow> m
      | Some rt \<Rightarrow>
          if rt_id rt \<noteq> ''''
          then (case gm_get m (rt_id rt) of
                  Some existing \<Rightarrow>
                    gm_put m (rt_id rt) (existing\<lparr>rt_peer_ids :=
                      merge_peer_ids (rt_peer_ids existing) (set (rt_peer_ids existing)) (rt_peer_ids rt)\<rparr>)
                | None \<Rightarrow> gm_put m (rt_id rt) rt)
          else m)"

definition agg_ListRuntimes ::
  "Runtime option list \<times> string \<times> 'e option \<Rightarrow> Runtime option list
    \<Rightarrow> Runtime list \<times> string \<times> 'e option" where
  "agg_ListRuntimes localRes remoteProtos =
     (case localRes of (localProtos, localNotes, localErr) \<Rightarrow>
       (let m1 = foldl add_local_runtime [] localProtos;
            m2 = foldl add_remote_runtime m1 remoteProtos;
            allRuntimes = map snd m2;
            notes = (if length localProtos < length m2
              then localNotes @ '' (includes '' @ rune_string (length allRuntimes - length localProtos)
                     @ '' peer runtimes)''
              else localNotes)
        in (allRuntimes, notes, localErr)))"

definition agg_Match ::
  "Runtime list \<times> 'e option \<Rightarrow> Runtime list \<times> 'e option \<Rightarrow> Runtime list \<times> 'e option" where
  "agg_Match localRes remoteRes =
     (case (localRes, remoteRes) of ((localMatches, localErr), (remoteMatches, remoteErr)) \<Rightarrow>
       (let m1 = foldl (\<lambda>m rt. gm_put m (rt_id rt) rt) [] localMatches;
            m2 = foldl (\<lambda>m rt. if gm_get m (rt_id rt) \<noteq> None then m else gm_put m (rt_id rt) rt)
                   m1 remoteMatches;
            aggregated = map snd m2
        in if localErr \<noteq> None \<and> remoteErr \<noteq> None then (aggregated, localErr) else (aggregated, None)))"

text \<open>GetRuntimes and GetRuntimeByID of the aggregated manager are the local manager's.\<close>

definition agg_GetRuntimes ::
  "int \<Rightarrow> (RuntimeImpl, 'd) Discoverer list \<Rightarrow> 'e LocalRuntimesManager
    \<Rightarrow> (RuntimeImpl list \<times> string \<times> 'e option) option \<times> 'e LocalRuntimesManager" where
  "agg_GetRuntimes now ds localManager = local_GetRuntimes now ds localManager"

definition agg_GetRuntimeByID ::
  "string \<Rightarrow> RuntimeImpl list \<times> string \<times> 'e option \<Rightarrow> 'e + RuntimeImpl option" where
  "agg_GetRuntimeByID rid got = local_GetRuntimeByID rid got"

section \<open>The RPC service\<close>

datatype ManagerKind = LocalManager | AggregatedOverLocal | OtherManager

definition service_GetRuntime ::
  "ManagerKind \<Rightarrow> ('e \<Rightarrow> string) \<Rightarrow> string \<Rightarrow> 'e + RuntimeImpl option \<Rightarrow> GetRuntimeResponse" where
  "service_GetRuntime kind err_text rid looked_up =
     (case looked_up of
        Inl e \<Rightarrow> \<lparr>grr_runtime = None, grr_error = Some (err_text e)\<rparr>
      | Inr None \<Rightarrow> \<lparr>grr_runtime = None, grr_error = Some (''runtime not found: '' @ rid)\<rparr>
      | Inr (Some rt) \<Rightarrow>
          (if kind = OtherManager
           then \<lparr>grr_runtime = None,
                 grr_error = Some ''runtime manager does not support runtime details conversion''\<rparr>
           else \<lparr>grr_runtime = Some (impl_Proto rt), grr_error = None\<rparr>))"

text \<open>ListRuntimes answers an error in the notes, not as an RPC error.\<close>

definition service_ListRuntimes ::
  "('e \<Rightarrow> string) \<Rightarrow> Runtime list \<times> string \<times> 'e option \<Rightarrow> Runtime list \<times> string" where
  "service_ListRuntimes err_text listed =
     (case listed of (rts, notes, err) \<Rightarrow>
        (case err of Some e \<Rightarrow> (rts, notes @ '' (error during discovery: '' @ err_text e @ '')'')
         | None \<Rightarrow> (rts, notes)))"

record MatchRuntimesResponse =
  mrr_runtimes :: "Runtime list"
  mrr_notes :: string
  mrr_error :: "string option"

definition service_Match ::
  "('e \<Rightarrow> string) \<Rightarrow> (RuntimeMatchQuery \<Rightarrow> Runtime list \<times> 'e option) \<Rightarrow> RuntimeMatchQuery option
    \<Rightarrow> MatchRuntimesResponse" where
  "service_Match err_text mgr_match query =
     (case query of
        None \<Rightarrow> \<lparr>mrr_runtimes = [], mrr_notes = ''invalid request: query cannot be nil'',
                 mrr_error = Some ''query is required''\<rparr>
      | Some q \<Rightarrow> (case mgr_match q of (matches, err) \<Rightarrow>
          (case err of
             Some e \<Rightarrow> \<lparr>mrr_runtimes = matches, mrr_notes = ''matching completed with errors'',
                        mrr_error = Some (err_text e)\<rparr>
           | None \<Rightarrow> \<lparr>mrr_runtimes = matches, mrr_notes = ''matching completed successfully'',
                      mrr_error = None\<rparr>)))"

section \<open>Merging local and remote runtimes\<close>

lemma merge_peer_ids_set: "set (merge_peer_ids ids (set ids) ps) = set ids \<union> set ps"
proof (induction ps arbitrary: ids)
  case (Cons p ps)
  from Cons.IH [of ids] Cons.IH [of "ids @ [p]"] show ?case by auto
qed simp

lemma merge_peer_ids_distinct:
  "distinct ids \<Longrightarrow> distinct (merge_peer_ids ids (set ids) ps)"
proof (induction ps arbitrary: ids)
  case (Cons p ps)
  from Cons.IH [of ids] Cons.IH [of "ids @ [p]"] Cons.prems show ?case by auto
qed simp

definition ids_of :: "Runtime option list \<Rightarrow> string set" where
  "ids_of xs = {rt_id rt |rt. Some rt \<in> set xs \<and> rt_id rt \<noteq> ''''}"

definition peers_for :: "Runtime option list \<Rightarrow> string \<Rightarrow> string set" where
  "peers_for xs k = {pid. \<exists>rt. Some rt \<in> set xs \<and> rt_id rt = k \<and> pid \<in> set (rt_peer_ids rt)}"

lemma ids_of_append: "ids_of (xs @ ys) = ids_of xs \<union> ids_of ys"
  by (auto simp: ids_of_def)

lemma ids_of_single: "ids_of [x] = (case x of None \<Rightarrow> {} | Some rt \<Rightarrow> {rt_id rt} - {''''})"
  by (auto simp: ids_of_def split: option.split)

lemma peers_for_append: "peers_for (xs @ ys) k = peers_for xs k \<union> peers_for ys k"
  by (auto simp: peers_for_def)

lemma peers_for_single:
  "peers_for [x] k = (case x of None \<Rightarrow> {} | Some rt \<Rightarrow> if rt_id rt = k then set (rt_peer_ids rt) else {})"
  by (auto simp: peers_for_def split: option.split)

text \<open>The map the aggregation builds, for the runtimes added so far.\<close>

definition agg_entry ::
  "Runtime option list \<Rightarrow> Runtime option list \<Rightarrow> string \<Rightarrow> Runtime \<Rightarrow> bool" where
  "agg_entry ls rs k r = (rt_id r = k \<and> peers_for rs k \<subseteq> set (rt_peer_ids r) \<and>
     set (rt_peer_ids r) \<subseteq> peers_for ls k \<union> peers_for rs k)"

definition agg_map_ok ::
  "Runtime option list \<Rightarrow> Runtime option list \<Rightarrow> (string, Runtime) gomap \<Rightarrow> bool" where
  "agg_map_ok ls rs m =
     (gm_ok m \<and> set (gm_keys m) = ids_of ls \<union> ids_of rs \<and>
      (\<forall>k r. gm_get m k = Some r \<longrightarrow> agg_entry ls rs k r))"

lemma peers_for_skip:
  "(\<And>rt. x = Some rt \<Longrightarrow> rt_id rt \<noteq> k) \<Longrightarrow> peers_for (xs @ [x]) k = peers_for xs k"
  by (auto simp: peers_for_append peers_for_single split: option.split)

lemma ids_of_skip:
  "(\<And>rt. x = Some rt \<Longrightarrow> rt_id rt = []) \<Longrightarrow> ids_of (xs @ [x]) = ids_of xs"
  by (auto simp: ids_of_append ids_of_single split: option.split)

lemma ids_of_add: "rt_id rt \<noteq> [] \<Longrightarrow> ids_of (xs @ [Some rt]) = insert (rt_id rt) (ids_of xs)"
  by (auto simp: ids_of_append ids_of_single)

lemma agg_map_key:
  "agg_map_ok ls rs m \<Longrightarrow> gm_get m k = Some r \<Longrightarrow> k \<noteq> []"
proof -
  assume ok: "agg_map_ok ls rs m" and "gm_get m k = Some r"
  then have "k \<in> set (gm_keys m)" by (metis gm_get_None_iff option.distinct(1))
  with ok show ?thesis by (auto simp: agg_map_ok_def ids_of_def)
qed

lemma agg_map_ok_local:
  assumes "agg_map_ok ls [] m"
  shows "agg_map_ok (ls @ [x]) [] (add_local_runtime m x)"
proof (cases "\<exists>rt. x = Some rt \<and> rt_id rt \<noteq> []")
  case True
  then obtain rt where x: "x = Some rt" "rt_id rt \<noteq> []" by blast
  have e: "peers_for [] k = {}" for k by (simp add: peers_for_def)
  have mono: "agg_entry ls [] k r \<Longrightarrow> agg_entry (ls @ [x]) [] k r" for k r
    by (auto simp: agg_entry_def e peers_for_append)
  have new: "agg_entry (ls @ [x]) [] (rt_id rt) rt"
    by (simp add: agg_entry_def e peers_for_append peers_for_single x)
  have "ids_of (ls @ [x]) = insert (rt_id rt) (ids_of ls)" using ids_of_add x by simp
  with assms mono new x show ?thesis
    by (simp add: add_local_runtime_def agg_map_ok_def)
next
  case False
  then have same: "add_local_runtime m x = m" and ids: "ids_of (ls @ [x]) = ids_of ls"
    by (auto simp: add_local_runtime_def ids_of_skip split: option.split)
  have "agg_entry (ls @ [x]) [] k r" if "gm_get m k = Some r" for k r
  proof -
    have "peers_for (ls @ [x]) k = peers_for ls k"
      using False agg_map_key [OF assms that] by (intro peers_for_skip) auto
    with assms that show ?thesis by (auto simp: agg_map_ok_def agg_entry_def)
  qed
  with assms show ?thesis by (simp add: same agg_map_ok_def ids)
qed

lemma agg_map_ok_remote:
  assumes "agg_map_ok ls rs m"
  shows "agg_map_ok ls (rs @ [x]) (add_remote_runtime m x)"
proof (cases "\<exists>rt. x = Some rt \<and> rt_id rt \<noteq> []")
  case True
  then obtain rt where x: "x = Some rt" "rt_id rt \<noteq> []" by blast
  define v where "v = (case gm_get m (rt_id rt) of
      Some old \<Rightarrow> old\<lparr>rt_peer_ids := merge_peer_ids (rt_peer_ids old) (set (rt_peer_ids old)) (rt_peer_ids rt)\<rparr>
    | None \<Rightarrow> rt)"
  have add: "add_remote_runtime m x = gm_put m (rt_id rt) v"
    using x by (simp add: add_remote_runtime_def v_def split: option.split)
  have v: "agg_entry ls (rs @ [x]) (rt_id rt) v"
  proof (cases "gm_get m (rt_id rt)")
    case None
    then have "rt_id rt \<notin> set (gm_keys m)" by (simp add: gm_get_None_iff)
    then have "rt_id rt \<notin> ids_of rs" using assms by (auto simp: agg_map_ok_def)
    then have "peers_for rs (rt_id rt) = {}" using x by (auto simp: peers_for_def ids_of_def)
    with None show ?thesis by (simp add: v_def agg_entry_def peers_for_append peers_for_single x)
  next
    case (Some old)
    with assms have "agg_entry ls rs (rt_id rt) old" by (simp add: agg_map_ok_def)
    with Some show ?thesis
      by (auto simp: v_def agg_entry_def peers_for_append peers_for_single x merge_peer_ids_set)
  qed
  have "agg_entry ls (rs @ [x]) k r" if "gm_get m k = Some r" "k \<noteq> rt_id rt" for k r
  proof -
    have "peers_for (rs @ [x]) k = peers_for rs k" using that(2) x by (intro peers_for_skip) auto
    with assms that show ?thesis by (auto simp: agg_map_ok_def agg_entry_def)
  qed
  moreover have "ids_of (rs @ [x]) = insert (rt_id rt) (ids_of rs)" using ids_of_add x by simp
  ultimately show ?thesis using assms v by (simp add: agg_map_ok_def add)
next
  case False
  then have same: "add_remote_runtime m x = m" and ids: "ids_of (rs @ [x]) = ids_of rs"
    by (auto simp: add_remote_runtime_def ids_of_skip split: option.split)
  have "agg_entry ls (rs @ [x]) k r" if "gm_get m k = Some r" for k r
  proof -
    have "peers_for (rs @ [x]) k = peers_for rs k"
      using False agg_map_key [OF assms that] by (intro peers_for_skip) auto
    with assms that show ?thesis by (auto simp: agg_map_ok_def agg_entry_def)
  qed
  with assms show ?thesis by (simp add: same agg_map_ok_def ids)
qed

lemma agg_map_ok_final:
  "agg_map_ok ls rs (foldl add_remote_runtime (foldl add_local_runtime [] ls) rs)"
proof (induction rs rule: rev_induct)
  case Nil
  show ?case
  proof (induction ls rule: rev_induct)
    case Nil
    show ?case by (simp add: agg_map_ok_def ids_of_def)
  next
    case (snoc x ls)
    from agg_map_ok_local [OF snoc [simplified]] show ?case by simp
  qed
next
  case (snoc x rs)
  from agg_map_ok_remote [OF snoc] show ?case by simp
qed

text \<open>The aggregated listing has every identifier of a local or remote runtime exactly once, and
  nothing else (runtimes without identifier are dropped); the runtime listed under it names
  every peer a remote entry of that identifier named, and no peer that none of its entries did.
  A failure of the remote side is not reported.\<close>
theorem agg_ListRuntimes_spec:
  assumes "agg_ListRuntimes (locals, notes, err) remotes = (res, notes', err')"
  shows "distinct (map rt_id res) \<and> set (map rt_id res) = ids_of locals \<union> ids_of remotes \<and>
    (\<forall>r\<in>set res. peers_for remotes (rt_id r) \<subseteq> set (rt_peer_ids r) \<and>
       set (rt_peer_ids r) \<subseteq> peers_for locals (rt_id r) \<union> peers_for remotes (rt_id r)) \<and>
    err' = err"
proof -
  let ?m = "foldl add_remote_runtime (foldl add_local_runtime [] locals) remotes"
  have res: "res = map snd ?m" "err' = err" using assms by (auto simp: agg_ListRuntimes_def Let_def)
  have ok: "agg_map_ok locals remotes ?m" by (rule agg_map_ok_final)
  have entry: "agg_entry locals remotes k r" if "(k, r) \<in> set ?m" for k r
    using ok that by (simp add: agg_map_ok_def gm_get_mem)
  then have ids: "map rt_id (map snd ?m) = map fst ?m"
    by (force simp: agg_entry_def)
  have "peers_for remotes (rt_id r) \<subseteq> set (rt_peer_ids r) \<and>
      set (rt_peer_ids r) \<subseteq> peers_for locals (rt_id r) \<union> peers_for remotes (rt_id r)"
    if "r \<in> set res" for r
  proof -
    from that res obtain k where "(k, r) \<in> set ?m" by auto
    from entry [OF this] show ?thesis by (auto simp: agg_entry_def)
  qed
  with ok res ids show ?thesis by (simp only: agg_map_ok_def simp_thms) blast
qed

theorem agg_ListRuntimes_spec_witness:
  "\<exists>res. agg_ListRuntimes ([Some bare_native], ''n'', None :: nat option)
      [Some (bare_native\<lparr>rt_peer_ids := [''b'']\<rparr>)] = (res, ''n'', None) \<and> length res = 1 \<and>
    (\<forall>r\<in>set res. set (rt_peer_ids r) = {''b''})"
proof -
  let ?r = "bare_native\<lparr>rt_peer_ids := [''b'']\<rparr>"
  obtain res where r: "agg_ListRuntimes ([Some bare_native], ''n'', None :: nat option) [Some ?r] =
      (res, ''n'', None)"
    by (simp add: agg_ListRuntimes_def add_local_runtime_def add_remote_runtime_def bare_native_def)
  from agg_ListRuntimes_spec [OF r] have s: "distinct (map rt_id res)" "set (map rt_id res) = {''r''}"
    "\<forall>x\<in>set res. peers_for [Some ?r] (rt_id x) \<subseteq> set (rt_peer_ids x) \<and>
      set (rt_peer_ids x) \<subseteq> peers_for [Some bare_native] (rt_id x) \<union> peers_for [Some ?r] (rt_id x)"
    by (auto simp: ids_of_def bare_native_def)
  from s(1,2) have "length res = 1" using distinct_card [of "map rt_id res"] by simp
  moreover have "\<forall>x\<in>set res. set (rt_peer_ids x) = {''b''}"
  proof
    fix x assume x: "x \<in> set res"
    with s(2) have "rt_id x = ''r''" by auto
    with s(3) x show "set (rt_peer_ids x) = {''b''}"
      by (auto simp: peers_for_def bare_native_def)
  qed
  ultimately show ?thesis using r by blast
qed

section \<open>The cache of the local manager\<close>

text \<open>Once a call of GetRuntimes has detected the runtimes, every later call returns the same
  ones without detecting again, and with discoverers that only register runtimes no two of
  them have the same identifier, so that a lookup finds the only runtime of an identifier.\<close>
theorem local_GetRuntimes_cached:
  assumes "lrm_detected_at m = None" and "local_GetRuntimes now ds m = (Some res, m')"
    and "\<And>d r. d \<in> set ds \<Longrightarrow> registry_ok impl_RuntimeID r \<Longrightarrow> registry_ok impl_RuntimeID (snd (d r))"
  shows "local_GetRuntimes now' ds' m' = (Some res, m') \<and> lrm_is_detecting m' = False \<and>
    distinct (map impl_RuntimeID (fst res)) \<and>
    (\<forall>rt\<in>set (fst res). snd (snd res) = None \<longrightarrow>
       local_GetRuntimeByID (impl_RuntimeID rt) res = Ok (Some rt))"
proof -
  have res: "res = detectRuntimesSuper ds"
    and m': "m' = local_end_detect (local_cache_result now res (local_begin_detect m))"
    using assms(1,2) by (auto simp: local_GetRuntimes_def Let_def split: if_splits)
  have cached: "local_cached m' = res" "lrm_detected_at m' = Some now" "lrm_is_detecting m' = False"
    by (cases res; simp add: m' local_end_detect_def local_cache_result_def local_begin_detect_def
        local_cached_def)+
  define reg where "reg = snd (multiDiscoverer_Discover ds NewRegistry)"
  have ok: "registry_ok impl_RuntimeID reg"
    unfolding reg_def by (rule multiDiscoverer_Discover_ok) (use assms(3) in auto)
  have fst: "fst res = map snd (reg_runtimes reg)"
    by (simp add: res detectRuntimesSuper_def Let_def reg_def Registry_All_def)
  have "map impl_RuntimeID (map snd (reg_runtimes reg)) = map fst (reg_runtimes reg)"
    using ok by (auto simp: registry_ok_def list_all_iff)
  with ok fst have dist: "distinct (map impl_RuntimeID (fst res))"
    by (simp only: registry_ok_def simp_thms)
  have "local_GetRuntimeByID (impl_RuntimeID rt) res = Ok (Some rt)"
    if rt: "rt \<in> set (fst res)" and noerr: "snd (snd res) = None" for rt
  proof -
    have "List.find (\<lambda>x. impl_RuntimeID x = impl_RuntimeID rt) (fst res) = Some rt"
      using find_key_unique [OF dist rt] .
    with noerr show ?thesis by (cases res) (simp add: local_GetRuntimeByID_def)
  qed
  with cached dist show ?thesis by (simp add: local_GetRuntimes_def)
qed

theorem local_GetRuntimes_cached_witness:
  "\<exists>m'. local_GetRuntimes 1 [\<lambda>r. (None :: nat option, snd (Registry_Register impl_RuntimeID (Some (NativeImpl clang_14)) r))]
      (NewLocalRuntimesManager :: nat LocalRuntimesManager) =
        (Some ([NativeImpl clang_14], ''Runtime detection complete'', None), m') \<and>
    local_GetRuntimes 2 [] m' = (Some ([NativeImpl clang_14], ''Runtime detection complete'', None), m')"
proof -
  let ?d = "\<lambda>r. (None :: nat option, snd (Registry_Register impl_RuntimeID (Some (NativeImpl clang_14)) r))"
  let ?m = "NewLocalRuntimesManager :: nat LocalRuntimesManager"
  obtain res m' where r: "local_GetRuntimes 1 [?d] ?m = (Some res, m')"
    and res: "res = ([NativeImpl clang_14], ''Runtime detection complete'', None)"
    by (simp add: local_GetRuntimes_def NewLocalRuntimesManager_def detectRuntimesSuper_def
        multiDiscoverer_Discover_def Registry_Register_def NewRegistry_def Registry_All_def
        NativeRuntimeID_def Let_def)
  have "lrm_detected_at ?m = None" by (simp add: NewLocalRuntimesManager_def)
  from local_GetRuntimes_cached [OF this r, of 2 "[]"]
  show ?thesis using r res by (auto simp: registry_ok_Register)
qed

section \<open>Asking the peers\<close>

definition remote_peers :: "PeerManager \<Rightarrow> PeerInfo list" where
  "remote_peers pm = filterRemotePeers (GetAllPeersIncludingLocal pm)"

lemma errors_of_Nil_iff: "errors_of f xs = [] \<longleftrightarrow> \<not> (\<exists>x\<in>set xs. \<exists>e. f x = Inl e)"
  by (auto simp: errors_of_def map_filter_Nil_iff split: sum.splits)

lemma AggregateErrors_errors_of:
  "AggregateErrors (map Some (errors_of f xs)) = None \<longleftrightarrow> \<not> (\<exists>x\<in>set xs. \<exists>e. f x = Inl e)"
  using AggregateErrors_None_iff [of "map Some (errors_of f xs)"] all_None_map_Some
    errors_of_Nil_iff by metis

lemma par_Map_results:
  assumes "schedule (length xs) sched"
  shows "go_results (par_Map f sched xs) =
    (if \<exists>x\<in>set xs. \<exists>e. f x = Inl e then ([], AggregateErrors (map Some (errors_of f xs)))
     else (map (\<lambda>x. case f x of Inl _ \<Rightarrow> None | Inr r \<Rightarrow> Some r) xs, None))"
  using AggregateErrors_errors_of [of f xs]
  by (auto simp: par_Map_result [OF assms] go_results_def split: option.split)


text \<open>Listing the peers' runtimes answers, in any order of completion, the runtimes of all peers
  in the order of the peers; but as soon as one peer fails, the answers of all the others are
  lost and the listing fails.\<close>
theorem remote_ListRuntimes_spec:
  assumes "schedule (length (remote_peers pm)) sched"
    and "remote_ListRuntimes rpc sched (Some pm) = (rts, notes, err)"
  shows "if \<exists>p\<in>set (remote_peers pm). \<exists>e. rpc p = Inl e then rts = [] \<and> err \<noteq> None
    else rts = concat (map (\<lambda>p. case rpc p of Inl _ \<Rightarrow> [] | Inr r \<Rightarrow> r) (remote_peers pm)) \<and> err = None"
proof (cases "\<exists>p\<in>set (remote_peers pm). \<exists>e. rpc p = Inl e")
  case True
  have "go_results (par_Map rpc sched (remote_peers pm)) =
      ([], AggregateErrors (map Some (errors_of rpc (remote_peers pm))))"
    using par_Map_results [OF assms(1), of rpc] True by simp
  moreover have "remote_peers pm \<noteq> []" using True by auto
  ultimately show ?thesis
    using assms(2) True AggregateErrors_errors_of [of rpc "remote_peers pm"]
    by (simp add: remote_ListRuntimes_def Let_def success_count_def flip: remote_peers_def)
next
  case False
  have "go_results (par_Map rpc sched (remote_peers pm)) =
      (map (\<lambda>p. case rpc p of Inl _ \<Rightarrow> None | Inr r \<Rightarrow> Some r) (remote_peers pm), None)"
    using par_Map_results [OF assms(1), of rpc] False by simp
  moreover have "peer_runtimes (map (\<lambda>p. case rpc p of Inl _ \<Rightarrow> None | Inr r \<Rightarrow> Some r) ps) =
      concat (map (\<lambda>p. case rpc p of Inl _ \<Rightarrow> [] | Inr r \<Rightarrow> r) ps)" for ps
    by (induction ps) (auto simp: peer_runtimes_def split: sum.split)
  ultimately show ?thesis
    using assms(2) False
    by (cases "remote_peers pm = []")
       (auto simp: remote_ListRuntimes_def Let_def simp flip: remote_peers_def)
qed

definition two_peers :: PeerManager where
  "two_peers = NewPeerManager\<lparr>pm_peers := [(''b'', sample_peer), (''c'', sample_peer\<lparr>pi_id := ''c''\<rparr>)]\<rparr>"

lemma remote_peers_two: "remote_peers two_peers = [sample_peer, sample_peer\<lparr>pi_id := ''c''\<rparr>]"
  by (simp add: remote_peers_def filterRemotePeers_def GetAllPeersIncludingLocal_def two_peers_def
      NewPeerManager_def sample_peer_def)

lemma schedule_two: "schedule (length (remote_peers two_peers)) [1, 0]"
  by (auto simp: remote_peers_two schedule_def)

theorem remote_ListRuntimes_spec_witness:
  "fst (remote_ListRuntimes (\<lambda>p. if pi_id p = ''b'' then Ok [bare_native] else Err (Single ''down''))
     [1, 0] (Some two_peers)) = []"
  using remote_ListRuntimes_spec [OF schedule_two,
      of "\<lambda>p. if pi_id p = ''b'' then Ok [bare_native] else Err (Single ''down'')"]
  by (cases "remote_ListRuntimes (\<lambda>p. if pi_id p = ''b'' then Ok [bare_native] else Err (Single ''down''))
     [1, 0] (Some two_peers)") (auto simp: remote_peers_two sample_peer_def)

text \<open>What a daemon can run on its peers is what it lists for them, in the same order, each runtime under the peer
  that answered with it; both fail together.\<close>
lemma wrap_answers_Some:
  "wrap_answers (map (\<lambda>p. Some (pi_id p, answer p)) ps) = concat (map (\<lambda>p. map (\<lambda>rt. RemoteImpl rt (pi_id p)) (answer p)) ps)"
  by (induction ps) (simp_all add: wrap_answers_def)

theorem remote_GetRuntimes_spec:
  assumes "schedule (length (remote_peers pm)) sched"
    and "remote_GetRuntimes rpc sched (Some pm) = (rts, notes, err)"
    and "remote_ListRuntimes rpc sched (Some pm) = (listed, notes', err')"
  shows "map impl_Proto rts = listed \<and> (err = None \<longleftrightarrow> err' = None) \<and>
    (\<forall>x \<in> set rts. \<exists>p \<in> set (remote_peers pm). \<exists>answer. rpc p = Ok answer \<and>
       x \<in> (\<lambda>rt. RemoteImpl rt (pi_id p)) ` set answer)"
proof (cases "\<exists>p\<in>set (remote_peers pm). \<exists>e. rpc p = Inl e")
  case True
  then obtain p e where "p \<in> set (remote_peers pm)" "rpc p = Inl e" by blast
  then have "\<exists>p\<in>set (remote_peers pm). \<exists>e. named_answer rpc p = Inl e"
    by (intro bexI [of _ p] exI [of _ e]) (simp_all add: named_answer_def)
  moreover from this have "AggregateErrors (map Some (errors_of (named_answer rpc) (remote_peers pm))) \<noteq> None"
    using AggregateErrors_errors_of [of "named_answer rpc" "remote_peers pm"] by simp
  moreover have "remote_peers pm \<noteq> []" using True by auto
  moreover have "listed = [] \<and> err' \<noteq> None" using remote_ListRuntimes_spec [OF assms(1,3)] True by simp
  ultimately show ?thesis
    using assms(2) par_Map_results [OF assms(1), of "named_answer rpc"]
    by (auto simp: remote_GetRuntimes_def Let_def wrap_answers_def success_count_def simp flip: remote_peers_def)
next
  case False
  define answer where "answer p = (case rpc p of Inr a \<Rightarrow> a | Inl _ \<Rightarrow> [])" for p
  have rpc: "rpc p = Ok (answer p)" if "p \<in> set (remote_peers pm)" for p
    using False that by (cases "rpc p") (auto simp: answer_def)
  then have named: "named_answer rpc p = Ok (pi_id p, answer p)" if "p \<in> set (remote_peers pm)" for p
    using that by (simp add: named_answer_def)
  have "go_results (par_Map (named_answer rpc) sched (remote_peers pm)) =
      (map (\<lambda>p. Some (pi_id p, answer p)) (remote_peers pm), None)"
    using par_Map_results [OF assms(1), of "named_answer rpc"] named by (auto cong: map_cong)
  then have "rts = concat (map (\<lambda>p. map (\<lambda>rt. RemoteImpl rt (pi_id p)) (answer p)) (remote_peers pm)) \<and> err = None"
    using assms(2) by (cases "remote_peers pm = []")
      (auto simp: remote_GetRuntimes_def Let_def wrap_answers_Some simp flip: remote_peers_def)
  moreover have "listed = concat (map answer (remote_peers pm)) \<and> err' = None"
    using remote_ListRuntimes_spec [OF assms(1,3)] False unfolding answer_def [abs_def] by auto
  ultimately show ?thesis using rpc by (auto simp: map_concat o_def)
qed

text \<open>When the peers answer GetRuntime with the program's own service, the remote lookup takes
  the answer of the first remote peer for the runtime, whether it has the runtime or not: the
  service reports a missing runtime in the message, not as an RPC error. If the first peer
  does not have the runtime the lookup panics on the nil message, even when another peer does.\<close>
theorem remote_GetRuntimeByID_missing_panics:
  assumes "schedule (length (remote_peers pm)) sched" and "remote_peers pm = p # ps"
    and "\<And>q r. rpc q r = Inr (service_GetRuntime AggregatedOverLocal err_text r (lookup q r))"
    and "lookup p rid = Ok None"
  shows "remote_GetRuntimeByID rpc sched (Some pm) rid = None"
proof -
  have ans: "remote_search rpc rid q = Ok (pi_id q, grr_runtime (service_GetRuntime AggregatedOverLocal
      err_text rid (lookup q rid)), True)" for q
    by (simp add: remote_search_def assms(3))
  have "go_results (par_Map (remote_search rpc rid) sched (remote_peers pm)) =
      (map (\<lambda>q. Some (pi_id q, grr_runtime (service_GetRuntime AggregatedOverLocal err_text rid
         (lookup q rid)), True)) (remote_peers pm), None)"
    using par_Map_results [OF assms(1), of "remote_search rpc rid"] by (simp add: ans)
  then show ?thesis
    using assms(2,4)
    by (simp add: remote_GetRuntimeByID_def Let_def NewRemoteRuntime_def service_GetRuntime_def
        List.map_filter_simps flip: remote_peers_def)
qed

theorem remote_GetRuntimeByID_missing_panics_witness:
  "remote_GetRuntimeByID
     (\<lambda>q r. (Inr (service_GetRuntime AggregatedOverLocal id r
        (if pi_id q = ''c'' then Ok (Some (RemoteImpl bare_native ''c'')) else Ok None)) :: nat + GetRuntimeResponse))
     [1, 0] (Some two_peers) ''r'' = None"
  by (rule remote_GetRuntimeByID_missing_panics [OF schedule_two remote_peers_two, where
        err_text = id and lookup = "\<lambda>q r. if pi_id q = ''c'' then Ok (Some (RemoteImpl bare_native ''c'')) else Ok None"])
     (simp_all add: sample_peer_def)

section \<open>The native matcher and the daemon's\<close>

definition native_keys :: "string list" where
  "native_keys = [''compiler'', ''compiler_version'', ''cruntime'', ''c_runtime'', ''cruntime_version'',
     ''c_runtime_version'', ''cpp_stdlib'', ''cpp_abi'', ''architecture'']"

lemma matchesRuntimeParameter_known:
  "k \<in> set native_keys \<Longrightarrow> \<exists>b. matchesRuntimeParameter vstr t k vs = Ok b"
  by (auto simp: native_keys_def matchesRuntimeParameter_def)

lemma matchesRuntimeParameter_empty:
  "k \<in> set native_keys \<Longrightarrow> matchesRuntimeParameter vstr t k [] = Ok True"
  by (auto simp: native_keys_def matchesRuntimeParameter_def accepts_def)

text \<open>The value the daemon's matcher compares is one the native matcher accepts.\<close>
lemma daemon_value_accepted:
  assumes "gm_get (daemon_extractRuntimeParameters vstr (NativeProto t)) k = Some v"
    and "v \<in> set vs" and "k \<in> set native_keys"
  shows "matchesRuntimeParameter vstr t k vs = Ok True"
  using assms
  by (auto simp: daemon_extractRuntimeParameters_def NativeProto_def matchesRuntimeParameter_def
      accepts_def native_keys_def split: if_splits)

lemma matchesRuntimeParameters_met:
  assumes "\<forall>(k, c)\<in>set cs. k \<in> set native_keys \<and> c \<noteq> None"
    and "\<forall>c\<in>set cs. constraint_met (daemon_extractRuntimeParameters vstr (NativeProto t)) c"
  shows "matchesRuntimeParameters vstr t cs = Some (Ok True)"
  using assms
proof (induction cs)
  case (Cons c cs)
  obtain k co where c: "c = (k, co)" by (cases c)
  with Cons.prems(1) obtain vs where co: "co = Some vs" and k: "k \<in> set native_keys" by auto
  have "matchesRuntimeParameter vstr t k vs = Ok True"
  proof (cases "vs = []")
    case True then show ?thesis using matchesRuntimeParameter_empty [OF k] by simp
  next
    case False
    with Cons.prems(2) c co obtain v where
      "gm_get (daemon_extractRuntimeParameters vstr (NativeProto t)) k = Some v" "v \<in> set vs"
      by (auto simp: constraint_met_def)
    then show ?thesis by (rule daemon_value_accepted) (rule k)
  qed
  with Cons c co show ?case by simp
qed simp

text \<open>The daemon's matcher is a restriction of the native one: a native runtime whose protobuf
  message meets a query for the daemon also matches it by its own method, when the query only
  uses parameters the native matcher knows and has no nil constraint.\<close>
theorem native_matches_daemon_matches:
  assumes "\<forall>(k, c)\<in>set (q_params q). k \<in> set native_keys \<and> c \<noteq> None"
    and "daemon_runtimeMatchesQuery vstr (NativeProto t) q"
  shows "NativeMatchesQuery vstr t (Some q) = Some (Ok True)"
proof -
  from assms(2) have "query_met (daemon_extractRuntimeParameters vstr (NativeProto t)) (NativeProto t) q"
    by (simp add: daemon_runtimeMatchesQuery_iff)
  with matchesRuntimeParameters_met [OF assms(1), of vstr t] show ?thesis
    by (auto simp: NativeMatchesQuery_def query_met_def NativeProto_def)
qed

definition clang_query :: RuntimeMatchQuery where
  "clang_query = \<lparr>q_platforms = [], q_toolchains = [RUNTIME_TOOLCHAIN_C],
     q_params = [(''compiler'', Some [''CPP_COMPILER_CLANG'']), (''architecture'', Some [])]\<rparr>"

theorem native_matches_daemon_matches_witness:
  "NativeMatchesQuery (\<lambda>_. '''') clang_14 (Some clang_query) = Some (Ok True)"
  by (rule native_matches_daemon_matches)
     (simp_all add: clang_query_def native_keys_def daemon_runtimeMatchesQuery_iff query_met_def
       constraint_met_def daemon_extractRuntimeParameters_def NativeProto_def clang_14_def
       ProtoCppToolchain_def ProtoCompiler_def)

text \<open>The converse fails for the plain names a query may use: a constraint that lists only the
  plain name of the C runtime, as the archiver's queries do, is met by the native matcher and
  by neither the daemon's nor the peers'.\<close>
theorem plain_names_only_native:
  assumes "tc_c_runtime t = CRuntimeGlibc"
  shows "matchesRuntimeParameters vstr t [(''c_runtime'', Some [''glibc''])] = Some (Ok True) \<and>
    \<not> daemon_parametersMatch (daemon_extractRuntimeParameters vstr (NativeProto t))
        [(''c_runtime'', Some [''glibc''])] \<and>
    peers_parametersMatch (peers_extractRuntimeParameters vstr (NativeProto t))
        [(''c_runtime'', Some [''glibc''])] = Some False"
  using assms
  by (simp add: matchesRuntimeParameter_def accepts_def daemon_extractRuntimeParameters_def
      peers_extractRuntimeParameters_def NativeProto_def ProtoCRuntime_def)

theorem plain_names_only_native_witness:
  "\<not> daemon_parametersMatch (daemon_extractRuntimeParameters (\<lambda>_. '''')
       (NativeProto (clang_14\<lparr>tc_c_runtime := CRuntimeGlibc\<rparr>))) [(''c_runtime'', Some [''glibc''])]"
  using plain_names_only_native [of "clang_14\<lparr>tc_c_runtime := CRuntimeGlibc\<rparr>" "\<lambda>_. ''''"] by simp

section \<open>Peers asking each other\<close>

text \<open>A network of daemons whose services answer with their aggregated managers. The service of a
  daemon asks its remote manager, which sends a ListRuntimes request to every remote peer; the
  request does not set LocalOnly, so the peer in turn asks its own peers. The fuel bounds how
  deep the requests are nested; None is a request that is not answered within it.\<close>

record Node =
  node_local :: "Runtime list"
  node_peers :: "string list"

fun collect_answers :: "'a option list \<Rightarrow> 'a list option" where
  "collect_answers [] = Some []"
| "collect_answers (x # xs) =
     (case x of None \<Rightarrow> None | Some a \<Rightarrow> map_option (\<lambda>as. a # as) (collect_answers xs))"

fun network_ListRuntimes ::
  "nat \<Rightarrow> (string \<Rightarrow> Node) \<Rightarrow> bool \<Rightarrow> string \<Rightarrow> Runtime list option" where
  "network_ListRuntimes 0 net localOnly d = None"
| "network_ListRuntimes (Suc fuel) net localOnly d =
     (if localOnly then Some (node_local (net d))
      else case collect_answers (map (network_ListRuntimes fuel net False) (node_peers (net d))) of
        None \<Rightarrow> None
      | Some answers \<Rightarrow>
          Some (fst (agg_ListRuntimes (map Some (node_local (net d)), '''', None :: unit option)
            (map Some (concat answers)))))"

lemma collect_answers_None: "collect_answers xs = None \<longleftrightarrow> None \<in> set xs"
  by (induction xs) (auto split: option.splits)



end
