(* ===== verification/Heuristic.thy ===== *)
theory Heuristic
  imports RuntimeManagers
begin

text \<open>
  The placement heuristic (pkg/scheduler/heuristics/simple_local_first.go and types.go): it asks
  the runtime manager it is given, through two of the manager's methods, and prefers a runtime
  the manager can look up over one of a peer.
\<close>

section \<open>The heuristic\<close>

text \<open>The methods of runtimes.Manager the heuristic and the scheduler call.\<close>

record 'e ManagerIface =
  mgr_lookup :: "string \<Rightarrow> 'e + RuntimeImpl option"
  mgr_match :: "RuntimeMatchQuery \<Rightarrow> 'e + Runtime list"

record 'e SchedulingContext =
  sc_job :: "Job option"
  sc_manager :: "'e ManagerIface option"
  sc_local_id :: string
  sc_job_count :: int

record SchedulingDecision =
  sd_peer_id :: string
  sd_runtime :: Runtime
  sd_reason :: string

text \<open>The errors of the heuristics; AllRuntimesBusy is the scheduler's own, which a heuristic may
  return.\<close>

datatype 'e heuristic_error =
  NilSchedulingContext | NilJob | NilRuntimeManager | NilRuntime | NilRuntimeMatchQuery
| NoRuntimeRequirement | NoMatchingRuntimes
| ExplicitUnavailable string
| MatchingFailed 'e
| RemoteHasNoPeer string
| AllRuntimesBusy

definition first_peer :: "Runtime \<Rightarrow> string" where
  "first_peer rt = (if 0 < length (rt_peer_ids rt) then rt_peer_ids rt ! 0 else '''')"

definition schedule_explicit ::
  "'e ManagerIface \<Rightarrow> string \<Rightarrow> Runtime \<Rightarrow> 'e heuristic_error + SchedulingDecision" where
  "schedule_explicit mgr localId rt =
     (case mgr_lookup mgr (rt_id rt) of
        Inr _ \<Rightarrow> Ok \<lparr>sd_peer_id = localId, sd_runtime = rt,
                     sd_reason = ''Using explicitly specified local runtime''\<rparr>
      | Inl _ \<Rightarrow>
          (if first_peer rt = '''' then Err (ExplicitUnavailable (rt_id rt))
           else Ok \<lparr>sd_peer_id = first_peer rt, sd_runtime = rt,
                    sd_reason = ''Explicit runtime available on remote peer''\<rparr>))"

definition schedule_matching ::
  "'e ManagerIface \<Rightarrow> string \<Rightarrow> RuntimeMatchQuery \<Rightarrow> 'e heuristic_error + SchedulingDecision" where
  "schedule_matching mgr localId query =
     (case mgr_match mgr query of
        Inl e \<Rightarrow> Err (MatchingFailed e)
      | Inr matches \<Rightarrow>
          (if length matches = 0 then Err NoMatchingRuntimes
           else case List.find (\<lambda>rt. case mgr_lookup mgr (rt_id rt) of Inl _ \<Rightarrow> False | Inr _ \<Rightarrow> True) matches of
                  Some rt \<Rightarrow> Ok \<lparr>sd_peer_id = localId, sd_runtime = rt,
                     sd_reason = ''Selected available local runtime matching query''\<rparr>
                | None \<Rightarrow>
                    (let selected = matches ! 0
                     in if first_peer selected = '''' then Err (RemoteHasNoPeer (rt_id selected))
                        else Ok \<lparr>sd_peer_id = first_peer selected, sd_runtime = selected,
                          sd_reason = ''Selected remote runtime - no local match available''\<rparr>)))"

definition SimpleLocalFirst_Schedule ::
  "'e SchedulingContext option \<Rightarrow> 'e heuristic_error + SchedulingDecision" where
  "SimpleLocalFirst_Schedule decision =
     (case decision of
        None \<Rightarrow> Err NilSchedulingContext
      | Some ctx \<Rightarrow> (case sc_job ctx of
          None \<Rightarrow> Err NilJob
        | Some job \<Rightarrow> (case sc_manager ctx of
            None \<Rightarrow> Err NilRuntimeManager
          | Some mgr \<Rightarrow> (case job_requirement job of
              Job_Runtime None \<Rightarrow> Err NilRuntime
            | Job_Runtime (Some rt) \<Rightarrow> schedule_explicit mgr (sc_local_id ctx) rt
            | Job_RuntimeMatchQuery None \<Rightarrow> Err NilRuntimeMatchQuery
            | Job_RuntimeMatchQuery (Some q) \<Rightarrow> schedule_matching mgr (sc_local_id ctx) q
            | NoRequirement \<Rightarrow> Err NoRuntimeRequirement))))"

section \<open>What the heuristic relies on\<close>

text \<open>The heuristic takes a lookup without error as the presence of the runtime. That is right for
  a manager whose lookup reports a missing runtime as an error.\<close>

locale runtime_lookup =
  fixes lookup :: "string \<Rightarrow> 'e + 'r option"
  assumes found: "lookup rid = Ok r \<Longrightarrow> r \<noteq> None"
begin

lemma present_or_error: "(\<exists>r. lookup rid = Ok (Some r)) \<or> (\<exists>e. lookup rid = Err e)"
  using found [of rid] by (cases "lookup rid") auto

lemma absent_is_error: "(\<nexists>r. lookup rid = Ok (Some r)) \<Longrightarrow> \<exists>e. lookup rid = Err e"
  using present_or_error by blast

end

text \<open>The lookup of the remote manager has this contract (a panic is no answer; it is counted as an
  error here).\<close>

definition remote_lookup ::
  "(PeerInfo \<Rightarrow> string \<Rightarrow> 'e + GetRuntimeResponse) \<Rightarrow> nat list \<Rightarrow> PeerManager \<Rightarrow> string
    \<Rightarrow> 'e manager_error option + RuntimeImpl option" where
  "remote_lookup rpc sched pm rid =
     (case remote_GetRuntimeByID rpc sched (Some pm) rid of
        None \<Rightarrow> Err None
      | Some (Inl e) \<Rightarrow> Err (Some e)
      | Some (Inr rt) \<Rightarrow> Ok (Some rt))"

interpretation remote_contract: runtime_lookup "remote_lookup rpc sched pm" for rpc sched pm
  by unfold_locales (auto simp: remote_lookup_def split: option.splits sum.splits)

text \<open>The local manager does not have it: a runtime it does not know is no error.\<close>

definition local_lookup :: "RuntimeImpl list \<Rightarrow> string \<Rightarrow> 'e + RuntimeImpl option" where
  "local_lookup rts rid = local_GetRuntimeByID rid (rts, '''', None)"

lemma local_lookup_find: "local_lookup rts rid = Ok (List.find (\<lambda>rt. impl_RuntimeID rt = rid) rts)"
  by (simp add: local_lookup_def local_GetRuntimeByID_def)

lemma local_contract_broken: "\<not> runtime_lookup (local_lookup rts :: string \<Rightarrow> 'e + RuntimeImpl option)"
proof
  assume c: "runtime_lookup (local_lookup rts :: string \<Rightarrow> 'e + RuntimeImpl option)"
  obtain rid where rid: "rid \<notin> set (map impl_RuntimeID rts)"
    using ex_new_if_finite [of "set (map impl_RuntimeID rts)"] infinite_UNIV_listI by blast
  then have "List.find (\<lambda>rt. impl_RuntimeID rt = rid) rts = None"
    by (auto simp: find_None_iff)
  then have "(local_lookup rts rid :: 'e + RuntimeImpl option) = Ok None"
    by (simp add: local_lookup_find)
  with runtime_lookup.found [OF c this] show False by simp
qed

section \<open>Properties of the decisions\<close>

definition requested :: "'e ManagerIface \<Rightarrow> Job \<Rightarrow> Runtime \<Rightarrow> bool" where
  "requested mgr job rt =
     (case job_requirement job of
        Job_Runtime (Some r) \<Rightarrow> rt = r
      | Job_RuntimeMatchQuery (Some q) \<Rightarrow>
          (case mgr_match mgr q of Inl _ \<Rightarrow> False | Inr ms \<Rightarrow> rt \<in> set ms)
      | _ \<Rightarrow> False)"

lemma schedule_explicit_Ok:
  "schedule_explicit mgr l rt = Ok d \<Longrightarrow> sd_runtime d = rt \<and>
     (case mgr_lookup mgr (rt_id rt) of
        Inr _ \<Rightarrow> sd_peer_id d = l
      | Inl _ \<Rightarrow> sd_peer_id d = first_peer rt \<and> first_peer rt \<noteq> '''')"
  by (auto simp: schedule_explicit_def split: sum.splits if_splits)

lemma schedule_matching_Ok:
  assumes "schedule_matching mgr l q = Ok d"
  shows "\<exists>ms. mgr_match mgr q = Ok ms \<and> sd_runtime d \<in> set ms \<and>
     (case mgr_lookup mgr (rt_id (sd_runtime d)) of
        Inr _ \<Rightarrow> sd_peer_id d = l
      | Inl _ \<Rightarrow> sd_peer_id d = first_peer (sd_runtime d) \<and> first_peer (sd_runtime d) \<noteq> '''' \<and>
          (\<forall>rt\<in>set ms. \<exists>e. mgr_lookup mgr (rt_id rt) = Inl e))"
proof -
  let ?found = "\<lambda>rt. case mgr_lookup mgr (rt_id rt) of Inl _ \<Rightarrow> False | Inr _ \<Rightarrow> True"
  from assms obtain ms where ms: "mgr_match mgr q = Ok ms" "ms \<noteq> []"
    by (auto simp: schedule_matching_def split: sum.splits if_splits)
  show ?thesis
  proof (cases "List.find ?found ms")
    case (Some rt)
    with find_Some_mem [OF Some] ms assms show ?thesis
      by (auto simp: schedule_matching_def split: sum.splits)
  next
    case None
    then have none: "\<forall>rt\<in>set ms. \<exists>e. mgr_lookup mgr (rt_id rt) = Inl e"
      by (auto simp: find_None_iff split: sum.splits) (metis sum.exhaust)
    moreover have "ms ! 0 \<in> set ms" using ms(2) by simp
    moreover have "sd_runtime d = ms ! 0 \<and> sd_peer_id d = first_peer (ms ! 0) \<and> first_peer (ms ! 0) \<noteq> []"
      using assms ms None by (auto simp: schedule_matching_def Let_def split: if_splits)
    moreover obtain e where "mgr_lookup mgr (rt_id (ms ! 0)) = Inl e" using calculation by blast
    ultimately show ?thesis using ms by auto
  qed
qed

text \<open>A decision of the local-first heuristic selects a runtime the job asked for. It places the
  job on the local daemon exactly when the manager can look the runtime up, and then, with a
  manager whose lookup reports missing runtimes as errors, the runtime really is available
  locally; otherwise it goes to the first peer of the runtime, a non-empty identifier, and no
  runtime that met the query was available locally.\<close>
theorem SimpleLocalFirst_decision:
  assumes "runtime_lookup (mgr_lookup mgr)"
    and "SimpleLocalFirst_Schedule (Some \<lparr>sc_job = Some job, sc_manager = Some mgr,
           sc_local_id = l, sc_job_count = n\<rparr>) = Ok d"
  shows "requested mgr job (sd_runtime d) \<and>
    (case mgr_lookup mgr (rt_id (sd_runtime d)) of
       Inr impl \<Rightarrow> sd_peer_id d = l \<and> impl \<noteq> None
     | Inl _ \<Rightarrow> sd_peer_id d = first_peer (sd_runtime d) \<and> sd_peer_id d \<noteq> '''' \<and>
         (\<forall>q ms. job_requirement job = Job_RuntimeMatchQuery (Some q) \<and> mgr_match mgr q = Ok ms \<longrightarrow>
            (\<forall>rt\<in>set ms. \<exists>e. mgr_lookup mgr (rt_id rt) = Err e)))"
proof -
  note found = runtime_lookup.found [OF assms(1)]
  consider (explicit) rt where "job_requirement job = Job_Runtime (Some rt)"
      "schedule_explicit mgr l rt = Ok d"
    | (query) q where "job_requirement job = Job_RuntimeMatchQuery (Some q)"
      "schedule_matching mgr l q = Ok d"
    using assms(2)
    by (auto simp: SimpleLocalFirst_Schedule_def split: RuntimeRequirement.splits option.splits)
  then show ?thesis
  proof cases
    case explicit
    from schedule_explicit_Ok [OF explicit(2)] explicit(1) found show ?thesis
      by (auto simp: requested_def split: sum.splits)
  next
    case query
    from schedule_matching_Ok [OF query(2)] query(1) found show ?thesis
      by (auto simp: requested_def split: sum.splits)
  qed
qed

definition remote_only :: "nat ManagerIface" where
  "remote_only = \<lparr>mgr_lookup = (\<lambda>_. Err 0),
     mgr_match = (\<lambda>_. Ok [bare_native\<lparr>rt_peer_ids := [''b'', ''c'']\<rparr>])\<rparr>"

definition query_job :: Job where
  "query_job = link_job\<lparr>job_requirement := Job_RuntimeMatchQuery (Some platform_query)\<rparr>"

theorem SimpleLocalFirst_decision_witness:
  "\<exists>d. SimpleLocalFirst_Schedule (Some \<lparr>sc_job = Some query_job, sc_manager = Some remote_only,
      sc_local_id = ''a'', sc_job_count = 0\<rparr>) = Ok d \<and> sd_peer_id d = ''b''"
proof -
  let ?ctx = "\<lparr>sc_job = Some query_job, sc_manager = Some remote_only, sc_local_id = ''a'', sc_job_count = 0\<rparr>"
  obtain d where d: "SimpleLocalFirst_Schedule (Some ?ctx) = Ok d"
    by (simp add: SimpleLocalFirst_Schedule_def query_job_def remote_only_def schedule_matching_def
        first_peer_def bare_native_def)
  have "runtime_lookup (mgr_lookup remote_only)" by unfold_locales (simp add: remote_only_def)
  from SimpleLocalFirst_decision [OF this d] have "sd_peer_id d = first_peer (sd_runtime d)"
    "sd_runtime d = bare_native\<lparr>rt_peer_ids := [''b'', ''c'']\<rparr>"
    by (auto simp: remote_only_def requested_def query_job_def)
  with d show ?thesis by (auto simp: first_peer_def)
qed

text \<open>With the local manager, which is the one the daemon gives its scheduler, every explicit
  runtime is placed on the local daemon, even one that is not installed there and that the
  request says a peer has; no job is ever sent to a peer.\<close>
theorem local_manager_always_local:
  assumes "mgr_lookup mgr = local_lookup rts"
    and "SimpleLocalFirst_Schedule (Some \<lparr>sc_job = Some job, sc_manager = Some mgr,
           sc_local_id = l, sc_job_count = n\<rparr>) = Ok d"
  shows "sd_peer_id d = l"
proof -
  consider (explicit) rt where "schedule_explicit mgr l rt = Ok d"
    | (query) q where "schedule_matching mgr l q = Ok d"
    using assms(2)
    by (auto simp: SimpleLocalFirst_Schedule_def split: RuntimeRequirement.splits option.splits)
  then show ?thesis
  proof cases
    case explicit
    from schedule_explicit_Ok [OF explicit] show ?thesis by (simp add: assms(1) local_lookup_find)
  next
    case query
    from schedule_matching_Ok [OF query] show ?thesis by (auto simp: assms(1) local_lookup_find)
  qed
qed

definition local_only :: "unit ManagerIface" where
  "local_only = \<lparr>mgr_lookup = local_lookup [NativeImpl clang_14], mgr_match = (\<lambda>_. Ok [])\<rparr>"

definition explicit_job :: Job where
  "explicit_job = link_job\<lparr>job_requirement := Job_Runtime (Some (bare_native\<lparr>rt_peer_ids := [''b'']\<rparr>))\<rparr>"

theorem local_manager_always_local_witness:
  "\<exists>d. SimpleLocalFirst_Schedule (Some \<lparr>sc_job = Some explicit_job, sc_manager = Some local_only,
      sc_local_id = ''a'', sc_job_count = 0\<rparr>) = Ok d \<and> sd_peer_id d = ''a'' \<and>
    mgr_lookup local_only (rt_id (sd_runtime d)) = Ok None"
proof -
  let ?ctx = "\<lparr>sc_job = Some explicit_job, sc_manager = Some local_only, sc_local_id = ''a'', sc_job_count = 0\<rparr>"
  obtain d where d: "SimpleLocalFirst_Schedule (Some ?ctx) = Ok d" "rt_id (sd_runtime d) = ''r''"
    by (simp add: SimpleLocalFirst_Schedule_def explicit_job_def local_only_def schedule_explicit_def
        local_lookup_find bare_native_def)
  have l: "mgr_lookup local_only = local_lookup [NativeImpl clang_14]" by (simp add: local_only_def)
  have "mgr_lookup local_only (rt_id (sd_runtime d)) = Ok None"
    by (simp add: d(2) l local_lookup_find NativeRuntimeID_def)
  with local_manager_always_local [OF l d(1)] d show ?thesis by blast
qed

end
