(* ===== verification/JobQueue.thy ===== *)
theory JobQueue
  imports Interfaces JobTypes
begin

text \<open>
  The queue of jobs waiting to be scheduled (pkg/scheduler/queue.go). The execution request of a
  queued job is represented by its job.
\<close>

record QueuedJob =
  qj_job :: Job
  qj_enqueued_at :: int

record JobQueue =
  jq_jobs :: "QueuedJob list"

definition NewJobQueue :: JobQueue where
  "NewJobQueue = \<lparr>jq_jobs = []\<rparr>"

definition Enqueue :: "QueuedJob option \<Rightarrow> JobQueue \<Rightarrow> JobQueue" where
  "Enqueue qj q = (case qj of None \<Rightarrow> q | Some j \<Rightarrow> q\<lparr>jq_jobs := jq_jobs q @ [j]\<rparr>)"

definition Dequeue :: "JobQueue \<Rightarrow> QueuedJob option \<times> JobQueue" where
  "Dequeue q =
     (if length (jq_jobs q) = 0 then (None, q)
      else (Some (jq_jobs q ! 0), q\<lparr>jq_jobs := drop 1 (jq_jobs q)\<rparr>))"

definition Peek :: "JobQueue \<Rightarrow> QueuedJob option" where
  "Peek q = (if length (jq_jobs q) = 0 then None else Some (jq_jobs q ! 0))"

definition QueueLen :: "JobQueue \<Rightarrow> nat" where
  "QueueLen q = length (jq_jobs q)"

text \<open>Remove drops the first job with the identifier.\<close>

fun remove_first :: "string \<Rightarrow> QueuedJob list \<Rightarrow> QueuedJob list option" where
  "remove_first jid [] = None"
| "remove_first jid (j # js) =
     (if job_id (qj_job j) = jid then Some js else map_option ((#) j) (remove_first jid js))"

definition QueueRemove :: "string \<Rightarrow> JobQueue \<Rightarrow> bool \<times> JobQueue" where
  "QueueRemove jid q =
     (case remove_first jid (jq_jobs q) of
        None \<Rightarrow> (False, q) | Some js \<Rightarrow> (True, q\<lparr>jq_jobs := js\<rparr>))"

definition QueueClear :: "JobQueue \<Rightarrow> JobQueue" where
  "QueueClear q = q\<lparr>jq_jobs := []\<rparr>"

definition QueueGetAll :: "JobQueue \<Rightarrow> QueuedJob list" where
  "QueueGetAll q = jq_jobs q"

section \<open>The queue is first-in first-out\<close>

definition queue_deq :: "JobQueue \<Rightarrow> (QueuedJob \<times> JobQueue) option" where
  "queue_deq q = (case Dequeue q of (None, _) \<Rightarrow> None | (Some j, q') \<Rightarrow> Some (j, q'))"

interpretation jq: fifo_queue QueueGetAll "\<lambda>q j. Enqueue (Some j) q" queue_deq
  by unfold_locales (auto simp: QueueGetAll_def Enqueue_def queue_deq_def Dequeue_def)

lemma Peek_Dequeue: "Peek q = fst (Dequeue q)"
  by (simp add: Peek_def Dequeue_def)

lemma Dequeue_Nil [simp]: "jq_jobs q = [] \<Longrightarrow> Dequeue q = (None, q)"
  by (simp add: Dequeue_def)

lemma Dequeue_Cons [simp]: "jq_jobs q = j # js \<Longrightarrow> Dequeue q = (Some j, q\<lparr>jq_jobs := js\<rparr>)"
  by (simp add: Dequeue_def)

lemma Peek_simps [simp]:
  "jq_jobs q = [] \<Longrightarrow> Peek q = None" "jq_jobs q = j # js \<Longrightarrow> Peek q = Some j"
  by (simp_all add: Peek_def)

lemma remove_first_Some:
  "remove_first jid js = Some ks \<Longrightarrow>
     \<exists>pre j post. js = pre @ j # post \<and> ks = pre @ post \<and> job_id (qj_job j) = jid \<and>
       (\<forall>x\<in>set pre. job_id (qj_job x) \<noteq> jid)"
proof (induction js arbitrary: ks)
  case (Cons a js)
  show ?case
  proof (cases "job_id (qj_job a) = jid")
    case True
    then show ?thesis using Cons.prems by (intro exI [of _ "[]"]) auto
  next
    case False
    with Cons.prems obtain ks' where "remove_first jid js = Some ks'" "ks = a # ks'" by auto
    with Cons.IH obtain pre j post where
      "js = pre @ j # post" "ks' = pre @ post" "job_id (qj_job j) = jid"
      "\<forall>x\<in>set pre. job_id (qj_job x) \<noteq> jid" by blast
    with False \<open>ks = a # ks'\<close> show ?thesis by (intro exI [of _ "a # pre"]) auto
  qed
qed simp

lemma remove_first_None: "remove_first jid js = None \<longleftrightarrow> (\<forall>j\<in>set js. job_id (qj_job j) \<noteq> jid)"
  by (induction js) auto

text \<open>The job queue is first-in first-out: jobs enqueued in a row are dequeued in the same order
  after those already waiting, Peek shows the job Dequeue would return, and removing a job by
  identifier takes out its first occurrence and keeps the order of the others.\<close>
theorem JobQueue_fifo:
  "QueueGetAll (foldl (\<lambda>q j. Enqueue (Some j) q) q js) = QueueGetAll q @ js \<and>
   Peek q = fst (Dequeue q) \<and>
   (case Dequeue q of (None, q') \<Rightarrow> QueueGetAll q = [] \<and> q' = q
    | (Some j, q') \<Rightarrow> QueueGetAll q = j # QueueGetAll q') \<and>
   (case QueueRemove jid q of
      (False, q') \<Rightarrow> q' = q \<and> (\<forall>j\<in>set (QueueGetAll q). job_id (qj_job j) \<noteq> jid)
    | (True, q') \<Rightarrow> \<exists>pre j post. QueueGetAll q = pre @ j # post \<and> QueueGetAll q' = pre @ post \<and>
        job_id (qj_job j) = jid \<and> (\<forall>x\<in>set pre. job_id (qj_job x) \<noteq> jid))"
proof (intro conjI)
  show "case Dequeue q of (None, q') \<Rightarrow> QueueGetAll q = [] \<and> q' = q
    | (Some j, q') \<Rightarrow> QueueGetAll q = j # QueueGetAll q'"
    by (cases "jq_jobs q") (auto simp: QueueGetAll_def)
  show "case QueueRemove jid q of
      (False, q') \<Rightarrow> q' = q \<and> (\<forall>j\<in>set (QueueGetAll q). job_id (qj_job j) \<noteq> jid)
    | (True, q') \<Rightarrow> \<exists>pre j post. QueueGetAll q = pre @ j # post \<and> QueueGetAll q' = pre @ post \<and>
        job_id (qj_job j) = jid \<and> (\<forall>x\<in>set pre. job_id (qj_job x) \<noteq> jid)"
  proof (cases "remove_first jid (jq_jobs q)")
    case None
    then have "\<forall>j\<in>set (jq_jobs q). job_id (qj_job j) \<noteq> jid" using remove_first_None by blast
    with None show ?thesis by (simp add: QueueRemove_def QueueGetAll_def)
  next
    case (Some ks)
    with remove_first_Some [OF Some] show ?thesis by (simp add: QueueRemove_def QueueGetAll_def)
  qed
qed (simp_all add: jq.contents_enqs Peek_Dequeue)

definition bare_job :: "string \<Rightarrow> Job" where
  "bare_job jid = \<lparr>job_id = jid, job_requirement = NoRequirement, job_input_data_ids = [],
     job_spec = NoJobSpec, job_content_hash = None, job_source_client_id = '''',
     job_submitted_at = None, job_timeout = None, job_dependency_ids = [], job_inputs = [],
     job_outputs = [], job_cwd = ''''\<rparr>"

definition two_jobs :: JobQueue where
  "two_jobs = \<lparr>jq_jobs = [\<lparr>qj_job = bare_job ''one'', qj_enqueued_at = 1\<rparr>,
     \<lparr>qj_job = bare_job ''other'', qj_enqueued_at = 2\<rparr>]\<rparr>"

theorem JobQueue_fifo_witness:
  "\<exists>q'. QueueRemove ''other'' two_jobs = (True, q') \<and>
     (\<exists>pre j post. QueueGetAll two_jobs = pre @ j # post \<and> QueueGetAll q' = pre @ post)"
proof -
  have "\<exists>q'. QueueRemove ''other'' two_jobs = (True, q')"
    by (simp add: QueueRemove_def two_jobs_def bare_job_def)
  then obtain q' where q': "QueueRemove ''other'' two_jobs = (True, q')" ..
  from JobQueue_fifo [of two_jobs "[]" "''other''"] q' show ?thesis by auto
qed

end
