(* ===== verification/Scheduler.thy ===== *)
theory Scheduler
  imports Heuristic JobQueue
begin

text \<open>
  The job scheduler (pkg/scheduler/scheduler.go): placement of a job through a heuristic, the
  queue of jobs whose runtimes are busy, and what happens when an execution completes. What
  the heuristic and the manager answer may change from call to call: each operation takes the
  answers of its time, a \<open>World\<close>. The goroutines that execute jobs are the list of started
  executions; an execution whose runtime is None calls a method of a nil interface.
\<close>

section \<open>Configuration\<close>

record 'e SchedulerConfig =
  cfg_heuristic :: "('e SchedulingContext option \<Rightarrow> 'e heuristic_error + SchedulingDecision) option"
  cfg_manager :: "'e ManagerIface option"
  cfg_peer_manager :: "PeerManager option"
  cfg_local_id :: string

datatype config_error =
  ConfigNil | HeuristicNil | RuntimeManagerNil | PeerManagerNil | LocalIdEmpty

record StartedExecution =
  se_job :: Job
  se_decision :: SchedulingDecision
  se_impl :: "RuntimeImpl option"

record Scheduler =
  sch_local_id :: string
  sch_queue :: JobQueue
  sch_started :: "StartedExecution list"

definition NewScheduler :: "'e SchedulerConfig option \<Rightarrow> config_error + Scheduler" where
  "NewScheduler config =
     (case config of
        None \<Rightarrow> Err ConfigNil
      | Some c \<Rightarrow>
          if cfg_heuristic c = None then Err HeuristicNil
          else if cfg_manager c = None then Err RuntimeManagerNil
          else if cfg_peer_manager c = None then Err PeerManagerNil
          else if cfg_local_id c = '''' then Err LocalIdEmpty
          else Ok \<lparr>sch_local_id = cfg_local_id c, sch_queue = NewJobQueue, sch_started = []\<rparr>)"

section \<open>Scheduling a job\<close>

record 'e World =
  w_heuristic :: "'e SchedulingContext option \<Rightarrow> 'e heuristic_error + SchedulingDecision"
  w_manager :: "'e ManagerIface"

datatype 'e schedule_error =
  ScheduleNilJob
| NoCompatibleRuntimes
| ErrAllRuntimesBusy
| SchedulingFailed "'e heuristic_error"
| GetRuntimeFailed 'e

text \<open>An execution request that may be nil, or hold a nil job.\<close>

definition scheduleJob ::
  "'e World \<Rightarrow> Job option option \<Rightarrow> int \<Rightarrow> Scheduler
    \<Rightarrow> ('e schedule_error + SchedulingDecision) \<times> Scheduler" where
  "scheduleJob w execReq queueCount s =
     (case execReq of
        None \<Rightarrow> (Err ScheduleNilJob, s)
      | Some None \<Rightarrow> (Err ScheduleNilJob, s)
      | Some (Some job) \<Rightarrow>
          (case w_heuristic w (Some \<lparr>sc_job = Some job, sc_manager = Some (w_manager w),
                  sc_local_id = sch_local_id s, sc_job_count = queueCount\<rparr>) of
             Inl e \<Rightarrow>
               (if e = NoMatchingRuntimes then (Err NoCompatibleRuntimes, s)
                else if e = AllRuntimesBusy then (Err ErrAllRuntimesBusy, s)
                else (Err (SchedulingFailed e), s))
           | Inr decision \<Rightarrow>
               (case mgr_lookup (w_manager w) (rt_id (sd_runtime decision)) of
                  Inl e \<Rightarrow> (Err (GetRuntimeFailed e), s)
                | Inr impl \<Rightarrow>
                    (Ok decision,
                     s\<lparr>sch_started := sch_started s @
                        [\<lparr>se_job = job, se_decision = decision, se_impl = impl\<rparr>]\<rparr>))))"

definition EnqueueJob ::
  "'e World \<Rightarrow> int \<Rightarrow> Job option option \<Rightarrow> Scheduler
    \<Rightarrow> ('e schedule_error + SchedulingDecision) \<times> Scheduler" where
  "EnqueueJob w now execReq s =
     (case execReq of
        None \<Rightarrow> (Err ScheduleNilJob, s)
      | Some None \<Rightarrow> (Err ScheduleNilJob, s)
      | Some (Some job) \<Rightarrow>
          (case scheduleJob w execReq (int (QueueLen (sch_queue s))) s of
             (Inr decision, s') \<Rightarrow> (Ok decision, s')
           | (Inl err, s') \<Rightarrow>
               (if err = ErrAllRuntimesBusy
                then (Err ErrAllRuntimesBusy,
                      s'\<lparr>sch_queue := Enqueue (Some \<lparr>qj_job = job, qj_enqueued_at = now\<rparr>) (sch_queue s')\<rparr>)
                else if err = NoCompatibleRuntimes then (Err NoCompatibleRuntimes, s')
                else (Err err, s'))))"

definition drop_head :: "Scheduler \<Rightarrow> Scheduler" where
  "drop_head s = s\<lparr>sch_queue := snd (Dequeue (sch_queue s))\<rparr>"

definition TryScheduleNext :: "'e World \<Rightarrow> Scheduler \<Rightarrow> bool \<times> Scheduler" where
  "TryScheduleNext w s =
     (case Peek (sch_queue s) of
        None \<Rightarrow> (False, s)
      | Some qj \<Rightarrow>
          (case scheduleJob w (Some (Some (qj_job qj))) (int (QueueLen (sch_queue s)) - 1) s of
             (Inr _, s') \<Rightarrow> (True, drop_head s')
           | (Inl err, s') \<Rightarrow>
               (if err = ErrAllRuntimesBusy then (False, s') else (False, drop_head s'))))"

section \<open>Lemmas on one call\<close>

lemma scheduleJob_queue [simp]: "sch_queue (snd (scheduleJob w r n s)) = sch_queue s"
  by (simp add: scheduleJob_def split: option.split sum.split)

lemma scheduleJob_local [simp]: "sch_local_id (snd (scheduleJob w r n s)) = sch_local_id s"
  by (simp add: scheduleJob_def split: option.split sum.split)

lemma scheduleJob_started:
  "sch_started (snd (scheduleJob w (Some (Some job)) n s)) = sch_started s @
     (case fst (scheduleJob w (Some (Some job)) n s) of
        Inl _ \<Rightarrow> []
      | Inr d \<Rightarrow> (case mgr_lookup (w_manager w) (rt_id (sd_runtime d)) of
          Inl _ \<Rightarrow> [] | Inr impl \<Rightarrow> [\<lparr>se_job = job, se_decision = d, se_impl = impl\<rparr>]))"
  by (simp add: scheduleJob_def split: sum.split)

lemma scheduleJob_lookup:
  "fst (scheduleJob w (Some (Some job)) n s) = Ok d \<Longrightarrow>
     \<exists>impl. mgr_lookup (w_manager w) (rt_id (sd_runtime d)) = Ok impl"
  by (auto simp: scheduleJob_def split: sum.splits if_splits)

lemma drop_head_simps [simp]:
  "sch_started (drop_head s) = sch_started s" "sch_local_id (drop_head s) = sch_local_id s"
  "jq_jobs (sch_queue (drop_head s)) = tl (jq_jobs (sch_queue s))"
  by (cases "jq_jobs (sch_queue s)"; simp add: drop_head_def)+

definition started_jobs :: "Scheduler \<Rightarrow> Job list" where
  "started_jobs s = map se_job (sch_started s)"

definition queued_jobs :: "Scheduler \<Rightarrow> Job list" where
  "queued_jobs s = map qj_job (jq_jobs (sch_queue s))"

text \<open>The three outcomes of TryScheduleNext: the head of the queue starts, stays, or is dropped.\<close>
lemma TryScheduleNext_cases:
  obtains (none) "queued_jobs s = []" "TryScheduleNext w s = (False, s)"
  | (started) j js s' where "queued_jobs s = j # js" "TryScheduleNext w s = (True, s')"
      "queued_jobs s' = js" "started_jobs s' = started_jobs s @ [j]"
  | (busy) "queued_jobs s \<noteq> []" "TryScheduleNext w s = (False, s)"
  | (dropped) j js s' where "queued_jobs s = j # js" "TryScheduleNext w s = (False, s')"
      "queued_jobs s' = js" "started_jobs s' = started_jobs s"
proof (cases "jq_jobs (sch_queue s)")
  case Nil
  then show thesis by (intro none) (simp_all add: TryScheduleNext_def queued_jobs_def)
next
  case (Cons q qs)
  let ?r = "scheduleJob w (Some (Some (qj_job q))) (int (QueueLen (sch_queue s)) - 1) s"
  obtain res s' where r: "?r = (res, s')" by (cases ?r)
  have queue: "sch_queue s' = sch_queue s" using scheduleJob_queue [of w _ _ s] r by (metis snd_conv)
  show thesis
  proof (cases res)
    case (Inr d)
    with r scheduleJob_lookup [of w "qj_job q" "int (QueueLen (sch_queue s)) - 1" s d]
      scheduleJob_started [of w "qj_job q" "int (QueueLen (sch_queue s)) - 1" s]
    have "started_jobs s' = started_jobs s @ [qj_job q]"
      by (auto simp: started_jobs_def)
    with Cons r Inr queue show thesis
      by (intro started [of "qj_job q" "map qj_job qs" "drop_head s'"])
         (simp_all add: TryScheduleNext_def queued_jobs_def started_jobs_def)
  next
    case (Inl e)
    have "s' = s" using r Inl by (auto simp: scheduleJob_def split: sum.splits if_splits)
    show thesis
    proof (cases "e = ErrAllRuntimesBusy")
      case True
      with Cons r Inl \<open>s' = s\<close> show thesis
        by (intro busy) (simp_all add: TryScheduleNext_def queued_jobs_def)
    next
      case False
      with Cons r Inl \<open>s' = s\<close> show thesis
        by (intro dropped [of "qj_job q" "map qj_job qs" "drop_head s'"])
           (simp_all add: TryScheduleNext_def queued_jobs_def started_jobs_def)
    qed
  qed
qed

lemma TryScheduleNext_shorter:
  "fst (TryScheduleNext w s) \<Longrightarrow>
     length (jq_jobs (sch_queue (snd (TryScheduleNext w s)))) < length (jq_jobs (sch_queue s))"
proof (cases rule: TryScheduleNext_cases [of s w])
  case (started j js s')
  have "length (queued_jobs s) = Suc (length js)" "length (queued_jobs s') = length js"
    using started(1,3) by simp_all
  with started(2) show ?thesis unfolding queued_jobs_def by simp
qed simp_all

section \<open>Completion of a job\<close>

text \<open>The loop of OnJobCompletion; \<open>ws i\<close> is the world of its i-th attempt. It ends because every
  successful attempt shortens the queue.\<close>

function schedule_loop :: "(nat \<Rightarrow> 'e World) \<Rightarrow> nat \<Rightarrow> Scheduler \<Rightarrow> Scheduler" where
  "schedule_loop ws i s =
     (if fst (TryScheduleNext (ws i) s) then schedule_loop ws (Suc i) (snd (TryScheduleNext (ws i) s))
      else snd (TryScheduleNext (ws i) s))"
  by pat_completeness auto
termination
  by (relation "measure (\<lambda>(ws, i, s). length (jq_jobs (sch_queue s)))")
     (auto intro: TryScheduleNext_shorter)

declare schedule_loop.simps [simp del]

definition OnJobCompletion :: "(nat \<Rightarrow> 'e World) \<Rightarrow> Scheduler \<Rightarrow> Scheduler" where
  "OnJobCompletion ws s =
     (case TryScheduleNext (ws 0) s of
        (True, s') \<Rightarrow> schedule_loop ws 1 s' | (False, s') \<Rightarrow> s')"

definition GetQueuedJobs :: "Scheduler \<Rightarrow> QueuedJob list" where
  "GetQueuedJobs s = QueueGetAll (sch_queue s)"

definition GetQueueLength :: "Scheduler \<Rightarrow> nat" where
  "GetQueueLength s = QueueLen (sch_queue s)"

definition RemoveQueuedJob :: "string \<Rightarrow> Scheduler \<Rightarrow> bool \<times> Scheduler" where
  "RemoveQueuedJob jid s =
     (case QueueRemove jid (sch_queue s) of (b, q) \<Rightarrow> (b, s\<lparr>sch_queue := q\<rparr>))"

text \<open>What the goroutine of a started execution hands to the completion callback: the result, or
  a failed one carrying the error text. Calling a nil runtime is a panic (None).\<close>

definition string_bytes :: "string \<Rightarrow> byte list" where
  "string_bytes s = map (\<lambda>c. word_of_nat (of_char c)) s"

definition completion_result ::
  "(RuntimeImpl \<Rightarrow> Job \<Rightarrow> string + ExecutionResult) \<Rightarrow> StartedExecution \<Rightarrow> ExecutionResult option" where
  "completion_result execute se =
     map_option (\<lambda>impl. case execute impl (se_job se) of
       Inr r \<Rightarrow> r
     | Inl e \<Rightarrow> \<lparr>er_exit_code = 1, er_stdout = [], er_stderr = string_bytes e, er_output = [],
                er_work_dir = '''', er_execution_id = ''''\<rparr>) (se_impl se)"

text \<open>FinalizeJobCompletion; materialising and verifying the outputs is the stager's.\<close>

datatype finalize_error = MaterializeFailed string | VerifyFailed string

definition FinalizeJobCompletion ::
  "(Job \<Rightarrow> JobResult \<Rightarrow> string + JobData option list) \<Rightarrow> (Job \<Rightarrow> JobResult \<Rightarrow> string option)
    \<Rightarrow> Job option \<Rightarrow> JobResult option \<Rightarrow> JobResult option \<times> finalize_error option" where
  "FinalizeJobCompletion materialize verify jobo resulto =
     (case (jobo, resulto) of
        (Some job, Some res) \<Rightarrow>
          (if jr_exit_code res \<noteq> 0 then (Some res, None)
           else if length (job_outputs job) = 0 \<and> length (jr_outputs res) = 0 then (Some res, None)
           else (case materialize job res of
             Inl e \<Rightarrow> (Some (res\<lparr>jr_status := RESULT_FAILED,
                 jr_error_message := ''Output materialization failed: '' @ e, jr_exit_code := 1\<rparr>),
               Some (MaterializeFailed e))
           | Inr outs \<Rightarrow>
               (let res' = res\<lparr>jr_outputs := outs\<rparr>
                in case verify job res' of
                     Some e \<Rightarrow> (Some (res'\<lparr>jr_status := RESULT_FAILED,
                         jr_error_message := ''Output verification failed: '' @ e, jr_exit_code := 1\<rparr>),
                       Some (VerifyFailed e))
                   | None \<Rightarrow> (Some (res'\<lparr>jr_status := RESULT_COMPLETED\<rparr>), None))))
      | _ \<Rightarrow> (resulto, None))"

section \<open>Outcomes of an enqueue\<close>

lemma EnqueueJob_result:
  assumes "EnqueueJob w now (Some (Some job)) s = (res, s')"
  shows "case res of
      Inr d \<Rightarrow> queued_jobs s' = queued_jobs s \<and>
        (\<exists>impl. mgr_lookup (w_manager w) (rt_id (sd_runtime d)) = Ok impl \<and>
           sch_started s' = sch_started s @ [\<lparr>se_job = job, se_decision = d, se_impl = impl\<rparr>])
    | Inl err \<Rightarrow> sch_started s' = sch_started s \<and>
        queued_jobs s' = queued_jobs s @ (if err = ErrAllRuntimesBusy then [job] else [])"
proof -
  let ?n = "int (QueueLen (sch_queue s))"
  obtain r s1 where r: "scheduleJob w (Some (Some job)) ?n s = (r, s1)"
    by (cases "scheduleJob w (Some (Some job)) ?n s")
  have q: "sch_queue s1 = sch_queue s" using scheduleJob_queue [of w _ ?n s] r by (metis snd_conv)
  note st = scheduleJob_started [of w job ?n s]
  show ?thesis
  proof (cases r)
    case (Inr d)
    with scheduleJob_lookup [of w job ?n s d] r obtain impl where
      "mgr_lookup (w_manager w) (rt_id (sd_runtime d)) = Ok impl" by auto
    with assms r Inr q st show ?thesis by (auto simp: EnqueueJob_def queued_jobs_def)
  next
    case (Inl e)
    with assms r q st show ?thesis
      by (auto simp: EnqueueJob_def queued_jobs_def Enqueue_def split: if_splits)
  qed
qed

text \<open>Enqueueing a job has one of three outcomes: it is started at once, under the decision
  returned, and the queue is as before; or all runtimes are busy, and it waits at the end of
  the queue; or it fails, and neither the queue nor the executions change.\<close>
theorem EnqueueJob_outcomes:
  assumes "EnqueueJob w now (Some (Some job)) s = (res, s')"
  shows "case res of
      Inr d \<Rightarrow> queued_jobs s' = queued_jobs s \<and>
        (\<exists>impl. mgr_lookup (w_manager w) (rt_id (sd_runtime d)) = Ok impl \<and>
           sch_started s' = sch_started s @ [\<lparr>se_job = job, se_decision = d, se_impl = impl\<rparr>])
    | Inl err \<Rightarrow> sch_started s' = sch_started s \<and>
        queued_jobs s' = queued_jobs s @ (if err = ErrAllRuntimesBusy then [job] else [])"
  using assms by (rule EnqueueJob_result)

definition busy_world :: "unit World" where
  "busy_world = \<lparr>w_heuristic = (\<lambda>_. Err AllRuntimesBusy), w_manager = local_only\<rparr>"

definition empty_scheduler :: Scheduler where
  "empty_scheduler = \<lparr>sch_local_id = ''a'', sch_queue = NewJobQueue, sch_started = []\<rparr>"

theorem EnqueueJob_outcomes_witness:
  "queued_jobs (snd (EnqueueJob busy_world 5 (Some (Some explicit_job)) empty_scheduler)) = [explicit_job]"
proof -
  obtain res s' where r: "EnqueueJob busy_world 5 (Some (Some explicit_job)) empty_scheduler = (res, s')"
    by (cases "EnqueueJob busy_world 5 (Some (Some explicit_job)) empty_scheduler")
  moreover have "res = Err ErrAllRuntimesBusy"
    using r by (simp add: EnqueueJob_def scheduleJob_def busy_world_def)
  ultimately show ?thesis
    using EnqueueJob_outcomes [OF r] by (simp add: empty_scheduler_def queued_jobs_def NewJobQueue_def)
qed

section \<open>Completion conserves jobs\<close>

lemma schedule_loop_conserves:
  "\<exists>n m. m \<le> 1 \<and> n \<le> length (queued_jobs s) \<and>
     started_jobs (schedule_loop ws i s) = started_jobs s @ take n (queued_jobs s) \<and>
     queued_jobs (schedule_loop ws i s) = drop (n + m) (queued_jobs s)"
proof (induction ws i s rule: schedule_loop.induct)
  case (1 ws i s)
  show ?case
  proof (cases rule: TryScheduleNext_cases [of s "ws i"])
    case none
    then show ?thesis
      by (intro exI [of _ 0]) (simp add: schedule_loop.simps [of ws i s])
  next
    case (started j js s')
    then have loop: "schedule_loop ws i s = schedule_loop ws (Suc i) s'"
      by (simp add: schedule_loop.simps [of ws i s])
    from "1.IH" started obtain n m where
      "m \<le> 1" "n \<le> length js" "started_jobs (schedule_loop ws (Suc i) s') = started_jobs s' @ take n js"
      "queued_jobs (schedule_loop ws (Suc i) s') = drop (n + m) js"
      by auto
    with started loop show ?thesis by (intro exI [of _ "Suc n"] exI [of _ m]) simp
  next
    case busy
    then show ?thesis
      by (intro exI [of _ 0]) (simp add: schedule_loop.simps [of ws i s])
  next
    case (dropped j js s')
    then show ?thesis
      by (intro exI [of _ 0] exI [of _ 1]) (simp add: schedule_loop.simps [of ws i s])
  qed
qed

lemma OnJobCompletion_loop: "OnJobCompletion ws s = schedule_loop ws 0 s"
  by (cases "TryScheduleNext (ws 0) s")
     (auto simp: OnJobCompletion_def schedule_loop.simps [of ws 0 s])


section \<open>The queue of the program's scheduler\<close>

datatype 'e SchedOp =
  SchedEnqueue "'e ManagerIface" int Job
| SchedTryNext "'e ManagerIface"
| SchedCompletion "nat \<Rightarrow> 'e ManagerIface"
| SchedRemove string

text \<open>The operations of a scheduler with the local-first heuristic, the managers answering anything.\<close>

definition local_first_world :: "'e ManagerIface \<Rightarrow> 'e World" where
  "local_first_world mgr = \<lparr>w_heuristic = SimpleLocalFirst_Schedule, w_manager = mgr\<rparr>"

fun sched_exec :: "Scheduler \<Rightarrow> 'e SchedOp \<Rightarrow> Scheduler" where
  "sched_exec s (SchedEnqueue mgr now job) =
     snd (EnqueueJob (local_first_world mgr) now (Some (Some job)) s)"
| "sched_exec s (SchedTryNext mgr) = snd (TryScheduleNext (local_first_world mgr) s)"
| "sched_exec s (SchedCompletion mgrs) = OnJobCompletion (\<lambda>i. local_first_world (mgrs i)) s"
| "sched_exec s (SchedRemove jid) = snd (RemoveQueuedJob jid s)"

lemma SimpleLocalFirst_never_busy: "SimpleLocalFirst_Schedule ctx \<noteq> Err AllRuntimesBusy"
  by (auto simp: SimpleLocalFirst_Schedule_def schedule_explicit_def schedule_matching_def Let_def
      split: option.splits RuntimeRequirement.splits sum.splits if_splits)

lemma local_first_not_queued:
  "queued_jobs (snd (EnqueueJob (local_first_world mgr) now (Some (Some job)) s)) = queued_jobs s"
proof -
  obtain res s' where r: "EnqueueJob (local_first_world mgr) now (Some (Some job)) s = (res, s')"
    by (cases "EnqueueJob (local_first_world mgr) now (Some (Some job)) s")
  have "res \<noteq> Err ErrAllRuntimesBusy"
    using r SimpleLocalFirst_never_busy
    by (auto simp: EnqueueJob_def scheduleJob_def local_first_world_def split: sum.splits if_splits)
  with EnqueueJob_result [OF r] r show ?thesis by (auto split: sum.splits)
qed

interpretation sched_queue: op_machine "\<lambda>s. queued_jobs s = []" sched_exec "\<lambda>s. queued_jobs s = []"
proof (unfold_locales, goal_cases)
  case (2 s op)
  show ?case
  proof (cases op)
    case (SchedEnqueue mgr now job)
    with 2 show ?thesis by (simp add: local_first_not_queued)
  next
    case (SchedTryNext mgr)
    have "jq_jobs (sch_queue s) = []" using 2 by (simp add: queued_jobs_def)
    with SchedTryNext 2 show ?thesis by (simp add: TryScheduleNext_def)
  next
    case (SchedCompletion mgrs)
    with 2 schedule_loop_conserves [of s "\<lambda>i. local_first_world (mgrs i)" 0] show ?thesis
      by (auto simp: OnJobCompletion_loop)
  next
    case (SchedRemove jid)
    with 2 show ?thesis by (simp add: RemoveQueuedJob_def QueueRemove_def queued_jobs_def)
  qed
qed

text \<open>With the heuristic the daemon configures, the queue of the scheduler is always empty: the
  heuristic never reports busy runtimes, so no job is ever queued and the retry of queued jobs
  is never exercised.\<close>
theorem local_first_queue_empty:
  assumes "queued_jobs s = []"
  shows "queued_jobs (foldl sched_exec s ops) = []"
  using assms by (rule sched_queue.run_inv)

theorem local_first_queue_empty_witness:
  "queued_jobs (foldl sched_exec empty_scheduler [SchedEnqueue local_only 1 explicit_job, SchedTryNext local_only]) = []"
  by (rule local_first_queue_empty) (simp add: empty_scheduler_def queued_jobs_def NewJobQueue_def)

text \<open>A job that names a runtime which is not installed locally is accepted by the daemon's
  scheduler, local manager and local-first heuristic, as a local execution on a nil runtime:
  its goroutine panics, even if the job named a peer that has the runtime.\<close>
theorem missing_runtime_started_as_nil:
  assumes "mgr_lookup mgr = local_lookup rts" and "rt_id rt \<notin> set (map impl_RuntimeID rts)"
    and "job_requirement job = Job_Runtime (Some rt)"
    and "EnqueueJob (local_first_world mgr) now (Some (Some job)) s = (res, s')"
  shows "is_ok res \<and> (\<exists>se. sch_started s' = sch_started s @ [se] \<and> se_job se = job \<and> se_impl se = None \<and>
    completion_result execute se = None)"
proof -
  have none: "List.find (\<lambda>x. impl_RuntimeID x = rt_id rt) rts = None"
    using assms(2) by (force simp: find_None_iff)
  show ?thesis
    using assms(4)
    by (auto simp: EnqueueJob_def scheduleJob_def local_first_world_def SimpleLocalFirst_Schedule_def
        assms(1,3) schedule_explicit_def local_lookup_find none completion_result_def)
qed

theorem missing_runtime_started_as_nil_witness:
  "is_ok (fst (EnqueueJob (local_first_world local_only) 1 (Some (Some explicit_job)) empty_scheduler))"
proof -
  obtain res s' where r:
    "EnqueueJob (local_first_world local_only) 1 (Some (Some explicit_job)) empty_scheduler = (res, s')"
    by (cases "EnqueueJob (local_first_world local_only) 1 (Some (Some explicit_job)) empty_scheduler")
  have "is_ok res"
    using missing_runtime_started_as_nil [of local_only "[NativeImpl clang_14]"
        "bare_native\<lparr>rt_peer_ids := [''b'']\<rparr>" explicit_job 1 empty_scheduler res s' "\<lambda>_ _. Err ''''"] r
    by (simp add: local_only_def explicit_job_def bare_native_def NativeRuntimeID_def)
  with r show ?thesis by simp
qed

text \<open>Finalizing never reports success for outputs that were not verified: when it returns
  without an error on a job that exited with zero and has outputs, the status is COMPLETED and
  the verified outputs are the materialised ones; when it returns an error, the result is
  FAILED with exit code one; a result with a non-zero exit code is returned as it was.\<close>
theorem FinalizeJobCompletion_spec:
  assumes "FinalizeJobCompletion mat ver (Some job) (Some res) = (Some res', err)"
  shows "case err of
      Some _ \<Rightarrow> jr_status res' = RESULT_FAILED \<and> jr_exit_code res' = 1 \<and> jr_exit_code res = 0
    | None \<Rightarrow> if jr_exit_code res = 0 \<and> (job_outputs job \<noteq> [] \<or> jr_outputs res \<noteq> [])
        then jr_status res' = RESULT_COMPLETED \<and> mat job res = Ok (jr_outputs res') \<and>
          ver job (res\<lparr>jr_outputs := jr_outputs res'\<rparr>) = None
        else res' = res"
  using assms
  by (auto simp: FinalizeJobCompletion_def Let_def split: if_splits sum.splits option.splits)

definition zero_result :: JobResult where
  "zero_result = \<lparr>jr_job_id = ''j'', jr_status = RESULT_COMPLETED, jr_output_data_ids = [],
     jr_log_output = '''', jr_error_message = '''', jr_executing_peer_id = ''a'',
     jr_started_at = None, jr_completed_at = None, jr_runtime_used = None, jr_exit_code = 0,
     jr_outputs = [None]\<rparr>"

theorem FinalizeJobCompletion_spec_witness:
  "\<exists>r e. FinalizeJobCompletion (\<lambda>_ _. Ok []) (\<lambda>_ _. Some ''bad'') (Some link_job) (Some zero_result) =
     (Some r, Some e) \<and> jr_status r = RESULT_FAILED"
proof -
  obtain r e where r: "FinalizeJobCompletion (\<lambda>_ _. Ok []) (\<lambda>_ _. Some ''bad'') (Some link_job) (Some zero_result) =
     (Some r, Some e)"
    by (simp add: FinalizeJobCompletion_def zero_result_def)
  from FinalizeJobCompletion_spec [OF r] r show ?thesis by auto
qed

section \<open>Two completions at once\<close>

text \<open>The goroutine of every execution calls TryScheduleNext when it ends, and the method peeks at the
  queue, schedules the job it saw and dequeues, taking the lock of the queue for each step only.
  A thread is between these steps: it holds the job it has seen, or it is about to dequeue.\<close>

datatype pc = Idle | Peeked Job | AtDequeue

record Race =
  rc_queue :: "Job list"
  rc_started :: "Job list"
  rc_pc :: "nat \<Rightarrow> pc"

definition race_init :: "Job list \<Rightarrow> Race" where
  "race_init q = \<lparr>rc_queue = q, rc_started = [], rc_pc = (\<lambda>_. Idle)\<rparr>"

inductive race_step :: "Race \<Rightarrow> nat \<Rightarrow> Race \<Rightarrow> bool" where
  race_peek: "rc_pc s t = Idle \<Longrightarrow> rc_queue s = j # js \<Longrightarrow>
    race_step s t (s\<lparr>rc_pc := (rc_pc s)(t := Peeked j)\<rparr>)"
| race_start: "rc_pc s t = Peeked j \<Longrightarrow>
    race_step s t (s\<lparr>rc_started := rc_started s @ [j], rc_pc := (rc_pc s)(t := AtDequeue)\<rparr>)"
| race_busy: "rc_pc s t = Peeked j \<Longrightarrow> race_step s t (s\<lparr>rc_pc := (rc_pc s)(t := Idle)\<rparr>)"
| race_fail: "rc_pc s t = Peeked j \<Longrightarrow> race_step s t (s\<lparr>rc_pc := (rc_pc s)(t := AtDequeue)\<rparr>)"
| race_dequeue: "rc_pc s t = AtDequeue \<Longrightarrow>
    race_step s t (s\<lparr>rc_queue := tl (rc_queue s), rc_pc := (rc_pc s)(t := Idle)\<rparr>)"


text \<open>The same steps when a thread finishes its call before another begins one.\<close>

definition serial_step :: "Race \<Rightarrow> nat \<Rightarrow> Race \<Rightarrow> bool" where
  "serial_step s t s' = (race_step s t s' \<and> (\<forall>u. u \<noteq> t \<longrightarrow> rc_pc s u = Idle))"

text \<open>Without overlap, the jobs started are jobs of the initial queue, in order and at most once.\<close>

definition serial_inv :: "Job list \<Rightarrow> Race \<Rightarrow> bool" where
  "serial_inv q0 s =
     (\<exists>k t. rc_queue s = drop k q0 \<and> (\<forall>u. u \<noteq> t \<longrightarrow> rc_pc s u = Idle) \<and>
       (case rc_pc s t of
          Idle \<Rightarrow> subseq (rc_started s) (take k q0)
        | Peeked j \<Rightarrow> (\<exists>js. rc_queue s = j # js) \<and> subseq (rc_started s) (take k q0)
        | AtDequeue \<Rightarrow> subseq (rc_started s) (take (Suc k) q0)))"

lemma take_Suc_drop: "drop k q = j # js \<Longrightarrow> take (Suc k) q = take k q @ [j]"
  by (metis drop_eq_Nil hd_drop_conv_nth leI list.distinct(1) list.sel(1) take_Suc_conv_app_nth)

lemma subseq_take_Suc: "subseq xs (take k q) \<Longrightarrow> subseq xs (take (Suc k) q)"
  by (metis le_add2 plus_1_eq_Suc prefix_imp_subseq prefix_order.dual_order.refl
      subseq_order.trans take_is_prefix take_take min_def)

lemma serial_inv_step:
  assumes inv: "serial_inv q0 s" and step: "serial_step s t s'"
  shows "serial_inv q0 s'"
proof -
  from inv obtain k u where k: "rc_queue s = drop k q0" "\<forall>v. v \<noteq> u \<longrightarrow> rc_pc s v = Idle"
    "case rc_pc s u of Idle \<Rightarrow> subseq (rc_started s) (take k q0)
     | Peeked j \<Rightarrow> (\<exists>js. rc_queue s = j # js) \<and> subseq (rc_started s) (take k q0)
     | AtDequeue \<Rightarrow> subseq (rc_started s) (take (Suc k) q0)"
    by (auto simp: serial_inv_def)
  from step have race: "race_step s t s'" and idle: "\<forall>v. v \<noteq> t \<longrightarrow> rc_pc s v = Idle"
    by (simp_all add: serial_step_def)
  have t: "case rc_pc s t of Idle \<Rightarrow> subseq (rc_started s) (take k q0)
     | Peeked j \<Rightarrow> (\<exists>js. rc_queue s = j # js) \<and> subseq (rc_started s) (take k q0)
     | AtDequeue \<Rightarrow> subseq (rc_started s) (take (Suc k) q0)"
    using k(2,3) idle by (cases "t = u") auto
  from race show ?thesis
  proof (cases rule: race_step.cases)
    case (race_peek j js)
    then show ?thesis using k(1) t idle unfolding serial_inv_def by (intro exI [of _ k] exI [of _ t]) auto
  next
    case (race_start j)
    with t obtain js where "rc_queue s = j # js" "subseq (rc_started s) (take k q0)" by auto
    moreover from this k(1) have "take (Suc k) q0 = take k q0 @ [j]" by (metis take_Suc_drop)
    ultimately show ?thesis
      using race_start k(1) idle unfolding serial_inv_def
      by (intro exI [of _ k] exI [of _ t]) auto
  next
    case (race_busy j)
    then show ?thesis using k(1) t idle unfolding serial_inv_def by (intro exI [of _ k] exI [of _ t]) auto
  next
    case (race_fail j)
    then show ?thesis using k(1) t idle subseq_take_Suc unfolding serial_inv_def
      by (intro exI [of _ k] exI [of _ t]) auto
  next
    case race_dequeue
    then show ?thesis using k(1) t idle unfolding serial_inv_def
      by (intro exI [of _ "Suc k"] exI [of _ t]) (auto simp: drop_Suc tl_drop)
  qed
qed

interpretation serial: step_system "\<lambda>s. s = race_init q0" serial_step "serial_inv q0" for q0
proof (unfold_locales, goal_cases)
  case (1 s)
  then show ?case unfolding serial_inv_def by (intro exI [of _ 0]) (simp add: race_init_def)
next
  case (2 s l s')
  then show ?case by (rule serial_inv_step)
qed

lemma serial_inv_subseq: "serial_inv q0 s \<Longrightarrow> subseq (rc_started s) q0"
proof -
  assume "serial_inv q0 s"
  then obtain k t where "case rc_pc s t of Idle \<Rightarrow> subseq (rc_started s) (take k q0)
      | Peeked j \<Rightarrow> (\<exists>js. rc_queue s = j # js) \<and> subseq (rc_started s) (take k q0)
      | AtDequeue \<Rightarrow> subseq (rc_started s) (take (Suc k) q0)"
    by (auto simp: serial_inv_def)
  then have "\<exists>n. subseq (rc_started s) (take n q0)" by (cases "rc_pc s t") auto
  then show ?thesis by (meson prefix_imp_subseq subseq_order.trans take_is_prefix)
qed

text \<open>Two threads that both peek before either dequeues.\<close>
lemma race_double_start:
  "\<exists>s. reach (\<lambda>s. s = race_init (a # b # q)) race_step s \<and> rc_started s = [a, a] \<and> rc_queue s = q \<and>
     (\<forall>t. rc_pc s t = Idle)"
proof -
  let ?R = "reach (\<lambda>s. s = race_init (a # b # q)) race_step"
  let ?s = "\<lambda>st qu p. \<lparr>rc_queue = qu, rc_started = st, rc_pc = p\<rparr>"
  have 0: "?R (?s [] (a # b # q) (\<lambda>_. Idle))"
    by (rule reach_start) (simp add: race_init_def)
  from reach_step [OF this race_peek [of _ 0]]
  have 1: "?R (?s [] (a # b # q) ((\<lambda>_. Idle)(0 := Peeked a)))" by simp
  from reach_step [OF this race_peek [of _ 1]]
  have 2: "?R (?s [] (a # b # q) ((\<lambda>_. Idle)(0 := Peeked a, 1 := Peeked a)))" by simp
  from reach_step [OF this race_start [of _ 0 a]]
  have 3: "?R (?s [a] (a # b # q) ((\<lambda>_. Idle)(0 := AtDequeue, 1 := Peeked a)))"
    by (simp add: fun_upd_twist)
  from reach_step [OF this race_start [of _ 1 a]]
  have 4: "?R (?s [a, a] (a # b # q) ((\<lambda>_. Idle)(0 := AtDequeue, 1 := AtDequeue)))" by simp
  from reach_step [OF this race_dequeue [of _ 0]]
  have 5: "?R (?s [a, a] (b # q) ((\<lambda>_. Idle)(0 := Idle, 1 := AtDequeue)))"
    by (simp add: fun_upd_twist)
  from reach_step [OF this race_dequeue [of _ 1]]
  have "?R (?s [a, a] q ((\<lambda>_. Idle)(0 := Idle, 1 := Idle)))" by simp
  then show ?thesis by (intro exI conjI) (assumption, simp_all)
qed

text \<open>When calls of TryScheduleNext do not overlap, every job of the queue is started at most
  once and in order. When two overlap, as the goroutines of two executions that end together
  may, a schedule exists in which the first job is started twice and the second job leaves the
  queue without ever being started.\<close>
theorem TryScheduleNext_overlap:
  "(\<forall>s. reach (\<lambda>s. s = race_init (a # b # q)) serial_step s \<longrightarrow> subseq (rc_started s) (a # b # q)) \<and>
   (\<exists>s. reach (\<lambda>s. s = race_init (a # b # q)) race_step s \<and> rc_started s = [a, a] \<and>
      rc_queue s = q \<and> (\<forall>t. rc_pc s t = Idle))"
  using serial.reach_inv serial_inv_subseq race_double_start by blast

theorem TryScheduleNext_overlap_witness:
  "\<exists>s. reach (\<lambda>s. s = race_init [link_job, query_job]) race_step s \<and>
     rc_started s = [link_job, link_job] \<and> rc_queue s = []"
  using TryScheduleNext_overlap [of link_job query_job "[]"] by blast

end
