(* ===== verification/JobManager.thy ===== *)
theory JobManager
  imports Scheduler "HOL-Library.Monad_Syntax"
begin

text \<open>
  The life of a submitted job: pkg/daemon/job_manager.go (JobState, JobManager) and
  pkg/daemon/job_service.go (the RPC service that streams its progress).

  The watchers of a job are Go channels, which several goroutines share: the manager's state holds
  the channels ever made, and a watcher is an index into it, so a handle and a job state name the
  same channel. UpdateProgress sends the pointer of the job's own progress (\<open>SharedProgress\<close>):
  the reader sees the progress as it is when it reads. WatchJobStatus sends a copy.

  An operation returns None when it panics (a send on a closed channel, a close of a closed one) or
  never returns (a send on a full channel nobody reads). An operation reads the clock once.
\<close>

section \<open>The state of a job\<close>

datatype progress_msg = SharedProgress | ProgressCopy JobProgress

type_synonym chans = "progress_msg chan list"

record JobState =
  js_job :: Job
  js_progress :: JobProgress
  js_result :: "JobResult option"
  js_watchers :: "nat list"

definition message_value :: "JobState \<Rightarrow> progress_msg \<Rightarrow> JobProgress" where
  "message_value js m = (case m of SharedProgress \<Rightarrow> js_progress js | ProgressCopy p \<Rightarrow> p)"

fun send_each :: "nat list \<Rightarrow> chans \<Rightarrow> chans option" where
  "send_each [] hp = Some hp"
| "send_each (w # ws) hp =
     (case chan_try_send (hp ! w) SharedProgress of
        None \<Rightarrow> None
      | Some c \<Rightarrow> send_each ws (hp[w := c]))"

definition UpdateProgress ::
  "int \<Rightarrow> JobStatus \<Rightarrow> string \<Rightarrow> JobState \<times> chans \<Rightarrow> (JobState \<times> chans) option" where
  "UpdateProgress now status message st =
     (case st of (js, hp) \<Rightarrow>
       (let p = js_progress js;
            p1 = p\<lparr>jp_status := status, jp_updated_at := Some now\<rparr>;
            p2 = (if message \<noteq> '''' then p1\<lparr>jp_log_output := jp_log_output p1 @ message @ [CHR 0x0A]\<rparr>
                  else p1);
            p3 = (if status \<in> {JOB_STATUS_COMPLETED, JOB_STATUS_FAILED, JOB_STATUS_CANCELLED}
                  then p2\<lparr>jp_result := js_result js\<rparr> else p2)
        in map_option (\<lambda>hp'. (js\<lparr>js_progress := p3\<rparr>, hp')) (send_each (js_watchers js) hp)))"

definition GetProgress :: "JobState \<Rightarrow> JobProgress" where
  "GetProgress js = js_progress js"

definition AddWatcher :: "nat \<Rightarrow> JobState \<Rightarrow> JobState" where
  "AddWatcher ch js = js\<lparr>js_watchers := js_watchers js @ [ch]\<rparr>"

definition RemoveWatcher :: "nat \<Rightarrow> JobState \<times> chans \<Rightarrow> (JobState \<times> chans) option" where
  "RemoveWatcher target st =
     (case st of (js, hp) \<Rightarrow>
        if target \<in> set (js_watchers js)
        then map_option (\<lambda>c. (js\<lparr>js_watchers := remove1 target (js_watchers js)\<rparr>, hp[target := c]))
               (chan_close (hp ! target))
        else Some (js, hp))"

text \<open>The last message of a full channel waits 100 milliseconds for its reader; \<open>reads w\<close> tells
  whether the reader of \<open>w\<close> takes a message in that time.\<close>

definition final_send :: "bool \<Rightarrow> progress_msg chan \<Rightarrow> progress_msg chan option" where
  "final_send reading c =
     (if ch_closed c then None
      else if length (ch_buf c) < ch_cap c then Some (c\<lparr>ch_buf := ch_buf c @ [SharedProgress]\<rparr>)
      else if reading then Some (c\<lparr>ch_buf := tl (ch_buf c) @ [SharedProgress]\<rparr>)
      else Some c)"

fun close_each :: "(nat \<Rightarrow> bool) \<Rightarrow> nat list \<Rightarrow> chans \<Rightarrow> chans option" where
  "close_each reads [] hp = Some hp"
| "close_each reads (w # ws) hp =
     (case final_send (reads w) (hp ! w) of
        None \<Rightarrow> None
      | Some c \<Rightarrow> (case chan_close c of
          None \<Rightarrow> None
        | Some c' \<Rightarrow> close_each reads ws (hp[w := c'])))"

definition CloseWatchers :: "(nat \<Rightarrow> bool) \<Rightarrow> JobState \<times> chans \<Rightarrow> (JobState \<times> chans) option" where
  "CloseWatchers reads st =
     (case st of (js, hp) \<Rightarrow>
        map_option (\<lambda>hp'. (js\<lparr>js_watchers := []\<rparr>, hp')) (close_each reads (js_watchers js) hp))"

section \<open>The manager\<close>

record JobManager =
  jm_jobs :: "(string, JobState) gomap"
  jm_scheduler :: "Scheduler option"
  jm_daemon_id :: string
  jm_chans :: chans
  jm_ctx_done :: "string list"

record WatchHandle =
  wh_job_id :: string
  wh_channel :: nat

record JobStatusMsg =
  jsm_job_id :: string
  jsm_submitter :: string
  jsm_submitted_at :: "int option"
  jsm_progress :: JobProgress

datatype 'e job_error =
  AlreadySubmitted string
| JobNotFound string
| NoScheduler
| SchedulerError "'e schedule_error"
| NilHandle
| NoResult string

definition NewJobManager :: "string \<Rightarrow> JobManager" where
  "NewJobManager daemonID = \<lparr>jm_jobs = [], jm_scheduler = None, jm_daemon_id = daemonID,
     jm_chans = [], jm_ctx_done = []\<rparr>"

definition SetScheduler :: "Scheduler \<Rightarrow> JobManager \<Rightarrow> JobManager" where
  "SetScheduler sched jm = jm\<lparr>jm_scheduler := Some sched\<rparr>"

text \<open>Running an operation of a job state on the job \<open>jid\<close> of the manager.\<close>

definition on_job ::
  "string \<Rightarrow> (JobState \<times> chans \<Rightarrow> (JobState \<times> chans) option) \<Rightarrow> JobManager \<Rightarrow> JobManager option" where
  "on_job jid f jm =
     (case gm_get (jm_jobs jm) jid of
        None \<Rightarrow> Some jm
      | Some js \<Rightarrow>
          (case f (js, jm_chans jm) of
             None \<Rightarrow> None
           | Some (js', hp') \<Rightarrow>
               Some (jm\<lparr>jm_jobs := gm_put (jm_jobs jm) jid js', jm_chans := hp'\<rparr>)))"

text \<open>WatchJobStatus takes the lock of the job to add the channel, and again to read the progress it
  sends: two steps, between which other operations may run. The channel holds ten messages.\<close>

definition watch_add :: "string \<Rightarrow> JobManager \<Rightarrow> ('e job_error + nat) \<times> JobManager" where
  "watch_add jid jm =
     (case gm_get (jm_jobs jm) jid of
        None \<Rightarrow> (Err (JobNotFound jid), jm)
      | Some js \<Rightarrow>
          (let ch = length (jm_chans jm)
           in (Ok ch, jm\<lparr>jm_chans := jm_chans jm @ [make_chan 10],
                         jm_jobs := gm_put (jm_jobs jm) jid (AddWatcher ch js)\<rparr>)))"

definition watch_send :: "string \<Rightarrow> nat \<Rightarrow> JobManager \<Rightarrow> JobManager option" where
  "watch_send jid ch jm =
     on_job jid (\<lambda>(js, hp).
       (let c = hp ! ch
        in if ch_closed c \<or> ch_cap c \<le> length (ch_buf c) then None
           else Some (js, hp[ch := c\<lparr>ch_buf := ch_buf c @ [ProgressCopy (GetProgress js)]\<rparr>]))) jm"

definition WatchJobStatus ::
  "string \<Rightarrow> JobManager \<Rightarrow> (('e job_error + WatchHandle) \<times> JobManager) option" where
  "WatchJobStatus jid jm =
     (case watch_add jid jm of
        (Inl e, jm1) \<Rightarrow> Some (Err e, jm1)
      | (Inr ch, jm1) \<Rightarrow>
          map_option (\<lambda>jm2. (Ok \<lparr>wh_job_id = jid, wh_channel = ch\<rparr>, jm2)) (watch_send jid ch jm1))"

definition initial_state :: "int \<Rightarrow> Job \<Rightarrow> JobState" where
  "initial_state now job =
     \<lparr>js_job = job,
      js_progress = \<lparr>jp_job_id = job_id job, jp_status = JOB_STATUS_RECEIVED, jp_percent = None,
        jp_updated_at = Some now, jp_executing_peer_id = '''', jp_log_output = '''',
        jp_result = None\<rparr>,
      js_result = None, js_watchers = []\<rparr>"

text \<open>SubmitJob. The context of the execution the scheduler starts is cancelled as soon as the
  scheduler has answered: \<open>jm_ctx_done\<close> records the jobs whose context is done.\<close>

definition set_result :: "JobResult option \<Rightarrow> JobState \<times> chans \<Rightarrow> (JobState \<times> chans) option" where
  "set_result r st = (case st of (js, hp) \<Rightarrow> Some (js\<lparr>js_result := r\<rparr>, hp))"

definition no_scheduler_result :: "int \<Rightarrow> string \<Rightarrow> string \<Rightarrow> JobResult" where
  "no_scheduler_result now jid daemonID =
     \<lparr>jr_job_id = jid, jr_status = RESULT_FAILED, jr_output_data_ids = [], jr_log_output = '''',
      jr_error_message = ''Scheduler not available'', jr_executing_peer_id = daemonID,
      jr_started_at = Some now, jr_completed_at = Some now, jr_runtime_used = None,
      jr_exit_code = 1, jr_outputs = []\<rparr>"

definition JobManager_SubmitJob ::
  "'e World \<Rightarrow> (nat \<Rightarrow> bool) \<Rightarrow> int \<Rightarrow> Job \<Rightarrow> JobManager
    \<Rightarrow> (('e job_error + WatchHandle) \<times> JobManager) option" where
  "JobManager_SubmitJob w reads now job jm =
     (let jid = job_id job
      in if gm_get (jm_jobs jm) jid \<noteq> None then Some (Err (AlreadySubmitted jid), jm)
      else do {
        (watched, jm2) \<leftarrow> WatchJobStatus jid
           (jm\<lparr>jm_jobs := gm_put (jm_jobs jm) jid (initial_state now job)\<rparr>);
        (case watched of
           Inl e \<Rightarrow> Some (Err e, jm2)
         | Inr handle \<Rightarrow> do {
             jm3 \<leftarrow> on_job jid (UpdateProgress now JOB_STATUS_READY ''Job ready for scheduling'') jm2;
             jm4 \<leftarrow> on_job jid (UpdateProgress now JOB_STATUS_QUEUED ''Job entered queue'') jm3;
             (case jm_scheduler jm4 of
                None \<Rightarrow> do {
                  jm5 \<leftarrow> on_job jid (UpdateProgress now JOB_STATUS_FAILED ''Scheduler not available'') jm4;
                  jm6 \<leftarrow> on_job jid (set_result
                     (Some (no_scheduler_result now jid (jm_daemon_id jm)))) jm5;
                  jm7 \<leftarrow> on_job jid (CloseWatchers reads) jm6;
                  Some (Err NoScheduler, jm7)
                }
              | Some sched \<Rightarrow>
                  (case EnqueueJob w now (Some (Some job)) sched of (res, sched') \<Rightarrow>
                     (let jm5 = jm4\<lparr>jm_scheduler := Some sched', jm_ctx_done := jid # jm_ctx_done jm4\<rparr>
                      in Some (case res of Inl e \<Rightarrow> Err (SchedulerError e) | Inr _ \<Rightarrow> Ok handle,
                               jm5))))
           })
      })"

text \<open>The two callbacks SubmitJob hands to the scheduler.\<close>

definition progressCallback ::
  "bool \<Rightarrow> string \<Rightarrow> string \<Rightarrow> JobState \<times> chans \<Rightarrow> (JobState \<times> chans) option" where
  "progressCallback isOutput source out st =
     (case st of (js, hp) \<Rightarrow>
       (let js' = (if isOutput
              then js\<lparr>js_progress := (js_progress js)\<lparr>jp_log_output :=
                     jp_log_output (js_progress js) @ ''['' @ source @ ''] '' @ out\<rparr>\<rparr>
              else js)
        in map_option (\<lambda>hp'. (js', hp')) (send_each (js_watchers js') hp)))"

fun finalize_error_text :: "finalize_error \<Rightarrow> string" where
  "finalize_error_text (MaterializeFailed e) = ''output materialization failed: '' @ e"
| "finalize_error_text (VerifyFailed e) = ''output verification failed: '' @ e"

definition completed_result :: "string \<Rightarrow> string \<Rightarrow> ExecutionResult \<Rightarrow> JobResult" where
  "completed_result jid daemonID r =
     \<lparr>jr_job_id = jid, jr_status = (if er_exit_code r \<noteq> 0 then RESULT_FAILED else RESULT_COMPLETED),
      jr_output_data_ids = [], jr_log_output = '''', jr_error_message = '''',
      jr_executing_peer_id = daemonID, jr_started_at = None, jr_completed_at = None,
      jr_runtime_used = None, jr_exit_code = word_of_int (er_exit_code r), jr_outputs = er_output r\<rparr>"

definition completionCallback ::
  "(Job \<Rightarrow> JobResult \<Rightarrow> string + JobData option list) \<Rightarrow> (Job \<Rightarrow> JobResult \<Rightarrow> string option)
    \<Rightarrow> int \<Rightarrow> string \<Rightarrow> Job \<Rightarrow> ExecutionResult \<Rightarrow> JobState \<times> chans \<Rightarrow> (JobState \<times> chans) option" where
  "completionCallback materialize verify now daemonID finalJob execResult st =
     (let finalStatus = (if er_exit_code execResult \<noteq> 0 then JOB_STATUS_FAILED else JOB_STATUS_COMPLETED)
      in case FinalizeJobCompletion materialize verify (Some finalJob)
                (Some (completed_result (job_id (js_job (fst st))) daemonID execResult)) of
        (finalized, Some e) \<Rightarrow> do {
          st1 \<leftarrow> set_result finalized st;
          UpdateProgress now JOB_STATUS_FAILED
            (''Job completion finalization failed: '' @ finalize_error_text e) st1
        }
      | (finalized, None) \<Rightarrow> do {
          st1 \<leftarrow> set_result finalized st;
          UpdateProgress now finalStatus '''' st1
        })"

definition GetJobStatus :: "string \<Rightarrow> JobManager \<Rightarrow> 'e job_error + JobStatusMsg" where
  "GetJobStatus jid jm =
     (case gm_get (jm_jobs jm) jid of
        None \<Rightarrow> Err (JobNotFound jid)
      | Some js \<Rightarrow> Ok \<lparr>jsm_job_id = jid, jsm_submitter = jm_daemon_id jm,
          jsm_submitted_at = job_submitted_at (js_job js), jsm_progress = GetProgress js\<rparr>)"

definition StopWatching ::
  "WatchHandle option \<Rightarrow> JobManager \<Rightarrow> ('e job_error option \<times> JobManager) option" where
  "StopWatching handle jm =
     (case handle of
        None \<Rightarrow> Some (Some NilHandle, jm)
      | Some h \<Rightarrow>
          if gm_get (jm_jobs jm) (wh_job_id h) = None then Some (Some (JobNotFound (wh_job_id h)), jm)
          else map_option (\<lambda>jm'. (None, jm'))
                 (on_job (wh_job_id h) (RemoveWatcher (wh_channel h)) jm))"

definition CancelJob ::
  "(nat \<Rightarrow> bool) \<Rightarrow> int \<Rightarrow> string \<Rightarrow> string \<Rightarrow> JobManager \<Rightarrow> ('e job_error option \<times> JobManager) option" where
  "CancelJob reads now jid reason jm =
     (if gm_get (jm_jobs jm) jid = None then Some (Some (JobNotFound jid), jm)
      else do {
        jm1 \<leftarrow> on_job jid (UpdateProgress now JOB_STATUS_CANCELLED (''Cancelled: '' @ reason)) jm;
        jm2 \<leftarrow> on_job jid (CloseWatchers reads) jm1;
        Some (None, jm2)
      })"

definition GetResult :: "string \<Rightarrow> JobManager \<Rightarrow> 'e job_error + JobResult" where
  "GetResult jid jm =
     (case gm_get (jm_jobs jm) jid of
        None \<Rightarrow> Err (JobNotFound jid)
      | Some js \<Rightarrow> (case js_result js of None \<Rightarrow> Err (NoResult jid) | Some r \<Rightarrow> Ok r))"

section \<open>Channels stay usable\<close>

text \<open>\<open>hp_ext ws hp hp'\<close>: from \<open>hp\<close> to \<open>hp'\<close> no channel disappears, the capacities stay, and a
  channel outside \<open>ws\<close> keeps whether it is closed.\<close>

definition hp_ext :: "nat set \<Rightarrow> chans \<Rightarrow> chans \<Rightarrow> bool" where
  "hp_ext ws hp hp' = (length hp \<le> length hp' \<and>
     (\<forall>a<length hp. a \<notin> ws \<longrightarrow> ch_closed (hp' ! a) = ch_closed (hp ! a)))"

definition all_open :: "nat list \<Rightarrow> chans \<Rightarrow> bool" where
  "all_open ws hp = (\<forall>a\<in>set ws. a < length hp \<and> \<not> ch_closed (hp ! a))"

lemma hp_ext_refl [simp]: "hp_ext ws hp hp"
  by (simp add: hp_ext_def)

lemma hp_ext_trans: "hp_ext A hp hp1 \<Longrightarrow> hp_ext B hp1 hp2 \<Longrightarrow> A \<subseteq> C \<Longrightarrow> B \<subseteq> C \<Longrightarrow> hp_ext C hp hp2"
  unfolding hp_ext_def by (meson order_trans order_less_le_trans subsetD)

lemma all_open_ext: "all_open ws hp \<Longrightarrow> hp_ext A hp hp' \<Longrightarrow> A \<inter> set ws = {} \<Longrightarrow> all_open ws hp'"
  by (force simp: all_open_def hp_ext_def)

lemma send_each_open:
  "all_open ws hp \<Longrightarrow> \<exists>hp'. send_each ws hp = Some hp' \<and> hp_ext {} hp hp'"
proof (induction ws arbitrary: hp)
  case (Cons w ws)
  then have w: "w < length hp" "\<not> ch_closed (hp ! w)" by (auto simp: all_open_def)
  from chan_try_send_open [OF w(2)] obtain c where c: "chan_try_send (hp ! w) SharedProgress = Some c"
    by blast
  then have closed: "\<not> ch_closed c" using w(2) by (auto simp: chan_try_send_def split: if_splits)
  with w have ext: "hp_ext {} hp (hp[w := c])" by (auto simp: hp_ext_def nth_list_update)
  have "all_open ws hp" using Cons.prems by (simp add: all_open_def)
  then have "all_open ws (hp[w := c])" using ext by (rule all_open_ext) simp
  from Cons.IH [OF this] obtain hp' where
    "send_each ws (hp[w := c]) = Some hp'" "hp_ext {} (hp[w := c]) hp'" by auto
  with c ext show ?case by (auto intro: hp_ext_trans)
qed simp

lemma send_each_length: "send_each ws hp = Some hp' \<Longrightarrow> length hp' = length hp"
  by (induction ws hp rule: send_each.induct) (auto split: option.splits)

lemma close_each_open:
  "all_open ws hp \<Longrightarrow> distinct ws \<Longrightarrow>
     \<exists>hp'. close_each reads ws hp = Some hp' \<and> hp_ext (set ws) hp hp' \<and>
       (\<forall>a\<in>set ws. ch_closed (hp' ! a))"
proof (induction ws arbitrary: hp)
  case (Cons w ws)
  then have w: "w < length hp" "\<not> ch_closed (hp ! w)" by (auto simp: all_open_def)
  have "\<exists>c. final_send (reads w) (hp ! w) = Some c \<and> \<not> ch_closed c"
    using w(2) by (simp add: final_send_def)
  then obtain c where c: "final_send (reads w) (hp ! w) = Some c" "\<not> ch_closed c"
    by blast
  define hp1 where "hp1 = hp[w := c\<lparr>ch_closed := True\<rparr>]"
  from w(1) have ext: "hp_ext {w} hp hp1" by (auto simp: hp_ext_def hp1_def nth_list_update)
  have "all_open ws hp" using Cons.prems by (simp add: all_open_def)
  then have "all_open ws hp1" using ext Cons.prems(2) by (auto intro: all_open_ext)
  with Cons.IH [of hp1] Cons.prems(2) obtain hp' where hp':
    "close_each reads ws hp1 = Some hp'" "hp_ext (set ws) hp1 hp'" "\<forall>a\<in>set ws. ch_closed (hp' ! a)"
    by auto
  have "ch_closed (hp' ! w)"
    using hp'(2) Cons.prems(2) w by (auto simp: hp_ext_def hp1_def)
  with c hp' ext show ?case
    by (auto simp: chan_close_def hp1_def intro: hp_ext_trans)
qed simp

section \<open>The invariant of the manager\<close>

definition job_ok :: "chans \<Rightarrow> string \<Rightarrow> JobState \<Rightarrow> bool" where
  "job_ok hp jid js = (distinct (js_watchers js) \<and> all_open (js_watchers js) hp \<and>
     job_id (js_job js) = jid \<and> jp_job_id (js_progress js) = jid)"

definition jm_ok :: "JobManager \<Rightarrow> bool" where
  "jm_ok jm =
     ((\<forall>jid js. gm_get (jm_jobs jm) jid = Some js \<longrightarrow> job_ok (jm_chans jm) jid js) \<and>
      (\<forall>jid js jid' js'. gm_get (jm_jobs jm) jid = Some js \<longrightarrow> gm_get (jm_jobs jm) jid' = Some js' \<longrightarrow>
         jid \<noteq> jid' \<longrightarrow> set (js_watchers js) \<inter> set (js_watchers js') = {}))"

text \<open>What an operation on one job state must do to keep the invariant: it ends, keeps the job and
  adds no watcher, and touches no other job's channels.\<close>

definition state_op :: "(JobState \<times> chans \<Rightarrow> (JobState \<times> chans) option) \<Rightarrow> bool" where
  "state_op f = (\<forall>jid js hp. job_ok hp jid js \<longrightarrow>
     (\<exists>js' hp'. f (js, hp) = Some (js', hp') \<and> job_ok hp' jid js' \<and>
        set (js_watchers js') \<subseteq> set (js_watchers js) \<and> hp_ext (set (js_watchers js)) hp hp'))"

lemma state_op_UpdateProgress: "state_op (UpdateProgress now status msg)"
  unfolding state_op_def
proof (intro allI impI)
  fix jid js hp assume ok: "job_ok hp jid js"
  then obtain hp' where "send_each (js_watchers js) hp = Some hp'" "hp_ext {} hp hp'"
    using send_each_open by (auto simp: job_ok_def)
  with ok show "\<exists>js' hp'. UpdateProgress now status msg (js, hp) = Some (js', hp') \<and> job_ok hp' jid js' \<and>
        set (js_watchers js') \<subseteq> set (js_watchers js) \<and> hp_ext (set (js_watchers js)) hp hp'"
    by (auto simp: UpdateProgress_def Let_def job_ok_def intro: all_open_ext hp_ext_trans)
qed

lemma state_op_progressCallback: "state_op (progressCallback out src txt)"
  unfolding state_op_def
proof (intro allI impI)
  fix jid js hp assume ok: "job_ok hp jid js"
  then obtain hp' where "send_each (js_watchers js) hp = Some hp'" "hp_ext {} hp hp'"
    using send_each_open by (auto simp: job_ok_def)
  with ok show "\<exists>js' hp'. progressCallback out src txt (js, hp) = Some (js', hp') \<and> job_ok hp' jid js' \<and>
        set (js_watchers js') \<subseteq> set (js_watchers js) \<and> hp_ext (set (js_watchers js)) hp hp'"
    by (auto simp: progressCallback_def Let_def job_ok_def intro: all_open_ext hp_ext_trans)
qed

lemma state_op_set_result: "state_op (set_result r)"
  by (simp add: state_op_def set_result_def job_ok_def)

lemma state_op_bind: "state_op f \<Longrightarrow> state_op g \<Longrightarrow> state_op (\<lambda>st. Option.bind (f st) g)"
  unfolding state_op_def by (fastforce intro: hp_ext_trans)

lemma state_op_CloseWatchers: "state_op (CloseWatchers reads)"
  unfolding state_op_def
proof (intro allI impI)
  fix jid js hp assume ok: "job_ok hp jid js"
  then obtain hp' where "close_each reads (js_watchers js) hp = Some hp'"
      "hp_ext (set (js_watchers js)) hp hp'"
    using close_each_open [of "js_watchers js" hp reads] by (auto simp: job_ok_def)
  with ok show "\<exists>js' hp'. CloseWatchers reads (js, hp) = Some (js', hp') \<and> job_ok hp' jid js' \<and>
        set (js_watchers js') \<subseteq> set (js_watchers js) \<and> hp_ext (set (js_watchers js)) hp hp'"
    by (auto simp: CloseWatchers_def job_ok_def all_open_def)
qed

lemma state_op_RemoveWatcher: "state_op (RemoveWatcher target)"
  unfolding state_op_def
  by (auto simp: RemoveWatcher_def job_ok_def all_open_def chan_close_def hp_ext_def nth_list_update
      dest: notin_set_remove1)

lemma state_op_completionCallback: "state_op (completionCallback mat ver now d finalJob r)"
proof -
  define g where "g = (\<lambda>jid. FinalizeJobCompletion mat ver (Some finalJob) (Some (completed_result jid d r)))"
  have step: "state_op (\<lambda>st. Option.bind (set_result (fst (g jid)) st) (UpdateProgress now s m))" for jid s m
    by (intro state_op_bind state_op_set_result state_op_UpdateProgress)
  show ?thesis
    unfolding state_op_def
  proof (intro allI impI)
    fix jid js hp assume ok: "job_ok hp jid js"
    have "\<exists>s m. completionCallback mat ver now d finalJob r (js, hp) =
        Option.bind (set_result (fst (g jid)) (js, hp)) (UpdateProgress now s m)"
      using ok by (auto simp: completionCallback_def g_def Let_def job_ok_def split: prod.split option.split)
    with step [unfolded state_op_def, rule_format, OF ok]
    show "\<exists>js' hp'. completionCallback mat ver now d finalJob r (js, hp) = Some (js', hp') \<and>
        job_ok hp' jid js' \<and> set (js_watchers js') \<subseteq> set (js_watchers js) \<and>
        hp_ext (set (js_watchers js)) hp hp'"
      by metis
  qed
qed

lemma jm_ok_on_job:
  assumes "jm_ok jm" and f: "state_op f"
  shows "\<exists>jm'. on_job jid f jm = Some jm' \<and> jm_ok jm' \<and> jm_scheduler jm' = jm_scheduler jm \<and>
    jm_daemon_id jm' = jm_daemon_id jm \<and> jm_ctx_done jm' = jm_ctx_done jm"
proof (cases "gm_get (jm_jobs jm) jid")
  case (Some js)
  have ok: "job_ok (jm_chans jm) jid js" using assms(1) Some by (simp add: jm_ok_def)
  with f obtain js' hp' where f': "f (js, jm_chans jm) = Some (js', hp')" "job_ok hp' jid js'"
    "set (js_watchers js') \<subseteq> set (js_watchers js)" "hp_ext (set (js_watchers js)) (jm_chans jm) hp'"
    unfolding state_op_def by blast
  have other: "job_ok hp' jid2 js2"
    if "gm_get (jm_jobs jm) jid2 = Some js2" "jid2 \<noteq> jid" for jid2 js2
  proof -
    from assms(1) that Some have "set (js_watchers js) \<inter> set (js_watchers js2) = {}"
        "job_ok (jm_chans jm) jid2 js2"
      by (auto simp: jm_ok_def)
    with f'(4) show ?thesis by (auto simp: job_ok_def intro: all_open_ext)
  qed
  have "jm_ok (jm\<lparr>jm_jobs := gm_put (jm_jobs jm) jid js', jm_chans := hp'\<rparr>)"
    using assms(1) Some f'(2,3) other by (fastforce simp: jm_ok_def)
  with f'(1) Some show ?thesis by (simp add: on_job_def)
qed (use assms in \<open>simp add: on_job_def\<close>)

lemma jm_ok_New: "jm_ok (NewJobManager d)"
  by (simp add: jm_ok_def NewJobManager_def)

lemma jm_ok_SetScheduler: "jm_ok jm \<Longrightarrow> jm_ok (SetScheduler s jm)"
  by (simp add: jm_ok_def SetScheduler_def)

lemma jm_ok_insert:
  assumes "jm_ok jm" and "gm_get (jm_jobs jm) (job_id job) = None"
  shows "jm_ok (jm\<lparr>jm_jobs := gm_put (jm_jobs jm) (job_id job) (initial_state now job)\<rparr>)"
  using assms by (auto simp: jm_ok_def job_ok_def initial_state_def all_open_def)

lemma jm_ok_watch_add:
  assumes "jm_ok jm" and js: "gm_get (jm_jobs jm) jid = Some js"
  shows "jm_ok (jm\<lparr>jm_chans := jm_chans jm @ [make_chan 10],
    jm_jobs := gm_put (jm_jobs jm) jid (AddWatcher (length (jm_chans jm)) js)\<rparr>)"
proof -
  have old: "all_open ws (jm_chans jm @ [make_chan 10]) \<and> length (jm_chans jm) \<notin> set ws"
    if "all_open ws (jm_chans jm)" for ws
    using that by (fastforce simp: all_open_def nth_append)
  have ok: "job_ok (jm_chans jm) jid' js'" if "gm_get (jm_jobs jm) jid' = Some js'" for jid' js'
    using assms(1) that by (simp add: jm_ok_def)
  have new: "job_ok (jm_chans jm @ [make_chan 10]) jid' js' \<and> length (jm_chans jm) \<notin> set (js_watchers js')"
    if "gm_get (jm_jobs jm) jid' = Some js'" for jid' js'
    using old ok [OF that] by (simp add: job_ok_def)
  have "job_ok (jm_chans jm @ [make_chan 10]) jid (AddWatcher (length (jm_chans jm)) js)"
    using new [OF js] by (auto simp: job_ok_def AddWatcher_def all_open_def nth_append)
  with new assms show ?thesis
    by (fastforce simp: jm_ok_def AddWatcher_def)
qed

text \<open>A job as long as nobody watches it: its first watcher's channel holds its progress.\<close>
lemma WatchJobStatus_unknown:
  "gm_get (jm_jobs jm) jid = None \<Longrightarrow> WatchJobStatus jid jm = Some (Err (JobNotFound jid), jm)"
  by (simp add: WatchJobStatus_def watch_add_def)

lemma WatchJobStatus_known:
  assumes "gm_get (jm_jobs jm) jid = Some js"
  shows "WatchJobStatus jid jm = Some (Ok \<lparr>wh_job_id = jid, wh_channel = length (jm_chans jm)\<rparr>,
    jm\<lparr>jm_jobs := gm_put (jm_jobs jm) jid (AddWatcher (length (jm_chans jm)) js),
       jm_chans := jm_chans jm @ [(make_chan 10)\<lparr>ch_buf := [ProgressCopy (js_progress js)]\<rparr>]\<rparr>)"
  using assms
  by (simp add: WatchJobStatus_def watch_add_def watch_send_def on_job_def Let_def GetProgress_def
      AddWatcher_def make_chan_def)

lemma jm_ok_WatchJobStatus:
  assumes "jm_ok jm"
  shows "\<exists>r jm'. WatchJobStatus jid jm = Some (r, jm') \<and> jm_ok jm' \<and>
    jm_scheduler jm' = jm_scheduler jm \<and> jm_daemon_id jm' = jm_daemon_id jm"
proof (cases "gm_get (jm_jobs jm) jid")
  case None then show ?thesis using assms WatchJobStatus_unknown by auto
next
  case (Some js)
  note js = jm_ok_watch_add [OF assms Some]
  have hp: "job_ok (jm_chans jm @ [make_chan 10]) jid' js' \<Longrightarrow>
      job_ok (jm_chans jm @ [(make_chan 10)\<lparr>ch_buf := b\<rparr>]) jid' js'" for jid' js' b
    by (auto simp: job_ok_def all_open_def nth_append split: if_splits)
  show ?thesis
    unfolding WatchJobStatus_known [OF Some] using js hp by (fastforce simp: jm_ok_def)
qed

lemma jm_ok_SubmitJob:
  fixes w :: "'e World"
  assumes "jm_ok jm"
  shows "\<exists>r jm'. JobManager_SubmitJob w reads now job jm = Some (r, jm') \<and> jm_ok jm'"
proof (cases "gm_get (jm_jobs jm) (job_id job)")
  case None
  define jm1 where "jm1 = jm\<lparr>jm_jobs := gm_put (jm_jobs jm) (job_id job) (initial_state now job)\<rparr>"
  have "jm_ok jm1" unfolding jm1_def by (rule jm_ok_insert [OF assms None])
  from jm_ok_WatchJobStatus [OF this, of "job_id job"]
  obtain jm2 and r :: "'e job_error + WatchHandle"
    where 2: "WatchJobStatus (job_id job) jm1 = Some (r, jm2)" "jm_ok jm2" by blast
  have "gm_get (jm_jobs jm1) (job_id job) = Some (initial_state now job)" by (simp add: jm1_def)
  from 2(1) [unfolded WatchJobStatus_known [OF this]] obtain h where r: "r = Ok h" by auto
  obtain jm3 where 3: "on_job (job_id job)
      (UpdateProgress now JOB_STATUS_READY ''Job ready for scheduling'') jm2 = Some jm3" "jm_ok jm3"
    using jm_ok_on_job [OF 2(2) state_op_UpdateProgress] by blast
  obtain jm4 where 4: "on_job (job_id job)
      (UpdateProgress now JOB_STATUS_QUEUED ''Job entered queue'') jm3 = Some jm4" "jm_ok jm4"
    using jm_ok_on_job [OF 3(2) state_op_UpdateProgress] by blast
  obtain jm5 where 5: "on_job (job_id job)
      (UpdateProgress now JOB_STATUS_FAILED ''Scheduler not available'') jm4 = Some jm5" "jm_ok jm5"
    using jm_ok_on_job [OF 4(2) state_op_UpdateProgress] by blast
  obtain jm6 where 6: "on_job (job_id job)
      (set_result (Some (no_scheduler_result now (job_id job) (jm_daemon_id jm)))) jm5 = Some jm6" "jm_ok jm6"
    using jm_ok_on_job [OF 5(2) state_op_set_result] by blast
  obtain jm7 where 7: "on_job (job_id job) (CloseWatchers reads) jm6 = Some jm7" "jm_ok jm7"
    using jm_ok_on_job [OF 6(2) state_op_CloseWatchers] by blast
  have fields: "jm_ok (jm4\<lparr>jm_scheduler := s, jm_ctx_done := c\<rparr>)" for s c
    using 4(2) by (simp add: jm_ok_def)
  show ?thesis
    using None 2(1) r 3(1) 4(1) 5(1) 6(1) 7 fields
    by (simp add: JobManager_SubmitJob_def Let_def flip: jm1_def split: option.split prod.split)
next
  case Some then show ?thesis using assms by (simp add: JobManager_SubmitJob_def)
qed

section \<open>The manager never panics\<close>

text \<open>The operations of the manager and of the goroutines it starts, one after the other; \<open>Receive\<close> is
  a reader taking a message.\<close>

datatype 'e JobOp =
  OpSetScheduler Scheduler
| OpSubmit "'e World" "nat \<Rightarrow> bool" int Job
| OpWatch string
| OpStopWatching "WatchHandle option"
| OpCancel "nat \<Rightarrow> bool" int string string
| OpProgress string bool string string
| OpCompleted "Job \<Rightarrow> JobResult \<Rightarrow> string + JobData option list"
    "Job \<Rightarrow> JobResult \<Rightarrow> string option" int string Job ExecutionResult
| OpReceive nat

definition receive :: "nat \<Rightarrow> JobManager \<Rightarrow> JobManager" where
  "receive ch jm = (if ch < length (jm_chans jm)
     then (case chan_recv (jm_chans jm ! ch) of
             None \<Rightarrow> jm | Some (_, c) \<Rightarrow> jm\<lparr>jm_chans := (jm_chans jm)[ch := c]\<rparr>)
     else jm)"

fun job_exec :: "JobManager \<Rightarrow> 'e JobOp \<Rightarrow> JobManager option" where
  "job_exec jm (OpSetScheduler s) = Some (SetScheduler s jm)"
| "job_exec jm (OpSubmit w reads now job) = map_option snd (JobManager_SubmitJob w reads now job jm)"
| "job_exec jm (OpWatch jid) =
     map_option snd (WatchJobStatus jid jm :: (('e job_error + WatchHandle) \<times> JobManager) option)"
| "job_exec jm (OpStopWatching h) =
     map_option snd (StopWatching h jm :: ('e job_error option \<times> JobManager) option)"
| "job_exec jm (OpCancel reads now jid reason) =
     map_option snd (CancelJob reads now jid reason jm :: ('e job_error option \<times> JobManager) option)"
| "job_exec jm (OpProgress jid out src txt) = on_job jid (progressCallback out src txt) jm"
| "job_exec jm (OpCompleted mat ver now jid job r) =
     on_job jid (completionCallback mat ver now (jm_daemon_id jm) job r) jm"
| "job_exec jm (OpReceive ch) = Some (receive ch jm)"

lemma jm_ok_receive: "jm_ok jm \<Longrightarrow> jm_ok (receive ch jm)"
proof -
  assume *: "jm_ok jm"
  have "job_ok hp jid js \<Longrightarrow> job_ok (hp[ch := (hp ! ch)\<lparr>ch_buf := b\<rparr>]) jid js" for hp jid js b
    by (auto simp: job_ok_def all_open_def nth_list_update split: if_splits)
       (metis chan.select_convs(3) chan.surjective chan.update_convs(1) nth_list_update nth_list_update_neq)
  with * show ?thesis
    by (fastforce simp: receive_def chan_recv_def jm_ok_def split: option.split list.split)
qed

lemma jm_ok_StopWatching:
  "jm_ok jm \<Longrightarrow> \<exists>r jm'. StopWatching h jm = Some (r, jm') \<and> jm_ok jm'"
proof (cases h)
  case (Some hd)
  assume "jm_ok jm"
  from jm_ok_on_job [OF this state_op_RemoveWatcher, of "wh_job_id hd" "wh_channel hd"] \<open>jm_ok jm\<close> Some
  show ?thesis by (auto simp: StopWatching_def)
qed (simp add: StopWatching_def)

lemma jm_ok_CancelJob:
  assumes "jm_ok jm"
  shows "\<exists>r jm'. CancelJob reads now jid reason jm = Some (r, jm') \<and> jm_ok jm'"
proof -
  obtain jm1 where 1: "on_job jid (UpdateProgress now JOB_STATUS_CANCELLED (''Cancelled: '' @ reason)) jm
      = Some jm1" "jm_ok jm1"
    using jm_ok_on_job [OF assms state_op_UpdateProgress] by blast
  obtain jm2 where "on_job jid (CloseWatchers reads) jm1 = Some jm2" "jm_ok jm2"
    using jm_ok_on_job [OF 1(2) state_op_CloseWatchers] by blast
  with 1 assms show ?thesis by (auto simp: CancelJob_def)
qed

lemma job_exec_ok: "jm_ok jm \<Longrightarrow> \<exists>jm'. job_exec jm op = Some jm' \<and> jm_ok jm'"
proof (cases op)
  case (OpSubmit w reads now job)
  assume "jm_ok jm"
  from jm_ok_SubmitJob [OF this, of w reads now job] show ?thesis by (auto simp: OpSubmit)
next
  case (OpWatch jid)
  assume "jm_ok jm"
  from jm_ok_WatchJobStatus [OF this, of jid] show ?thesis by (fastforce simp: OpWatch)
next
  case (OpStopWatching h)
  assume "jm_ok jm"
  from jm_ok_StopWatching [OF this, of h] show ?thesis by (fastforce simp: OpStopWatching)
next
  case (OpCancel reads now jid reason)
  assume "jm_ok jm"
  from jm_ok_CancelJob [OF this, of reads now jid reason] show ?thesis by (fastforce simp: OpCancel)
next
  case (OpProgress jid isOut source t)
  assume "jm_ok jm"
  from jm_ok_on_job [OF this state_op_progressCallback] show ?thesis by (fastforce simp: OpProgress)
next
  case (OpCompleted mat ver now jid job r)
  assume "jm_ok jm"
  from jm_ok_on_job [OF this state_op_completionCallback] show ?thesis by (fastforce simp: OpCompleted)
qed (simp_all add: jm_ok_SetScheduler jm_ok_receive)

text \<open>The state None is the panic of the daemon.\<close>

definition job_machine_step :: "JobManager option \<Rightarrow> 'e JobOp \<Rightarrow> JobManager option \<Rightarrow> bool" where
  "job_machine_step s op s' = (s' = Option.bind s (\<lambda>jm. job_exec jm op))"

interpretation job_machine:
  step_system "\<lambda>s. \<exists>d. s = Some (NewJobManager d)" "job_machine_step :: _ \<Rightarrow> 'e JobOp \<Rightarrow> _ \<Rightarrow> bool"
    "\<lambda>s. \<exists>jm. s = Some jm \<and> jm_ok jm"
proof unfold_locales
  fix s op s' assume "\<exists>jm. s = Some jm \<and> jm_ok jm" and "job_machine_step s (op :: 'e JobOp) s'"
  then show "\<exists>jm. s' = Some jm \<and> jm_ok jm" using job_exec_ok by (fastforce simp: job_machine_step_def)
qed (auto simp: jm_ok_New)

text \<open>C3. Whatever sequence of submissions, subscriptions, cancellations, callbacks and reads the
  daemon performs, one after the other, it never sends on a closed channel, never closes one
  twice and never waits for a reader: no operation panics or blocks, every watcher of a job is an
  open channel of that job alone, and the state of a job carries the job's own identifier.\<close>
theorem job_manager_never_panics:
  assumes "reach (\<lambda>s. \<exists>d. s = Some (NewJobManager d)) (job_machine_step :: _ \<Rightarrow> 'e JobOp \<Rightarrow> _ \<Rightarrow> bool) s"
  shows "\<exists>jm. s = Some jm \<and>
    (\<forall>jid js. gm_get (jm_jobs jm) jid = Some js \<longrightarrow> job_id (js_job js) = jid \<and>
       distinct (js_watchers js) \<and> (\<forall>ch\<in>set (js_watchers js). \<not> ch_closed (jm_chans jm ! ch))) \<and>
    (\<forall>jid js jid' js'. gm_get (jm_jobs jm) jid = Some js \<longrightarrow> gm_get (jm_jobs jm) jid' = Some js' \<longrightarrow>
       jid \<noteq> jid' \<longrightarrow> set (js_watchers js) \<inter> set (js_watchers js') = {})"
  using job_machine.reach_inv [OF assms] by (fastforce simp: jm_ok_def job_ok_def all_open_def)

theorem job_manager_never_panics_witness:
  "Option.bind (job_exec (NewJobManager ''d'') (OpSubmit busy_world (\<lambda>_. False) 7 link_job))
     (\<lambda>jm. job_exec jm (OpCancel (\<lambda>_. True) 8 (job_id link_job) ''late'' :: unit JobOp)) \<noteq> None"
proof -
  let ?start = "\<lambda>s. \<exists>d. s = Some (NewJobManager d)"
  let ?step = "job_machine_step :: _ \<Rightarrow> unit JobOp \<Rightarrow> _ \<Rightarrow> bool"
  let ?submit = "OpSubmit busy_world (\<lambda>_. False) 7 link_job"
  let ?cancel = "OpCancel (\<lambda>_. True) 8 (job_id link_job) ''late''"
  have "reach ?start ?step (Some (NewJobManager ''d''))" by (rule reach_start) blast
  then have "reach ?start ?step (job_exec (NewJobManager ''d'') ?submit)"
    by (rule reach_step [where l = ?submit]) (simp add: job_machine_step_def)
  then have "reach ?start ?step (Option.bind (job_exec (NewJobManager ''d'') ?submit)
      (\<lambda>jm. job_exec jm (?cancel :: unit JobOp)))"
    by (rule reach_step [where l = ?cancel]) (simp only: job_machine_step_def)
  from job_manager_never_panics [OF this] show ?thesis by auto
qed

section \<open>What a submission leaves behind\<close>

text \<open>The log lines of the two transitions a submission always makes.\<close>

definition submitted_log :: string where
  "submitted_log = ''Job ready for scheduling'' @ [CHR 0x0A] @ ''Job entered queue'' @ [CHR 0x0A]"

definition queued_state :: "int \<Rightarrow> Job \<Rightarrow> nat \<Rightarrow> JobState" where
  "queued_state now job ch = (initial_state now job)\<lparr>
     js_progress := (js_progress (initial_state now job))\<lparr>jp_status := JOB_STATUS_QUEUED,
       jp_log_output := submitted_log\<rparr>,
     js_watchers := [ch]\<rparr>"

definition submitted_chan :: "int \<Rightarrow> Job \<Rightarrow> progress_msg chan" where
  "submitted_chan now job = (make_chan 10)\<lparr>
     ch_buf := [ProgressCopy (js_progress (initial_state now job)), SharedProgress, SharedProgress]\<rparr>"

lemma on_job_put:
  assumes "gm_get (jm_jobs jm) jid = Some js" and "f (js, jm_chans jm) = Some (js', hp')"
  shows "on_job jid f jm = Some (jm\<lparr>jm_jobs := gm_put (jm_jobs jm) jid js', jm_chans := hp'\<rparr>)"
  using assms by (simp add: on_job_def)

text \<open>The state of the manager once a new job has been announced to its scheduler.\<close>

definition announced :: "int \<Rightarrow> Job \<Rightarrow> JobManager \<Rightarrow> JobManager" where
  "announced now job jm = jm\<lparr>
     jm_jobs := gm_put (jm_jobs jm) (job_id job) (queued_state now job (length (jm_chans jm))),
     jm_chans := jm_chans jm @ [submitted_chan now job]\<rparr>"

lemma SubmitJob_announces:
  fixes w :: "'e World"
  assumes fresh: "gm_get (jm_jobs jm) (job_id job) = None"
  shows "JobManager_SubmitJob w reads now job jm =
    (case jm_scheduler jm of
       None \<Rightarrow> do {
         jm5 \<leftarrow> on_job (job_id job) (UpdateProgress now JOB_STATUS_FAILED ''Scheduler not available'')
           (announced now job jm);
         jm6 \<leftarrow> on_job (job_id job) (set_result
           (Some (no_scheduler_result now (job_id job) (jm_daemon_id jm)))) jm5;
         jm7 \<leftarrow> on_job (job_id job) (CloseWatchers reads) jm6;
         Some (Err NoScheduler, jm7)
       }
     | Some sched \<Rightarrow>
         (case EnqueueJob w now (Some (Some job)) sched of (res, sched') \<Rightarrow>
            Some (case res of Inl e \<Rightarrow> Err (SchedulerError e)
                  | Inr _ \<Rightarrow> Ok \<lparr>wh_job_id = job_id job, wh_channel = length (jm_chans jm)\<rparr>,
              (announced now job jm)\<lparr>jm_scheduler := Some sched',
                 jm_ctx_done := job_id job # jm_ctx_done jm\<rparr>)))"
proof -
  let ?jid = "job_id job" and ?ch = "length (jm_chans jm)"
  let ?jm1 = "jm\<lparr>jm_jobs := gm_put (jm_jobs jm) ?jid (initial_state now job)\<rparr>"
  define jm2 where "jm2 = jm\<lparr>
    jm_jobs := gm_put (jm_jobs jm) ?jid (AddWatcher ?ch (initial_state now job)),
    jm_chans := jm_chans jm @ [(make_chan 10)\<lparr>ch_buf := [ProgressCopy (js_progress (initial_state now job))]\<rparr>]\<rparr>"
  have twice: "gm_put (gm_put m k a) k b = gm_put m k b" for m :: "(string, JobState) gomap" and k a b
    by (induction m) auto
  have 2: "WatchJobStatus ?jid ?jm1 =
      Some (Ok \<lparr>wh_job_id = ?jid, wh_channel = ?ch\<rparr> :: 'e job_error + WatchHandle, jm2)"
    by (subst WatchJobStatus_known [where js = "initial_state now job"]) (simp_all add: jm2_def twice)
  have 4: "Option.bind (on_job ?jid (UpdateProgress now JOB_STATUS_READY ''Job ready for scheduling'') jm2)
      (on_job ?jid (UpdateProgress now JOB_STATUS_QUEUED ''Job entered queue'')) =
      Some (announced now job jm)"
    by (simp add: jm2_def on_job_def UpdateProgress_def Let_def AddWatcher_def initial_state_def
        chan_try_send_def make_chan_def announced_def queued_state_def submitted_chan_def
        submitted_log_def twice nth_append list_update_append)
  then obtain jm3 where 3: "on_job ?jid
      (UpdateProgress now JOB_STATUS_READY ''Job ready for scheduling'') jm2 = Some jm3"
      "on_job ?jid (UpdateProgress now JOB_STATUS_QUEUED ''Job entered queue'') jm3 = Some (announced now job jm)"
    by (auto simp: bind_eq_Some_conv)
  have sched: "jm_scheduler (announced now job jm) = jm_scheduler jm" "jm_ctx_done (announced now job jm) = jm_ctx_done jm"
    by (simp_all add: announced_def)
  show ?thesis
    using fresh by (simp add: JobManager_SubmitJob_def Let_def sched 2 3 split: option.split)
qed

text \<open>C4. A job whose identifier is known is refused and nothing changes. A new job given to a manager
  with a scheduler ends QUEUED with no result, whatever the scheduler answers; the handle's
  channel is open and holds a copy of the progress RECEIVED and the two updates, which read as
  the job's progress of the moment; the context of the execution is already done when the call
  returns. The caller gets the handle when the job was placed and an error when it was not: also
  when the scheduler has put it in its queue.\<close>
theorem SubmitJob_outcomes:
  fixes w :: "'e World"
  assumes "jm_scheduler jm = Some sched"
    and "JobManager_SubmitJob w reads now job jm = Some (r, jm')"
  shows "if gm_get (jm_jobs jm) (job_id job) \<noteq> None
    then r = Err (AlreadySubmitted (job_id job)) \<and> jm' = jm
    else (\<exists>js c. gm_get (jm_jobs jm') (job_id job) = Some js \<and> jp_status (js_progress js) = JOB_STATUS_QUEUED \<and>
       js_result js = None \<and> js_watchers js = [length (jm_chans jm)] \<and>
       jm_chans jm' = jm_chans jm @ [c] \<and> \<not> ch_closed c \<and>
       map (\<lambda>m. jp_status (message_value js m)) (ch_buf c) =
         [JOB_STATUS_RECEIVED, JOB_STATUS_QUEUED, JOB_STATUS_QUEUED]) \<and>
     job_id job \<in> set (jm_ctx_done jm') \<and>
     (case EnqueueJob w now (Some (Some job)) sched of
        (Inl e, sched') \<Rightarrow> r = Err (SchedulerError e) \<and> jm_scheduler jm' = Some sched'
      | (Inr d, sched') \<Rightarrow> r = Ok \<lparr>wh_job_id = job_id job, wh_channel = length (jm_chans jm)\<rparr> \<and>
          jm_scheduler jm' = Some sched')"
proof (cases "gm_get (jm_jobs jm) (job_id job)")
  case None
  from assms(2) [unfolded SubmitJob_announces [OF None] assms(1)] None show ?thesis
    by (auto simp: announced_def queued_state_def submitted_chan_def initial_state_def make_chan_def
        message_value_def split: prod.splits sum.splits)
next
  case (Some js)
  then show ?thesis using assms(2) by (simp add: JobManager_SubmitJob_def)
qed

definition idle_manager :: JobManager where
  "idle_manager = SetScheduler empty_scheduler (NewJobManager ''d'')"

theorem SubmitJob_outcomes_witness:
  "\<exists>r jm'. JobManager_SubmitJob busy_world (\<lambda>_. False) 7 link_job idle_manager = Some (r, jm') \<and>
     job_id link_job \<in> set (jm_ctx_done jm')"
proof -
  have "jm_ok idle_manager" by (simp add: idle_manager_def jm_ok_SetScheduler jm_ok_New)
  from jm_ok_SubmitJob [OF this] obtain r jm'
    where *: "JobManager_SubmitJob busy_world (\<lambda>_. False) 7 link_job idle_manager = Some (r, jm')"
    by blast
  with SubmitJob_outcomes [of idle_manager empty_scheduler, OF _ *] show ?thesis
    by (simp add: idle_manager_def SetScheduler_def NewJobManager_def)
qed

lemma SubmitJob_none_result:
  fixes w :: "'e World"
  assumes "jm_scheduler jm = None" and "gm_get (jm_jobs jm) (job_id job) = None"
  shows "\<exists>jm' c. JobManager_SubmitJob w reads now job jm = Some (Err NoScheduler, jm') \<and>
    jm_chans jm' = jm_chans jm @ [c] \<and> ch_closed c \<and> length (ch_buf c) = 5 \<and>
    map_sum id (\<lambda>s. (jp_status (jsm_progress s), jp_result (jsm_progress s)))
      (GetJobStatus (job_id job) jm' :: 'e job_error + JobStatusMsg) = Ok (JOB_STATUS_FAILED, None) \<and>
    (GetResult (job_id job) jm' :: 'e job_error + JobResult) =
      Ok (no_scheduler_result now (job_id job) (jm_daemon_id jm))"
  using assms
  by (simp add: SubmitJob_announces announced_def on_job_def UpdateProgress_def Let_def queued_state_def
      set_result_def CloseWatchers_def final_send_def chan_close_def submitted_chan_def make_chan_def
      chan_try_send_def initial_state_def nth_append list_update_append GetJobStatus_def GetResult_def
      GetProgress_def)

text \<open>Without a scheduler a new job fails: its channel is closed after its last message and nobody
  watches it. But the progress of the job is marked FAILED before its result exists, so the status
  every caller sees carries no result, although GetResult has one.\<close>
theorem SubmitJob_without_scheduler:
  fixes w :: "'e World"
  assumes "jm_scheduler jm = None" and "gm_get (jm_jobs jm) (job_id job) = None"
  shows "\<exists>jm' c. JobManager_SubmitJob w reads now job jm = Some (Err NoScheduler, jm') \<and>
    jm_chans jm' = jm_chans jm @ [c] \<and> ch_closed c \<and> length (ch_buf c) = 5 \<and>
    map_sum id (\<lambda>s. (jp_status (jsm_progress s), jp_result (jsm_progress s)))
      (GetJobStatus (job_id job) jm' :: 'e job_error + JobStatusMsg) = Ok (JOB_STATUS_FAILED, None) \<and>
    (GetResult (job_id job) jm' :: 'e job_error + JobResult) =
      Ok (no_scheduler_result now (job_id job) (jm_daemon_id jm))"
  using assms by (rule SubmitJob_none_result)

theorem SubmitJob_without_scheduler_witness:
  "\<exists>jm'. JobManager_SubmitJob busy_world (\<lambda>_. False) 7 link_job (NewJobManager ''d'') =
     Some (Err NoScheduler, jm')"
  using SubmitJob_without_scheduler [of "NewJobManager ''d''" link_job busy_world "\<lambda>_. False" 7]
  by (auto simp: NewJobManager_def)

section \<open>Completion and cancellation\<close>

text \<open>When the execution of a job ends, its status becomes FAILED when the exit code is not 0 or
  the outputs cannot be finalized, and COMPLETED otherwise, whatever it was before: a job that was
  cancelled is COMPLETED again. The finalized result is stored and part of the progress, every
  watcher with room gets an update, and no channel is closed, so a stream of the job's progress
  does not end.\<close>
theorem completion_spec:
  fixes job :: Job
  assumes "gm_get (jm_jobs jm) jid = Some js" and "jm_ok jm"
    and "FinalizeJobCompletion mat ver (Some job) (Some (completed_result jid (jm_daemon_id jm) r)) =
      (Some res, err)"
  shows "\<exists>jm' js'. on_job jid (completionCallback mat ver now (jm_daemon_id jm) job r) jm = Some jm' \<and>
    gm_get (jm_jobs jm') jid = Some js' \<and>
    jp_status (js_progress js') =
      (if er_exit_code r \<noteq> 0 \<or> err \<noteq> None then JOB_STATUS_FAILED else JOB_STATUS_COMPLETED) \<and>
    js_result js' = Some res \<and> jp_result (js_progress js') = Some res \<and>
    js_watchers js' = js_watchers js \<and> length (jm_chans jm') = length (jm_chans jm) \<and>
    (\<forall>ch<length (jm_chans jm). ch_closed (jm_chans jm' ! ch) = ch_closed (jm_chans jm ! ch))"
proof -
  from assms(1,2) have ok: "job_ok (jm_chans jm) jid js" by (simp add: jm_ok_def)
  then obtain hp' where hp: "send_each (js_watchers js) (jm_chans jm) = Some hp'" "hp_ext {} (jm_chans jm) hp'"
    using send_each_open by (auto simp: job_ok_def)
  have len: "length hp' = length (jm_chans jm)" using hp(1) by (rule send_each_length)
  have jid: "job_id (js_job js) = jid" using ok by (simp add: job_ok_def)
  have "\<exists>js'. completionCallback mat ver now (jm_daemon_id jm) job r (js, jm_chans jm) = Some (js', hp') \<and>
    jp_status (js_progress js') =
      (if er_exit_code r \<noteq> 0 \<or> err \<noteq> None then JOB_STATUS_FAILED else JOB_STATUS_COMPLETED) \<and>
    js_result js' = Some res \<and> jp_result (js_progress js') = Some res \<and> js_watchers js' = js_watchers js"
    using assms(3) hp(1)
    by (cases err) (simp_all add: completionCallback_def jid Let_def set_result_def UpdateProgress_def)
  with assms(1) hp(2) len show ?thesis by (auto simp: on_job_def hp_ext_def)
qed

definition cancelled_manager :: JobManager where
  "cancelled_manager = (NewJobManager ''d'')\<lparr>jm_jobs := [(job_id link_job, (initial_state 7 link_job)\<lparr>
     js_progress := (js_progress (initial_state 7 link_job))\<lparr>jp_status := JOB_STATUS_CANCELLED\<rparr>\<rparr>)]\<rparr>"

definition clean_exit :: ExecutionResult where
  "clean_exit = \<lparr>er_exit_code = 0, er_stdout = [], er_stderr = [], er_output = [], er_work_dir = '''',
     er_execution_id = ''''\<rparr>"

theorem completion_spec_witness:
  "\<exists>jm' js'. on_job (job_id link_job)
       (completionCallback (\<lambda>_ _. Ok []) (\<lambda>_ _. None) 9 ''d'' link_job clean_exit) cancelled_manager = Some jm' \<and>
     gm_get (jm_jobs jm') (job_id link_job) = Some js' \<and>
     jp_status (js_progress js') = JOB_STATUS_COMPLETED"
proof -
  let ?js = "(initial_state 7 link_job)\<lparr>
     js_progress := (js_progress (initial_state 7 link_job))\<lparr>jp_status := JOB_STATUS_CANCELLED\<rparr>\<rparr>"
  have 1: "gm_get (jm_jobs cancelled_manager) (job_id link_job) = Some ?js"
    by (simp add: cancelled_manager_def)
  have 2: "jm_ok cancelled_manager"
    by (auto simp: jm_ok_def cancelled_manager_def NewJobManager_def job_ok_def initial_state_def
        all_open_def split: if_splits)
  have d: "jm_daemon_id cancelled_manager = ''d''"
    by (simp add: cancelled_manager_def NewJobManager_def)
  let ?res = "completed_result (job_id link_job) (jm_daemon_id cancelled_manager) clean_exit"
  have "\<exists>res. FinalizeJobCompletion (\<lambda>_ _. Ok []) (\<lambda>_ _. None) (Some link_job) (Some ?res) = (Some res, None)"
    by (simp add: FinalizeJobCompletion_def completed_result_def clean_exit_def)
  then obtain res where 3:
    "FinalizeJobCompletion (\<lambda>_ _. Ok []) (\<lambda>_ _. None) (Some link_job) (Some ?res) = (Some res, None)" ..
  from completion_spec [OF 1 2 3, of 9] show ?thesis by (auto simp: d clean_exit_def)
qed

section \<open>What ends a stream\<close>

text \<open>An operation of a job state that closes no channel.\<close>

definition quiet :: "(JobState \<times> chans \<Rightarrow> (JobState \<times> chans) option) \<Rightarrow> bool" where
  "quiet f = (\<forall>jid js hp js' hp'. job_ok hp jid js \<longrightarrow> f (js, hp) = Some (js', hp') \<longrightarrow> hp_ext {} hp hp')"

lemma quiet_send: "job_ok hp jid js \<Longrightarrow> send_each (js_watchers js) hp = Some hp' \<Longrightarrow> hp_ext {} hp hp'"
  using send_each_open [of "js_watchers js" hp] by (auto simp: job_ok_def)

lemma quiet_UpdateProgress: "quiet (UpdateProgress now status msg)"
  by (auto simp: quiet_def UpdateProgress_def Let_def dest: quiet_send)

lemma quiet_progressCallback: "quiet (progressCallback isOutput src out)"
  by (auto simp: quiet_def progressCallback_def Let_def dest: quiet_send split: if_splits)

lemma quiet_completionCallback: "quiet (completionCallback mat ver now d job r)"
  by (auto simp: quiet_def completionCallback_def Let_def set_result_def UpdateProgress_def
      dest: quiet_send split: prod.splits option.splits)

lemma on_job_quiet:
  "jm_ok jm \<Longrightarrow> quiet f \<Longrightarrow> on_job jid f jm = Some jm' \<Longrightarrow> hp_ext {} (jm_chans jm) (jm_chans jm')"
  by (auto simp: on_job_def jm_ok_def quiet_def split: option.splits) blast

lemma hp_ext_append [simp]: "hp_ext ws hp (hp @ xs)"
  by (simp add: hp_ext_def nth_append)

lemma SubmitJob_quiet:
  fixes w :: "'e World"
  assumes "JobManager_SubmitJob w reads now job jm = Some (r, jm')"
  shows "hp_ext {} (jm_chans jm) (jm_chans jm')"
proof (cases "gm_get (jm_jobs jm) (job_id job)")
  case None
  show ?thesis
  proof (cases "jm_scheduler jm")
    case s: None
    from SubmitJob_none_result [OF s None, of w reads now] assms show ?thesis by auto
  next
    case (Some sched)
    from assms [unfolded SubmitJob_announces [OF None] Some] show ?thesis
      by (auto simp: announced_def split: prod.splits)
  qed
next
  case Some with assms show ?thesis by (simp add: JobManager_SubmitJob_def)
qed

lemma RemoveWatcher_ext: "RemoveWatcher ch (js, hp) = Some (js', hp') \<Longrightarrow> hp_ext {ch} hp hp'"
  by (auto simp: RemoveWatcher_def hp_ext_def split: if_splits)

lemma receive_quiet: "hp_ext {} (jm_chans jm) (jm_chans (receive ch jm))"
  by (auto simp: receive_def chan_recv_def hp_ext_def nth_list_update split: list.split)

lemma SetScheduler_chans [simp]: "jm_chans (SetScheduler s jm) = jm_chans jm"
  by (simp add: SetScheduler_def)

lemma gm_put_twice: "gm_put (gm_put m k a) k b = gm_put m k b"
  by (induction m) auto

lemma on_job_bind:
  "Option.bind (on_job jid f jm) (on_job jid g) = on_job jid (\<lambda>st. Option.bind (f st) g) jm"
  by (cases "gm_get (jm_jobs jm) jid")
     (auto simp: on_job_def gm_put_twice bind_eq_Some_conv split: option.splits prod.splits)

lemma CancelJob_on_job:
  "CancelJob reads now jid reason jm = Some (r, jm') \<Longrightarrow> gm_get (jm_jobs jm) jid \<noteq> None \<Longrightarrow>
   on_job jid (\<lambda>st. Option.bind (UpdateProgress now JOB_STATUS_CANCELLED (''Cancelled: '' @ reason) st)
     (CloseWatchers reads)) jm = Some jm'"
  unfolding on_job_bind [symmetric] by (auto simp: CancelJob_def bind_eq_Some_conv)

text \<open>The only operations that close the channel of a watcher already made are the cancellation of
  its job and StopWatching on that very channel: in particular no completion does. A stream of
  a job's progress, which ends when its channel is closed, therefore never ends because the job
  has.\<close>
theorem only_cancel_closes:
  assumes "jm_ok jm" and "job_exec jm op = Some jm'" and "ch < length (jm_chans jm)"
    and "\<not> ch_closed (jm_chans jm ! ch)" and "ch_closed (jm_chans jm' ! ch)"
  shows "(\<exists>reads now jid reason js. op = OpCancel reads now jid reason \<and>
      gm_get (jm_jobs jm) jid = Some js \<and> ch \<in> set (js_watchers js)) \<or>
    (\<exists>h. op = OpStopWatching (Some h) \<and> wh_channel h = ch)"
proof (rule ccontr)
  assume other: "\<not> ?thesis"
  have no: "\<not> hp_ext A (jm_chans jm) (jm_chans jm')" if "ch \<notin> A" for A
    using assms(3-5) that by (auto simp: hp_ext_def)
  show False
  proof (cases op)
    case (OpCancel reads now jid reason)
    show ?thesis
    proof (cases "gm_get (jm_jobs jm) jid")
      case None with assms OpCancel show ?thesis by (simp add: CancelJob_def)
    next
      case (Some js)
      then have ok: "job_ok (jm_chans jm) jid js" using assms(1) by (simp add: jm_ok_def)
      let ?f = "\<lambda>st. Option.bind (UpdateProgress now JOB_STATUS_CANCELLED (''Cancelled: '' @ reason) st)
        (CloseWatchers reads)"
      from state_op_bind [OF state_op_UpdateProgress state_op_CloseWatchers, unfolded state_op_def,
          rule_format, OF ok] obtain js' hp'
        where f: "?f (js, jm_chans jm) = Some (js', hp')" "hp_ext (set (js_watchers js)) (jm_chans jm) hp'"
        by blast
      have "jm_chans jm' = hp'"
        using assms(2) Some f(1)
        by (auto simp: OpCancel on_job_def dest!: CancelJob_on_job)
      with f(2) no [of "set (js_watchers js)"] other OpCancel Some show ?thesis by auto
    qed
  next
    case (OpStopWatching h)
    show ?thesis
    proof (cases h)
      case None with OpStopWatching assms show ?thesis by (simp add: StopWatching_def)
    next
      case (Some hd)
      from assms(2) OpStopWatching Some no [of "{wh_channel hd}"] other show ?thesis
        using assms(3-5) by (auto simp: StopWatching_def on_job_def dest: RemoveWatcher_ext split: if_splits option.splits)
    qed
  next
    case (OpWatch jid)
    with assms(2) no [of "{}"] show ?thesis
      by (cases "gm_get (jm_jobs jm) jid") (auto simp: WatchJobStatus_unknown WatchJobStatus_known)
  qed (use assms(1,2) no [of "{}"] receive_quiet in \<open>auto dest: SubmitJob_quiet on_job_quiet [OF _ quiet_progressCallback]
      on_job_quiet [OF _ quiet_completionCallback]\<close>)
qed

theorem only_cancel_closes_witness:
  "\<exists>jm'. job_exec (announced 7 link_job (NewJobManager ''d''))
       (OpCancel (\<lambda>_. False) 8 (job_id link_job) ''late'' :: unit JobOp) = Some jm' \<and>
     (\<exists>reads now jid reason. (OpCancel (\<lambda>_. False) 8 (job_id link_job) ''late'' :: unit JobOp) =
        OpCancel reads now jid reason)"
proof -
  let ?jm = "announced 7 link_job (NewJobManager ''d'')"
  let ?op = "OpCancel (\<lambda>_. False) 8 (job_id link_job) ''late'' :: unit JobOp"
  have ok: "jm_ok ?jm"
    by (auto simp: jm_ok_def announced_def NewJobManager_def job_ok_def queued_state_def
        initial_state_def all_open_def submitted_chan_def split: if_splits)
  have "\<exists>jm'. job_exec ?jm ?op = Some jm' \<and> ch_closed (jm_chans jm' ! 0)"
    by (simp add: CancelJob_def on_job_def announced_def NewJobManager_def queued_state_def
        UpdateProgress_def Let_def CloseWatchers_def initial_state_def submitted_chan_def make_chan_def
        chan_try_send_def final_send_def chan_close_def)
  then obtain jm' where 1: "job_exec ?jm ?op = Some jm'" "ch_closed (jm_chans jm' ! 0)" by blast
  have 2: "0 < length (jm_chans ?jm)" "\<not> ch_closed (jm_chans ?jm ! 0)"
    by (simp_all add: announced_def NewJobManager_def submitted_chan_def)
  from only_cancel_closes [OF ok 1(1) 2 1(2)] 1(1) show ?thesis by blast
qed

section \<open>A subscription that races with a cancellation\<close>

text \<open>WatchJobStatus adds its channel and then sends the current progress on it, in two separate
  critical sections: when the job is cancelled in between, the channel is closed by then and the
  send panics, which ends the daemon.\<close>
theorem watch_cancel_race:
  fixes e :: "'e job_error"
  assumes "jm_ok jm" and "gm_get (jm_jobs jm) jid = Some js"
    and "watch_add jid jm = (Ok ch :: 'e job_error + nat, jm1)"
  shows "\<exists>jm2. CancelJob reads now jid reason jm1 = Some (None :: 'e job_error option, jm2) \<and>
    watch_send jid ch jm2 = None"
proof -
  have ch: "ch = length (jm_chans jm)" and jm1: "jm1 = jm\<lparr>jm_chans := jm_chans jm @ [make_chan 10],
      jm_jobs := gm_put (jm_jobs jm) jid (AddWatcher ch js)\<rparr>"
    using assms(2,3) by (auto simp: watch_add_def Let_def)
  have ok: "jm_ok jm1" using jm_ok_watch_add [OF assms(1,2)] by (simp add: jm1 ch)
  have get: "gm_get (jm_jobs jm1) jid = Some (AddWatcher ch js)" by (simp add: jm1)
  then have job: "job_ok (jm_chans jm1) jid (AddWatcher ch js)" using ok by (simp add: jm_ok_def)
  obtain js' hp' where upd:
    "UpdateProgress now JOB_STATUS_CANCELLED (''Cancelled: '' @ reason) (AddWatcher ch js, jm_chans jm1) = Some (js', hp')"
    "job_ok hp' jid js'"
    using state_op_UpdateProgress [unfolded state_op_def, rule_format, OF job] by blast
  have w: "js_watchers js' = js_watchers js @ [ch]"
    using upd(1) by (auto simp: UpdateProgress_def Let_def AddWatcher_def)
  obtain hp'' where close: "close_each reads (js_watchers js') hp' = Some hp''"
      "\<forall>a\<in>set (js_watchers js'). ch_closed (hp'' ! a)"
    using close_each_open [of "js_watchers js'" hp' reads] upd(2) by (auto simp: job_ok_def)
  define jm2 where "jm2 = jm1\<lparr>jm_jobs := gm_put (jm_jobs jm1) jid (js'\<lparr>js_watchers := []\<rparr>), jm_chans := hp''\<rparr>"
  have "CancelJob reads now jid reason jm1 = Some (None :: 'e job_error option, jm2)"
    using get upd(1) close(1)
    by (simp add: CancelJob_def on_job_def CloseWatchers_def jm2_def gm_put_twice)
  moreover have "watch_send jid ch jm2 = None"
    using close(2) w by (simp add: watch_send_def on_job_def jm2_def Let_def)
  ultimately show ?thesis by blast
qed

theorem watch_cancel_race_witness:
  "\<exists>jm2. CancelJob (\<lambda>_. False) 8 (job_id link_job) ''late''
      (snd (watch_add (job_id link_job) cancelled_manager :: (unit job_error + nat) \<times> JobManager)) =
        Some (None :: unit job_error option, jm2) \<and>
     watch_send (job_id link_job) 0 jm2 = None"
proof -
  have get: "gm_get (jm_jobs cancelled_manager) (job_id link_job) = Some ((initial_state 7 link_job)\<lparr>
     js_progress := (js_progress (initial_state 7 link_job))\<lparr>jp_status := JOB_STATUS_CANCELLED\<rparr>\<rparr>)"
    by (simp add: cancelled_manager_def)
  have ok: "jm_ok cancelled_manager"
    by (auto simp: jm_ok_def cancelled_manager_def NewJobManager_def job_ok_def initial_state_def
        all_open_def split: if_splits)
  have "\<exists>jm1. watch_add (job_id link_job) cancelled_manager = (Ok 0 :: unit job_error + nat, jm1)"
    by (simp add: watch_add_def Let_def cancelled_manager_def NewJobManager_def)
  then obtain jm1 where add: "watch_add (job_id link_job) cancelled_manager = (Ok 0 :: unit job_error + nat, jm1)" ..
  from watch_cancel_race [OF ok get add, of "\<lambda>_. False" 8 "''late''"] show ?thesis by (simp add: add)
qed

section \<open>The RPC service\<close>

text \<open>The messages of a submission's stream. Whether the client receives a message is a function of
  the connection: Send fails when it does not. A request without a job is a panic (None).\<close>

datatype SubmitMsg =
  Confirmation "JobStatusMsg option" bool string
| StatusUpdate JobStatusMsg "int option"

datatype 'e stream_error =
  SendFailed
| SubmitFailed "'e job_error"
| StatusFailed "'e job_error"
| ClientGone

definition rejection :: "Job \<Rightarrow> string option" where
  "rejection job =
     (if job_id job = '''' then Some ''job ID cannot be empty''
      else if job_requirement job = NoRequirement
      then Some ''job runtime is required (either runtime or runtime_match_query must be set)''
      else if job_spec job = NoJobSpec then Some ''job spec is required (cpp_compile or cpp_link)''
      else None)"

definition confirmation :: "Job \<Rightarrow> SubmitMsg" where
  "confirmation job = Confirmation (Some \<lparr>jsm_job_id = job_id job, jsm_submitter = '''',
     jsm_submitted_at = None,
     jsm_progress = \<lparr>jp_job_id = job_id job, jp_status = JOB_STATUS_RECEIVED, jp_percent = None,
       jp_updated_at = None, jp_executing_peer_id = '''', jp_log_output = '''', jp_result = None\<rparr>\<rparr>)
     True ''''"

text \<open>The handler up to its loop: the message it sends, and what it does then. A rejected job ends
  the stream with the outcome of the send.\<close>

definition service_SubmitJob ::
  "(SubmitMsg \<Rightarrow> bool) \<Rightarrow> 'e World \<Rightarrow> (nat \<Rightarrow> bool) \<Rightarrow> int \<Rightarrow> Job option \<Rightarrow> JobManager
    \<Rightarrow> (SubmitMsg \<times> ('e stream_error option + WatchHandle) \<times> JobManager) option" where
  "service_SubmitJob send w reads now req jm =
     (case req of
        None \<Rightarrow> None
      | Some job \<Rightarrow>
          (case rejection job of
             Some reason \<Rightarrow>
               (let msg = Confirmation None False reason
                in Some (msg, Err (if send msg then None else Some SendFailed), jm))
           | None \<Rightarrow>
               (let msg = confirmation job
                in if \<not> send msg then Some (msg, Err (Some SendFailed), jm)
                   else (case JobManager_SubmitJob w reads now job jm of
                      None \<Rightarrow> None
                    | Some (Inl e, jm') \<Rightarrow> Some (msg, Err (Some (SubmitFailed e)), jm')
                    | Some (Inr handle, jm') \<Rightarrow> Some (msg, Ok handle, jm')))))"

text \<open>One turn of the loop of SubmitJob. The select takes the branch of the cancelled context when
  \<open>cancelled\<close> says so; otherwise it takes a message, sees the closed channel, or waits.\<close>

datatype 'e stream_turn = StreamEnded "'e stream_error option" | StreamSent SubmitMsg | StreamWaiting

definition stop_and_end ::
  "WatchHandle \<Rightarrow> 'e stream_error \<Rightarrow> JobManager \<Rightarrow> ('e stream_turn \<times> JobManager) option" where
  "stop_and_end handle err jm =
     map_option (\<lambda>(_ :: 'e job_error option, jm'). (StreamEnded (Some err), jm'))
       (StopWatching (Some handle) jm)"

definition submit_stream_turn ::
  "(SubmitMsg \<Rightarrow> bool) \<Rightarrow> bool \<Rightarrow> WatchHandle \<Rightarrow> JobManager \<Rightarrow> ('e stream_turn \<times> JobManager) option" where
  "submit_stream_turn send cancelled handle jm =
     (if cancelled then stop_and_end handle ClientGone jm
      else (let ch = wh_channel handle
            in case chan_recv (jm_chans jm ! ch) of
                 None \<Rightarrow> Some (if ch_closed (jm_chans jm ! ch) then StreamEnded None else StreamWaiting, jm)
               | Some (m, c) \<Rightarrow>
                   (let jm1 = jm\<lparr>jm_chans := (jm_chans jm)[ch := c]\<rparr>
                    in case GetJobStatus (wh_job_id handle) jm1 of
                         Inl e \<Rightarrow> stop_and_end handle (StatusFailed e) jm1
                       | Inr status \<Rightarrow>
                           (let progress = (case gm_get (jm_jobs jm1) (wh_job_id handle) of
                                  Some js \<Rightarrow> message_value js m | None \<Rightarrow> jsm_progress status);
                                msg = StatusUpdate status (jp_updated_at progress)
                            in if send msg then Some (StreamSent msg, jm1)
                               else stop_and_end handle SendFailed jm1))))"

text \<open>The unary handlers answer an error inside the message.\<close>

definition service_GetJobStatus ::
  "('e job_error \<Rightarrow> string) \<Rightarrow> string \<Rightarrow> JobManager \<Rightarrow> JobStatusMsg option \<times> string" where
  "service_GetJobStatus err_text jid jm =
     (case GetJobStatus jid jm of Inl e \<Rightarrow> (None, err_text e) | Inr status \<Rightarrow> (Some status, ''''))"

record CancelJobResponse =
  cjr_success :: bool
  cjr_error_message :: string
  cjr_jobs_cancelled :: "32 word"

definition service_CancelJob ::
  "('e job_error \<Rightarrow> string) \<Rightarrow> (nat \<Rightarrow> bool) \<Rightarrow> int \<Rightarrow> string \<Rightarrow> string \<Rightarrow> JobManager
    \<Rightarrow> (CancelJobResponse \<times> JobManager) option" where
  "service_CancelJob err_text reads now jid reason jm =
     map_option (\<lambda>(err, jm'). (case err of
         Some e \<Rightarrow> \<lparr>cjr_success = False, cjr_error_message = err_text e, cjr_jobs_cancelled = 0\<rparr>
       | None \<Rightarrow> \<lparr>cjr_success = True, cjr_error_message = '''', cjr_jobs_cancelled = 1\<rparr>, jm'))
       (CancelJob reads now jid reason jm)"

text \<open>A rejected submission leaves the manager as it is; an accepted one is confirmed before the manager
  hears of it, so a job already submitted is confirmed and then refused.\<close>
lemma service_SubmitJob_rejects:
  "rejection job = Some reason \<Longrightarrow> service_SubmitJob send w reads now (Some job) jm =
     Some (Confirmation None False reason, Err (if send (Confirmation None False reason) then None
       else Some SendFailed), jm)"
  by (simp add: service_SubmitJob_def Let_def)

lemma service_SubmitJob_duplicate:
  "rejection job = None \<Longrightarrow> gm_get (jm_jobs jm) (job_id job) \<noteq> None \<Longrightarrow> send (confirmation job) \<Longrightarrow>
     service_SubmitJob send w reads now (Some job) jm =
       Some (confirmation job, Err (Some (SubmitFailed (AlreadySubmitted (job_id job)))), jm)"
  by (simp add: service_SubmitJob_def JobManager_SubmitJob_def Let_def)

text \<open>The turns of a stream nobody cancels and every message of which arrives.\<close>

fun stream_turns :: "nat \<Rightarrow> WatchHandle \<Rightarrow> JobManager \<Rightarrow> ('e stream_turn list \<times> JobManager) option" where
  "stream_turns 0 handle jm = Some ([], jm)"
| "stream_turns (Suc n) handle jm =
     (case submit_stream_turn (\<lambda>_. True) False handle jm of
        None \<Rightarrow> None
      | Some (t, jm') \<Rightarrow> map_option (\<lambda>(ts, jm''). (t # ts, jm'')) (stream_turns n handle jm'))"

lemma submit_stream_turn_known:
  assumes "gm_get (jm_jobs jm) (wh_job_id handle) = Some js"
  shows "submit_stream_turn (\<lambda>_. True) False handle jm =
    (let ch = wh_channel handle; status = \<lparr>jsm_job_id = wh_job_id handle, jsm_submitter = jm_daemon_id jm,
       jsm_submitted_at = job_submitted_at (js_job js), jsm_progress = js_progress js\<rparr>
     in case ch_buf (jm_chans jm ! ch) of
       [] \<Rightarrow> Some (if ch_closed (jm_chans jm ! ch) then StreamEnded None else StreamWaiting, jm)
     | m # ms \<Rightarrow> Some (StreamSent (StatusUpdate status (jp_updated_at (message_value js m))),
         jm\<lparr>jm_chans := (jm_chans jm)[ch := (jm_chans jm ! ch)\<lparr>ch_buf := ms\<rparr>]\<rparr>))"
  using assms
  by (simp add: submit_stream_turn_def Let_def chan_recv_def GetJobStatus_def GetProgress_def split: list.split)

lemma stream_turns_drain:
  assumes "gm_get (jm_jobs jm) (wh_job_id handle) = Some js" and "wh_channel handle < length (jm_chans jm)"
    and "length (ch_buf (jm_chans jm ! wh_channel handle)) \<le> n"
    and "\<not> ch_closed (jm_chans jm ! wh_channel handle)"
  shows "\<exists>(ts :: 'e stream_turn list) jm'. stream_turns n handle jm = Some (ts, jm') \<and> StreamEnded None \<notin> set ts \<and>
    length ts = n \<and> length (filter (\<lambda>t. t \<noteq> StreamWaiting) ts) = length (ch_buf (jm_chans jm ! wh_channel handle))"
  using assms
proof (induction n arbitrary: jm)
  case (Suc n)
  let ?ch = "wh_channel handle"
  show ?case
  proof (cases "ch_buf (jm_chans jm ! ?ch)")
    case Nil
    with Suc.IH [of jm] Suc.prems show ?thesis
      by (auto simp: Let_def submit_stream_turn_known [OF Suc.prems(1)])
  next
    case (Cons m ms)
    define jm1 where "jm1 = jm\<lparr>jm_chans := (jm_chans jm)[?ch := (jm_chans jm ! ?ch)\<lparr>ch_buf := ms\<rparr>]\<rparr>"
    have "\<exists>(ts :: 'e stream_turn list) jm'. stream_turns n handle jm1 = Some (ts, jm') \<and> StreamEnded None \<notin> set ts \<and>
      length ts = n \<and> length (filter (\<lambda>t. t \<noteq> StreamWaiting) ts) = length (ch_buf (jm_chans jm1 ! ?ch))"
      using Suc.prems Cons by (intro Suc.IH) (simp_all add: jm1_def)
    then show ?thesis
      using Suc.prems(2) Cons
      by (auto simp: Let_def jm1_def submit_stream_turn_known [OF Suc.prems(1)])
  qed
qed simp

text \<open>The stream of WatchJobStatus: the same loop, which leaves its watcher registered when the status
  is missing or the client does not receive the message.\<close>

definition service_WatchJobStatus ::
  "string \<Rightarrow> JobManager \<Rightarrow> (('e job_error + WatchHandle) \<times> JobManager) option" where
  "service_WatchJobStatus jid jm = WatchJobStatus jid jm"

definition watch_stream_turn ::
  "(SubmitMsg \<Rightarrow> bool) \<Rightarrow> bool \<Rightarrow> WatchHandle \<Rightarrow> JobManager \<Rightarrow> ('e stream_turn \<times> JobManager) option" where
  "watch_stream_turn send cancelled handle jm =
     (if cancelled then stop_and_end handle ClientGone jm
      else (let ch = wh_channel handle
            in case chan_recv (jm_chans jm ! ch) of
                 None \<Rightarrow> Some (if ch_closed (jm_chans jm ! ch) then StreamEnded None else StreamWaiting, jm)
               | Some (m, c) \<Rightarrow>
                   (let jm1 = jm\<lparr>jm_chans := (jm_chans jm)[ch := c]\<rparr>
                    in case GetJobStatus (wh_job_id handle) jm1 of
                         Inl e \<Rightarrow> Some (StreamEnded (Some (StatusFailed e)), jm1)
                       | Inr status \<Rightarrow>
                           (let progress = (case gm_get (jm_jobs jm1) (wh_job_id handle) of
                                  Some js \<Rightarrow> message_value js m | None \<Rightarrow> jsm_progress status);
                                msg = StatusUpdate status (jp_updated_at progress)
                            in if send msg then Some (StreamSent msg, jm1)
                               else Some (StreamEnded (Some SendFailed), jm1)))))"

lemma watch_stream_leaks_watcher:
  "watch_stream_turn (\<lambda>_. False) False handle jm = Some (StreamEnded err, jm') \<Longrightarrow>
     jm_jobs jm' = jm_jobs jm"
  by (auto simp: watch_stream_turn_def Let_def split: option.splits sum.splits if_splits)

end
