(* ===== verification/Gossip.thy ===== *)
theory Gossip
  imports Peers
begin

text \<open>
  Peer discovery by multicast announcements (pkg/peers/discoverer.go).

  Every daemon announces itself (a REQUEST) when the network has been quiet, and answers the
  announcement of a daemon it has not heard of for a while with its own (a RESPONSE); both carry
  the peers the sender knows. Times are nanoseconds, and an operation reads the clock once. The
  sockets are replaced by the message an operation sends; encoding a message and sending it may
  fail, which loses it. The runtimes a daemon announces are the answer of its runtime provider,
  None when that fails. Decoded messages hold no nil elements in their lists.
\<close>

section \<open>Messages\<close>

datatype AnnouncementType = ANNOUNCEMENT_TYPE_REQUEST | ANNOUNCEMENT_TYPE_RESPONSE

text \<open>REQUEST is the zero value. Of the optional fields of Peer, those the code neither reads nor writes are left out.\<close>

record Peer =
  pr_peer_id :: string
  pr_api_uri :: "ApiUri option"
  pr_available_runtimes :: "Runtime list"
  pr_is_online :: "bool option"
  pr_is_local :: "bool option"

record AnnouncementEvent =
  an_timestamp :: "int option"
  an_peer :: "Peer option"
  an_type :: AnnouncementType
  an_initiator_peer_id :: string
  an_ignore_peer_ids :: "string list"
  an_known_peers :: "Peer list"

section \<open>The discoverer\<close>

text \<open>A socket is missing, open or closed. \<open>md_loops\<close> counts the pairs of goroutines started.\<close>

datatype conn = NoConn | OpenConn | ClosedConn

record MulticastDiscoverer =
  md_daemon_id :: string
  md_rpc_uri :: string
  md_interval :: int
  md_peers :: PeerManager
  md_listener :: conn
  md_sender :: conn
  md_running :: bool
  md_loops :: nat
  md_start_time :: "int option"
  md_last_announcement :: "(string, int) gomap"
  md_last_activity :: int

definition AnnouncementWindow :: int where
  "AnnouncementWindow = 90 * 10 ^ 9"

definition NewMulticastDiscoverer :: "string \<Rightarrow> string \<Rightarrow> int \<Rightarrow> PeerManager \<Rightarrow> MulticastDiscoverer" where
  "NewMulticastDiscoverer daemonID rpcURI intervalSecs pm =
     \<lparr>md_daemon_id = daemonID, md_rpc_uri = rpcURI, md_interval = intervalSecs * 10 ^ 9,
      md_peers = pm, md_listener = NoConn, md_sender = NoConn, md_running = False, md_loops = 0,
      md_start_time = None, md_last_announcement = [], md_last_activity = 0\<rparr>"

text \<open>What the network answers to the four calls of Start: True where they succeed.\<close>

record start_env =
  se_resolve :: bool
  se_listen :: bool
  se_resolve_sender :: bool
  se_dial :: bool

datatype start_error = AlreadyRunning | ResolveFailed | ListenFailed | ResolveSenderFailed | DialFailed

definition Start :: "start_env \<Rightarrow> int \<Rightarrow> MulticastDiscoverer \<Rightarrow> start_error option \<times> MulticastDiscoverer" where
  "Start env now md =
     (if md_running md then (Some AlreadyRunning, md)
      else let md1 = md\<lparr>md_running := True\<rparr> in
      if \<not> se_resolve env then (Some ResolveFailed, md1)
      else if \<not> se_listen env then (Some ListenFailed, md1\<lparr>md_listener := NoConn\<rparr>)
      else if \<not> se_resolve_sender env
      then (Some ResolveSenderFailed, md1\<lparr>md_listener := ClosedConn\<rparr>)
      else if \<not> se_dial env
      then (Some DialFailed, md1\<lparr>md_listener := ClosedConn, md_sender := NoConn\<rparr>)
      else (None, md1\<lparr>md_listener := OpenConn, md_sender := OpenConn, md_start_time := Some now,
                     md_loops := md_loops md1 + 1\<rparr>))"

definition close_conn :: "conn \<Rightarrow> conn" where
  "close_conn c = (if c = NoConn then NoConn else ClosedConn)"

definition Stop :: "MulticastDiscoverer \<Rightarrow> MulticastDiscoverer" where
  "Stop md =
     (if \<not> md_running md then md
      else md\<lparr>md_running := False, md_listener := close_conn (md_listener md),
              md_sender := close_conn (md_sender md)\<rparr>)"

definition IsRunning :: "MulticastDiscoverer \<Rightarrow> bool" where
  "IsRunning md = md_running md"

definition GetDiscoveredPeers :: "MulticastDiscoverer \<Rightarrow> PeerInfo list" where
  "GetDiscoveredPeers md = GetAllPeers (md_peers md)"

definition parseRPCURI :: "string \<Rightarrow> string \<times> 32 word" where
  "parseRPCURI uri =
     (let parts = split_on (CHR '':'') uri
      in if length parts = 2
         then (parts ! 0, case parse_uint32 (parts ! 1) of Some p \<Rightarrow> p | None \<Rightarrow> 0)
         else (uri, 0))"

section \<open>Announcements\<close>

definition own_peer :: "Runtime list option \<Rightarrow> MulticastDiscoverer \<Rightarrow> Peer" where
  "own_peer provided md =
     (case parseRPCURI (md_rpc_uri md) of (rpcHost, rpcPort) \<Rightarrow>
       \<lparr>pr_peer_id = md_daemon_id md,
        pr_api_uri = Some \<lparr>uri_host = rpcHost, uri_port = rpcPort, uri_protocol = API_PROTOCOL_GRPC,
          uri_subpath = ''''\<rparr>,
        pr_available_runtimes = (case provided of Some rts \<Rightarrow> rts | None \<Rightarrow> []),
        pr_is_online = Some True, pr_is_local = Some True\<rparr>)"

lemma own_peer_simps [simp]:
  "pr_peer_id (own_peer provided md) = md_daemon_id md"
  "pr_api_uri (own_peer provided md) = Some \<lparr>uri_host = fst (parseRPCURI (md_rpc_uri md)),
     uri_port = snd (parseRPCURI (md_rpc_uri md)), uri_protocol = API_PROTOCOL_GRPC, uri_subpath = ''''\<rparr>"
  "pr_available_runtimes (own_peer provided md) = (case provided of Some rts \<Rightarrow> rts | None \<Rightarrow> [])"
  by (simp_all add: own_peer_def split: prod.split)

definition known_peer :: "PeerInfo \<Rightarrow> Peer" where
  "known_peer p =
     \<lparr>pr_peer_id = pi_id p,
      pr_api_uri = Some \<lparr>uri_host = pi_host p, uri_port = word_of_int (pi_port p),
        uri_protocol = API_PROTOCOL_GRPC, uri_subpath = ''''\<rparr>,
      pr_available_runtimes = pi_runtimes p, pr_is_online = Some True, pr_is_local = Some False\<rparr>"

definition sendAnnouncement :: "int \<Rightarrow> Runtime list option \<Rightarrow> MulticastDiscoverer \<Rightarrow> AnnouncementEvent" where
  "sendAnnouncement now provided md =
     \<lparr>an_timestamp = Some (now div 10 ^ 6),
      an_peer = Some (own_peer provided md),
      an_type = ANNOUNCEMENT_TYPE_REQUEST,
      an_initiator_peer_id = md_daemon_id md,
      an_ignore_peer_ids = map fst (filter (\<lambda>(peerID, lastSeen). now - lastSeen < AnnouncementWindow div 2)
         (md_last_announcement md)),
      an_known_peers = map known_peer (GetAllPeers (md_peers md))\<rparr>"

text \<open>The loop of the announcements: once when it starts, and then at every tick of a second at
  which the network has been quiet for the interval.\<close>

definition announcement_first ::
  "int \<Rightarrow> Runtime list option \<Rightarrow> MulticastDiscoverer \<Rightarrow> AnnouncementEvent \<times> MulticastDiscoverer" where
  "announcement_first now provided md =
     (let md1 = md\<lparr>md_last_activity := now\<rparr> in (sendAnnouncement now provided md1, md1))"

definition announcement_tick ::
  "int \<Rightarrow> Runtime list option \<Rightarrow> MulticastDiscoverer \<Rightarrow> AnnouncementEvent option \<times> MulticastDiscoverer" where
  "announcement_tick now provided md =
     (if md_interval md \<le> now - md_last_activity md
      then (Some (sendAnnouncement now provided md), md\<lparr>md_last_activity := now\<rparr>)
      else (None, md))"

section \<open>Handling an announcement\<close>

definition endpoint_of :: "ApiUri \<Rightarrow> string" where
  "endpoint_of uri = uri_host uri @ '':'' @ format_uint32 (uri_port uri)"

definition peer_info :: "Peer \<Rightarrow> ApiUri \<Rightarrow> Runtime list \<Rightarrow> PeerInfo" where
  "peer_info peer uri rts =
     \<lparr>pi_id = pr_peer_id peer, pi_host = uri_host uri, pi_port = uint (uri_port uri),
      pi_runtimes = rts, pi_is_alive = True, pi_discovered_at = 0, pi_last_seen_at = 0,
      pi_endpoint = endpoint_of uri, pi_is_local = False\<rparr>"

definition register_peer :: "int \<Rightarrow> PeerInfo \<Rightarrow> MulticastDiscoverer \<Rightarrow> MulticastDiscoverer" where
  "register_peer now p md = md\<lparr>md_peers := snd (snd (RegisterPeer now (Some p) (md_peers md)))\<rparr>"

definition registerPeerFromAnnouncement ::
  "int \<Rightarrow> AnnouncementEvent \<Rightarrow> MulticastDiscoverer \<Rightarrow> MulticastDiscoverer" where
  "registerPeerFromAnnouncement now event md =
     (case an_peer event of
        None \<Rightarrow> md
      | Some peer \<Rightarrow> (case pr_api_uri peer of
          None \<Rightarrow> md
        | Some uri \<Rightarrow> register_peer now
            (peer_info peer uri (map (\<lambda>rt. rt\<lparr>rt_peer_ids := rt_peer_ids rt @ [pr_peer_id peer]\<rparr>)
               (pr_available_runtimes peer))) md))"

definition registerKnownPeer :: "int \<Rightarrow> MulticastDiscoverer \<Rightarrow> Peer \<Rightarrow> MulticastDiscoverer" where
  "registerKnownPeer now md knownPeer =
     (if pr_peer_id knownPeer = md_daemon_id md then md
      else case pr_api_uri knownPeer of
        None \<Rightarrow> md
      | Some uri \<Rightarrow> register_peer now (peer_info knownPeer uri (pr_available_runtimes knownPeer)) md)"

definition sendAnnouncementResponses ::
  "int \<Rightarrow> Runtime list option \<Rightarrow> AnnouncementEvent \<Rightarrow> MulticastDiscoverer \<Rightarrow> AnnouncementEvent option" where
  "sendAnnouncementResponses now provided request md =
     (case an_peer request of
        None \<Rightarrow> None
      | Some peer \<Rightarrow>
          (let requestingPeerID = pr_peer_id peer; ignoreSet = set (an_ignore_peer_ids request)
           in if requestingPeerID \<in> ignoreSet then None
              else Some
                \<lparr>an_timestamp = Some (now div 10 ^ 6),
                 an_peer = Some (own_peer provided md),
                 an_type = ANNOUNCEMENT_TYPE_RESPONSE,
                 an_initiator_peer_id = an_initiator_peer_id request,
                 an_ignore_peer_ids = [],
                 an_known_peers = map known_peer (filter (\<lambda>p. \<not> (pi_id p = requestingPeerID \<or> pi_id p \<in> ignoreSet))
                   (GetAllPeers (md_peers md)))\<rparr>))"

definition outside_window :: "int \<Rightarrow> string \<Rightarrow> MulticastDiscoverer \<Rightarrow> bool" where
  "outside_window now peerID md =
     (case gm_get (md_last_announcement md) peerID of
        None \<Rightarrow> True | Some lastSeen \<Rightarrow> AnnouncementWindow < now - lastSeen)"

definition handleAnnouncement ::
  "int \<Rightarrow> Runtime list option \<Rightarrow> AnnouncementEvent \<Rightarrow> MulticastDiscoverer
    \<Rightarrow> AnnouncementEvent option \<times> MulticastDiscoverer" where
  "handleAnnouncement now provided event md =
     (case an_peer event of
        None \<Rightarrow> (None, md)
      | Some peer \<Rightarrow>
          (let shouldRespond = outside_window now (pr_peer_id peer) md;
               md1 = md\<lparr>md_last_activity := now,
                 md_last_announcement := gm_put (md_last_announcement md) (pr_peer_id peer) now\<rparr>;
               md2 = registerPeerFromAnnouncement now event md1;
               md3 = foldl (registerKnownPeer now) md2 (an_known_peers event);
               isIgnored = md_daemon_id md \<in> set (an_ignore_peer_ids event)
           in if an_type event = ANNOUNCEMENT_TYPE_REQUEST \<and> shouldRespond \<and> \<not> isIgnored
              then (sendAnnouncementResponses now provided event md3, md3)
              else (None, md3)))"

text \<open>The listener skips the daemon's own announcements.\<close>

definition listener_receive ::
  "int \<Rightarrow> Runtime list option \<Rightarrow> AnnouncementEvent \<Rightarrow> MulticastDiscoverer
    \<Rightarrow> AnnouncementEvent option \<times> MulticastDiscoverer" where
  "listener_receive now provided event md =
     (if map_option pr_peer_id (an_peer event) = Some (md_daemon_id md) then (None, md)
      else handleAnnouncement now provided event md)"

section \<open>What an announcement changes\<close>

abbreviation knows :: "MulticastDiscoverer \<Rightarrow> string \<Rightarrow> bool" where
  "knows md k \<equiv> HasPeer (md_peers md) k"

lemma register_peer_simps [simp]:
  "md_daemon_id (register_peer now p md) = md_daemon_id md"
  "md_rpc_uri (register_peer now p md) = md_rpc_uri md"
  "md_last_announcement (register_peer now p md) = md_last_announcement md"
  "md_last_activity (register_peer now p md) = md_last_activity md"
  by (simp_all add: register_peer_def)

lemma register_peer_knows [simp]: "knows (register_peer now p md) k \<longleftrightarrow> k = pi_id p \<or> knows md k"
  by (auto simp: register_peer_def RegisterPeer_def HasPeer_def Let_def split: option.split)

lemma register_peer_ok: "peers_ok (md_peers md) \<Longrightarrow> peers_ok (md_peers (register_peer now p md))"
  using RegisterPeer_unfold [of "md_peers md" now p] peers_ok_put [of "md_peers md" _ "pi_id p"]
  by (simp add: register_peer_def peer_put_def registered_def)

lemma register_peer_get:
  "peers_ok (md_peers md) \<Longrightarrow> GetPeer (md_peers (register_peer now p md)) k =
     (if k = pi_id p then Some (registered now p (GetPeer (md_peers md) k)) else GetPeer (md_peers md) k)"
  by (simp add: register_peer_def RegisterPeer_unfold peers_ok_def peers.get_put)

lemma registerKnownPeer_simps [simp]:
  "md_daemon_id (registerKnownPeer now md q) = md_daemon_id md"
  "md_rpc_uri (registerKnownPeer now md q) = md_rpc_uri md"
  "md_last_announcement (registerKnownPeer now md q) = md_last_announcement md"
  "md_last_activity (registerKnownPeer now md q) = md_last_activity md"
  by (simp_all add: registerKnownPeer_def split: option.split)

lemma registerKnownPeer_knows [simp]:
  "knows (registerKnownPeer now md q) k \<longleftrightarrow>
     knows md k \<or> (k = pr_peer_id q \<and> k \<noteq> md_daemon_id md \<and> pr_api_uri q \<noteq> None)"
  by (auto simp: registerKnownPeer_def peer_info_def split: option.split)

lemma registerKnownPeer_ok: "peers_ok (md_peers md) \<Longrightarrow> peers_ok (md_peers (registerKnownPeer now md q))"
  by (simp add: registerKnownPeer_def register_peer_ok split: option.split)

lemma known_peers_simps [simp]:
  "md_daemon_id (foldl (registerKnownPeer now) md qs) = md_daemon_id md"
  "md_rpc_uri (foldl (registerKnownPeer now) md qs) = md_rpc_uri md"
  "md_last_announcement (foldl (registerKnownPeer now) md qs) = md_last_announcement md"
  "md_last_activity (foldl (registerKnownPeer now) md qs) = md_last_activity md"
  by (induction qs arbitrary: md) auto

lemma known_peers_knows [simp]:
  "knows (foldl (registerKnownPeer now) md qs) k \<longleftrightarrow>
     knows md k \<or> (\<exists>q\<in>set qs. k = pr_peer_id q \<and> k \<noteq> md_daemon_id md \<and> pr_api_uri q \<noteq> None)"
  by (induction qs arbitrary: md) auto

lemma known_peers_ok:
  "peers_ok (md_peers md) \<Longrightarrow> peers_ok (md_peers (foldl (registerKnownPeer now) md qs))"
  by (induction qs arbitrary: md) (auto intro: registerKnownPeer_ok)

lemma announcer_simps [simp]:
  "md_daemon_id (registerPeerFromAnnouncement now ev md) = md_daemon_id md"
  "md_rpc_uri (registerPeerFromAnnouncement now ev md) = md_rpc_uri md"
  "md_last_announcement (registerPeerFromAnnouncement now ev md) = md_last_announcement md"
  "md_last_activity (registerPeerFromAnnouncement now ev md) = md_last_activity md"
  by (simp_all add: registerPeerFromAnnouncement_def split: option.split)

lemma announcer_knows [simp]:
  "knows (registerPeerFromAnnouncement now ev md) k \<longleftrightarrow>
     knows md k \<or> (\<exists>p. an_peer ev = Some p \<and> k = pr_peer_id p \<and> pr_api_uri p \<noteq> None)"
  by (auto simp: registerPeerFromAnnouncement_def peer_info_def split: option.split)

lemma announcer_ok:
  "peers_ok (md_peers md) \<Longrightarrow> peers_ok (md_peers (registerPeerFromAnnouncement now ev md))"
  by (simp add: registerPeerFromAnnouncement_def register_peer_ok split: option.split)

lemma receive_state:
  assumes "an_peer ev = Some p" and "pr_peer_id p \<noteq> md_daemon_id md"
  shows "snd (listener_receive now provided ev md) =
    foldl (registerKnownPeer now) (registerPeerFromAnnouncement now ev (md\<lparr>md_last_activity := now,
       md_last_announcement := gm_put (md_last_announcement md) (pr_peer_id p) now\<rparr>)) (an_known_peers ev)"
  using assms by (simp add: listener_receive_def handleAnnouncement_def Let_def)

lemma receive_skips:
  "an_peer ev = None \<or> (\<exists>p. an_peer ev = Some p \<and> pr_peer_id p = md_daemon_id md) \<Longrightarrow>
     listener_receive now provided ev md = (None, md)"
  by (auto simp: listener_receive_def handleAnnouncement_def)

lemma receive_simps [simp]:
  "md_daemon_id (snd (listener_receive now provided ev md)) = md_daemon_id md"
  "md_rpc_uri (snd (listener_receive now provided ev md)) = md_rpc_uri md"
  by (simp_all add: listener_receive_def handleAnnouncement_def Let_def split: option.split)

lemma receive_knows:
  "knows (snd (listener_receive now provided ev md)) k \<longleftrightarrow> knows md k \<or>
     (\<exists>p. an_peer ev = Some p \<and> pr_peer_id p \<noteq> md_daemon_id md \<and>
       ((k = pr_peer_id p \<and> pr_api_uri p \<noteq> None) \<or>
        (\<exists>q\<in>set (an_known_peers ev). k = pr_peer_id q \<and> k \<noteq> md_daemon_id md \<and> pr_api_uri q \<noteq> None)))"
  by (auto simp: listener_receive_def handleAnnouncement_def Let_def split: option.split)

lemma receive_ok:
  "peers_ok (md_peers md) \<Longrightarrow> peers_ok (md_peers (snd (listener_receive now provided ev md)))"
  by (auto simp: listener_receive_def handleAnnouncement_def Let_def intro!: known_peers_ok announcer_ok
      split: option.split)

lemma receive_answer:
  "fst (listener_receive now provided ev md) =
     (case an_peer ev of None \<Rightarrow> None
      | Some p \<Rightarrow>
          if pr_peer_id p \<noteq> md_daemon_id md \<and> an_type ev = ANNOUNCEMENT_TYPE_REQUEST \<and>
             outside_window now (pr_peer_id p) md \<and> md_daemon_id md \<notin> set (an_ignore_peer_ids ev)
          then sendAnnouncementResponses now provided ev (snd (listener_receive now provided ev md))
          else None)"
  by (auto simp: listener_receive_def handleAnnouncement_def Let_def split: option.split)

section \<open>One announcement\<close>

lemma known_peers_get_other:
  "peers_ok (md_peers md) \<Longrightarrow> k \<notin> pr_peer_id ` set qs \<Longrightarrow>
   GetPeer (md_peers (foldl (registerKnownPeer now) md qs)) k = GetPeer (md_peers md) k"
proof (induction qs arbitrary: md)
  case (Cons q qs)
  have "GetPeer (md_peers (registerKnownPeer now md q)) k = GetPeer (md_peers md) k"
    using Cons.prems
    by (auto simp: registerKnownPeer_def register_peer_get peer_info_def split: option.split)
  then show ?case using Cons by (simp add: registerKnownPeer_ok)
qed simp

text \<open>The runtimes of an announcement, as they are filed: each names the announcing peer.\<close>

definition announced_runtimes :: "Peer \<Rightarrow> Runtime list" where
  "announced_runtimes p = map (\<lambda>rt. rt\<lparr>rt_peer_ids := rt_peer_ids rt @ [pr_peer_id p]\<rparr>)
     (pr_available_runtimes p)"

text \<open>An announcement of another daemon files that daemon under its identifier, alive, with the
  address and the runtimes it announced, each runtime naming it, and files every peer it lists
  but the receiver itself. It is answered exactly when it is a request, the last announcement of
  that daemon is more than 90 seconds old or there was none, and neither the receiver nor the
  requester is in its ignore list; the answer is a response that lists the receiver's peers
  without the requester and those ignored.\<close>
theorem announcement_spec:
  assumes "peers_ok (md_peers md)" and "an_peer ev = Some p" and "pr_api_uri p = Some u"
    and other: "pr_peer_id p \<noteq> md_daemon_id md"
    and "listener_receive now provided ev md = (answer, md')"
  shows "(pr_peer_id p \<notin> pr_peer_id ` set (an_known_peers ev) \<longrightarrow>
      GetPeer (md_peers md') (pr_peer_id p) =
        Some (registered now (peer_info p u (announced_runtimes p)) (GetPeer (md_peers md) (pr_peer_id p)))) \<and>
    (\<forall>k. knows md' k \<longleftrightarrow> knows md k \<or> k = pr_peer_id p \<or>
      (k \<noteq> md_daemon_id md \<and> (\<exists>q\<in>set (an_known_peers ev). pr_peer_id q = k \<and> pr_api_uri q \<noteq> None))) \<and>
    (answer \<noteq> None \<longleftrightarrow> an_type ev = ANNOUNCEMENT_TYPE_REQUEST \<and> outside_window now (pr_peer_id p) md \<and>
      md_daemon_id md \<notin> set (an_ignore_peer_ids ev) \<and> pr_peer_id p \<notin> set (an_ignore_peer_ids ev)) \<and>
    (\<forall>a. answer = Some a \<longrightarrow> an_type a = ANNOUNCEMENT_TYPE_RESPONSE \<and> an_peer a = Some (own_peer provided md) \<and>
      (\<forall>q\<in>set (an_known_peers a). pr_peer_id q \<noteq> pr_peer_id p \<and> pr_peer_id q \<notin> set (an_ignore_peer_ids ev)))"
proof -
  define md0 where "md0 = md\<lparr>md_last_activity := now,
    md_last_announcement := gm_put (md_last_announcement md) (pr_peer_id p) now\<rparr>"
  have md': "md' = foldl (registerKnownPeer now) (registerPeerFromAnnouncement now ev md0) (an_known_peers ev)"
    using receive_state [OF assms(2) other, of now provided] assms(5) by (simp add: md0_def)
  have ok0: "peers_ok (md_peers md0)" using assms(1) by (simp add: md0_def)
  have "GetPeer (md_peers (registerPeerFromAnnouncement now ev md0)) (pr_peer_id p) =
      Some (registered now (peer_info p u (announced_runtimes p)) (GetPeer (md_peers md) (pr_peer_id p)))"
    using assms(2,3) ok0
    by (simp add: registerPeerFromAnnouncement_def register_peer_get announced_runtimes_def md0_def peer_info_def)
  then have filed: "pr_peer_id p \<notin> pr_peer_id ` set (an_known_peers ev) \<longrightarrow>
      GetPeer (md_peers md') (pr_peer_id p) =
        Some (registered now (peer_info p u (announced_runtimes p)) (GetPeer (md_peers md) (pr_peer_id p)))"
    unfolding md' by (simp add: known_peers_get_other announcer_ok ok0)
  have knows': "knows md' k \<longleftrightarrow> knows md k \<or> k = pr_peer_id p \<or>
      (k \<noteq> md_daemon_id md \<and> (\<exists>q\<in>set (an_known_peers ev). pr_peer_id q = k \<and> pr_api_uri q \<noteq> None))" for k
    using receive_knows [of now provided ev md k] assms(2-5) by auto
  have "fst (listener_receive now provided ev md) =
      (if an_type ev = ANNOUNCEMENT_TYPE_REQUEST \<and> outside_window now (pr_peer_id p) md \<and>
         md_daemon_id md \<notin> set (an_ignore_peer_ids ev)
       then sendAnnouncementResponses now provided ev (snd (listener_receive now provided ev md)) else None)"
    using receive_answer [of now provided ev md] assms(2) other by simp
  then have answer: "answer = (if an_type ev = ANNOUNCEMENT_TYPE_REQUEST \<and>
      outside_window now (pr_peer_id p) md \<and> md_daemon_id md \<notin> set (an_ignore_peer_ids ev)
      then sendAnnouncementResponses now provided ev md' else None)"
    unfolding assms(5) fst_conv snd_conv .
  have own: "own_peer provided md' = own_peer provided md"
    unfolding md' by (simp add: own_peer_def md0_def)
  show ?thesis
    using filed knows' assms(2) answer
    by (auto simp: sendAnnouncementResponses_def Let_def own known_peer_def split: if_splits)
qed

definition sample_uri :: ApiUri where
  "sample_uri = \<lparr>uri_host = ''b'', uri_port = 7, uri_protocol = API_PROTOCOL_GRPC, uri_subpath = ''''\<rparr>"

definition sample_announcement :: AnnouncementEvent where
  "sample_announcement = sendAnnouncement 0 None (NewMulticastDiscoverer ''b'' ''b:7'' 60 NewPeerManager)"

theorem announcement_spec_witness:
  "\<exists>answer md'. listener_receive 5 None sample_announcement
      (NewMulticastDiscoverer ''a'' ''a:7'' 60 NewPeerManager) = (Some answer, md') \<and> knows md' ''b'' \<and>
     an_type answer = ANNOUNCEMENT_TYPE_RESPONSE"
proof -
  let ?md = "NewMulticastDiscoverer ''a'' ''a:7'' 60 NewPeerManager"
  let ?b = "NewMulticastDiscoverer ''b'' ''b:7'' 60 NewPeerManager"
  obtain answer md' where r: "listener_receive 5 None sample_announcement ?md = (answer, md')"
    by (cases "listener_receive 5 None sample_announcement ?md")
  have ok: "peers_ok (md_peers ?md)"
    by (simp add: peers_ok_def NewMulticastDiscoverer_def NewPeerManager_def)
  have peer: "an_peer sample_announcement = Some (own_peer None ?b)"
    by (simp add: sample_announcement_def sendAnnouncement_def)
  obtain u where uri: "pr_api_uri (own_peer None ?b) = Some u"
    by simp
  have other: "pr_peer_id (own_peer None ?b) \<noteq> md_daemon_id ?md"
    by (simp add: NewMulticastDiscoverer_def)
  have req: "an_type sample_announcement = ANNOUNCEMENT_TYPE_REQUEST"
      "an_ignore_peer_ids sample_announcement = []" "an_known_peers sample_announcement = []"
    by (simp_all add: sample_announcement_def sendAnnouncement_def NewMulticastDiscoverer_def
        NewPeerManager_def GetAllPeers_def)
  have fresh: "outside_window 5 k ?md" for k
    by (simp add: outside_window_def NewMulticastDiscoverer_def)
  have b: "md_daemon_id ?b = ''b''" by (simp add: NewMulticastDiscoverer_def)
  from announcement_spec [OF ok peer uri other r] have
    "answer \<noteq> None" "knows md' ''b''" "\<forall>a. answer = Some a \<longrightarrow> an_type a = ANNOUNCEMENT_TYPE_RESPONSE"
    by (simp_all only: req fresh own_peer_simps b) auto
  with r show ?thesis by auto
qed

section \<open>Flood prevention\<close>

type_synonym heard = "int \<times> Runtime list option \<times> AnnouncementEvent"

fun hear_all :: "heard list \<Rightarrow> MulticastDiscoverer \<Rightarrow> AnnouncementEvent option list \<times> MulticastDiscoverer" where
  "hear_all [] md = ([], md)"
| "hear_all ((now, provided, ev) # hs) md =
     (case listener_receive now provided ev md of (answer, md1) \<Rightarrow>
        (case hear_all hs md1 of (answers, md2) \<Rightarrow> (answer # answers, md2)))"

fun gaps_within :: "int \<Rightarrow> int \<Rightarrow> heard list \<Rightarrow> bool" where
  "gaps_within w t [] = True"
| "gaps_within w t ((now, provided, ev) # hs) = (now - t \<le> w \<and> gaps_within w now hs)"

lemma receive_last:
  "an_peer ev = Some p \<Longrightarrow> pr_peer_id p \<noteq> md_daemon_id md \<Longrightarrow>
   md_last_announcement (snd (listener_receive now provided ev md)) =
     gm_put (md_last_announcement md) (pr_peer_id p) now"
  by (simp add: receive_state)

text \<open>The 90 seconds count from the last announcement heard, not from the last answer: a daemon
  that announces itself at least every 90 seconds is never answered again once it has been
  heard, whatever it announces; so a daemon that restarts and has lost its peers does not get
  them back from an answer.\<close>
theorem frequent_announcer_unanswered:
  assumes "gm_get (md_last_announcement md) k = Some t" and "k \<noteq> md_daemon_id md"
    and "gaps_within AnnouncementWindow t hs"
    and "\<forall>(now, provided, ev)\<in>set hs. map_option pr_peer_id (an_peer ev) = Some k"
  shows "set (fst (hear_all hs md)) \<subseteq> {None}"
  using assms
proof (induction hs arbitrary: md t)
  case (Cons h hs)
  obtain now provided ev where h: "h = (now, provided, ev)" by (cases h)
  from Cons.prems(4) h obtain p where p: "an_peer ev = Some p" "pr_peer_id p = k" by auto
  define md1 where "md1 = snd (listener_receive now provided ev md)"
  have "\<not> outside_window now k md"
    using Cons.prems(1,3) h by (simp add: outside_window_def)
  then have quiet: "fst (listener_receive now provided ev md) = None"
    using receive_answer [of now provided ev md] p by simp
  have "gm_get (md_last_announcement md1) k = Some now"
    using receive_last [OF p(1), of md now provided] p(2) Cons.prems(2) by (simp add: md1_def)
  moreover have "gaps_within AnnouncementWindow now hs" using Cons.prems(3) h by simp
  ultimately have "set (fst (hear_all hs md1)) \<subseteq> {None}"
    using Cons.IH [of md1 now] Cons.prems(2,4) by (simp add: md1_def)
  with quiet show ?case by (auto simp: h md1_def split: prod.splits)
qed simp

theorem frequent_announcer_unanswered_witness:
  "set (fst (hear_all [(50 * 10 ^ 9, None, sample_announcement), (100 * 10 ^ 9, None, sample_announcement)]
     ((NewMulticastDiscoverer ''a'' ''a:7'' 60 NewPeerManager)\<lparr>md_last_announcement := [(''b'', 0)]\<rparr>))) \<subseteq> {None}"
  by (rule frequent_announcer_unanswered [of _ "''b''" 0])
     (simp_all add: NewMulticastDiscoverer_def AnnouncementWindow_def sample_announcement_def
       sendAnnouncement_def)

section \<open>Peers that went offline\<close>

definition seen_alive :: "int \<Rightarrow> string \<Rightarrow> PeerManager \<Rightarrow> bool" where
  "seen_alive now k pm = (\<exists>p. GetPeer pm k = Some p \<and> pi_is_alive p \<and> pi_last_seen_at p = now)"

lemma seen_alive_known:
  assumes "peers_ok (md_peers md)"
  shows "seen_alive now k (md_peers (foldl (registerKnownPeer now) md qs)) \<longleftrightarrow>
    (seen_alive now k (md_peers md) \<or>
     (\<exists>q\<in>set qs. pr_peer_id q = k \<and> k \<noteq> md_daemon_id md \<and> pr_api_uri q \<noteq> None))"
  using assms
proof (induction qs arbitrary: md)
  case (Cons q qs)
  have "seen_alive now k (md_peers (registerKnownPeer now md q)) \<longleftrightarrow>
      seen_alive now k (md_peers md) \<or> (pr_peer_id q = k \<and> k \<noteq> md_daemon_id md \<and> pr_api_uri q \<noteq> None)"
    using Cons.prems
    by (auto simp: registerKnownPeer_def register_peer_get seen_alive_def registered_def peer_info_def
        split: option.split)
  with Cons.IH [OF registerKnownPeer_ok [OF Cons.prems]] show ?case by auto
qed simp

text \<open>A daemon announces every peer it has ever filed as online, and the receiver files it as
  alive and seen now: a peer that one daemon, or both, has marked offline comes back to life with
  the next announcement of any daemon that has it in its table.\<close>
theorem offline_peer_returns:
  assumes "peers_ok (md_peers md)" and "knows from_md k" and "peers_ok (md_peers from_md)"
    and "md_daemon_id from_md \<noteq> md_daemon_id md" and "k \<noteq> md_daemon_id md"
  shows "seen_alive now k (md_peers (snd (listener_receive now provided
    (sendAnnouncement sent provided' (from_md\<lparr>md_peers := snd (MarkPeerOffline k (md_peers from_md))\<rparr>))
    (md\<lparr>md_peers := snd (MarkPeerOffline k (md_peers md))\<rparr>))))"
proof -
  define src where "src = from_md\<lparr>md_peers := snd (MarkPeerOffline k (md_peers from_md))\<rparr>"
  define dst where "dst = md\<lparr>md_peers := snd (MarkPeerOffline k (md_peers md))\<rparr>"
  define ev where "ev = sendAnnouncement sent provided' src"
  have ok: "peers_ok pm \<Longrightarrow> peers_ok (snd (MarkPeerOffline j pm))" for j pm
    by (auto simp: MarkPeerOffline_def Let_def intro!: peers_ok_put dest: peers_ok_get split: option.split)
  have "\<exists>p. gm_get (pm_peers (md_peers src)) k = Some p"
    using assms(2) by (auto simp: src_def HasPeer_def MarkPeerOffline_def Let_def split: option.split)
  then obtain p where p: "gm_get (pm_peers (md_peers src)) k = Some p" ..
  have "pi_id p = k"
    using ok [OF assms(3)] peers_ok_get p by (auto simp: src_def)
  with p have "\<exists>q\<in>set (an_known_peers ev). pr_peer_id q = k \<and> k \<noteq> md_daemon_id dst \<and> pr_api_uri q \<noteq> None"
    using assms(5) by (auto simp: ev_def sendAnnouncement_def GetAllPeers_def known_peer_def dst_def
        dest!: map_of_SomeD intro!: rev_bexI)
  moreover have "peers_ok (md_peers dst)" using ok [OF assms(1)] by (simp add: dst_def)
  ultimately have "seen_alive now k (md_peers (snd (listener_receive now provided ev dst)))"
    using assms(4)
    by (subst receive_state [of _ "own_peer provided' src"])
       (auto simp: ev_def sendAnnouncement_def src_def dst_def seen_alive_known announcer_ok)
  then show ?thesis by (simp only: ev_def src_def dst_def)
qed

definition with_b :: PeerManager where
  "with_b = snd (snd (RegisterPeer 1 (Some (sample_peer\<lparr>pi_id := ''b''\<rparr>)) NewPeerManager))"

theorem offline_peer_returns_witness:
  "seen_alive 9 ''b'' (md_peers (snd (listener_receive 9 None
     (sendAnnouncement 8 None ((NewMulticastDiscoverer ''c'' ''c:7'' 60 with_b)\<lparr>md_peers :=
          snd (MarkPeerOffline ''b'' (md_peers (NewMulticastDiscoverer ''c'' ''c:7'' 60 with_b)))\<rparr>))
     ((NewMulticastDiscoverer ''a'' ''a:7'' 60 NewPeerManager)\<lparr>md_peers := snd (MarkPeerOffline ''b''
        (md_peers (NewMulticastDiscoverer ''a'' ''a:7'' 60 NewPeerManager)))\<rparr>))))"
  by (rule offline_peer_returns)
     (simp_all add: NewMulticastDiscoverer_def NewPeerManager_def peers_ok_def RegisterPeer_def
       HasPeer_def Let_def with_b_def)

section \<open>A round of gossip\<close>

text \<open>A network without losses: a message reaches every daemon of the group, the sender included, in
  some order. The first function delivers one message and collects the answers, the second
  delivers a list of messages one after the other.\<close>

type_synonym net = "string \<Rightarrow> MulticastDiscoverer"

fun deliver ::
  "int \<Rightarrow> (string \<Rightarrow> Runtime list option) \<Rightarrow> AnnouncementEvent \<Rightarrow> string list \<Rightarrow> net \<Rightarrow> AnnouncementEvent list \<times> net" where
  "deliver now rts ev [] net = ([], net)"
| "deliver now rts ev (i # is) net =
     (case listener_receive now (rts i) ev (net i) of (answer, md) \<Rightarrow>
        (case deliver now rts ev is (net(i := md)) of (answers, net') \<Rightarrow>
           ((case answer of None \<Rightarrow> answers | Some a \<Rightarrow> a # answers), net')))"

fun deliver_all ::
  "int \<Rightarrow> (string \<Rightarrow> Runtime list option) \<Rightarrow> AnnouncementEvent list \<Rightarrow> string list \<Rightarrow> net
    \<Rightarrow> AnnouncementEvent list \<times> net" where
  "deliver_all now rts [] ids net = ([], net)"
| "deliver_all now rts (ev # evs) ids net =
     (case deliver now rts ev ids net of (as1, net1) \<Rightarrow>
        (case deliver_all now rts evs ids net1 of (as2, net2) \<Rightarrow> (as1 @ as2, net2)))"

lemma deliver_Cons:
  "deliver now rts ev (i # is) net =
     (let r = listener_receive now (rts i) ev (net i); d = deliver now rts ev is (net(i := snd r))
      in ((case fst r of None \<Rightarrow> fst d | Some a \<Rightarrow> a # fst d), snd d))"
proof (cases "listener_receive now (rts i) ev (net i)")
  case (Pair answer md)
  then show ?thesis by (cases "deliver now rts ev is (net(i := md))") (simp add: Let_def split: option.split)
qed

lemma deliver_all_Cons:
  "deliver_all now rts (ev # evs) ids net =
     (let d = deliver now rts ev ids net; r = deliver_all now rts evs ids (snd d)
      in (fst d @ fst r, snd r))"
proof (cases "deliver now rts ev ids net")
  case (Pair answers net1)
  then show ?thesis by (cases "deliver_all now rts evs ids net1") (simp add: Let_def)
qed

lemmas deliver_simps = deliver.simps(1) deliver_Cons deliver_all.simps(1) deliver_all_Cons

declare deliver.simps(2) [simp del] deliver_all.simps(2) [simp del]

lemma deliver_net:
  "distinct ids \<Longrightarrow> snd (deliver now rts ev ids net) =
     (\<lambda>i. if i \<in> set ids then snd (listener_receive now (rts i) ev (net i)) else net i)"
  by (induction ids arbitrary: net) (auto simp: deliver_simps Let_def fun_eq_iff)

lemma map_filter_cong:
  "(\<And>x. x \<in> set xs \<Longrightarrow> f x = g x) \<Longrightarrow> List.map_filter f xs = List.map_filter g xs"
  by (induction xs) (auto simp: map_filter_simps split: option.split)

lemma deliver_answers:
  "distinct ids \<Longrightarrow> fst (deliver now rts ev ids net) =
     List.map_filter (\<lambda>i. fst (listener_receive now (rts i) ev (net i))) ids"
proof (induction ids arbitrary: net)
  case (Cons i ids)
  have same: "List.map_filter (\<lambda>j. fst (listener_receive now (rts j) ev ((net(i := md)) j))) ids =
      List.map_filter (\<lambda>j. fst (listener_receive now (rts j) ev (net j))) ids" for md
    using Cons.prems by (intro map_filter_cong) auto
  have "fst (deliver now rts ev ids (net(i := md))) =
      List.map_filter (\<lambda>j. fst (listener_receive now (rts j) ev (net j))) ids" for md
    using Cons.IH [of "net(i := md)"] Cons.prems by (simp only: same distinct.simps)
  then show ?case by (simp add: deliver_simps Let_def map_filter_simps split: option.split)
qed (simp add: map_filter_simps)

text \<open>A response is never answered, so delivering answers adds none.\<close>
lemma responses_unanswered:
  assumes "distinct ids" and "\<forall>ev\<in>set evs. an_type ev = ANNOUNCEMENT_TYPE_RESPONSE"
  shows "fst (deliver_all now rts evs ids net) = []"
  using assms(2)
proof (induction evs arbitrary: net)
  case (Cons ev evs)
  have "fst (listener_receive now (rts i) ev (net i)) = None" for i
    using Cons.prems receive_answer [of now "rts i" ev "net i"] by (auto split: option.splits)
  then have "fst (deliver now rts ev ids net) = []"
    by (simp add: deliver_answers [OF assms(1)] map_filter_def)
  with Cons show ?case by (simp add: deliver_simps Let_def)
qed (simp add: deliver_simps)

lemma deliver_keeps:
  "distinct ids \<Longrightarrow> md_daemon_id (snd (deliver now rts ev ids net) i) = md_daemon_id (net i) \<and>
     (knows (net i) k \<longrightarrow> knows (snd (deliver now rts ev ids net) i) k)"
  by (simp add: deliver_net receive_knows)

lemma deliver_all_keeps:
  "distinct ids \<Longrightarrow> md_daemon_id (snd (deliver_all now rts evs ids net) i) = md_daemon_id (net i) \<and>
     (knows (net i) k \<longrightarrow> knows (snd (deliver_all now rts evs ids net) i) k)"
  by (induction evs arbitrary: net) (auto simp: deliver_simps Let_def deliver_keeps)

lemma deliver_all_knows:
  assumes "distinct ids" and "ev \<in> set evs" and "an_peer ev = Some p" and "pr_api_uri p \<noteq> None"
    and "i \<in> set ids" and "pr_peer_id p \<noteq> md_daemon_id (net i)"
  shows "knows (snd (deliver_all now rts evs ids net) i) (pr_peer_id p)"
  using assms(2,6)
proof (induction evs arbitrary: net)
  case (Cons e evs)
  let ?net1 = "snd (deliver now rts e ids net)"
  show ?case
  proof (cases "ev \<in> set evs")
    case True
    then have "knows (snd (deliver_all now rts evs ids ?net1) i) (pr_peer_id p)"
      using Cons.prems(2) deliver_keeps [OF assms(1), of now rts e net i] by (intro Cons.IH) auto
    then show ?thesis by (simp add: deliver_simps Let_def)
  next
    case False
    with Cons.prems have "e = ev" by simp
    then have "knows (?net1 i) (pr_peer_id p)"
      using assms(3-5) Cons.prems(2) by (auto simp: deliver_net [OF assms(1)] receive_knows)
    then show ?thesis
      using deliver_all_keeps [OF assms(1), of now rts evs ?net1 i "pr_peer_id p"]
      by (simp add: deliver_simps Let_def)
  qed
qed simp

text \<open>C34. A round of gossip ends, and everybody gets to know everybody: when a daemon announces
  itself to a group none of which has heard from it within 90 seconds, and it has heard from none
  of them within 45 seconds, every other daemon answers once, nobody answers the answers, and
  afterwards every daemon of the group has every other one in its table.\<close>
theorem gossip_round:
  assumes "distinct ids" and "a \<in> set ids"
    and names: "\<forall>i\<in>set ids. md_daemon_id (net i) = i"
    and quiet: "\<forall>i\<in>set ids. i \<noteq> a \<longrightarrow> outside_window now a (net i)"
    and unheard: "\<forall>i\<in>set ids. i \<notin> set (an_ignore_peer_ids (sendAnnouncement now (rts a) (net a)))"
    and "deliver now rts (sendAnnouncement now (rts a) (net a)) ids net = (answers, net1)"
    and "deliver_all now rts answers ids net1 = (rest, net2)"
  shows "length answers = length ids - 1 \<and> rest = [] \<and>
    (\<forall>i\<in>set ids. \<forall>j\<in>set ids. i \<noteq> j \<longrightarrow> knows (net2 i) j)"
proof -
  let ?ev = "sendAnnouncement now (rts a) (net a)"
  have ev: "an_peer ?ev = Some (own_peer (rts a) (net a))" "an_type ?ev = ANNOUNCEMENT_TYPE_REQUEST"
    by (simp_all add: sendAnnouncement_def)
  have name_a: "md_daemon_id (net a) = a" using names assms(2) by simp
  define ans where "ans i = fst (listener_receive now (rts i) ?ev (net i))" for i
  have answered: "\<exists>e. ans i = Some e \<and> an_type e = ANNOUNCEMENT_TYPE_RESPONSE \<and>
      (\<exists>p. an_peer e = Some p \<and> pr_peer_id p = i \<and> pr_api_uri p \<noteq> None)" if "i \<in> set ids" "i \<noteq> a" for i
    using that names quiet unheard assms(2) name_a receive_answer [of now "rts i" ?ev "net i"]
    by (simp add: ans_def ev sendAnnouncementResponses_def Let_def)
  have own: "ans a = None"
    using name_a receive_answer [of now "rts a" ?ev "net a"] by (simp add: ans_def ev)
  have answers: "answers = List.map_filter ans ids"
    using deliver_answers [OF assms(1), of now rts ?ev net] assms(6) by (simp add: ans_def [abs_def])
  have in_answers: "e \<in> set answers \<longleftrightarrow> (\<exists>i\<in>set ids. ans i = Some e)" for e
    by (auto simp: answers map_filter_def image_iff)
  have "filter (\<lambda>i. ans i \<noteq> None) ids = filter (\<lambda>i. a \<noteq> i) ids"
    using answered own by (intro filter_cong) auto
  also have "\<dots> = remove1 a ids"
    using assms(1) by (simp add: distinct_remove1_removeAll removeAll_filter_not_eq)
  finally have "length answers = length (remove1 a ids)"
    by (simp add: answers map_filter_def)
  also have "\<dots> = length ids - 1"
    using assms(2) by (simp add: length_remove1)
  finally have len: "length answers = length ids - 1" .
  have "\<forall>e\<in>set answers. an_type e = ANNOUNCEMENT_TYPE_RESPONSE"
    using answered own in_answers by (metis option.distinct(1) option.inject)
  with responses_unanswered [OF assms(1), of answers now rts net1] assms(7) have rest: "rest = []" by simp
  have net1: "net1 = snd (deliver now rts ?ev ids net)" and net2: "net2 = snd (deliver_all now rts answers ids net1)"
    using assms(6,7) by simp_all
  have names1: "md_daemon_id (net1 i) = i" if "i \<in> set ids" for i
    using deliver_keeps [OF assms(1), of now rts ?ev net i] names that by (simp add: net1)
  have "knows (net2 i) j" if ij: "i \<in> set ids" "j \<in> set ids" "i \<noteq> j" for i j
  proof (cases "j = a")
    case True
    then have "knows (net1 i) a"
      using ij name_a names by (simp add: net1 deliver_net [OF assms(1)] receive_knows ev)
    then show ?thesis
      using deliver_all_keeps [OF assms(1), of now rts answers net1 i a] True by (simp add: net2)
  next
    case False
    with answered [of j] ij obtain e p where "ans j = Some e" "an_peer e = Some p" "pr_peer_id p = j"
      "pr_api_uri p \<noteq> None" by blast
    then show ?thesis
      using deliver_all_knows [OF assms(1), of e answers p i net1 now rts] ij names1 in_answers
      by (auto simp: net2)
  qed
  with len rest show ?thesis by blast
qed

definition fresh_net :: net where
  "fresh_net i = NewMulticastDiscoverer i (i @ '':7'') 60 NewPeerManager"

theorem gossip_round_witness:
  "\<exists>answers net1 rest net2.
     deliver 0 (\<lambda>_. Some []) (sendAnnouncement 0 (Some []) (fresh_net ''a'')) [''a'', ''b'', ''c''] fresh_net = (answers, net1) \<and>
     deliver_all 0 (\<lambda>_. Some []) answers [''a'', ''b'', ''c''] net1 = (rest, net2) \<and>
     length answers = 2 \<and> knows (net2 ''b'') ''c''"
proof -
  let ?ids = "[''a'', ''b'', ''c'']" and ?rts = "\<lambda>_. Some []"
  obtain answers net1 where 1: "deliver 0 ?rts (sendAnnouncement 0 (?rts ''a'') (fresh_net ''a'')) ?ids fresh_net =
    (answers, net1)" by (cases "deliver 0 ?rts (sendAnnouncement 0 (?rts ''a'') (fresh_net ''a'')) ?ids fresh_net")
  obtain rest net2 where 2: "deliver_all 0 ?rts answers ?ids net1 = (rest, net2)"
    by (cases "deliver_all 0 ?rts answers ?ids net1")
  have "length answers = length ?ids - 1 \<and> rest = [] \<and>
      (\<forall>i\<in>set ?ids. \<forall>j\<in>set ?ids. i \<noteq> j \<longrightarrow> knows (net2 i) j)"
    by (rule gossip_round [OF _ _ _ _ _ 1 2])
       (simp_all add: fresh_net_def NewMulticastDiscoverer_def outside_window_def sendAnnouncement_def)
  with 1 2 show ?thesis by auto
qed

section \<open>The discoverer as a machine\<close>

text \<open>Everything that changes a discoverer: its own calls, the ticks of its loop, and the messages
  it receives, whatever they say.\<close>

datatype DiscoveryOp =
  OpStart start_env int
| OpStop
| OpFirst int
| OpTick int
| OpReceive int "Runtime list option" AnnouncementEvent

fun discovery_exec :: "MulticastDiscoverer \<Rightarrow> DiscoveryOp \<Rightarrow> MulticastDiscoverer" where
  "discovery_exec md (OpStart env now) = snd (Start env now md)"
| "discovery_exec md OpStop = Stop md"
| "discovery_exec md (OpFirst now) = snd (announcement_first now None md)"
| "discovery_exec md (OpTick now) = snd (announcement_tick now None md)"
| "discovery_exec md (OpReceive now provided ev) = snd (listener_receive now provided ev md)"

definition discovery_ok :: "MulticastDiscoverer \<Rightarrow> bool" where
  "discovery_ok md = (peers_ok (md_peers md) \<and> \<not> knows md (md_daemon_id md) \<and>
     (md_listener md = OpenConn \<longrightarrow> md_sender md = OpenConn \<and> md_running md))"

lemma receive_running:
  "md_running (snd (listener_receive now provided ev md)) = md_running md \<and>
   md_listener (snd (listener_receive now provided ev md)) = md_listener md \<and>
   md_sender (snd (listener_receive now provided ev md)) = md_sender md"
proof -
  have reg: "md_running (register_peer now p md) = md_running md \<and>
      md_listener (register_peer now p md) = md_listener md \<and> md_sender (register_peer now p md) = md_sender md" for p md
    by (simp add: register_peer_def)
  then have known: "md_running (registerKnownPeer now md q) = md_running md \<and>
      md_listener (registerKnownPeer now md q) = md_listener md \<and>
      md_sender (registerKnownPeer now md q) = md_sender md" for q md
    by (simp add: registerKnownPeer_def split: option.split)
  then have "md_running (foldl (registerKnownPeer now) md qs) = md_running md \<and>
      md_listener (foldl (registerKnownPeer now) md qs) = md_listener md \<and>
      md_sender (foldl (registerKnownPeer now) md qs) = md_sender md" for qs md
    by (induction qs arbitrary: md) auto
  with reg show ?thesis
    by (simp add: listener_receive_def handleAnnouncement_def Let_def registerPeerFromAnnouncement_def
        split: option.split)
qed

interpretation discovery: op_machine
  "\<lambda>md. \<exists>d uri secs. md = NewMulticastDiscoverer d uri secs NewPeerManager" discovery_exec discovery_ok
proof unfold_locales
  fix md op assume "discovery_ok md"
  then show "discovery_ok (discovery_exec md op)"
    by (cases op) (auto simp: discovery_ok_def Start_def Stop_def announcement_first_def
        announcement_tick_def Let_def receive_ok receive_knows receive_running close_conn_def)
qed (auto simp: discovery_ok_def NewMulticastDiscoverer_def NewPeerManager_def peers_ok_def HasPeer_def)

text \<open>C35. Whatever it receives and whatever its owner calls, a discoverer never has itself among its
  peers, its table stays keyed by the peers' identifiers, and while it listens it can send.\<close>
theorem discovery_invariant:
  assumes "md = foldl discovery_exec (NewMulticastDiscoverer d uri secs NewPeerManager) ops"
  shows "peers_ok (md_peers md) \<and> \<not> knows md (md_daemon_id md) \<and>
    (md_listener md = OpenConn \<longrightarrow> md_sender md = OpenConn \<and> md_running md)"
  using discovery.run_inv [of "NewMulticastDiscoverer d uri secs NewPeerManager" ops] assms
  by (auto simp: discovery_ok_def)

theorem discovery_invariant_witness:
  "\<not> knows (foldl discovery_exec (NewMulticastDiscoverer ''a'' ''a:7'' 60 NewPeerManager)
     [OpReceive 5 None sample_announcement]) ''a''"
  using discovery_invariant [of _ "''a''" "''a:7''" 60 "[OpReceive 5 None sample_announcement]", OF refl]
  by (simp add: NewMulticastDiscoverer_def)

text \<open>A start that fails leaves the discoverer marked as running: another start is refused.\<close>
lemma failed_start_blocks:
  "Start env now md = (Some e, md') \<Longrightarrow> \<not> md_running md \<Longrightarrow> Start env' now' md' = (Some AlreadyRunning, md')"
  by (auto simp: Start_def Let_def split: if_splits)

end
