(* ===== verification/Paths.thy ===== *)
theory Paths
  imports Prelude
begin

text \<open>
  The functions of the Go package path/filepath the program uses, on Unix paths. \<open>Clean\<close>
  removes empty and dot elements and resolves dot-dot against the element before it, as far as
  there is one. \<open>Rel\<close> is given for absolute targets only, which is all the program asks of it;
  None is its error.
\<close>

definition path_is_abs :: "string \<Rightarrow> bool" where
  "path_is_abs p = has_prefix p ''/''"

definition path_elems :: "string \<Rightarrow> string list" where
  "path_elems p = split_on (CHR ''/'') p"

text \<open>The elements that remain, on a stack: the last one first.\<close>

fun clean_elems :: "bool \<Rightarrow> string list \<Rightarrow> string list \<Rightarrow> string list" where
  "clean_elems rooted st [] = rev st"
| "clean_elems rooted st (e # es) =
     (if e = '''' \<or> e = ''.'' then clean_elems rooted st es
      else if e = ''..'' then
        (case st of
           [] \<Rightarrow> clean_elems rooted (if rooted then [] else [''..'']) es
         | t # ts \<Rightarrow> clean_elems rooted (if t = ''..'' then ''..'' # st else ts) es)
      else clean_elems rooted (e # st) es)"

definition Clean :: "string \<Rightarrow> string" where
  "Clean p =
     (let rooted = path_is_abs p; es = clean_elems rooted [] (path_elems p)
      in if rooted then ''/'' @ join_with ''/'' es
         else if es = [] then ''.'' else join_with ''/'' es)"

definition Join :: "string list \<Rightarrow> string" where
  "Join ps = (case dropWhile (\<lambda>p. p = '''') ps of [] \<Rightarrow> '''' | qs \<Rightarrow> Clean (join_with ''/'' qs))"

definition Dir :: "string \<Rightarrow> string" where
  "Dir p = Clean (rev (dropWhile (\<lambda>c. c \<noteq> CHR ''/'') (rev p)))"

definition Ext :: "string \<Rightarrow> string" where
  "Ext p = (let e = takeWhile (\<lambda>c. c \<noteq> CHR ''/'') (rev p)
            in if CHR ''.'' \<in> set e then ''.'' @ rev (takeWhile (\<lambda>c. c \<noteq> CHR ''.'') e) else '''')"

fun drop_common :: "'a list \<Rightarrow> 'a list \<Rightarrow> 'a list \<times> 'a list" where
  "drop_common (x # xs) (y # ys) = (if x = y then drop_common xs ys else (x # xs, y # ys))"
| "drop_common xs ys = (xs, ys)"

definition Rel :: "string \<Rightarrow> string \<Rightarrow> string option" where
  "Rel base targ =
     (if \<not> path_is_abs base then None
      else case drop_common (clean_elems True [] (path_elems base)) (clean_elems True [] (path_elems targ)) of
        (bs, ts) \<Rightarrow>
          (if bs = [] \<and> ts = [] then Some ''.''
           else Some (join_with ''/'' (replicate (length bs) ''..'' @ ts))))"

definition Abs :: "string \<Rightarrow> string \<Rightarrow> string" where
  "Abs cwd p = (if path_is_abs p then Clean p else Join [cwd, p])"

section \<open>Elements of a clean path\<close>

definition proper_elem :: "string \<Rightarrow> bool" where
  "proper_elem e = (e \<noteq> '''' \<and> e \<noteq> ''.'' \<and> e \<noteq> ''..'' \<and> CHR ''/'' \<notin> set e)"

abbreviation proper :: "string list \<Rightarrow> bool" where
  "proper es \<equiv> list_all proper_elem es"

text \<open>The elements of an absolute path, cleaned.\<close>

definition abs_elems :: "string \<Rightarrow> string list" where
  "abs_elems p = clean_elems True [] (path_elems p)"

lemma path_elems_notin: "e \<in> set (path_elems p) \<Longrightarrow> CHR ''/'' \<notin> set e"
  by (simp add: path_elems_def split_on_notin)

lemma clean_elems_append:
  "clean_elems r st (xs @ ys) = clean_elems r (rev (clean_elems r st xs)) ys"
  by (induction xs arbitrary: st) (auto split: list.split)

lemma clean_elems_proper:
  "proper st \<Longrightarrow> \<forall>e\<in>set es. CHR ''/'' \<notin> set e \<Longrightarrow> proper (clean_elems True st es)"
proof (induction es arbitrary: st)
  case Nil
  then show ?case by (simp add: list_all_iff)
next
  case (Cons e es)
  have "proper (tl st)" using Cons.prems(1) by (cases st) auto
  moreover have "proper (e # st)" if "e \<noteq> ''''" "e \<noteq> ''.''" "e \<noteq> ''..''"
    using Cons.prems that by (simp add: proper_elem_def [of e])
  moreover have "hd st \<noteq> ''..''" if "st \<noteq> []"
    using Cons.prems(1) that by (cases st) (auto simp: proper_elem_def)
  ultimately show ?case using Cons by (cases st) simp_all
qed

lemma abs_elems_proper [simp]: "proper (abs_elems p)"
  unfolding abs_elems_def by (rule clean_elems_proper) (auto simp: path_elems_notin)

lemma clean_elems_id: "proper es \<Longrightarrow> clean_elems r st es = rev st @ es"
  by (induction es arbitrary: st) (auto simp: proper_elem_def)

lemma clean_elems_up:
  "length st = n + m \<Longrightarrow> proper st \<Longrightarrow>
   clean_elems r st (replicate n ''..'' @ es) = clean_elems r (drop n st) es"
proof (induction n arbitrary: st)
  case (Suc n)
  then obtain t ts where st: "st = t # ts" by (cases st) auto
  with Suc.prems have "proper_elem t" "length ts = n + m" "proper ts" by simp_all
  then have "t \<noteq> ''..''" "length ts = n + m" "proper ts" by (auto simp: proper_elem_def [of t])
  with Suc.IH [of ts] show ?case by (simp add: st)
qed simp

lemma path_elems_abs: "path_elems (CHR ''/'' # p) = [] # path_elems p"
  by (simp add: path_elems_def)

lemma path_elems_join:
  "ps \<noteq> [] \<Longrightarrow> \<forall>p\<in>set ps. CHR ''/'' \<notin> set p \<Longrightarrow> path_elems (join_with ''/'' ps) = ps"
  by (simp add: path_elems_def split_on_join)

lemma path_elems_slash: "path_elems (a @ CHR ''/'' # b) = path_elems a @ path_elems b"
  by (induction a) (auto simp: path_elems_def split: list.split)

lemma proper_notin: "proper es \<Longrightarrow> e \<in> set es \<Longrightarrow> CHR ''/'' \<notin> set e"
  by (auto simp: list_all_iff proper_elem_def)

lemma abs_elems_join:
  assumes "proper es"
  shows "abs_elems (''/'' @ join_with ''/'' es) = es"
proof (cases "es = []")
  case True
  then show ?thesis by (simp add: abs_elems_def path_elems_def)
next
  case False
  then have "path_elems (join_with ''/'' es) = es"
    using assms proper_notin by (intro path_elems_join) auto
  with assms show ?thesis by (simp add: abs_elems_def path_elems_abs clean_elems_id)
qed

lemma Clean_abs: "path_is_abs p \<Longrightarrow> Clean p = ''/'' @ join_with ''/'' (abs_elems p)"
  by (simp add: Clean_def Let_def abs_elems_def)

lemma path_is_abs_Cons [simp]: "path_is_abs (CHR ''/'' # p)"
  by (simp add: path_is_abs_def has_prefix_def)

lemma path_is_abs_append [simp]: "path_is_abs p \<Longrightarrow> path_is_abs (p @ q)"
  by (auto simp: path_is_abs_def has_prefix_iff)

lemma path_is_abs_not_Nil [simp]: "path_is_abs p \<Longrightarrow> p \<noteq> []"
  by (auto simp: path_is_abs_def has_prefix_def)

lemma Clean_is_abs [simp]: "path_is_abs p \<Longrightarrow> path_is_abs (Clean p)"
  by (simp add: Clean_abs)

lemma abs_elems_Clean [simp]: "path_is_abs p \<Longrightarrow> abs_elems (Clean p) = abs_elems p"
  by (subst Clean_abs) (simp_all only: abs_elems_join abs_elems_proper)

lemma Clean_Clean: "path_is_abs p \<Longrightarrow> Clean (Clean p) = Clean p"
  by (metis Clean_abs Clean_is_abs abs_elems_Clean)

lemma Clean_eq_iff:
  assumes "path_is_abs p" and "path_is_abs q"
  shows "Clean p = Clean q \<longleftrightarrow> abs_elems p = abs_elems q"
  using assms by (metis Clean_abs abs_elems_Clean)

section \<open>Joining and making relative\<close>

lemma Join_abs: "path_is_abs a \<Longrightarrow> Join [a, b] = Clean (a @ ''/'' @ b)"
  by (simp add: Join_def)

lemma Join_is_abs [simp]: "path_is_abs a \<Longrightarrow> path_is_abs (Join [a, b])"
  by (simp add: Join_abs)

lemma abs_elems_Join:
  "path_is_abs a \<Longrightarrow> abs_elems (Join [a, b]) = clean_elems True (rev (abs_elems a)) (path_elems b)"
  by (simp add: Join_abs) (simp add: abs_elems_def path_elems_slash clean_elems_append)

lemma drop_common_prefix:
  "drop_common xs ys = (bs, ts) \<Longrightarrow> \<exists>c. xs = c @ bs \<and> ys = c @ ts \<and>
     (bs = [] \<or> ts = [] \<or> hd bs \<noteq> hd ts)"
proof (induction xs ys rule: drop_common.induct)
  case (1 x xs y ys)
  show ?case
  proof (cases "x = y")
    case True
    with 1 obtain c where "xs = c @ bs \<and> ys = c @ ts \<and> (bs = [] \<or> ts = [] \<or> hd bs \<noteq> hd ts)" by auto
    with True show ?thesis by (intro exI [of _ "x # c"]) simp
  next
    case False
    with 1 show ?thesis by (intro exI [of _ "[]"]) auto
  qed
qed auto

lemma Rel_elems:
  assumes "path_is_abs base"
  obtains c bs ts where "abs_elems base = c @ bs" "abs_elems targ = c @ ts"
    "bs = [] \<or> ts = [] \<or> hd bs \<noteq> hd ts"
    "Rel base targ = Some (if bs = [] \<and> ts = [] then ''.''
       else join_with ''/'' (replicate (length bs) ''..'' @ ts))"
proof -
  obtain bs ts where d: "drop_common (abs_elems base) (abs_elems targ) = (bs, ts)" by fastforce
  from drop_common_prefix [OF d] obtain c where "abs_elems base = c @ bs" "abs_elems targ = c @ ts"
    "bs = [] \<or> ts = [] \<or> hd bs \<noteq> hd ts" by blast
  moreover have "Rel base targ = Some (if bs = [] \<and> ts = [] then ''.''
      else join_with ''/'' (replicate (length bs) ''..'' @ ts))"
    using d assms by (auto simp: Rel_def abs_elems_def)
  ultimately show thesis by (rule that)
qed

text \<open>Making a path relative and joining it again gives the path, cleaned.\<close>
lemma Join_Rel:
  assumes "path_is_abs base" and "path_is_abs targ"
  obtains r where "Rel base targ = Some r" "Join [base, r] = Clean targ"
proof -
  from Rel_elems [OF assms(1), of targ] obtain c bs ts where b: "abs_elems base = c @ bs"
    and t: "abs_elems targ = c @ ts"
    and r: "Rel base targ = Some (if bs = [] \<and> ts = [] then ''.''
       else join_with ''/'' (replicate (length bs) ''..'' @ ts))" (is "_ = Some ?r") by blast
  have pb: "proper bs" and pt: "proper ts"
    using abs_elems_proper [of base] abs_elems_proper [of targ] by (simp_all add: b t)
  have "clean_elems True (rev (c @ bs)) (path_elems ?r) = c @ ts"
  proof (cases "bs = [] \<and> ts = []")
    case True
    then show ?thesis by (simp add: path_elems_def)
  next
    case False
    then have "path_elems ?r = replicate (length bs) ''..'' @ ts"
      using pt proper_notin by (auto intro!: path_elems_join)
    moreover have "proper (rev (c @ bs))" using abs_elems_proper [of base] by (simp add: b)
    ultimately show ?thesis
      using clean_elems_up [of "rev (c @ bs)" "length bs" "length c" True ts] pt
      by (simp add: clean_elems_id)
  qed
  then have "abs_elems (Join [base, ?r]) = abs_elems targ"
    using assms by (simp only: abs_elems_Join b t)
  then have "abs_elems (base @ ''/'' @ ?r) = abs_elems targ"
    using assms(1) by (simp only: Join_abs abs_elems_Clean path_is_abs_append)
  then have "Join [base, ?r] = Clean targ"
    using assms by (simp only: Join_abs Clean_eq_iff path_is_abs_append)
  with r show thesis by (rule that)
qed

text \<open>A relative path climbs out of its base exactly when the base is no prefix of the target.\<close>
lemma up_elem_head:
  "replicate n ''..'' @ ts = e # es \<Longrightarrow> proper ts \<Longrightarrow> (e = ''..'' \<longleftrightarrow> n \<noteq> 0)"
  by (cases n) (auto simp: proper_elem_def)

end
