(* ===== verification/Files.thy ===== *)
theory Files
  imports Paths JobTypes Interfaces
begin

text \<open>
  The part of the operating system the staging of job data uses: regular files and directories
  under absolute clean paths, without links. A path that is not absolute is taken relative to the
  current directory. A call fails where the path is denied (permissions, a full disk), and for
  the reasons written out. What permission bits a new file gets from those asked for is the
  system's; so are the clock and the digest of a content.
\<close>

record Node =
  nd_dir :: bool
  nd_content :: "byte list"
  nd_mode :: "32 word"
  nd_mtime :: int

record Fs =
  fs_nodes :: "(string, Node) gomap"
  fs_denied :: "string \<Rightarrow> bool"
  fs_cwd :: string
  fs_now :: int
  fs_create_mode :: "32 word \<Rightarrow> 32 word"
  fs_sha256 :: "byte list \<Rightarrow> string"

datatype os_error = NotExist | OsFailed

definition os_place :: "Fs \<Rightarrow> string \<Rightarrow> string" where
  "os_place fs p = Abs (fs_cwd fs) p"

definition os_stat :: "Fs \<Rightarrow> string \<Rightarrow> os_error + Node" where
  "os_stat fs p =
     (if p = '''' then Err NotExist
      else if fs_denied fs (os_place fs p) then Err OsFailed
      else case gm_get (fs_nodes fs) (os_place fs p) of None \<Rightarrow> Err NotExist | Some n \<Rightarrow> Ok n)"

definition os_read :: "Fs \<Rightarrow> string \<Rightarrow> os_error + byte list" where
  "os_read fs p = (case os_stat fs p of
     Inl e \<Rightarrow> Err e | Inr n \<Rightarrow> if nd_dir n then Err OsFailed else Ok (nd_content n))"

definition put_node :: "string \<Rightarrow> Node \<Rightarrow> Fs \<Rightarrow> Fs" where
  "put_node q n fs = fs\<lparr>fs_nodes := gm_put (fs_nodes fs) q n\<rparr>"

text \<open>Writing replaces the content of a file, or makes one in a directory that exists.\<close>

definition os_write :: "Fs \<Rightarrow> string \<Rightarrow> byte list \<Rightarrow> 32 word \<Rightarrow> Fs option" where
  "os_write fs p content mode =
     (let q = os_place fs p
      in if p = '''' \<or> fs_denied fs q then None
         else case gm_get (fs_nodes fs) q of
           Some n \<Rightarrow> if nd_dir n then None
             else Some (put_node q (n\<lparr>nd_content := content, nd_mtime := fs_now fs\<rparr>) fs)
         | None \<Rightarrow> (case gm_get (fs_nodes fs) (Dir q) of
             None \<Rightarrow> None
           | Some d \<Rightarrow> if nd_dir d then
               Some (put_node q \<lparr>nd_dir = False, nd_content = content, nd_mode = fs_create_mode fs mode,
                 nd_mtime = fs_now fs\<rparr> fs)
               else None))"

text \<open>Removing a file, or a directory nothing is in.\<close>

definition os_remove :: "Fs \<Rightarrow> string \<Rightarrow> Fs option" where
  "os_remove fs p =
     (let q = os_place fs p
      in if p = '''' \<or> fs_denied fs q then None
         else case gm_get (fs_nodes fs) q of
           None \<Rightarrow> None
         | Some n \<Rightarrow> if nd_dir n \<and> list_ex (\<lambda>k. has_prefix k (q @ ''/'')) (gm_keys (fs_nodes fs)) then None
             else Some (fs\<lparr>fs_nodes := gm_del (fs_nodes fs) q\<rparr>))"

text \<open>Making a directory and those above it, from the root down; what was made before a failure
  stays.\<close>

fun mkdirs :: "string list \<Rightarrow> 32 word \<Rightarrow> Fs \<Rightarrow> bool \<times> Fs" where
  "mkdirs [] mode fs = (True, fs)"
| "mkdirs (q # qs) mode fs =
     (case gm_get (fs_nodes fs) q of
        Some n \<Rightarrow> if nd_dir n then mkdirs qs mode fs else (False, fs)
      | None \<Rightarrow> if fs_denied fs q then (False, fs)
          else mkdirs qs mode (put_node q \<lparr>nd_dir = True, nd_content = [], nd_mode = fs_create_mode fs mode,
                 nd_mtime = fs_now fs\<rparr> fs))"

definition ancestors :: "string \<Rightarrow> string list" where
  "ancestors q = map (\<lambda>n. ''/'' @ join_with ''/'' (take n (abs_elems q))) [0..<Suc (length (abs_elems q))]"

definition os_mkdir_all :: "Fs \<Rightarrow> string \<Rightarrow> 32 word \<Rightarrow> bool \<times> Fs" where
  "os_mkdir_all fs p mode = (if p = '''' then (False, fs) else mkdirs (ancestors (os_place fs p)) mode fs)"

section \<open>What the calls change\<close>

definition same_world :: "Fs \<Rightarrow> Fs \<Rightarrow> bool" where
  "same_world fs fs' = (fs_denied fs' = fs_denied fs \<and> fs_cwd fs' = fs_cwd fs \<and>
     fs_create_mode fs' = fs_create_mode fs \<and> fs_sha256 fs' = fs_sha256 fs)"

lemma same_world_refl [simp]: "same_world fs fs"
  by (simp add: same_world_def)

lemma same_world_trans: "same_world a b \<Longrightarrow> same_world b c \<Longrightarrow> same_world a c"
  by (simp add: same_world_def)

lemma same_world_place: "same_world fs fs' \<Longrightarrow> os_place fs' p = os_place fs p"
  by (simp add: same_world_def os_place_def)

lemma put_node_simps [simp]:
  "gm_get (fs_nodes (put_node q n fs)) k = (if k = q then Some n else gm_get (fs_nodes fs) k)"
  "fs_denied (put_node q n fs) = fs_denied fs" "fs_cwd (put_node q n fs) = fs_cwd fs"
  "fs_now (put_node q n fs) = fs_now fs" "same_world fs' (put_node q n fs) \<longleftrightarrow> same_world fs' fs"
  by (simp_all add: put_node_def same_world_def)

text \<open>The content of the file at a path; None if there is no file there or it cannot be read.\<close>

definition file_content :: "Fs \<Rightarrow> string \<Rightarrow> byte list option" where
  "file_content fs p = (case os_read fs p of Inl _ \<Rightarrow> None | Inr c \<Rightarrow> Some c)"

lemma file_content_iff:
  "file_content fs p = Some c \<longleftrightarrow> p \<noteq> '''' \<and> \<not> fs_denied fs (os_place fs p) \<and>
     (\<exists>n. gm_get (fs_nodes fs) (os_place fs p) = Some n \<and> \<not> nd_dir n \<and> nd_content n = c)"
  by (auto simp: file_content_def os_read_def os_stat_def split: option.split)

lemma os_read_content: "os_read fs p = Ok c \<longleftrightarrow> file_content fs p = Some c"
  by (simp add: file_content_def split: sum.split)

text \<open>Making directories adds directories, and changes nothing else.\<close>

definition dirs_added :: "Fs \<Rightarrow> Fs \<Rightarrow> bool" where
  "dirs_added fs fs' = (same_world fs fs' \<and>
     (\<forall>k n. gm_get (fs_nodes fs) k = Some n \<longrightarrow> gm_get (fs_nodes fs') k = Some n) \<and>
     (\<forall>k n. gm_get (fs_nodes fs') k = Some n \<longrightarrow> gm_get (fs_nodes fs) k = Some n \<or> nd_dir n))"

lemma dirs_added_refl [simp]: "dirs_added fs fs"
  by (simp add: dirs_added_def)

lemma dirs_added_trans: "dirs_added a b \<Longrightarrow> dirs_added b c \<Longrightarrow> dirs_added a c"
  unfolding dirs_added_def using same_world_trans by blast

lemma dirs_added_put:
  "gm_get (fs_nodes fs) q = None \<Longrightarrow> nd_dir n \<Longrightarrow> dirs_added fs (put_node q n fs)"
  by (auto simp: dirs_added_def)

lemma mkdirs_changes:
  "mkdirs qs mode fs = (ok, fs') \<Longrightarrow> dirs_added fs fs' \<and>
     (ok \<longrightarrow> (\<forall>q\<in>set qs. \<exists>n. gm_get (fs_nodes fs') q = Some n \<and> nd_dir n))"
proof (induction qs mode fs rule: mkdirs.induct)
  case (2 q qs mode fs)
  define made where "made = \<lparr>nd_dir = True, nd_content = [], nd_mode = fs_create_mode fs mode,
    nd_mtime = fs_now fs\<rparr>"
  consider (dir) n where "gm_get (fs_nodes fs) q = Some n" "nd_dir n" "mkdirs qs mode fs = (ok, fs')"
    | (stop) "fs' = fs" "\<not> ok"
    | (new) "gm_get (fs_nodes fs) q = None" "\<not> fs_denied fs q" "mkdirs qs mode (put_node q made fs) = (ok, fs')"
    using "2.prems" by (auto simp: made_def split: option.splits if_splits)
  then show ?case
  proof cases
    case dir
    then have "dirs_added fs fs' \<and> (ok \<longrightarrow> (\<forall>q\<in>set qs. \<exists>n. gm_get (fs_nodes fs') q = Some n \<and> nd_dir n))"
      by (intro "2.IH")
    with dir show ?thesis by (auto simp: dirs_added_def)
  next
    case new
    then have IH: "dirs_added (put_node q made fs) fs' \<and>
        (ok \<longrightarrow> (\<forall>q\<in>set qs. \<exists>n. gm_get (fs_nodes fs') q = Some n \<and> nd_dir n))"
      unfolding made_def by (intro "2.IH")
    moreover have "gm_get (fs_nodes fs') q = Some made" using IH by (simp add: dirs_added_def)
    ultimately show ?thesis
      using new dirs_added_put [of fs q made] dirs_added_trans by (auto simp: made_def)
  qed simp
qed simp

lemma os_mkdir_all_changes: "os_mkdir_all fs p mode = (ok, fs') \<Longrightarrow> dirs_added fs fs'"
  using mkdirs_changes by (auto simp: os_mkdir_all_def split: if_splits)

lemma dirs_added_content:
  assumes "dirs_added fs fs'"
  shows "file_content fs' p = file_content fs p"
proof -
  have w: "same_world fs fs'" using assms by (simp add: dirs_added_def)
  have "(\<exists>n. gm_get (fs_nodes fs') q = Some n \<and> \<not> nd_dir n \<and> nd_content n = c) \<longleftrightarrow>
      (\<exists>n. gm_get (fs_nodes fs) q = Some n \<and> \<not> nd_dir n \<and> nd_content n = c)" for q c
    using assms unfolding dirs_added_def by blast
  moreover have "fs_denied fs' = fs_denied fs" using w by (simp add: same_world_def)
  ultimately have "file_content fs' p = Some c \<longleftrightarrow> file_content fs p = Some c" for c
    using same_world_place [OF w] by (simp add: file_content_iff)
  then show ?thesis by (metis not_Some_eq)
qed

lemma os_write_node:
  assumes "os_write fs p content mode = Some fs'"
  obtains n where "fs' = put_node (os_place fs p) n fs" "\<not> nd_dir n" "nd_content n = content"
    "p \<noteq> ''''" "\<not> fs_denied fs (os_place fs p)"
  using assms by (auto simp: os_write_def Let_def split: option.splits if_splits)

lemma os_write_world: "os_write fs p content mode = Some fs' \<Longrightarrow> same_world fs fs'"
  by (erule os_write_node) simp

lemma os_write_other:
  "os_write fs p content mode = Some fs' \<Longrightarrow> k \<noteq> os_place fs p \<Longrightarrow>
   gm_get (fs_nodes fs') k = gm_get (fs_nodes fs) k"
  by (erule os_write_node) simp

lemma os_write_content:
  assumes "os_write fs p content mode = Some fs'"
  shows "file_content fs' q =
    (if q \<noteq> '''' \<and> os_place fs q = os_place fs p then Some content else file_content fs q)"
proof -
  from assms obtain n where n: "fs' = put_node (os_place fs p) n fs" "\<not> nd_dir n" "nd_content n = content"
    "\<not> fs_denied fs (os_place fs p)" by (rule os_write_node)
  have "file_content fs' q = Some c \<longleftrightarrow>
      (if q \<noteq> '''' \<and> os_place fs q = os_place fs p then Some content else file_content fs q) = Some c" for c
    using n same_world_place [OF os_write_world [OF assms]] by (auto simp: file_content_iff)
  then show ?thesis by (metis not_Some_eq)
qed

text \<open>A file written with the directories above it.\<close>

definition os_create :: "Fs \<Rightarrow> string \<Rightarrow> byte list \<Rightarrow> 32 word \<Rightarrow> Fs option" where
  "os_create fs p content mode =
     (case os_mkdir_all fs (Dir p) 493 of (ok, fs1) \<Rightarrow> if ok then os_write fs1 p content mode else None)"

lemma os_create_unfold:
  "os_create fs p content mode = Some fs' \<longleftrightarrow>
     (\<exists>fs1. os_mkdir_all fs (Dir p) 493 = (True, fs1) \<and> os_write fs1 p content mode = Some fs')"
  by (auto simp: os_create_def split: prod.splits)

lemma os_create_world: "os_create fs p content mode = Some fs' \<Longrightarrow> same_world fs fs'"
  using os_mkdir_all_changes os_write_world same_world_trans
  unfolding os_create_unfold dirs_added_def by blast

lemma os_create_content:
  assumes "os_create fs p content mode = Some fs'"
  shows "file_content fs' q =
    (if q \<noteq> '''' \<and> os_place fs q = os_place fs p then Some content else file_content fs q)"
proof -
  from assms obtain fs1 where fs1: "os_mkdir_all fs (Dir p) 493 = (True, fs1)"
    "os_write fs1 p content mode = Some fs'" unfolding os_create_unfold by blast
  from os_mkdir_all_changes [OF fs1(1)] have d: "dirs_added fs fs1" .
  then have "same_world fs fs1" by (simp add: dirs_added_def)
  then show ?thesis
    using os_write_content [OF fs1(2), of q] dirs_added_content [OF d] by (simp add: same_world_place)
qed

interpretation disk: file_store
  file_content "\<lambda>fs p c. os_create fs p c 420" "\<lambda>fs p. if p = '''' then None else Some (os_place fs p)"
proof unfold_locales
  fix fs p c fs' q
  assume c: "os_create fs p c 420 = Some fs'"
  then have "p \<noteq> ''''" by (auto simp: os_create_unfold os_write_def)
  with os_create_content [OF c] show "file_content fs' q =
      (if (if q = '''' then None else Some (os_place fs q)) = (if p = '''' then None else Some (os_place fs p))
       then Some c else file_content fs q)"
    by (auto simp: file_content_iff)
  show "(if q = '''' then None else Some (os_place fs' q)) = (if q = '''' then None else Some (os_place fs q))"
    using same_world_place [OF os_create_world [OF c]] by simp
qed

lemma os_stat_Clean: "path_is_abs p \<Longrightarrow> os_stat fs (Clean p) = os_stat fs p"
proof -
  assume "path_is_abs p"
  then have "p \<noteq> ''''" "Clean p \<noteq> ''''" "os_place fs (Clean p) = os_place fs p"
    by (simp_all add: os_place_def Abs_def Clean_Clean)
  then show ?thesis by (simp add: os_stat_def)
qed

lemma file_content_Clean: "path_is_abs p \<Longrightarrow> file_content fs (Clean p) = file_content fs p"
  by (simp add: file_content_def os_read_def os_stat_Clean)

end
