(* ===== verification/Staging.thy ===== *)
theory Staging
  imports Files
begin

text \<open>
  The staging of job data (pkg/staging/job_data_stager.go): describing files as job data, writing
  job data to files, materialising and verifying the outputs of a job, and embedding contents for
  a transfer. The prefixes an error is wrapped in are left out; \<open>NilPanic\<close> stands for the panic of
  reading through a nil pointer.
\<close>

section \<open>Messages\<close>

definition GetFile :: "JobData \<Rightarrow> FileJobData option" where
  "GetFile d = (case jd_data d of JobData_File f \<Rightarrow> f | _ \<Rightarrow> None)"

definition GetDirectory :: "JobData \<Rightarrow> DirectoryJobData option" where
  "GetDirectory d = (case jd_data d of JobData_Directory f \<Rightarrow> f | _ \<Rightarrow> None)"

definition GetReference :: "JobData \<Rightarrow> JobDataReference option" where
  "GetReference d = (case jd_data d of JobData_Reference f \<Rightarrow> f | _ \<Rightarrow> None)"

text \<open>The bytes of a file message (none when the slice is nil), and the text of its hash (empty when
  it has none).\<close>

definition content_bytes :: "FileJobData \<Rightarrow> byte list" where
  "content_bytes f = (case fjd_content f of None \<Rightarrow> [] | Some c \<Rightarrow> c)"

definition hash_text :: "FileJobData \<Rightarrow> string" where
  "hash_text f = (case fjd_content_hash f of None \<Rightarrow> '''' | Some h \<Rightarrow> hash_value h)"

datatype JobDataMode = JobDataModeReference | JobDataModeContent

datatype VerificationMode = VerificationModeSaved | VerificationModeIntegrity

record JobDataStager =
  st_work_dir :: string

definition NewJobDataStager :: "string \<Rightarrow> JobDataStager" where
  "NewJobDataStager workDir = \<lparr>st_work_dir = workDir\<rparr>"

datatype staging_error =
  AbsolutePath string
| AtIndex nat staging_error
| FileFailed string os_error
| MkdirFailed string
| WriteFailed string
| RemoveFailed string
| HashMismatch string string
| OutputNotFound string
| NotInResult
| NoDataContent
| NotAFile
| NilJobData
| NilFile
| NoContent string
| EmptyFile string
| RelFailed
| NilPanic

section \<open>Paths of job data\<close>

definition validateJobDataPath :: "JobData option \<Rightarrow> staging_error option" where
  "validateJobDataPath jobData =
     (case jobData of None \<Rightarrow> None
      | Some d \<Rightarrow>
          if (case GetReference d of None \<Rightarrow> False | Some r \<Rightarrow> path_is_abs (ref_id r))
          then Some (AbsolutePath (case GetReference d of None \<Rightarrow> '''' | Some r \<Rightarrow> ref_id r))
          else if (case GetFile d of None \<Rightarrow> False | Some f \<Rightarrow> path_is_abs (fjd_path f))
          then Some (AbsolutePath (case GetFile d of None \<Rightarrow> '''' | Some f \<Rightarrow> fjd_path f))
          else if (case GetDirectory d of None \<Rightarrow> False | Some r \<Rightarrow> path_is_abs (djd_path r))
          then Some (AbsolutePath (case GetDirectory d of None \<Rightarrow> '''' | Some r \<Rightarrow> djd_path r))
          else None)"

fun validate_from :: "nat \<Rightarrow> JobData option list \<Rightarrow> staging_error option" where
  "validate_from i [] = None"
| "validate_from i (d # ds) = (case validateJobDataPath d of
     Some e \<Rightarrow> Some (AtIndex i e) | None \<Rightarrow> validate_from (i + 1) ds)"

definition validateJobDataPathList :: "JobData option list \<Rightarrow> staging_error option" where
  "validateJobDataPathList ds = validate_from 0 ds"

definition resolveAbsPath :: "JobDataStager \<Rightarrow> string \<Rightarrow> string" where
  "resolveAbsPath s filePath = (if path_is_abs filePath then filePath else Join [st_work_dir s, filePath])"

text \<open>The result is an error only where a relative path cannot be computed; reading the current
  directory does not fail here.\<close>

definition IsWorkdirContained :: "Fs \<Rightarrow> string \<Rightarrow> string \<Rightarrow> staging_error + bool" where
  "IsWorkdirContained fs containerWorkdir jobWorkdir =
     (let containerAbs = Abs (fs_cwd fs) (Clean containerWorkdir); jobAbs = Abs (fs_cwd fs) (Clean jobWorkdir)
      in if containerAbs = jobAbs then Ok True
         else case Rel containerAbs jobAbs of
           None \<Rightarrow> Err RelFailed
         | Some rel \<Rightarrow> if rel = ''..'' \<or> (2 < length rel \<and> take 3 rel = ''../'') then Ok False else Ok True)"

section \<open>Files as job data\<close>

definition ComputeFileHash :: "Fs \<Rightarrow> string \<Rightarrow> staging_error + string" where
  "ComputeFileHash fs filePath = (case os_read fs filePath of
     Inl e \<Rightarrow> Err (FileFailed filePath e) | Inr content \<Rightarrow> Ok (fs_sha256 fs content))"

definition ComputeContentHash :: "Fs \<Rightarrow> byte list \<Rightarrow> string" where
  "ComputeContentHash fs content = fs_sha256 fs content"

definition verifyFileHashOnDisk :: "Fs \<Rightarrow> string \<Rightarrow> string \<Rightarrow> staging_error + string" where
  "verifyFileHashOnDisk fs filePath expectedHash = (case ComputeFileHash fs filePath of
     Inl e \<Rightarrow> Err e
   | Inr computedHash \<Rightarrow>
       if expectedHash \<noteq> '''' \<and> computedHash \<noteq> expectedHash then Err (HashMismatch expectedHash computedHash)
       else Ok computedHash)"

definition createFileJobDataProto :: "string \<Rightarrow> Node \<Rightarrow> string \<Rightarrow> byte list option \<Rightarrow> JobData" where
  "createFileJobDataProto filePath fileInfo contentHash content =
     \<lparr>jd_id = contentHash, jd_type = DATA_TYPE_FILE,
      jd_data = JobData_File (Some
        \<lparr>fjd_path = filePath, fjd_mode = nd_mode fileInfo, fjd_content = content,
         fjd_content_hash = Some \<lparr>hash_algorithm = HASH_ALGORITHM_SHA256, hash_value = contentHash\<rparr>,
         fjd_is_symlink = False, fjd_symlink_target = ''''\<rparr>),
      jd_created_at = Some (nd_mtime fileInfo div 10 ^ 6)\<rparr>"

definition CreateJobDataForFile ::
  "Fs \<Rightarrow> JobDataStager \<Rightarrow> string \<Rightarrow> JobDataMode \<Rightarrow> staging_error + JobData" where
  "CreateJobDataForFile fs s filePath mode =
     (let absPath = resolveAbsPath s filePath
      in case os_stat fs absPath of
        Inl e \<Rightarrow> Err (FileFailed absPath e)
      | Inr fileInfo \<Rightarrow> (case ComputeFileHash fs absPath of
          Inl e \<Rightarrow> Err e
        | Inr hashStr \<Rightarrow>
            (let storagePath = (if path_is_abs absPath
                   then (case Rel (st_work_dir s) absPath of Some r \<Rightarrow> r | None \<Rightarrow> filePath) else filePath)
             in if mode = JobDataModeContent
                then (case os_read fs absPath of
                        Inl e \<Rightarrow> Err (FileFailed absPath e)
                      | Inr content \<Rightarrow> Ok (createFileJobDataProto storagePath fileInfo hashStr (Some content)))
                else Ok (createFileJobDataProto storagePath fileInfo hashStr None))))"

fun CreateJobDataListForFiles ::
  "Fs \<Rightarrow> JobDataStager \<Rightarrow> string list \<Rightarrow> JobDataMode \<Rightarrow> staging_error + JobData option list" where
  "CreateJobDataListForFiles fs s [] mode = Ok []"
| "CreateJobDataListForFiles fs s (p # ps) mode = (case CreateJobDataForFile fs s p mode of
     Inl e \<Rightarrow> Err e
   | Inr d \<Rightarrow> (case CreateJobDataListForFiles fs s ps mode of
       Inl e \<Rightarrow> Err e | Inr ds \<Rightarrow> Ok (Some d # ds)))"

section \<open>Materialising the outputs of a job\<close>

definition file_of :: "JobData option \<Rightarrow> FileJobData option" where
  "file_of d = (case d of None \<Rightarrow> None | Some d \<Rightarrow> GetFile d)"

definition expected_files :: "Job \<Rightarrow> FileJobData list" where
  "expected_files job = List.map_filter file_of (job_outputs job)"

definition result_files :: "JobResult option \<Rightarrow> FileJobData list" where
  "result_files r = (case r of None \<Rightarrow> [] | Some r \<Rightarrow> List.map_filter file_of (jr_outputs r))"

definition output_location :: "string \<Rightarrow> string \<Rightarrow> string" where
  "output_location dir outputPath = (if path_is_abs outputPath then outputPath else Join [dir, outputPath])"

text \<open>One output: the file to process is written when it has content, and only verified when not.\<close>

definition materialize_file ::
  "string \<Rightarrow> string \<Rightarrow> FileJobData \<Rightarrow> Fs \<Rightarrow> (staging_error + JobData) \<times> Fs" where
  "materialize_file dir outputPath f fs =
     (let absPath = output_location dir outputPath; content = content_bytes f
      in if content \<noteq> [] then
           (case os_mkdir_all fs (Dir absPath) 493 of (ok, fs1) \<Rightarrow>
              if \<not> ok then (Err (MkdirFailed outputPath), fs1)
              else case os_write fs1 absPath content (fjd_mode f) of
                None \<Rightarrow> (Err (WriteFailed outputPath), fs1)
              | Some fs2 \<Rightarrow>
                  (let computedHash = ComputeContentHash fs2 content
                   in if hash_text f \<noteq> '''' \<and> computedHash \<noteq> hash_text f
                      then (Err (HashMismatch (hash_text f) computedHash), fs2)
                      else case os_stat fs2 absPath of
                        Inl e \<Rightarrow> (Err (FileFailed outputPath e), fs2)
                      | Inr fi \<Rightarrow> (Ok (createFileJobDataProto outputPath fi computedHash None), fs2)))
         else
           (case os_stat fs absPath of
              Inl e \<Rightarrow> (Err (OutputNotFound outputPath), fs)
            | Inr fi \<Rightarrow> (case verifyFileHashOnDisk fs absPath (hash_text f) of
                Inl e \<Rightarrow> (Err e, fs)
              | Inr hashStr \<Rightarrow> (Ok (createFileJobDataProto outputPath fi hashStr None), fs))))"

definition process_file :: "FileJobData list \<Rightarrow> FileJobData \<Rightarrow> FileJobData" where
  "process_file results f =
     (case List.find (\<lambda>r. fjd_path r = fjd_path f) results of Some r \<Rightarrow> r | None \<Rightarrow> f)"

fun materialize_each ::
  "string \<Rightarrow> FileJobData list \<Rightarrow> FileJobData list \<Rightarrow> Fs \<Rightarrow> (staging_error + JobData option list) \<times> Fs" where
  "materialize_each dir results [] fs = (Ok [], fs)"
| "materialize_each dir results (f # fls) fs =
     (case materialize_file dir (fjd_path f) (process_file results f) fs of
        (Inl e, fs1) \<Rightarrow> (Err e, fs1)
      | (Inr d, fs1) \<Rightarrow> (case materialize_each dir results fls fs1 of
          (Inl e, fs2) \<Rightarrow> (Err e, fs2) | (Inr ds, fs2) \<Rightarrow> (Ok (Some d # ds), fs2)))"

definition materialize_dir :: "Job \<Rightarrow> string \<Rightarrow> string" where
  "materialize_dir job workDir =
     (if workDir \<noteq> '''' then workDir else if job_cwd job \<noteq> '''' then job_cwd job else ''.'')"

definition result_outputs :: "JobResult option \<Rightarrow> JobData option list" where
  "result_outputs r = (case r of None \<Rightarrow> [] | Some r \<Rightarrow> jr_outputs r)"

definition MaterializeJobOutputs ::
  "Job \<Rightarrow> JobResult option \<Rightarrow> string \<Rightarrow> Fs \<Rightarrow> (staging_error + JobData option list) \<times> Fs" where
  "MaterializeJobOutputs job jobResult workDir fs =
     (if length (job_outputs job) = 0 then (Ok [], fs)
      else case validateJobDataPathList (job_outputs job) of
        Some e \<Rightarrow> (Err e, fs)
      | None \<Rightarrow> (case validateJobDataPathList (result_outputs jobResult) of
          Some e \<Rightarrow> (Err e, fs)
        | None \<Rightarrow>
            (case materialize_each (materialize_dir job workDir) (result_files jobResult) (expected_files job) fs of
               (Inl e, fs1) \<Rightarrow> (Err e, fs1)
             | (Inr outputs, fs1) \<Rightarrow>
                 if 0 < length (result_outputs jobResult) \<and>
                    \<not> set (map fjd_path (expected_files job)) \<subseteq> set (map fjd_path (result_files jobResult))
                 then (Err NotInResult, fs1)
                 else (Ok outputs, fs1))))"

section \<open>Writing job data\<close>

text \<open>The last step of both writers: a hash, where there is one, is checked on disk.\<close>

definition check_hash :: "FileJobData \<Rightarrow> string \<Rightarrow> Fs \<Rightarrow> staging_error option \<times> Fs" where
  "check_hash f p fs =
     (if hash_text f = '''' then (None, fs)
      else case verifyFileHashOnDisk fs p (hash_text f) of Inl e \<Rightarrow> (Some e, fs) | Inr _ \<Rightarrow> (None, fs))"

text \<open>Making the directory and writing; the bytes come from the message, or from a source file that
  is read once the directory is there.\<close>

definition write_in_dir ::
  "string \<Rightarrow> (Fs \<Rightarrow> staging_error + byte list) \<Rightarrow> 32 word \<Rightarrow> Fs \<Rightarrow> staging_error option \<times> Fs" where
  "write_in_dir p content mode fs =
     (case os_mkdir_all fs (Dir p) 493 of (ok, fs1) \<Rightarrow>
        if \<not> ok then (Some (MkdirFailed (Dir p)), fs1)
        else case content fs1 of
          Inl e \<Rightarrow> (Some e, fs1)
        | Inr c \<Rightarrow> (case os_write fs1 p c mode of None \<Rightarrow> (Some (WriteFailed p), fs1) | Some fs2 \<Rightarrow> (None, fs2)))"

definition read_source :: "string \<Rightarrow> Fs \<Rightarrow> staging_error + byte list" where
  "read_source p fs = (case os_read fs p of Inl e \<Rightarrow> Err (FileFailed p e) | Inr c \<Rightarrow> Ok c)"

definition write_job_file :: "JobDataStager \<Rightarrow> FileJobData \<Rightarrow> string \<Rightarrow> Fs \<Rightarrow> staging_error option \<times> Fs" where
  "write_job_file s f outputDir fs =
     (let outputPath = output_location outputDir (fjd_path f);
          written = (case fjd_content f of
              Some c \<Rightarrow> write_in_dir outputPath (\<lambda>_. Ok c) (fjd_mode f) fs
            | None \<Rightarrow> (let sourcePath = resolveAbsPath s (fjd_path f)
                in case os_stat fs sourcePath of
                  Inl e \<Rightarrow> (Some (FileFailed sourcePath e), fs)
                | Inr sourceInfo \<Rightarrow> write_in_dir outputPath (read_source sourcePath) (nd_mode sourceInfo) fs))
      in case os_stat fs outputPath of
           Inr _ \<Rightarrow> check_hash f outputPath fs
         | Inl OsFailed \<Rightarrow> (Some (FileFailed outputPath OsFailed), fs)
         | Inl NotExist \<Rightarrow> (case written of
             (Some e, fs1) \<Rightarrow> (Some e, fs1) | (None, fs1) \<Rightarrow> check_hash f outputPath fs1))"

definition WriteJobDataToFile ::
  "JobDataStager \<Rightarrow> JobData option \<Rightarrow> string \<Rightarrow> Fs \<Rightarrow> staging_error option \<times> Fs" where
  "WriteJobDataToFile s jobData outputDir fs =
     (case validateJobDataPath jobData of
        Some e \<Rightarrow> (Some e, fs)
      | None \<Rightarrow> (case jobData of
          None \<Rightarrow> (Some NilPanic, fs)
        | Some d \<Rightarrow> (case jd_data d of
            NoData \<Rightarrow> (Some NoDataContent, fs)
          | JobData_File None \<Rightarrow> (Some NilPanic, fs)
          | JobData_File (Some f) \<Rightarrow> write_job_file s f outputDir fs
          | _ \<Rightarrow> (Some NotAFile, fs))))"

text \<open>The variant for a job that ran in another directory: the output directory stands for the root,
  so that paths relative to the source directory keep their shape below it.\<close>

definition fakeroot_path :: "string \<Rightarrow> string \<Rightarrow> string \<Rightarrow> string" where
  "fakeroot_path outputDir sourceWorkDir p = Clean (Join [outputDir, sourceWorkDir, p])"

definition write_source_file ::
  "FileJobData \<Rightarrow> string \<Rightarrow> string \<Rightarrow> Fs \<Rightarrow> staging_error option \<times> Fs" where
  "write_source_file f outputDir sourceWorkDir fs =
     (let fullPath = fakeroot_path outputDir sourceWorkDir (fjd_path f);
          sourcePath = Clean (Join [sourceWorkDir, fjd_path f]);

          removed = (case os_stat fs fullPath of
              Inr _ \<Rightarrow> (case os_remove fs fullPath of None \<Rightarrow> Err (RemoveFailed fullPath) | Some fs1 \<Rightarrow> Ok fs1)
            | Inl NotExist \<Rightarrow> Ok fs
            | Inl OsFailed \<Rightarrow> Err (FileFailed fullPath OsFailed))
      in case removed of
           Inl e \<Rightarrow> (Some e, fs)
         | Inr fs1 \<Rightarrow>
             (case (case fjd_content f of
                Some c \<Rightarrow> write_in_dir fullPath (\<lambda>_. Ok c) (fjd_mode f) fs1
              | None \<Rightarrow> (case os_mkdir_all fs1 (Dir fullPath) 493 of (ok, fs2) \<Rightarrow>
                  if \<not> ok then (Some (MkdirFailed (Dir fullPath)), fs2)
                  else case os_stat fs2 sourcePath of
                    Inl e \<Rightarrow> (Some (FileFailed sourcePath e), fs2)
                  | Inr sourceInfo \<Rightarrow> write_in_dir fullPath (read_source sourcePath) (nd_mode sourceInfo) fs2)) of
                (Some e, fs3) \<Rightarrow> (Some e, fs3)
              | (None, fs3) \<Rightarrow> check_hash f fullPath fs3))"

definition WriteJobDataToFileWithSourceDir ::
  "JobData option \<Rightarrow> string \<Rightarrow> string \<Rightarrow> Fs \<Rightarrow> staging_error option \<times> Fs" where
  "WriteJobDataToFileWithSourceDir jobData outputDir sourceWorkDir fs =
     (case validateJobDataPath jobData of
        Some e \<Rightarrow> (Some e, fs)
      | None \<Rightarrow> (case jobData of
          None \<Rightarrow> (Some NilPanic, fs)
        | Some d \<Rightarrow> (case jd_data d of
            NoData \<Rightarrow> (Some NoDataContent, fs)
          | JobData_File None \<Rightarrow> (Some NilPanic, fs)
          | JobData_File (Some f) \<Rightarrow>
              if path_is_abs (fjd_path f) then (Some (AbsolutePath (fjd_path f)), fs)
              else write_source_file f outputDir sourceWorkDir fs
          | _ \<Rightarrow> (None, fs))))"

fun write_each ::
  "(JobData option \<Rightarrow> Fs \<Rightarrow> staging_error option \<times> Fs) \<Rightarrow> JobData option list \<Rightarrow> Fs
    \<Rightarrow> staging_error option \<times> Fs" where
  "write_each wr [] fs = (None, fs)"
| "write_each wr (d # ds) fs = (case wr d fs of
     (Some e, fs1) \<Rightarrow> (Some e, fs1) | (None, fs1) \<Rightarrow> write_each wr ds fs1)"

definition WriteJobDataListToFiles ::
  "JobDataStager \<Rightarrow> JobData option list \<Rightarrow> string \<Rightarrow> Fs \<Rightarrow> staging_error option \<times> Fs" where
  "WriteJobDataListToFiles s jobDataList outputDir fs =
     (case validateJobDataPathList jobDataList of
        Some e \<Rightarrow> (Some e, fs)
      | None \<Rightarrow> write_each (\<lambda>d. WriteJobDataToFile s d outputDir) jobDataList fs)"

definition WriteJobDataListToFilesWithSourceDir ::
  "JobData option list \<Rightarrow> string \<Rightarrow> string \<Rightarrow> Fs \<Rightarrow> staging_error option \<times> Fs" where
  "WriteJobDataListToFilesWithSourceDir jobDataList outputDir sourceWorkDir fs =
     (case validateJobDataPathList jobDataList of
        Some e \<Rightarrow> (Some e, fs)
      | None \<Rightarrow> write_each (\<lambda>d. WriteJobDataToFileWithSourceDir d outputDir sourceWorkDir) jobDataList fs)"

section \<open>Verifying job data\<close>

definition VerifyFileJobDataOnDisk :: "Fs \<Rightarrow> FileJobData option \<Rightarrow> string \<Rightarrow> staging_error option" where
  "VerifyFileJobDataOnDisk fs fileData filePath =
     (case fileData of
        None \<Rightarrow> Some NilFile
      | Some f \<Rightarrow> (case os_stat fs filePath of
          Inl e \<Rightarrow> Some (FileFailed (fjd_path f) e)
        | Inr _ \<Rightarrow> (case verifyFileHashOnDisk fs filePath (hash_text f) of Inl e \<Rightarrow> Some e | Inr _ \<Rightarrow> None)))"

definition VerifyFileJobDataContent :: "Fs \<Rightarrow> FileJobData option \<Rightarrow> staging_error option" where
  "VerifyFileJobDataContent fs fileData =
     (case fileData of
        None \<Rightarrow> Some NilFile
      | Some f \<Rightarrow>
          if content_bytes f = [] then Some (NoContent (fjd_path f))
          else (let contentHash = ComputeContentHash fs (content_bytes f)
                in if hash_text f \<noteq> '''' \<and> contentHash \<noteq> hash_text f
                   then Some (HashMismatch (hash_text f) contentHash) else None))"

definition verifyFileJobData ::
  "Fs \<Rightarrow> FileJobData \<Rightarrow> string \<Rightarrow> VerificationMode \<Rightarrow> staging_error option" where
  "verifyFileJobData fs f workDir mode =
     (let filePath = (if \<not> path_is_abs (fjd_path f) \<and> workDir \<noteq> '''' then Join [workDir, fjd_path f] else fjd_path f)
      in case mode of
        VerificationModeSaved \<Rightarrow>
          (case VerifyFileJobDataOnDisk fs (Some f) filePath of
             Some e \<Rightarrow> Some e
           | None \<Rightarrow> (case os_stat fs filePath of
               Inl e \<Rightarrow> Some (FileFailed (fjd_path f) e)
             | Inr fileInfo \<Rightarrow> if length (nd_content fileInfo) = 0 then Some (EmptyFile (fjd_path f)) else None))
      | VerificationModeIntegrity \<Rightarrow>
          if content_bytes f \<noteq> [] then VerifyFileJobDataContent fs (Some f)
          else VerifyFileJobDataOnDisk fs (Some f) filePath)"

definition VerifyJobData ::
  "Fs \<Rightarrow> JobData option \<Rightarrow> string \<Rightarrow> VerificationMode \<Rightarrow> staging_error option" where
  "VerifyJobData fs jobData workDir mode =
     (case jobData of
        None \<Rightarrow> Some NilJobData
      | Some d \<Rightarrow> (case jd_data d of
          NoData \<Rightarrow> Some NoDataContent
        | JobData_File None \<Rightarrow> Some NilFile
        | JobData_File (Some f) \<Rightarrow> verifyFileJobData fs f workDir mode
        | _ \<Rightarrow> None))"

fun verify_from ::
  "Fs \<Rightarrow> nat \<Rightarrow> JobData option list \<Rightarrow> string \<Rightarrow> VerificationMode \<Rightarrow> staging_error option" where
  "verify_from fs i [] workDir mode = None"
| "verify_from fs i (d # ds) workDir mode = (case VerifyJobData fs d workDir mode of
     Some e \<Rightarrow> Some (AtIndex i e) | None \<Rightarrow> verify_from fs (i + 1) ds workDir mode)"

definition VerifyJobDataList ::
  "Fs \<Rightarrow> JobData option list \<Rightarrow> string \<Rightarrow> VerificationMode \<Rightarrow> staging_error option" where
  "VerifyJobDataList fs jobDataList workDir mode = verify_from fs 0 jobDataList workDir mode"

definition VerifyJobResultOutputs ::
  "Fs \<Rightarrow> JobResult option \<Rightarrow> string \<Rightarrow> VerificationMode \<Rightarrow> staging_error option" where
  "VerifyJobResultOutputs fs jobResult workDir mode =
     (case jobResult of None \<Rightarrow> Some NilJobData
      | Some r \<Rightarrow> if length (jr_outputs r) = 0 then None else VerifyJobDataList fs (jr_outputs r) workDir mode)"

definition VerifyJobInputs :: "Fs \<Rightarrow> Job option \<Rightarrow> VerificationMode \<Rightarrow> staging_error option" where
  "VerifyJobInputs fs job mode =
     (case job of None \<Rightarrow> Some NilJobData
      | Some j \<Rightarrow> if length (job_inputs j) = 0 then None
          else VerifyJobDataList fs (job_inputs j) (if job_cwd j = '''' then ''.'' else job_cwd j) mode)"

section \<open>Embedding contents\<close>

definition EmbedJobData :: "Fs \<Rightarrow> JobDataStager \<Rightarrow> JobData option \<Rightarrow> staging_error + JobData" where
  "EmbedJobData fs s jobData =
     (case jobData of
        None \<Rightarrow> Err NilJobData
      | Some d \<Rightarrow> (case validateJobDataPath (Some d) of
          Some e \<Rightarrow> Err e
        | None \<Rightarrow> (case GetReference d of
            Some ref \<Rightarrow>
              (let absPath = resolveAbsPath s (ref_id ref)
               in case os_read fs absPath of
                 Inl e \<Rightarrow> Err (FileFailed absPath e)
               | Inr content \<Rightarrow> (case os_stat fs absPath of
                   Inl e \<Rightarrow> Err (FileFailed absPath e)
                 | Inr fileInfo \<Rightarrow> Ok
                     \<lparr>jd_id = jd_id d, jd_type = DATA_TYPE_FILE,
                      jd_data = JobData_File (Some
                        \<lparr>fjd_path = ref_id ref, fjd_mode = nd_mode fileInfo, fjd_content = Some content,
                         fjd_content_hash = Some \<lparr>hash_algorithm = HASH_ALGORITHM_UNSPECIFIED,
                           hash_value = ComputeContentHash fs content\<rparr>,
                         fjd_is_symlink = False, fjd_symlink_target = ''''\<rparr>),
                      jd_created_at = None\<rparr>))
          | None \<Rightarrow> (case GetFile d of
              Some f \<Rightarrow>
                if length (content_bytes f) = 0 then
                  (let absPath = resolveAbsPath s (fjd_path f)
                   in case os_read fs absPath of
                     Inl e \<Rightarrow> Err (FileFailed absPath e)
                   | Inr content \<Rightarrow> Ok
                       \<lparr>jd_id = jd_id d, jd_type = jd_type d,
                        jd_data = JobData_File (Some (f\<lparr>fjd_content := Some content\<rparr>)),
                        jd_created_at = None\<rparr>)
                else Ok d
            | None \<Rightarrow> Ok d))))"

fun embed_each :: "Fs \<Rightarrow> JobDataStager \<Rightarrow> JobData option list \<Rightarrow> staging_error + JobData option list" where
  "embed_each fs s [] = Ok []"
| "embed_each fs s (None # ds) = (case embed_each fs s ds of Inl e \<Rightarrow> Err e | Inr es \<Rightarrow> Ok (None # es))"
| "embed_each fs s (Some d # ds) = (case EmbedJobData fs s (Some d) of
     Inl e \<Rightarrow> Err e
   | Inr d' \<Rightarrow> (case embed_each fs s ds of Inl e \<Rightarrow> Err e | Inr es \<Rightarrow> Ok (Some d' # es)))"

definition EmbedJobDataList ::
  "Fs \<Rightarrow> JobDataStager \<Rightarrow> JobData option list \<Rightarrow> staging_error + JobData option list" where
  "EmbedJobDataList fs s jobDataList =
     (if length jobDataList = 0 then Ok jobDataList
      else case validateJobDataPathList jobDataList of
        Some e \<Rightarrow> Err e | None \<Rightarrow> embed_each fs s jobDataList)"

section \<open>Containment of directories\<close>

lemma slash_elems: "take 3 s = ''../'' \<Longrightarrow> \<exists>es. path_elems s = ''..'' # es"
proof -
  assume "take 3 s = ''../''"
  then have "s = ''..'' @ CHR ''/'' # drop 3 s" by (metis append.simps append_take_drop_id)
  then have "path_elems s = path_elems ''..'' @ path_elems (drop 3 s)" by (metis path_elems_slash)
  then show ?thesis by (simp add: path_elems_def)
qed

lemma join_climbs:
  assumes "es \<noteq> []" and "\<forall>e\<in>set es. CHR ''/'' \<notin> set e"
  shows "(join_with ''/'' es = ''..'' \<or> (2 < length (join_with ''/'' es) \<and> take 3 (join_with ''/'' es) = ''../'')) \<longleftrightarrow>
    hd es = ''..''"
proof -
  note elems = path_elems_join [OF assms]
  have "hd es = ''..''" if "join_with ''/'' es = ''..''"
    using elems unfolding that by (auto simp: path_elems_def)
  moreover have "hd es = ''..''" if "take 3 (join_with ''/'' es) = ''../''"
    using slash_elems [OF that] elems by auto
  moreover have "join_with ''/'' es = ''..'' \<or>
      (2 < length (join_with ''/'' es) \<and> take 3 (join_with ''/'' es) = ''../'')" if "hd es = ''..''"
    using that assms(1) by (cases es; cases "tl es") auto
  ultimately show ?thesis by blast
qed

lemma Rel_climbs:
  assumes "path_is_abs base"
  shows "\<exists>r. Rel base targ = Some r \<and>
    (r = ''..'' \<or> (2 < length r \<and> take 3 r = ''../'')) = (\<not> prefix (abs_elems base) (abs_elems targ))"
proof -
  from Rel_elems [OF assms, of targ] obtain c bs ts where b: "abs_elems base = c @ bs" and t: "abs_elems targ = c @ ts"
    and d: "bs = [] \<or> ts = [] \<or> hd bs \<noteq> hd ts"
    and r: "Rel base targ = Some (if bs = [] \<and> ts = [] then ''.''
       else join_with ''/'' (replicate (length bs) ''..'' @ ts))" (is "_ = Some ?r") by blast
  have ts: "proper ts" using abs_elems_proper [of targ] by (simp add: t)
  have pre: "prefix (abs_elems base) (abs_elems targ) \<longleftrightarrow> bs = []"
    using d by (auto simp: b t prefix_def) (metis hd_append2 list.sel(1) neq_Nil_conv)
  show ?thesis
  proof (cases "bs = [] \<and> ts = []")
    case True
    then show ?thesis using r pre by simp
  next
    case False
    then have ne: "replicate (length bs) ''..'' @ ts \<noteq> []" by auto
    have notin: "\<forall>e\<in>set (replicate (length bs) ''..'' @ ts). CHR ''/'' \<notin> set e"
      using ts proper_notin by auto
    have "hd (replicate (length bs) ''..'' @ ts) = ''..'' \<longleftrightarrow> bs \<noteq> []"
      using False ts by (cases bs; cases ts) (auto simp: proper_elem_def)
    with join_climbs [OF ne notin] r pre False show ?thesis by simp
  qed
qed

text \<open>The containment check accepts a working directory exactly when the elements of the container,
  resolved and cleaned, are an initial part of those of the directory.\<close>
theorem IsWorkdirContained_spec:
  assumes "path_is_abs (fs_cwd fs)"
  shows "IsWorkdirContained fs container job =
    Ok (prefix (abs_elems (os_place fs (Clean container))) (abs_elems (os_place fs (Clean job))))"
proof -
  let ?c = "os_place fs (Clean container)" and ?j = "os_place fs (Clean job)"
  have "path_is_abs ?c" using assms by (simp add: os_place_def Abs_def)
  from Rel_climbs [OF this, of ?j] obtain r where "Rel ?c ?j = Some r"
    "(r = ''..'' \<or> (2 < length r \<and> take 3 r = ''../'')) = (\<not> prefix (abs_elems ?c) (abs_elems ?j))" by blast
  then show ?thesis by (auto simp: IsWorkdirContained_def Let_def os_place_def)
qed

definition empty_fs :: Fs where
  "empty_fs = \<lparr>fs_nodes = [(''/'', \<lparr>nd_dir = True, nd_content = [], nd_mode = 493, nd_mtime = 0\<rparr>)],
     fs_denied = (\<lambda>_. False), fs_cwd = ''/'', fs_now = 0, fs_create_mode = id,
     fs_sha256 = (\<lambda>c. ''h'' @ map (\<lambda>b. char_of (unat b)) c)\<rparr>"

theorem IsWorkdirContained_spec_witness:
  "IsWorkdirContained empty_fs ''/a/b'' ''/a/./b/../b/c'' = Ok True \<and>
   IsWorkdirContained empty_fs ''/a/b'' ''/a/bc'' = Ok False"
  using IsWorkdirContained_spec [of empty_fs "''/a/b''" "''/a/./b/../b/c''"]
    IsWorkdirContained_spec [of empty_fs "''/a/b''" "''/a/bc''"]
  by (simp add: empty_fs_def os_place_def Abs_def Clean_abs path_is_abs_def abs_elems_def path_elems_def
      has_prefix_def)

section \<open>What writing job data does\<close>

lemma verify_hash_Ok:
  "verifyFileHashOnDisk fs p h = Ok h' \<longleftrightarrow>
     (\<exists>c. file_content fs p = Some c \<and> h' = fs_sha256 fs c \<and> (h \<noteq> '''' \<longrightarrow> fs_sha256 fs c = h))"
  by (auto simp: verifyFileHashOnDisk_def ComputeFileHash_def file_content_def split: sum.splits)

lemma check_hash_Ok:
  "check_hash f p fs = (None, fs') \<longleftrightarrow> fs' = fs \<and>
     (hash_text f \<noteq> '''' \<longrightarrow> (\<exists>c. file_content fs p = Some c \<and> fs_sha256 fs c = hash_text f))"
proof (cases "verifyFileHashOnDisk fs p (hash_text f)")
  case (Inl e)
  then have "\<nexists>c. file_content fs p = Some c \<and> (hash_text f \<noteq> '''' \<longrightarrow> fs_sha256 fs c = hash_text f)"
    using verify_hash_Ok [of fs p "hash_text f"] by auto
  with Inl show ?thesis by (auto simp: check_hash_def)
next
  case (Inr h)
  with verify_hash_Ok [of fs p "hash_text f" h] show ?thesis by (auto simp: check_hash_def)
qed

lemma check_hash_fs: "snd (check_hash f p fs) = fs"
  by (simp add: check_hash_def split: sum.split)

text \<open>Only the file at the path changes; directories above it may be made.\<close>

definition only_file :: "string \<Rightarrow> Fs \<Rightarrow> Fs \<Rightarrow> bool" where
  "only_file p fs fs' = (same_world fs fs' \<and>
     (\<forall>q. os_place fs q \<noteq> os_place fs p \<longrightarrow> file_content fs' q = file_content fs q))"

lemma only_file_refl [simp]: "only_file p fs fs"
  by (simp add: only_file_def)

lemma only_file_trans: "only_file p a b \<Longrightarrow> only_file p b c \<Longrightarrow> only_file p a c"
  by (auto simp: only_file_def same_world_place intro: same_world_trans)

lemma only_file_mkdir: "os_mkdir_all fs d mode = (ok, fs') \<Longrightarrow> only_file p fs fs'"
  using os_mkdir_all_changes dirs_added_content unfolding only_file_def dirs_added_def by metis

lemma only_file_write: "os_write fs p c mode = Some fs' \<Longrightarrow> only_file p fs fs'"
  using os_write_world os_write_content by (auto simp: only_file_def)

lemma write_in_dir_only: "write_in_dir p content mode fs = (e, fs') \<Longrightarrow> only_file p fs fs'"
  by (auto simp: write_in_dir_def split: prod.splits if_splits sum.splits option.splits
      dest: only_file_mkdir only_file_write intro: only_file_trans)

lemma write_in_dir_Ok:
  assumes "write_in_dir p content mode fs = (None, fs')"
  obtains fs1 c where "dirs_added fs fs1" "content fs1 = Ok c" "file_content fs' p = Some c"
proof -
  from assms obtain fs1 c where 1: "os_mkdir_all fs (Dir p) 493 = (True, fs1)" "content fs1 = Ok c"
    "os_write fs1 p c mode = Some fs'"
    by (auto simp: write_in_dir_def split: prod.splits if_splits sum.splits option.splits)
  have "p \<noteq> ''''" using 1(3) by (auto simp: os_write_def)
  then have "file_content fs' p = Some c" using os_write_content [OF 1(3), of p] by simp
  with 1 os_mkdir_all_changes that show thesis by blast
qed

lemma write_job_file_only:
  "write_job_file s f outputDir fs = (e, fs') \<Longrightarrow> only_file (output_location outputDir (fjd_path f)) fs fs'"
proof -
  assume w: "write_job_file s f outputDir fs = (e, fs')"
  let ?p = "output_location outputDir (fjd_path f)"
  have chk: "check_hash f ?p fs1 = (e', fs2) \<Longrightarrow> fs2 = fs1" for e' fs1 fs2
    using check_hash_fs [of f ?p fs1] by simp
  show ?thesis
    using w unfolding write_job_file_def Let_def
    by (auto split: sum.splits os_error.splits option.splits prod.splits dest!: chk write_in_dir_only)
qed

lemma WriteJobDataToFile_Ok:
  assumes "WriteJobDataToFile s jobData outputDir fs = (None, fs')"
  obtains d f where "jobData = Some d" "jd_data d = JobData_File (Some f)" "\<not> path_is_abs (fjd_path f)"
    "write_job_file s f outputDir fs = (None, fs')"
  using assms
  by (auto simp: WriteJobDataToFile_def validateJobDataPath_def GetFile_def
      split: option.splits JobDataPayload.splits if_splits)

text \<open>A write of data with content to a place where nothing is puts that content there.\<close>
lemma write_job_file_content:
  assumes "write_job_file s f outputDir fs = (None, fs')" and "fjd_content f = Some c"
    and "os_stat fs (output_location outputDir (fjd_path f)) = Err NotExist"
  shows "file_content fs' (output_location outputDir (fjd_path f)) = Some c"
proof -
  from assms obtain fs1 where w: "write_in_dir (output_location outputDir (fjd_path f)) (\<lambda>_. Ok c) (fjd_mode f) fs =
      (None, fs1)" "check_hash f (output_location outputDir (fjd_path f)) fs1 = (None, fs')"
    by (auto simp: write_job_file_def Let_def split: prod.splits option.splits)
  from w(2) have "fs' = fs1" by (simp add: check_hash_Ok)
  with w(1) show ?thesis by (auto elim: write_in_dir_Ok)
qed

lemma write_job_file_hash:
  assumes "write_job_file s f outputDir fs = (None, fs')" and "hash_text f \<noteq> ''''"
  shows "\<exists>c. file_content fs' (output_location outputDir (fjd_path f)) = Some c \<and> fs_sha256 fs' c = hash_text f"
  using assms
  by (auto simp: write_job_file_def Let_def check_hash_Ok split: sum.splits os_error.splits option.splits prod.splits)

text \<open>Job data written with a hash has that hash: when the write reports success, the file at the
  output path has a content with the digest the data names, whether it was written now, copied
  from the source or there before; and whatever it reports, no other file has changed.\<close>
theorem write_verified:
  assumes "WriteJobDataToFile s (Some d) outputDir fs = (e, fs')" and "GetFile d = Some f"
  shows "(e = None \<and> hash_text f \<noteq> '''' \<longrightarrow>
      (\<exists>c. file_content fs' (Join [outputDir, fjd_path f]) = Some c \<and> fs_sha256 fs c = hash_text f)) \<and>
    (\<forall>q. os_place fs q \<noteq> os_place fs (Join [outputDir, fjd_path f]) \<longrightarrow> file_content fs' q = file_content fs q)"
proof (cases "path_is_abs (fjd_path f)")
  case True
  then have "e = Some (AbsolutePath (fjd_path f)) \<and> fs' = fs"
    using assms by (auto simp: WriteJobDataToFile_def validateJobDataPath_def GetFile_def GetReference_def
        split: JobDataPayload.splits)
  then show ?thesis by simp
next
  case False
  then have loc: "output_location outputDir (fjd_path f) = Join [outputDir, fjd_path f]"
    by (simp add: output_location_def)
  have "jd_data d = JobData_File (Some f)"
    using assms(2) by (auto simp: GetFile_def split: JobDataPayload.splits)
  with False assms(1) have w: "write_job_file s f outputDir fs = (e, fs')"
    by (simp add: WriteJobDataToFile_def validateJobDataPath_def GetFile_def GetReference_def GetDirectory_def)
  from write_job_file_only [OF w] have o: "only_file (Join [outputDir, fjd_path f]) fs fs'" unfolding loc .
  then have "fs_sha256 fs' = fs_sha256 fs" by (simp add: only_file_def same_world_def)
  with o write_job_file_hash [of s f outputDir fs fs'] w show ?thesis
    unfolding loc only_file_def by auto
qed

lemma sample_hash: "fs_sha256 empty_fs c = fs_sha256 empty_fs [b] \<longleftrightarrow> c = [b]"
proof -
  have "unat z mod 256 = unat (b :: byte) mod 256 \<longleftrightarrow> z = b" for z
    using unsigned_less [of z, where 'a = nat] unsigned_less [of b, where 'a = nat]
    by (simp add: word_unat_eq_iff)
  then have inj: "(char_of (unat z) :: char) = char_of (unat b) \<longleftrightarrow> z = b" for z
    by (metis of_char_of)
  show ?thesis
    by (cases c) (simp_all only: empty_fs_def Fs.select_convs append_Cons append_Nil list.map inj
      list.inject list.distinct map_is_Nil_conv simp_thms)
qed

definition sample_file :: "string \<Rightarrow> byte list \<Rightarrow> JobData" where
  "sample_file p c = \<lparr>jd_id = '''', jd_type = DATA_TYPE_FILE, jd_data = JobData_File (Some
     \<lparr>fjd_path = p, fjd_mode = 420, fjd_content = Some c, fjd_content_hash = Some
       \<lparr>hash_algorithm = HASH_ALGORITHM_SHA256, hash_value = fs_sha256 empty_fs c\<rparr>,
      fjd_is_symlink = False, fjd_symlink_target = ''''\<rparr>), jd_created_at = None\<rparr>"

theorem write_verified_witness:
  "\<exists>fs'. WriteJobDataToFile (NewJobDataStager ''/'') (Some (sample_file ''a/b'' [7])) ''/x'' empty_fs = (None, fs') \<and>
     file_content fs' ''/x/a/b'' = Some [7]"
proof -
  let ?w = "WriteJobDataToFile (NewJobDataStager ''/'') (Some (sample_file ''a/b'' [7])) ''/x'' empty_fs"
  have "fst ?w = None" by code_simp
  then obtain fs' where w: "?w = (None, fs')" by (cases ?w) simp
  obtain f where f: "GetFile (sample_file ''a/b'' [7]) = Some f" "fjd_path f = ''a/b''"
    "hash_text f = fs_sha256 empty_fs [7]"
    by (simp add: sample_file_def GetFile_def hash_text_def)
  have "Join [''/x'', ''a/b''] = ''/x/a/b''"
    by (simp add: Join_def Clean_def path_elems_def path_is_abs_def has_prefix_def)
  with write_verified [OF w f(1)] f obtain c where "file_content fs' ''/x/a/b'' = Some c"
    "fs_sha256 empty_fs c = fs_sha256 empty_fs [7]" by (auto simp: empty_fs_def)
  moreover from this(2) have "c = [7]" by (simp only: sample_hash)
  ultimately show ?thesis using w by blast
qed

section \<open>What the check of relative paths excludes\<close>

lemma Rel_relative:
  assumes "path_is_abs base" and "Rel base targ = Some r"
  shows "\<not> path_is_abs r"
proof
  assume "path_is_abs r"
  then obtain r' where r': "r = CHR ''/'' # r'" by (auto simp: path_is_abs_def has_prefix_iff prefix_def)
  obtain c bs ts where "abs_elems base = c @ bs" and t: "abs_elems targ = c @ ts"
    and "bs = [] \<or> ts = [] \<or> hd bs \<noteq> hd ts"
    and r: "Rel base targ = Some (if bs = [] \<and> ts = [] then ''.''
       else join_with ''/'' (replicate (length bs) ''..'' @ ts))" by (rule Rel_elems [OF assms(1)])
  have ts: "proper ts" using abs_elems_proper [of targ] by (simp add: t)
  show False
  proof (cases "bs = [] \<and> ts = []")
    case True
    with r r' assms(2) show False by simp
  next
    case False
    have "r = join_with ''/'' (replicate (length bs) ''..'' @ ts)" using False r assms(2) by simp
    moreover have "replicate (length bs) ''..'' @ ts \<noteq> []" using False by simp
    moreover have "\<forall>p\<in>set (replicate (length bs) ''..'' @ ts). CHR ''/'' \<notin> set p"
      using ts proper_notin by auto
    ultimately have "path_elems r = replicate (length bs) ''..'' @ ts" using path_elems_join by metis
    then have "[] \<in> set (replicate (length bs) ''..'' @ ts)" using path_elems_abs [of r'] r' by (metis list.set_intros(1))
    with ts show False by (auto simp: list_all_iff proper_elem_def)
  qed
qed

text \<open>The check that paths are relative, which the code calls a security check, excludes no place: for
  every output directory and every absolute path there is a relative path that passes it and
  stands for that place, so that writing job data with this path writes there.\<close>
theorem relative_paths_reach_everything:
  assumes "path_is_abs outputDir" and "path_is_abs target"
  shows "\<exists>p. \<forall>d f. GetFile d = Some f \<and> fjd_path f = p \<longrightarrow> validateJobDataPath (Some d) = None \<and>
    (\<forall>s fs fs' c. fjd_content f = Some c \<and> os_stat fs target = Err NotExist \<and>
       WriteJobDataToFile s (Some d) outputDir fs = (None, fs') \<longrightarrow> file_content fs' target = Some c)"
proof -
  from Join_Rel [OF assms] obtain p where p: "Rel outputDir target = Some p" "Join [outputDir, p] = Clean target" .
  note rel = Rel_relative [OF assms(1) p(1)]
  note stat = os_stat_Clean [OF assms(2)] file_content_Clean [OF assms(2)]
  show ?thesis
  proof (intro exI [of _ p] allI impI conjI)
    fix d f assume f: "GetFile d = Some f \<and> fjd_path f = p"
    then have jd: "jd_data d = JobData_File (Some f)" by (auto simp: GetFile_def split: JobDataPayload.splits)
    with f rel show "validateJobDataPath (Some d) = None"
      by (simp add: validateJobDataPath_def GetFile_def GetReference_def GetDirectory_def)
    fix s fs fs' c
    assume w: "fjd_content f = Some c \<and> os_stat fs target = Err NotExist \<and>
       WriteJobDataToFile s (Some d) outputDir fs = (None, fs')"
    from WriteJobDataToFile_Ok w jd have "write_job_file s f outputDir fs = (None, fs')" by fastforce
    moreover have "output_location outputDir (fjd_path f) = Clean target"
      using f rel p by (simp add: output_location_def)
    ultimately show "file_content fs' target = Some c"
      using w write_job_file_content [of s f outputDir fs fs' c] by (simp add: stat)
  qed
qed

theorem relative_paths_reach_everything_witness:
  "\<exists>p. \<forall>d f. GetFile d = Some f \<and> fjd_path f = p \<longrightarrow> validateJobDataPath (Some d) = None"
  using relative_paths_reach_everything [of "''/var/jobs/1''" "''/etc/passwd''"]
  by (simp add: path_is_abs_def has_prefix_def) blast

section \<open>Creating, verifying and transferring\<close>

lemma CreateJobDataForFile_Ok:
  assumes "CreateJobDataForFile fs s p mode = Ok d"
  obtains n c stored where "os_stat fs (resolveAbsPath s p) = Ok n" "nd_content n = c" "\<not> nd_dir n"
    "file_content fs (resolveAbsPath s p) = Some c"
    "stored = (if path_is_abs (resolveAbsPath s p)
       then (case Rel (st_work_dir s) (resolveAbsPath s p) of Some r \<Rightarrow> r | None \<Rightarrow> p) else p)"
    "d = createFileJobDataProto stored n (fs_sha256 fs c) (if mode = JobDataModeContent then Some c else None)"
  using assms
  by (auto simp: CreateJobDataForFile_def ComputeFileHash_def os_read_def file_content_def Let_def
      split: sum.splits if_splits)

lemma created_data:
  assumes "CreateJobDataForFile fs s p mode = Ok d" and "path_is_abs (st_work_dir s)"
  shows "VerifyJobData fs (Some d) (st_work_dir s) VerificationModeIntegrity = None \<and>
    VerifyJobData fs (Some d) (st_work_dir s) VerificationModeSaved =
      (if file_content fs (resolveAbsPath s p) = Some [] then map_option (\<lambda>f. EmptyFile (fjd_path f)) (GetFile d)
       else None) \<and>
    validateJobDataPath (Some d) = None"
proof -
  let ?wd = "st_work_dir s" and ?abs = "resolveAbsPath s p"
  have abs: "path_is_abs ?abs" using assms(2) by (simp add: resolveAbsPath_def)
  from Join_Rel [OF assms(2) abs] obtain r where r: "Rel ?wd ?abs = Some r" "Join [?wd, r] = Clean ?abs" .
  note rel = Rel_relative [OF assms(2) r(1)]
  from CreateJobDataForFile_Ok [OF assms(1)] obtain n c stored where n: "os_stat fs ?abs = Ok n" "nd_content n = c"
    "\<not> nd_dir n" "file_content fs ?abs = Some c" and stored: "stored = (if path_is_abs ?abs
       then (case Rel ?wd ?abs of Some r \<Rightarrow> r | None \<Rightarrow> p) else p)"
    and d0: "d = createFileJobDataProto stored n (fs_sha256 fs c) (if mode = JobDataModeContent then Some c else None)"
    by blast
  have d: "d = createFileJobDataProto r n (fs_sha256 fs c) (if mode = JobDataModeContent then Some c else None)"
    unfolding d0 stored using abs r(1) by simp
  have stat: "os_stat fs (Clean ?abs) = Ok n" "file_content fs (Clean ?abs) = Some c"
    using n by (simp_all only: os_stat_Clean [OF abs] file_content_Clean [OF abs])
  define f where "f = \<lparr>fjd_path = r, fjd_mode = nd_mode n,
    fjd_content = (if mode = JobDataModeContent then Some c else None),
    fjd_content_hash = Some \<lparr>hash_algorithm = HASH_ALGORITHM_SHA256, hash_value = fs_sha256 fs c\<rparr>,
    fjd_is_symlink = False, fjd_symlink_target = ''''\<rparr>"
  have data: "jd_data d = JobData_File (Some f)" by (simp add: d f_def createFileJobDataProto_def)
  have fields: "fjd_path f = r" "hash_text f = fs_sha256 fs c"
      "content_bytes f = (if mode = JobDataModeContent then c else [])"
    by (simp_all add: f_def hash_text_def content_bytes_def)
  have "verifyFileHashOnDisk fs (Clean ?abs) (fs_sha256 fs c) = Ok (fs_sha256 fs c)"
    by (simp add: verify_hash_Ok stat)
  then have disk: "VerifyFileJobDataOnDisk fs (Some f) (Clean ?abs) = None"
    by (simp add: VerifyFileJobDataOnDisk_def stat fields)
  have "?wd \<noteq> ''''" using assms(2) by (rule path_is_abs_not_Nil)
  with rel r(2) disk stat n show ?thesis
    by (simp add: VerifyJobData_def data verifyFileJobData_def fields Let_def VerifyFileJobDataContent_def
        ComputeContentHash_def validateJobDataPath_def GetFile_def GetReference_def GetDirectory_def)
qed

text \<open>What the stager describes verifies: data made for a file, with or without its content, stays in
  the directory by its relative path and passes both modes of verification there, except that an
  empty file does not count as saved.\<close>
theorem created_data_verifies:
  assumes "CreateJobDataForFile fs s p mode = Ok d" and "path_is_abs (st_work_dir s)"
  shows "VerifyJobData fs (Some d) (st_work_dir s) VerificationModeIntegrity = None \<and>
    VerifyJobData fs (Some d) (st_work_dir s) VerificationModeSaved =
      (if file_content fs (resolveAbsPath s p) = Some [] then map_option (\<lambda>f. EmptyFile (fjd_path f)) (GetFile d)
       else None) \<and>
    validateJobDataPath (Some d) = None"
  using assms by (rule created_data)

definition sample_fs :: Fs where
  "sample_fs = put_node ''/w/e.c'' \<lparr>nd_dir = False, nd_content = [], nd_mode = 420, nd_mtime = 0\<rparr>
     (put_node ''/w/m.c'' \<lparr>nd_dir = False, nd_content = [7], nd_mode = 420, nd_mtime = 0\<rparr> empty_fs)"

theorem created_data_verifies_witness:
  "\<exists>d. CreateJobDataForFile sample_fs (NewJobDataStager ''/w'') ''e.c'' JobDataModeReference = Ok d \<and>
     VerifyJobData sample_fs (Some d) ''/w'' VerificationModeSaved \<noteq> None"
proof -
  let ?c = "CreateJobDataForFile sample_fs (NewJobDataStager ''/w'') ''e.c'' JobDataModeReference"
  have "is_ok ?c" by code_simp
  then obtain d where d: "?c = Ok d" by (cases ?c) simp_all
  have content: "file_content sample_fs (resolveAbsPath (NewJobDataStager ''/w'') ''e.c'') = Some []" by code_simp
  from CreateJobDataForFile_Ok [OF d] obtain stored n h c where "d = createFileJobDataProto stored n h c"
    by metis
  then have named: "GetFile d \<noteq> None" by (simp add: createFileJobDataProto_def GetFile_def)
  have "path_is_abs (st_work_dir (NewJobDataStager ''/w''))"
    by (simp add: NewJobDataStager_def path_is_abs_def has_prefix_def)
  from created_data_verifies [OF d this] content named d show ?thesis by (auto simp: NewJobDataStager_def)
qed

definition unloaded_path :: "JobData \<Rightarrow> string option" where
  "unloaded_path d = (case jd_data d of
     JobData_Reference (Some r) \<Rightarrow> Some (ref_id r)
   | JobData_File (Some f) \<Rightarrow> if content_bytes f = [] then Some (fjd_path f) else None
   | _ \<Rightarrow> None)"

lemma EmbedJobData_Ok:
  assumes "EmbedJobData fs s (Some d) = Ok d'" and "unloaded_path d = Some p"
  obtains f c where "jd_data d' = JobData_File (Some f)" "fjd_path f = p" "fjd_content f = Some c"
    "file_content fs (resolveAbsPath s p) = Some c" "\<not> path_is_abs p"
  using assms
  by (auto simp: EmbedJobData_def unloaded_path_def validateJobDataPath_def GetReference_def GetFile_def
      GetDirectory_def Let_def file_content_def split: option.splits JobDataPayload.splits if_splits sum.splits)


definition empty_reference :: JobData where
  "empty_reference = \<lparr>jd_id = ''1'', jd_type = DATA_TYPE_REFERENCE, jd_data = JobData_Reference (Some
     \<lparr>ref_id = ''e.c'', ref_type = DATA_TYPE_FILE, ref_hash = None, ref_peer_id = None\<rparr>), jd_created_at = None\<rparr>"


section \<open>Materialising\<close>

text \<open>What is left of an output that was materialised: its description, and the file it describes.\<close>

definition materialized :: "Fs \<Rightarrow> string \<Rightarrow> FileJobData \<Rightarrow> FileJobData \<Rightarrow> JobData option \<Rightarrow> bool" where
  "materialized fs dir f src d = (\<exists>g c. file_of d = Some g \<and> fjd_path g = fjd_path f \<and> fjd_content g = None \<and>
     file_content fs (Join [dir, fjd_path f]) = Some c \<and> hash_text g = fs_sha256 fs c \<and>
     (hash_text src \<noteq> '''' \<longrightarrow> fs_sha256 fs c = hash_text src) \<and>
     (content_bytes src \<noteq> [] \<longrightarrow> c = content_bytes src))"

lemma materialize_file_only:
  "materialize_file dir p src fs = (r, fs') \<Longrightarrow> only_file (output_location dir p) fs fs'"
  by (auto simp: materialize_file_def Let_def split: if_splits prod.splits option.splits sum.splits
      dest: only_file_mkdir only_file_write intro: only_file_trans)

lemma materialize_file_Ok:
  assumes "materialize_file dir (fjd_path f) src fs = (Ok d, fs')" and "\<not> path_is_abs (fjd_path f)"
  shows "materialized fs' dir f src (Some d)"
proof (cases "content_bytes src = []")
  case True
  with assms obtain n h where 1: "verifyFileHashOnDisk fs (Join [dir, fjd_path f]) (hash_text src) = Ok h"
      "d = createFileJobDataProto (fjd_path f) n h None" "fs' = fs"
    by (auto simp: materialize_file_def output_location_def Let_def split: sum.splits)
  with True show ?thesis
    by (simp add: materialized_def file_of_def GetFile_def createFileJobDataProto_def verify_hash_Ok)
       (auto simp: hash_text_def)
next
  case False
  let ?p = "Join [dir, fjd_path f]"
  from assms False obtain fs1 n where 1: "os_write fs1 ?p (content_bytes src) (fjd_mode src) = Some fs'"
      "hash_text src \<noteq> '''' \<longrightarrow> fs_sha256 fs' (content_bytes src) = hash_text src"
      "d = createFileJobDataProto (fjd_path f) n (fs_sha256 fs' (content_bytes src)) None"
    by (auto simp: materialize_file_def output_location_def Let_def ComputeContentHash_def
        split: if_splits prod.splits option.splits sum.splits)
  have "?p \<noteq> ''''" using 1(1) by (auto simp: os_write_def)
  then have "file_content fs' ?p = Some (content_bytes src)" using os_write_content [OF 1(1), of ?p] by simp
  with 1 show ?thesis
    by (simp add: materialized_def file_of_def GetFile_def createFileJobDataProto_def) (simp add: hash_text_def)
qed

lemma materialized_keep:
  assumes "materialized fs dir f src d" and "only_file p fs fs'"
    and "os_place fs (Join [dir, fjd_path f]) \<noteq> os_place fs p"
  shows "materialized fs' dir f src d"
proof -
  from assms(2,3) have "file_content fs' (Join [dir, fjd_path f]) = file_content fs (Join [dir, fjd_path f])"
    "fs_sha256 fs' = fs_sha256 fs" by (simp_all add: only_file_def same_world_def)
  with assms(1) show ?thesis by (simp add: materialized_def)
qed

abbreviation output_place :: "Fs \<Rightarrow> string \<Rightarrow> FileJobData \<Rightarrow> string" where
  "output_place fs dir f \<equiv> os_place fs (Join [dir, fjd_path f])"

lemma materialize_each_spec:
  assumes "materialize_each dir results fls fs = (r, fs')" and "\<forall>f\<in>set fls. \<not> path_is_abs (fjd_path f)"
  shows "same_world fs fs' \<and>
    (\<forall>q. os_place fs q \<notin> output_place fs dir ` set fls \<longrightarrow> file_content fs' q = file_content fs q) \<and>
    (\<forall>outs. r = Ok outs \<and> distinct (map (output_place fs dir) fls) \<longrightarrow>
       list_all2 (\<lambda>f d. materialized fs' dir f (process_file results f) d) fls outs)"
  using assms
proof (induction dir results fls fs arbitrary: r fs' rule: materialize_each.induct)
  case (2 dir results f fls fs)
  obtain r1 fs1 where m: "materialize_file dir (fjd_path f) (process_file results f) fs = (r1, fs1)" by fastforce
  have loc: "output_location dir (fjd_path f) = Join [dir, fjd_path f]"
    using "2.prems"(2) by (simp add: output_location_def)
  have o: "only_file (Join [dir, fjd_path f]) fs fs1" using materialize_file_only [OF m] by (simp add: loc)
  then have w: "same_world fs fs1" by (simp add: only_file_def)
  note pl = same_world_place [OF w]
  show ?case
  proof (cases r1)
    case (Inl e)
    with m "2.prems"(1) have "r = Err e" "fs' = fs1" by simp_all
    with o w show ?thesis by (auto simp: only_file_def)
  next
    case (Inr d)
    obtain r2 fs2 where e: "materialize_each dir results fls fs1 = (r2, fs2)" by fastforce
    have IH: "same_world fs1 fs2 \<and>
        (\<forall>q. os_place fs q \<notin> output_place fs dir ` set fls \<longrightarrow> file_content fs2 q = file_content fs1 q) \<and>
        (\<forall>outs. r2 = Ok outs \<and> distinct (map (output_place fs dir) fls) \<longrightarrow>
           list_all2 (\<lambda>f d. materialized fs2 dir f (process_file results f) d) fls outs)"
      using "2.IH" [OF m [symmetric] Inr e] "2.prems"(2) by (simp add: pl)
    have fs': "fs' = fs2" "r = (case r2 of Inl e \<Rightarrow> Err e | Inr ds \<Rightarrow> Ok (Some d # ds))"
      using "2.prems"(1) m Inr e by (auto split: sum.splits)
    have made: "materialized fs2 dir f (process_file results f) (Some d)"
      if "distinct (map (output_place fs dir) (f # fls))"
    proof -
      have "materialized fs1 dir f (process_file results f) (Some d)"
        using materialize_file_Ok [of dir f "process_file results f" fs d fs1] m Inr "2.prems"(2) by simp
      moreover have "file_content fs2 (Join [dir, fjd_path f]) = file_content fs1 (Join [dir, fjd_path f])"
        using IH that by simp
      moreover have "fs_sha256 fs2 = fs_sha256 fs1" using IH by (simp add: same_world_def)
      ultimately show ?thesis by (simp add: materialized_def)
    qed
    moreover have "same_world fs fs2" using IH w same_world_trans by blast
    moreover have "file_content fs2 q = file_content fs q"
      if "os_place fs q \<notin> output_place fs dir ` set (f # fls)" for q
      using that IH o by (simp add: only_file_def)
    moreover have "list_all2 (\<lambda>f d. materialized fs2 dir f (process_file results f) d) (f # fls) outs"
      if "r = Ok outs" "distinct (map (output_place fs dir) (f # fls))" for outs
    proof -
      from that(1) fs'(2) obtain ds where ds: "r2 = Ok ds" "outs = Some d # ds" by (cases r2) simp_all
      have "distinct (map (output_place fs dir) fls)" using that(2) by simp
      with IH ds(1) have "list_all2 (\<lambda>f d. materialized fs2 dir f (process_file results f) d) fls ds" by blast
      with made [OF that(2)] show ?thesis unfolding ds(2) by (intro list_all2_Cons [THEN iffD2] conjI)
    qed
    ultimately show ?thesis unfolding fs'(1) by blast
  qed
qed simp

lemma validate_from_None: "validate_from i ds = None \<longleftrightarrow> (\<forall>d\<in>set ds. validateJobDataPath d = None)"
  by (induction i ds rule: validate_from.induct) (auto split: option.splits)

lemma expected_relative:
  "validateJobDataPathList (job_outputs job) = None \<Longrightarrow> f \<in> set (expected_files job) \<Longrightarrow> \<not> path_is_abs (fjd_path f)"
proof -
  assume v: "validateJobDataPathList (job_outputs job) = None" and "f \<in> set (expected_files job)"
  then obtain d where d: "d \<in> set (job_outputs job)" "file_of d = Some f"
    by (auto simp: expected_files_def map_filter_def)
  then obtain d0 where d0: "d = Some d0" "GetFile d0 = Some f" by (auto simp: file_of_def split: option.splits)
  have "validateJobDataPath (Some d0) = None"
    using v d(1) by (simp add: validateJobDataPathList_def validate_from_None d0(1))
  with d0(2) show "\<not> path_is_abs (fjd_path f)" by (auto simp: validateJobDataPath_def split: if_splits)
qed

text \<open>C6. Outputs that materialise are on disk: when the stager reports success and the outputs name
  different places, each expected output is described, in order, by its path and the hash of the
  file that is now at that path in the job's directory; that file has the content the result
  brought, where it brought one, and the hash it named; a result that has outputs has all the
  expected ones. Whether or not it succeeds, no other file has changed.\<close>
theorem MaterializeJobOutputs_spec:
  assumes "MaterializeJobOutputs job res workDir fs = (r, fs')" and "dir = materialize_dir job workDir"
  shows "(\<forall>q. os_place fs q \<notin> output_place fs dir ` set (expected_files job) \<longrightarrow> file_content fs' q = file_content fs q) \<and>
    (\<forall>outs. r = Ok outs \<and> distinct (map (output_place fs dir) (expected_files job)) \<longrightarrow>
       list_all2 (\<lambda>f d. materialized fs' dir f (process_file (result_files res) f) d) (expected_files job) outs \<and>
       (job_outputs job \<noteq> [] \<and> result_outputs res \<noteq> [] \<longrightarrow>
         fjd_path ` set (expected_files job) \<subseteq> fjd_path ` set (result_files res)))"
proof (cases "job_outputs job \<noteq> [] \<and> validateJobDataPathList (job_outputs job) = None \<and>
    validateJobDataPathList (result_outputs res) = None")
  case False
  then have "fs' = fs \<and> (r = Ok [] \<and> job_outputs job = [] \<or> \<not> is_ok r)"
    using assms(1) by (auto simp: MaterializeJobOutputs_def split: option.splits if_splits)
  then show ?thesis by (auto simp: expected_files_def)
next
  case True
  obtain r1 fs1 where m: "materialize_each dir (result_files res) (expected_files job) fs = (r1, fs1)" by fastforce
  from materialize_each_spec [OF m] expected_relative True have
    "(\<forall>q. os_place fs q \<notin> output_place fs dir ` set (expected_files job) \<longrightarrow> file_content fs1 q = file_content fs q) \<and>
     (\<forall>outs. r1 = Ok outs \<and> distinct (map (output_place fs dir) (expected_files job)) \<longrightarrow>
       list_all2 (\<lambda>f d. materialized fs1 dir f (process_file (result_files res) f) d) (expected_files job) outs)" by blast
  moreover have "fs' = fs1 \<and> (r = Ok outs \<longrightarrow> r1 = Ok outs \<and> (result_outputs res \<noteq> [] \<longrightarrow>
      fjd_path ` set (expected_files job) \<subseteq> fjd_path ` set (result_files res)))" for outs
    using assms(1) True m unfolding MaterializeJobOutputs_def assms(2) [symmetric]
    by (auto split: sum.splits if_splits)
  ultimately show ?thesis by blast
qed

definition sample_job :: Job where
  "sample_job = \<lparr>job_id = ''j'', job_requirement = NoRequirement, job_input_data_ids = [], job_spec = NoJobSpec,
     job_content_hash = None, job_source_client_id = '''', job_submitted_at = None, job_timeout = None,
     job_dependency_ids = [], job_inputs = [], job_outputs = [Some (sample_file ''o'' [])], job_cwd = ''/x''\<rparr>"

definition sample_result :: JobResult where
  "sample_result = \<lparr>jr_job_id = ''j'', jr_status = RESULT_COMPLETED, jr_output_data_ids = [], jr_log_output = '''',
     jr_error_message = '''', jr_executing_peer_id = '''', jr_started_at = None, jr_completed_at = None,
     jr_runtime_used = None, jr_exit_code = 0, jr_outputs = [Some (sample_file ''o'' [7])]\<rparr>"

theorem MaterializeJobOutputs_spec_witness:
  "\<exists>outs fs'. MaterializeJobOutputs sample_job (Some sample_result) ''/x'' empty_fs = (Ok outs, fs') \<and>
     length outs = 1 \<and> file_content fs' (Join [''/x'', ''o'']) = Some [7]"
proof -
  let ?m = "MaterializeJobOutputs sample_job (Some sample_result) ''/x'' empty_fs"
  let ?exp = "expected_files sample_job"
  have "is_ok (fst ?m)" by code_simp
  then obtain outs fs' where m: "?m = (Ok outs, fs')" by (cases ?m; cases "fst ?m") auto
  have dir: "''/x'' = materialize_dir sample_job ''/x''" by (simp add: materialize_dir_def)
  obtain f where f: "?exp = [f]" "fjd_path f = ''o''"
    by (simp add: expected_files_def sample_job_def sample_file_def file_of_def GetFile_def map_filter_simps)
  have src: "content_bytes (process_file (result_files (Some sample_result)) f) = [7]"
    using f(2) by (simp add: result_files_def sample_result_def sample_file_def file_of_def GetFile_def
        map_filter_simps process_file_def content_bytes_def)
  from MaterializeJobOutputs_spec [OF m dir] f have "list_all2 (\<lambda>f d. materialized fs' ''/x'' f
      (process_file (result_files (Some sample_result)) f) d) [f] outs" by simp
  then obtain d where d: "outs = [d]"
    "materialized fs' ''/x'' f (process_file (result_files (Some sample_result)) f) d"
    by (auto simp: list_all2_Cons1)
  with src f(2) have "file_content fs' (Join [''/x'', ''o'']) = Some [7]" by (auto simp: materialized_def)
  with m d(1) show ?thesis by auto
qed

text \<open>Content that does not have the hash it came with is refused only after it was written.\<close>
lemma mismatch_leaves_file:
  assumes "materialize_file dir p src fs = (Err (HashMismatch h h'), fs')" and "content_bytes src \<noteq> []"
  shows "file_content fs' (output_location dir p) = Some (content_bytes src)"
proof -
  from assms obtain fs1 where w: "os_write fs1 (output_location dir p) (content_bytes src) (fjd_mode src) = Some fs'"
    by (auto simp: materialize_file_def Let_def split: if_splits prod.splits option.splits sum.splits)
  then have "output_location dir p \<noteq> ''''" by (auto simp: os_write_def)
  with os_write_content [OF w, of "output_location dir p"] show ?thesis by simp
qed

text \<open>The place a path gets under the stand-in root can lie outside it: a path that climbs above the
  root of the source directory climbs out of the output directory.\<close>
lemma fakeroot_escapes:
  "fakeroot_path ''/tmp/job'' ''/src'' ''../../victim'' = ''/tmp/victim''"
  by code_simp

end
