(* ===== verification/RemoteJobs.thy ===== *)
theory RemoteJobs
  imports Staging Peers
begin

text \<open>
  Jobs handed to other daemons (pkg/scheduler: remote_preparer.go, remote_tracker.go,
  remote_executor.go; the record RemoteJobExecution of types.go): embedding the inputs of a job,
  the table of the jobs that run elsewhere, and the streams and subscriptions of their progress.

  The channels of the executor live in a list, a channel being its index; the stream a peer answers
  with is the list of its messages. An operation returns None when it panics.
\<close>

section \<open>Preparing a job\<close>

datatype prepare_error = PrepareNilJob | EmbeddingFailed staging_error

definition PrepareForRemote :: "Fs \<Rightarrow> Job option \<Rightarrow> string \<Rightarrow> prepare_error + Job" where
  "PrepareForRemote fs job workDir =
     (case job of
        None \<Rightarrow> Err PrepareNilJob
      | Some j \<Rightarrow>
          (let prepared =
             \<lparr>job_id = job_id j, job_requirement = job_requirement j, job_input_data_ids = [],
              job_spec = job_spec j, job_content_hash = None, job_source_client_id = job_source_client_id j,
              job_submitted_at = job_submitted_at j, job_timeout = job_timeout j, job_dependency_ids = [],
              job_inputs = job_inputs j, job_outputs = job_outputs j, job_cwd = job_cwd j\<rparr>
           in if length (job_inputs j) = 0 \<and> 0 < length (job_input_data_ids j) then
                (case CreateJobDataListForFiles fs (NewJobDataStager workDir) (job_input_data_ids j) JobDataModeContent of
                   Inl e \<Rightarrow> Err (EmbeddingFailed e)
                 | Inr embeddedInputs \<Rightarrow> Ok (prepared\<lparr>job_inputs := embeddedInputs\<rparr>))
              else Ok prepared))"

section \<open>The tracker\<close>

record RemoteJobExecution =
  rje_job_id :: string
  rje_remote_peer_id :: string
  rje_prepared_job :: "Job option"
  rje_last_known_status :: JobProgress
  rje_status_updated_at :: int

type_synonym RemoteTracker = "(string, RemoteJobExecution) gomap"

datatype track_error = EmptyJobID | EmptyPeerID | AlreadyTracked string | NotTracked string | NilStatus

definition NewRemoteTracker :: RemoteTracker where
  "NewRemoteTracker = []"

definition TrackRemoteExecution ::
  "int \<Rightarrow> string \<Rightarrow> string \<Rightarrow> Job option \<Rightarrow> RemoteTracker \<Rightarrow> track_error option \<times> RemoteTracker" where
  "TrackRemoteExecution now jobID remotePeerID preparedJob rt =
     (if jobID = '''' then (Some EmptyJobID, rt)
      else if remotePeerID = '''' then (Some EmptyPeerID, rt)
      else if gm_get rt jobID \<noteq> None then (Some (AlreadyTracked jobID), rt)
      else (None, gm_put rt jobID
        \<lparr>rje_job_id = jobID, rje_remote_peer_id = remotePeerID, rje_prepared_job = preparedJob,
         rje_last_known_status = \<lparr>jp_job_id = jobID, jp_status = JOB_STATUS_QUEUED, jp_percent = None,
           jp_updated_at = Some now, jp_executing_peer_id = '''', jp_log_output = '''', jp_result = None\<rparr>,
         rje_status_updated_at = now\<rparr>))"

definition UpdateRemoteStatus ::
  "int \<Rightarrow> string \<Rightarrow> JobProgress option \<Rightarrow> RemoteTracker \<Rightarrow> track_error option \<times> RemoteTracker" where
  "UpdateRemoteStatus now jobID status rt =
     (if jobID = '''' then (Some EmptyJobID, rt)
      else case status of
        None \<Rightarrow> (Some NilStatus, rt)
      | Some p \<Rightarrow> (case gm_get rt jobID of
          None \<Rightarrow> (Some (NotTracked jobID), rt)
        | Some execution \<Rightarrow> (None, gm_put rt jobID
            (execution\<lparr>rje_last_known_status := p, rje_status_updated_at := now\<rparr>))))"

definition GetRemoteExecution :: "string \<Rightarrow> RemoteTracker \<Rightarrow> track_error + RemoteJobExecution" where
  "GetRemoteExecution jobID rt = (case gm_get rt jobID of
     None \<Rightarrow> Err (NotTracked jobID) | Some execution \<Rightarrow> Ok execution)"

definition GetRemoteStatus :: "string \<Rightarrow> RemoteTracker \<Rightarrow> track_error + JobProgress" where
  "GetRemoteStatus jobID rt = (case gm_get rt jobID of
     None \<Rightarrow> Err (NotTracked jobID) | Some execution \<Rightarrow> Ok (rje_last_known_status execution))"

definition StopTracking :: "string \<Rightarrow> RemoteTracker \<Rightarrow> track_error option \<times> RemoteTracker" where
  "StopTracking jobID rt = (case gm_get rt jobID of
     None \<Rightarrow> (Some (NotTracked jobID), rt) | Some _ \<Rightarrow> (None, gm_del rt jobID))"

definition IsRemoteJob :: "string \<Rightarrow> RemoteTracker \<Rightarrow> bool" where
  "IsRemoteJob jobID rt \<longleftrightarrow> gm_get rt jobID \<noteq> None"

definition GetAllRemoteExecutions :: "RemoteTracker \<Rightarrow> RemoteJobExecution list" where
  "GetAllRemoteExecutions rt = map snd rt"

section \<open>The executor\<close>

text \<open>A response of a peer's ExecutorService: progress, output and result, each optional.\<close>

record ExecuteJobResponse =
  ejr_progress :: "JobProgress option"
  ejr_output :: "JobData option"
  ejr_result :: "JobResult option"

record remoteJobStream =
  rjs_peer_id :: string
  rjs_job_id :: string
  rjs_ctx :: nat

record RemoteExecutor =
  re_peer_manager :: "PeerManager option"
  re_active_streams :: "(string, remoteJobStream) gomap"
  re_subscribers :: "(string, nat list) gomap"
  re_chans :: "JobProgress chan list"
  re_cancelled :: "bool list"

datatype execute_error =
  ExecEmptyPeer | ExecNilJob | NoPeerManager | PeerNotFound string | PeerNotAlive string
| CallFailed string | Rejected | InvalidResponse | ExecEmptyJob

definition NewRemoteExecutor :: "PeerManager option \<Rightarrow> RemoteExecutor" where
  "NewRemoteExecutor pm = \<lparr>re_peer_manager = pm, re_active_streams = [], re_subscribers = [], re_chans = [], re_cancelled = []\<rparr>"

definition subscribers_of :: "RemoteExecutor \<Rightarrow> string \<Rightarrow> nat list" where
  "subscribers_of re jobID = (case gm_get (re_subscribers re) jobID of None \<Rightarrow> [] | Some cs \<Rightarrow> cs)"

definition SubscribeToProgress :: "string \<Rightarrow> RemoteExecutor \<Rightarrow> nat \<times> RemoteExecutor" where
  "SubscribeToProgress remoteJobID re =
     (let ch = length (re_chans re)
      in (ch, re\<lparr>re_chans := re_chans re @ [make_chan 10],
               re_subscribers := gm_put (re_subscribers re) remoteJobID (subscribers_of re remoteJobID @ [ch])\<rparr>))"

definition UnsubscribeFromProgress :: "string \<Rightarrow> nat \<Rightarrow> RemoteExecutor \<Rightarrow> RemoteExecutor option" where
  "UnsubscribeFromProgress remoteJobID ch re =
     (case gm_get (re_subscribers re) remoteJobID of
        None \<Rightarrow> Some re
      | Some subscribers \<Rightarrow>
          (case (if ch \<in> set subscribers
                 then map_option (\<lambda>c. re\<lparr>re_subscribers := gm_put (re_subscribers re) remoteJobID (remove1 ch subscribers),
                        re_chans := (re_chans re)[ch := c]\<rparr>) (chan_close (re_chans re ! ch))
                 else Some re) of
             None \<Rightarrow> None
           | Some re1 \<Rightarrow> Some (if length (subscribers_of re1 remoteJobID) = 0
               then re1\<lparr>re_subscribers := gm_del (re_subscribers re1) remoteJobID\<rparr> else re1)))"

fun send_progress :: "nat list \<Rightarrow> JobProgress \<Rightarrow> JobProgress chan list \<Rightarrow> JobProgress chan list option" where
  "send_progress [] p hp = Some hp"
| "send_progress (ch # chs) p hp = (case chan_try_send (hp ! ch) p of
     None \<Rightarrow> None | Some c \<Rightarrow> send_progress chs p (hp[ch := c]))"

definition distributeProgress :: "string \<Rightarrow> JobProgress \<Rightarrow> RemoteExecutor \<Rightarrow> RemoteExecutor option" where
  "distributeProgress remoteJobID progress re =
     (case gm_get (re_subscribers re) remoteJobID of
        None \<Rightarrow> Some re
      | Some subscribers \<Rightarrow> if length subscribers = 0 then Some re
          else map_option (\<lambda>hp. re\<lparr>re_chans := hp\<rparr>) (send_progress subscribers progress (re_chans re)))"

text \<open>The goroutine that reads a stream: it distributes the first progress, then takes messages; a
  cancelled context ends it at the next message, without the clean-up; a result or the end of the
  stream ends it with the stream removed. It stops between messages, so that other operations can
  come in.\<close>

datatype consumer = Starting JobProgress "ExecuteJobResponse list" | Consuming "ExecuteJobResponse list" | Drained

definition stream_done :: "string \<Rightarrow> RemoteExecutor \<Rightarrow> RemoteExecutor" where
  "stream_done remoteJobID re = re\<lparr>re_active_streams := gm_del (re_active_streams re) remoteJobID\<rparr>"

definition consumeRemoteStream ::
  "remoteJobStream \<Rightarrow> consumer \<Rightarrow> RemoteExecutor \<Rightarrow> (consumer \<times> RemoteExecutor) option" where
  "consumeRemoteStream jobStream k re =
     (let remoteJobID = rjs_job_id jobStream
      in case k of
           Drained \<Rightarrow> Some (Drained, re)
         | Starting p rest \<Rightarrow> map_option (\<lambda>re1. (Consuming rest, re1)) (distributeProgress remoteJobID p re)
         | Consuming [] \<Rightarrow> Some (Drained, stream_done remoteJobID re)
         | Consuming (resp # rest) \<Rightarrow>
             if re_cancelled re ! rjs_ctx jobStream then Some (Drained, re)
             else (case (case ejr_progress resp of None \<Rightarrow> Some re | Some p \<Rightarrow> distributeProgress remoteJobID p re) of
                 None \<Rightarrow> None
               | Some re1 \<Rightarrow> Some (if ejr_result resp = None then (Consuming rest, re1)
                   else (Drained, stream_done remoteJobID re1))))"

text \<open>Submission: call gives the error of the call or the messages of the stream.\<close>

definition ExecuteRemote ::
  "(string \<Rightarrow> Job \<Rightarrow> string + ExecuteJobResponse list) \<Rightarrow> string \<Rightarrow> Job option \<Rightarrow> RemoteExecutor
    \<Rightarrow> (execute_error + remoteJobStream \<times> nat \<times> consumer) \<times> RemoteExecutor" where
  "ExecuteRemote call remotePeerID job re =
     (if remotePeerID = '''' then (Err ExecEmptyPeer, re)
      else case job of None \<Rightarrow> (Err ExecNilJob, re)
      | Some j \<Rightarrow> (case re_peer_manager re of None \<Rightarrow> (Err NoPeerManager, re)
      | Some pm \<Rightarrow> (case GetPeer pm remotePeerID of None \<Rightarrow> (Err (PeerNotFound remotePeerID), re)
      | Some peer \<Rightarrow>
          if \<not> pi_is_alive peer then (Err (PeerNotAlive remotePeerID), re)
          else (case call (pi_endpoint peer) j of
            Inl e \<Rightarrow> (Err (CallFailed e), re)
          | Inr [] \<Rightarrow> (Err Rejected, re)
          | Inr (resp # rest) \<Rightarrow>
              (case ejr_progress resp of
                 None \<Rightarrow> (Err InvalidResponse, re)
               | Some p \<Rightarrow>
                   if jp_job_id p = '''' then (Err InvalidResponse, re)
                   else (let remoteJobID = jp_job_id p;
                             jobStream = \<lparr>rjs_peer_id = remotePeerID, rjs_job_id = remoteJobID,
                               rjs_ctx = length (re_cancelled re)\<rparr>;
                             re1 = re\<lparr>re_cancelled := re_cancelled re @ [False],
                               re_active_streams := gm_put (re_active_streams re) remoteJobID jobStream\<rparr>
                         in case SubscribeToProgress remoteJobID re1 of (ch, re2) \<Rightarrow>
                              (Ok (jobStream, ch, Starting p rest), re2)))))))"

definition CancelRemoteJob :: "string \<Rightarrow> string \<Rightarrow> RemoteExecutor \<Rightarrow> execute_error option \<times> RemoteExecutor" where
  "CancelRemoteJob remotePeerID remoteJobID re =
     (if remotePeerID = '''' then (Some ExecEmptyPeer, re)
      else if remoteJobID = '''' then (Some ExecEmptyJob, re)
      else case re_peer_manager re of None \<Rightarrow> (Some NoPeerManager, re)
      | Some pm \<Rightarrow> (case GetPeer pm remotePeerID of None \<Rightarrow> (Some (PeerNotFound remotePeerID), re)
      | Some peer \<Rightarrow>
          if \<not> pi_is_alive peer then (Some (PeerNotAlive remotePeerID), re)
          else (None, case gm_get (re_active_streams re) remoteJobID of
                 None \<Rightarrow> re
               | Some s \<Rightarrow> re\<lparr>re_cancelled := (re_cancelled re)[rjs_ctx s := True]\<rparr>)))"

section \<open>What remote preparation embeds\<close>

lemma prepared_inputs:
  assumes "PrepareForRemote fs (Some j) wd = Ok j'"
  shows "(job_inputs j \<noteq> [] \<or> job_input_data_ids j = [] \<longrightarrow> job_inputs j' = job_inputs j) \<and>
    (job_inputs j = [] \<longrightarrow> CreateJobDataListForFiles fs (NewJobDataStager wd) (job_input_data_ids j) JobDataModeContent
       = Ok (job_inputs j')) \<and>
    job_input_data_ids j' = [] \<and> job_content_hash j' = None \<and> job_dependency_ids j' = []"
  using assms by (auto simp: PrepareForRemote_def Let_def split: if_splits sum.splits)

section \<open>The tracker\<close>

definition tracked_ok :: "RemoteTracker \<Rightarrow> bool" where
  "tracked_ok rt \<longleftrightarrow> gm_ok rt \<and>
     (\<forall>k e. gm_get rt k = Some e \<longrightarrow> rje_job_id e = k \<and> k \<noteq> '''' \<and> rje_remote_peer_id e \<noteq> '''')"

lemma tracked_ok_put:
  "tracked_ok rt \<Longrightarrow> rje_job_id e = k \<Longrightarrow> k \<noteq> '''' \<Longrightarrow> rje_remote_peer_id e \<noteq> '''' \<Longrightarrow> tracked_ok (gm_put rt k e)"
  by (auto simp: tracked_ok_def)

lemma tracked_ok_del: "tracked_ok rt \<Longrightarrow> tracked_ok (gm_del rt k)"
  by (auto simp: tracked_ok_def)

datatype tracker_op =
  OpTrack int string string "Job option" | OpStatus int string "JobProgress option" | OpStop string

fun tracker_exec :: "RemoteTracker \<Rightarrow> tracker_op \<Rightarrow> RemoteTracker" where
  "tracker_exec rt (OpTrack now j p job) = snd (TrackRemoteExecution now j p job rt)"
| "tracker_exec rt (OpStatus now j status) = snd (UpdateRemoteStatus now j status rt)"
| "tracker_exec rt (OpStop j) = snd (StopTracking j rt)"

lemma tracker_exec_ok: "tracked_ok rt \<Longrightarrow> tracked_ok (tracker_exec rt op)"
proof (cases op)
  case (OpTrack now j p job)
  assume "tracked_ok rt" then show ?thesis
    by (auto simp: OpTrack TrackRemoteExecution_def intro: tracked_ok_put)
next
  case (OpStatus now j status)
  assume ok: "tracked_ok rt"
  show ?thesis
  proof (cases "gm_get rt j")
    case (Some e)
    with ok have e: "rje_job_id e = j" "rje_remote_peer_id e \<noteq> ''''" by (auto simp: tracked_ok_def)
    with ok Some show ?thesis
      by (auto simp: OpStatus UpdateRemoteStatus_def split: option.split intro!: tracked_ok_put)
  qed (use ok in \<open>auto simp: OpStatus UpdateRemoteStatus_def split: option.split\<close>)
next
  case (OpStop j)
  assume "tracked_ok rt" then show ?thesis
    by (auto simp: OpStop StopTracking_def tracked_ok_del split: option.split)
qed

interpretation tracker_machine: op_machine "\<lambda>rt. rt = NewRemoteTracker" tracker_exec tracked_ok
proof unfold_locales
  show "tracked_ok rt" if "rt = NewRemoteTracker" for rt using that by (simp add: NewRemoteTracker_def tracked_ok_def)
qed (rule tracker_exec_ok)

lemma tracked_by_id:
  assumes "GetRemoteExecution j (foldl tracker_exec NewRemoteTracker ops) = Ok e"
  shows "rje_job_id e = j \<and> j \<noteq> '''' \<and> rje_remote_peer_id e \<noteq> ''''"
  using tracker_machine.run_inv [OF refl, of ops] assms
  by (auto simp: GetRemoteExecution_def tracked_ok_def split: option.splits)

text \<open>What a job's peer is does not change while it is tracked, and tracking it again fails.\<close>
lemma tracked_peer_stable:
  assumes "gm_get rt j = Some e"
  shows "fst (TrackRemoteExecution now j p job rt) \<noteq> None"
    and "\<forall>e'. gm_get (tracker_exec rt op) j = Some e' \<longrightarrow>
      rje_remote_peer_id e' = rje_remote_peer_id e \<and> rje_prepared_job e' = rje_prepared_job e"
  using assms
  by (simp_all add: TrackRemoteExecution_def)
     (cases op; auto simp: TrackRemoteExecution_def UpdateRemoteStatus_def StopTracking_def split: option.splits if_splits)

section \<open>The executor\<close>

definition executor_ok :: "RemoteExecutor \<Rightarrow> bool" where
  "executor_ok re \<longleftrightarrow>
     (\<forall>j. distinct (subscribers_of re j)) \<and>
     (\<forall>j ch. ch \<in> set (subscribers_of re j) \<longrightarrow> ch < length (re_chans re) \<and> \<not> ch_closed (re_chans re ! ch)) \<and>
     (\<forall>j j' ch. ch \<in> set (subscribers_of re j) \<and> ch \<in> set (subscribers_of re j') \<longrightarrow> j = j') \<and>
     (\<forall>c\<in>set (re_chans re). chan_ok c \<and> ch_cap c = 10)"

lemma executor_okD:
  assumes "executor_ok re"
  shows "distinct (subscribers_of re j)"
    "ch \<in> set (subscribers_of re j) \<Longrightarrow> ch < length (re_chans re) \<and> \<not> ch_closed (re_chans re ! ch)"
    "ch \<in> set (subscribers_of re j) \<Longrightarrow> ch \<in> set (subscribers_of re j') \<Longrightarrow> j = j'"
    "c \<in> set (re_chans re) \<Longrightarrow> chan_ok c \<and> ch_cap c = 10"
  using assms unfolding executor_ok_def by blast+

lemma send_progress_open:
  assumes "distinct chs" and "\<And>ch. ch \<in> set chs \<Longrightarrow> ch < length hp \<and> \<not> ch_closed (hp ! ch)"
    and "\<forall>c\<in>set hp. chan_ok c \<and> ch_cap c = n"
  shows "\<exists>hp'. send_progress chs p hp = Some hp' \<and> length hp' = length hp \<and>
    (\<forall>ch<length hp. if ch \<in> set chs then chan_try_send (hp ! ch) p = Some (hp' ! ch) else hp' ! ch = hp ! ch) \<and>
    (\<forall>ch<length hp. ch_closed (hp' ! ch) = ch_closed (hp ! ch)) \<and> (\<forall>c\<in>set hp'. chan_ok c \<and> ch_cap c = n)"
  using assms
proof (induction chs arbitrary: hp)
  case (Cons ch chs)
  from Cons.prems(2) [of ch] have ch: "ch < length hp" "\<not> ch_closed (hp ! ch)" by auto
  obtain c where c: "chan_try_send (hp ! ch) p = Some c" using chan_try_send_open [OF ch(2)] by (rule exE)
  have before: "chan_ok (hp ! ch)" "ch_cap (hp ! ch) = n" using bspec [OF Cons.prems(3) nth_mem [OF ch(1)]] by simp_all
  have c_ok: "chan_ok c" "ch_cap c = n" "\<not> ch_closed c" using chan_try_send_ok [OF before(1) c] before(2) by simp_all
  let ?hp = "hp[ch := c]"
  have "\<forall>c'\<in>set ?hp. chan_ok c' \<and> ch_cap c' = n"
    using Cons.prems(3) c_ok set_update_subset_insert [of hp ch c] by blast
  moreover have "distinct chs" using Cons.prems(1) by simp
  moreover have "\<And>i. i \<in> set chs \<Longrightarrow> i < length ?hp \<and> \<not> ch_closed (?hp ! i)"
    using Cons.prems(2) c_ok(3) by (simp add: nth_list_update)
  ultimately obtain hp' where hp': "send_progress chs p ?hp = Some hp'" "length hp' = length ?hp"
    "\<forall>i<length ?hp. if i \<in> set chs then chan_try_send (?hp ! i) p = Some (hp' ! i) else hp' ! i = ?hp ! i"
    "\<forall>i<length ?hp. ch_closed (hp' ! i) = ch_closed (?hp ! i)" "\<forall>c\<in>set hp'. chan_ok c \<and> ch_cap c = n"
    using Cons.IH [of ?hp] by blast
  have "ch \<notin> set chs" using Cons.prems(1) by simp
  with hp'(3) ch(1) have "hp' ! ch = c" by auto
  have "\<forall>i<length hp. if i \<in> set (ch # chs) then chan_try_send (hp ! i) p = Some (hp' ! i) else hp' ! i = hp ! i"
  proof (intro allI impI)
    fix i assume i: "i < length hp"
    show "if i \<in> set (ch # chs) then chan_try_send (hp ! i) p = Some (hp' ! i) else hp' ! i = hp ! i"
    proof (cases "i = ch")
      case True then show ?thesis using c \<open>hp' ! ch = c\<close> by simp
    next
      case False then show ?thesis using hp'(3) i by auto
    qed
  qed
  moreover have "\<forall>i<length hp. ch_closed (hp' ! i) = ch_closed (hp ! i)"
    using hp'(4) c_ok(3) ch by (auto simp: nth_list_update)
  ultimately show ?case using hp'(1,2,5) c by auto
qed simp

lemma subscribe_ok:
  assumes "executor_ok re"
  shows "executor_ok (snd (SubscribeToProgress j re))"
proof -
  have subs: "subscribers_of (snd (SubscribeToProgress j re)) j' =
      subscribers_of re j' @ (if j' = j then [length (re_chans re)] else [])" for j'
    by (simp add: SubscribeToProgress_def subscribers_of_def Let_def)
  have chans: "re_chans (snd (SubscribeToProgress j re)) = re_chans re @ [make_chan 10]"
    by (simp add: SubscribeToProgress_def Let_def)
  show ?thesis
    using assms unfolding executor_ok_def subs chans
    by (fastforce simp: nth_append split: if_splits)
qed

lemma distribute_ok:
  assumes "executor_ok re"
  shows "\<exists>re'. distributeProgress j p re = Some re' \<and> executor_ok re'"
proof (cases "gm_get (re_subscribers re) j")
  case None
  with assms show ?thesis by (simp add: distributeProgress_def)
next
  case (Some chs)
  then have chs: "subscribers_of re j = chs" by (simp add: subscribers_of_def)
  from assms chs have "distinct chs" "\<And>ch. ch \<in> set chs \<Longrightarrow> ch < length (re_chans re) \<and> \<not> ch_closed (re_chans re ! ch)"
    "\<forall>c\<in>set (re_chans re). chan_ok c \<and> ch_cap c = 10"
    unfolding executor_ok_def by blast+
  from send_progress_open [OF this, of p] obtain hp' where hp': "send_progress chs p (re_chans re) = Some hp'"
    "length hp' = length (re_chans re)" "\<forall>i<length (re_chans re). ch_closed (hp' ! i) = ch_closed (re_chans re ! i)"
    "\<forall>c\<in>set hp'. chan_ok c \<and> ch_cap c = 10" by blast
  have "subscribers_of (re\<lparr>re_chans := hp'\<rparr>) = subscribers_of re" by (intro ext) (simp add: subscribers_of_def)
  with assms hp' have "executor_ok (re\<lparr>re_chans := hp'\<rparr>)" by (auto simp: executor_ok_def)
  with hp'(1) Some assms show ?thesis by (auto simp: distributeProgress_def)
qed

lemma unsubscribe_ok:
  assumes "executor_ok re"
  shows "\<exists>re'. UnsubscribeFromProgress j ch re = Some re' \<and> executor_ok re'"
proof (cases "gm_get (re_subscribers re) j")
  case None
  with assms show ?thesis by (simp add: UnsubscribeFromProgress_def)
next
  case (Some chs)
  then have chs: "subscribers_of re j = chs" by (simp add: subscribers_of_def)
  define clean where "clean re1 = (if length (subscribers_of re1 j) = 0
      then re1\<lparr>re_subscribers := gm_del (re_subscribers re1) j\<rparr> else re1)" for re1 :: RemoteExecutor
  have clean_subs: "subscribers_of (clean re1) = subscribers_of re1" for re1
    by (intro ext) (auto simp: clean_def subscribers_of_def split: option.splits)
  have clean_chans: "re_chans (clean re1) = re_chans re1" for re1 by (simp add: clean_def)
  have clean_ok: "executor_ok re1 \<Longrightarrow> executor_ok (clean re1)" for re1
    by (simp add: executor_ok_def clean_subs clean_chans)
  show ?thesis
  proof (cases "ch \<in> set chs")
    case False
    with Some have "UnsubscribeFromProgress j ch re = Some (clean re)"
      by (simp add: UnsubscribeFromProgress_def clean_def)
    with clean_ok [OF assms] show ?thesis by blast
  next
    case True
    with assms chs have ch: "ch < length (re_chans re)" "\<not> ch_closed (re_chans re ! ch)" by (auto simp: executor_ok_def)
    let ?c = "(re_chans re ! ch)\<lparr>ch_closed := True\<rparr>"
    let ?re = "re\<lparr>re_subscribers := gm_put (re_subscribers re) j (remove1 ch chs), re_chans := (re_chans re)[ch := ?c]\<rparr>"
    have "UnsubscribeFromProgress j ch re = Some (clean ?re)"
      using Some True ch(2) by (simp add: UnsubscribeFromProgress_def chan_close_def clean_def)
    moreover have subs: "subscribers_of ?re j' = (if j' = j then remove1 ch chs else subscribers_of re j')" for j'
      by (simp add: subscribers_of_def)
    have "distinct chs" using assms chs by (auto simp: executor_ok_def)
    have "chan_ok (re_chans re ! ch) \<and> ch_cap (re_chans re ! ch) = 10"
      using assms nth_mem [OF ch(1)] unfolding executor_ok_def by blast
    then have "chan_ok ?c \<and> ch_cap ?c = 10" by (simp add: chan_ok_def)
    then have all: "\<forall>c\<in>set ((re_chans re)[ch := ?c]). chan_ok c \<and> ch_cap c = 10"
      using assms set_update_subset_insert [of "re_chans re" ch ?c] by (auto simp: executor_ok_def)
    have old: "ch' \<in> set (subscribers_of ?re j') \<Longrightarrow> ch' \<noteq> ch \<and> ch' \<in> set (subscribers_of re j')" for ch' j'
    proof (cases "j' = j")
      case True
      then show "ch' \<in> set (subscribers_of ?re j') \<Longrightarrow> ch' \<noteq> ch \<and> ch' \<in> set (subscribers_of re j')"
        using \<open>distinct chs\<close> chs by (simp add: subs)
    next
      case False
      then show "ch' \<in> set (subscribers_of ?re j') \<Longrightarrow> ch' \<noteq> ch \<and> ch' \<in> set (subscribers_of re j')"
        using executor_okD(3) [OF assms, of ch j' j] \<open>ch \<in> set chs\<close> chs by (auto simp: subs)
    qed
    have "executor_ok ?re"
      unfolding executor_ok_def
    proof (intro conjI allI impI)
      show "distinct (subscribers_of ?re j')" for j'
        using assms \<open>distinct chs\<close> unfolding subs executor_ok_def by (simp add: distinct_remove1)
      show "ch' < length (re_chans ?re)" "\<not> ch_closed (re_chans ?re ! ch')" if "ch' \<in> set (subscribers_of ?re j')" for ch' j'
        using old [OF that] assms by (auto simp: executor_ok_def)
      show "j1 = j2" if "ch' \<in> set (subscribers_of ?re j1) \<and> ch' \<in> set (subscribers_of ?re j2)" for ch' j1 j2
        using old that assms unfolding executor_ok_def by blast
      show "\<forall>c\<in>set (re_chans ?re). chan_ok c \<and> ch_cap c = 10" using all by simp
    qed
    ultimately show ?thesis using clean_ok by blast
  qed
qed

datatype remote_op =
  OpSubscribe string
| OpUnsubscribe string nat
| OpDistribute string JobProgress
| OpExecute "string \<Rightarrow> Job \<Rightarrow> string + ExecuteJobResponse list" string "Job option"
| OpConsume remoteJobStream consumer
| OpCancel string string

fun remote_step :: "RemoteExecutor \<Rightarrow> remote_op \<Rightarrow> RemoteExecutor option" where
  "remote_step re (OpSubscribe j) = Some (snd (SubscribeToProgress j re))"
| "remote_step re (OpUnsubscribe j ch) = UnsubscribeFromProgress j ch re"
| "remote_step re (OpDistribute j p) = distributeProgress j p re"
| "remote_step re (OpExecute call peer job) = Some (snd (ExecuteRemote call peer job re))"
| "remote_step re (OpConsume s k) = map_option snd (consumeRemoteStream s k re)"
| "remote_step re (OpCancel peer j) = Some (snd (CancelRemoteJob peer j re))"

definition remote_exec :: "RemoteExecutor option \<Rightarrow> remote_op \<Rightarrow> RemoteExecutor option" where
  "remote_exec s op = Option.bind s (\<lambda>re. remote_step re op)"

lemma executor_ok_cong:
  "executor_ok re \<Longrightarrow> re_subscribers re' = re_subscribers re \<Longrightarrow> re_chans re' = re_chans re \<Longrightarrow> executor_ok re'"
  by (simp add: executor_ok_def subscribers_of_def)

lemma execute_ok:
  assumes "executor_ok re"
  shows "executor_ok (snd (ExecuteRemote call peer job re))"
proof -
  have "executor_ok (snd (SubscribeToProgress j (re\<lparr>re_cancelled := b, re_active_streams := a\<rparr>)))" for j a b
    by (rule subscribe_ok, rule executor_ok_cong [OF assms]) simp_all
  then show ?thesis
    using assms by (auto simp: ExecuteRemote_def Let_def split: option.split sum.split list.split prod.split)
      (metis snd_conv)+
qed

lemma stream_done_ok: "executor_ok re \<Longrightarrow> executor_ok (stream_done j re)"
  by (rule executor_ok_cong) (simp_all add: stream_done_def)

lemma consume_ok:
  assumes "executor_ok re"
  shows "\<exists>k' re'. consumeRemoteStream s k re = Some (k', re') \<and> executor_ok re'"
proof (cases k)
  case (Starting p rest)
  with distribute_ok [OF assms, of "rjs_job_id s" p] show ?thesis by (auto simp: consumeRemoteStream_def)
next
  case (Consuming msgs)
  show ?thesis
  proof (cases msgs)
    case Nil
    with Consuming stream_done_ok [OF assms] show ?thesis by (simp add: consumeRemoteStream_def)
  next
    case (Cons resp rest)
    have "\<exists>re1. (case ejr_progress resp of None \<Rightarrow> Some re
        | Some p \<Rightarrow> distributeProgress (rjs_job_id s) p re) = Some re1 \<and> executor_ok re1"
      using distribute_ok [OF assms] assms by (simp split: option.split)
    then show ?thesis using Consuming Cons assms stream_done_ok
      by (auto simp: consumeRemoteStream_def Let_def)
  qed
qed (simp add: consumeRemoteStream_def assms)

lemma cancel_ok: "executor_ok re \<Longrightarrow> executor_ok (snd (CancelRemoteJob peer j re))"
  by (auto simp: CancelRemoteJob_def split: option.split elim: executor_ok_cong)

lemma remote_step_ok: "executor_ok re \<Longrightarrow> \<exists>re'. remote_step re op = Some re' \<and> executor_ok re'"
proof (cases op)
  case (OpConsume s k)
  assume "executor_ok re" then show ?thesis using consume_ok [of re s k] OpConsume by auto
qed (simp_all add: subscribe_ok unsubscribe_ok distribute_ok execute_ok cancel_ok)

interpretation remote_machine: op_machine "\<lambda>s. \<exists>pm. s = Some (NewRemoteExecutor pm)" remote_exec
  "\<lambda>s. \<exists>re. s = Some re \<and> executor_ok re"
proof unfold_locales
  show "\<exists>re. s = Some re \<and> executor_ok re" if "\<exists>pm. s = Some (NewRemoteExecutor pm)" for s
    using that by (auto simp: NewRemoteExecutor_def executor_ok_def subscribers_of_def)
next
  show "\<exists>re'. remote_exec s op = Some re' \<and> executor_ok re'" if "\<exists>re. s = Some re \<and> executor_ok re" for s op
    using that remote_step_ok by (auto simp: remote_exec_def)
qed

text \<open>C36. The remote executor never panics when its operations do not overlap: after any sequence of
  submissions, subscriptions, cancellations and stream messages, each subscriber's channel is open,
  belongs to one job and holds at most ten updates, and no job has a channel twice.\<close>
theorem remote_executor_safe:
  shows "\<exists>re. foldl remote_exec (Some (NewRemoteExecutor pm)) ops = Some re \<and>
    (\<forall>j. distinct (subscribers_of re j) \<and> (\<forall>ch \<in> set (subscribers_of re j).
       ch < length (re_chans re) \<and> \<not> ch_closed (re_chans re ! ch) \<and> length (ch_buf (re_chans re ! ch)) \<le> 10 \<and>
       (\<forall>j'. ch \<in> set (subscribers_of re j') \<longrightarrow> j' = j)))"
proof -
  from remote_machine.run_inv [of "Some (NewRemoteExecutor pm)" ops]
  obtain re where re: "foldl remote_exec (Some (NewRemoteExecutor pm)) ops = Some re" "executor_ok re" by blast
  have "distinct (subscribers_of re j)" for j by (rule executor_okD(1) [OF re(2)])
  moreover have "ch < length (re_chans re) \<and> \<not> ch_closed (re_chans re ! ch) \<and> length (ch_buf (re_chans re ! ch)) \<le> 10 \<and>
       (\<forall>j'. ch \<in> set (subscribers_of re j') \<longrightarrow> j' = j)" if ch: "ch \<in> set (subscribers_of re j)" for j ch
  proof -
    note open_ch = executor_okD(2) [OF re(2) ch]
    then have "re_chans re ! ch \<in> set (re_chans re)" by simp
    from executor_okD(4) [OF re(2) this] open_ch executor_okD(3) [OF re(2) ch] show ?thesis
      by (auto simp: chan_ok_def)
  qed
  ultimately show ?thesis using re(1) by blast
qed

section \<open>Overlapping operations\<close>

text \<open>The distribution of an update takes the slice of the subscribers under the lock and sends after it
  has released the lock. Removing a subscriber meanwhile shifts the elements of that same slice, the
  last of which stays where it was, and closes the removed channel: this is the list the loop then
  reads.\<close>

definition shifted :: "nat \<Rightarrow> nat list \<Rightarrow> nat list" where
  "shifted ch chs = remove1 ch chs @ [last chs]"

lemma send_all_open:
  "(\<And>ch. ch \<in> set chs \<Longrightarrow> \<not> ch_closed (hp ! ch)) \<Longrightarrow> send_progress chs p hp \<noteq> None"
proof (induction chs arbitrary: hp)
  case (Cons ch chs)
  from Cons.prems [of ch] have "\<not> ch_closed (hp ! ch)" by simp
  then obtain c where c: "chan_try_send (hp ! ch) p = Some c" "\<not> ch_closed c"
    by (cases "length (ch_buf (hp ! ch)) < ch_cap (hp ! ch)") (simp_all add: chan_try_send_def)
  have "\<not> ch_closed (hp[ch := c] ! ch')" if "ch' \<in> set chs" for ch'
    using Cons.prems [of ch'] that c(2)
    by (cases "ch < length hp") (auto simp: nth_list_update list_update_beyond)
  with Cons.IH [of "hp[ch := c]"] c(1) show ?case by simp
qed simp

lemma send_some_closed:
  "ch \<in> set chs \<Longrightarrow> ch < length hp \<Longrightarrow> ch_closed (hp ! ch) \<Longrightarrow> send_progress chs p hp = None"
proof (induction chs arbitrary: hp)
  case (Cons a chs)
  show ?case
  proof (cases "a = ch")
    case True
    with Cons.prems show ?thesis by (simp add: chan_try_send_def)
  next
    case False
    with Cons show ?thesis by (simp split: option.split)
  qed
qed simp

lemma unsubscribed_closed:
  assumes "executor_ok re" and "ch \<in> set (subscribers_of re j)" and "UnsubscribeFromProgress j ch re = Some re'"
  shows "re_chans re' = (re_chans re)[ch := (re_chans re ! ch)\<lparr>ch_closed := True\<rparr>]"
  using assms executor_okD(2) [OF assms(1,2)]
  by (auto simp: UnsubscribeFromProgress_def subscribers_of_def chan_close_def Let_def split: option.splits if_splits)

lemma distinct_count_once: "distinct xs \<Longrightarrow> x \<in> set xs \<Longrightarrow> count_list xs x = 1"
  by (induction xs) (auto simp: count_notin)



definition two_subscribers :: RemoteExecutor where
  "two_subscribers = snd (SubscribeToProgress ''j'' (snd (SubscribeToProgress ''j'' (NewRemoteExecutor None))))"

lemma two_subscribers_ok: "executor_ok two_subscribers" "subscribers_of two_subscribers ''j'' = [0, 1]"
proof -
  have "executor_ok (NewRemoteExecutor None)" by (simp add: NewRemoteExecutor_def executor_ok_def subscribers_of_def)
  then show "executor_ok two_subscribers" unfolding two_subscribers_def by (intro subscribe_ok)
  show "subscribers_of two_subscribers ''j'' = [0, 1]" by code_simp
qed


theorem remote_executor_safe_witness:
  "\<exists>re. foldl remote_exec (Some (NewRemoteExecutor None)) [OpSubscribe ''j'', OpUnsubscribe ''j'' 0, OpSubscribe ''k''] = Some re \<and>
     subscribers_of re ''k'' = [1] \<and> \<not> ch_closed (re_chans re ! 1)"
proof -
  let ?s = "foldl remote_exec (Some (NewRemoteExecutor None)) [OpSubscribe ''j'', OpUnsubscribe ''j'' 0, OpSubscribe ''k'']"
  from remote_executor_safe [of None "[OpSubscribe ''j'', OpUnsubscribe ''j'' 0, OpSubscribe ''k'']"]
  obtain re where re: "?s = Some re" and open_chans: "\<forall>j. \<forall>ch \<in> set (subscribers_of re j). \<not> ch_closed (re_chans re ! ch)"
    by blast
  have "map_option (\<lambda>re. subscribers_of re ''k'') ?s = Some [1]" by code_simp
  with re have k: "subscribers_of re ''k'' = [1]" by simp
  then have "1 \<in> set (subscribers_of re ''k'')" by simp
  with open_chans have "\<not> ch_closed (re_chans re ! 1)" by blast
  with re k show ?thesis by blast
qed

end
