(* ===== verification/Sandbox.thy ===== *)
theory Sandbox
  imports Staging NativeRuntime
begin

text \<open>
  Sandboxes (pkg/sandbox): wrappers of a runtime's Execute that embed contents or move the execution
  into another directory, their composition, and the sandbox native runtimes are registered with
  (pkg/runtimes/cpp/native/discoverer.go).

  The request is a pointer the wrappers write through, and the caller keeps it: an execution takes
  the job of the request and gives it back as it is afterwards. A nil request is None, a request
  without a job Some None. What an execution does to the file system is part of its result.
\<close>

datatype 'e sandbox_error =
  InputsNotEmbedded staging_error
| OutputsNotEmbedded staging_error
| MkdirTempFailed
| WorkdirInaccessible os_error
| WorkdirNotDir
| InputsNotMaterialized staging_error
| InputsNotReferenced staging_error
| WrapFailed nat "'e sandbox_error"
| RuntimeFailed 'e

type_synonym request = "Job option option"

type_synonym 'e runtime_exec =
  "request \<Rightarrow> Fs \<Rightarrow> ('e sandbox_error + ExecutionResult option) \<times> request \<times> Fs"

type_synonym 'e sandbox_func = "Fs \<Rightarrow> 'e runtime_exec \<Rightarrow> 'e sandbox_error + 'e runtime_exec"

section \<open>The wrappers\<close>

text \<open>Execute makes a sandbox of a custom execution; wrapping does not fail.\<close>

definition Execute :: "('e runtime_exec \<Rightarrow> 'e runtime_exec) \<Rightarrow> 'e sandbox_func" where
  "Execute fn = (\<lambda>fs rt. Ok (fn rt))"

definition embedInputsExec :: "'e runtime_exec \<Rightarrow> 'e runtime_exec" where
  "embedInputsExec rt req fs =
     (case req of
        Some (Some job) \<Rightarrow>
          (if 0 < length (job_inputs job) then
             (case EmbedJobDataList fs (NewJobDataStager (job_cwd job)) (job_inputs job) of
                Inl e \<Rightarrow> (Err (InputsNotEmbedded e), req, fs)
              | Inr embedded \<Rightarrow> rt (Some (Some (job\<lparr>job_inputs := embedded\<rparr>))) fs)
           else rt req fs)
      | _ \<Rightarrow> rt req fs)"

definition EmbedInputs :: "'e sandbox_func" where
  "EmbedInputs = Execute embedInputsExec"

definition embedOutputsExec :: "'e runtime_exec \<Rightarrow> 'e runtime_exec" where
  "embedOutputsExec rt req fs =
     (case rt req fs of
        (Inl e, req1, fs1) \<Rightarrow> (Err e, req1, fs1)
      | (Inr None, req1, fs1) \<Rightarrow> (Ok None, req1, fs1)
      | (Inr (Some res), req1, fs1) \<Rightarrow>
          if length (er_output res) = 0 then (Ok (Some res), req1, fs1)
          else (case req1 of
            Some (Some job) \<Rightarrow>
              (case EmbedJobDataList fs1 (NewJobDataStager (job_cwd job)) (er_output res) of
                 Inl e \<Rightarrow> (Err (OutputsNotEmbedded e), req1, fs1)
               | Inr embedded \<Rightarrow> (Ok (Some (res\<lparr>er_output := embedded\<rparr>)), req1, fs1))
          | _ \<Rightarrow> (Ok (Some res), req1, fs1)))"

definition EmbedOutputs :: "'e sandbox_func" where
  "EmbedOutputs = Execute embedOutputsExec"

fun getInputPaths :: "JobData option list \<Rightarrow> string list" where
  "getInputPaths [] = []"
| "getInputPaths (input # rest) =
     (case input of
        None \<Rightarrow> getInputPaths rest
      | Some d \<Rightarrow> (case GetFile d of
          Some f \<Rightarrow> fjd_path f # getInputPaths rest
        | None \<Rightarrow> (case GetDirectory d of Some r \<Rightarrow> djd_path r # getInputPaths rest | None \<Rightarrow> getInputPaths rest)))"

definition workdirExec :: "string \<Rightarrow> 'e runtime_exec \<Rightarrow> 'e runtime_exec" where
  "workdirExec workdir rt req fs =
     (case req of
        Some (Some job) \<Rightarrow>
          (if 0 < length (job_inputs job) then
             (case WriteJobDataListToFiles (NewJobDataStager workdir) (job_inputs job) workdir fs of
                (Some e, fs1) \<Rightarrow> (Err (InputsNotMaterialized e), req, fs1)
              | (None, fs1) \<Rightarrow>
                  (case CreateJobDataListForFiles fs1 (NewJobDataStager workdir) (getInputPaths (job_inputs job))
                      JobDataModeReference of
                     Inl e \<Rightarrow> (Err (InputsNotReferenced e), req, fs1)
                   | Inr refs \<Rightarrow> rt (Some (Some (job\<lparr>job_inputs := refs, job_cwd := workdir\<rparr>))) fs1))
           else rt (Some (Some (job\<lparr>job_cwd := workdir\<rparr>))) fs)
      | _ \<Rightarrow> rt req fs)"

definition Workdir :: "string \<Rightarrow> 'e sandbox_func" where
  "Workdir workdir = (\<lambda>fs rt. case os_stat fs workdir of
     Inl e \<Rightarrow> Err (WorkdirInaccessible e)
   | Inr n \<Rightarrow> if nd_dir n then Ok (workdirExec workdir rt) else Err WorkdirNotDir)"

text \<open>A temporary directory: the system picks a name from the prefix, or fails. Removing it removes
  everything under it.\<close>

definition os_mkdir_temp :: "(Fs \<Rightarrow> string \<Rightarrow> string option) \<Rightarrow> Fs \<Rightarrow> string \<Rightarrow> (string \<times> Fs) option" where
  "os_mkdir_temp pick fs pre = (case pick fs pre of
     None \<Rightarrow> None
   | Some dir \<Rightarrow> Some (dir, put_node dir \<lparr>nd_dir = True, nd_content = [], nd_mode = fs_create_mode fs 448,
       nd_mtime = fs_now fs\<rparr> fs))"

definition under :: "string \<Rightarrow> string \<Rightarrow> bool" where
  "under dir p = (p = dir \<or> has_prefix p (dir @ ''/''))"

definition os_remove_all :: "Fs \<Rightarrow> string \<Rightarrow> Fs" where
  "os_remove_all fs dir = fs\<lparr>fs_nodes := filter (\<lambda>(k, n). \<not> under dir k) (fs_nodes fs)\<rparr>"

definition tempDirExec :: "(Fs \<Rightarrow> string \<Rightarrow> string option) \<Rightarrow> 'e runtime_exec \<Rightarrow> 'e runtime_exec" where
  "tempDirExec pick rt req fs =
     (case req of
        Some (Some job) \<Rightarrow>
          (case os_mkdir_temp pick fs (''buildozer-job-'' @ job_id job @ ''-'') of
             None \<Rightarrow> (Err MkdirTempFailed, req, fs)
           | Some (tempDir, fs1) \<Rightarrow>
               (case Workdir tempDir fs1 rt of
                  Inl e \<Rightarrow> (Err e, req, os_remove_all fs1 tempDir)
                | Inr wrapped \<Rightarrow>
                    (case wrapped req fs1 of
                       (Inr (Some res), req2, fs2) \<Rightarrow>
                         (Ok (Some res), req2, if er_exit_code res = 0 then os_remove_all fs2 tempDir else fs2)
                     | other \<Rightarrow> other)))
      | _ \<Rightarrow> rt req fs)"

definition TempDir :: "(Fs \<Rightarrow> string \<Rightarrow> string option) \<Rightarrow> 'e sandbox_func" where
  "TempDir pick = Execute (tempDirExec pick)"

section \<open>Composition\<close>

text \<open>Apply wraps from left to right and stops at the first sandbox that fails, with its index. The
  pipelines of the builder and of Pipe are the same loop, the builder's without the index.\<close>

fun apply_from :: "nat \<Rightarrow> Fs \<Rightarrow> 'e runtime_exec \<Rightarrow> 'e sandbox_func list \<Rightarrow> 'e sandbox_error + 'e runtime_exec" where
  "apply_from i fs rt [] = Ok rt"
| "apply_from i fs rt (sb # sbs) = (case sb fs rt of
     Inl e \<Rightarrow> Err (WrapFailed i e) | Inr wrapped \<Rightarrow> apply_from (i + 1) fs wrapped sbs)"

definition Apply :: "Fs \<Rightarrow> 'e runtime_exec \<Rightarrow> 'e sandbox_func list \<Rightarrow> 'e sandbox_error + 'e runtime_exec" where
  "Apply fs rt sbs = apply_from 0 fs rt sbs"

definition Pipe :: "'e sandbox_func list \<Rightarrow> 'e sandbox_func" where
  "Pipe sbs = (\<lambda>fs rt. Apply fs rt sbs)"

text \<open>MustApply panics (None) where Apply fails.\<close>

definition MustApply :: "Fs \<Rightarrow> 'e runtime_exec \<Rightarrow> 'e sandbox_func list \<Rightarrow> 'e runtime_exec option" where
  "MustApply fs rt sbs = (case Apply fs rt sbs of Inl _ \<Rightarrow> None | Inr w \<Rightarrow> Some w)"

definition MustPipe :: "'e sandbox_func list \<Rightarrow> Fs \<Rightarrow> 'e runtime_exec \<Rightarrow> 'e runtime_exec option" where
  "MustPipe sbs fs rt = MustApply fs rt sbs"

record 'e Builder =
  bd_factories :: "'e sandbox_func list"

definition NewBuilder :: "'e Builder" where
  "NewBuilder = \<lparr>bd_factories = []\<rparr>"

definition With :: "'e Builder \<Rightarrow> 'e sandbox_func \<Rightarrow> 'e Builder" where
  "With b factory = b\<lparr>bd_factories := bd_factories b @ [factory]\<rparr>"

fun build_loop :: "Fs \<Rightarrow> 'e runtime_exec \<Rightarrow> 'e sandbox_func list \<Rightarrow> 'e sandbox_error + 'e runtime_exec" where
  "build_loop fs rt [] = Ok rt"
| "build_loop fs rt (sb # sbs) = (case sb fs rt of Inl e \<Rightarrow> Err e | Inr wrapped \<Rightarrow> build_loop fs wrapped sbs)"

definition Build :: "'e Builder \<Rightarrow> 'e sandbox_func" where
  "Build b = (\<lambda>fs rt. build_loop fs rt (bd_factories b))"

section \<open>Native runtimes as they are registered\<close>

definition native_exec :: "exec_env \<Rightarrow> Executor \<Rightarrow> Toolchain \<Rightarrow> native_error runtime_exec" where
  "native_exec env e t req fs =
     (map_sum RuntimeFailed Some (NativeExecute env e t req), req, fs)"

definition discovered_runtime ::
  "(Fs \<Rightarrow> string \<Rightarrow> string option) \<Rightarrow> Fs \<Rightarrow> exec_env \<Rightarrow> Executor \<Rightarrow> Toolchain \<Rightarrow> native_error runtime_exec option" where
  "discovered_runtime pick fs env e t = MustApply fs (native_exec env e t) [TempDir pick]"

lemma discovered_runtime: "discovered_runtime pick fs env e t = Some (tempDirExec pick (native_exec env e t))"
  by (simp add: discovered_runtime_def MustApply_def Apply_def TempDir_def Execute_def)

section \<open>Composition\<close>

lemma build_is_apply: "build_loop fs rt sbs = Ok w \<longleftrightarrow> apply_from i fs rt sbs = Ok w"
  by (induction sbs arbitrary: rt i) (auto split: sum.split)

lemma builder_factories: "bd_factories (foldl With NewBuilder sbs) = sbs"
proof -
  have "bd_factories (foldl With b sbs) = bd_factories b @ sbs" for b :: "'a Builder"
    by (induction sbs arbitrary: b) (simp_all add: With_def)
  then show ?thesis by (simp add: NewBuilder_def)
qed

text \<open>The builder and Apply make the same runtime of the same sandboxes, and a pipeline of two lists
  is the second applied to the first.\<close>
lemma builder_applies: "Build (foldl With NewBuilder sbs) fs rt = Ok w \<longleftrightarrow> Apply fs rt sbs = Ok w"
  using build_is_apply [of fs rt sbs w 0] by (simp add: Build_def Apply_def builder_factories)

lemma apply_append:
  "Apply fs rt (as @ bs) = Ok w \<longleftrightarrow> (\<exists>v. Apply fs rt as = Ok v \<and> Apply fs v bs = Ok w)"
proof -
  have "build_loop fs rt (as @ bs) = Ok w \<longleftrightarrow> (\<exists>v. build_loop fs rt as = Ok v \<and> build_loop fs v bs = Ok w)"
    by (induction as arbitrary: rt) (auto split: sum.split)
  then show ?thesis by (simp add: Apply_def build_is_apply [symmetric, of 0])
qed

definition temp_pick :: "Fs \<Rightarrow> string \<Rightarrow> string option" where
  "temp_pick fs pre = Some (''/tmp/'' @ pre @ ''1'')"

section \<open>Jobs with inputs\<close>

lemma write_each_files:
  "write_each (\<lambda>d. WriteJobDataToFile s d dir) ds fs = (None, fs') \<Longrightarrow>
   \<forall>d\<in>set ds. \<exists>d0 f. d = Some d0 \<and> GetFile d0 = Some f"
proof (induction ds arbitrary: fs)
  case (Cons d ds)
  then obtain fs1 where 1: "WriteJobDataToFile s d dir fs = (None, fs1)"
    "write_each (\<lambda>d. WriteJobDataToFile s d dir) ds fs1 = (None, fs')" by (auto split: prod.splits option.splits)
  from 1(1) have "\<exists>d0 f. d = Some d0 \<and> GetFile d0 = Some f"
    by (elim WriteJobDataToFile_Ok) (simp add: GetFile_def)
  with Cons.IH [OF 1(2)] show ?case by simp
qed simp

lemma created_are_files:
  "CreateJobDataListForFiles fs s ps mode = Ok ds \<Longrightarrow>
   length ds = length ps \<and> (\<forall>d\<in>set ds. \<exists>d0 f. d = Some d0 \<and> jd_data d0 = JobData_File (Some f))"
proof (induction ps arbitrary: ds)
  case (Cons p ps)
  then obtain d ds' where 1: "CreateJobDataForFile fs s p mode = Ok d" "CreateJobDataListForFiles fs s ps mode = Ok ds'"
    "ds = Some d # ds'" by (auto split: sum.splits)
  from 1(1) have "\<exists>f. jd_data d = JobData_File (Some f)"
    by (elim CreateJobDataForFile_Ok) (simp add: createFileJobDataProto_def)
  with Cons.IH [OF 1(2)] 1(3) show ?case by simp
qed simp

lemma input_paths_length:
  "\<forall>d\<in>set ds. \<exists>d0 f. d = Some d0 \<and> GetFile d0 = Some f \<Longrightarrow> length (getInputPaths ds) = length ds"
  by (induction ds) auto

lemma native_rejects_files:
  "ds \<noteq> [] \<Longrightarrow> \<forall>d\<in>set ds. \<exists>d0 f. d = Some d0 \<and> jd_data d0 = JobData_File (Some f) \<Longrightarrow>
   validateInputsAreReferences i ds \<noteq> None"
  by (cases ds) auto

lemma workdir_native_rejects:
  assumes "job_inputs job \<noteq> []"
  shows "\<exists>err. fst (workdirExec wd (native_exec env e t) (Some (Some job)) fs) = Err err"
proof (cases "WriteJobDataListToFiles (NewJobDataStager wd) (job_inputs job) wd fs")
  case (Pair w fs1)
  show ?thesis
  proof (cases w)
    case None
    show ?thesis
    proof (cases "CreateJobDataListForFiles fs1 (NewJobDataStager wd) (getInputPaths (job_inputs job)) JobDataModeReference")
      case (Inr refs)
      have "\<forall>d\<in>set (job_inputs job). \<exists>d0 f. d = Some d0 \<and> GetFile d0 = Some f"
        using Pair None write_each_files by (auto simp: WriteJobDataListToFiles_def split: option.splits)
      then have "refs \<noteq> []"
        using created_are_files [OF Inr] input_paths_length assms by force
      then have "validateInputsAreReferences 0 refs \<noteq> None"
        using created_are_files [OF Inr] native_rejects_files by blast
      then show ?thesis
        using assms Pair None Inr by (auto simp: workdirExec_def native_exec_def NativeExecute_def)
    qed (use assms Pair None in \<open>simp add: workdirExec_def\<close>)
  qed (use assms Pair in \<open>simp add: workdirExec_def\<close>)
qed

text \<open>A native runtime, as the discoverer registers it, executes no job that has inputs: the sandbox
  writes files only and describes what it wrote as files, and the runtime inside accepts
  references only. Whatever the inputs are, the answer is an error and no command is run.\<close>
theorem discovered_runtime_rejects_inputs:
  assumes "discovered_runtime pick fs0 env e t = Some rt" and "job_inputs job \<noteq> []"
  shows "\<exists>err. fst (rt (Some (Some job)) fs) = Err err"
proof -
  have rt: "rt = tempDirExec pick (native_exec env e t)" using assms(1) by (simp add: discovered_runtime)
  show ?thesis
  proof (cases "os_mkdir_temp pick fs (''buildozer-job-'' @ job_id job @ ''-'')")
    case (Some d)
    obtain dir fs1 where d: "d = (dir, fs1)" by (cases d)
    obtain err r where "workdirExec dir (native_exec env e t) (Some (Some job)) fs1 = (Err err, r)"
      using workdir_native_rejects [OF assms(2), of dir env e t fs1]
      by (cases "workdirExec dir (native_exec env e t) (Some (Some job)) fs1") auto
    then show ?thesis using Some d by (auto simp: rt tempDirExec_def Workdir_def split: sum.splits)
  qed (simp add: rt tempDirExec_def)
qed

theorem discovered_runtime_rejects_inputs_witness:
  "\<exists>rt err. discovered_runtime temp_pick empty_fs failing_env
      \<lparr>ex_compiler_path = ''/usr/bin/clang'', ex_archiver_path = ''/usr/bin/ar'', ex_work_dir = ''/w''\<rparr> clang_14 = Some rt \<and>
     fst (rt (Some (Some (sample_job\<lparr>job_inputs := [Some (sample_file ''m.c'' [7])]\<rparr>))) empty_fs) = Err err"
proof -
  obtain rt where rt: "discovered_runtime temp_pick empty_fs failing_env
      \<lparr>ex_compiler_path = ''/usr/bin/clang'', ex_archiver_path = ''/usr/bin/ar'', ex_work_dir = ''/w''\<rparr> clang_14 = Some rt"
    by (simp add: discovered_runtime)
  from discovered_runtime_rejects_inputs [OF rt, of "sample_job\<lparr>job_inputs := [Some (sample_file ''m.c'' [7])]\<rparr>" empty_fs] rt
  show ?thesis by auto
qed

lemma keys_filter:
  "gm_get (filter (\<lambda>(k, n). P k) xs) k = (if P k then gm_get xs k else None)"
  by (induction xs) auto

lemma removed_gone:
  assumes "under dir (os_place fs p)"
  shows "\<exists>e. os_stat (os_remove_all fs dir) p = Err e"
  using assms keys_filter [of "\<lambda>k. \<not> under dir k" "fs_nodes fs" "os_place fs p"]
  by (auto simp: os_stat_def os_remove_all_def os_place_def)

text \<open>What a job leaves in its temporary directory is lost: after an execution that succeeded, the
  directory is gone, but the job the caller holds has it as its working directory, so that the
  outputs the caller then materialises, which are looked for there, are not found and the job
  that succeeded fails.\<close>
theorem temp_dir_outputs_lost:
  assumes exec: "tempDirExec pick rt (Some (Some job)) fs = (Ok (Some res), Some (Some job'), fs')"
    and "er_exit_code res = 0"
    and rt: "\<And>j fs. \<exists>r fs1. rt (Some (Some j)) fs = (r, Some (Some j), fs1) \<and> same_world fs fs1"
    and pick: "\<And>fs p d. pick fs p = Some d \<Longrightarrow> path_is_abs d"
    and f: "expected_files job' = f # fls" "content_bytes (process_file (result_files jr) f) = []"
      "under (job_cwd job') (os_place fs' (Join [job_cwd job', fjd_path f]))"
  shows "\<exists>e. fst (MaterializeJobOutputs job' jr (job_cwd job') fs') = Err e"
proof -
  from exec obtain dir fs1 wrapped fs2 where 1: "os_mkdir_temp pick fs (''buildozer-job-'' @ job_id job @ ''-'') = Some (dir, fs1)"
    "Workdir dir fs1 rt = Ok wrapped" "wrapped (Some (Some job)) fs1 = (Ok (Some res), Some (Some job'), fs2)"
    "fs' = os_remove_all fs2 dir"
    using assms(2) by (auto simp: tempDirExec_def split: option.splits sum.splits prod.splits)
  have dir: "path_is_abs dir" using 1(1) pick by (auto simp: os_mkdir_temp_def split: option.splits)
  have w: "wrapped = workdirExec dir rt" using 1(2) by (auto simp: Workdir_def split: sum.splits if_splits)
  have "\<exists>j fs3. rt (Some (Some j)) fs3 = (Ok (Some res), Some (Some job'), fs2) \<and> job_cwd j = dir"
    using 1(3) unfolding w
    by (auto simp: workdirExec_def split: if_splits option.splits prod.splits sum.splits)
  then obtain j fs3 where j: "rt (Some (Some j)) fs3 = (Ok (Some res), Some (Some job'), fs2)" "job_cwd j = dir"
    by blast
  with rt [of j fs3] have cwd: "job_cwd job' = dir" by auto
  have place: "os_place fs' p = os_place fs2 p" for p by (simp add: 1(4) os_remove_all_def os_place_def)
  have "under dir (os_place fs2 (Join [dir, fjd_path f]))" using f(3) unfolding cwd place .
  from removed_gone [OF this] obtain e where gone: "os_stat fs' (Join [dir, fjd_path f]) = Err e"
    unfolding 1(4) by blast
  have "dir \<noteq> ''''" using dir by (rule path_is_abs_not_Nil)
  moreover have "\<not> path_is_abs (fjd_path f)" if "validateJobDataPathList (job_outputs job') = None"
    using expected_relative [OF that] f(1) by simp
  moreover have "job_outputs job' \<noteq> []" using f(1) by (auto simp: expected_files_def map_filter_simps)
  ultimately show ?thesis
    using f gone
    by (auto simp: MaterializeJobOutputs_def cwd materialize_dir_def materialize_file_def output_location_def Let_def
        split: option.split)
qed

definition quiet_runtime :: "native_error runtime_exec" where
  "quiet_runtime req fs = (Ok (Some \<lparr>er_exit_code = 0, er_stdout = [], er_stderr = [], er_output = [],
     er_work_dir = '''', er_execution_id = ''''\<rparr>), req, fs)"

theorem temp_dir_outputs_lost_witness:
  "\<exists>res job' fs'. tempDirExec temp_pick quiet_runtime (Some (Some sample_job)) empty_fs =
       (Ok (Some res), Some (Some job'), fs') \<and> er_exit_code res = 0 \<and>
     \<not> is_ok (fst (MaterializeJobOutputs job' None (job_cwd job') fs'))"
proof -
  let ?job = "sample_job\<lparr>job_cwd := ''/tmp/buildozer-job-j-1''\<rparr>"
  let ?t = "tempDirExec temp_pick quiet_runtime (Some (Some sample_job)) empty_fs"
  let ?res = "\<lparr>er_exit_code = 0, er_stdout = [], er_stderr = [], er_output = [], er_work_dir = '''', er_execution_id = ''''\<rparr>"
  define fs' where "fs' = snd (snd ?t)"
  have t: "?t = (Ok (Some ?res), Some (Some ?job), fs')"
  proof -
    have "fst (snd ?t) = Some (Some ?job)" "fst ?t = Ok (Some ?res)"
      by (simp_all add: tempDirExec_def temp_pick_def os_mkdir_temp_def Workdir_def os_stat_def os_place_def Abs_def
          sample_job_def empty_fs_def put_node_def Clean_def path_elems_def path_is_abs_def has_prefix_def
          workdirExec_def quiet_runtime_def)
    then show ?thesis unfolding fs'_def by (cases ?t; cases "snd ?t") auto
  qed
  obtain f where f: "expected_files ?job = [f]" "fjd_path f = ''o''" "content_bytes f = []"
    by (simp add: expected_files_def sample_job_def sample_file_def file_of_def GetFile_def map_filter_simps
        content_bytes_def)
  have pick: "temp_pick fs p = Some d \<Longrightarrow> path_is_abs d" for fs p d
    by (auto simp: temp_pick_def path_is_abs_def has_prefix_def)
  have quiet: "\<exists>r fs1. quiet_runtime (Some (Some j)) fs = (r, Some (Some j), fs1) \<and> same_world fs fs1" for j fs
    by (simp add: quiet_runtime_def)
  have under: "under (job_cwd ?job) (os_place fs' (Join [job_cwd ?job, ''o'']))"
    by (simp add: under_def os_place_def Abs_def Join_def Clean_def path_elems_def path_is_abs_def has_prefix_def)
  have "\<exists>e. fst (MaterializeJobOutputs ?job None (job_cwd ?job) fs') = Err e"
    by (rule temp_dir_outputs_lost [OF t _ quiet pick f(1)])
       (use f under in \<open>simp_all add: process_file_def result_files_def\<close>)
  with t show ?thesis by fastforce
qed

end
