(* ===== verification/GccArgs.thy ===== *)
theory GccArgs
  imports Paths
begin

text \<open>
  The command line of the C and C++ compiler drivers (pkg/drivers/cpp/gcc_common: types.go,
  parser.go, cli_validation.go and the flag extraction of compiler_flags.go): what is accepted,
  and how it is sorted into inputs, output, search paths, definitions, libraries and flags.
\<close>

section \<open>The parser\<close>

datatype CompileMode = ModeUnknown | ModeCompileOnly | ModeLink | ModeCompileAndLink

record ParsedArgs =
  pa_source_files :: "string list"
  pa_object_files :: "string list"
  pa_output_file :: string
  pa_defines :: "string list"
  pa_include_dirs :: "string list"
  pa_libraries :: "string list"
  pa_library_files :: "string list"
  pa_library_dirs :: "string list"
  pa_compiler_flags :: "string list"
  pa_linker_flags :: "string list"
  pa_mode :: CompileMode
  pa_is_shared_library :: bool
  pa_original_args :: "string list"

definition isCompilerOnlyFlag :: "string \<Rightarrow> bool" where
  "isCompilerOnlyFlag flag =
     (flag \<in> {''-c'', ''-S'', ''-E'', ''-M'', ''-MM'', ''-fPIC'', ''-fPIE'', ''-fno-PIC'', ''-fno-PIE'',
        ''-nostdinc'', ''-nostdinc++'', ''-trigraphs'', ''-notrigraphs''} \<or>
      list_ex (has_prefix flag) [''-std='', ''-march='', ''-mtune='', ''-m64'', ''-m32'', ''-O'', ''-g'', ''-W''])"

definition empty_args :: "string list \<Rightarrow> ParsedArgs" where
  "empty_args args =
     \<lparr>pa_source_files = [], pa_object_files = [], pa_output_file = '''', pa_defines = [],
      pa_include_dirs = [], pa_libraries = [], pa_library_files = [], pa_library_dirs = [],
      pa_compiler_flags = [], pa_linker_flags = [], pa_mode = ModeCompileAndLink,
      pa_is_shared_library = False, pa_original_args = args\<rparr>"

text \<open>An option such as \<open>-I\<close> takes the rest of its word as its value, or else the next word; the
  result is the value, if there is one, and the words left.\<close>

definition take_value :: "string \<Rightarrow> string list \<Rightarrow> string option \<times> string list" where
  "take_value arg rest =
     (if 2 < length arg then (Some (drop 2 arg), rest)
      else case rest of [] \<Rightarrow> (None, []) | v # rest' \<Rightarrow> (Some v, rest'))"

definition with_value ::
  "(string \<Rightarrow> ParsedArgs) \<Rightarrow> string \<Rightarrow> string list \<Rightarrow> ParsedArgs \<Rightarrow> ParsedArgs \<times> string list" where
  "with_value upd arg rest p =
     (case take_value arg rest of (v, r) \<Rightarrow> ((case v of None \<Rightarrow> p | Some v \<Rightarrow> upd v), r))"

definition add_input :: "string \<Rightarrow> ParsedArgs \<Rightarrow> ParsedArgs" where
  "add_input arg p =
     (if list_ex (has_suffix arg) [''.c'', ''.cpp'', ''.cc'', ''.cxx'', ''.C'', ''.c++'']
      then p\<lparr>pa_source_files := pa_source_files p @ [arg]\<rparr>
      else if has_suffix arg ''.o'' then p\<lparr>pa_object_files := pa_object_files p @ [arg]\<rparr>
      else if list_ex (has_suffix arg) [''.a'', ''.so'', ''.lib'', ''.dll'']
      then p\<lparr>pa_library_files := pa_library_files p @ [arg]\<rparr>
      else p)"

text \<open>One turn of the loop.\<close>

definition parse_arg :: "string \<Rightarrow> string list \<Rightarrow> ParsedArgs \<Rightarrow> ParsedArgs \<times> string list" where
  "parse_arg arg rest p =
     (if arg = ''-c'' then (p\<lparr>pa_mode := ModeCompileOnly\<rparr>, rest)
      else if arg = ''-shared'' then
        (p\<lparr>pa_is_shared_library := True, pa_linker_flags := pa_linker_flags p @ [arg]\<rparr>, rest)
      else if arg = ''-o'' then
        (case rest of [] \<Rightarrow> (p, []) | v # rest' \<Rightarrow> (p\<lparr>pa_output_file := v\<rparr>, rest'))
      else if has_prefix arg ''-I'' then
        with_value (\<lambda>v. p\<lparr>pa_include_dirs := pa_include_dirs p @ [v]\<rparr>) arg rest p
      else if has_prefix arg ''-D'' then
        with_value (\<lambda>v. p\<lparr>pa_defines := pa_defines p @ [v]\<rparr>) arg rest p
      else if has_prefix arg ''-l'' then
        with_value (\<lambda>v. p\<lparr>pa_libraries := pa_libraries p @ [v]\<rparr>) arg rest p
      else if has_prefix arg ''-L'' then
        with_value (\<lambda>v. p\<lparr>pa_library_dirs := pa_library_dirs p @ [v]\<rparr>) arg rest p
      else if arg = ''--version'' \<or> arg = ''-v'' \<or> arg = ''-print-version'' then
        (p\<lparr>pa_compiler_flags := pa_compiler_flags p @ [arg]\<rparr>, rest)
      else if has_prefix arg ''-'' then
        (if isCompilerOnlyFlag arg then (p\<lparr>pa_compiler_flags := pa_compiler_flags p @ [arg]\<rparr>, rest)
         else (p\<lparr>pa_linker_flags := pa_linker_flags p @ [arg]\<rparr>, rest))
      else (add_input arg p, rest))"

lemma with_value_shorter: "length (snd (with_value upd arg rest p)) \<le> length rest"
  by (auto simp: with_value_def take_value_def split: list.split)

lemma parse_arg_shorter: "length (snd (parse_arg arg rest p)) \<le> length rest"
  unfolding parse_arg_def
  by (simp only: snd_conv le_refl with_value_shorter list.case list.size le_add1 split: if_split list.split)
     simp

function parse_loop :: "string list \<Rightarrow> ParsedArgs \<Rightarrow> ParsedArgs" where
  "parse_loop [] p = p"
| "parse_loop (arg # rest) p = (case parse_arg arg rest p of (p', rest') \<Rightarrow> parse_loop rest' p')"
  by pat_completeness auto
termination
proof (relation "measure (length \<circ> fst)")
  fix arg rest p p' rest'
  assume "(p', rest') = parse_arg arg rest p"
  then have "rest' = snd (parse_arg arg rest p)" by (metis snd_conv)
  then have "length rest' \<le> length rest" using parse_arg_shorter [of arg rest p] by simp
  then show "((rest', p'), (arg # rest, p)) \<in> measure (length \<circ> fst)" by simp
qed simp

definition ParseCommandLine :: "string list \<Rightarrow> ParsedArgs" where
  "ParseCommandLine args =
     (let p = parse_loop args (empty_args args)
      in if pa_mode p \<noteq> ModeCompileOnly \<and> length (pa_source_files p) = 0 \<and> 0 < length (pa_object_files p)
         then p\<lparr>pa_mode := ModeLink\<rparr> else p)"

definition DetectLanguage :: "string list \<Rightarrow> bool" where
  "DetectLanguage files = list_ex (\<lambda>f. Ext f \<in> {''.cpp'', ''.cc'', ''.cxx'', ''.c++''}) files"

section \<open>Validation\<close>

datatype CompilerType = GCC | GXX | Clang | ClangCxx

record CLIConfig =
  cli_name :: string
  cli_type :: CompilerType
  cli_supports_stdlib :: bool

record ParsedCLIArgs =
  pcl_language :: string
  pcl_standard :: string
  pcl_stdlib :: string

definition IsValidCompilerFlag :: "string \<Rightarrow> CompilerType \<Rightarrow> bool" where
  "IsValidCompilerFlag flag ct =
     (flag \<in> {''-c'', ''-S'', ''-E'', ''-v'', ''-###''} \<or>
      flag \<in> {''-o'', ''-x'', ''-B'', ''-std'', ''-specs'', ''-Xassembler'', ''-Xpreprocessor'', ''-Xlinker''} \<or>
      ((ct = GXX \<or> ct = ClangCxx) \<and> flag = ''-stdlib'') \<or>
      list_ex (has_prefix flag) [''-std='', ''--sysroot='', ''-specs='', ''-print-file-name='',
        ''-print-prog-name='', ''-save-temps=''] \<or>
      (ct = GXX \<and> has_prefix flag ''-stdlib='') \<or>
      list_ex (has_prefix flag) [''-O'', ''-g'', ''-f'', ''-W'', ''-m'', ''-D'', ''-I'', ''-L'', ''-l'', ''-Wl'',
        ''-Wp'', ''-Wa'', ''--param''] \<or>
      flag \<in> {''--version'', ''--help'', ''--target-help'', ''-pass-exit-codes'', ''-dumpspecs'',
        ''-dumpversion'', ''-dumpmachine'', ''-print-search-dirs'', ''-print-libgcc-file-name'',
        ''-print-multiarch'', ''-print-multi-directory'', ''-print-multi-lib'',
        ''-print-multi-os-directory'', ''-print-sysroot'', ''-print-sysroot-headers-suffix'',
        ''-pipe'', ''-time'', ''-no-canonical-prefixes'', ''-save-temps'', ''-shared'', ''-pie''} \<or>
      has_prefix flag ''--help='')"

text \<open>The three extractions of a turn, each of which may consume the next word. They see the word
  of the turn and the words after it as they are when they are reached.\<close>

definition cli_language :: "string \<Rightarrow> string list \<Rightarrow> ParsedCLIArgs \<Rightarrow> ParsedCLIArgs \<times> string list" where
  "cli_language arg rest p =
     (case rest of [] \<Rightarrow> (p, rest)
      | v # rest' \<Rightarrow> if arg = ''-x'' then (p\<lparr>pcl_language := v\<rparr>, rest') else (p, rest))"

definition cli_standard :: "string \<Rightarrow> string list \<Rightarrow> ParsedCLIArgs \<Rightarrow> ParsedCLIArgs \<times> string list" where
  "cli_standard arg rest p =
     (case rest of [] \<Rightarrow> (p, rest)
      | v # rest' \<Rightarrow>
          if arg = ''-std'' then (p\<lparr>pcl_standard := v\<rparr>, rest')
          else if has_prefix arg ''-std='' then (p\<lparr>pcl_standard := trim_prefix arg ''-std=''\<rparr>, rest)
          else (p, rest))"

definition cli_stdlib :: "CLIConfig \<Rightarrow> string \<Rightarrow> string list \<Rightarrow> ParsedCLIArgs \<Rightarrow> ParsedCLIArgs \<times> string list" where
  "cli_stdlib cfg arg rest p =
     (if \<not> (cli_supports_stdlib cfg \<or> cli_type cfg = ClangCxx) then (p, rest)
      else case rest of [] \<Rightarrow> (p, rest)
      | v # rest' \<Rightarrow>
          if arg = ''-stdlib'' then (p\<lparr>pcl_stdlib := v\<rparr>, rest')
          else if has_prefix arg ''-stdlib='' then (p\<lparr>pcl_stdlib := trim_prefix arg ''-stdlib=''\<rparr>, rest)
          else (p, rest))"

definition cli_extract :: "CLIConfig \<Rightarrow> string \<Rightarrow> string list \<Rightarrow> ParsedCLIArgs \<Rightarrow> ParsedCLIArgs \<times> string list" where
  "cli_extract cfg arg rest p =
     (case cli_language arg rest p of (p1, r1) \<Rightarrow>
        (case cli_standard arg r1 p1 of (p2, r2) \<Rightarrow> cli_stdlib cfg arg r2 p2))"

lemmas cli_extract_defs = cli_extract_def cli_language_def cli_standard_def cli_stdlib_def

lemma cli_extract_shorter: "length (snd (cli_extract cfg arg rest p)) \<le> length rest"
  by (auto simp: cli_extract_defs split: list.split)

function validate_loop ::
  "CLIConfig \<Rightarrow> string list \<Rightarrow> ParsedCLIArgs \<Rightarrow> string + ParsedCLIArgs" where
  "validate_loop cfg [] p = Ok p"
| "validate_loop cfg (arg # rest) p =
     (if \<not> IsValidCompilerFlag arg (cli_type cfg) then
        (if \<not> has_prefix arg ''-'' then validate_loop cfg rest p else Err arg)
      else case cli_extract cfg arg rest p of (p', rest') \<Rightarrow> validate_loop cfg rest' p')"
  by pat_completeness auto
termination
proof (relation "measure (\<lambda>(cfg, args, p). length args)")
  fix cfg :: CLIConfig and arg rest p p' rest'
  assume "(p', rest') = cli_extract cfg arg rest p"
  then have "rest' = snd (cli_extract cfg arg rest p)" by (metis snd_conv)
  then have "length rest' \<le> length rest" using cli_extract_shorter [of cfg arg rest p] by simp
  then show "((cfg, rest', p'), (cfg, arg # rest, p)) \<in> measure (\<lambda>(cfg, args, p). length args)" by simp
qed auto

text \<open>The error is the option that was not recognized.\<close>

definition ValidateAndParseArgs :: "string list \<Rightarrow> CLIConfig \<Rightarrow> string + ParsedCLIArgs" where
  "ValidateAndParseArgs args cfg =
     validate_loop cfg args \<lparr>pcl_language = '''', pcl_standard = '''', pcl_stdlib = ''''\<rparr>"

section \<open>Flags that change the runtime\<close>

record CompilerFlagDetails =
  cfd_version :: string
  cfd_architecture :: string
  cfd_c_standard :: string
  cfd_cpp_standard :: string
  cfd_stdlib :: string
  cfd_optimization :: string

definition isVersion :: "string \<Rightarrow> bool" where
  "isVersion s = (s \<noteq> [] \<and>
     list_all (\<lambda>(i, ch). is_digit ch \<or> (ch = CHR ''.'' \<and> 0 < i \<and> i < length s - 1)) (enumerate 0 s))"

definition set_standard :: "string \<Rightarrow> CompilerFlagDetails \<Rightarrow> CompilerFlagDetails" where
  "set_standard std d =
     (if has_prefix std ''c++'' then d\<lparr>cfd_cpp_standard := std\<rparr>
      else if has_prefix std ''c'' then d\<lparr>cfd_c_standard := std\<rparr> else d)"

definition extract_arg ::
  "string \<Rightarrow> string list \<Rightarrow> CompilerFlagDetails \<Rightarrow> CompilerFlagDetails \<times> string list" where
  "extract_arg arg rest d =
     (if has_prefix arg ''-v'' \<and> 2 < length arg \<and> isVersion (drop 2 arg)
      then (d\<lparr>cfd_version := drop 2 arg\<rparr>, rest)
      else if has_prefix arg ''-march='' then (d\<lparr>cfd_architecture := drop 7 arg\<rparr>, rest)
      else if has_prefix arg ''-mtune='' then (d\<lparr>cfd_architecture := drop 7 arg\<rparr>, rest)
      else if arg = ''-m64'' then (d\<lparr>cfd_architecture := ''x86_64''\<rparr>, rest)
      else if arg = ''-m32'' then (d\<lparr>cfd_architecture := ''i386''\<rparr>, rest)
      else if arg = ''-march'' \<and> rest \<noteq> [] then (d\<lparr>cfd_architecture := hd rest\<rparr>, tl rest)
      else if has_prefix arg ''-std='' then (set_standard (drop 5 arg) d, rest)
      else if arg = ''-std'' \<and> rest \<noteq> [] then (set_standard (hd rest) d, tl rest)
      else if has_prefix arg ''-stdlib='' then (d\<lparr>cfd_stdlib := drop 8 arg\<rparr>, rest)
      else if arg = ''-stdlib'' \<and> rest \<noteq> [] then (d\<lparr>cfd_stdlib := hd rest\<rparr>, tl rest)
      else if has_prefix arg ''-O'' \<and> 2 < length arg then (d\<lparr>cfd_optimization := drop 2 arg\<rparr>, rest)
      else (d, rest))"

lemma extract_arg_shorter: "length (snd (extract_arg arg rest d)) \<le> length rest"
  by (auto simp: extract_arg_def)

function extract_loop :: "string list \<Rightarrow> CompilerFlagDetails \<Rightarrow> CompilerFlagDetails" where
  "extract_loop [] d = d"
| "extract_loop (arg # rest) d = (case extract_arg arg rest d of (d', rest') \<Rightarrow> extract_loop rest' d')"
  by pat_completeness auto
termination
proof (relation "measure (length \<circ> fst)")
  fix arg rest d d' rest'
  assume "(d', rest') = extract_arg arg rest d"
  then have "rest' = snd (extract_arg arg rest d)" by (metis snd_conv)
  then have "length rest' \<le> length rest" using extract_arg_shorter [of arg rest d] by simp
  then show "((rest', d'), (arg # rest, d)) \<in> measure (length \<circ> fst)" by simp
qed simp

definition no_details :: CompilerFlagDetails where
  "no_details = \<lparr>cfd_version = '''', cfd_architecture = '''', cfd_c_standard = '''',
     cfd_cpp_standard = '''', cfd_stdlib = '''', cfd_optimization = ''''\<rparr>"

definition ExtractCompilerFlags :: "string list \<Rightarrow> CompilerFlagDetails" where
  "ExtractCompilerFlags args = extract_loop args no_details"

section \<open>The words of a command line\<close>

text \<open>A command line, word by word: an option with its value (in the same word, or in the next
  one), another flag, or an input.\<close>

datatype cli_word =
  CompileOnly | Shared | Output string
| IncludeDir bool string | Define bool string | Library bool string | LibraryDir bool string
| Flag string | Input string

definition render_value :: "string \<Rightarrow> bool \<Rightarrow> string \<Rightarrow> string list" where
  "render_value opt attached v = (if attached then [opt @ v] else [opt, v])"

fun render_word :: "cli_word \<Rightarrow> string list" where
  "render_word CompileOnly = [''-c'']"
| "render_word Shared = [''-shared'']"
| "render_word (Output v) = [''-o'', v]"
| "render_word (IncludeDir a v) = render_value ''-I'' a v"
| "render_word (Define a v) = render_value ''-D'' a v"
| "render_word (Library a v) = render_value ''-l'' a v"
| "render_word (LibraryDir a v) = render_value ''-L'' a v"
| "render_word (Flag f) = [f]"
| "render_word (Input f) = [f]"

definition value_options :: "string list" where
  "value_options = [''-I'', ''-D'', ''-l'', ''-L'']"

fun word_ok :: "cli_word \<Rightarrow> bool" where
  "word_ok (IncludeDir a v) = (a \<longrightarrow> v \<noteq> '''')"
| "word_ok (Define a v) = (a \<longrightarrow> v \<noteq> '''')"
| "word_ok (Library a v) = (a \<longrightarrow> v \<noteq> '''')"
| "word_ok (LibraryDir a v) = (a \<longrightarrow> v \<noteq> '''')"
| "word_ok (Flag f) = (has_prefix f ''-'' \<and> f \<notin> {''-c'', ''-shared'', ''-o''} \<and>
     \<not> list_ex (has_prefix f) value_options)"
| "word_ok (Input f) = (\<not> has_prefix f ''-'')"
| "word_ok _ = True"

definition input_words :: "cli_word list \<Rightarrow> string list" where
  "input_words ws = List.map_filter (\<lambda>w. case w of Input f \<Rightarrow> Some f | _ \<Rightarrow> None) ws"

definition flag_words :: "cli_word list \<Rightarrow> string list" where
  "flag_words ws = List.map_filter (\<lambda>w. case w of Flag f \<Rightarrow> Some f | Shared \<Rightarrow> Some ''-shared'' | _ \<Rightarrow> None) ws"

definition is_source :: "string \<Rightarrow> bool" where
  "is_source f = list_ex (has_suffix f) [''.c'', ''.cpp'', ''.cc'', ''.cxx'', ''.C'', ''.c++'']"

definition is_object :: "string \<Rightarrow> bool" where
  "is_object f = (\<not> is_source f \<and> has_suffix f ''.o'')"

definition is_library :: "string \<Rightarrow> bool" where
  "is_library f = (\<not> is_source f \<and> \<not> is_object f \<and> list_ex (has_suffix f) [''.a'', ''.so'', ''.lib'', ''.dll''])"

definition compiler_flag :: "string \<Rightarrow> bool" where
  "compiler_flag f = (f \<in> {''--version'', ''-v'', ''-print-version''} \<or> isCompilerOnlyFlag f)"

fun last_output :: "string \<Rightarrow> cli_word list \<Rightarrow> string" where
  "last_output v [] = v"
| "last_output v (w # ws) = last_output (case w of Output v' \<Rightarrow> v' | _ \<Rightarrow> v) ws"

text \<open>What the words of a command line say, category by category.\<close>

definition classify :: "string list \<Rightarrow> cli_word list \<Rightarrow> ParsedArgs" where
  "classify args ws =
     \<lparr>pa_source_files = filter is_source (input_words ws), pa_object_files = filter is_object (input_words ws),
      pa_output_file = last_output '''' ws,
      pa_defines = List.map_filter (\<lambda>w. case w of Define _ v \<Rightarrow> Some v | _ \<Rightarrow> None) ws,
      pa_include_dirs = List.map_filter (\<lambda>w. case w of IncludeDir _ v \<Rightarrow> Some v | _ \<Rightarrow> None) ws,
      pa_libraries = List.map_filter (\<lambda>w. case w of Library _ v \<Rightarrow> Some v | _ \<Rightarrow> None) ws,
      pa_library_files = filter is_library (input_words ws),
      pa_library_dirs = List.map_filter (\<lambda>w. case w of LibraryDir _ v \<Rightarrow> Some v | _ \<Rightarrow> None) ws,
      pa_compiler_flags = filter compiler_flag (flag_words ws),
      pa_linker_flags = filter (\<lambda>f. \<not> compiler_flag f) (flag_words ws),
      pa_mode = (if CompileOnly \<in> set ws then ModeCompileOnly
        else if filter is_source (input_words ws) = [] \<and> filter is_object (input_words ws) \<noteq> [] then ModeLink
        else ModeCompileAndLink),
      pa_is_shared_library = (Shared \<in> set ws), pa_original_args = args\<rparr>"

fun word_effect :: "cli_word \<Rightarrow> ParsedArgs \<Rightarrow> ParsedArgs" where
  "word_effect CompileOnly p = p\<lparr>pa_mode := ModeCompileOnly\<rparr>"
| "word_effect Shared p = p\<lparr>pa_is_shared_library := True, pa_linker_flags := pa_linker_flags p @ [''-shared'']\<rparr>"
| "word_effect (Output v) p = p\<lparr>pa_output_file := v\<rparr>"
| "word_effect (IncludeDir _ v) p = p\<lparr>pa_include_dirs := pa_include_dirs p @ [v]\<rparr>"
| "word_effect (Define _ v) p = p\<lparr>pa_defines := pa_defines p @ [v]\<rparr>"
| "word_effect (Library _ v) p = p\<lparr>pa_libraries := pa_libraries p @ [v]\<rparr>"
| "word_effect (LibraryDir _ v) p = p\<lparr>pa_library_dirs := pa_library_dirs p @ [v]\<rparr>"
| "word_effect (Flag f) p = (if compiler_flag f then p\<lparr>pa_compiler_flags := pa_compiler_flags p @ [f]\<rparr>
     else p\<lparr>pa_linker_flags := pa_linker_flags p @ [f]\<rparr>)"
| "word_effect (Input f) p = add_input f p"

lemma has_prefix_simps [simp]:
  "has_prefix s []" "has_prefix (x # s) (y # p) \<longleftrightarrow> x = y \<and> has_prefix s p"
  "\<not> has_prefix [] (y # p)"
  by (auto simp: has_prefix_def)

lemma take_value_render:
  "a \<longrightarrow> v \<noteq> '''' \<Longrightarrow> length opt = 2 \<Longrightarrow> \<exists>arg rest'. render_value opt a v @ rest = arg # rest' \<and>
     take_value arg rest' = (Some v, rest) \<and> has_prefix arg opt"
  by (cases a) (auto simp: render_value_def take_value_def has_prefix_def)

lemma parse_word:
  assumes "word_ok w"
  shows "parse_loop (render_word w @ rest) p = parse_loop rest (word_effect w p)"
proof (cases w)
  case (Flag f)
  with assms have f: "has_prefix f ''-''" "f \<noteq> ''-c''" "f \<noteq> ''-shared''" "f \<noteq> ''-o''" "\<not> has_prefix f ''-I''"
    "\<not> has_prefix f ''-D''" "\<not> has_prefix f ''-l''" "\<not> has_prefix f ''-L''" by (simp_all add: value_options_def)
  have "parse_arg f rest p = (word_effect w p, rest)"
    unfolding parse_arg_def Flag word_effect.simps compiler_flag_def
    using f by (simp only: if_True if_False insert_iff empty_iff simp_thms split: if_split) blast
  then show ?thesis by (simp add: Flag)
next
  case (Input f)
  with assms have nf: "\<not> has_prefix f ''-''" by simp
  then have "f \<noteq> ''-c''" "f \<noteq> ''-shared''" "f \<noteq> ''-o''" "f \<noteq> ''--version''" "f \<noteq> ''-v''" "f \<noteq> ''-print-version''"
    "\<not> has_prefix f ''-I''" "\<not> has_prefix f ''-D''" "\<not> has_prefix f ''-l''" "\<not> has_prefix f ''-L''"
    by (cases f; auto)+
  then have "parse_arg f rest p = (add_input f p, rest)"
    unfolding parse_arg_def using nf by (simp only: if_False simp_thms)
  then show ?thesis by (simp add: Input)
next
  case (IncludeDir a v)
  with assms take_value_render [of a v "''-I''" rest] show ?thesis
    by (auto simp: parse_arg_def with_value_def)
qed (use assms in \<open>(auto simp: parse_arg_def with_value_def render_value_def take_value_def
       split: if_splits)\<close>)

lemma parse_words:
  "list_all word_ok ws \<Longrightarrow>
   parse_loop (concat (map render_word ws) @ rest) p = parse_loop rest (fold word_effect ws p)"
  by (induction ws arbitrary: p) (simp_all add: parse_word)

text \<open>The fields after some words, one by one.\<close>
lemma add_input_simps [simp]:
  "pa_source_files (add_input f p) = pa_source_files p @ filter is_source [f]"
  "pa_object_files (add_input f p) = pa_object_files p @ filter is_object [f]"
  "pa_library_files (add_input f p) = pa_library_files p @ filter is_library [f]"
  "pa_output_file (add_input f p) = pa_output_file p" "pa_defines (add_input f p) = pa_defines p"
  "pa_include_dirs (add_input f p) = pa_include_dirs p" "pa_libraries (add_input f p) = pa_libraries p"
  "pa_library_dirs (add_input f p) = pa_library_dirs p"
  "pa_compiler_flags (add_input f p) = pa_compiler_flags p" "pa_linker_flags (add_input f p) = pa_linker_flags p"
  "pa_mode (add_input f p) = pa_mode p" "pa_is_shared_library (add_input f p) = pa_is_shared_library p"
  "pa_original_args (add_input f p) = pa_original_args p"
  unfolding add_input_def is_source_def [symmetric] is_object_def is_library_def by simp_all

lemma fold_inputs:
  "pa_source_files (fold word_effect ws p) = pa_source_files p @ filter is_source (input_words ws)"
  "pa_object_files (fold word_effect ws p) = pa_object_files p @ filter is_object (input_words ws)"
  "pa_library_files (fold word_effect ws p) = pa_library_files p @ filter is_library (input_words ws)"
proof (induction ws arbitrary: p)
  case (Cons w ws)
  case 1 show ?case using Cons(1) by (cases w) (simp_all add: input_words_def map_filter_simps)
  case 2 show ?case using Cons(2) by (cases w) (simp_all add: input_words_def map_filter_simps)
  case 3 show ?case using Cons(3) by (cases w) (simp_all add: input_words_def map_filter_simps)
qed (simp_all add: input_words_def map_filter_simps)

lemma fold_flags:
  "pa_compiler_flags (fold word_effect ws p) = pa_compiler_flags p @ filter compiler_flag (flag_words ws)"
  "pa_linker_flags (fold word_effect ws p) = pa_linker_flags p @ filter (\<lambda>f. \<not> compiler_flag f) (flag_words ws)"
proof (induction ws arbitrary: p)
  case (Cons w ws)
  have shared: "\<not> compiler_flag ''-shared''" by (simp add: compiler_flag_def isCompilerOnlyFlag_def)
  case 1 show ?case using Cons(1) shared by (cases w) (simp_all add: flag_words_def map_filter_simps)
  case 2 show ?case using Cons(2) shared by (cases w) (simp_all add: flag_words_def map_filter_simps)
qed (simp_all add: flag_words_def map_filter_simps)

lemma fold_values:
  "pa_defines (fold word_effect ws p) = pa_defines p @ pa_defines (classify args ws)"
  "pa_include_dirs (fold word_effect ws p) = pa_include_dirs p @ pa_include_dirs (classify args ws)"
  "pa_libraries (fold word_effect ws p) = pa_libraries p @ pa_libraries (classify args ws)"
  "pa_library_dirs (fold word_effect ws p) = pa_library_dirs p @ pa_library_dirs (classify args ws)"
proof (induction ws arbitrary: p)
  case (Cons w ws)
  case 1 show ?case using Cons(1) by (cases w) (simp_all add: classify_def map_filter_simps)
  case 2 show ?case using Cons(2) by (cases w) (simp_all add: classify_def map_filter_simps)
  case 3 show ?case using Cons(3) by (cases w) (simp_all add: classify_def map_filter_simps)
  case 4 show ?case using Cons(4) by (cases w) (simp_all add: classify_def map_filter_simps)
qed (simp_all add: classify_def map_filter_simps)

lemma fold_modes:
  "pa_output_file (fold word_effect ws p) = last_output (pa_output_file p) ws"
  "pa_mode (fold word_effect ws p) = (if CompileOnly \<in> set ws then ModeCompileOnly else pa_mode p)"
  "pa_is_shared_library (fold word_effect ws p) \<longleftrightarrow> Shared \<in> set ws \<or> pa_is_shared_library p"
  "pa_original_args (fold word_effect ws p) = pa_original_args p"
proof (induction ws arbitrary: p)
  case (Cons w ws)
  case 1 show ?case using Cons(1) by (cases w) simp_all
  case 2 show ?case using Cons(2) by (cases w) simp_all
  case 3 show ?case using Cons(3) by (cases w) simp_all
  case 4 show ?case using Cons(4) by (cases w) simp_all
qed simp_all

text \<open>A last word that is an option without its value is dropped.\<close>

definition lone_option :: "string list \<Rightarrow> bool" where
  "lone_option rest = (rest = [] \<or> (\<exists>opt\<in>set (''-o'' # value_options). rest = [opt]))"

lemma parse_lone_option: "lone_option rest \<Longrightarrow> parse_loop rest p = p"
  by (auto simp: lone_option_def value_options_def parse_arg_def with_value_def take_value_def)

lemma classified:
  assumes "list_all word_ok ws" and "lone_option rest"
  shows "ParseCommandLine (concat (map render_word ws) @ rest) =
    classify (concat (map render_word ws) @ rest) ws"
proof -
  let ?args = "concat (map render_word ws) @ rest"
  have "parse_loop ?args (empty_args ?args) = fold word_effect ws (empty_args ?args)"
    using assms by (simp add: parse_words parse_lone_option)
  then show ?thesis
    by (simp add: ParseCommandLine_def Let_def)
       (simp add: fold_inputs fold_flags fold_values [where args = ?args] fold_modes empty_args_def
         classify_def)
qed

text \<open>Every command line is made of words.\<close>
lemma next_word:
  assumes "args \<noteq> []" and "\<not> lone_option args"
  obtains w rest where "word_ok w" "args = render_word w @ rest" "length rest < length args"
proof -
  note found = that
  obtain arg rest where args: "args = arg # rest" using assms(1) by (cases args) auto
  have opt_word: thesis
    if opt: "has_prefix arg opt" "opt \<in> set value_options"
      and ok: "\<And>a v. (a \<longrightarrow> v \<noteq> '''') \<Longrightarrow> word_ok (W a v) \<and> render_word (W a v) = render_value opt a v" for opt W
  proof (cases "arg = opt")
    case True
    with assms(2) opt args obtain v rest' where "rest = v # rest'"
      by (cases rest) (auto simp: lone_option_def)
    with True args ok [of False v] show thesis by (intro found [of "W False v" rest']) (auto simp: render_value_def)
  next
    case False
    with opt obtain v where "arg = opt @ v" "v \<noteq> ''''"
      by (auto simp: has_prefix_iff prefix_def)
    with args ok [of True v] show thesis by (intro found [of "W True v" rest]) (auto simp: render_value_def)
  qed
  consider "arg = ''-c''" | "arg = ''-shared''" | "arg = ''-o''" | "has_prefix arg ''-I''"
    | "has_prefix arg ''-D''" | "has_prefix arg ''-l''" | "has_prefix arg ''-L''"
    | "word_ok (Flag arg)" | "word_ok (Input arg)"
    by (auto simp: value_options_def)
  then show thesis
  proof cases
    case 1 then show thesis using args found [of CompileOnly rest] by simp
  next
    case 2 then show thesis using args found [of Shared rest] by simp
  next
    case 3
    with assms(2) args obtain v rest' where "rest = v # rest'" by (cases rest) (auto simp: lone_option_def)
    with 3 args show thesis using found [of "Output v" rest'] by simp
  next
    case 4 then show thesis by (rule opt_word [of _ IncludeDir]) (auto simp: value_options_def)
  next
    case 5 then show thesis by (rule opt_word [of _ Define]) (auto simp: value_options_def)
  next
    case 6 then show thesis by (rule opt_word [of _ Library]) (auto simp: value_options_def)
  next
    case 7 then show thesis by (rule opt_word [of _ LibraryDir]) (auto simp: value_options_def)
  next
    case 8 then show thesis using args found [of "Flag arg" rest] by simp
  next
    case 9 then show thesis using args found [of "Input arg" rest] by simp
  qed
qed

lemma words_exist:
  "\<exists>ws rest. list_all word_ok ws \<and> lone_option rest \<and> args = concat (map render_word ws) @ rest"
proof (induction args rule: length_induct)
  case (1 args)
  show ?case
  proof (cases "lone_option args")
    case True
    then show ?thesis by (intro exI [of _ "[]"] exI [of _ args]) simp
  next
    case False
    then have "args \<noteq> []" by (auto simp: lone_option_def)
    from next_word [OF this False] obtain w rest where w: "word_ok w" "args = render_word w @ rest"
      "length rest < length args" .
    with 1 obtain ws rest' where "list_all word_ok ws" "lone_option rest'"
      "rest = concat (map render_word ws) @ rest'" by blast
    with w show ?thesis by (intro exI [of _ "w # ws"] exI [of _ rest']) simp
  qed
qed

lemma ParseCommandLine_words:
  "\<exists>ws rest. list_all word_ok ws \<and> lone_option rest \<and> args = concat (map render_word ws) @ rest \<and>
     ParseCommandLine args = classify args ws"
  using words_exist [of args] classified by metis

text \<open>C5. The parser sorts every command line completely: a command line is a sequence of words (an
  option with its value attached or in the next word, a flag, an input), possibly followed by one
  option that lacks its value, and the result has in each category the values of the words of
  that category, in order; the last output wins; the mode is compile-only with -c, link with
  objects and no sources, and compile-and-link otherwise.\<close>
theorem ParseCommandLine_spec:
  shows "\<exists>ws rest. list_all word_ok ws \<and> lone_option rest \<and> args = concat (map render_word ws) @ rest \<and>
    ParseCommandLine args = classify args ws"
  by (rule ParseCommandLine_words)

end
