(* ===== verification/GccConfig.thy ===== *)
theory GccConfig
  imports GccArgs NativeRuntime
begin

text \<open>
  The runtimes of the C and C++ compiler drivers (pkg/drivers/cpp/gcc_common: config.go,
  runtime_id.go, runtime_validation.go, compiler_flags.go; pkg/drivers/cpp/gcc and gxx:
  config.go): from a configuration map to a runtime identifier, the change of a runtime by flags of
  the command line, and the check that a runtime suits a driver.
\<close>

section \<open>Configuration maps\<close>

text \<open>The values of a configuration map are interface values: nil, a string, or anything else.\<close>

datatype config_value = CfgNil | CfgString string | CfgOther

type_synonym config_map = "(string, config_value) gomap"

datatype config_error =
  ConfigMapNil
| MissingField string
| InvalidField string string
| UnknownConfigType string
| FieldNotString string
| DriverNotFound string
| NoConstructRuntimeID

definition required_string :: "config_map \<Rightarrow> string \<Rightarrow> config_error + string" where
  "required_string m k = (case gm_get m k of
     Some (CfgString s) \<Rightarrow> if s = '''' then Err (MissingField k) else Ok s
   | _ \<Rightarrow> Err (MissingField k))"

definition extractCRuntime :: "config_map \<Rightarrow> config_error + NativeCRuntime" where
  "extractCRuntime m = (case required_string m ''c_runtime'' of
     Inl e \<Rightarrow> Err e
   | Inr s \<Rightarrow> if s = ''glibc'' then Ok CRuntimeGlibc else if s = ''musl'' then Ok CRuntimeMusl
             else Err (InvalidField ''c_runtime'' s))"

definition extractArchitecture :: "config_map \<Rightarrow> config_error + Architecture" where
  "extractArchitecture m = (case required_string m ''architecture'' of
     Inl e \<Rightarrow> Err e
   | Inr s \<Rightarrow> if s = ''x86_64'' then Ok ArchitectureX86_64 else if s = ''aarch64'' then Ok ArchitectureAArch64
             else if s = ''arm'' then Ok ArchitectureARM else Err (InvalidField ''architecture'' s))"

definition extractCppStdlib :: "config_map \<Rightarrow> config_error + NativeCppStdlib" where
  "extractCppStdlib m = (case required_string m ''cpp_stdlib'' of
     Inl e \<Rightarrow> Err e
   | Inr s \<Rightarrow> if s = ''libstdc++'' then Ok CppStdlibLibstdcxx else if s = ''libc++'' then Ok CppStdlibLibcxx
             else Err (InvalidField ''cpp_stdlib'' s))"

text \<open>The C drivers share one shape of configuration, the C++ drivers another.\<close>

record CConfig =
  cfg_compiler_version :: string
  cfg_c_runtime :: NativeCRuntime
  cfg_c_runtime_version :: string
  cfg_architecture :: Architecture

record CxxConfig = CConfig +
  cfg_cpp_stdlib :: NativeCppStdlib

datatype DriverConfig =
  GccConfig CConfig | GxxConfig CxxConfig | ClangConfig CConfig | ClangxxConfig CxxConfig

definition config_c ::
  "config_map \<Rightarrow> NativeCRuntime \<Rightarrow> string \<Rightarrow> Architecture \<Rightarrow> config_error + CConfig" where
  "config_c m cRuntime cRuntimeVersion architecture =
     (case required_string m ''compiler_version'' of
        Inl e \<Rightarrow> Err e
      | Inr v \<Rightarrow> Ok \<lparr>cfg_compiler_version = v, cfg_c_runtime = cRuntime,
          cfg_c_runtime_version = cRuntimeVersion, cfg_architecture = architecture\<rparr>)"

definition config_cxx ::
  "config_map \<Rightarrow> NativeCRuntime \<Rightarrow> string \<Rightarrow> Architecture \<Rightarrow> config_error + CxxConfig" where
  "config_cxx m cRuntime cRuntimeVersion architecture =
     (case required_string m ''compiler_version'' of
        Inl e \<Rightarrow> Err e
      | Inr v \<Rightarrow> (case extractCppStdlib m of
          Inl e \<Rightarrow> Err e
        | Inr stdlib \<Rightarrow> Ok \<lparr>cfg_compiler_version = v, cfg_c_runtime = cRuntime,
            cfg_c_runtime_version = cRuntimeVersion, cfg_architecture = architecture,
            cfg_cpp_stdlib = stdlib\<rparr>))"

definition ConfigFromMap :: "string \<Rightarrow> config_map option \<Rightarrow> config_error + DriverConfig" where
  "ConfigFromMap configType cfgMap =
     (case cfgMap of None \<Rightarrow> Err ConfigMapNil
      | Some m \<Rightarrow> (case extractCRuntime m of
          Inl e \<Rightarrow> Err e
        | Inr cRuntime \<Rightarrow> (case required_string m ''c_runtime_version'' of
          Inl e \<Rightarrow> Err e
        | Inr cRuntimeVersion \<Rightarrow> (case extractArchitecture m of
          Inl e \<Rightarrow> Err e
        | Inr architecture \<Rightarrow>
            if configType = ''gcc'' then map_sum id GccConfig (config_c m cRuntime cRuntimeVersion architecture)
            else if configType = ''g++'' then map_sum id GxxConfig (config_cxx m cRuntime cRuntimeVersion architecture)
            else if configType = ''clang'' then map_sum id ClangConfig (config_c m cRuntime cRuntimeVersion architecture)
            else if configType = ''clang++'' then map_sum id ClangxxConfig (config_cxx m cRuntime cRuntimeVersion architecture)
            else Err (UnknownConfigType configType)))))"

section \<open>Runtime identifiers\<close>

definition construct_c :: "string \<Rightarrow> CConfig \<Rightarrow> string" where
  "construct_c compiler cfg =
     ''native_linux-c-'' @ compiler @ ''-'' @ cfg_compiler_version cfg @ ''-'' @ CRuntime_String (cfg_c_runtime cfg)
     @ ''-'' @ cfg_c_runtime_version cfg @ ''-'' @ Architecture_String (cfg_architecture cfg)"

definition construct_cxx :: "string \<Rightarrow> CxxConfig \<Rightarrow> string" where
  "construct_cxx compiler cfg =
     ''native_linux-cpp-'' @ compiler @ ''-'' @ cfg_compiler_version cfg @ ''-'' @ CRuntime_String (cfg_c_runtime cfg)
     @ ''-'' @ cfg_c_runtime_version cfg @ ''-'' @ CppStdlib_String (cfg_cpp_stdlib cfg)
     @ ''-'' @ Architecture_String (cfg_architecture cfg)"

fun ConstructRuntimeIDFromConfig :: "DriverConfig \<Rightarrow> string" where
  "ConstructRuntimeIDFromConfig (GccConfig cfg) = construct_c ''gcc'' cfg"
| "ConstructRuntimeIDFromConfig (GxxConfig cfg) = construct_cxx ''gcc'' cfg"
| "ConstructRuntimeIDFromConfig (ClangConfig cfg) = construct_c ''clang'' cfg"
| "ConstructRuntimeIDFromConfig (ClangxxConfig cfg) = construct_cxx ''clang'' cfg"

text \<open>The method of the four compiler drivers: the configuration is read under the driver's name.\<close>

definition ConstructRuntimeID :: "string \<Rightarrow> config_map option \<Rightarrow> config_error + string" where
  "ConstructRuntimeID name cfgMap = map_sum id ConstructRuntimeIDFromConfig (ConfigFromMap name cfgMap)"

section \<open>The runtime a driver accepts\<close>

datatype compat_reason =
  ReasonRuntimeNil
| ReasonNotCpp string
| ReasonCompiler string CppCompiler
| ReasonLanguage string CppLanguage
| ReasonSupported

record RuntimeCompatibility =
  rc_is_compatible :: bool
  rc_reason :: compat_reason

definition validate_runtime :: "CppCompiler \<Rightarrow> CppLanguage \<Rightarrow> Runtime option \<Rightarrow> RuntimeCompatibility" where
  "validate_runtime compiler language runtime =
     (case runtime of
        None \<Rightarrow> \<lparr>rc_is_compatible = False, rc_reason = ReasonRuntimeNil\<rparr>
      | Some rt \<Rightarrow> (case GetCpp rt of
          None \<Rightarrow> \<lparr>rc_is_compatible = False, rc_reason = ReasonNotCpp (rt_id rt)\<rparr>
        | Some cpp \<Rightarrow>
            if cpp_compiler cpp \<noteq> compiler
            then \<lparr>rc_is_compatible = False, rc_reason = ReasonCompiler (rt_id rt) (cpp_compiler cpp)\<rparr>
            else if cpp_language cpp \<noteq> language
            then \<lparr>rc_is_compatible = False, rc_reason = ReasonLanguage (rt_id rt) (cpp_language cpp)\<rparr>
            else \<lparr>rc_is_compatible = True, rc_reason = ReasonSupported\<rparr>))"

definition ValidateRuntimeForC :: "Runtime option \<Rightarrow> RuntimeCompatibility" where
  "ValidateRuntimeForC = validate_runtime CPP_COMPILER_GCC CPP_LANGUAGE_C"

definition ValidateRuntimeForCxx :: "Runtime option \<Rightarrow> RuntimeCompatibility" where
  "ValidateRuntimeForCxx = validate_runtime CPP_COMPILER_GCC CPP_LANGUAGE_CPP"

definition ValidateRuntimeForClang :: "Runtime option \<Rightarrow> RuntimeCompatibility" where
  "ValidateRuntimeForClang = validate_runtime CPP_COMPILER_CLANG CPP_LANGUAGE_C"

definition ValidateRuntimeForClangxx :: "Runtime option \<Rightarrow> RuntimeCompatibility" where
  "ValidateRuntimeForClangxx = validate_runtime CPP_COMPILER_CLANG CPP_LANGUAGE_CPP"

fun ValidateRuntime :: "CompilerType \<Rightarrow> Runtime option \<Rightarrow> RuntimeCompatibility" where
  "ValidateRuntime GCC = ValidateRuntimeForC"
| "ValidateRuntime GXX = ValidateRuntimeForCxx"
| "ValidateRuntime Clang = ValidateRuntimeForClang"
| "ValidateRuntime ClangCxx = ValidateRuntimeForClangxx"

fun driver_name :: "CompilerType \<Rightarrow> string" where
  "driver_name GCC = ''gcc''"
| "driver_name GXX = ''g++''"
| "driver_name Clang = ''clang''"
| "driver_name ClangCxx = ''clang++''"

section \<open>Flags that change a runtime\<close>

text \<open>None is the error that the runtime is not a C or C++ runtime.\<close>

definition ModifyRuntimeWithFlags :: "Runtime \<Rightarrow> CompilerFlagDetails \<Rightarrow> Runtime option" where
  "ModifyRuntimeWithFlags baseRuntime flags =
     (case GetCpp baseRuntime of
        None \<Rightarrow> None
      | Some cpp \<Rightarrow>
          if cfd_version flags = '''' \<and> cfd_architecture flags = '''' \<and> cfd_stdlib flags = ''''
          then Some baseRuntime
          else
            (let cpp1 = (if cfd_version flags \<noteq> ''''
                   then cpp\<lparr>cpp_compiler_version := Some (parseVersion (cfd_version flags))\<rparr> else cpp);
                 cpp2 = (if cfd_architecture flags \<noteq> ''''
                   then cpp1\<lparr>cpp_architecture := parseArchitecture (cfd_architecture flags)\<rparr> else cpp1);
                 cpp3 = (if cfd_stdlib flags \<noteq> ''''
                   then cpp2\<lparr>cpp_stdlib := parseStdlib (cfd_stdlib flags)\<rparr> else cpp2);
                 modified = baseRuntime\<lparr>rt_spec := Runtime_Cpp (Some cpp3)\<rparr>
             in Some (modified\<lparr>rt_id := RuntimeToID modified\<rparr>)))"

definition ApplyToolArgs :: "Runtime \<Rightarrow> string list \<Rightarrow> Runtime option" where
  "ApplyToolArgs baseRuntime toolArgs = ModifyRuntimeWithFlags baseRuntime (ExtractCompilerFlags toolArgs)"

section \<open>The configurations of the gcc and g++ packages\<close>

record InitGccConfig =
  ig_compiler_version :: string
  ig_c_runtime :: string
  ig_c_runtime_version :: string
  ig_architecture :: string

record InitGxxConfig = InitGccConfig +
  ig_cpp_stdlib :: string

definition optional_string :: "config_map \<Rightarrow> string \<Rightarrow> config_error + string" where
  "optional_string m k = (case gm_get m k of
     None \<Rightarrow> Ok '''' | Some CfgNil \<Rightarrow> Ok '''' | Some (CfgString s) \<Rightarrow> Ok s | Some CfgOther \<Rightarrow> Err (FieldNotString k))"

definition gcc_InitConfig :: "config_map option \<Rightarrow> config_error + InitGccConfig" where
  "gcc_InitConfig cfgMap =
     (case cfgMap of None \<Rightarrow> Ok \<lparr>ig_compiler_version = '''', ig_c_runtime = '''', ig_c_runtime_version = '''',
          ig_architecture = ''''\<rparr>
      | Some m \<Rightarrow> (case optional_string m ''compiler_version'' of Inl e \<Rightarrow> Err e | Inr cv \<Rightarrow>
          (case optional_string m ''c_runtime'' of Inl e \<Rightarrow> Err e | Inr cr \<Rightarrow>
          (case optional_string m ''c_runtime_version'' of Inl e \<Rightarrow> Err e | Inr crv \<Rightarrow>
          (case optional_string m ''architecture'' of Inl e \<Rightarrow> Err e | Inr ar \<Rightarrow>
             Ok \<lparr>ig_compiler_version = cv, ig_c_runtime = cr, ig_c_runtime_version = crv, ig_architecture = ar\<rparr>)))))"

definition gxx_InitConfig :: "config_map option \<Rightarrow> config_error + InitGxxConfig" where
  "gxx_InitConfig cfgMap =
     (case cfgMap of None \<Rightarrow> Ok \<lparr>ig_compiler_version = '''', ig_c_runtime = '''', ig_c_runtime_version = '''',
          ig_architecture = '''', ig_cpp_stdlib = ''''\<rparr>
      | Some m \<Rightarrow> (case optional_string m ''compiler_version'' of Inl e \<Rightarrow> Err e | Inr cv \<Rightarrow>
          (case optional_string m ''c_runtime'' of Inl e \<Rightarrow> Err e | Inr cr \<Rightarrow>
          (case optional_string m ''c_runtime_version'' of Inl e \<Rightarrow> Err e | Inr crv \<Rightarrow>
          (case optional_string m ''cpp_stdlib'' of Inl e \<Rightarrow> Err e | Inr sl \<Rightarrow>
          (case optional_string m ''architecture'' of Inl e \<Rightarrow> Err e | Inr ar \<Rightarrow>
             Ok \<lparr>ig_compiler_version = cv, ig_c_runtime = cr, ig_c_runtime_version = crv, ig_architecture = ar,
                 ig_cpp_stdlib = sl\<rparr>))))))"

section \<open>The runtime a configuration names\<close>

lemma ParseRuntimeID_segments:
  assumes "\<forall>p\<in>set ps. CHR ''-'' \<notin> set p" and "2 \<le> length ps" and "lang = ''c'' \<or> lang = ''cpp''"
    and "rid = join_with ''-'' (''native_linux'' # lang # ps)"
  shows "ParseRuntimeID rid = (case CppRuntimeParser_Parse ps of
       Inl e \<Rightarrow> Err (ParserFailed rid e)
     | Inr r \<Rightarrow> Ok (r\<lparr>rt_id := rid, rt_platform := RUNTIME_PLATFORM_NATIVE_LINUX\<rparr>))"
proof -
  have split: "split_on (CHR ''-'') rid = ''native_linux'' # lang # ps"
    unfolding assms(4) using assms(1,3) by (intro split_on_join) auto
  then have "rid \<noteq> ''''" by force
  with split assms(2,3) show ?thesis
    by (auto simp: ParseRuntimeID_def parse_platform_stage_def ParseRuntimePlatform_def
        ParseRuntimeToolchain_def runtimeParsers_def Let_def split: sum.split)
qed

fun driver_language :: "CompilerType \<Rightarrow> CppLanguage" where
  "driver_language GCC = CPP_LANGUAGE_C"
| "driver_language Clang = CPP_LANGUAGE_C"
| "driver_language _ = CPP_LANGUAGE_CPP"

fun driver_compiler :: "CompilerType \<Rightarrow> CppCompiler" where
  "driver_compiler GCC = CPP_COMPILER_GCC"
| "driver_compiler GXX = CPP_COMPILER_GCC"
| "driver_compiler _ = CPP_COMPILER_CLANG"

lemma ValidateRuntime_iff:
  "rc_is_compatible (ValidateRuntime d rt) \<longleftrightarrow>
     (\<exists>r c. rt = Some r \<and> GetCpp r = Some c \<and> cpp_compiler c = driver_compiler d \<and>
        cpp_language c = driver_language d)"
  by (cases d) (auto simp: ValidateRuntimeForC_def ValidateRuntimeForCxx_def ValidateRuntimeForClang_def
      ValidateRuntimeForClangxx_def validate_runtime_def split: option.split)

text \<open>What a configuration says: the compiler version, the C runtime and its version, the standard
  library (C++ only) and the architecture.\<close>

definition config_segments :: "CompilerType \<Rightarrow> config_map \<Rightarrow> string list" where
  "config_segments d m =
     map (\<lambda>k. case required_string m k of Inl _ \<Rightarrow> '''' | Inr s \<Rightarrow> s)
       ([''compiler_version'', ''c_runtime'', ''c_runtime_version'']
        @ (if driver_language d = CPP_LANGUAGE_CPP then [''cpp_stdlib''] else []) @ [''architecture''])"

lemma required_string_get:
  "required_string m k = Ok s \<longleftrightarrow> gm_get m k = Some (CfgString s) \<and> s \<noteq> ''''"
  by (auto simp: required_string_def split: option.splits config_value.splits)

lemma extractCRuntime_Ok:
  "extractCRuntime m = Ok c \<Longrightarrow> required_string m ''c_runtime'' = Ok (CRuntime_String c) \<and> c \<noteq> CRuntimeUnspecified"
  by (auto simp: extractCRuntime_def split: sum.splits if_splits)

lemma extractArchitecture_Ok:
  "extractArchitecture m = Ok a \<Longrightarrow> required_string m ''architecture'' = Ok (Architecture_String a) \<and>
     a \<noteq> ArchitectureUnspecified"
  by (auto simp: extractArchitecture_def split: sum.splits if_splits)

lemma extractCppStdlib_Ok:
  "extractCppStdlib m = Ok l \<Longrightarrow> required_string m ''cpp_stdlib'' = Ok (CppStdlib_String l) \<and>
     l \<noteq> CppStdlibUnspecified"
  by (auto simp: extractCppStdlib_def split: sum.splits if_splits)

lemmas extract_Ok = extractCRuntime_Ok extractArchitecture_Ok extractCppStdlib_Ok

lemma ConstructRuntimeID_segments:
  assumes "ConstructRuntimeID (driver_name d) (Some m) = Ok rid"
  shows "rid = join_with ''-'' (''native_linux'' # languageToString (driver_language d)
      # compilerToString (driver_compiler d) # config_segments d m)"
    and "\<exists>cr a. required_string m ''c_runtime'' = Ok (CRuntime_String cr) \<and> cr \<noteq> CRuntimeUnspecified \<and>
      required_string m ''architecture'' = Ok (Architecture_String a) \<and> a \<noteq> ArchitectureUnspecified \<and>
      (driver_language d = CPP_LANGUAGE_CPP \<longrightarrow>
        (\<exists>l. required_string m ''cpp_stdlib'' = Ok (CppStdlib_String l) \<and> l \<noteq> CppStdlibUnspecified))"
  using assms
  by (cases d; auto simp: ConstructRuntimeID_def ConfigFromMap_def config_c_def config_cxx_def
      construct_c_def construct_cxx_def config_segments_def dest!: extract_Ok split: sum.splits)+

lemma native_names_clean:
  "CHR ''-'' \<notin> set (CRuntime_String cr)" "CHR ''-'' \<notin> set (Architecture_String a)"
  "CHR ''-'' \<notin> set (CppStdlib_String l)"
proof -
  show "CHR ''-'' \<notin> set (CRuntime_String cr)" by (cases cr) simp_all
  show "CHR ''-'' \<notin> set (Architecture_String a)" by (cases a) simp_all
  show "CHR ''-'' \<notin> set (CppStdlib_String l)" by (cases l) simp_all
qed

lemma parse_CRuntime_String:
  "cr \<noteq> CRuntimeUnspecified \<Longrightarrow> parseCRuntime (CRuntime_String cr) \<noteq> C_RUNTIME_UNSPECIFIED \<and>
     cRuntimeToString (parseCRuntime (CRuntime_String cr)) = CRuntime_String cr"
  by (cases cr) (simp_all add: parseCRuntime_def)

lemma parse_Architecture_String:
  "a \<noteq> ArchitectureUnspecified \<Longrightarrow> parseArchitecture (Architecture_String a) \<noteq> CPU_ARCHITECTURE_UNSPECIFIED \<and>
     architectureToString (parseArchitecture (Architecture_String a)) = Architecture_String a"
  by (cases a) (simp_all add: parseArchitecture_def)

lemma parse_CppStdlib_String:
  "l \<noteq> CppStdlibUnspecified \<Longrightarrow> parseStdlib (CppStdlib_String l) \<noteq> CPP_STDLIB_UNSPECIFIED \<and>
     stdlibToString (parseStdlib (CppStdlib_String l)) = CppStdlib_String l"
  by (cases l) (simp_all add: parseStdlib_def)

lemma driver_compiler_string:
  "parseCompiler (compilerToString (driver_compiler d)) = driver_compiler d"
  "driver_compiler d \<noteq> CPP_COMPILER_UNSPECIFIED"
  "CHR ''-'' \<notin> set (compilerToString (driver_compiler d))"
  "languageToString (driver_language d) = ''c'' \<or> languageToString (driver_language d) = ''cpp''"
  by (cases d; simp add: parseCompiler_def)+

text \<open>C27. The identifier a driver makes of its configuration is one ParseRuntimeID accepts, when the
  two versions have no hyphen: the runtime it gives is one the driver accepts, and has the
  compiler of the driver and the versions, C runtime, architecture and standard library of the
  configuration.\<close>
theorem configured_runtime:
  assumes "ConstructRuntimeID (driver_name d) (Some m) = Ok rid"
    and cv: "gm_get m ''compiler_version'' = Some (CfgString cv)" "CHR ''-'' \<notin> set cv"
    and rv: "gm_get m ''c_runtime_version'' = Some (CfgString rv)" "CHR ''-'' \<notin> set rv"
  shows "\<exists>r c. ParseRuntimeID rid = Ok r \<and> rt_id r = rid \<and> GetCpp r = Some c \<and>
    rc_is_compatible (ValidateRuntime d (Some r)) \<and>
    cpp_compiler_version c = Some (parseVersion cv) \<and> cpp_c_runtime_version c = Some (parseVersion rv) \<and>
    gm_get m ''c_runtime'' = Some (CfgString (cRuntimeToString (cpp_c_runtime c))) \<and>
    gm_get m ''architecture'' = Some (CfgString (architectureToString (cpp_architecture c))) \<and>
    (driver_language d = CPP_LANGUAGE_CPP \<longrightarrow>
      gm_get m ''cpp_stdlib'' = Some (CfgString (stdlibToString (cpp_stdlib c))))"
proof -
  note rid = ConstructRuntimeID_segments(1) [OF assms(1)]
  from ConstructRuntimeID_segments(2) [OF assms(1)] obtain cr a l where
    names: "required_string m ''c_runtime'' = Ok (CRuntime_String cr)" "cr \<noteq> CRuntimeUnspecified"
      "required_string m ''architecture'' = Ok (Architecture_String a)" "a \<noteq> ArchitectureUnspecified"
    and l: "driver_language d = CPP_LANGUAGE_CPP \<longrightarrow>
      required_string m ''cpp_stdlib'' = Ok (CppStdlib_String l) \<and> l \<noteq> CppStdlibUnspecified" by blast
  define segs where "segs = compilerToString (driver_compiler d) # [cv, CRuntime_String cr, rv]
    @ (if driver_language d = CPP_LANGUAGE_CPP then [CppStdlib_String l] else []) @ [Architecture_String a]"
  have versions: "required_string m ''compiler_version'' = (if cv = '''' then Err (MissingField ''compiler_version'') else Ok cv)"
    "required_string m ''c_runtime_version'' = (if rv = '''' then Err (MissingField ''c_runtime_version'') else Ok rv)"
    using cv rv by (simp_all add: required_string_def)
  have segs: "compilerToString (driver_compiler d) # config_segments d m = segs"
    using names l versions by (simp add: config_segments_def segs_def)
  have clean: "\<forall>p\<in>set segs. CHR ''-'' \<notin> set p"
    using cv(2) rv(2) by (auto simp: segs_def native_names_clean driver_compiler_string)
  have "ParseRuntimeID rid = (case CppRuntimeParser_Parse segs of
       Inl e \<Rightarrow> Err (ParserFailed rid e)
     | Inr r \<Rightarrow> Ok (r\<lparr>rt_id := rid, rt_platform := RUNTIME_PLATFORM_NATIVE_LINUX\<rparr>))"
    using rid segs clean driver_compiler_string(4) by (intro ParseRuntimeID_segments) (auto simp: segs_def)
  moreover have "cpp \<Longrightarrow> l \<noteq> CppStdlibUnspecified" if "cpp = (driver_language d = CPP_LANGUAGE_CPP)" for cpp
    using l that by simp
  moreover have "driver_language d = CPP_LANGUAGE_C \<or> driver_language d = CPP_LANGUAGE_CPP" by (cases d) auto
  ultimately show ?thesis
    using names l parse_CRuntime_String [of cr] parse_Architecture_String [of a] parse_CppStdlib_String [of l]
    by (auto simp: segs_def CppRuntimeParser_Parse_def Let_def driver_compiler_string
        ValidateRuntime_iff GetCpp_def required_string_get)
qed

definition sample_config :: config_map where
  "sample_config = [(''compiler_version'', CfgString ''10''), (''c_runtime'', CfgString ''glibc''),
     (''c_runtime_version'', CfgString ''2.31''), (''cpp_stdlib'', CfgString ''libc++''),
     (''architecture'', CfgString ''aarch64'')]"

lemma sample_config_id:
  "ConstructRuntimeID ''clang++'' (Some sample_config) =
     Ok ''native_linux-cpp-clang-10-glibc-2.31-libc++-aarch64''"
  by (simp add: ConstructRuntimeID_def ConfigFromMap_def config_cxx_def extractCRuntime_def
      extractArchitecture_def extractCppStdlib_def required_string_def sample_config_def construct_cxx_def)

theorem configured_runtime_witness:
  "\<exists>r c. ParseRuntimeID ''native_linux-cpp-clang-10-glibc-2.31-libc++-aarch64'' = Ok r \<and> GetCpp r = Some c \<and>
     rc_is_compatible (ValidateRuntimeForClangxx (Some r)) \<and> cpp_c_runtime_version c = Some (parseVersion ''2.31'')"
  using configured_runtime [of ClangCxx sample_config _ "''10''" "''2.31''"] sample_config_id
  by (simp add: sample_config_def) blast

text \<open>A version with a hyphen, such as the \<open>gcc-9\<close> the configuration's comment suggests, shifts the
  segments: the identifier is rejected.\<close>
theorem hyphenated_version_rejected:
  assumes "ConstructRuntimeID (driver_name d) (Some m) = Ok rid"
    and "gm_get m ''compiler_version'' = Some (CfgString (x @ ''-'' @ y))"
    and "CHR ''-'' \<notin> set x" "CHR ''-'' \<notin> set y" "y \<notin> {''glibc'', ''musl''}"
    and rv: "gm_get m ''c_runtime_version'' = Some (CfgString rv)" "CHR ''-'' \<notin> set rv"
  shows "ParseRuntimeID rid = Err (ParserFailed rid (InvalidCRuntime y))"
proof -
  note rid = ConstructRuntimeID_segments(1) [OF assms(1)]
  from ConstructRuntimeID_segments(2) [OF assms(1)] obtain cr a l where
    names: "required_string m ''c_runtime'' = Ok (CRuntime_String cr)"
      "required_string m ''architecture'' = Ok (Architecture_String a)"
    and l: "driver_language d = CPP_LANGUAGE_CPP \<longrightarrow>
      required_string m ''cpp_stdlib'' = Ok (CppStdlib_String l)" by blast
  define segs where "segs = compilerToString (driver_compiler d) # [x, y, CRuntime_String cr, rv]
    @ (if driver_language d = CPP_LANGUAGE_CPP then [CppStdlib_String l] else []) @ [Architecture_String a]"
  have "join_with ''-'' (compilerToString (driver_compiler d) # config_segments d m) = join_with ''-'' segs"
    using names l rv assms(2) by (simp add: config_segments_def segs_def required_string_def)
  then have "rid = join_with ''-'' (''native_linux'' # languageToString (driver_language d) # segs)"
    using rid by (simp add: segs_def)
  moreover have "\<forall>p\<in>set segs. CHR ''-'' \<notin> set p"
    using assms(3,4) rv(2) by (auto simp: segs_def native_names_clean driver_compiler_string)
  ultimately have "ParseRuntimeID rid = (case CppRuntimeParser_Parse segs of
       Inl e \<Rightarrow> Err (ParserFailed rid e)
     | Inr r \<Rightarrow> Ok (r\<lparr>rt_id := rid, rt_platform := RUNTIME_PLATFORM_NATIVE_LINUX\<rparr>))"
    using driver_compiler_string(4) by (intro ParseRuntimeID_segments) (auto simp: segs_def)
  moreover have "parseCRuntime y = C_RUNTIME_UNSPECIFIED" using assms(5) by (simp add: parseCRuntime_def)
  ultimately show ?thesis
    by (simp add: segs_def CppRuntimeParser_Parse_def Let_def driver_compiler_string)
qed

section \<open>Flags of the command line and the runtime\<close>

text \<open>A build asked for an architecture other than the three the identifiers know (-march=native,
  -mtune=generic or -m32, which the code calls i386) changes the runtime to one with no
  architecture, whose identifier is not accepted: it can be looked up by no daemon.\<close>
theorem unknown_architecture_unresolvable:
  assumes "ApplyToolArgs base args = Some rt" and "GetCpp base = Some cpp"
    and "cpp_language cpp \<noteq> CPP_LANGUAGE_UNSPECIFIED"
    and arch: "cfd_architecture (ExtractCompilerFlags args) \<notin> {'''', ''x86_64'', ''aarch64'', ''arm''}"
  shows "\<exists>e. ParseRuntimeID (rt_id rt) = Err e"
proof -
  let ?flags = "ExtractCompilerFlags args"
  define c where "c = cpp\<lparr>
    cpp_compiler_version := (if cfd_version ?flags = '''' then cpp_compiler_version cpp
      else Some (parseVersion (cfd_version ?flags))),
    cpp_architecture := parseArchitecture (cfd_architecture ?flags),
    cpp_stdlib := (if cfd_stdlib ?flags = '''' then cpp_stdlib cpp else parseStdlib (cfd_stdlib ?flags))\<rparr>"
  define modified where "modified = base\<lparr>rt_spec := Runtime_Cpp (Some c)\<rparr>"
  have "rt = modified\<lparr>rt_id := RuntimeToID modified\<rparr>"
    using assms(1,2) arch
    by (cases cpp) (auto simp: ApplyToolArgs_def ModifyRuntimeWithFlags_def Let_def modified_def c_def)
  then have m: "GetCpp modified = Some c" "rt = modified\<lparr>rt_id := RuntimeToID modified\<rparr>"
      "cpp_language c = cpp_language cpp" "cpp_architecture c = parseArchitecture (cfd_architecture ?flags)"
    by (simp_all add: modified_def c_def GetCpp_def)
  have "CppRuntimeParser_Parse (toolchain_segments c) \<noteq> Ok r" for r
    using m(4) arch by (auto simp: CppRuntimeParser_Parse_def toolchain_segments_def parseArchitecture_def Let_def
        split: if_splits)
  then obtain e where "CppRuntimeParser_Parse (toolchain_segments c) = Err e"
    by (cases "CppRuntimeParser_Parse (toolchain_segments c)") auto
  with m assms(3) ParseRuntimeID_generated [of modified c] show ?thesis by auto
qed

theorem unknown_architecture_unresolvable_witness:
  "\<exists>rt e. ApplyToolArgs native_gcc_10 [''-O2'', ''-march=native''] = Some rt \<and> ParseRuntimeID (rt_id rt) = Err e"
proof -
  have flags: "cfd_architecture (ExtractCompilerFlags [''-O2'', ''-march=native'']) = ''native''"
    by (simp add: ExtractCompilerFlags_def extract_arg_def no_details_def)
  obtain rt where rt: "ApplyToolArgs native_gcc_10 [''-O2'', ''-march=native''] = Some rt"
    using flags by (simp add: ApplyToolArgs_def ModifyRuntimeWithFlags_def Let_def)
  have "\<exists>e. ParseRuntimeID (rt_id rt) = Err e"
    by (rule unknown_architecture_unresolvable [OF rt GetCpp_native_gcc_10])
       (simp_all add: flags gcc_10_x86_64_def)
  with rt show ?thesis by blast
qed

text \<open>The option -stdlib=..., which the validation of clang++ means to read, is accepted for g++ only,
  which has no such option.\<close>
lemma stdlib_option_gxx_only: "IsValidCompilerFlag (''-stdlib='' @ v) ct \<longleftrightarrow> ct = GXX"
  by (cases ct) (simp_all add: IsValidCompilerFlag_def)

text \<open>Options the parser sorts among the compiler's that the validation rejects.\<close>
lemma parser_options_rejected:
  "list_all (\<lambda>f. isCompilerOnlyFlag f \<and> \<not> IsValidCompilerFlag f ct)
     [''-M'', ''-MM'', ''-nostdinc'', ''-nostdinc++'', ''-trigraphs'', ''-notrigraphs'']"
  by (simp add: isCompilerOnlyFlag_def IsValidCompilerFlag_def)

text \<open>A language standard that is the last word of a command line is accepted, but not recorded.\<close>
theorem last_standard_not_recorded:
  "ValidateAndParseArgs [''-std='' @ std] cfg = Ok \<lparr>pcl_language = '''', pcl_standard = '''', pcl_stdlib = ''''\<rparr>"
  by (simp add: ValidateAndParseArgs_def IsValidCompilerFlag_def cli_extract_defs)

end
