(* ===== verification/GccDriver.thy ===== *)
theory GccDriver
  imports GccConfig Staging
begin

text \<open>
  The jobs the compiler drivers submit (pkg/drivers/cpp/gcc_common/job.go; pkg/drivers/cpp/gcc, gxx,
  clang, clangxx: interface.go): from a parsed command line, the runtime that was resolved and the
  working directory to a job with its inputs described for staging. The resolution of the runtime
  is a parameter; the identifier of a job and the time are given.
\<close>

definition normalizePathToRelative :: "string \<Rightarrow> string \<Rightarrow> string" where
  "normalizePathToRelative filePath workDir =
     (if \<not> path_is_abs filePath then filePath
      else if workDir \<noteq> '''' then (case Rel workDir filePath of Some r \<Rightarrow> r | None \<Rightarrow> filePath)
      else filePath)"

definition normalizePaths :: "string list \<Rightarrow> string \<Rightarrow> string list" where
  "normalizePaths paths workDir = map (\<lambda>p. normalizePathToRelative p workDir) paths"

record JobSubmissionContext =
  jsc_runtime :: Runtime
  jsc_source_files :: "string list"
  jsc_object_files :: "string list"
  jsc_compiler_flags :: "string list"
  jsc_include_dirs :: "string list"
  jsc_defines :: "string list"
  jsc_libraries :: "string list"
  jsc_library_files :: "string list"
  jsc_library_dirs :: "string list"
  jsc_linker_flags :: "string list"
  jsc_output_file :: string
  jsc_is_link_job :: bool
  jsc_is_shared_library :: bool
  jsc_timeout_seconds :: int
  jsc_work_dir :: string

definition createCppCompileJob :: "JobSubmissionContext \<Rightarrow> CppCompileJob" where
  "createCppCompileJob c =
     \<lparr>cc_source_files = jsc_source_files c, cc_compiler_args = jsc_compiler_flags c,
      cc_include_dirs = jsc_include_dirs c, cc_defines = jsc_defines c, cc_output_file = jsc_output_file c\<rparr>"

definition createCppLinkJob :: "JobSubmissionContext \<Rightarrow> CppLinkJob" where
  "createCppLinkJob c =
     \<lparr>cl_object_files = jsc_object_files c, cl_libraries = jsc_libraries c, cl_library_files = jsc_library_files c,
      cl_library_dirs = jsc_library_dirs c, cl_linker_args = jsc_linker_flags c, cl_output_file = jsc_output_file c,
      cl_is_shared_library = jsc_is_shared_library c\<rparr>"

definition job_input_paths :: "JobSubmissionContext \<Rightarrow> string list" where
  "job_input_paths c = jsc_source_files c
     @ (if jsc_is_link_job c then jsc_object_files c @ jsc_library_files c else [])"

text \<open>The output a job announces: a path, and nothing yet.\<close>

definition announced_output :: "int \<Rightarrow> string \<Rightarrow> JobData" where
  "announced_output now p =
     \<lparr>jd_id = p, jd_type = DATA_TYPE_FILE, jd_data = JobData_File (Some
        \<lparr>fjd_path = p, fjd_mode = 420, fjd_content = None, fjd_content_hash = None, fjd_is_symlink = False,
         fjd_symlink_target = ''''\<rparr>), jd_created_at = Some now\<rparr>"

definition createJob :: "string \<Rightarrow> int \<Rightarrow> Fs \<Rightarrow> JobSubmissionContext \<Rightarrow> staging_error + Job" where
  "createJob jobID now fs c =
     (case CreateJobDataListForFiles fs (NewJobDataStager (jsc_work_dir c)) (job_input_paths c) JobDataModeReference of
        Inl e \<Rightarrow> Err e
      | Inr inputs \<Rightarrow> Ok
          \<lparr>job_id = jobID, job_requirement = Job_Runtime (Some (jsc_runtime c)), job_input_data_ids = [],
           job_spec = (if jsc_is_link_job c then Job_CppLink (Some (createCppLinkJob c))
             else Job_CppCompile (Some (createCppCompileJob c))),
           job_content_hash = None, job_source_client_id = '''', job_submitted_at = Some now,
           job_timeout = Some \<lparr>dur_count = jsc_timeout_seconds c, dur_unit = TIME_UNIT_SECOND\<rparr>,
           job_dependency_ids = [], job_inputs = inputs,
           job_outputs = [Some (announced_output now (jsc_output_file c))], job_cwd = jsc_work_dir c\<rparr>)"

definition submission_context :: "ParsedArgs \<Rightarrow> Runtime \<Rightarrow> string \<Rightarrow> JobSubmissionContext" where
  "submission_context p runtime workDir =
     \<lparr>jsc_runtime = runtime, jsc_source_files = normalizePaths (pa_source_files p) workDir,
      jsc_object_files = normalizePaths (pa_object_files p) workDir, jsc_compiler_flags = pa_compiler_flags p,
      jsc_include_dirs = normalizePaths (pa_include_dirs p) workDir, jsc_defines = pa_defines p,
      jsc_libraries = pa_libraries p, jsc_library_files = normalizePaths (pa_library_files p) workDir,
      jsc_library_dirs = normalizePaths (pa_library_dirs p) workDir, jsc_linker_flags = pa_linker_flags p,
      jsc_output_file = normalizePathToRelative (pa_output_file p) workDir,
      jsc_is_link_job = (pa_mode p = ModeLink), jsc_is_shared_library = pa_is_shared_library p,
      jsc_timeout_seconds = 5 * 60, jsc_work_dir = workDir\<rparr>"

definition CreateCppJob ::
  "string \<Rightarrow> int \<Rightarrow> Fs \<Rightarrow> ParsedArgs \<Rightarrow> Runtime \<Rightarrow> string \<Rightarrow> staging_error + Job" where
  "CreateCppJob jobID now fs parsed runtime workDir = createJob jobID now fs (submission_context parsed runtime workDir)"

text \<open>The drivers' CreateJob: resolve answers the runtime found for the flags, or none.\<close>

datatype driver_error = ResolutionFailed | JobNotCreated staging_error

definition driver_CreateJob ::
  "(string list \<Rightarrow> Runtime option) \<Rightarrow> string \<Rightarrow> int \<Rightarrow> Fs \<Rightarrow> ParsedArgs \<Rightarrow> string \<Rightarrow> driver_error + Job" where
  "driver_CreateJob resolve jobID now fs parsed workDir =
     (let toolArgs = pa_compiler_flags parsed @ pa_linker_flags parsed
      in case resolve toolArgs of
           None \<Rightarrow> Err ResolutionFailed
         | Some runtime \<Rightarrow> map_sum JobNotCreated id (CreateCppJob jobID now fs parsed runtime workDir))"

definition driver_config :: "CompilerType \<Rightarrow> CLIConfig" where
  "driver_config d = \<lparr>cli_name = driver_name d, cli_type = d, cli_supports_stdlib = (d = GXX \<or> d = ClangCxx)\<rparr>"

definition ValidateArgs :: "CompilerType \<Rightarrow> string list \<Rightarrow> string option" where
  "ValidateArgs d args = (case ValidateAndParseArgs args (driver_config d) of Inl e \<Rightarrow> Some e | Inr _ \<Rightarrow> None)"

section \<open>The jobs\<close>

lemma normalize_place:
  assumes "path_is_abs workDir"
  shows "abs_elems (resolveAbsPath (NewJobDataStager workDir) (normalizePathToRelative p workDir)) =
    abs_elems (resolveAbsPath (NewJobDataStager workDir) p)"
proof (cases "path_is_abs p")
  case True
  from Join_Rel [OF assms True] obtain r where r: "Rel workDir p = Some r" "Join [workDir, r] = Clean p" .
  have "\<not> path_is_abs r" using Rel_relative [OF assms r(1)] .
  with True r assms show ?thesis
    by (simp add: normalizePathToRelative_def resolveAbsPath_def NewJobDataStager_def)
qed (simp add: normalizePathToRelative_def)

lemma normalize_relative: "path_is_abs workDir \<Longrightarrow> \<not> path_is_abs (normalizePathToRelative p workDir)"
proof -
  assume wd: "path_is_abs workDir"
  show ?thesis
  proof (cases "path_is_abs p")
    case True
    from Join_Rel [OF wd True] obtain r where r: "Rel workDir p = Some r" .
    with Rel_relative [OF wd r] True wd show ?thesis by (simp add: normalizePathToRelative_def)
  qed (simp add: normalizePathToRelative_def)
qed

lemma normalizePaths_relative: "path_is_abs workDir \<Longrightarrow> p \<in> set (normalizePaths ps workDir) \<Longrightarrow> \<not> path_is_abs p"
  using normalize_relative by (auto simp: normalizePaths_def)

lemma CreateCppJob_Ok:
  assumes "CreateCppJob jobID now fs parsed runtime workDir = Ok job"
  obtains inputs where "CreateJobDataListForFiles fs (NewJobDataStager workDir)
      (job_input_paths (submission_context parsed runtime workDir)) JobDataModeReference = Ok inputs"
    "job_inputs job = inputs" "job_cwd job = workDir"
    "job_spec job = (if pa_mode parsed = ModeLink
       then Job_CppLink (Some (createCppLinkJob (submission_context parsed runtime workDir)))
       else Job_CppCompile (Some (createCppCompileJob (submission_context parsed runtime workDir))))"
    "job_outputs job = [Some (announced_output now (normalizePathToRelative (pa_output_file parsed) workDir))]"
    "job_requirement job = Job_Runtime (Some runtime)"
  using assms
  by (auto simp: CreateCppJob_def createJob_def submission_context_def [of parsed runtime workDir]
      split: sum.splits)

text \<open>The command a native runtime runs for a job, without the compiler's own name.\<close>

fun native_command :: "JobSpec \<Rightarrow> string list option" where
  "native_command (Job_CppCompile (Some c)) = Some (compile_args (protoCompileJobToConcrete c))"
| "native_command (Job_CppLink (Some l)) = Some (link_args (protoLinkJobToConcrete l))"
| "native_command (Job_CppArchive (Some a)) = Some (archive_args (protoArchiveJobToConcrete a))"
| "native_command _ = None"

lemma mode_with_sources:
  assumes "pa_source_files (ParseCommandLine args) \<noteq> []"
  shows "pa_mode (ParseCommandLine args) \<noteq> ModeLink"
proof -
  obtain ws where "ParseCommandLine args = classify args ws" using ParseCommandLine_words by blast
  with assms show ?thesis by (auto simp: classify_def)
qed

text \<open>The command of a driver's job.\<close>
lemma native_link: "native_command (Job_CppLink (Some (createCppLinkJob (submission_context p rt wd)))) =
  Some ((if pa_is_shared_library p then [''-shared''] else [])
    @ normalizePaths (pa_object_files p) wd @ normalizePaths (pa_library_files p) wd
    @ map (\<lambda>l. ''-l'' @ l) (pa_libraries p) @ pa_linker_flags p
    @ (if normalizePathToRelative (pa_output_file p) wd = '''' then []
       else [''-o'', normalizePathToRelative (pa_output_file p) wd]))"
  by (simp add: link_args_def protoLinkJobToConcrete_def createCppLinkJob_def submission_context_def)

lemma native_compile:
  assumes "distinct (map (\<lambda>d. fst (parse_define d)) (pa_defines p))"
  shows "native_command (Job_CppCompile (Some (createCppCompileJob (submission_context p rt wd)))) =
    Some ([''-c''] @ normalizePaths (pa_source_files p) wd
      @ map (\<lambda>d. ''-I'' @ d) (normalizePaths (pa_include_dirs p) wd)
      @ map define_flag (pa_defines p) @ pa_compiler_flags p
      @ (if normalizePathToRelative (pa_output_file p) wd = '''' then []
         else [''-o'', normalizePathToRelative (pa_output_file p) wd]))"
  using assms
  by (simp add: compile_command createCppCompileJob_def submission_context_def)

lemma no_sources_link:
  assumes "pa_source_files (ParseCommandLine args) = []"
  shows "pa_mode (ParseCommandLine args) = ModeLink \<longleftrightarrow>
    pa_mode (ParseCommandLine args) \<noteq> ModeCompileOnly \<and> pa_object_files (ParseCommandLine args) \<noteq> []"
proof -
  obtain ws where "ParseCommandLine args = classify args ws" using ParseCommandLine_words by blast
  with assms show ?thesis by (auto simp: classify_def)
qed


section \<open>The inputs\<close>

lemma normalized_content:
  assumes "path_is_abs wd"
  shows "file_content fs (resolveAbsPath (NewJobDataStager wd) (normalizePathToRelative p wd)) =
    file_content fs (Clean (if path_is_abs p then p else Join [wd, p]))"
proof -
  let ?s = "NewJobDataStager wd"
  have abs: "path_is_abs (resolveAbsPath ?s q)" for q
    using assms by (simp add: resolveAbsPath_def NewJobDataStager_def)
  have "resolveAbsPath ?s p = (if path_is_abs p then p else Join [wd, p])"
    by (simp add: resolveAbsPath_def NewJobDataStager_def)
  moreover have "Clean (resolveAbsPath ?s (normalizePathToRelative p wd)) = Clean (resolveAbsPath ?s p)"
    using normalize_place [OF assms, of p] by (simp only: Clean_abs [OF abs])
  ultimately show ?thesis
    using file_content_Clean [OF abs, of fs "normalizePathToRelative p wd"] by simp
qed

lemma list_data_verifies:
  assumes "CreateJobDataListForFiles fs s ps mode = Ok ds" and "path_is_abs (st_work_dir s)"
  shows "verify_from fs i ds (st_work_dir s) VerificationModeIntegrity = None \<and>
    (verify_from fs i ds (st_work_dir s) VerificationModeSaved = None \<longleftrightarrow>
       (\<forall>p\<in>set ps. file_content fs (resolveAbsPath s p) \<noteq> Some []))"
  using assms(1)
proof (induction ps arbitrary: ds i)
  case (Cons p ps)
  from Cons.prems obtain d ds' where d: "CreateJobDataForFile fs s p mode = Ok d"
    and ds': "CreateJobDataListForFiles fs s ps mode = Ok ds'" "ds = Some d # ds'"
    by (auto split: sum.splits)
  from CreateJobDataForFile_Ok [OF d] obtain stored n h c where "d = createFileJobDataProto stored n h c" by metis
  then obtain f where named: "GetFile d = Some f" by (simp add: createFileJobDataProto_def GetFile_def)
  from created_data [OF d assms(2)] Cons.IH [OF ds'(1), of "i + 1"] show ?case
    by (simp add: ds'(2) named)
qed simp

lemma list_data_length:
  "CreateJobDataListForFiles fs s ps mode = Ok ds \<Longrightarrow> length ds = length ps"
  by (induction ps arbitrary: ds) (auto split: sum.splits)

text \<open>The files a job of a driver reads.\<close>

definition given_inputs :: "ParsedArgs \<Rightarrow> string list" where
  "given_inputs p = pa_source_files p
     @ (if pa_mode p = ModeLink then pa_object_files p @ pa_library_files p else [])"


text \<open>Compiling and linking a source in one command, in a directory that has it.\<close>

definition sample_line :: "string list" where
  "sample_line = [''/w/m.c'', ''x.o'', ''-lm'', ''-O2'', ''-o'', ''prog'']"

lemma CreateCppJob_exists:
  assumes "is_ok (CreateJobDataListForFiles fs (NewJobDataStager wd) (normalizePaths (given_inputs p) wd) JobDataModeReference)"
  shows "\<exists>job. CreateCppJob jobID now fs p rt wd = Ok job"
proof -
  have "job_input_paths (submission_context p rt wd) = normalizePaths (given_inputs p) wd"
    by (simp add: job_input_paths_def submission_context_def normalizePaths_def given_inputs_def)
  moreover have "jsc_work_dir (submission_context p rt wd) = wd" by (simp add: submission_context_def)
  ultimately show ?thesis using assms
    by (auto simp: CreateCppJob_def createJob_def split: sum.splits)
qed

lemma sample_job_created: "\<exists>job. CreateCppJob ''j'' 0 sample_fs (ParseCommandLine sample_line) rt ''/w'' = Ok job"
  by (rule CreateCppJob_exists) code_simp



end
