(* ===== verification/RemoteRuntime.thy ===== *)
theory RemoteRuntime
  imports RemoteJobs Sandbox JobManager GccDriver
begin

text \<open>
  The runtime that stands for one on another daemon (pkg/runtimes/remote/runtime.go; the records
  Progress and Metadata of pkg/runtime/types.go; Metadata of pkg/runtimes/cpp/native/cpp_runtime.go)
  and what becomes of the outputs of its jobs. The call of a peer's ExecutorService is a parameter,
  the error of the call or the messages of the stream and the error it ends with. Dereferencing a nil
  request, job or peer manager panics: the error value NilDereference.
\<close>

datatype ProgressType = ProgressTypeOutput | ProgressTypeLog | ProgressTypeStatus

record Progress =
  prg_type :: ProgressType
  prg_source :: string
  prg_data :: "byte list"
  prg_timestamp :: int
  prg_execution_id :: string

record Metadata =
  meta_runtime_id :: string
  meta_runtime_type :: string
  meta_language :: string
  meta_description :: string
  meta_is_native :: bool
  meta_version :: string
  meta_target_os :: string
  meta_target_arch :: string
  meta_details :: string

fun JobStatus_name :: "JobStatus \<Rightarrow> string" where
  "JobStatus_name JOB_STATUS_UNSPECIFIED = ''JOB_STATUS_UNSPECIFIED''"
| "JobStatus_name JOB_STATUS_RECEIVED = ''JOB_STATUS_RECEIVED''"
| "JobStatus_name JOB_STATUS_READY = ''JOB_STATUS_READY''"
| "JobStatus_name JOB_STATUS_SCHEDULED = ''JOB_STATUS_SCHEDULED''"
| "JobStatus_name JOB_STATUS_INPUT_TRANSFER = ''JOB_STATUS_INPUT_TRANSFER''"
| "JobStatus_name JOB_STATUS_RUNNING = ''JOB_STATUS_RUNNING''"
| "JobStatus_name JOB_STATUS_COMPLETED = ''JOB_STATUS_COMPLETED''"
| "JobStatus_name JOB_STATUS_OUTPUT_TRANSFER = ''JOB_STATUS_OUTPUT_TRANSFER''"
| "JobStatus_name JOB_STATUS_FAILED = ''JOB_STATUS_FAILED''"
| "JobStatus_name JOB_STATUS_CANCELLED = ''JOB_STATUS_CANCELLED''"
| "JobStatus_name JOB_STATUS_QUEUED = ''JOB_STATUS_QUEUED''"

section \<open>The runtime\<close>

record RemoteRuntime =
  rr_proto :: Runtime
  rr_peer_id :: string
  rr_peer_manager :: "PeerManager option"

datatype remote_error =
  NilDereference | RemotePeerNotFound string | RemotePeerNotAlive string
| RemoteCallFailed string string | RemoteStreamFailed string string | RemotePeerManagerNil

datatype rpc_stream = CallError string | Stream "ExecuteJobResponse list" "string option"

definition GetStreamChunk :: "JobData \<Rightarrow> StreamChunk option" where
  "GetStreamChunk d = (case jd_data d of JobData_StreamChunk c \<Rightarrow> c | _ \<Rightarrow> None)"

definition remote_progress :: "ProgressType \<Rightarrow> byte list \<Rightarrow> int \<Rightarrow> string \<Rightarrow> Progress" where
  "remote_progress ty bs now jobID =
     \<lparr>prg_type = ty, prg_source = ''remote-executor'', prg_data = bs, prg_timestamp = now, prg_execution_id = jobID\<rparr>"

text \<open>The progress one response reports: its status, its log when there is some, its output when there are
  bytes. What the callback answers is not used.\<close>

definition output_bytes :: "JobData \<Rightarrow> byte list" where
  "output_bytes d = (case GetFile d of
     Some f \<Rightarrow> content_bytes f
   | None \<Rightarrow> (case GetStreamChunk d of Some c \<Rightarrow> sc_data c | None \<Rightarrow> []))"

definition response_progress :: "int \<Rightarrow> string \<Rightarrow> ExecuteJobResponse \<Rightarrow> Progress list" where
  "response_progress now jobID resp =
     (case ejr_progress resp of None \<Rightarrow> []
      | Some p \<Rightarrow> remote_progress ProgressTypeStatus (string_bytes (JobStatus_name (jp_status p))) now jobID
          # (if jp_log_output p \<noteq> '''' then [remote_progress ProgressTypeLog (string_bytes (jp_log_output p)) now jobID] else []))
     @ (case ejr_output resp of None \<Rightarrow> []
        | Some d \<Rightarrow> if 0 < length (output_bytes d) then [remote_progress ProgressTypeOutput (output_bytes d) now jobID] else [])"

fun consume_responses :: "bool \<Rightarrow> int \<Rightarrow> string \<Rightarrow> ExecuteJobResponse list \<Rightarrow> JobResult option
    \<Rightarrow> JobResult option \<times> Progress list" where
  "consume_responses callback now jobID [] finalResult = (finalResult, [])"
| "consume_responses callback now jobID (resp # rest) finalResult =
     (case consume_responses callback now jobID rest
         (if ejr_result resp \<noteq> None then ejr_result resp else finalResult) of
        (r, ps) \<Rightarrow> (r, (if callback then response_progress now jobID resp else []) @ ps))"

definition remote_Execute ::
  "(string \<Rightarrow> Job \<Rightarrow> rpc_stream) \<Rightarrow> bool \<Rightarrow> int \<Rightarrow> RemoteRuntime \<Rightarrow> request
    \<Rightarrow> (remote_error + ExecutionResult) \<times> Progress list" where
  "remote_Execute call callback now r req =
     (case req of
        Some (Some job) \<Rightarrow>
          (case rr_peer_manager r of None \<Rightarrow> (Err NilDereference, [])
           | Some pm \<Rightarrow> (case GetPeer pm (rr_peer_id r) of None \<Rightarrow> (Err (RemotePeerNotFound (rr_peer_id r)), [])
           | Some peer \<Rightarrow>
               if \<not> pi_is_alive peer then (Err (RemotePeerNotAlive (rr_peer_id r)), [])
               else (case call (''http://'' @ pi_endpoint peer) job of
                   CallError e \<Rightarrow> (Err (RemoteCallFailed (rr_peer_id r) e), [])
                 | Stream msgs err \<Rightarrow>
                     (case consume_responses callback now (job_id job) msgs None of
                        (finalResult, ps) \<Rightarrow>
                          (case err of Some e \<Rightarrow> (Err (RemoteStreamFailed (rr_peer_id r) e), ps)
                           | None \<Rightarrow> (Ok \<lparr>er_exit_code = (case finalResult of None \<Rightarrow> 1 | Some res \<Rightarrow> sint (jr_exit_code res)),
                               er_stdout = [], er_stderr = [], er_output = [], er_work_dir = '''', er_execution_id = ''''\<rparr>,
                               ps))))))
      | _ \<Rightarrow> (Err NilDereference, []))"

definition remote_exec_rt :: "(string \<Rightarrow> Job \<Rightarrow> rpc_stream) \<Rightarrow> bool \<Rightarrow> int \<Rightarrow> RemoteRuntime \<Rightarrow> remote_error runtime_exec" where
  "remote_exec_rt call callback now r req fs = (map_sum RuntimeFailed Some (fst (remote_Execute call callback now r req)), req, fs)"

text \<open>The constructor wraps the runtime so that its jobs' inputs are embedded.\<close>

definition remote_NewRuntime ::
  "(string \<Rightarrow> Job \<Rightarrow> rpc_stream) \<Rightarrow> bool \<Rightarrow> int \<Rightarrow> Runtime \<Rightarrow> string \<Rightarrow> PeerManager option \<Rightarrow> Fs
    \<Rightarrow> remote_error runtime_exec option" where
  "remote_NewRuntime call callback now proto peerId pm fs =
     MustApply fs (remote_exec_rt call callback now \<lparr>rr_proto = proto, rr_peer_id = peerId, rr_peer_manager = pm\<rparr>) [EmbedInputs]"

definition remote_Available :: "RemoteRuntime \<Rightarrow> remote_error + bool" where
  "remote_Available r =
     (case rr_peer_manager r of None \<Rightarrow> Err RemotePeerManagerNil
      | Some pm \<Rightarrow> (case GetPeer pm (rr_peer_id r) of None \<Rightarrow> Ok False | Some peer \<Rightarrow> Ok (pi_is_alive peer)))"

definition remote_Metadata :: "(Version \<Rightarrow> string) \<Rightarrow> RemoteRuntime \<Rightarrow> Metadata" where
  "remote_Metadata vstr r =
     (let p = rr_proto r;
          meta = \<lparr>meta_runtime_id = rt_id p, meta_runtime_type = '''', meta_language = RuntimeToolchain_name (rt_toolchain p),
            meta_description = (case rt_description p of None \<Rightarrow> '''' | Some d \<Rightarrow> d), meta_is_native = False,
            meta_version = '''', meta_target_os = '''', meta_target_arch = '''', meta_details = ''''\<rparr>
      in case GetCpp p of
           None \<Rightarrow> meta
         | Some cpp \<Rightarrow> meta\<lparr>meta_language := ''cpp'', meta_target_arch := CpuArchitecture_name (cpp_architecture cpp),
             meta_version := (case cpp_compiler_version cpp of None \<Rightarrow> meta_version meta | Some v \<Rightarrow> vstr v)\<rparr>)"

definition remote_RuntimeID :: "RemoteRuntime \<Rightarrow> string" where
  "remote_RuntimeID r = rt_id (rr_proto r)"

definition remote_MatchesQuery ::
  "(string \<Rightarrow> RuntimeMatchQuery option \<Rightarrow> string + Runtime list) \<Rightarrow> RemoteRuntime \<Rightarrow> RuntimeMatchQuery option \<Rightarrow> remote_error + bool" where
  "remote_MatchesQuery match_call r query =
     (case rr_peer_manager r of None \<Rightarrow> Err NilDereference
      | Some pm \<Rightarrow> (case GetPeer pm (rr_peer_id r) of None \<Rightarrow> Err (RemotePeerNotFound (rr_peer_id r))
      | Some peer \<Rightarrow> (case match_call (''http://'' @ pi_endpoint peer) query of
            Inl e \<Rightarrow> Err (RemoteCallFailed (rr_peer_id r) e)
          | Inr rts \<Rightarrow> Ok (list_ex (\<lambda>rt. rt_id rt = rt_id (rr_proto r)) rts))))"

definition NativeMetadata :: "Toolchain \<Rightarrow> Metadata" where
  "NativeMetadata t =
     (let langStr = (if tc_language t = LanguageCpp then ''cpp'' else ''c'');
          compilerName = (case tc_compiler t of CompilerGCC \<Rightarrow> ''gcc'' | CompilerClang \<Rightarrow> ''clang'' | _ \<Rightarrow> ''unknown'');
          arch = Architecture_String (tc_architecture t)
      in \<lparr>meta_runtime_id = NativeRuntimeID t, meta_runtime_type = ''native_linux-'' @ compilerName,
          meta_language = langStr,
          meta_description = ''Native linux '' @ compilerName @ '' '' @ tc_compiler_version t @ '' ('' @ arch @ '')'',
          meta_is_native = True, meta_version = tc_compiler_version t, meta_target_os = ''linux'',
          meta_target_arch = arch, meta_details = ''path='' @ tc_compiler_path t\<rparr>)"

section \<open>Executing\<close>

lemma remote_NewRuntime: "remote_NewRuntime call callback now proto peerId pm fs =
  Some (embedInputsExec (remote_exec_rt call callback now \<lparr>rr_proto = proto, rr_peer_id = peerId, rr_peer_manager = pm\<rparr>))"
  by (simp add: remote_NewRuntime_def MustApply_def Apply_def EmbedInputs_def Execute_def)

lemma consume_result:
  "fst (consume_responses callback now jobID msgs r0) =
     (case rev (List.map_filter ejr_result msgs) of [] \<Rightarrow> r0 | r # _ \<Rightarrow> Some r)"
  by (induction msgs arbitrary: r0) (auto simp: map_filter_simps case_prod_beta split: list.splits option.splits)

text \<open>What embedding makes of an input: its bytes from the job's directory where it has none.\<close>

definition embedded_input :: "Fs \<Rightarrow> string \<Rightarrow> JobData option \<Rightarrow> JobData option \<Rightarrow> bool" where
  "embedded_input fs dir d d' =
     (case d of None \<Rightarrow> d' = None
      | Some d0 \<Rightarrow> (case unloaded_path d0 of
          Some p \<Rightarrow> \<exists>e f c. d' = Some e \<and> jd_data e = JobData_File (Some f) \<and> fjd_path f = p \<and> fjd_content f = Some c \<and>
            file_content fs (resolveAbsPath (NewJobDataStager dir) p) = Some c
        | None \<Rightarrow> d' = d))"

lemma EmbedJobData_loaded: "EmbedJobData fs s (Some d) = Ok d' \<Longrightarrow> unloaded_path d = None \<Longrightarrow> d' = d"
  by (auto simp: EmbedJobData_def unloaded_path_def GetReference_def GetFile_def
      split: option.splits JobDataPayload.splits if_splits)

lemma embed_each_inputs:
  "embed_each fs (NewJobDataStager dir) ds = Ok ds' \<Longrightarrow> list_all2 (embedded_input fs dir) ds ds'"
proof (induction ds arbitrary: ds')
  case (Cons d ds)
  show ?case
  proof (cases d)
    case None
    with Cons show ?thesis by (auto simp: embedded_input_def split: sum.splits)
  next
    case (Some d0)
    with Cons.prems obtain d' es where d': "EmbedJobData fs (NewJobDataStager dir) (Some d0) = Ok d'"
      and es: "embed_each fs (NewJobDataStager dir) ds = Ok es" "ds' = Some d' # es" by (auto split: sum.splits)
    have "embedded_input fs dir (Some d0) (Some d')"
    proof (cases "unloaded_path d0")
      case None
      with EmbedJobData_loaded [OF d'] show ?thesis by (simp add: embedded_input_def)
    next
      case p: (Some p)
      from EmbedJobData_Ok [OF d' p] obtain f c where "jd_data d' = JobData_File (Some f)" "fjd_path f = p"
        "fjd_content f = Some c" "file_content fs (resolveAbsPath (NewJobDataStager dir) p) = Some c" by metis
      then show ?thesis by (simp add: embedded_input_def p)
    qed
    with Cons.IH [OF es(1)] es(2) Some show ?thesis by simp
  qed
qed simp

lemma embed_list_inputs:
  "EmbedJobDataList fs (NewJobDataStager dir) ds = Ok ds' \<Longrightarrow> list_all2 (embedded_input fs dir) ds ds'"
  using embed_each_inputs by (auto simp: EmbedJobDataList_def split: if_splits option.splits)

lemma remote_Execute_Ok:
  assumes "remote_Execute call callback now r (Some (Some job)) = (Ok res, ps)"
  obtains pm peer msgs where "rr_peer_manager r = Some pm" "GetPeer pm (rr_peer_id r) = Some peer" "pi_is_alive peer"
    "call (''http://'' @ pi_endpoint peer) job = Stream msgs None"
    "er_exit_code res = (case rev (List.map_filter ejr_result msgs) of [] \<Rightarrow> 1 | r # _ \<Rightarrow> sint (jr_exit_code r))"
    "er_output res = []" "er_stdout res = []" "er_stderr res = []"
proof -
  note found = that
  from assms obtain pm peer where peer: "rr_peer_manager r = Some pm" "GetPeer pm (rr_peer_id r) = Some peer" "pi_is_alive peer"
    by (auto simp: remote_Execute_def split: option.splits if_splits)
  obtain msgs where msgs: "call (''http://'' @ pi_endpoint peer) job = Stream msgs None"
    using assms peer by (auto simp: remote_Execute_def split: rpc_stream.splits prod.splits option.splits)
  have "res = \<lparr>er_exit_code = (case fst (consume_responses callback now (job_id job) msgs None) of None \<Rightarrow> 1
      | Some res \<Rightarrow> sint (jr_exit_code res)), er_stdout = [], er_stderr = [], er_output = [], er_work_dir = '''',
      er_execution_id = ''''\<rparr>"
    using assms peer msgs by (simp add: remote_Execute_def case_prod_beta)
  then show ?thesis by (intro found [OF peer msgs]) (simp_all add: consume_result split: list.split)
qed

lemma remote_wrapped_Ok:
  assumes "remote_NewRuntime call callback now proto peerId (Some pm) fs0 = Some w"
    and "w (Some (Some job)) fs = (Ok (Some res), req', fs')"
  obtains sent ps where "list_all2 (embedded_input fs (job_cwd job)) (job_inputs job) (job_inputs sent)"
    "sent = job\<lparr>job_inputs := job_inputs sent\<rparr>" "req' = Some (Some sent)" "fs' = fs"
    "remote_Execute call callback now \<lparr>rr_proto = proto, rr_peer_id = peerId, rr_peer_manager = Some pm\<rparr> (Some (Some sent)) = (Ok res, ps)"
proof -
  note found = that
  let ?r = "\<lparr>rr_proto = proto, rr_peer_id = peerId, rr_peer_manager = Some pm\<rparr>"
  have w: "w = embedInputsExec (remote_exec_rt call callback now ?r)" using assms(1) by (simp add: remote_NewRuntime)
  have run: "\<exists>ps. remote_Execute call callback now ?r (Some (Some sent)) = (Ok res, ps)" "req' = Some (Some sent)" "fs' = fs"
    if "remote_exec_rt call callback now ?r (Some (Some sent)) fs = (Ok (Some res), req', fs')" for sent
  proof -
    from that show "\<exists>ps. remote_Execute call callback now ?r (Some (Some sent)) = (Ok res, ps)"
      by (cases "remote_Execute call callback now ?r (Some (Some sent))"; cases "fst (remote_Execute call callback now ?r (Some (Some sent)))")
         (auto simp: remote_exec_rt_def)
    from that show "req' = Some (Some sent)" "fs' = fs" by (simp_all add: remote_exec_rt_def)
  qed
  show ?thesis
  proof (cases "job_inputs job = []")
    case True
    then have "remote_exec_rt call callback now ?r (Some (Some job)) fs = (Ok (Some res), req', fs')"
      using assms(2) by (simp add: w embedInputsExec_def)
    from run [OF this] found [of job] True show ?thesis by auto
  next
    case False
    then obtain embedded where e: "EmbedJobDataList fs (NewJobDataStager (job_cwd job)) (job_inputs job) = Ok embedded"
      "remote_exec_rt call callback now ?r (Some (Some (job\<lparr>job_inputs := embedded\<rparr>))) fs = (Ok (Some res), req', fs')"
      using assms(2) by (auto simp: w embedInputsExec_def split: sum.splits)
    from run [OF e(2)] found [of "job\<lparr>job_inputs := embedded\<rparr>"] embed_list_inputs [OF e(1)] show ?thesis by auto
  qed
qed

text \<open>C13. A job executed by a remote runtime: the peer is known and alive, and what it is sent is the job
  with its inputs embedded, each that had no bytes with those of its file in the job's directory.
  Of the answer only the exit code of the last result is kept, 1 when the stream had none; the
  outputs are not, neither those of the result nor those of the stream. No file changes here.\<close>
theorem remote_runtime_spec:
  assumes "remote_NewRuntime call callback now proto peerId (Some pm) fs0 = Some w"
    and "w (Some (Some job)) fs = (Ok (Some res), req', fs')"
  shows "\<exists>peer sent msgs. GetPeer pm peerId = Some peer \<and> pi_is_alive peer \<and>
    call (''http://'' @ pi_endpoint peer) sent = Stream msgs None \<and>
    sent = job\<lparr>job_inputs := job_inputs sent\<rparr> \<and>
    list_all2 (embedded_input fs (job_cwd job)) (job_inputs job) (job_inputs sent) \<and>
    er_exit_code res = (case rev (List.map_filter ejr_result msgs) of [] \<Rightarrow> 1 | r # _ \<Rightarrow> sint (jr_exit_code r)) \<and>
    er_output res = [] \<and> er_stdout res = [] \<and> er_stderr res = [] \<and> fs' = fs"
proof -
  from remote_wrapped_Ok [OF assms] obtain sent ps where sent:
    "list_all2 (embedded_input fs (job_cwd job)) (job_inputs job) (job_inputs sent)"
    "sent = job\<lparr>job_inputs := job_inputs sent\<rparr>" "fs' = fs"
    "remote_Execute call callback now \<lparr>rr_proto = proto, rr_peer_id = peerId, rr_peer_manager = Some pm\<rparr> (Some (Some sent)) = (Ok res, ps)"
    by metis
  show ?thesis
    by (rule remote_Execute_Ok [OF sent(4)]) (use sent(1-3) in auto)
qed

section \<open>The outputs of a remote job\<close>

text \<open>Materialising as the scheduler does it: in the job's directory, errors as text.\<close>

definition materialize_here :: "(staging_error \<Rightarrow> string) \<Rightarrow> Fs \<Rightarrow> Job \<Rightarrow> JobResult \<Rightarrow> string + JobData option list" where
  "materialize_here text fs job res = map_sum text id (fst (MaterializeJobOutputs job (Some res) (job_cwd job) fs))"

lemma materialize_absent:
  assumes "job_outputs job = [Some d]" and "GetFile d = Some f" and "content_bytes f = []"
    and "os_stat fs (output_location (materialize_dir job wd) (fjd_path f)) = Err e" and "jr_outputs res = []"
  shows "\<exists>err. MaterializeJobOutputs job (Some res) wd fs = (Err err, fs)"
proof -
  have expected: "expected_files job = [f]"
    using assms(1,2) by (simp add: expected_files_def file_of_def map_filter_simps)
  have results: "result_files (Some res) = []" "result_outputs (Some res) = []"
    using assms(5) by (simp_all add: result_files_def result_outputs_def map_filter_simps)
  have "materialize_each (materialize_dir job wd) [] [f] fs = (Err (OutputNotFound (fjd_path f)), fs)"
    using assms(3,4) by (simp add: materialize_file_def process_file_def)
  then show ?thesis
    by (auto simp: MaterializeJobOutputs_def expected results assms(1) validateJobDataPathList_def split: option.split)
qed

lemma completion_status:
  assumes "completionCallback mat ver now d job r (js, hp) = Some (js', hp')"
  shows "jp_status (js_progress js') = (if er_exit_code r \<noteq> 0 \<or>
      snd (FinalizeJobCompletion mat ver (Some job) (Some (completed_result (job_id (js_job js)) d r))) \<noteq> None
    then JOB_STATUS_FAILED else JOB_STATUS_COMPLETED)"
  using assms
  by (cases "FinalizeJobCompletion mat ver (Some job) (Some (completed_result (job_id (js_job js)) d r))")
     (auto simp: completionCallback_def Let_def set_result_def UpdateProgress_def split: option.splits)

text \<open>C23. A compilation that ran on another daemon is reported as failed where its output is not there
  already: the remote runtime brings no outputs, so materialising looks for the file of the job in
  its own directory, and when nothing is there the job is FAILED, however it ended on the peer.\<close>
theorem remote_compilation_fails:
  assumes "CreateCppJob jobID t fs0 parsed rt wd = Ok job" and "path_is_abs wd"
    and "remote_NewRuntime call callback now proto peerId (Some pm) fs1 = Some w"
    and "w (Some (Some job)) fs = (Ok (Some res), req', fs')"
    and "os_stat fs2 (Join [wd, normalizePathToRelative (pa_output_file parsed) wd]) = Err e"
    and "completionCallback (materialize_here text fs2) ver now' d job res (js, hp) = Some (js', hp')"
  shows "jp_status (js_progress js') = JOB_STATUS_FAILED"
proof -
  let ?out = "normalizePathToRelative (pa_output_file parsed) wd"
  let ?res = "completed_result (job_id (js_job js)) d res"
  from CreateCppJob_Ok [OF assms(1)] have job: "job_outputs job = [Some (announced_output t ?out)]" "job_cwd job = wd" by metis+
  from remote_wrapped_Ok [OF assms(3,4)] remote_Execute_Ok have "er_output res = []" by metis
  then have outs: "jr_outputs ?res = []" by (simp add: completed_result_def)
  have wd: "wd \<noteq> ''''" using assms(2) by (rule path_is_abs_not_Nil)
  obtain f where f: "GetFile (announced_output t ?out) = Some f" "fjd_path f = ?out" "content_bytes f = []"
    by (simp add: announced_output_def GetFile_def content_bytes_def)
  have "output_location (materialize_dir job wd) ?out = Join [wd, ?out]"
    using normalize_relative [OF assms(2), of "pa_output_file parsed"] wd
    by (simp add: output_location_def materialize_dir_def)
  with materialize_absent [OF job(1) f(1,3), of fs2 wd e ?res] assms(5) outs f(2)
  obtain err where err: "MaterializeJobOutputs job (Some ?res) wd fs2 = (Err err, fs2)" by auto
  have "er_exit_code res \<noteq> 0 \<or>
      snd (FinalizeJobCompletion (materialize_here text fs2) ver (Some job) (Some ?res)) \<noteq> None"
  proof (cases "er_exit_code res = 0")
    case True
    then have "jr_exit_code ?res = 0" by (simp add: completed_result_def)
    then show ?thesis using job err by (simp add: FinalizeJobCompletion_def materialize_here_def)
  qed simp
  with completion_status [OF assms(6)] show ?thesis by presburger
qed

section \<open>Samples\<close>

definition live_peers :: PeerManager where
  "live_peers = NewPeerManager\<lparr>pm_peers := [(''b'', sample_peer\<lparr>pi_is_alive := True\<rparr>)]\<rparr>"

definition clean_call :: "string \<Rightarrow> Job \<Rightarrow> rpc_stream" where
  "clean_call url job = Stream [\<lparr>ejr_progress = None, ejr_output = None,
     ejr_result = Some (completed_result (job_id job) ''b'' clean_exit)\<rparr>] None"

definition plain_runtime :: Runtime where
  "plain_runtime = \<lparr>rt_id = ''r'', rt_platform = RUNTIME_PLATFORM_NATIVE_LINUX,
     rt_toolchain = RUNTIME_TOOLCHAIN_C, rt_spec = NoSpec, rt_description = None, rt_peer_ids = [''b'']\<rparr>"

definition sample_remote :: "remote_error runtime_exec" where
  "sample_remote = embedInputsExec (remote_exec_rt clean_call False 0
     \<lparr>rr_proto = plain_runtime, rr_peer_id = ''b'', rr_peer_manager = Some live_peers\<rparr>)"

lemma sample_remote: "remote_NewRuntime clean_call False 0 plain_runtime ''b'' (Some live_peers) empty_fs = Some sample_remote"
  by (simp add: remote_NewRuntime sample_remote_def)

definition remote_accepts :: "remote_error runtime_exec \<Rightarrow> Job \<Rightarrow> Fs \<Rightarrow> bool" where
  "remote_accepts w job fs = (case fst (w (Some (Some job)) fs) of Inr (Some r) \<Rightarrow> True | _ \<Rightarrow> False)"

lemma remote_acceptsE:
  "remote_accepts w job fs \<Longrightarrow> \<exists>res req' fs'. w (Some (Some job)) fs = (Ok (Some res), req', fs')"
  by (cases "w (Some (Some job)) fs") (auto simp: remote_accepts_def split: sum.splits option.splits)

lemma completion_unwatched:
  "js_watchers js = [] \<Longrightarrow> \<exists>js' hp'. completionCallback mat ver now d job r (js, hp) = Some (js', hp')"
  by (cases "FinalizeJobCompletion mat ver (Some job) (Some (completed_result (job_id (js_job js)) d r))";
      cases "snd (FinalizeJobCompletion mat ver (Some job) (Some (completed_result (job_id (js_job js)) d r)))")
     (simp_all add: completionCallback_def Let_def set_result_def UpdateProgress_def)

theorem remote_runtime_spec_witness:
  "\<exists>res req' fs'. sample_remote (Some (Some (sample_job\<lparr>job_inputs := [Some empty_reference], job_cwd := ''/w''\<rparr>))) sample_fs =
     (Ok (Some res), req', fs') \<and> er_output res = [] \<and> fs' = sample_fs"
proof -
  let ?job = "sample_job\<lparr>job_inputs := [Some empty_reference], job_cwd := ''/w''\<rparr>"
  have "remote_accepts sample_remote ?job sample_fs" by code_simp
  from remote_acceptsE [OF this] obtain res req' fs' where
    w: "sample_remote (Some (Some ?job)) sample_fs = (Ok (Some res), req', fs')" by blast
  from remote_runtime_spec [OF sample_remote w] w show ?thesis by blast
qed

theorem remote_compilation_fails_witness:
  "\<exists>job res req' fs' js' hp'.
     CreateCppJob ''j'' 0 sample_fs (ParseCommandLine sample_line) plain_runtime ''/w'' = Ok job \<and>
     sample_remote (Some (Some job)) sample_fs = (Ok (Some res), req', fs') \<and>
     completionCallback (materialize_here (\<lambda>_. '''') sample_fs) (\<lambda>_ _. None) 9 ''a'' job res (initial_state 7 job, []) = Some (js', hp') \<and>
     jp_status (js_progress js') = JOB_STATUS_FAILED"
proof -
  let ?c = "CreateCppJob ''j'' 0 sample_fs (ParseCommandLine sample_line) plain_runtime ''/w''"
  have "case ?c of Inl _ \<Rightarrow> False | Inr job \<Rightarrow> remote_accepts sample_remote job sample_fs" by code_simp
  then obtain job where job: "?c = Ok job" "remote_accepts sample_remote job sample_fs" by (auto split: sum.splits)
  from remote_acceptsE [OF job(2)] obtain res req' fs' where
    w: "sample_remote (Some (Some job)) sample_fs = (Ok (Some res), req', fs')" by blast
  have wd: "path_is_abs ''/w''" by simp
  have absent: "os_stat sample_fs (Join [''/w'', normalizePathToRelative (pa_output_file (ParseCommandLine sample_line)) ''/w'']) = Err NotExist"
    by code_simp
  obtain js' hp' where cb: "completionCallback (materialize_here (\<lambda>_. '''') sample_fs) (\<lambda>_ _. None) 9 ''a'' job res
      (initial_state 7 job, []) = Some (js', hp')"
  proof -
    have "js_watchers (initial_state 7 job) = []" by (simp add: initial_state_def)
    from completion_unwatched [OF this] that show ?thesis by blast
  qed
  from remote_compilation_fails [OF job(1) wd sample_remote w absent cb] job(1) w cb show ?thesis by blast
qed

end
