(* ===== verification/Strings.thy ===== *)
theory Strings
  imports Prelude
begin

text \<open>
  More of the packages strings and strconv, on ASCII text: trimming, the signed decimal numbers
  of \<open>Atoi\<close> with the bounds of a 64-bit int, and their printing.
\<close>

section \<open>Trimming\<close>

definition is_space :: "char \<Rightarrow> bool" where
  "is_space c = (let n = (of_char c :: nat) in n = 32 \<or> (9 \<le> n \<and> n \<le> 13))"

definition trim_right_func :: "(char \<Rightarrow> bool) \<Rightarrow> string \<Rightarrow> string" where
  "trim_right_func P s = rev (dropWhile P (rev s))"

definition trim_func :: "(char \<Rightarrow> bool) \<Rightarrow> string \<Rightarrow> string" where
  "trim_func P s = trim_right_func P (dropWhile P s)"

definition TrimSpace :: "string \<Rightarrow> string" where
  "TrimSpace s = trim_func is_space s"

lemma trim_right_subset: "set (trim_right_func P s) \<subseteq> set s"
  by (auto simp: trim_right_func_def dest: set_dropWhileD)

lemma trim_func_subset: "set (trim_func P s) \<subseteq> set s"
  using trim_right_subset [of P "dropWhile P s"] by (auto simp: trim_func_def dest: set_dropWhileD)

lemma trim_func_empty: "trim_func P s = [] \<longleftrightarrow> list_all P s"
proof -
  have "list_all P (dropWhile P s) = list_all P s" by (induction s) auto
  then show ?thesis by (simp add: trim_func_def trim_right_func_def list_all_iff)
qed

section \<open>Signed numbers\<close>

definition is_int64 :: "int \<Rightarrow> bool" where
  "is_int64 i = (- (2 ^ 63) \<le> i \<and> i < 2 ^ 63)"

definition split_sign :: "string \<Rightarrow> bool \<times> string" where
  "split_sign s = (case s of
     c # r \<Rightarrow> if c = CHR ''-'' then (True, r) else if c = CHR ''+'' then (False, r) else (False, s)
   | [] \<Rightarrow> (False, s))"

definition Atoi :: "string \<Rightarrow> int option" where
  "Atoi s = (case split_sign s of (neg, ds) \<Rightarrow>
     if ds = [] \<or> \<not> list_all is_digit ds then None
     else let v = (if neg then - int (digits_val ds) else int (digits_val ds))
          in if is_int64 v then Some v else None)"

definition format_int :: "int \<Rightarrow> string" where
  "format_int i = (if i < 0 then CHR ''-'' # format_nat (nat (- i)) else format_nat (nat i))"

lemma format_nat_digit_head: "\<exists>c cs. format_nat n = c # cs \<and> is_digit c"
proof (cases "format_nat n")
  case (Cons c cs)
  with format_nat_digits [of n] show ?thesis by simp
qed simp

lemma sign_not_digit [simp]: "\<not> is_digit (CHR ''-'')" "\<not> is_digit (CHR ''+'')"
  by (simp_all add: is_digit_def)

lemma split_sign_format_nat [simp]: "split_sign (format_nat n) = (False, format_nat n)"
proof -
  obtain c cs where "format_nat n = c # cs" "is_digit c" using format_nat_digit_head by blast
  then show ?thesis by (auto simp: split_sign_def)
qed

lemma Atoi_format_int:
  assumes "is_int64 i"
  shows "Atoi (format_int i) = Some i"
proof (cases "i < 0")
  case True
  have "split_sign (format_int i) = (True, format_nat (nat (- i)))"
    using True by (simp add: format_int_def split_sign_def)
  then show ?thesis using assms True by (simp add: Atoi_def format_nat_digits)
next
  case False
  then show ?thesis using assms by (simp add: format_int_def Atoi_def format_nat_digits)
qed

lemma Atoi_int64: "Atoi s = Some i \<Longrightarrow> is_int64 i"
  by (auto simp: Atoi_def Let_def split: prod.splits if_splits)

end
