(* ===== verification/Detector.thy ===== *)
theory Detector
  imports NativeRuntime RuntimeRegistry Paths Strings
begin

text \<open>
  Detection of the native toolchains (pkg/runtimes/cpp/native/detector.go, variant_detector.go and
  discoverer.go). What the detector asks of the system is a record: the variable PATH, the content
  of directories, the mode of a file, the embedded test programs, and the output of a command that
  succeeds (None for one that fails) by program, arguments and standard input. The system answers
  the same question the same way during a detection. Text is ASCII. The zero value of the enums is
  their unspecified value: nothing the detector does tells them apart.
\<close>

unbundle bit_operations_syntax

record DetectEnv =
  de_goos :: string
  de_goarch :: string
  de_path :: string
  de_look_path :: "string \<Rightarrow> string option"
  de_read_dir :: "string \<Rightarrow> (string \<times> bool) list option"
  de_mode :: "string \<Rightarrow> 32 word option"
  de_test_program :: "string \<Rightarrow> string option"
  de_run :: "string \<Rightarrow> string list \<Rightarrow> string \<Rightarrow> string option"

section \<open>Versions\<close>

definition Fields :: "string \<Rightarrow> string list" where
  "Fields s = fields_func is_space s"

definition first_line :: "string \<Rightarrow> string" where
  "first_line s = hd (split_on (CHR 0x0A) s)"

definition isValidVersion :: "string \<Rightarrow> bool" where
  "isValidVersion s =
     (list_all (\<lambda>r. is_digit r \<or> r = CHR ''.'' \<or> r = CHR ''-'') s \<and> list_ex is_digit s)"

definition version_candidates :: "string \<Rightarrow> string list" where
  "version_candidates line =
     filter isValidVersion (map (trim_right_func (\<lambda>c. c = CHR '')''))
       (filter (\<lambda>part. str_contains part ''.'') (Fields line)))"

definition getCompilerVersion :: "DetectEnv \<Rightarrow> string \<Rightarrow> string" where
  "getCompilerVersion env compilerPath =
     (case de_run env compilerPath [''--version''] '''' of
        None \<Rightarrow> ''unknown''
      | Some outp \<Rightarrow>
          (let cs = version_candidates (first_line outp) in
           case List.find (\<lambda>v. \<not> str_contains v ''-'') cs of
             Some v \<Rightarrow> v
           | None \<Rightarrow> (case cs of [] \<Rightarrow> ''unknown'' | c # _ \<Rightarrow> c)))"

text \<open>The regular expression \<open>\d+\.\d+(\.\d+)?\<close> at the beginning of a string, and its leftmost
  match.\<close>

definition match_version_at :: "string \<Rightarrow> string option" where
  "match_version_at s =
     (let a = takeWhile is_digit s in
      if a = [] then None
      else case dropWhile is_digit s of
        c # r \<Rightarrow>
          (let b = takeWhile is_digit r in
           if c \<noteq> CHR ''.'' \<or> b = [] then None
           else case dropWhile is_digit r of
             c' # r' \<Rightarrow>
               (let d = takeWhile is_digit r' in
                if c' \<noteq> CHR ''.'' \<or> d = [] then Some (a @ ''.'' @ b)
                else Some (a @ ''.'' @ b @ ''.'' @ d))
           | [] \<Rightarrow> Some (a @ ''.'' @ b))
      | [] \<Rightarrow> None)"

fun find_version :: "string \<Rightarrow> string option" where
  "find_version [] = None"
| "find_version (c # cs) =
     (case match_version_at (c # cs) of Some v \<Rightarrow> Some v | None \<Rightarrow> find_version cs)"

definition getGlibcVersion :: "DetectEnv \<Rightarrow> string" where
  "getGlibcVersion env =
     (case de_run env ''ldd'' [''--version''] '''' of
        None \<Rightarrow> ''unknown''
      | Some outp \<Rightarrow> (case find_version (first_line outp) of Some v \<Rightarrow> v | None \<Rightarrow> ''unknown''))"

definition musl_query :: "string list" where
  "musl_query =
     [''-c'', ''find /lib -name 'ld-musl-*.so.1' -o -name 'libc.musl-*.so.1' | head -1'']"

definition getMuslVersion :: "DetectEnv \<Rightarrow> string" where
  "getMuslVersion env =
     (case de_run env ''sh'' musl_query '''' of
        None \<Rightarrow> ''unknown''
      | Some outp \<Rightarrow>
          (let filename = TrimSpace outp in
           if filename \<noteq> '''' then (case find_version filename of Some v \<Rightarrow> v | None \<Rightarrow> ''unknown'')
           else ''unknown''))"

definition detectCRuntimeVersion :: "DetectEnv \<Rightarrow> NativeCRuntime \<Rightarrow> string" where
  "detectCRuntimeVersion env cruntime =
     (case cruntime of
        CRuntimeGlibc \<Rightarrow> getGlibcVersion env
      | CRuntimeMusl \<Rightarrow> getMuslVersion env
      | _ \<Rightarrow> ''unknown'')"

section \<open>Compilers in the path\<close>

definition isValidCompiler :: "string \<Rightarrow> string \<Rightarrow> bool" where
  "isValidCompiler compilerName name =
     (name = compilerName \<or>
      (has_prefix name (compilerName @ ''-'') \<and>
       (let suffix = trim_prefix name (compilerName @ ''-'') in
        0 < length suffix \<and> length suffix \<le> 3 \<and> trim_func is_digit suffix = '''')))"

definition executable_mode :: "DetectEnv \<Rightarrow> string \<Rightarrow> bool" where
  "executable_mode env p = (case de_mode env p of None \<Rightarrow> False | Some m \<Rightarrow> m AND 0x49 \<noteq> 0)"

text \<open>The table of seen paths of the code has exactly the paths of the results as its keys.\<close>

definition add_entry ::
  "DetectEnv \<Rightarrow> string \<Rightarrow> string \<Rightarrow> string list \<Rightarrow> string \<times> bool \<Rightarrow> string list" where
  "add_entry env compilerName dir results entry =
     (case entry of (name, is_dir) \<Rightarrow>
        let fullPath = Join [dir, name] in
        if is_dir \<or> \<not> isValidCompiler compilerName name then results
        else if fullPath \<notin> set results \<and> executable_mode env fullPath then results @ [fullPath]
        else results)"

definition add_path_dir ::
  "DetectEnv \<Rightarrow> string \<Rightarrow> string list \<Rightarrow> string \<Rightarrow> string list" where
  "add_path_dir env compilerName results d =
     (let dir = TrimSpace d in
      if dir = '''' then results
      else case de_read_dir env dir of
        None \<Rightarrow> results
      | Some entries \<Rightarrow> foldl (add_entry env compilerName dir) results entries)"

definition findCompilerPaths :: "DetectEnv \<Rightarrow> string \<Rightarrow> string list" where
  "findCompilerPaths env compilerName =
     (if de_path env = '''' then []
      else foldl (add_path_dir env compilerName)
        (case de_look_path env compilerName of Some p \<Rightarrow> [p] | None \<Rightarrow> [])
        (split_on (CHR '':'') (de_path env)))"

definition FindArchiverForCompiler :: "DetectEnv \<Rightarrow> string" where
  "FindArchiverForCompiler env = (case de_look_path env ''ar'' of None \<Rightarrow> '''' | Some p \<Rightarrow> p)"

section \<open>Variants\<close>

definition testArchitecture :: "DetectEnv \<Rightarrow> string \<Rightarrow> string \<Rightarrow> Language \<Rightarrow> string \<Rightarrow> bool" where
  "testArchitecture env compilerPath testProgram language archFlag =
     (if language = LanguageC
      then de_run env compilerPath [archFlag, ''-x'', ''c'', ''-'', ''-o'', ''/dev/null''] testProgram \<noteq> None
      else de_run env compilerPath [archFlag, ''-x'', ''c++'', ''-'', ''-o'', ''/dev/null''] testProgram \<noteq> None)"

definition testCRuntime :: "DetectEnv \<Rightarrow> string \<Rightarrow> string \<Rightarrow> string \<Rightarrow> string \<Rightarrow> bool" where
  "testCRuntime env compilerPath testProgram libName extraFlag =
     (let args = (if extraFlag \<noteq> '''' then [''-x'', ''c'', ''-'', extraFlag, ''-o'', ''/dev/null'']
                  else [''-x'', ''c'', ''-'', ''-o'', ''/dev/null''])
      in de_run env compilerPath args testProgram \<noteq> None)"

definition testCppStdlib :: "DetectEnv \<Rightarrow> string \<Rightarrow> string \<Rightarrow> string \<Rightarrow> string \<Rightarrow> bool" where
  "testCppStdlib env compilerPath testProgram libName stdlibFlag =
     (let args = (if stdlibFlag \<noteq> '''' then [stdlibFlag, ''-x'', ''c++'', ''-'', ''-o'', ''/dev/null'']
                  else [''-x'', ''c++'', ''-'', ''-o'', ''/dev/null''])
      in de_run env compilerPath args testProgram \<noteq> None)"

definition detectCppStdlib :: "Compiler \<Rightarrow> NativeCppStdlib" where
  "detectCppStdlib compiler =
     (case compiler of CompilerGCC \<Rightarrow> CppStdlibLibstdcxx | _ \<Rightarrow> CppStdlibUnspecified)"

definition detectAbiModifiers :: "DetectEnv \<Rightarrow> string \<Rightarrow> Compiler \<Rightarrow> string list" where
  "detectAbiModifiers env compilerPath compiler =
     (if compiler \<noteq> CompilerGCC then []
      else case de_test_program env ''testdata/gcc_cxx11_abi_check.hpp'' of
        None \<Rightarrow> []
      | Some prog \<Rightarrow>
          (case de_run env compilerPath [''-E'', ''-dM'', ''-''] prog of
             None \<Rightarrow> []
           | Some outp \<Rightarrow> if str_contains outp ''_GLIBCXX_USE_CXX11_ABI''
                       then [''-D_GLIBCXX_USE_CXX11_ABI=1''] else []))"

definition buildToolchain ::
  "DetectEnv \<Rightarrow> string \<Rightarrow> Compiler \<Rightarrow> Language \<Rightarrow> NativeCRuntime \<Rightarrow> NativeCppStdlib \<Rightarrow>
   Architecture \<Rightarrow> Toolchain" where
  "buildToolchain env compilerPath compiler language cruntime stdlibOverride arch =
     (let tc = \<lparr>tc_language = language, tc_compiler = compiler, tc_compiler_path = compilerPath,
                tc_archiver_path = '''', tc_compiler_version = getCompilerVersion env compilerPath,
                tc_architecture = arch, tc_c_runtime = cruntime,
                tc_c_runtime_version = detectCRuntimeVersion env cruntime,
                tc_cpp_abi = CppAbiUnspecified, tc_cpp_stdlib = CppStdlibUnspecified,
                tc_abi_modifiers = []\<rparr>
      in if language = LanguageCpp
         then tc\<lparr>tc_cpp_stdlib := (if stdlibOverride \<noteq> CppStdlibUnspecified then stdlibOverride
                                   else detectCppStdlib compiler),
                 tc_abi_modifiers := detectAbiModifiers env compilerPath compiler,
                 tc_cpp_abi := CppAbiItanium\<rparr>
         else tc)"

definition available_stdlibs :: "DetectEnv \<Rightarrow> string \<Rightarrow> Compiler \<Rightarrow> string \<Rightarrow> NativeCppStdlib list" where
  "available_stdlibs env compilerPath compiler prog =
     (let found = (if testCppStdlib env compilerPath prog ''libstdc++'' '''' then [CppStdlibLibstdcxx] else [])
            @ (if compiler = CompilerClang \<and> testCppStdlib env compilerPath prog ''libc++'' ''-stdlib=libc++''
               then [CppStdlibLibcxx] else [])
      in if found = [] then [CppStdlibLibstdcxx] else found)"

definition available_architectures :: "DetectEnv \<Rightarrow> string \<Rightarrow> string \<Rightarrow> Language \<Rightarrow> Architecture list" where
  "available_architectures env compilerPath prog language =
     (let found = map fst (filter (\<lambda>(arch, flag). testArchitecture env compilerPath prog language flag)
            [(ArchitectureX86_64, ''-m64''), (ArchitectureAArch64, ''-march=armv8-a''),
             (ArchitectureARM, ''-march=armv7-a'')])
      in if found = [] then [ArchitectureX86_64] else found)"

definition detectCppStdlibVariantsForArch ::
  "DetectEnv \<Rightarrow> string \<Rightarrow> Compiler \<Rightarrow> NativeCRuntime \<Rightarrow> Architecture \<Rightarrow> Toolchain list" where
  "detectCppStdlibVariantsForArch env compilerPath compiler cruntime arch =
     (case de_test_program env ''testdata/libstdcxx_check.cpp'' of
        None \<Rightarrow> []
      | Some prog \<Rightarrow>
          map (\<lambda>stdlib. buildToolchain env compilerPath compiler LanguageCpp cruntime stdlib arch)
            (available_stdlibs env compilerPath compiler prog))"

definition detectArchitectureVariants ::
  "DetectEnv \<Rightarrow> string \<Rightarrow> Language \<Rightarrow> Compiler \<Rightarrow> NativeCRuntime \<Rightarrow> Toolchain list" where
  "detectArchitectureVariants env compilerPath language compiler cruntime =
     (case de_test_program env (if language = LanguageC then ''testdata/c_runtime_check.c''
                                else ''testdata/libstdcxx_check.cpp'') of
        None \<Rightarrow> []
      | Some prog \<Rightarrow>
          (let archs = available_architectures env compilerPath prog language
           in if language = LanguageCpp
              then concat (map (detectCppStdlibVariantsForArch env compilerPath compiler cruntime) archs)
              else map (buildToolchain env compilerPath compiler language cruntime CppStdlibUnspecified) archs))"

definition available_runtimes :: "DetectEnv \<Rightarrow> string \<Rightarrow> string \<Rightarrow> NativeCRuntime list" where
  "available_runtimes env compilerPath prog =
     (let found = (if testCRuntime env compilerPath prog ''glibc'' '''' then [CRuntimeGlibc] else [])
            @ (if testCRuntime env compilerPath prog ''musl'' ''-lc'' then [CRuntimeMusl] else [])
      in if found = [] then [CRuntimeGlibc] else found)"

definition detectCRuntimeVariants ::
  "DetectEnv \<Rightarrow> string \<Rightarrow> Language \<Rightarrow> Compiler \<Rightarrow> Toolchain list" where
  "detectCRuntimeVariants env compilerPath language compiler =
     (case de_test_program env ''testdata/c_runtime_check.c'' of
        None \<Rightarrow> []
      | Some prog \<Rightarrow>
          concat (map (detectArchitectureVariants env compilerPath language compiler)
            (available_runtimes env compilerPath prog)))"

definition detectClangCppVariants :: "DetectEnv \<Rightarrow> string \<Rightarrow> Toolchain list" where
  "detectClangCppVariants env compilerPath =
     (case de_test_program env ''testdata/c_runtime_check.c'' of
        None \<Rightarrow> []
      | Some prog \<Rightarrow>
          concat (map (detectArchitectureVariants env compilerPath LanguageCpp CompilerClang)
            (available_runtimes env compilerPath prog)))"

section \<open>Toolchains\<close>

fun Language_String :: "Language \<Rightarrow> string" where
  "Language_String LanguageUnspecified = ''unspecified''"
| "Language_String LanguageC = ''c''"
| "Language_String LanguageCpp = ''cpp''"

definition dedup_key :: "Toolchain \<Rightarrow> string" where
  "dedup_key tc = join_with ''|''
     [tc_compiler_version tc, CRuntime_String (tc_c_runtime tc), tc_c_runtime_version tc,
      Language_String (tc_language tc), CppStdlib_String (tc_cpp_stdlib tc),
      Architecture_String (tc_architecture tc)]"

definition add_toolchain ::
  "string \<Rightarrow> string list \<times> Toolchain list \<Rightarrow> Toolchain \<Rightarrow> string list \<times> Toolchain list" where
  "add_toolchain archiverPath st tc =
     (case st of (seen, found) \<Rightarrow>
        if dedup_key tc \<in> set seen then (seen, found)
        else (dedup_key tc # seen, found @ [tc\<lparr>tc_archiver_path := archiverPath\<rparr>]))"

definition path_toolchains :: "DetectEnv \<Rightarrow> Language \<Rightarrow> Compiler \<Rightarrow> string \<Rightarrow> Toolchain list" where
  "path_toolchains env language compiler compilerPath =
     (if language = LanguageC then detectCRuntimeVariants env compilerPath language compiler
      else if language = LanguageCpp \<and> compiler = CompilerClang then detectClangCppVariants env compilerPath
      else detectCRuntimeVariants env compilerPath language compiler)"

definition detectCompilerToolchains ::
  "DetectEnv \<Rightarrow> string \<Rightarrow> Language \<Rightarrow> Compiler \<Rightarrow> Toolchain list" where
  "detectCompilerToolchains env compilerName language compiler =
     (let paths = findCompilerPaths env compilerName; archiverPath = FindArchiverForCompiler env in
      if paths = [] \<or> archiverPath = '''' then []
      else snd (foldl (add_toolchain archiverPath) ([], [])
        (concat (map (path_toolchains env language compiler) paths))))"

definition compiler_specs :: "(string \<times> Language \<times> Compiler) list" where
  "compiler_specs =
     [(''gcc'', LanguageC, CompilerGCC), (''g++'', LanguageCpp, CompilerGCC),
      (''clang'', LanguageC, CompilerClang), (''clang++'', LanguageCpp, CompilerClang)]"

definition DetectToolchains :: "DetectEnv \<Rightarrow> Toolchain list" where
  "DetectToolchains env =
     (if de_goos env \<noteq> ''linux'' then []
      else concat (map (\<lambda>(name, language, compiler). detectCompilerToolchains env name language compiler)
        compiler_specs))"

definition first_toolchain :: "Toolchain list \<Rightarrow> Toolchain option" where
  "first_toolchain tcs = (case tcs of [] \<Rightarrow> None | t # _ \<Rightarrow> Some t)"

definition DetectGCC :: "DetectEnv \<Rightarrow> Toolchain option" where
  "DetectGCC env = first_toolchain (detectCompilerToolchains env ''gcc'' LanguageC CompilerGCC)"
definition DetectGxx :: "DetectEnv \<Rightarrow> Toolchain option" where
  "DetectGxx env = first_toolchain (detectCompilerToolchains env ''g++'' LanguageCpp CompilerGCC)"
definition DetectClang :: "DetectEnv \<Rightarrow> Toolchain option" where
  "DetectClang env = first_toolchain (detectCompilerToolchains env ''clang'' LanguageC CompilerClang)"
definition DetectClangxx :: "DetectEnv \<Rightarrow> Toolchain option" where
  "DetectClangxx env = first_toolchain (detectCompilerToolchains env ''clang++'' LanguageCpp CompilerClang)"

definition detectArchitecture :: "DetectEnv \<Rightarrow> string" where
  "detectArchitecture env =
     (if de_goarch env = ''amd64'' then ''x86_64'' else if de_goarch env = ''arm64'' then ''aarch64''
      else if de_goarch env = ''arm'' then ''arm'' else ''unknown'')"

definition native_parseArchitecture :: "string \<Rightarrow> Architecture" where
  "native_parseArchitecture arch =
     (if arch = ''x86_64'' then ArchitectureX86_64 else if arch = ''aarch64'' then ArchitectureAArch64
      else if arch = ''arm'' then ArchitectureARM else ArchitectureUnspecified)"

text \<open>The text of a toolchain. cppAbiString has no case for the unspecified ABI of C.\<close>

definition Toolchain_String :: "Toolchain \<Rightarrow> string" where
  "Toolchain_String tc =
     (case tc_compiler tc of CompilerGCC \<Rightarrow> ''GCC'' | CompilerClang \<Rightarrow> ''Clang'' | _ \<Rightarrow> ''unknown'')
     @ '' '' @ (case tc_language tc of LanguageC \<Rightarrow> ''C'' | LanguageCpp \<Rightarrow> ''C++'' | _ \<Rightarrow> ''unknown'')
     @ '' (v'' @ tc_compiler_version tc @ '') ''
     @ (case tc_architecture tc of ArchitectureUnspecified \<Rightarrow> ''unknown'' | a \<Rightarrow> Architecture_String a)
     @ '' ['' @ (case tc_c_runtime tc of CRuntimeUnspecified \<Rightarrow> ''unknown'' | r \<Rightarrow> CRuntime_String r)
     @ '', '' @ (case tc_cpp_stdlib tc of CppStdlibUnspecified \<Rightarrow> ''unknown'' | l \<Rightarrow> CppStdlib_String l)
     @ ''@'' @ (case tc_cpp_abi tc of CppAbiItanium \<Rightarrow> ''itanium'' | _ \<Rightarrow> ''unknown'') @ '']''"

section \<open>Generic variants\<close>

definition CollectVariants :: "'v list \<Rightarrow> ('v \<Rightarrow> bool) \<Rightarrow> 'v \<Rightarrow> 'v list" where
  "CollectVariants candidates tester defaultVariant =
     (let available = filter tester candidates in if available = [] then [defaultVariant] else available)"

definition AddDimension :: "'a list list \<Rightarrow> 'a list \<Rightarrow> 'a list list" where
  "AddDimension dims variants = (if variants = [] then dims else dims @ [variants])"

definition GenerateCombinations :: "'a list list \<Rightarrow> 'a list list" where
  "GenerateCombinations dims =
     (case dims of
        [] \<Rightarrow> []
      | d # ds \<Rightarrow>
          foldl (\<lambda>combos dim. concat (map (\<lambda>combo. map (\<lambda>item. combo @ [item]) dim) combos))
            (map (\<lambda>item. [item]) d) ds)"

section \<open>Discovery\<close>

text \<open>Discover registers a runtime for every toolchain; what fails to register is only logged. The
  detection has no error. A registry of toolchains stands for the registry of the runtimes made
  of them: the identifier of a wrapped runtime is that of the runtime inside.\<close>

definition CppDiscoverer_Discover :: "DetectEnv \<Rightarrow> (Toolchain, 'e) Discoverer" where
  "CppDiscoverer_Discover env r =
     (None, foldl (\<lambda>r tc. snd (Registry_Register NativeRuntimeID (Some tc) r)) r (DetectToolchains env))"

section \<open>Well-formed toolchains\<close>

text \<open>The text of a version: letters occur in it only as the word unknown.\<close>

definition libc_version :: "string \<Rightarrow> bool" where
  "libc_version s = (s = ''unknown'' \<or>
     (s \<noteq> [] \<and> list_all (\<lambda>c. is_digit c \<or> c = CHR ''.'') s))"

definition compiler_version :: "string \<Rightarrow> bool" where
  "compiler_version s = (s = ''unknown'' \<or> isValidVersion s)"

definition toolchain_typed :: "Toolchain \<Rightarrow> bool" where
  "toolchain_typed t =
     (tc_language t \<noteq> LanguageUnspecified \<and> tc_compiler t \<noteq> CompilerUnspecified \<and>
      tc_architecture t \<noteq> ArchitectureUnspecified \<and> tc_c_runtime t \<noteq> CRuntimeUnspecified \<and>
      (tc_language t = LanguageCpp \<longleftrightarrow> tc_cpp_stdlib t \<noteq> CppStdlibUnspecified) \<and>
      (tc_language t = LanguageCpp \<longleftrightarrow> tc_cpp_abi t = CppAbiItanium) \<and>
      (tc_cpp_stdlib t = CppStdlibLibcxx \<longrightarrow> tc_compiler t = CompilerClang) \<and>
      (tc_abi_modifiers t \<noteq> [] \<longrightarrow> tc_compiler t = CompilerGCC \<and> tc_language t = LanguageCpp) \<and>
      compiler_version (tc_compiler_version t) \<and> libc_version (tc_c_runtime_version t))"

lemma version_candidates_valid: "v \<in> set (version_candidates line) \<Longrightarrow> isValidVersion v"
  by (auto simp: version_candidates_def)

lemma getCompilerVersion_text: "compiler_version (getCompilerVersion env p)"
proof (cases "de_run env p [''--version''] ''''")
  case None
  then show ?thesis by (simp add: getCompilerVersion_def compiler_version_def)
next
  case (Some outp)
  define cs where "cs = version_candidates (first_line outp)"
  have cs: "\<forall>v\<in>set cs. isValidVersion v" by (simp add: cs_def version_candidates_valid)
  have eq: "getCompilerVersion env p = (case List.find (\<lambda>v. \<not> str_contains v ''-'') cs of
      Some v \<Rightarrow> v | None \<Rightarrow> (case cs of [] \<Rightarrow> ''unknown'' | c # _ \<Rightarrow> c))"
    unfolding getCompilerVersion_def cs_def by (simp add: Some Let_def)
  show ?thesis
  proof (cases "List.find (\<lambda>v. \<not> str_contains v ''-'') cs")
    case None
    then show ?thesis using eq cs by (cases cs) (simp_all add: compiler_version_def)
  next
    case (Some v)
    then show ?thesis using eq cs find_Some_mem [OF Some] by (simp add: compiler_version_def)
  qed
qed

lemma match_version_at_text:
  assumes m: "match_version_at s = Some v"
  shows "libc_version v"
proof -
  have chars: "list_all (\<lambda>c. is_digit c \<or> c = CHR ''.'') (takeWhile is_digit x)" for x
    by (auto simp: list_all_iff dest: set_takeWhileD)
  from m have "takeWhile is_digit s \<noteq> []" by (auto simp: match_version_at_def split: if_splits)
  with m chars show ?thesis
    by (auto simp: match_version_at_def Let_def libc_version_def split: if_splits list.splits)
qed

lemma find_version_text: "find_version s = Some v \<Longrightarrow> libc_version v"
  by (induction s) (auto split: option.splits dest: match_version_at_text)

lemma match_version_at_no_dot:
  assumes "CHR ''.'' \<notin> set a" and "\<forall>y ys. b = y # ys \<longrightarrow> \<not> is_digit y"
  shows "match_version_at a = None" and "match_version_at (a @ CHR ''.'' # b) = None"
proof -
  have dot: "\<not> is_digit (CHR ''.'')" by (simp add: is_digit_def)
  have b: "takeWhile is_digit b = []" using assms(2) by (cases b) simp_all
  have "match_version_at a = None \<and> match_version_at (a @ CHR ''.'' # b) = None"
  proof (cases "dropWhile is_digit a")
    case Nil
    then have "takeWhile is_digit a = a" "list_all is_digit a" by (simp_all add: list_all_iff takeWhile_eq_all_conv)
    then have "takeWhile is_digit (a @ CHR ''.'' # b) = a" "dropWhile is_digit (a @ CHR ''.'' # b) = CHR ''.'' # b"
      using dot by (simp_all add: list_all_iff takeWhile_append2 dropWhile_append2)
    then show ?thesis unfolding match_version_at_def Let_def by (simp add: Nil b)
  next
    case (Cons x r)
    then have "x \<in> set a" by (metis list.set_intros(1) set_dropWhileD)
    then have "x \<noteq> CHR ''.''" using assms(1) by auto
    have "\<exists>y\<in>set a. \<not> is_digit y" using Cons by (metis dropWhile_eq_Nil_conv list.distinct(1))
    then have "dropWhile is_digit (a @ CHR ''.'' # b) = x # r @ CHR ''.'' # b"
      using Cons by (metis append_Cons dropWhile_append1)
    then show ?thesis unfolding match_version_at_def Let_def using \<open>x \<noteq> CHR ''.''\<close> by (simp add: Cons)
  qed
  then show "match_version_at a = None" "match_version_at (a @ CHR ''.'' # b) = None" by simp_all
qed

lemma find_version_no_dot:
  "CHR ''.'' \<notin> set a \<Longrightarrow> \<forall>y ys. b = y # ys \<longrightarrow> \<not> is_digit y \<Longrightarrow> find_version b = None \<Longrightarrow>
   find_version a = None \<and> find_version (a @ CHR ''.'' # b) = None"
proof (induction a)
  case Nil
  then show ?case using match_version_at_no_dot(2) [of "[]" b] by simp
next
  case (Cons c cs)
  then show ?case using match_version_at_no_dot [of "c # cs" b] by simp
qed

lemma detectCRuntimeVersion_text: "libc_version (detectCRuntimeVersion env r)"
  by (auto simp: detectCRuntimeVersion_def getGlibcVersion_def getMuslVersion_def Let_def
      libc_version_def dest: find_version_text split: NativeCRuntime.split option.split)

lemma buildToolchain_typed:
  assumes "language \<noteq> LanguageUnspecified" "compiler \<noteq> CompilerUnspecified"
    "cruntime \<noteq> CRuntimeUnspecified" "arch \<noteq> ArchitectureUnspecified"
    "language = LanguageCpp \<longrightarrow> stdlib \<noteq> CppStdlibUnspecified"
    "stdlib = CppStdlibLibcxx \<longrightarrow> compiler = CompilerClang"
  shows "toolchain_typed (buildToolchain env p compiler language cruntime stdlib arch)"
  using assms getCompilerVersion_text [of env p] detectCRuntimeVersion_text [of env cruntime]
  by (auto simp: toolchain_typed_def buildToolchain_def Let_def detectAbiModifiers_def)

lemma detectCppStdlibVariantsForArch_typed:
  assumes "compiler \<noteq> CompilerUnspecified" "cruntime \<noteq> CRuntimeUnspecified" "arch \<noteq> ArchitectureUnspecified"
    "t \<in> set (detectCppStdlibVariantsForArch env p compiler cruntime arch)"
  shows "toolchain_typed t \<and> tc_language t = LanguageCpp \<and> tc_compiler t = compiler"
proof -
  obtain l prog where l: "l \<in> set (available_stdlibs env p compiler prog)"
    and t: "t = buildToolchain env p compiler LanguageCpp cruntime l arch"
    using assms(4) by (auto simp: detectCppStdlibVariantsForArch_def split: option.splits)
  have "l \<noteq> CppStdlibUnspecified" "l = CppStdlibLibcxx \<longrightarrow> compiler = CompilerClang"
    using l by (auto simp: available_stdlibs_def Let_def split: if_splits)
  with assms show ?thesis unfolding t by (simp add: buildToolchain_typed) (simp add: buildToolchain_def Let_def)
qed

lemma detectArchitectureVariants_typed:
  assumes "language \<noteq> LanguageUnspecified" "compiler \<noteq> CompilerUnspecified" "cruntime \<noteq> CRuntimeUnspecified"
    "t \<in> set (detectArchitectureVariants env p language compiler cruntime)"
  shows "toolchain_typed t \<and> tc_language t = language \<and> tc_compiler t = compiler"
proof -
  have archs: "a \<noteq> ArchitectureUnspecified" if "a \<in> set (available_architectures env p prog language)" for a prog
    using that by (auto simp: available_architectures_def Let_def split: if_splits)
  show ?thesis
  proof (cases "language = LanguageCpp")
    case True
    then obtain a prog where "a \<in> set (available_architectures env p prog language)"
      "t \<in> set (detectCppStdlibVariantsForArch env p compiler cruntime a)"
      using assms(4) by (auto simp: detectArchitectureVariants_def split: option.splits)
    then show ?thesis using True detectCppStdlibVariantsForArch_typed [OF assms(2,3) archs] by blast
  next
    case False
    then obtain a prog where a: "a \<in> set (available_architectures env p prog language)"
      and t: "t = buildToolchain env p compiler language cruntime CppStdlibUnspecified a"
      using assms(4) by (auto simp: detectArchitectureVariants_def split: option.splits)
    have "tc_language t = language" "tc_compiler t = compiler"
      using False by (simp_all add: t buildToolchain_def Let_def)
    then show ?thesis using False a archs assms unfolding t by (simp add: buildToolchain_typed)
  qed
qed

lemma available_runtimes_specified: "r \<in> set (available_runtimes env p prog) \<Longrightarrow> r \<noteq> CRuntimeUnspecified"
  by (auto simp: available_runtimes_def Let_def split: if_splits)

lemma path_toolchains_typed:
  assumes "language \<noteq> LanguageUnspecified" "compiler \<noteq> CompilerUnspecified"
    "t \<in> set (path_toolchains env language compiler p)"
  shows "toolchain_typed t \<and> tc_language t = language \<and> tc_compiler t = compiler"
proof -
  obtain prog r where r: "r \<in> set (available_runtimes env p prog)"
    and t: "t \<in> set (detectArchitectureVariants env p language compiler r)"
    using assms(3) by (auto simp: path_toolchains_def detectCRuntimeVariants_def detectClangCppVariants_def
        split: option.splits if_splits)
  show ?thesis by (rule detectArchitectureVariants_typed [OF assms(1,2) available_runtimes_specified [OF r] t])
qed

section \<open>One toolchain for an identifier\<close>

text \<open>The keys seen are those of the toolchains kept, which differ.\<close>

definition dedup_ok :: "string list \<times> Toolchain list \<Rightarrow> bool" where
  "dedup_ok st = (case st of (seen, found) \<Rightarrow>
     set seen = set (map dedup_key found) \<and> distinct (map dedup_key found))"

lemma dedup_key_archiver [simp]: "dedup_key (tc\<lparr>tc_archiver_path := a\<rparr>) = dedup_key tc"
  by (simp add: dedup_key_def)

lemma NativeRuntimeID_archiver [simp]: "NativeRuntimeID (tc\<lparr>tc_archiver_path := a\<rparr>) = NativeRuntimeID tc"
  by (simp add: NativeRuntimeID_def)

lemma toolchain_typed_archiver [simp]: "toolchain_typed (tc\<lparr>tc_archiver_path := a\<rparr>) = toolchain_typed tc"
  by (simp add: toolchain_typed_def)

lemma add_toolchain_ok: "dedup_ok st \<Longrightarrow> dedup_ok (add_toolchain a st tc)"
  by (auto simp: dedup_ok_def add_toolchain_def split: prod.splits)

lemma add_toolchains_mem:
  "t \<in> set (snd (foldl (add_toolchain a) st tcs)) \<Longrightarrow>
   t \<in> set (snd st) \<or> (\<exists>tc\<in>set tcs. t = tc\<lparr>tc_archiver_path := a\<rparr>)"
proof (induction tcs arbitrary: st)
  case (Cons x xs)
  have "set (snd (add_toolchain a st x)) \<subseteq> insert (x\<lparr>tc_archiver_path := a\<rparr>) (set (snd st))"
    by (auto simp: add_toolchain_def split: prod.splits)
  then show ?case using Cons.IH [of "add_toolchain a st x"] Cons.prems by auto
qed simp

lemma detectCompilerToolchains_keys: "distinct (map dedup_key (detectCompilerToolchains env n l c))"
proof -
  have ok: "dedup_ok (foldl (add_toolchain a) ([], []) tcs)" for a tcs
    by (rule foldl_invariant) (simp add: dedup_ok_def, rule add_toolchain_ok)
  have "distinct (map dedup_key (snd (foldl (add_toolchain a) ([], []) tcs)))" for a tcs
    using ok [of a tcs] by (cases "foldl (add_toolchain a) ([], []) tcs") (simp add: dedup_ok_def)
  then show ?thesis by (simp add: detectCompilerToolchains_def Let_def)
qed

lemma detectCompilerToolchains_typed:
  assumes "language \<noteq> LanguageUnspecified" "compiler \<noteq> CompilerUnspecified"
    "t \<in> set (detectCompilerToolchains env n language compiler)"
  shows "toolchain_typed t \<and> tc_language t = language \<and> tc_compiler t = compiler \<and> tc_archiver_path t \<noteq> ''''"
proof -
  have a: "FindArchiverForCompiler env \<noteq> ''''"
    using assms(3) by (auto simp: detectCompilerToolchains_def Let_def split: if_splits)
  obtain tc p where "tc \<in> set (path_toolchains env language compiler p)"
    "t = tc\<lparr>tc_archiver_path := FindArchiverForCompiler env\<rparr>"
    using assms(3) by (auto simp: detectCompilerToolchains_def Let_def split: if_splits
        dest!: add_toolchains_mem)
  then show ?thesis using path_toolchains_typed [OF assms(1,2)] a by auto
qed

text \<open>The identifier of a toolchain is cut into its parts again: no version has a letter of the name
  of a C runtime, and the version of a C runtime has no dash.\<close>
lemma compiler_version_letters:
  "compiler_version v \<Longrightarrow> CHR ''g'' \<notin> set v \<and> CHR ''m'' \<notin> set v"
  by (auto simp: compiler_version_def isValidVersion_def list_all_iff is_digit_def)

lemma libc_version_letters: "libc_version v \<Longrightarrow> CHR ''-'' \<notin> set v"
  by (auto simp: libc_version_def list_all_iff is_digit_def)

lemma cut_unique:
  assumes "a @ c # x = b @ d # y" and "\<forall>z\<in>set a. \<not> P z" and "\<forall>z\<in>set b. \<not> P z" and "P c" and "P d"
  shows "a = b \<and> c = d \<and> x = y"
proof -
  have "a = takeWhile (\<lambda>z. \<not> P z) (a @ c # x)" "b = takeWhile (\<lambda>z. \<not> P z) (b @ d # y)"
    using assms(2-5) by (simp_all add: takeWhile_append2)
  with assms(1) have "a = b" by metis
  with assms(1) show ?thesis by simp
qed

definition libc_name :: "NativeCRuntime \<Rightarrow> string" where
  "libc_name r = (if r = CRuntimeMusl then ''musl'' else ''glibc'')"

definition id_rest :: "Toolchain \<Rightarrow> string" where
  "id_rest t =
     (if tc_language t = LanguageCpp
      then (if tc_cpp_stdlib t = CppStdlibLibcxx then ''libc++-'' else ''libstdc++-'') else '''')
     @ Architecture_String (tc_architecture t)"

lemma NativeRuntimeID_parts:
  "toolchain_typed t \<Longrightarrow> NativeRuntimeID t =
     ''native_linux-'' @ (if tc_language t = LanguageCpp then ''cpp-'' else ''c-'')
     @ (if tc_compiler t = CompilerGCC then ''gcc-'' else ''clang-'')
     @ (tc_compiler_version t @ ''-'') @ libc_name (tc_c_runtime t)
     @ ''-'' @ tc_c_runtime_version t @ CHR ''-'' # id_rest t"
  by (cases "tc_compiler t"; cases "tc_c_runtime t"; cases "tc_cpp_stdlib t"; cases "tc_language t")
     (simp_all add: toolchain_typed_def NativeRuntimeID_def Let_def libc_name_def id_rest_def)

lemma libc_name_head: "\<exists>c x. libc_name r @ y = c # x \<and> (c = CHR ''g'' \<or> c = CHR ''m'')"
  by (simp add: libc_name_def)

lemma NativeRuntimeID_inj:
  assumes t: "toolchain_typed t" and u: "toolchain_typed u" and eq: "NativeRuntimeID t = NativeRuntimeID u"
  shows "dedup_key t = dedup_key u \<and> tc_language t = tc_language u \<and> tc_compiler t = tc_compiler u"
proof -
  let ?tail = "\<lambda>t. (tc_compiler_version t @ ''-'') @ libc_name (tc_c_runtime t)
     @ ''-'' @ tc_c_runtime_version t @ CHR ''-'' # id_rest t"
  let ?P = "\<lambda>c. c = CHR ''g'' \<or> c = CHR ''m''"
  have lc: "(tc_language t = LanguageCpp) = (tc_language u = LanguageCpp)
      \<and> (tc_compiler t = CompilerGCC) = (tc_compiler u = CompilerGCC) \<and> ?tail t = ?tail u"
    using eq unfolding NativeRuntimeID_parts [OF t] NativeRuntimeID_parts [OF u]
    by (auto split: if_splits)
  have vers: "\<forall>z\<in>set (tc_compiler_version s @ ''-''). \<not> ?P z" if "toolchain_typed s" for s
    using that compiler_version_letters [of "tc_compiler_version s"] by (auto simp: toolchain_typed_def)
  obtain c x where cx: "libc_name (tc_c_runtime t) @ ''-'' @ tc_c_runtime_version t @ CHR ''-'' # id_rest t = c # x" "?P c"
    using libc_name_head by blast
  obtain d y where dy: "libc_name (tc_c_runtime u) @ ''-'' @ tc_c_runtime_version u @ CHR ''-'' # id_rest u = d # y" "?P d"
    using libc_name_head by blast
  have "(tc_compiler_version t @ ''-'') @ c # x = (tc_compiler_version u @ ''-'') @ d # y"
    using lc cx dy by simp
  from cut_unique [OF this vers [OF t] vers [OF u] cx(2) dy(2)]
  have v: "tc_compiler_version t = tc_compiler_version u" and rest: "c # x = d # y" by auto
  have r: "libc_name (tc_c_runtime t) = libc_name (tc_c_runtime u)"
    and w: "tc_c_runtime_version t @ CHR ''-'' # id_rest t = tc_c_runtime_version u @ CHR ''-'' # id_rest u"
    using rest cx(1) dy(1) by (auto simp: libc_name_def split: if_splits)
  have dash: "\<forall>z\<in>set (tc_c_runtime_version s). z \<noteq> CHR ''-''" if "toolchain_typed s" for s
    using that libc_version_letters [of "tc_c_runtime_version s"] by (auto simp: toolchain_typed_def)
  from cut_unique [OF w, of "\<lambda>z. z = CHR ''-''"] dash [OF t] dash [OF u]
  have rv: "tc_c_runtime_version t = tc_c_runtime_version u" and idr: "id_rest t = id_rest u" by auto
  have runtime: "tc_c_runtime t = tc_c_runtime u"
    using r t u by (cases "tc_c_runtime t"; cases "tc_c_runtime u") (simp_all add: libc_name_def toolchain_typed_def)
  have compiler: "tc_compiler t = tc_compiler u"
    using lc t u by (cases "tc_compiler t"; cases "tc_compiler u") (simp_all add: toolchain_typed_def)
  have language: "tc_language t = tc_language u"
    using lc t u by (cases "tc_language t"; cases "tc_language u") (simp_all add: toolchain_typed_def)
  have "tc_cpp_stdlib t = tc_cpp_stdlib u \<and> tc_architecture t = tc_architecture u"
    using idr language t u
    by (cases "tc_language u"; cases "tc_cpp_stdlib t"; cases "tc_cpp_stdlib u";
        cases "tc_architecture t"; cases "tc_architecture u"; simp add: toolchain_typed_def) (simp_all add: id_rest_def)
  then show ?thesis using v rv runtime compiler language by (simp add: dedup_key_def)
qed

lemma distinct_map_finer:
  "distinct (map g xs) \<Longrightarrow> (\<And>x y. x \<in> set xs \<Longrightarrow> y \<in> set xs \<Longrightarrow> f x = f y \<Longrightarrow> g x = g y) \<Longrightarrow>
   distinct (map f xs)"
  by (induction xs) auto

lemma detected_ids_distinct:
  assumes "l \<noteq> LanguageUnspecified" "c \<noteq> CompilerUnspecified"
  shows "distinct (map NativeRuntimeID (detectCompilerToolchains env n l c))"
proof (rule distinct_map_finer [OF detectCompilerToolchains_keys])
  fix t u
  assume "t \<in> set (detectCompilerToolchains env n l c)" "u \<in> set (detectCompilerToolchains env n l c)"
    and "NativeRuntimeID t = NativeRuntimeID u"
  then show "dedup_key t = dedup_key u"
    using NativeRuntimeID_inj detectCompilerToolchains_typed [OF assms] by blast
qed

lemma detected_ids_disjoint:
  assumes "l \<noteq> LanguageUnspecified" "c \<noteq> CompilerUnspecified" "l' \<noteq> LanguageUnspecified"
    "c' \<noteq> CompilerUnspecified" "(l, c) \<noteq> (l', c')"
  shows "NativeRuntimeID ` set (detectCompilerToolchains env n l c)
    \<inter> NativeRuntimeID ` set (detectCompilerToolchains env n' l' c') = {}"
proof -
  have False if t: "t \<in> set (detectCompilerToolchains env n l c)"
    and u: "u \<in> set (detectCompilerToolchains env n' l' c')" and eq: "NativeRuntimeID t = NativeRuntimeID u" for t u
    using NativeRuntimeID_inj [OF _ _ eq] detectCompilerToolchains_typed [OF assms(1,2) t]
      detectCompilerToolchains_typed [OF assms(3,4) u] assms(5) by simp
  then show ?thesis by blast
qed

lemma DetectToolchains_ids: "distinct (map NativeRuntimeID (DetectToolchains env))"
  by (simp add: DetectToolchains_def compiler_specs_def detected_ids_distinct detected_ids_disjoint
      image_Un Int_Un_distrib)

lemma DetectToolchains_mem:
  assumes "t \<in> set (DetectToolchains env)"
  shows "toolchain_typed t \<and> tc_archiver_path t \<noteq> ''''"
proof -
  obtain n l c where "l \<noteq> LanguageUnspecified" "c \<noteq> CompilerUnspecified"
    "t \<in> set (detectCompilerToolchains env n l c)"
    using assms by (auto simp: DetectToolchains_def compiler_specs_def split: if_splits)
  then show ?thesis using detectCompilerToolchains_typed by blast
qed

lemma NativeRuntimeID_not_empty: "NativeRuntimeID t \<noteq> ''''"
  by (simp add: NativeRuntimeID_def Let_def)

lemma register_all:
  "distinct (map f ts) \<Longrightarrow> \<forall>t\<in>set ts. f t \<noteq> '''' \<and> gm_get (reg_runtimes r) (f t) = None \<Longrightarrow>
   reg_runtimes (foldl (\<lambda>r t. snd (Registry_Register f (Some t) r)) r ts) =
     reg_runtimes r @ map (\<lambda>t. (f t, t)) ts"
proof (induction ts arbitrary: r)
  case (Cons t ts)
  then have "snd (Registry_Register f (Some t) r) = r\<lparr>reg_runtimes := reg_runtimes r @ [(f t, t)]\<rparr>"
    by (simp add: Registry_Register_def Let_def gm_put_fresh)
  moreover have "\<forall>u\<in>set ts. f u \<noteq> '''' \<and> gm_get (reg_runtimes r @ [(f t, t)]) (f u) = None"
    using Cons.prems by (auto simp: map_add_def image_iff split: option.split)
  ultimately show ?case using Cons.IH [of "r\<lparr>reg_runtimes := reg_runtimes r @ [(f t, t)]\<rparr>"] Cons.prems
    by simp
qed simp

section \<open>Properties\<close>

text \<open>Every toolchain the detector reports is fully typed, whatever the system answers: its
  language, compiler, architecture and C runtime are known, it has a C++ library and an ABI exactly
  if it is a C++ toolchain, libc++ only with Clang, ABI modifiers only for g++, an archiver, and its
  two versions are version texts or the word unknown.\<close>
theorem detected_toolchains_typed:
  "list_all toolchain_typed (DetectToolchains env) \<and>
   list_all (\<lambda>t. tc_archiver_path t \<noteq> '''') (DetectToolchains env)"
  using DetectToolchains_mem by (simp add: list_all_iff)

text \<open>C15. Discovery on an empty registry registers every detected toolchain, and none is refused: no
  two of them have the same identifier, so each one is found under its own identifier, for every
  system and every content of the path.\<close>
theorem discovery_registers_all:
  "\<exists>r. CppDiscoverer_Discover env NewRegistry = (None, r) \<and> registry_ok NativeRuntimeID r \<and>
     Registry_All r = DetectToolchains env \<and>
     Registry_Get r rid = List.find (\<lambda>t. NativeRuntimeID t = rid) (DetectToolchains env)"
proof -
  let ?ts = "DetectToolchains env"
  define r where "r = foldl (\<lambda>r tc. snd (Registry_Register NativeRuntimeID (Some tc) r)) NewRegistry ?ts"
  have r: "reg_runtimes r = map (\<lambda>t. (NativeRuntimeID t, t)) ?ts"
    using register_all [of NativeRuntimeID ?ts NewRegistry] DetectToolchains_ids [of env]
    by (simp add: r_def NewRegistry_def NativeRuntimeID_not_empty)
  have get: "map_of (map (\<lambda>t. (NativeRuntimeID t, t)) ts) rid = List.find (\<lambda>t. NativeRuntimeID t = rid) ts"
    for ts by (induction ts) auto
  have "registry_ok NativeRuntimeID r"
    using DetectToolchains_ids [of env] by (simp add: registry_ok_def r o_def list_all_iff NativeRuntimeID_not_empty)
  moreover have "Registry_All r = ?ts" by (simp add: Registry_All_def r o_def)
  moreover have "Registry_Get r rid = List.find (\<lambda>t. NativeRuntimeID t = rid) ?ts"
    by (simp add: Registry_Get_def r get)
  ultimately show ?thesis by (intro exI [of _ r]) (simp add: CppDiscoverer_Discover_def r_def)
qed

lemma musl_version_unknown:
  assumes "CHR ''.'' \<notin> set arch"
    and "de_run env ''sh'' musl_query '''' \<in>
      {None, Some '''', Some (''/lib/ld-musl-'' @ arch @ ''.so.1'' @ [CHR 0x0A])}"
  shows "getMuslVersion env = ''unknown''"
proof -
  have none: "find_version (''/lib/ld-musl-'' @ arch @ ''.so.1'') = None"
  proof -
    have 1: "find_version ''1'' = None"
      using find_version_no_dot [of "''1''" "[]"] by simp
    have 2: "find_version (''so.1'') = None"
    proof -
      have "match_version_at ''so.1'' = None" "match_version_at ''o.1'' = None" "match_version_at ''.1'' = None"
        by code_simp+
      with 1 show ?thesis by simp
    qed
    have "find_version ((''/lib/ld-musl-'' @ arch) @ CHR ''.'' # ''so.1'') = None"
      using find_version_no_dot [of "''/lib/ld-musl-'' @ arch" "''so.1''"] assms(1) 2
      by (simp add: is_digit_def)
    then show ?thesis by simp
  qed
  have sp: "\<not> is_space (CHR ''/'')" "is_space (CHR 0x0A)" "\<not> is_space (CHR ''1'')" by (simp_all add: is_space_def)
  have "TrimSpace (''/lib/ld-musl-'' @ arch @ ''.so.1'' @ [CHR 0x0A]) = ''/lib/ld-musl-'' @ arch @ ''.so.1''"
    by (simp add: TrimSpace_def trim_func_def trim_right_func_def sp)
  moreover have "TrimSpace '''' = ''''" by (simp add: TrimSpace_def trim_func_def trim_right_func_def)
  ultimately show ?thesis using assms(2) none by (auto simp: getMuslVersion_def Let_def)
qed

lemma detectArchitectureVariants_some:
  assumes "de_test_program env ''testdata/c_runtime_check.c'' \<noteq> None"
    "de_test_program env ''testdata/libstdcxx_check.cpp'' \<noteq> None"
  shows "\<exists>t\<in>set (detectArchitectureVariants env p l c r).
    tc_c_runtime t = r \<and> tc_c_runtime_version t = detectCRuntimeVersion env r"
proof -
  have archs: "available_architectures env p prog l \<noteq> []" for prog
    by (simp add: available_architectures_def Let_def)
  have libs: "available_stdlibs env p c prog \<noteq> []" for prog by (simp add: available_stdlibs_def Let_def)
  have "detectArchitectureVariants env p l c r \<noteq> []"
    using assms archs libs by (auto simp: detectArchitectureVariants_def detectCppStdlibVariantsForArch_def
        Let_def split: option.split)
  moreover have "tc_c_runtime t = r \<and> tc_c_runtime_version t = detectCRuntimeVersion env r"
    if "t \<in> set (detectArchitectureVariants env p l c r)" for t
    using that by (auto simp: detectArchitectureVariants_def detectCppStdlibVariantsForArch_def
        Let_def buildToolchain_def split: option.splits if_splits)
  ultimately show ?thesis by (metis list.set_intros(1) neq_Nil_conv)
qed

lemma musl_found:
  assumes "de_test_program env ''testdata/c_runtime_check.c'' = Some prog"
    and "de_test_program env ''testdata/libstdcxx_check.cpp'' \<noteq> None"
    and "de_run env p [''-x'', ''c'', ''-'', ''-lc'', ''-o'', ''/dev/null''] prog \<noteq> None"
  shows "\<exists>t\<in>set (path_toolchains env l c p). tc_c_runtime t = CRuntimeMusl"
proof -
  have m: "CRuntimeMusl \<in> set (available_runtimes env p prog)"
    using assms(3) by (simp add: available_runtimes_def Let_def testCRuntime_def)
  have some: "\<exists>t\<in>set (detectArchitectureVariants env p l' c' CRuntimeMusl). tc_c_runtime t = CRuntimeMusl" for l' c'
    using detectArchitectureVariants_some [of env p l' c' CRuntimeMusl] assms(1,2) by auto
  have "\<exists>t\<in>set (detectCRuntimeVariants env p l c). tc_c_runtime t = CRuntimeMusl"
    using m some [of l c] by (auto simp: detectCRuntimeVariants_def assms(1))
  moreover have "\<exists>t\<in>set (detectClangCppVariants env p). tc_c_runtime t = CRuntimeMusl"
    using m some [of LanguageCpp CompilerClang] by (auto simp: detectClangCppVariants_def assms(1))
  ultimately show ?thesis unfolding path_toolchains_def by (simp only: split: if_split) blast
qed

lemma unknown_version_id:
  assumes "toolchain_typed t" "tc_c_runtime_version t = ''unknown''"
  shows "RuntimeToID (NativeProto t) \<noteq> NativeRuntimeID t"
proof -
  have v: "versionToString (Some (NativeParseVersionString ''unknown'')) = ''0''" by code_simp
  have ends: "a @ ''-0-'' @ r \<noteq> b @ ''-unknown-'' @ r" for a b r :: string
  proof
    assume "a @ ''-0-'' @ r = b @ ''-unknown-'' @ r"
    then have "(a @ ''-0-'') @ r = (b @ ''-unknown-'') @ r" by simp
    then have "rev (a @ ''-0-'') = rev (b @ ''-unknown-'')" by (metis append_same_eq)
    then show False by simp
  qed
  have "RuntimeToID (NativeProto t) =
      (''native_linux-'' @ (if tc_language t = LanguageCpp then ''cpp-'' else ''c-'')
       @ (if tc_compiler t = CompilerGCC then ''gcc-'' else ''clang-'')
       @ versionToString (Some (NativeParseVersionString (tc_compiler_version t)))
       @ ''-'' @ libc_name (tc_c_runtime t)) @ ''-0-'' @ id_rest t"
    using assms by (cases "tc_language t"; cases "tc_compiler t"; cases "tc_architecture t";
        cases "tc_c_runtime t"; cases "tc_cpp_stdlib t"; simp add: toolchain_typed_def)
      (simp_all add: RuntimeToID_def GetCpp_def NativeProto_def Let_def id_rest_def
        v libc_name_def ProtoLanguage_def ProtoCompiler_def ProtoArchitecture_def ProtoCRuntime_def ProtoCppStdlib_def)
  moreover have "\<exists>b. NativeRuntimeID t = b @ ''-unknown-'' @ id_rest t"
    unfolding NativeRuntimeID_parts [OF assms(1)] assms(2) by auto
  ultimately show ?thesis using ends by metis
qed

lemma detected_version_source:
  "t \<in> set (DetectToolchains env) \<Longrightarrow> tc_c_runtime_version t = detectCRuntimeVersion env (tc_c_runtime t)"
proof -
  assume "t \<in> set (DetectToolchains env)"
  then obtain n l c where "t \<in> set (detectCompilerToolchains env n l c)"
    by (auto simp: DetectToolchains_def split: if_splits)
  then obtain tc p where tc: "tc \<in> set (path_toolchains env l c p)" and t: "tc_c_runtime t = tc_c_runtime tc"
    "tc_c_runtime_version t = tc_c_runtime_version tc"
    by (auto simp: detectCompilerToolchains_def Let_def split: if_splits dest!: add_toolchains_mem)
  obtain l' c' r where "tc \<in> set (detectArchitectureVariants env p l' c' r)"
    using tc by (auto simp: path_toolchains_def detectCRuntimeVariants_def detectClangCppVariants_def
        split: option.splits if_splits)
  then show ?thesis
    by (auto simp: t detectArchitectureVariants_def detectCppStdlibVariantsForArch_def
        Let_def buildToolchain_def split: option.splits if_splits)
qed

text \<open>Musl is taken to be there wherever a compiler links with -lc, which every hosted compiler
  does, and what is registered for it cannot be asked for: on a system with the usual musl loader,
  or with none, its version is unknown, and the identifier under which the runtime is registered is
  not the one its own protobuf message has.\<close>
theorem musl_toolchains_unusable:
  assumes "de_test_program env ''testdata/c_runtime_check.c'' = Some prog"
    and "de_test_program env ''testdata/libstdcxx_check.cpp'' \<noteq> None"
    and "de_run env p [''-x'', ''c'', ''-'', ''-lc'', ''-o'', ''/dev/null''] prog \<noteq> None"
    and "CHR ''.'' \<notin> set arch"
    and "de_run env ''sh'' musl_query '''' \<in>
      {None, Some '''', Some (''/lib/ld-musl-'' @ arch @ ''.so.1'' @ [CHR 0x0A])}"
  shows "(\<exists>t\<in>set (path_toolchains env l c p). tc_c_runtime t = CRuntimeMusl) \<and>
    (\<forall>t\<in>set (DetectToolchains env). tc_c_runtime t = CRuntimeMusl \<longrightarrow>
       tc_c_runtime_version t = ''unknown'' \<and> RuntimeToID (NativeProto t) \<noteq> NativeRuntimeID t)"
proof (intro conjI ballI impI)
  show "\<exists>t\<in>set (path_toolchains env l c p). tc_c_runtime t = CRuntimeMusl"
    by (rule musl_found [OF assms(1-3)])
  fix t assume t: "t \<in> set (DetectToolchains env)" "tc_c_runtime t = CRuntimeMusl"
  then show v: "tc_c_runtime_version t = ''unknown''"
    using detected_version_source [OF t(1)] musl_version_unknown [OF assms(4,5)]
    by (simp add: detectCRuntimeVersion_def)
  show "RuntimeToID (NativeProto t) \<noteq> NativeRuntimeID t"
    using unknown_version_id [OF _ v] DetectToolchains_mem [OF t(1)] by simp
qed

text \<open>A glibc system with one gcc, which links with -lc like any other.\<close>

definition glibc_system :: DetectEnv where
  "glibc_system =
     \<lparr>de_goos = ''linux'', de_goarch = ''amd64'', de_path = ''/usr/bin'',
      de_look_path = (\<lambda>n. if n = ''gcc'' then Some ''/usr/bin/gcc'' else if n = ''ar'' then Some ''/usr/bin/ar'' else None),
      de_read_dir = (\<lambda>d. Some [(''gcc'', False), (''gcc-ar'', False)]), de_mode = (\<lambda>p. Some 0x1ED),
      de_test_program = (\<lambda>n. Some n),
      de_run = (\<lambda>p args inp.
        if p = ''sh'' then Some ''''
        else if p = ''ldd'' then Some ''ldd (GNU libc) 2.31''
        else if args = [''--version''] then Some ''gcc (Debian 10.2.1-6) 10.2.1 20210110''
        else if hd args = ''-march=armv8-a'' \<or> hd args = ''-march=armv7-a'' then None
        else Some '''')\<rparr>"

theorem musl_toolchains_unusable_witness:
  "\<exists>t\<in>set (path_toolchains glibc_system LanguageC CompilerGCC ''/usr/bin/gcc''). tc_c_runtime t = CRuntimeMusl"
  using musl_toolchains_unusable [of glibc_system "''testdata/c_runtime_check.c''" "''/usr/bin/gcc''" "''x86_64''"]
  by (simp add: glibc_system_def musl_query_def)

text \<open>On that system both toolchains are registered, the second one by mistake.\<close>
lemma glibc_system_detected:
  "map NativeRuntimeID (DetectToolchains glibc_system) =
     [''native_linux-c-gcc-10.2.1-glibc-2.31-x86_64'', ''native_linux-c-gcc-10.2.1-musl-unknown-x86_64'']"
  by code_simp

text \<open>The combinations generated are the product of the dimensions, in lexicographic order; with no
  dimension there is none, where the product has the empty one.\<close>
lemma combine_dimensions:
  "foldl (\<lambda>combos dim. concat (map (\<lambda>combo. map (\<lambda>item. combo @ [item]) dim) combos)) acc ds =
     concat (map (\<lambda>combo. map (\<lambda>rest. combo @ rest) (product_lists ds)) acc)"
proof (induction ds arbitrary: acc)
  case Nil
  show ?case by (induction acc) simp_all
next
  case (Cons d ds)
  have eq: "(@) (a @ [x]) = (\<lambda>y. a @ x # y)" for a x by (rule ext) simp
  have "concat (map (\<lambda>combo. map ((@) combo) (product_lists ds))
          (concat (map (\<lambda>combo. map (\<lambda>item. combo @ [item]) d) acc))) =
        concat (map (\<lambda>combo. map ((@) combo) (product_lists (d # ds))) acc)" for acc
    by (induction acc) (simp_all add: map_concat o_def eq)
  with Cons.IH show ?case by simp
qed

theorem GenerateCombinations_product:
  "GenerateCombinations dims = (if dims = [] then [] else product_lists dims)"
proof (cases dims)
  case (Cons d ds)
  moreover have "(@) [x] = (#) x" for x :: 'a by (rule ext) simp
  ultimately show ?thesis by (simp add: GenerateCombinations_def combine_dimensions o_def)
qed (simp add: GenerateCombinations_def)

end
