(* ===== verification/ToolchainRegistry.thy ===== *)
theory ToolchainRegistry
  imports Detector
begin

text \<open>
  The registry of toolchains drivers and runtimes ask (pkg/toolchain/registry.go): a map from keys
  made of the compiler, the language, the C runtime, the C++ library and the architecture, filled
  once from the detector. A range loop over the map visits the entries in the order of the list.
  The global registry is an option, None before its first use.
\<close>

record ToolRegistry =
  tr_toolchains :: "(string, Toolchain) gomap"
  tr_initialized :: bool

definition NewToolRegistry :: ToolRegistry where
  "NewToolRegistry = \<lparr>tr_toolchains = [], tr_initialized = False\<rparr>"

definition toolchainKey :: "Toolchain \<Rightarrow> string" where
  "toolchainKey tc =
     (let compilerName = (case tc_compiler tc of CompilerGCC \<Rightarrow> ''gcc'' | CompilerClang \<Rightarrow> ''clang'' | _ \<Rightarrow> ''unknown'');
          languageName = (case tc_language tc of LanguageC \<Rightarrow> ''c'' | LanguageCpp \<Rightarrow> ''cpp'' | _ \<Rightarrow> ''unknown'');
          runtimeName = (case tc_c_runtime tc of CRuntimeGlibc \<Rightarrow> ''glibc'' | CRuntimeMusl \<Rightarrow> ''musl'' | _ \<Rightarrow> ''unknown'');
          stdlibName = (if tc_language tc = LanguageCpp
            then ''-'' @ (case tc_cpp_stdlib tc of CppStdlibLibstdcxx \<Rightarrow> ''libstdcxx''
                          | CppStdlibLibcxx \<Rightarrow> ''libc++'' | _ \<Rightarrow> ''unknown'')
            else '''');
          archName = (case tc_architecture tc of ArchitectureX86_64 \<Rightarrow> ''x86_64''
            | ArchitectureAArch64 \<Rightarrow> ''aarch64'' | ArchitectureARM \<Rightarrow> ''arm'' | _ \<Rightarrow> ''unknown'')
      in if tc_language tc = LanguageCpp
         then compilerName @ ''-'' @ languageName @ ''-'' @ runtimeName @ stdlibName @ ''-'' @ archName
         else compilerName @ ''-'' @ languageName @ ''-'' @ runtimeName @ ''-'' @ archName)"

definition Initialize :: "DetectEnv \<Rightarrow> ToolRegistry \<Rightarrow> ToolRegistry" where
  "Initialize env r =
     (let m = foldl (\<lambda>m tc. gm_put m (toolchainKey tc) tc) (tr_toolchains r) (DetectToolchains env)
      in \<lparr>tr_toolchains = m, tr_initialized = True\<rparr>)"

definition GetByCompilerAndLanguage :: "Compiler \<Rightarrow> Language \<Rightarrow> ToolRegistry \<Rightarrow> Toolchain option" where
  "GetByCompilerAndLanguage compiler language r =
     List.find (\<lambda>tc. tc_compiler tc = compiler \<and> tc_language tc = language) (gm_vals (tr_toolchains r))"

definition GetGCC :: "ToolRegistry \<Rightarrow> Toolchain option" where
  "GetGCC r = List.find (\<lambda>tc. tc_compiler tc = CompilerGCC \<and> tc_language tc = LanguageC) (gm_vals (tr_toolchains r))"
definition GetGxx :: "ToolRegistry \<Rightarrow> Toolchain option" where
  "GetGxx r = List.find (\<lambda>tc. tc_compiler tc = CompilerGCC \<and> tc_language tc = LanguageCpp) (gm_vals (tr_toolchains r))"
definition GetClang :: "ToolRegistry \<Rightarrow> Toolchain option" where
  "GetClang r = List.find (\<lambda>tc. tc_compiler tc = CompilerClang \<and> tc_language tc = LanguageC) (gm_vals (tr_toolchains r))"
definition GetClangxx :: "ToolRegistry \<Rightarrow> Toolchain option" where
  "GetClangxx r = List.find (\<lambda>tc. tc_compiler tc = CompilerClang \<and> tc_language tc = LanguageCpp) (gm_vals (tr_toolchains r))"

definition ListToolchains :: "ToolRegistry \<Rightarrow> Toolchain list" where
  "ListToolchains r = gm_vals (tr_toolchains r)"

definition CanExecute :: "Compiler \<Rightarrow> Language \<Rightarrow> Architecture \<Rightarrow> ToolRegistry \<Rightarrow> bool" where
  "CanExecute compiler language arch r =
     (case GetByCompilerAndLanguage compiler language r of
        None \<Rightarrow> False
      | Some tc \<Rightarrow> if arch \<noteq> ArchitectureUnspecified \<and> tc_architecture tc \<noteq> arch then False else True)"

definition Summary :: "ToolRegistry \<Rightarrow> string" where
  "Summary r =
     (if tr_toolchains r = [] then ''No toolchains available''
      else join_with ''; '' (map Toolchain_String (gm_vals (tr_toolchains r))))"

definition Global :: "ToolRegistry option \<Rightarrow> ToolRegistry" where
  "Global g = (case g of None \<Rightarrow> NewToolRegistry | Some r \<Rightarrow> r)"

definition Init :: "DetectEnv \<Rightarrow> ToolRegistry option \<Rightarrow> ToolRegistry option" where
  "Init env g = Some (Initialize env (Global g))"

section \<open>Properties\<close>

lemma gm_get_foldl_put:
  "gm_get (foldl (\<lambda>m x. gm_put m (f x) x) m xs) k =
     (case List.find (\<lambda>x. f x = k) (rev xs) of Some x \<Rightarrow> Some x | None \<Rightarrow> gm_get m k)"
proof (induction xs rule: rev_induct)
  case (snoc x xs)
  then show ?case by (simp split: option.split)
qed simp

text \<open>The map holds, for every key, the last toolchain of the detector's list with that key. The
  version is no part of a key, so of several versions of a compiler in the path the last one
  replaces the others, the default compiler among them.\<close>
theorem Initialize_keeps_last:
  "gm_get (tr_toolchains (Initialize env NewToolRegistry)) k =
     List.find (\<lambda>t. toolchainKey t = k) (rev (DetectToolchains env))"
  by (simp add: Initialize_def NewToolRegistry_def gm_get_foldl_put split: option.split)

lemma find_split:
  "x \<in> set xs \<Longrightarrow> P x \<Longrightarrow> \<exists>ys. mset ys = mset xs \<and> List.find P ys = Some x"
  by (intro exI [of _ "x # remove1 x xs"]) simp

text \<open>Whether a toolchain can be executed depends on the order of a range loop over a map: as soon
  as a compiler is registered for two architectures, the same registry says yes and no for each of
  them, by the order in which its entries happen to be visited. A yes is always backed by a
  registered toolchain.\<close>
theorem CanExecute_order:
  assumes "(k1, t) \<in> set (tr_toolchains r)" and "(k2, u) \<in> set (tr_toolchains r)"
    and "tc_compiler t = c" "tc_compiler u = c" "tc_language t = l" "tc_language u = l"
    and "tc_architecture t \<noteq> tc_architecture u" and "tc_architecture t \<noteq> ArchitectureUnspecified"
  shows "(\<exists>m. mset m = mset (tr_toolchains r) \<and> CanExecute c l (tc_architecture t) (r\<lparr>tr_toolchains := m\<rparr>)) \<and>
    (\<exists>m. mset m = mset (tr_toolchains r) \<and> \<not> CanExecute c l (tc_architecture t) (r\<lparr>tr_toolchains := m\<rparr>)) \<and>
    (CanExecute c l a r \<longrightarrow> (\<exists>(k, tc)\<in>set (tr_toolchains r). tc_compiler tc = c \<and> tc_language tc = l \<and>
       (a = ArchitectureUnspecified \<or> tc_architecture tc = a)))"
proof -
  let ?P = "\<lambda>tc. tc_compiler tc = c \<and> tc_language tc = l"
  have find: "List.find ?P (map snd m) = map_option snd (List.find (\<lambda>(k, tc). ?P tc) m)" for m :: "(string \<times> Toolchain) list"
    by (induction m) auto
  have get: "GetByCompilerAndLanguage c l (r\<lparr>tr_toolchains := m\<rparr>) = map_option snd (List.find (\<lambda>(k, tc). ?P tc) m)" for m
    by (simp add: GetByCompilerAndLanguage_def find)
  obtain m1 where m1: "mset m1 = mset (tr_toolchains r)" "List.find (\<lambda>(k, tc). ?P tc) m1 = Some (k1, t)"
    using find_split [OF assms(1), of "\<lambda>(k, tc). ?P tc"] assms(3,5) by auto
  obtain m2 where m2: "mset m2 = mset (tr_toolchains r)" "List.find (\<lambda>(k, tc). ?P tc) m2 = Some (k2, u)"
    using find_split [OF assms(2), of "\<lambda>(k, tc). ?P tc"] assms(4,6) by auto
  have "\<exists>(k, tc)\<in>set (tr_toolchains r). ?P tc \<and> (a = ArchitectureUnspecified \<or> tc_architecture tc = a)"
    if "CanExecute c l a r"
  proof -
    obtain tc where tc: "List.find ?P (gm_vals (tr_toolchains r)) = Some tc"
      "a = ArchitectureUnspecified \<or> tc_architecture tc = a"
      using \<open>CanExecute c l a r\<close> by (auto simp: CanExecute_def GetByCompilerAndLanguage_def split: option.splits if_splits)
    then show ?thesis using find_Some_mem [OF tc(1)] by auto
  qed
  moreover have "CanExecute c l (tc_architecture t) (r\<lparr>tr_toolchains := m1\<rparr>)"
    by (simp add: CanExecute_def get m1(2))
  moreover have "\<not> CanExecute c l (tc_architecture t) (r\<lparr>tr_toolchains := m2\<rparr>)"
    using assms(7,8) by (simp add: CanExecute_def get m2(2))
  ultimately show ?thesis using m1(1) m2(1) by blast
qed

definition gcc_for :: "Architecture \<Rightarrow> Toolchain" where
  "gcc_for a = \<lparr>tc_language = LanguageC, tc_compiler = CompilerGCC, tc_compiler_path = ''/usr/bin/gcc'',
     tc_archiver_path = ''/usr/bin/ar'', tc_compiler_version = ''10.2.1'', tc_architecture = a,
     tc_c_runtime = CRuntimeGlibc, tc_c_runtime_version = ''2.31'', tc_cpp_abi = CppAbiUnspecified,
     tc_cpp_stdlib = CppStdlibUnspecified, tc_abi_modifiers = []\<rparr>"

definition two_architectures :: ToolRegistry where
  "two_architectures = \<lparr>tr_toolchains = [(''gcc-c-glibc-x86_64'', gcc_for ArchitectureX86_64),
     (''gcc-c-glibc-arm'', gcc_for ArchitectureARM)], tr_initialized = True\<rparr>"

theorem CanExecute_order_witness:
  "\<exists>m. mset m = mset (tr_toolchains two_architectures) \<and>
     \<not> CanExecute CompilerGCC LanguageC ArchitectureX86_64 (two_architectures\<lparr>tr_toolchains := m\<rparr>)"
  using CanExecute_order [of "''gcc-c-glibc-x86_64''" "gcc_for ArchitectureX86_64" two_architectures
      "''gcc-c-glibc-arm''" "gcc_for ArchitectureARM" CompilerGCC LanguageC]
  by (simp add: two_architectures_def gcc_for_def)

end
