(* ===== verification/LogRegistry.thy ===== *)
theory LogRegistry
  imports Interfaces Strings "HOL-Library.List_Lexorder" "HOL-Library.Char_ord"
begin

text \<open>
  The registry of loggers and sinks (pkg/logging/logger.go). A level is slog's integer. A logger is
  its dotted name with the attributes and groups collected on the way; a record is routed to the
  sinks of the nearest configured logger. Slices are values: WithGroup appends to the slice of the
  logger it is called on, which two calls on the same logger could share, but nothing calls it. What a sink's handler writes is given by the sink it is
  handed to, the attributes applied and the record; a handler decides with its own threshold, set
  when it was made. An operation that returns an error leaves the registry as it was. Time is in
  nanoseconds and given to the operations that read the clock.
\<close>

section \<open>Levels\<close>

type_synonym Level = int

abbreviation LevelTrace :: Level where "LevelTrace \<equiv> - 8"
abbreviation LevelDebug :: Level where "LevelDebug \<equiv> - 4"
abbreviation LevelInfo :: Level where "LevelInfo \<equiv> 0"
abbreviation LevelWarn :: Level where "LevelWarn \<equiv> 4"
abbreviation LevelError :: Level where "LevelError \<equiv> 8"

section \<open>Sinks, handlers and records\<close>

text \<open>The rotating file writer of a file sink: the size is in megabytes, the age in days.\<close>

record Lumber =
  lb_filename :: string
  lb_max_size :: int
  lb_max_backups :: int
  lb_max_age :: int

datatype HandlerKind = StdoutHandler | StderrHandler | FileHandler Lumber bool | BroadcastHandler nat

text \<open>The level is nil (None) for a handler made without options that lets everything pass.\<close>

record Handler =
  hd_kind :: HandlerKind
  hd_level :: "Level option"

definition handler_enabled :: "Handler \<Rightarrow> Level \<Rightarrow> bool" where
  "handler_enabled h level = (case hd_level h of None \<Rightarrow> True | Some l \<Rightarrow> l \<le> level)"

record Sink =
  sk_name :: string
  sk_type :: string
  sk_file_path :: string
  sk_level :: Level
  sk_handler :: Handler
  sk_max_size :: int
  sk_max_backups :: "32 word"
  sk_max_age_days :: "32 word"
  sk_json_format :: bool
  sk_include_source :: bool

datatype AttributeOrGroup = Attribute string string | Group string

record LogRecord =
  lr_level :: Level
  lr_message :: string
  lr_attrs :: "(string \<times> string) list"

record configuredLogger =
  cl_level :: Level
  cl_sink_names :: "string list"

record LogRegistry =
  lg_sinks :: "(string, Sink) gomap"
  lg_configs :: "(string, configuredLogger) gomap"
  lg_active :: "(string, unit) gomap"
  lg_activity :: "(string, int) gomap"
  lg_global_level :: Level
  lg_dir :: string

definition NewLogRegistry :: LogRegistry where
  "NewLogRegistry = \<lparr>lg_sinks = [], lg_configs = [], lg_active = [], lg_activity = [],
     lg_global_level = LevelInfo, lg_dir = ''''\<rparr>"

datatype log_error =
  SinkAlreadyRegistered string
| SinkNotFound string
| LoggerNotFound string
| SinkInUse string "string list"
| SinkAlreadyAttached string string
| SinkNotAttached string string

section \<open>Names\<close>

text \<open>The logger itself, then its parents, the nearest first.\<close>

definition parents :: "string \<Rightarrow> string list" where
  "parents name = (let parts = split_on (CHR ''.'') name in
     map (\<lambda>i. join_with ''.'' (take i parts)) (rev [1..<length parts]))"

fun first_config :: "(string, 'a) gomap \<Rightarrow> string list \<Rightarrow> 'a option" where
  "first_config m [] = None"
| "first_config m (n # ns) = (case gm_get m n of Some c \<Rightarrow> Some c | None \<Rightarrow> first_config m ns)"

definition getLoggerConfig :: "LogRegistry \<Rightarrow> string \<Rightarrow> configuredLogger option" where
  "getLoggerConfig r name =
     (case gm_get (lg_configs r) name of
        Some c \<Rightarrow> Some c
      | None \<Rightarrow> first_config (lg_configs r) (parents name))"

definition findResolvedLoggerName :: "LogRegistry \<Rightarrow> string \<Rightarrow> string" where
  "findResolvedLoggerName r name =
     (if gm_get (lg_configs r) name \<noteq> None then name
      else case List.find (\<lambda>p. gm_get (lg_configs r) p \<noteq> None) (parents name) of
        Some p \<Rightarrow> p
      | None \<Rightarrow> '''')"

section \<open>Loggers\<close>

text \<open>The handler of a logger.\<close>

record registryHandler =
  rh_logger_name :: string
  rh_attrs :: "AttributeOrGroup list"

definition touch_logger :: "string \<Rightarrow> int \<Rightarrow> LogRegistry \<Rightarrow> LogRegistry" where
  "touch_logger name now r =
     r\<lparr>lg_active := gm_put (lg_active r) name (), lg_activity := gm_put (lg_activity r) name now\<rparr>"

definition finalize_logger :: "string \<Rightarrow> LogRegistry \<Rightarrow> LogRegistry" where
  "finalize_logger name r =
     r\<lparr>lg_active := gm_del (lg_active r) name, lg_activity := gm_del (lg_activity r) name\<rparr>"

definition GetLogger :: "string \<Rightarrow> int \<Rightarrow> LogRegistry \<Rightarrow> registryHandler \<times> LogRegistry" where
  "GetLogger name now r = (\<lparr>rh_logger_name = name, rh_attrs = []\<rparr>, touch_logger name now r)"

definition handler_WithAttrs :: "registryHandler \<Rightarrow> (string \<times> string) list \<Rightarrow> registryHandler" where
  "handler_WithAttrs h attrs = h\<lparr>rh_attrs := rh_attrs h @ map (\<lambda>(k, v). Attribute k v) attrs\<rparr>"

definition handler_WithGroup :: "registryHandler \<Rightarrow> string \<Rightarrow> registryHandler" where
  "handler_WithGroup h name = h\<lparr>rh_attrs := rh_attrs h @ [Group name]\<rparr>"

definition handler_Child :: "registryHandler \<Rightarrow> string \<Rightarrow> int \<Rightarrow> LogRegistry \<Rightarrow> registryHandler \<times> LogRegistry" where
  "handler_Child h name now r =
     (let childName = rh_logger_name h @ ''.'' @ name
      in (h\<lparr>rh_logger_name := childName\<rparr>, touch_logger childName now r))"

text \<open>The methods of a logger make its handler and register its name once more.\<close>

definition Logger_Child :: "registryHandler \<Rightarrow> string \<Rightarrow> int \<Rightarrow> LogRegistry \<Rightarrow> registryHandler \<times> LogRegistry" where
  "Logger_Child h name now r =
     (case handler_Child h name now r of (c, r') \<Rightarrow> (c, touch_logger (rh_logger_name c) now r'))"

definition Logger_With :: "registryHandler \<Rightarrow> (string \<times> string) list \<Rightarrow> int \<Rightarrow> LogRegistry \<Rightarrow>
    registryHandler \<times> LogRegistry" where
  "Logger_With h attrs now r = (handler_WithAttrs h attrs, touch_logger (rh_logger_name h) now r)"

definition Logger_WithGroup :: "registryHandler \<Rightarrow> string \<Rightarrow> int \<Rightarrow> LogRegistry \<Rightarrow>
    registryHandler \<times> LogRegistry" where
  "Logger_WithGroup h name now r = (handler_WithGroup h name, touch_logger (rh_logger_name h) now r)"

text \<open>The arguments of With: strings, attributes and other values. A string is a key with the value
  after it, any other value has no key.\<close>

datatype LogArg = ArgString string | ArgAttr string string | ArgValue string

definition badKey :: string where "badKey = ''!BADKEY''"

fun arg_text :: "LogArg \<Rightarrow> string" where
  "arg_text (ArgString s) = s"
| "arg_text (ArgAttr k v) = k @ ''='' @ v"
| "arg_text (ArgValue v) = v"

fun argsToAttr :: "LogArg \<Rightarrow> LogArg list \<Rightarrow> (string \<times> string) \<times> LogArg list" where
  "argsToAttr (ArgString x) [] = ((badKey, x), [])"
| "argsToAttr (ArgString x) (v # r) = ((x, arg_text v), r)"
| "argsToAttr (ArgAttr k v) r = ((k, v), r)"
| "argsToAttr (ArgValue v) r = ((badKey, v), r)"

lemma argsToAttr_shorter: "argsToAttr a r = (attr, rest) \<Longrightarrow> length rest \<le> length r"
  by (cases "(a, r)" rule: argsToAttr.cases) auto

function argsToAttrSlice :: "LogArg list \<Rightarrow> (string \<times> string) list" where
  "argsToAttrSlice [] = []"
| "argsToAttrSlice (a # r) = (case argsToAttr a r of (attr, rest) \<Rightarrow> attr # argsToAttrSlice rest)"
  by pat_completeness auto
termination
  by (relation "measure length") (auto dest: argsToAttr_shorter [OF sym])

section \<open>Routing\<close>

text \<open>What the handler of a sink is given.\<close>

record Emission =
  em_sink :: string
  em_handler :: Handler
  em_context :: "AttributeOrGroup list"
  em_record :: LogRecord

definition LoggerNameAttr :: string where "LoggerNameAttr = ''logger''"

fun last_attr :: "string \<Rightarrow> (string \<times> string) list \<Rightarrow> string \<Rightarrow> string" where
  "last_attr key [] acc = acc"
| "last_attr key ((k, v) # r) acc = last_attr key r (if k = key then v else acc)"

fun is_daemon :: "AttributeOrGroup \<Rightarrow> bool" where
  "is_daemon (Attribute n v) = (n = ''daemon'')"
| "is_daemon (Group n) = False"

text \<open>The daemon attribute first, then the others in order, no other daemon attribute.\<close>

definition context_order :: "AttributeOrGroup list \<Rightarrow> AttributeOrGroup list" where
  "context_order ags =
     (case List.find is_daemon ags of Some d \<Rightarrow> [d] | None \<Rightarrow> []) @ filter (\<lambda>ag. \<not> is_daemon ag) ags"

definition GetSink :: "LogRegistry \<Rightarrow> string \<Rightarrow> Sink option" where
  "GetSink r name = gm_get (lg_sinks r) name"

definition emit_to :: "LogRegistry \<Rightarrow> LogRecord \<Rightarrow> AttributeOrGroup list \<Rightarrow> string \<Rightarrow> Emission list" where
  "emit_to r rec ags sinkName =
     (case GetSink r sinkName of
        Some sink \<Rightarrow>
          (if handler_enabled (sk_handler sink) (lr_level rec)
           then [\<lparr>em_sink = sinkName, em_handler = sk_handler sink,
                  em_context = context_order ags, em_record = rec\<rparr>] else [])
      | None \<Rightarrow> [])"

definition Registry_log :: "LogRegistry \<Rightarrow> LogRecord \<Rightarrow> AttributeOrGroup list \<Rightarrow> Emission list" where
  "Registry_log r rec ags =
     (let found = last_attr LoggerNameAttr (lr_attrs rec) '''';
          foundLoggerName = (if found = '''' then lr_message rec else found);
          config = getLoggerConfig r foundLoggerName;
          effectiveLevel = (case config of
             Some c \<Rightarrow> if lg_global_level r < cl_level c then cl_level c else lg_global_level r
           | None \<Rightarrow> lg_global_level r)
      in case config of
           Some c \<Rightarrow> (if effectiveLevel \<le> lr_level rec
                      then concat (map (emit_to r rec ags) (cl_sink_names c)) else [])
         | None \<Rightarrow> [])"

definition handler_Handle :: "registryHandler \<Rightarrow> LogRecord \<Rightarrow> int \<Rightarrow> LogRegistry \<Rightarrow> Emission list \<times> LogRegistry" where
  "handler_Handle h rec now r =
     (let rec' = rec\<lparr>lr_attrs := lr_attrs rec @ [(LoggerNameAttr, rh_logger_name h)]\<rparr>;
          r' = r\<lparr>lg_activity := gm_put (lg_activity r) (rh_logger_name h) now\<rparr>
      in (Registry_log r' rec' (rh_attrs h), r'))"

definition handler_Enabled :: "registryHandler \<Rightarrow> Level \<Rightarrow> bool" where
  "handler_Enabled h level = True"

definition Errorf :: "registryHandler \<Rightarrow> string \<Rightarrow> int \<Rightarrow> LogRegistry \<Rightarrow> string \<times> Emission list \<times> LogRegistry" where
  "Errorf h msg now r =
     (msg, handler_Handle h \<lparr>lr_level = LevelError, lr_message = msg, lr_attrs = []\<rparr> now r)"

section \<open>Active loggers\<close>

definition activeLoggerThreshold :: int where "activeLoggerThreshold = 30 * 10 ^ 9"

definition GetActiveLoggers :: "LogRegistry \<Rightarrow> string list" where
  "GetActiveLoggers r = sort (remdups (gm_keys (lg_active r) @ gm_keys (lg_configs r)))"

definition IsLoggerActive :: "LogRegistry \<Rightarrow> string \<Rightarrow> bool" where
  "IsLoggerActive r name = (gm_get (lg_active r) name \<noteq> None \<or> gm_get (lg_configs r) name \<noteq> None)"

definition stale :: "LogRegistry \<Rightarrow> int \<Rightarrow> string \<Rightarrow> bool" where
  "stale r now name = (case gm_get (lg_activity r) name of
     Some lastActivity \<Rightarrow> activeLoggerThreshold < now - lastActivity | None \<Rightarrow> False)"

definition GetActiveLoggersWithResolution :: "LogRegistry \<Rightarrow> int \<Rightarrow> (string \<times> string) list" where
  "GetActiveLoggersWithResolution r now =
     (let live = filter (\<lambda>n. \<not> stale r now n) (gm_keys (lg_active r));
          names = sort (remdups (concat (map (\<lambda>n. n # parents n) live) @ gm_keys (lg_configs r)))
      in map (\<lambda>n. (n, findResolvedLoggerName r n)) names)"

section \<open>Configuration\<close>

definition RegisterSink :: "Sink \<Rightarrow> LogRegistry \<Rightarrow> log_error + LogRegistry" where
  "RegisterSink sink r =
     (if gm_get (lg_sinks r) (sk_name sink) \<noteq> None then Err (SinkAlreadyRegistered (sk_name sink))
      else Ok (r\<lparr>lg_sinks := gm_put (lg_sinks r) (sk_name sink) sink\<rparr>))"

definition GetAllSinks :: "LogRegistry \<Rightarrow> Sink list" where
  "GetAllSinks r = gm_vals (lg_sinks r)"

definition SetLoggerSinks :: "string \<Rightarrow> string list \<Rightarrow> LogRegistry \<Rightarrow> log_error + LogRegistry" where
  "SetLoggerSinks loggerName sinkNames r =
     (case List.find (\<lambda>s. gm_get (lg_sinks r) s = None) sinkNames of
        Some s \<Rightarrow> Err (SinkNotFound s)
      | None \<Rightarrow>
          (let currentConfig = (case gm_get (lg_configs r) loggerName of
                 None \<Rightarrow> \<lparr>cl_level = LevelInfo, cl_sink_names = sinkNames\<rparr>
               | Some c \<Rightarrow> c\<lparr>cl_sink_names := sinkNames\<rparr>)
           in Ok (r\<lparr>lg_configs := gm_put (lg_configs r) loggerName currentConfig\<rparr>)))"

definition GetLoggerSinks :: "LogRegistry \<Rightarrow> string \<Rightarrow> string list option" where
  "GetLoggerSinks r loggerName = map_option cl_sink_names (gm_get (lg_configs r) loggerName)"

definition SetLoggerLevel :: "string \<Rightarrow> Level \<Rightarrow> LogRegistry \<Rightarrow> log_error + LogRegistry" where
  "SetLoggerLevel loggerName level r =
     (case gm_get (lg_configs r) loggerName of
        None \<Rightarrow> Err (LoggerNotFound loggerName)
      | Some c \<Rightarrow> Ok (r\<lparr>lg_configs := gm_put (lg_configs r) loggerName (c\<lparr>cl_level := level\<rparr>)\<rparr>))"

definition SetGlobalLevel :: "Level \<Rightarrow> LogRegistry \<Rightarrow> LogRegistry" where
  "SetGlobalLevel level r = r\<lparr>lg_global_level := level\<rparr>"

definition SetLoggingDir :: "string \<Rightarrow> LogRegistry \<Rightarrow> LogRegistry" where
  "SetLoggingDir dir r = r\<lparr>lg_dir := dir\<rparr>"

text \<open>A sink is changed where it is: the map holds a pointer to it.\<close>

definition set_sink :: "Sink \<Rightarrow> LogRegistry \<Rightarrow> LogRegistry" where
  "set_sink sink r = r\<lparr>lg_sinks := gm_put (lg_sinks r) (sk_name sink) sink\<rparr>"

definition SetSinkLevel :: "string \<Rightarrow> Level \<Rightarrow> LogRegistry \<Rightarrow> log_error + LogRegistry" where
  "SetSinkLevel sinkName level r =
     (case gm_get (lg_sinks r) sinkName of
        None \<Rightarrow> Err (SinkNotFound sinkName)
      | Some sink \<Rightarrow> Ok (r\<lparr>lg_sinks := gm_put (lg_sinks r) sinkName (sink\<lparr>sk_level := level\<rparr>)\<rparr>))"

definition RemoveSink :: "string \<Rightarrow> LogRegistry \<Rightarrow> log_error + LogRegistry" where
  "RemoveSink sinkName r =
     (if gm_get (lg_sinks r) sinkName = None then Err (SinkNotFound sinkName)
      else let users = map fst (filter (\<lambda>(n, c). sinkName \<in> set (cl_sink_names c)) (lg_configs r)) in
        if users \<noteq> [] then Err (SinkInUse sinkName users)
        else Ok (r\<lparr>lg_sinks := gm_del (lg_sinks r) sinkName\<rparr>))"

definition RemoveLogger :: "string \<Rightarrow> LogRegistry \<Rightarrow> log_error + LogRegistry" where
  "RemoveLogger loggerName r =
     (if gm_get (lg_configs r) loggerName = None then Err (LoggerNotFound loggerName)
      else Ok (r\<lparr>lg_configs := gm_del (lg_configs r) loggerName\<rparr>))"

definition AttachSink :: "string \<Rightarrow> string \<Rightarrow> LogRegistry \<Rightarrow> log_error + LogRegistry" where
  "AttachSink loggerName sinkName r =
     (if gm_get (lg_sinks r) sinkName = None then Err (SinkNotFound sinkName)
      else case gm_get (lg_configs r) loggerName of
        None \<Rightarrow> Err (LoggerNotFound loggerName)
      | Some c \<Rightarrow>
          (if sinkName \<in> set (cl_sink_names c) then Err (SinkAlreadyAttached sinkName loggerName)
           else Ok (r\<lparr>lg_configs := gm_put (lg_configs r) loggerName
                      (c\<lparr>cl_sink_names := cl_sink_names c @ [sinkName]\<rparr>)\<rparr>)))"

definition DetachSink :: "string \<Rightarrow> string \<Rightarrow> LogRegistry \<Rightarrow> log_error + LogRegistry" where
  "DetachSink loggerName sinkName r =
     (case gm_get (lg_configs r) loggerName of
        None \<Rightarrow> Err (LoggerNotFound loggerName)
      | Some c \<Rightarrow>
          (if sinkName \<notin> set (cl_sink_names c) then Err (SinkNotAttached sinkName loggerName)
           else Ok (r\<lparr>lg_configs := gm_put (lg_configs r) loggerName
                      (c\<lparr>cl_sink_names := filter (\<lambda>s. s \<noteq> sinkName) (cl_sink_names c)\<rparr>)\<rparr>)))"

section \<open>The parents of a name\<close>

lemma split_on_append_sep: "split_on c (a @ c # b) = split_on c a @ split_on c b"
  by (induction a) (auto split: list.split)

lemma join_with_append:
  "xs \<noteq> [] \<Longrightarrow> ys \<noteq> [] \<Longrightarrow> join_with sep (xs @ ys) = join_with sep xs @ sep @ join_with sep ys"
proof (induction sep xs rule: join_with.induct)
  case (2 sep x)
  then show ?case by (cases ys) simp_all
qed simp_all

lemma parents_iff: "p \<in> set (parents name) \<longleftrightarrow> prefix (p @ ''.'') name"
proof
  let ?ps = "split_on (CHR ''.'') name"
  assume "p \<in> set (parents name)"
  then obtain i where i: "1 \<le> i" "i < length ?ps" and p: "p = join_with ''.'' (take i ?ps)"
    by (auto simp: parents_def Let_def)
  have "name = join_with ''.'' (take i ?ps @ drop i ?ps)" by (simp add: join_split_on)
  also have "\<dots> = p @ ''.'' @ join_with ''.'' (drop i ?ps)"
    using i unfolding p by (intro join_with_append) auto
  finally show "prefix (p @ ''.'') name" by (metis append_assoc prefixI)
next
  assume "prefix (p @ ''.'') name"
  then obtain s where s: "name = p @ CHR ''.'' # s" by (auto simp: prefix_def)
  let ?i = "length (split_on (CHR ''.'') p)"
  have split: "split_on (CHR ''.'') name = split_on (CHR ''.'') p @ split_on (CHR ''.'') s"
    by (simp add: s split_on_append_sep)
  then have "p = join_with ''.'' (take ?i (split_on (CHR ''.'') name))" by (simp add: join_split_on)
  moreover have "1 \<le> ?i" "?i < length (split_on (CHR ''.'') name)"
    by (simp_all add: split Suc_le_eq)
  ultimately show "p \<in> set (parents name)" by (auto simp: parents_def Let_def)
qed

lemma join_take_longer:
  assumes "1 \<le> i" "i < j" "j \<le> length ps"
  shows "length (join_with ''.'' (take i ps)) < length (join_with ''.'' (take j ps))"
proof -
  have "take j ps = take i ps @ take (j - i) (drop i ps)"
    using assms by (metis le_add_diff_inverse less_imp_le take_add)
  moreover have "take i ps \<noteq> []" "take (j - i) (drop i ps) \<noteq> []" using assms by auto
  ultimately show ?thesis by (simp add: join_with_append)
qed

lemma parents_sorted: "sorted_wrt (\<lambda>a b. length b < length a) (name # parents name)"
proof -
  let ?ps = "split_on (CHR ''.'') name"
  have "sorted_wrt (\<lambda>i j. j < i) (rev [1..<length ?ps])"
    by (simp add: sorted_wrt_rev)
  then have "sorted_wrt (\<lambda>a b. length b < length a) (parents name)"
    unfolding parents_def Let_def sorted_wrt_map
    by (rule sorted_wrt_mono_rel [rotated]) (auto intro: join_take_longer)
  moreover have "length p < length name" if "p \<in> set (parents name)" for p
    using that prefix_length_le [of "p @ ''.''" name] by (simp add: parents_iff)
  ultimately show ?thesis by simp
qed

definition dotted_prefix :: "string \<Rightarrow> string \<Rightarrow> bool" where
  "dotted_prefix p name = (p = name \<or> has_prefix name (p @ ''.''))"

lemma dotted_prefix_iff: "dotted_prefix p name \<longleftrightarrow> p \<in> set (name # parents name)"
  by (simp add: dotted_prefix_def has_prefix_iff parents_iff)

lemma getLoggerConfig_first: "getLoggerConfig r name = first_config (lg_configs r) (name # parents name)"
  by (simp add: getLoggerConfig_def split: option.split)

lemma findResolved_first:
  "findResolvedLoggerName r name =
     (case List.find (\<lambda>p. gm_get (lg_configs r) p \<noteq> None) (name # parents name) of Some p \<Rightarrow> p | None \<Rightarrow> '''')"
  by (simp add: findResolvedLoggerName_def)

lemma first_config_find:
  "first_config m ns = (case List.find (\<lambda>p. gm_get m p \<noteq> None) ns of Some p \<Rightarrow> gm_get m p | None \<Rightarrow> None)"
  by (induction ns) (auto split: option.split)

lemma find_sorted:
  "sorted_wrt (\<lambda>a b. length b < length a) ns \<Longrightarrow> List.find P ns = Some p \<Longrightarrow>
   q \<in> set ns \<Longrightarrow> P q \<Longrightarrow> length q \<le> length p"
  by (induction ns) (auto split: if_splits)

text \<open>C25. The configuration of a logger is the one of its longest configured dotted prefix, itself
  included, and the listing of active loggers resolves names by the same rule: a logger without any
  configured prefix has no configuration and logs nothing.\<close>
theorem resolution_longest_prefix:
  "case getLoggerConfig r name of
     Some c \<Rightarrow> (\<exists>p. dotted_prefix p name \<and> gm_get (lg_configs r) p = Some c \<and>
       findResolvedLoggerName r name = p \<and>
       (\<forall>q. dotted_prefix q name \<and> gm_get (lg_configs r) q \<noteq> None \<longrightarrow> length q \<le> length p))
   | None \<Rightarrow> (\<forall>q. dotted_prefix q name \<longrightarrow> gm_get (lg_configs r) q = None) \<and>
       findResolvedLoggerName r name = '''' \<and>
       (\<forall>rec ags. last_attr LoggerNameAttr (lr_attrs rec) '''' = name \<and> name \<noteq> '''' \<longrightarrow>
          Registry_log r rec ags = [])"
proof (cases "List.find (\<lambda>p. gm_get (lg_configs r) p \<noteq> None) (name # parents name)")
  case None
  then have "getLoggerConfig r name = None" "findResolvedLoggerName r name = ''''"
    unfolding getLoggerConfig_first first_config_find findResolved_first by simp_all
  moreover have "gm_get (lg_configs r) q = None" if "dotted_prefix q name" for q
    using None that unfolding dotted_prefix_iff find_None_iff by blast
  ultimately show ?thesis by (simp add: Registry_log_def)
next
  case (Some p)
  then obtain c where c: "gm_get (lg_configs r) p = Some c" "p \<in> set (name # parents name)"
    using find_Some_mem [OF Some] by blast
  then have "getLoggerConfig r name = Some c" "findResolvedLoggerName r name = p"
    unfolding getLoggerConfig_first first_config_find findResolved_first Some by simp_all
  moreover have "length q \<le> length p" if "dotted_prefix q name" "gm_get (lg_configs r) q \<noteq> None" for q
    using find_sorted [OF parents_sorted Some] that unfolding dotted_prefix_iff by blast
  ultimately show ?thesis using c dotted_prefix_iff by auto
qed

definition app_registry :: LogRegistry where
  "app_registry = NewLogRegistry\<lparr>
     lg_sinks := [(''stdout'', \<lparr>sk_name = ''stdout'', sk_type = ''stdout'', sk_file_path = '''',
       sk_level = LevelWarn, sk_handler = \<lparr>hd_kind = StdoutHandler, hd_level = Some LevelWarn\<rparr>,
       sk_max_size = 0, sk_max_backups = 0, sk_max_age_days = 0, sk_json_format = False,
       sk_include_source = True\<rparr>)],
     lg_configs := [(''app'', \<lparr>cl_level = LevelDebug, cl_sink_names = [''stdout'']\<rparr>)]\<rparr>"

theorem resolution_longest_prefix_witness:
  "getLoggerConfig app_registry ''app.db.pool'' = Some \<lparr>cl_level = LevelDebug, cl_sink_names = [''stdout'']\<rparr>
   \<and> findResolvedLoggerName app_registry ''app.db.pool'' = ''app''"
proof -
  have g: "getLoggerConfig app_registry ''app.db.pool'' = Some \<lparr>cl_level = LevelDebug, cl_sink_names = [''stdout'']\<rparr>"
    by code_simp
  show ?thesis using resolution_longest_prefix [where r = app_registry and name = "''app.db.pool''"] unfolding g
    by (auto simp: app_registry_def split: if_splits)
qed

section \<open>The registry as a machine\<close>


datatype LogOp =
  OpGetLogger string int
| OpChild registryHandler string int
| OpFinalize string
| OpHandle registryHandler LogRecord int
| OpRegisterSink Sink
| OpSetLoggerSinks string "string list"
| OpSetLoggerLevel string Level
| OpSetGlobalLevel Level
| OpSetLoggingDir string
| OpSetSinkLevel string Level
| OpRemoveSink string
| OpRemoveLogger string
| OpAttachSink string string
| OpDetachSink string string

definition keep :: "LogRegistry \<Rightarrow> log_error + LogRegistry \<Rightarrow> LogRegistry" where
  "keep r res = (case res of Inl _ \<Rightarrow> r | Inr r' \<Rightarrow> r')"

fun log_exec :: "LogRegistry \<Rightarrow> LogOp \<Rightarrow> LogRegistry" where
  "log_exec r (OpGetLogger n t) = snd (GetLogger n t r)"
| "log_exec r (OpChild h n t) = snd (Logger_Child h n t r)"
| "log_exec r (OpFinalize n) = finalize_logger n r"
| "log_exec r (OpHandle h rec t) = snd (handler_Handle h rec t r)"
| "log_exec r (OpRegisterSink s) = keep r (RegisterSink s r)"
| "log_exec r (OpSetLoggerSinks n ss) = keep r (SetLoggerSinks n ss r)"
| "log_exec r (OpSetLoggerLevel n l) = keep r (SetLoggerLevel n l r)"
| "log_exec r (OpSetGlobalLevel l) = SetGlobalLevel l r"
| "log_exec r (OpSetLoggingDir d) = SetLoggingDir d r"
| "log_exec r (OpSetSinkLevel n l) = keep r (SetSinkLevel n l r)"
| "log_exec r (OpRemoveSink n) = keep r (RemoveSink n r)"
| "log_exec r (OpRemoveLogger n) = keep r (RemoveLogger n r)"
| "log_exec r (OpAttachSink n s) = keep r (AttachSink n s r)"
| "log_exec r (OpDetachSink n s) = keep r (DetachSink n s r)"

text \<open>Every sink is filed under its name, and every sink a logger names is there.\<close>

definition log_ok :: "LogRegistry \<Rightarrow> bool" where
  "log_ok r =
     (gm_ok (lg_sinks r) \<and> gm_ok (lg_configs r) \<and>
      (\<forall>n s. gm_get (lg_sinks r) n = Some s \<longrightarrow> sk_name s = n) \<and>
      (\<forall>n c s. gm_get (lg_configs r) n = Some c \<longrightarrow> s \<in> set (cl_sink_names c) \<longrightarrow> gm_get (lg_sinks r) s \<noteq> None))"

lemma keep_ok: "log_ok r \<Longrightarrow> (\<And>r'. res = Ok r' \<Longrightarrow> log_ok r') \<Longrightarrow> log_ok (keep r res)"
  by (cases res) (simp_all add: keep_def)

lemma log_ok_put_config:
  "log_ok r \<Longrightarrow> list_all (\<lambda>s. gm_get (lg_sinks r) s \<noteq> None) (cl_sink_names c) \<Longrightarrow>
   log_ok (r\<lparr>lg_configs := gm_put (lg_configs r) n c\<rparr>)"
  by (simp add: log_ok_def list_all_iff del: map_of_eq_Some_iff)

lemma log_ok_configD:
  "log_ok r \<Longrightarrow> gm_get (lg_configs r) n = Some c \<Longrightarrow>
   list_all (\<lambda>s. gm_get (lg_sinks r) s \<noteq> None) (cl_sink_names c)"
  by (simp add: log_ok_def list_all_iff del: map_of_eq_Some_iff)

lemma log_ok_put_sink:
  "log_ok r \<Longrightarrow> sk_name s = n \<Longrightarrow> log_ok (r\<lparr>lg_sinks := gm_put (lg_sinks r) n s\<rparr>)"
  by (auto simp: log_ok_def simp del: map_of_eq_Some_iff split: if_splits)

lemma RegisterSink_ok: "log_ok r \<Longrightarrow> RegisterSink s r = Ok r' \<Longrightarrow> log_ok r'"
  by (auto simp: RegisterSink_def log_ok_put_sink split: if_splits)

lemma SetLoggerSinks_ok: "log_ok r \<Longrightarrow> SetLoggerSinks n ss r = Ok r' \<Longrightarrow> log_ok r'"
  by (auto simp: SetLoggerSinks_def Let_def find_None_iff list_all_iff intro!: log_ok_put_config
      split: option.splits)

lemma SetLoggerLevel_ok: "log_ok r \<Longrightarrow> SetLoggerLevel n l r = Ok r' \<Longrightarrow> log_ok r'"
  by (auto simp: SetLoggerLevel_def intro!: log_ok_put_config dest: log_ok_configD split: option.splits)

lemma SetSinkLevel_ok: "log_ok r \<Longrightarrow> SetSinkLevel n l r = Ok r' \<Longrightarrow> log_ok r'"
  by (auto simp: SetSinkLevel_def simp del: map_of_eq_Some_iff intro!: log_ok_put_sink split: option.splits)
     (simp add: log_ok_def del: map_of_eq_Some_iff)

lemma RemoveLogger_ok: "log_ok r \<Longrightarrow> RemoveLogger n r = Ok r' \<Longrightarrow> log_ok r'"
  by (auto simp: RemoveLogger_def log_ok_def simp del: map_of_eq_Some_iff split: if_splits)

lemma AttachSink_ok: "log_ok r \<Longrightarrow> AttachSink n s r = Ok r' \<Longrightarrow> log_ok r'"
  by (auto simp: AttachSink_def intro!: log_ok_put_config dest: log_ok_configD split: option.splits if_splits)

lemma DetachSink_ok: "log_ok r \<Longrightarrow> DetachSink n s r = Ok r' \<Longrightarrow> log_ok r'"
proof -
  assume ok: "log_ok r" and d: "DetachSink n s r = Ok r'"
  from d obtain c where c: "gm_get (lg_configs r) n = Some c"
    and r': "r' = r\<lparr>lg_configs := gm_put (lg_configs r) n
       (c\<lparr>cl_sink_names := filter (\<lambda>x. x \<noteq> s) (cl_sink_names c)\<rparr>)\<rparr>"
    by (auto simp: DetachSink_def split: option.splits if_splits)
  show ?thesis unfolding r' using log_ok_configD [OF ok c]
    by (intro log_ok_put_config [OF ok]) (simp add: list_all_iff)
qed

lemma RemoveSink_ok:
  assumes "log_ok r" "RemoveSink n r = Ok r'"
  shows "log_ok r'"
proof -
  have unused: "\<forall>(k, c)\<in>set (lg_configs r). n \<notin> set (cl_sink_names c)"
    and r': "r' = r\<lparr>lg_sinks := gm_del (lg_sinks r) n\<rparr>"
    using assms(2) by (auto simp: RemoveSink_def Let_def filter_empty_conv split: if_splits)
  have "n \<notin> set (cl_sink_names c)" if "gm_get (lg_configs r) k = Some c" for k c
    using unused map_of_SomeD [OF that] by auto
  then show ?thesis using assms(1) unfolding r' log_ok_def
    by (auto simp del: map_of_eq_Some_iff split: if_splits)
qed

lemma log_ok_active [simp]:
  "log_ok (touch_logger n t r) = log_ok r" "log_ok (finalize_logger n r) = log_ok r"
  "log_ok (r\<lparr>lg_activity := a\<rparr>) = log_ok r" "log_ok (SetGlobalLevel l r) = log_ok r"
  "log_ok (SetLoggingDir d r) = log_ok r"
  by (simp_all add: log_ok_def touch_logger_def finalize_logger_def SetGlobalLevel_def SetLoggingDir_def)

lemma log_exec_ok: "log_ok r \<Longrightarrow> log_ok (log_exec r op)"
  by (cases op)
     (auto simp: GetLogger_def Logger_Child_def handler_Child_def handler_Handle_def Let_def
       intro!: keep_ok
       intro: RegisterSink_ok SetLoggerSinks_ok SetLoggerLevel_ok SetSinkLevel_ok RemoveSink_ok
         RemoveLogger_ok AttachSink_ok DetachSink_ok)

interpretation log_machine: op_machine "\<lambda>r. r = NewLogRegistry" log_exec log_ok
  by unfold_locales (auto simp: log_exec_ok, simp add: log_ok_def NewLogRegistry_def)

text \<open>C16. After any sequence of operations of the registry, with whatever operations fail on the way,
  no logger names a sink that is not there and every sink is filed under its own name: a sink in use
  cannot be removed, and a lookup during logging never misses.\<close>
theorem registry_references:
  "\<forall>n c s. gm_get (lg_configs (foldl log_exec NewLogRegistry ops)) n = Some c \<longrightarrow> s \<in> set (cl_sink_names c) \<longrightarrow>
     (\<exists>sink. GetSink (foldl log_exec NewLogRegistry ops) s = Some sink \<and> sk_name sink = s) \<and>
     (\<exists>users. RemoveSink s (foldl log_exec NewLogRegistry ops) = Err (SinkInUse s users) \<and> n \<in> set users)"
proof (intro allI impI conjI)
  let ?r = "foldl log_exec NewLogRegistry ops"
  fix n c s
  assume c: "gm_get (lg_configs ?r) n = Some c" and s: "s \<in> set (cl_sink_names c)"
  have ok: "log_ok ?r" by (rule log_machine.run_inv) simp
  then obtain sink where sink: "gm_get (lg_sinks ?r) s = Some sink" "sk_name sink = s"
    using c s unfolding log_ok_def by (metis option.exhaust)
  then show "\<exists>sink. GetSink ?r s = Some sink \<and> sk_name sink = s" by (simp add: GetSink_def)
  have "(n, c) \<in> set (lg_configs ?r)" by (rule map_of_SomeD [OF c])
  then have "n \<in> set (map fst (filter (\<lambda>(n, c). s \<in> set (cl_sink_names c)) (lg_configs ?r)))"
    using s by force
  moreover from this have "map fst (filter (\<lambda>(n, c). s \<in> set (cl_sink_names c)) (lg_configs ?r)) \<noteq> []"
    by (metis empty_iff list.set(1))
  ultimately show "\<exists>users. RemoveSink s ?r = Err (SinkInUse s users) \<and> n \<in> set users"
    using sink(1) unfolding RemoveSink_def Let_def
    by (intro exI [of _ "map fst (filter (\<lambda>(n, c). s \<in> set (cl_sink_names c)) (lg_configs ?r))"]) simp
qed

definition stdout_sink :: Sink where
  "stdout_sink = \<lparr>sk_name = ''stdout'', sk_type = ''stdout'', sk_file_path = '''', sk_level = LevelWarn,
     sk_handler = \<lparr>hd_kind = StdoutHandler, hd_level = Some LevelWarn\<rparr>, sk_max_size = 0,
     sk_max_backups = 0, sk_max_age_days = 0, sk_json_format = False, sk_include_source = True\<rparr>"

theorem registry_references_witness:
  "\<exists>users. RemoveSink ''stdout'' (foldl log_exec NewLogRegistry
     [OpRegisterSink stdout_sink, OpSetLoggerSinks ''app'' [''stdout'']]) = Err (SinkInUse ''stdout'' users)"
proof -
  let ?ops = "[OpRegisterSink stdout_sink, OpSetLoggerSinks ''app'' [''stdout'']]"
  have "gm_get (lg_configs (foldl log_exec NewLogRegistry ?ops)) ''app'' =
      Some \<lparr>cl_level = LevelInfo, cl_sink_names = [''stdout'']\<rparr>" by code_simp
  with registry_references [rule_format, where n = "''app''" and ops = ?ops and s = "''stdout''"] show ?thesis by auto
qed

text \<open>A logger made by With or WithGroup has the name of the logger it comes from. When the garbage
  collector takes it, its finalizer removes the name, though the first logger is in use.\<close>
lemma derived_logger_finalizer:
  "gm_get (lg_configs r) n = None \<Longrightarrow> GetLogger n t r = (h, r1) \<Longrightarrow> Logger_With h attrs t r1 = (h2, r2) \<Longrightarrow>
   IsLoggerActive r2 n \<and> \<not> IsLoggerActive (finalize_logger (rh_logger_name h2) r2) n"
  by (auto simp: GetLogger_def Logger_With_def handler_WithAttrs_def touch_logger_def finalize_logger_def
      IsLoggerActive_def)

section \<open>Controls\<close>

lemma global_floor: "lr_level rec < lg_global_level r \<Longrightarrow> Registry_log r rec ags = []"
  by (simp add: Registry_log_def Let_def split: option.split)

lemma SetSinkLevel_emit:
  assumes "SetSinkLevel sinkName level r = Ok r'"
  shows "emit_to r' rec ags s = emit_to r rec ags s"
proof -
  obtain sink where "gm_get (lg_sinks r) sinkName = Some sink"
    "r' = r\<lparr>lg_sinks := gm_put (lg_sinks r) sinkName (sink\<lparr>sk_level := level\<rparr>)\<rparr>"
    using assms by (auto simp: SetSinkLevel_def split: option.splits)
  then show ?thesis by (simp add: emit_to_def GetSink_def split: option.split)
qed

theorem level_controls:
  assumes "SetSinkLevel sinkName level r = Ok r'"
  shows "Registry_log r' rec ags = Registry_log r rec ags \<and>
    map_option sk_level (GetSink r' sinkName) = Some level \<and>
    (lr_level rec < lg_global_level r \<longrightarrow> Registry_log r rec ags = []) \<and>
    (gm_get (lg_configs r) name = Some c \<and> lr_attrs rec = [(LoggerNameAttr, name)] \<and> name \<noteq> '''' \<and>
       lr_level rec < cl_level c \<longrightarrow> Registry_log r rec ags = [])"
proof (intro conjI impI)
  have same: "lg_configs r' = lg_configs r" "lg_global_level r' = lg_global_level r"
    and get: "map_option sk_level (GetSink r' sinkName) = Some level"
    using assms by (auto simp: SetSinkLevel_def GetSink_def split: option.splits)
  have emit: "emit_to r' rec ags = emit_to r rec ags" using SetSinkLevel_emit [OF assms] by (rule ext)
  show "Registry_log r' rec ags = Registry_log r rec ags"
    unfolding Registry_log_def getLoggerConfig_def same emit by (rule refl)
  show "map_option sk_level (GetSink r' sinkName) = Some level" by (rule get)
next
  assume "lr_level rec < lg_global_level r"
  then show "Registry_log r rec ags = []" by (rule global_floor)
next
  assume "gm_get (lg_configs r) name = Some c \<and> lr_attrs rec = [(LoggerNameAttr, name)] \<and> name \<noteq> '''' \<and>
       lr_level rec < cl_level c"
  then show "Registry_log r rec ags = []" by (simp add: Registry_log_def Let_def getLoggerConfig_def)
qed

definition info_record :: LogRecord where
  "info_record = \<lparr>lr_level = LevelInfo, lr_message = ''hello'', lr_attrs = [(LoggerNameAttr, ''app'')]\<rparr>"

text \<open>Lowering the level of the standard output does not make an info record appear there.\<close>
theorem level_controls_witness:
  "\<exists>r'. SetSinkLevel ''stdout'' LevelDebug (app_registry\<lparr>lg_global_level := LevelDebug\<rparr>) = Ok r' \<and>
     Registry_log r' info_record [] = []"
proof -
  let ?r = "app_registry\<lparr>lg_global_level := LevelDebug\<rparr>"
  obtain r' where r': "SetSinkLevel ''stdout'' LevelDebug ?r = Ok r'"
    by (simp add: SetSinkLevel_def app_registry_def)
  have "Registry_log ?r info_record [] = []" by code_simp
  with level_controls [OF r', of info_record "[]"] r' show ?thesis by simp
qed

end
