(* ===== verification/LogConfig.thy ===== *)
theory LogConfig
  imports LogRegistry Paths
begin

text \<open>
  Logging set up from a configuration (pkg/logging/config.go), the file sinks (FileSink of
  pkg/logging/sinks/sinks.go), the global registry (global.go) and the broadcaster of log entries
  (log_buffer.go, broadcaster_handler.go). Whether a directory can be made, and the user's home
  directory, are arguments.
\<close>

section \<open>Levels and paths\<close>

definition ParseLevel :: "string \<Rightarrow> Level" where
  "ParseLevel s =
     (if s = ''error'' then LevelError else if s = ''warn'' then LevelWarn
      else if s = ''info'' then LevelInfo else if s = ''debug'' then LevelDebug
      else if s = ''trace'' then LevelTrace else LevelInfo)"

definition LevelToString :: "Level \<Rightarrow> string" where
  "LevelToString l =
     (if l = LevelError then ''error'' else if l = LevelWarn then ''warn''
      else if l = LevelInfo then ''info'' else if l = LevelDebug then ''debug''
      else if l < LevelDebug then ''trace'' else ''info'')"

definition ExpandHome :: "string option \<Rightarrow> string \<Rightarrow> string" where
  "ExpandHome home path =
     (if path = ''~'' then (case home of None \<Rightarrow> path | Some h \<Rightarrow> h)
      else if has_prefix path ''~/'' then (case home of None \<Rightarrow> path | Some h \<Rightarrow> Join [h, drop 2 path])
      else path)"

section \<open>Configurations\<close>

record SinkConfig =
  sc_name :: string
  sc_type :: string
  sc_level :: string
  sc_filename :: string
  sc_max_size_b :: int
  sc_max_files :: int
  sc_max_age_days :: int
  sc_json_format :: bool
  sc_tag :: string
  sc_include_source :: bool
  sc_omit_logger_name :: bool

record LoggerConfig =
  lc_name :: string
  lc_level :: string
  lc_sinks :: "string list"

record LoggingConfig =
  gc_global_level :: string
  gc_logging_dir :: string
  gc_sinks :: "SinkConfig list"
  gc_loggers :: "LoggerConfig list"

definition empty_sink_config :: SinkConfig where
  "empty_sink_config = \<lparr>sc_name = '''', sc_type = '''', sc_level = '''', sc_filename = '''',
     sc_max_size_b = 0, sc_max_files = 0, sc_max_age_days = 0, sc_json_format = False, sc_tag = '''',
     sc_include_source = False, sc_omit_logger_name = False\<rparr>"

definition DefaultLoggingConfig :: LoggingConfig where
  "DefaultLoggingConfig =
     \<lparr>gc_global_level = ''debug'', gc_logging_dir = ''~/.cache/buildozer/logs'',
      gc_sinks = [empty_sink_config\<lparr>sc_name := ''stdout'', sc_type := ''stdout'', sc_level := ''warn'',
                    sc_include_source := True, sc_omit_logger_name := True\<rparr>],
      gc_loggers = [\<lparr>lc_name = ''buildozer'', lc_level = ''debug'', lc_sinks = [''stdout'']\<rparr>]\<rparr>"

datatype config_error =
  FilenameRequired string
| FileSinkFailed string
| UnknownSinkType string
| RegistryRefused log_error
| CreateSinkFailed string config_error
| UnknownSinkOfLogger string string
| ConfigureLoggerFailed string log_error

section \<open>File sinks\<close>

record FileSinkConfig =
  fc_path :: string
  fc_max_size_b :: int
  fc_max_files :: int
  fc_max_age_days :: int
  fc_json_format :: bool
  fc_level :: "Level option"

text \<open>The directory of a path is everything before its last slash. Integer division truncates.\<close>

definition FileSink :: "(string \<Rightarrow> bool) \<Rightarrow> FileSinkConfig \<Rightarrow> Handler option" where
  "FileSink mkdirAll c =
     (let dir = rev (drop 1 (dropWhile (\<lambda>x. x \<noteq> CHR ''/'') (rev (fc_path c))));
          maxSizeMB = (if 0 < fc_max_size_b c then fc_max_size_b c div (1024 * 1024) else 100);
          maxBackups = (if 0 < fc_max_files c then fc_max_files c else 5);
          maxAgeDays = (if 0 < fc_max_age_days c then fc_max_age_days c else 0)
      in if dir \<noteq> '''' \<and> \<not> mkdirAll dir then None
         else Some \<lparr>hd_kind = FileHandler \<lparr>lb_filename = fc_path c, lb_max_size = maxSizeMB,
                      lb_max_backups = maxBackups, lb_max_age = maxAgeDays\<rparr> (fc_json_format c),
                    hd_level = (case fc_level c of None \<Rightarrow> Some LevelDebug | Some l \<Rightarrow> Some l)\<rparr>)"

section \<open>The factory\<close>

definition CreateSink :: "(string \<Rightarrow> bool) \<Rightarrow> SinkConfig \<Rightarrow> LogRegistry \<Rightarrow>
    config_error + (Sink \<times> LogRegistry)" where
  "CreateSink mkdirAll config r =
     (let level = ParseLevel (sc_level config);
          made = (if sc_type config = ''stdout'' then Ok \<lparr>hd_kind = StdoutHandler, hd_level = Some level\<rparr>
            else if sc_type config = ''stderr'' then Ok \<lparr>hd_kind = StderrHandler, hd_level = Some level\<rparr>
            else if sc_type config = ''file'' then
              (if sc_filename config = '''' then Err (FilenameRequired (sc_name config))
               else case FileSink mkdirAll
                   \<lparr>fc_path = Join [lg_dir r, sc_filename config], fc_max_size_b = sc_max_size_b config,
                    fc_max_files = sc_max_files config, fc_max_age_days = sc_max_age_days config,
                    fc_json_format = sc_json_format config, fc_level = Some level\<rparr> of
                 None \<Rightarrow> Err (FileSinkFailed (sc_name config))
               | Some h \<Rightarrow> Ok h)
            else Err (UnknownSinkType (sc_type config)))
      in case made of
           Inl e \<Rightarrow> Err e
         | Inr handler \<Rightarrow>
             (let sink = \<lparr>sk_name = sc_name config, sk_type = sc_type config,
                  sk_file_path = sc_filename config, sk_level = level, sk_handler = handler,
                  sk_max_size = sc_max_size_b config, sk_max_backups = word_of_int (sc_max_files config),
                  sk_max_age_days = word_of_int (sc_max_age_days config),
                  sk_json_format = sc_json_format config, sk_include_source = sc_include_source config\<rparr>
              in case RegisterSink sink r of
                   Inl e \<Rightarrow> Err (RegistryRefused e)
                 | Inr r' \<Rightarrow> Ok (sink, r')))"

text \<open>What was set up before an error stays.\<close>

fun create_sinks :: "(string \<Rightarrow> bool) \<Rightarrow> SinkConfig list \<Rightarrow> LogRegistry \<Rightarrow> config_error option \<times> LogRegistry" where
  "create_sinks mkdirAll [] r = (None, r)"
| "create_sinks mkdirAll (s # ss) r =
     (case CreateSink mkdirAll s r of
        Inl e \<Rightarrow> (Some (CreateSinkFailed (sc_name s) e), r)
      | Inr (_, r') \<Rightarrow> create_sinks mkdirAll ss r')"

fun configure_loggers :: "LoggerConfig list \<Rightarrow> LogRegistry \<Rightarrow> config_error option \<times> LogRegistry" where
  "configure_loggers [] r = (None, r)"
| "configure_loggers (l # ls) r =
     (case List.find (\<lambda>s. GetSink r s = None) (lc_sinks l) of
        Some s \<Rightarrow> (Some (UnknownSinkOfLogger s (lc_name l)), r)
      | None \<Rightarrow>
          (case SetLoggerSinks (lc_name l) (lc_sinks l) r of
             Inl e \<Rightarrow> (Some (ConfigureLoggerFailed (lc_name l) e), r)
           | Inr r1 \<Rightarrow>
               (case SetLoggerLevel (lc_name l) (ParseLevel (lc_level l)) r1 of
                  Inl e \<Rightarrow> (Some (ConfigureLoggerFailed (lc_name l) e), r1)
                | Inr r2 \<Rightarrow> configure_loggers ls r2)))"

definition InitializeFromConfig :: "(string \<Rightarrow> bool) \<Rightarrow> string option \<Rightarrow> LoggingConfig \<Rightarrow> LogRegistry \<Rightarrow>
    config_error option \<times> LogRegistry" where
  "InitializeFromConfig mkdirAll home config r =
     (let r1 = SetGlobalLevel (ParseLevel (gc_global_level config)) r;
          r2 = SetLoggingDir (ExpandHome home (gc_logging_dir config)) r1
      in case create_sinks mkdirAll (gc_sinks config) r2 of
           (Some e, r3) \<Rightarrow> (Some e, r3)
         | (None, r3) \<Rightarrow> configure_loggers (gc_loggers config) r3)"

definition GetLoggerStatus :: "LogRegistry \<Rightarrow> (string \<times> configuredLogger) list" where
  "GetLoggerStatus r = lg_configs r"

definition GetSinkStatus :: "LogRegistry \<Rightarrow> (string \<times> string \<times> string) list" where
  "GetSinkStatus r = map (\<lambda>(n, s). (n, sk_type s, LevelToString (sk_level s))) (lg_sinks r)"

section \<open>The global registry\<close>

record GlobalLogging =
  gl_registry :: "LogRegistry option"
  gl_initialized :: bool

definition NoLogging :: GlobalLogging where
  "NoLogging = \<lparr>gl_registry = None, gl_initialized = False\<rparr>"

text \<open>Without another goroutine between the two critical sections. The default slog logger is the
  logger buildozer of the registry.\<close>

definition InitializeGlobal :: "(string \<Rightarrow> bool) \<Rightarrow> string option \<Rightarrow> int \<Rightarrow> LoggingConfig \<Rightarrow> GlobalLogging \<Rightarrow>
    config_error option \<times> GlobalLogging" where
  "InitializeGlobal mkdirAll home now config g =
     (if gl_initialized g then (None, g)
      else if gl_registry g \<noteq> None then (None, g)
      else case InitializeFromConfig mkdirAll home config NewLogRegistry of
        (Some e, _) \<Rightarrow> (Some e, g)
      | (None, r) \<Rightarrow> (None, \<lparr>gl_registry = Some (snd (GetLogger ''buildozer'' now r)), gl_initialized = True\<rparr>))"

text \<open>GetRegistry panics (None) when the default configuration cannot be set up.\<close>

definition GetRegistry :: "(string \<Rightarrow> bool) \<Rightarrow> string option \<Rightarrow> int \<Rightarrow> GlobalLogging \<Rightarrow>
    (LogRegistry \<times> GlobalLogging) option" where
  "GetRegistry mkdirAll home now g =
     (case gl_registry g of
        Some r \<Rightarrow> Some (r, g)
      | None \<Rightarrow>
          (case InitializeFromConfig mkdirAll home DefaultLoggingConfig NewLogRegistry of
             (Some e, _) \<Rightarrow> None
           | (None, r) \<Rightarrow>
               (let r' = snd (GetLogger ''buildozer'' now r)
                in Some (r', \<lparr>gl_registry = Some r', gl_initialized = True\<rparr>))))"

definition global_GetLogger :: "string \<Rightarrow> string list \<Rightarrow> int \<Rightarrow> LogRegistry \<Rightarrow> registryHandler \<times> LogRegistry" where
  "global_GetLogger name daemonID now r =
     (case GetLogger name now r of (h, r1) \<Rightarrow>
        (case daemonID of
           d # _ \<Rightarrow> if d \<noteq> '''' then Logger_With h [(''daemon'', d)] now r1 else (h, r1)
         | [] \<Rightarrow> (h, r1)))"

definition global_Log :: "string list \<Rightarrow> int \<Rightarrow> LogRegistry \<Rightarrow> registryHandler \<times> LogRegistry" where
  "global_Log daemonID now r = global_GetLogger ''buildozer'' daemonID now r"

definition wrap64 :: "int \<Rightarrow> int" where
  "wrap64 i = signed_take_bit 63 i"

definition EnableLoggerFileSink :: "(string \<Rightarrow> bool) \<Rightarrow> string \<Rightarrow> string \<Rightarrow> int \<Rightarrow> int \<Rightarrow> LogRegistry \<Rightarrow>
    config_error option \<times> LogRegistry" where
  "EnableLoggerFileSink mkdirAll loggerName filePath maxSizeMB maxAgeDays r =
     (let sinkName = ''file-'' @ loggerName;
          config = empty_sink_config\<lparr>sc_name := sinkName, sc_type := ''file'', sc_level := ''trace'',
            sc_filename := filePath, sc_max_size_b := wrap64 (maxSizeMB * 1024 * 1024), sc_max_files := 5,
            sc_max_age_days := maxAgeDays\<rparr>
      in case CreateSink mkdirAll config r of
           Inl e \<Rightarrow> (Some e, r)
         | Inr (_, r1) \<Rightarrow>
             (let sinkNames = (case GetLoggerSinks r1 loggerName of None \<Rightarrow> [] | Some ss \<Rightarrow> ss)
              in case SetLoggerSinks loggerName (sinkNames @ [sinkName]) r1 of
                   Inl e \<Rightarrow> (Some (RegistryRefused e), r1)
                 | Inr r2 \<Rightarrow> (None, r2)))"

definition DisableLoggerFileSink :: "string \<Rightarrow> LogRegistry \<Rightarrow> log_error + LogRegistry" where
  "DisableLoggerFileSink loggerName r =
     (case GetLoggerSinks r loggerName of
        None \<Rightarrow> Ok r
      | Some ss \<Rightarrow> SetLoggerSinks loggerName (filter (\<lambda>s. s \<noteq> ''file-'' @ loggerName) ss) r)"

definition GetAvailableSinks :: "LogRegistry \<Rightarrow> string list" where
  "GetAvailableSinks r = gm_keys (lg_sinks r)"

definition GetAvailableLoggers :: "LogRegistry \<Rightarrow> string list" where
  "GetAvailableLoggers r = gm_keys (lg_configs r)"

text \<open>The broadcaster of a broadcaster sink is given by its number.\<close>

definition CreateBroadcasterSink :: "string \<Rightarrow> nat \<Rightarrow> LogRegistry \<Rightarrow> log_error + LogRegistry" where
  "CreateBroadcasterSink sinkName b r =
     RegisterSink \<lparr>sk_name = sinkName, sk_type = ''broadcaster'', sk_file_path = '''',
       sk_level = LevelDebug, sk_handler = \<lparr>hd_kind = BroadcastHandler b, hd_level = Some LevelDebug\<rparr>,
       sk_max_size = 0, sk_max_backups = 0, sk_max_age_days = 0, sk_json_format = False,
       sk_include_source = False\<rparr> r"

fun AddSinkToLoggers :: "string \<Rightarrow> string list \<Rightarrow> LogRegistry \<Rightarrow> log_error option \<times> LogRegistry" where
  "AddSinkToLoggers sinkName [] r = (None, r)"
| "AddSinkToLoggers sinkName (l # ls) r =
     (let sinkNames = (case GetLoggerSinks r l of None \<Rightarrow> [] | Some ss \<Rightarrow> ss)
      in if sinkName \<in> set sinkNames then AddSinkToLoggers sinkName ls r
         else case SetLoggerSinks l (sinkNames @ [sinkName]) r of
           Inl e \<Rightarrow> (Some e, r)
         | Inr r' \<Rightarrow> AddSinkToLoggers sinkName ls r')"

fun RemoveSinkFromLoggers :: "string \<Rightarrow> string list \<Rightarrow> LogRegistry \<Rightarrow> log_error option \<times> LogRegistry" where
  "RemoveSinkFromLoggers sinkName [] r = (None, r)"
| "RemoveSinkFromLoggers sinkName (l # ls) r =
     (let sinkNames = (case GetLoggerSinks r l of None \<Rightarrow> [] | Some ss \<Rightarrow> ss)
      in case SetLoggerSinks l (filter (\<lambda>s. s \<noteq> sinkName) sinkNames) r of
           Inl e \<Rightarrow> (Some e, r)
         | Inr r' \<Rightarrow> RemoveSinkFromLoggers sinkName ls r')"

section \<open>The broadcaster\<close>

record LogEntry =
  le_timestamp :: int
  le_logger_name :: string
  le_level :: Level
  le_message :: string
  le_attributes :: "(string, string) gomap"

record LogBroadcaster =
  bc_subscribers :: "(int, LogEntry chan) gomap"
  bc_next_sub_id :: int

definition NewLogBroadcaster :: LogBroadcaster where
  "NewLogBroadcaster = \<lparr>bc_subscribers = [], bc_next_sub_id = 0\<rparr>"

text \<open>None is the panic of a send on a closed channel or of closing one twice.\<close>

fun send_all :: "LogEntry \<Rightarrow> (int, LogEntry chan) gomap \<Rightarrow> (int, LogEntry chan) gomap option" where
  "send_all entry [] = Some []"
| "send_all entry ((i, c) # r) =
     (case chan_try_send c entry of
        None \<Rightarrow> None
      | Some c' \<Rightarrow> map_option ((#) (i, c')) (send_all entry r))"

definition Broadcast :: "LogEntry \<Rightarrow> LogBroadcaster \<Rightarrow> LogBroadcaster option" where
  "Broadcast entry b = map_option (\<lambda>subs. b\<lparr>bc_subscribers := subs\<rparr>) (send_all entry (bc_subscribers b))"

definition Subscribe :: "LogBroadcaster \<Rightarrow> int \<times> LogBroadcaster" where
  "Subscribe b = (bc_next_sub_id b,
     b\<lparr>bc_subscribers := gm_put (bc_subscribers b) (bc_next_sub_id b) (make_chan 100),
       bc_next_sub_id := bc_next_sub_id b + 1\<rparr>)"

definition unsubscribe :: "int \<Rightarrow> LogBroadcaster \<Rightarrow> LogBroadcaster option" where
  "unsubscribe subID b =
     (case gm_get (bc_subscribers b) subID of
        None \<Rightarrow> Some b
      | Some c \<Rightarrow>
          (case chan_close c of
             None \<Rightarrow> None
           | Some _ \<Rightarrow> Some (b\<lparr>bc_subscribers := gm_del (bc_subscribers b) subID\<rparr>)))"

definition CloseAllSubscribers :: "LogBroadcaster \<Rightarrow> LogBroadcaster option" where
  "CloseAllSubscribers b =
     (if list_all (\<lambda>(i, c). chan_close c \<noteq> None) (bc_subscribers b)
      then Some (b\<lparr>bc_subscribers := []\<rparr>) else None)"

text \<open>The reader of a subscription takes the oldest entry.\<close>

definition receive_entry :: "int \<Rightarrow> LogBroadcaster \<Rightarrow> (LogEntry \<times> LogBroadcaster) option" where
  "receive_entry subID b =
     (case gm_get (bc_subscribers b) subID of
        None \<Rightarrow> None
      | Some c \<Rightarrow> map_option (\<lambda>(e, c'). (e, b\<lparr>bc_subscribers := gm_put (bc_subscribers b) subID c'\<rparr>)) (chan_recv c))"

definition broadcast_entry :: "int \<Rightarrow> LogRecord \<Rightarrow> LogEntry" where
  "broadcast_entry now rec =
     \<lparr>le_timestamp = now, le_logger_name = last_attr ''component'' (lr_attrs rec) '''',
      le_level = lr_level rec, le_message = lr_message rec,
      le_attributes = foldl (\<lambda>m (k, v). gm_put m k v) [] (lr_attrs rec)\<rparr>"

definition broadcaster_Handle :: "Handler \<Rightarrow> int \<Rightarrow> LogRecord \<Rightarrow> LogBroadcaster \<Rightarrow> LogBroadcaster option" where
  "broadcaster_Handle h now rec b =
     (if \<not> handler_enabled h (lr_level rec) then Some b else Broadcast (broadcast_entry now rec) b)"

section \<open>Setting up\<close>

lemma default_logging_ok:
  "\<exists>r. InitializeFromConfig mk home DefaultLoggingConfig NewLogRegistry = (None, r) \<and>
     GetLoggerSinks r ''buildozer'' = Some [''stdout''] \<and> lg_global_level r = LevelDebug"
  by (simp add: InitializeFromConfig_def DefaultLoggingConfig_def empty_sink_config_def CreateSink_def
      Let_def RegisterSink_def NewLogRegistry_def SetGlobalLevel_def SetLoggingDir_def GetSink_def
      SetLoggerSinks_def SetLoggerLevel_def GetLoggerSinks_def ParseLevel_def)

text \<open>Logging always comes up by itself: without a configuration the default one never panics.\<close>
lemma GetRegistry_default: "\<exists>r g. GetRegistry mk home now NoLogging = Some (r, g) \<and> gl_registry g = Some r"
  using default_logging_ok [of mk home] by (auto simp: GetRegistry_def NoLogging_def Let_def)

lemma CreateSink_ok: "log_ok r \<Longrightarrow> CreateSink mk c r = Ok (s, r') \<Longrightarrow> log_ok r'"
  by (auto simp: CreateSink_def Let_def split: sum.splits if_splits option.splits dest: RegisterSink_ok)

lemma create_sinks_ok: "log_ok r \<Longrightarrow> create_sinks mk ss r = (e, r') \<Longrightarrow> log_ok r'"
  by (induction mk ss r rule: create_sinks.induct) (auto split: sum.splits dest: CreateSink_ok)

lemma configure_loggers_ok: "log_ok r \<Longrightarrow> configure_loggers ls r = (e, r') \<Longrightarrow> log_ok r'"
proof (induction ls arbitrary: r)
  case (Cons l ls)
  show ?case
  proof (cases "List.find (\<lambda>s. GetSink r s = None) (lc_sinks l)")
    case None
    show ?thesis
    proof (cases "SetLoggerSinks (lc_name l) (lc_sinks l) r")
      case (Inr r1)
      have r1: "log_ok r1" by (rule SetLoggerSinks_ok [OF Cons.prems(1) Inr])
      show ?thesis
      proof (cases "SetLoggerLevel (lc_name l) (ParseLevel (lc_level l)) r1")
        case (Inr r2)
        then show ?thesis using Cons.IH [OF SetLoggerLevel_ok [OF r1 Inr]] Cons.prems(2) None
            \<open>SetLoggerSinks (lc_name l) (lc_sinks l) r = Ok r1\<close> by simp
      qed (use Cons.prems None Inr r1 in simp)
    qed (use Cons.prems None in simp)
  qed (use Cons.prems in simp)
qed simp

lemma InitializeFromConfig_ok:
  assumes "log_ok r" "InitializeFromConfig mk home c r = (e, r')"
  shows "log_ok r'"
proof -
  define r2 where "r2 = SetLoggingDir (ExpandHome home (gc_logging_dir c)) (SetGlobalLevel (ParseLevel (gc_global_level c)) r)"
  have r2: "log_ok r2" using assms(1) by (simp add: r2_def)
  obtain x r3 where s: "create_sinks mk (gc_sinks c) r2 = (x, r3)" by (cases "create_sinks mk (gc_sinks c) r2")
  have r3: "log_ok r3" by (rule create_sinks_ok [OF r2 s])
  have "(case x of Some e \<Rightarrow> (Some e, r3) | None \<Rightarrow> configure_loggers (gc_loggers c) r3) = (e, r')"
    using assms(2) s by (simp add: InitializeFromConfig_def r2_def Let_def split: option.splits)
  then show ?thesis using r3 configure_loggers_ok [OF r3] by (cases x) simp_all
qed

text \<open>A sink asked to rotate below one megabyte gets the size zero, which the writer takes for its
  default of a hundred.\<close>
lemma small_file_sink:
  "0 < fc_max_size_b c \<Longrightarrow> fc_max_size_b c < 1024 * 1024 \<Longrightarrow> FileSink mk c = Some h \<Longrightarrow>
   \<exists>l j. hd_kind h = FileHandler l j \<and> lb_max_size l = 0"
  by (auto simp: FileSink_def Let_def split: if_splits)

text \<open>Disabling a logger's file sink leaves the sink registered, so it cannot be enabled again.\<close>
lemma reenable_file_sink_fails:
  assumes "EnableLoggerFileSink mk l path mb days r = (None, r1)" and "DisableLoggerFileSink l r1 = Ok r2"
  shows "\<exists>e. EnableLoggerFileSink mk l path' mb' days' r2 = (Some e, r2)"
proof -
  obtain s r' ss where c: "CreateSink mk (empty_sink_config\<lparr>sc_name := ''file-'' @ l, sc_type := ''file'',
      sc_level := ''trace'', sc_filename := path, sc_max_size_b := wrap64 (mb * 1024 * 1024),
      sc_max_files := 5, sc_max_age_days := days\<rparr>) r = Ok (s, r')"
    and set: "SetLoggerSinks l ss r' = Ok r1"
    using assms(1) by (auto simp: EnableLoggerFileSink_def Let_def split: sum.splits)
  have "gm_get (lg_sinks r') (''file-'' @ l) \<noteq> None"
    using c by (auto simp: CreateSink_def Let_def RegisterSink_def empty_sink_config_def
        split: sum.splits if_splits option.splits)
  moreover have "lg_sinks r1 = lg_sinks r'"
    using set by (auto simp: SetLoggerSinks_def Let_def split: option.splits)
  moreover have "lg_sinks r2 = lg_sinks r1"
    using assms(2) by (auto simp: DisableLoggerFileSink_def SetLoggerSinks_def Let_def split: option.splits)
  ultimately have "gm_get (lg_sinks r2) (''file-'' @ l) \<noteq> None" by simp
  then have fail: "\<exists>e. CreateSink mk c r2 = Err e" if "sc_name c = ''file-'' @ l" for c
    using that by (auto simp: CreateSink_def Let_def RegisterSink_def split: sum.split)
  let ?c = "empty_sink_config\<lparr>sc_name := ''file-'' @ l, sc_type := ''file'', sc_level := ''trace'',
      sc_filename := path', sc_max_size_b := wrap64 (mb' * 1024 * 1024), sc_max_files := 5,
      sc_max_age_days := days'\<rparr>"
  obtain e where "CreateSink mk ?c r2 = Err e" using fail [of ?c] by auto
  then show ?thesis by (simp add: EnableLoggerFileSink_def Let_def)
qed

section \<open>The broadcaster as a machine\<close>

datatype BroadcastOp =
  BcSubscribe | BcUnsubscribe int | BcBroadcast LogEntry | BcCloseAll | BcReceive int

fun broadcast_exec :: "LogBroadcaster option \<Rightarrow> BroadcastOp \<Rightarrow> LogBroadcaster option" where
  "broadcast_exec None op = None"
| "broadcast_exec (Some b) BcSubscribe = Some (snd (Subscribe b))"
| "broadcast_exec (Some b) (BcUnsubscribe i) = unsubscribe i b"
| "broadcast_exec (Some b) (BcBroadcast e) = Broadcast e b"
| "broadcast_exec (Some b) BcCloseAll = CloseAllSubscribers b"
| "broadcast_exec (Some b) (BcReceive i) =
     (case receive_entry i b of None \<Rightarrow> Some b | Some (e, b') \<Rightarrow> Some b')"

definition sub_ok :: "int \<Rightarrow> int \<times> LogEntry chan \<Rightarrow> bool" where
  "sub_ok n = (\<lambda>(i, c). \<not> ch_closed c \<and> ch_cap c = 100 \<and> chan_ok c \<and> 0 \<le> i \<and> i < n)"

definition broadcaster_ok :: "LogBroadcaster \<Rightarrow> bool" where
  "broadcaster_ok b = (gm_ok (bc_subscribers b) \<and> 0 \<le> bc_next_sub_id b \<and>
     list_all (sub_ok (bc_next_sub_id b)) (bc_subscribers b))"

lemma send_all_ok:
  "list_all (sub_ok n) subs \<Longrightarrow>
   \<exists>subs'. send_all e subs = Some subs' \<and> list_all (sub_ok n) subs' \<and> gm_keys subs' = gm_keys subs"
proof (induction e subs rule: send_all.induct)
  case (2 e i c r)
  then obtain c' where c': "chan_try_send c e = Some c'"
    using chan_try_send_open [of c e] by (auto simp: sub_ok_def)
  then show ?case using 2 chan_try_send_ok [OF _ c'] by (auto simp: sub_ok_def)
qed simp

lemma Broadcast_ok: "broadcaster_ok b \<Longrightarrow> \<exists>b'. Broadcast e b = Some b' \<and> broadcaster_ok b'"
  using send_all_ok [of "bc_next_sub_id b" "bc_subscribers b" e]
  by (auto simp: Broadcast_def broadcaster_ok_def)

lemma Subscribe_ok: "broadcaster_ok b \<Longrightarrow> broadcaster_ok (snd (Subscribe b))"
proof -
  assume ok: "broadcaster_ok b"
  have "list_all (sub_ok (bc_next_sub_id b + 1)) (bc_subscribers b)"
    using ok by (auto simp: broadcaster_ok_def sub_ok_def list_all_iff)
  then show ?thesis using ok
    by (auto simp: Subscribe_def broadcaster_ok_def sub_ok_def intro!: gm_put_list_all)
qed

lemma subscriber_ok: "broadcaster_ok b \<Longrightarrow> gm_get (bc_subscribers b) i = Some c \<Longrightarrow> sub_ok (bc_next_sub_id b) (i, c)"
  using map_of_SomeD by (fastforce simp: broadcaster_ok_def list_all_iff)

lemma broadcast_exec_ok:
  "\<exists>b. s = Some b \<and> broadcaster_ok b \<Longrightarrow> \<exists>b. broadcast_exec s op = Some b \<and> broadcaster_ok b"
proof (elim exE conjE)
  fix b assume s: "s = Some b" and ok: "broadcaster_ok b"
  show ?thesis
  proof (cases op)
    case (BcUnsubscribe i)
    show ?thesis
    proof (cases "gm_get (bc_subscribers b) i")
      case (Some c)
      then have "chan_close c \<noteq> None" using subscriber_ok [OF ok Some] by (simp add: sub_ok_def chan_close_def)
      then show ?thesis using ok Some BcUnsubscribe s
        by (auto simp: unsubscribe_def broadcaster_ok_def gm_del_list_all)
    qed (simp add: s ok BcUnsubscribe unsubscribe_def)
  next
    case BcCloseAll
    have "list_all (\<lambda>(i, c). chan_close c \<noteq> None) (bc_subscribers b)"
      using ok by (auto simp: broadcaster_ok_def sub_ok_def chan_close_def list_all_iff)
    then show ?thesis using ok BcCloseAll s by (simp add: CloseAllSubscribers_def broadcaster_ok_def)
  next
    case (BcReceive i)
    show ?thesis
    proof (cases "gm_get (bc_subscribers b) i")
      case (Some c)
      have "sub_ok (bc_next_sub_id b) (i, c')" if "chan_recv c = Some (e, c')" for e c'
        using subscriber_ok [OF ok Some] that
        by (auto simp: sub_ok_def chan_recv_def chan_ok_def split: list.splits)
      then show ?thesis using ok Some BcReceive s
        by (auto simp: receive_entry_def broadcaster_ok_def intro!: gm_put_list_all split: option.split)
    qed (simp add: s ok BcReceive receive_entry_def)
  qed (simp_all add: s Broadcast_ok [OF ok] Subscribe_ok [OF ok])
qed

interpretation broadcast_machine: op_machine "\<lambda>s. s = Some NewLogBroadcaster" broadcast_exec
  "\<lambda>s. \<exists>b. s = Some b \<and> broadcaster_ok b"
  by unfold_locales (simp add: NewLogBroadcaster_def broadcaster_ok_def, rule broadcast_exec_ok)

text \<open>C24. Whatever the order of subscriptions, ends of subscriptions, broadcasts and closings, the
  broadcaster never sends on a closed channel nor closes one twice, and a subscriber that does not
  read holds at most a hundred entries: logging is never blocked by a reader.\<close>
theorem broadcaster_bounded:
  "\<exists>b. foldl broadcast_exec (Some NewLogBroadcaster) ops = Some b \<and>
     (\<exists>b'. Broadcast e b = Some b') \<and>
     (\<forall>i c. gm_get (bc_subscribers b) i = Some c \<longrightarrow>
        length (ch_buf c) \<le> 100 \<and> \<not> ch_closed c \<and> i < bc_next_sub_id b)"
proof -
  obtain b where b: "foldl broadcast_exec (Some NewLogBroadcaster) ops = Some b" "broadcaster_ok b"
    using broadcast_machine.run_inv [OF refl, of ops] by blast
  have "length (ch_buf c) \<le> 100 \<and> \<not> ch_closed c \<and> i < bc_next_sub_id b"
    if "gm_get (bc_subscribers b) i = Some c" for i c
    using subscriber_ok [OF b(2) that] by (simp add: sub_ok_def chan_ok_def)
  with b Broadcast_ok [OF b(2)] show ?thesis by blast
qed

theorem broadcaster_bounded_witness:
  "\<exists>b. foldl broadcast_exec (Some NewLogBroadcaster) [BcSubscribe, BcUnsubscribe 0, BcCloseAll] = Some b \<and>
     (\<forall>i c. gm_get (bc_subscribers b) i = Some c \<longrightarrow> length (ch_buf c) \<le> 100)"
  using broadcaster_bounded [of "[BcSubscribe, BcUnsubscribe 0, BcCloseAll]"] by blast

end
