(* ===== verification/LogText.thy ===== *)
theory LogText
  imports LogConfig
begin

text \<open>
  The lines the sinks write (ColoredTextHandler of pkg/logging/sinks/sinks.go). The formatted time and
  the file and line of the caller, which Go's runtime finds, are given with the record; the values of
  attributes are their texts.
\<close>

section \<open>Pieces of a line\<close>

definition ansi :: "string \<Rightarrow> string" where
  "ansi code = CHR 0x1B # ''['' @ code @ ''m''"

definition colorBlue :: string where "colorBlue = ansi ''34''"
definition colorGreen :: string where "colorGreen = ansi ''32''"
definition colorYellow :: string where "colorYellow = ansi ''33''"
definition colorRed :: string where "colorRed = ansi ''31''"
definition colorCyan :: string where "colorCyan = ansi ''36''"
definition colorMagenta :: string where "colorMagenta = ansi ''35''"
definition colorReset :: string where "colorReset = ansi ''0''"

definition getLevelColor :: "Level \<Rightarrow> string" where
  "getLevelColor level =
     (if level < LevelInfo then colorBlue else if level < LevelWarn then colorGreen
      else if level < LevelError then colorYellow else colorRed)"

definition getLevelString :: "Level \<Rightarrow> string" where
  "getLevelString level =
     (if level < LevelInfo then ''DEBUG'' else if level < LevelWarn then ''INFO''
      else if level < LevelError then ''WARN'' else ''ERROR'')"

fun str_index :: "string \<Rightarrow> string \<Rightarrow> nat option" where
  "str_index [] p = (if p = [] then Some 0 else None)"
| "str_index (x # xs) p = (if has_prefix (x # xs) p then Some 0 else map_option Suc (str_index xs p))"

text \<open>The last element of a path, as filepath.Base gives it.\<close>

definition Base :: "string \<Rightarrow> string" where
  "Base path =
     (if path = '''' then ''.''
      else let p = rev (dropWhile (\<lambda>c. c = CHR ''/'') (rev path))
           in if p = '''' then ''/'' else rev (takeWhile (\<lambda>c. c \<noteq> CHR ''/'') (rev p)))"

definition getRelativeSourcePath :: "string \<Rightarrow> string" where
  "getRelativeSourcePath fullPath =
     (case str_index fullPath ''/pkg/'' of
        Some i \<Rightarrow> drop (i + 1) fullPath
      | None \<Rightarrow>
          (case str_index fullPath ''/internal/'' of
             Some i \<Rightarrow> drop (i + 1) fullPath
           | None \<Rightarrow>
               (case str_index fullPath ''/cmd/'' of
                  Some i \<Rightarrow> drop (i + 1) fullPath
                | None \<Rightarrow> Base fullPath)))"

section \<open>The handler\<close>

datatype ColorMode = ColorModeDisabled | ColorModeEnabled

record ColoredTextHandler =
  ct_level :: "Level option"
  ct_add_source :: bool
  ct_attrs :: "(string \<times> string) list"
  ct_group :: string
  ct_color_mode :: ColorMode
  ct_omit_logger_name :: bool

text \<open>The time as text and the frame of the caller: none when the record has no program counter.\<close>

record TextRecord =
  tr_time :: string
  tr_frame :: "(string \<times> int) option"
  tr_record :: LogRecord

definition NewColoredTextHandlerWithOmitLogger :: "(Level option \<times> bool) option \<Rightarrow> ColorMode \<Rightarrow> bool \<Rightarrow> ColoredTextHandler" where
  "NewColoredTextHandlerWithOmitLogger opts colorMode omitLogger =
     (let (level, addSource) = (case opts of None \<Rightarrow> (Some LevelInfo, False) | Some p \<Rightarrow> p)
      in \<lparr>ct_level = level, ct_add_source = addSource, ct_attrs = [], ct_group = '''',
          ct_color_mode = colorMode, ct_omit_logger_name = omitLogger\<rparr>)"

definition StdoutSinkWithOmitLogger :: "(Level option \<times> bool) option \<Rightarrow> bool \<Rightarrow> ColoredTextHandler" where
  "StdoutSinkWithOmitLogger opts omitLogger =
     (let opts' = (case opts of None \<Rightarrow> (Some LevelInfo, True) | Some (l, _) \<Rightarrow> (l, True))
      in NewColoredTextHandlerWithOmitLogger (Some opts') ColorModeEnabled omitLogger)"

definition StderrSinkWithOmitLogger :: "(Level option \<times> bool) option \<Rightarrow> bool \<Rightarrow> ColoredTextHandler" where
  "StderrSinkWithOmitLogger opts omitLogger =
     (let opts' = (case opts of None \<Rightarrow> (Some LevelWarn, True) | Some (l, _) \<Rightarrow> (l, True))
      in NewColoredTextHandlerWithOmitLogger (Some opts') ColorModeEnabled omitLogger)"

definition text_WithAttrs :: "ColoredTextHandler \<Rightarrow> (string \<times> string) list \<Rightarrow> ColoredTextHandler" where
  "text_WithAttrs h attrs = h\<lparr>ct_attrs := ct_attrs h @ attrs\<rparr>"

definition text_WithGroup :: "ColoredTextHandler \<Rightarrow> string \<Rightarrow> ColoredTextHandler" where
  "text_WithGroup h name = h\<lparr>ct_group := name\<rparr>"

definition text_Enabled :: "ColoredTextHandler \<Rightarrow> Level \<Rightarrow> bool" where
  "text_Enabled h level = (case ct_level h of None \<Rightarrow> True | Some l \<Rightarrow> l \<le> level)"

definition source_location :: "ColoredTextHandler \<Rightarrow> TextRecord \<Rightarrow> string" where
  "source_location h rec =
     (case tr_frame rec of
        Some (file, line) \<Rightarrow>
          (if ct_add_source h \<and> file \<noteq> '''' then getRelativeSourcePath file @ '':'' @ format_int line else '''')
      | None \<Rightarrow> '''')"

definition in_color :: "bool \<Rightarrow> string \<Rightarrow> string \<Rightarrow> string" where
  "in_color colored color s = (if colored then color @ s @ colorReset else s)"

definition text_attr :: "bool \<Rightarrow> string \<times> string \<Rightarrow> string" where
  "text_attr colored kv = '' '' @ in_color colored colorMagenta (fst kv @ ''='' @ snd kv)"

text \<open>What is written for a record, if anything.\<close>

definition text_Handle :: "ColoredTextHandler \<Rightarrow> TextRecord \<Rightarrow> string option" where
  "text_Handle h rec =
     (let r = tr_record rec; level = lr_level r in
      if \<not> text_Enabled h level then None
      else let colored = (ct_color_mode h = ColorModeEnabled);
               loggerName = last_attr ''logger'' (lr_attrs r) '''';
               source = source_location h rec;
               otherAttrs = ct_attrs h @ filter (\<lambda>(k, v). k \<noteq> ''logger'') (lr_attrs r);
               start = ''['' @ in_color colored colorCyan (tr_time rec) @ '']['' @
                 in_color colored (getLevelColor level) (getLevelString level) @ '']'';
               name = (if loggerName \<noteq> '''' \<and> \<not> (ct_omit_logger_name h \<and> source \<noteq> '''')
                 then ''['' @ in_color colored colorCyan loggerName @ '']'' else '''');
               place = (if source \<noteq> '''' then ''['' @ in_color colored colorGreen source @ '']'' else '''')
           in Some (start @ name @ place @ '' '' @ lr_message r @
                concat (map (text_attr colored) otherAttrs) @ [CHR 0x0A]))"

text \<open>What the registry does with a sink's handler before it hands it the record.\<close>

fun apply_context :: "AttributeOrGroup list \<Rightarrow> ColoredTextHandler \<Rightarrow> ColoredTextHandler" where
  "apply_context [] h = h"
| "apply_context (Attribute k v # r) h = apply_context r (text_WithAttrs h [(k, v)])"
| "apply_context (Group n # r) h = apply_context r (text_WithGroup h n)"

definition emitted_line :: "Emission \<Rightarrow> ColoredTextHandler \<Rightarrow> string \<Rightarrow> (string \<times> int) option \<Rightarrow> string option" where
  "emitted_line em h time frame =
     text_Handle (apply_context (em_context em) h) \<lparr>tr_time = time, tr_frame = frame, tr_record = em_record em\<rparr>"

section \<open>Colours change nothing but colours\<close>

text \<open>A terminal that drops the escape sequences.\<close>

fun strip_ansi :: "string \<Rightarrow> string" and strip_code :: "string \<Rightarrow> string" where
  "strip_ansi [] = []"
| "strip_ansi (c # s) = (if c = CHR 0x1B then strip_code s else c # strip_ansi s)"
| "strip_code [] = []"
| "strip_code (c # s) = (if c = CHR ''m'' then strip_ansi s else strip_code s)"

definition no_escape :: "string \<Rightarrow> bool" where
  "no_escape s = (CHR 0x1B \<notin> set s)"

lemma strip_plain: "no_escape s \<Longrightarrow> strip_ansi (s @ t) = s @ strip_ansi t"
  by (induction s) (auto simp: no_escape_def)

lemma strip_code_skip: "CHR ''m'' \<notin> set code \<Longrightarrow> strip_code (code @ CHR ''m'' # t) = strip_ansi t"
  by (induction code) auto

lemma strip_code_text: "CHR ''m'' \<notin> set code \<Longrightarrow> strip_ansi (ansi code @ t) = strip_ansi t"
  using strip_code_skip [of "CHR ''['' # code" t] by (simp add: ansi_def)

lemma strip_color [simp]:
  "strip_ansi (colorBlue @ t) = strip_ansi t" "strip_ansi (colorGreen @ t) = strip_ansi t"
  "strip_ansi (colorYellow @ t) = strip_ansi t" "strip_ansi (colorRed @ t) = strip_ansi t"
  "strip_ansi (colorCyan @ t) = strip_ansi t" "strip_ansi (colorMagenta @ t) = strip_ansi t"
  "strip_ansi (colorReset @ t) = strip_ansi t" "strip_ansi (getLevelColor l @ t) = strip_ansi t"
  by (simp_all add: colorBlue_def colorGreen_def colorYellow_def colorRed_def colorCyan_def colorMagenta_def
      colorReset_def getLevelColor_def strip_code_text)

lemma no_escape_append [simp]: "no_escape (s @ t) \<longleftrightarrow> no_escape s \<and> no_escape t"
  by (auto simp: no_escape_def)

lemma no_escape_lit [simp]: "no_escape []" "no_escape (c # s) \<longleftrightarrow> c \<noteq> CHR 0x1B \<and> no_escape s"
  by (auto simp: no_escape_def)

lemma strip_in_color: "no_escape s \<Longrightarrow> (\<And>t. strip_ansi (color @ t) = strip_ansi t) \<Longrightarrow>
    strip_ansi (in_color b color s @ t) = in_color False color s @ strip_ansi t"
  by (simp add: in_color_def strip_plain)

definition plain_attrs :: "(string \<times> string) list \<Rightarrow> bool" where
  "plain_attrs = list_all (\<lambda>(k, v). no_escape k \<and> no_escape v)"

lemma strip_attrs: "plain_attrs as \<Longrightarrow>
    strip_ansi (concat (map (text_attr b) as) @ t) = concat (map (text_attr False) as) @ strip_ansi t"
  by (induction as) (auto simp: plain_attrs_def text_attr_def in_color_def strip_plain)

lemma no_escape_parts: "no_escape s \<Longrightarrow> no_escape (drop i s)"
  by (auto simp: no_escape_def dest: in_set_dropD)

lemma no_escape_rev [simp]: "no_escape (rev s) = no_escape s"
  by (simp add: no_escape_def)

lemma no_escape_Base: "no_escape s \<Longrightarrow> no_escape (Base s)"
  by (auto simp: Base_def Let_def no_escape_def dest!: set_takeWhileD set_dropWhileD)

lemma no_escape_source: "no_escape s \<Longrightarrow> no_escape (getRelativeSourcePath s)"
  by (auto simp: getRelativeSourcePath_def no_escape_parts no_escape_Base split: option.splits)

lemma no_escape_level [simp]: "no_escape (getLevelString l)"
  by (simp add: getLevelString_def)

lemma no_escape_int [simp]: "no_escape (format_int i)"
  by (auto simp: format_int_def no_escape_def is_digit_def dest!: bspec [OF format_nat_digits(1) [unfolded list_all_iff]])

lemma last_attr_no_escape: "plain_attrs as \<Longrightarrow> no_escape acc \<Longrightarrow> no_escape (last_attr key as acc)"
  by (induction key as acc rule: last_attr.induct) (auto simp: plain_attrs_def)

lemma plain_attrs_filter: "plain_attrs as \<Longrightarrow> plain_attrs (filter P as)"
  by (auto simp: plain_attrs_def list_all_iff)

lemma plain_attrs_append [simp]: "plain_attrs (as @ bs) \<longleftrightarrow> plain_attrs as \<and> plain_attrs bs"
  by (simp add: plain_attrs_def)

text \<open>A record whose texts have no escape character.\<close>

definition plain_record :: "TextRecord \<Rightarrow> bool" where
  "plain_record rec = (no_escape (tr_time rec) \<and> no_escape (lr_message (tr_record rec)) \<and>
     plain_attrs (lr_attrs (tr_record rec)) \<and>
     (case tr_frame rec of None \<Rightarrow> True | Some (file, _) \<Rightarrow> no_escape file))"

lemma no_escape_location: "plain_record rec \<Longrightarrow> no_escape (source_location h rec)"
  by (auto simp: plain_record_def source_location_def no_escape_source split: option.splits)

text \<open>A line in colours is the plain line with escape sequences in it: a terminal that drops them shows
  what the handler without colours writes. Both write the same records.\<close>
theorem colors_only_decorate:
  assumes "plain_record rec" "plain_attrs (ct_attrs h)"
  shows "map_option strip_ansi (text_Handle (h\<lparr>ct_color_mode := m\<rparr>) rec) =
    text_Handle (h\<lparr>ct_color_mode := ColorModeDisabled\<rparr>) rec"
proof -
  let ?r = "tr_record rec"
  have loc: "source_location (h\<lparr>ct_color_mode := m'\<rparr>) rec = source_location h rec" for m'
    by (auto simp: source_location_def split: option.splits)
  have rest: "strip_ansi (concat (map (text_attr b) (ct_attrs h @ filter (\<lambda>(k, v). k \<noteq> ''logger'') (lr_attrs ?r))) @ [CHR 0x0A])
      = concat (map (text_attr False) (ct_attrs h @ filter (\<lambda>(k, v). k \<noteq> ''logger'') (lr_attrs ?r))) @ [CHR 0x0A]" for b
    by (subst strip_attrs) (use assms in \<open>auto simp: plain_record_def plain_attrs_filter\<close>)
  have plain: "no_escape (tr_time rec)" "no_escape (lr_message ?r)" "no_escape (source_location h rec)"
    "no_escape (last_attr ''logger'' (lr_attrs ?r) '''')"
    using assms no_escape_location last_attr_no_escape by (auto simp: plain_record_def)
  show ?thesis
    using plain rest
    by (simp add: text_Handle_def text_Enabled_def Let_def loc strip_plain strip_in_color del: map_append concat_append
        cong: if_cong)
qed

text \<open>A warning of the application with its place in the source.\<close>

definition warn_record :: TextRecord where
  "warn_record = \<lparr>tr_time = ''01/02/26 10:00:00.000'', tr_frame = Some (''/b/pkg/cli/job.go'', 7),
     tr_record = \<lparr>lr_level = LevelWarn, lr_message = ''late'', lr_attrs = [(''logger'', ''app''), (''n'', ''3'')]\<rparr>\<rparr>"

theorem colors_only_decorate_witness:
  "map_option strip_ansi (text_Handle (StdoutSinkWithOmitLogger None True) warn_record) =
     Some (''[01/02/26 10:00:00.000][WARN][pkg/cli/job.go:7] late n=3'' @ [CHR 0x0A])"
proof -
  let ?h = "StdoutSinkWithOmitLogger None True"
  have "plain_record warn_record" "plain_attrs (ct_attrs ?h)" by code_simp+
  note colors_only_decorate [OF this, of ColorModeEnabled]
  moreover have "?h\<lparr>ct_color_mode := ColorModeEnabled\<rparr> = ?h" by code_simp
  moreover have "text_Handle (?h\<lparr>ct_color_mode := ColorModeDisabled\<rparr>) warn_record =
      Some (''[01/02/26 10:00:00.000][WARN][pkg/cli/job.go:7] late n=3'' @ [CHR 0x0A])" by code_simp
  ultimately show ?thesis by simp
qed

section \<open>What the lines leave out\<close>

text \<open>Groups are kept by the handler and never written.\<close>
lemma groups_not_written:
  "text_Handle (apply_context ags h) rec = text_Handle (apply_context (filter (\<lambda>a. case a of Group _ \<Rightarrow> False | _ \<Rightarrow> True) ags) h) rec"
proof -
  have group: "text_Handle (apply_context ags (h\<lparr>ct_group := g\<rparr>)) rec = text_Handle (apply_context ags h) rec" for ags g h
  proof (induction ags arbitrary: h g)
    case Nil
    have "source_location (h\<lparr>ct_group := g\<rparr>) rec = source_location h rec"
      by (auto simp: source_location_def split: option.splits)
    then show ?case by (simp add: text_Handle_def text_Enabled_def Let_def cong: if_cong)
  next
    case (Cons a ags)
    show ?case
    proof (cases a)
      case (Attribute k v)
      have "text_WithAttrs (h\<lparr>ct_group := g\<rparr>) [(k, v)] = (text_WithAttrs h [(k, v)])\<lparr>ct_group := g\<rparr>"
        by (simp add: text_WithAttrs_def)
      then show ?thesis using Cons by (simp only: Attribute apply_context.simps)
    next
      case (Group n)
      have "text_WithGroup (h\<lparr>ct_group := g\<rparr>) n = text_WithGroup h n"
        by (simp add: text_WithGroup_def)
      then show ?thesis by (simp only: Group apply_context.simps)
    qed
  qed
  show ?thesis
    by (induction ags arbitrary: h) (auto simp: group text_WithGroup_def split: AttributeOrGroup.splits)
qed

text \<open>Trace records are written with the level of debug records.\<close>
lemma trace_written_as_debug: "getLevelString LevelTrace = getLevelString LevelDebug"
  by (simp add: getLevelString_def)

end
