(* ===== verification/LogService.thy ===== *)
theory LogService
  imports LogConfig
begin

text \<open>
  Changing the logging of a daemon (pkg/logging/config_manager.go, service_handler.go and
  remote_config.go): the local manager on the registry, the RPC service in front of it, the remote
  manager that calls the service, and the tailing of logs. What the managers log themselves only
  touches the activity times of their own loggers and is left out, except where they log while they
  hold the lock of the registry. Requester information and the timestamps of responses are left out.
\<close>

section \<open>Protocol values\<close>

datatype ProtoLogLevel =
  LOG_LEVEL_UNSPECIFIED | LOG_LEVEL_ERROR | LOG_LEVEL_WARN | LOG_LEVEL_INFO | LOG_LEVEL_DEBUG | LOG_LEVEL_TRACE

datatype ProtoSinkType =
  SINK_TYPE_UNSPECIFIED | SINK_TYPE_STDOUT | SINK_TYPE_STDERR | SINK_TYPE_FILE | SINK_TYPE_SYSLOG

fun ProtoLogLevelToSlogLevel :: "ProtoLogLevel \<Rightarrow> Level" where
  "ProtoLogLevelToSlogLevel LOG_LEVEL_ERROR = LevelError"
| "ProtoLogLevelToSlogLevel LOG_LEVEL_WARN = LevelWarn"
| "ProtoLogLevelToSlogLevel LOG_LEVEL_INFO = LevelInfo"
| "ProtoLogLevelToSlogLevel LOG_LEVEL_DEBUG = LevelDebug"
| "ProtoLogLevelToSlogLevel LOG_LEVEL_TRACE = LevelTrace"
| "ProtoLogLevelToSlogLevel LOG_LEVEL_UNSPECIFIED = LevelInfo"

definition SlogLevelToProtoLogLevel :: "Level \<Rightarrow> ProtoLogLevel" where
  "SlogLevelToProtoLogLevel l =
     (if l = LevelError then LOG_LEVEL_ERROR else if l = LevelWarn then LOG_LEVEL_WARN
      else if l = LevelInfo then LOG_LEVEL_INFO else if l = LevelDebug then LOG_LEVEL_DEBUG
      else if l < LevelDebug then LOG_LEVEL_TRACE else LOG_LEVEL_INFO)"

definition stringToSinkType :: "string \<Rightarrow> ProtoSinkType" where
  "stringToSinkType s =
     (if s = ''stdout'' then SINK_TYPE_STDOUT else if s = ''stderr'' then SINK_TYPE_STDERR
      else if s = ''file'' then SINK_TYPE_FILE else SINK_TYPE_UNSPECIFIED)"

fun sinkTypeToString :: "ProtoSinkType \<Rightarrow> string" where
  "sinkTypeToString SINK_TYPE_STDOUT = ''stdout''"
| "sinkTypeToString SINK_TYPE_STDERR = ''stderr''"
| "sinkTypeToString SINK_TYPE_FILE = ''file''"
| "sinkTypeToString SINK_TYPE_SYSLOG = ''syslog''"
| "sinkTypeToString SINK_TYPE_UNSPECIFIED = ''unknown''"

section \<open>The local manager\<close>

datatype manager_error =
  Refused log_error
| UnsupportedSinkType string
| SinkOverlap string string
| FilePathRequired
| FileSinkNotCreated
| NotAFileSink string
| NoFileSinkAttached string
| TailNotSupported
| RpcFailed

record SinkConfigChange =
  ch_level :: "Level option"
  ch_include_source :: "bool option"
  ch_max_size :: "int option"
  ch_max_age :: "32 word option"

text \<open>A call returns, or it waits for ever for a lock its own goroutine holds.\<close>

datatype 'a call = Returned 'a | Blocked

definition change_sink :: "string \<Rightarrow> (Sink \<Rightarrow> Sink) \<Rightarrow> LogRegistry \<Rightarrow> LogRegistry" where
  "change_sink n f r =
     (case gm_get (lg_sinks r) n of
        None \<Rightarrow> r | Some s \<Rightarrow> r\<lparr>lg_sinks := gm_put (lg_sinks r) n (f s)\<rparr>)"

text \<open>The manager's logger is in the registry it manages when own is set, as it is for the managers
  the program makes. Its Debug call needs the lock that UpdateSinkConfig then holds.\<close>

definition local_UpdateSinkConfig :: "bool \<Rightarrow> string \<Rightarrow> SinkConfigChange \<Rightarrow> LogRegistry \<Rightarrow>
    manager_error option call \<times> LogRegistry" where
  "local_UpdateSinkConfig own n ch r =
     (case GetSink r n of
        None \<Rightarrow> (Returned (Some (Refused (SinkNotFound n))), r)
      | Some sink \<Rightarrow>
          (let r1 = (case ch_level ch of None \<Rightarrow> r | Some l \<Rightarrow> keep r (SetSinkLevel n l r));
               r2 = (case ch_include_source ch of None \<Rightarrow> r1
                     | Some b \<Rightarrow> change_sink n (\<lambda>s. s\<lparr>sk_include_source := b\<rparr>) r1)
           in if ch_max_size ch = None \<and> ch_max_age ch = None then (Returned None, r2)
              else if sk_type sink \<noteq> ''file'' then (Returned (Some (NotAFileSink n)), r2)
              else let size = (case ch_max_size ch of Some v \<Rightarrow> 0 < v | None \<Rightarrow> False);
                       age = (case ch_max_age ch of Some d \<Rightarrow> 0 < sint d | None \<Rightarrow> False);
                       r3 = (if size then change_sink n (\<lambda>s. s\<lparr>sk_max_size := the (ch_max_size ch)\<rparr>) r2 else r2)
                in if size \<and> own then (Blocked, r3)
                   else let r4 = (if age then change_sink n (\<lambda>s. s\<lparr>sk_max_age_days := the (ch_max_age ch)\<rparr>) r3 else r3)
                        in (if age \<and> own then Blocked else Returned None, r4)))"

definition lift_error :: "LogRegistry \<Rightarrow> log_error + LogRegistry \<Rightarrow> manager_error option \<times> LogRegistry" where
  "lift_error r res = (case res of Inl e \<Rightarrow> (Some (Refused e), r) | Inr r' \<Rightarrow> (None, r'))"

definition local_SetGlobalLevel :: "Level \<Rightarrow> LogRegistry \<Rightarrow> manager_error option \<times> LogRegistry" where
  "local_SetGlobalLevel l r = (None, SetGlobalLevel l r)"
definition local_SetLoggerLevel :: "string \<Rightarrow> Level \<Rightarrow> LogRegistry \<Rightarrow> manager_error option \<times> LogRegistry" where
  "local_SetLoggerLevel n l r = lift_error r (SetLoggerLevel n l r)"
definition local_SetSinkLevel :: "string \<Rightarrow> Level \<Rightarrow> LogRegistry \<Rightarrow> manager_error option \<times> LogRegistry" where
  "local_SetSinkLevel n l r = lift_error r (SetSinkLevel n l r)"
definition local_RemoveSink :: "string \<Rightarrow> LogRegistry \<Rightarrow> manager_error option \<times> LogRegistry" where
  "local_RemoveSink n r = lift_error r (RemoveSink n r)"
definition local_RemoveLogger :: "string \<Rightarrow> LogRegistry \<Rightarrow> manager_error option \<times> LogRegistry" where
  "local_RemoveLogger n r = lift_error r (RemoveLogger n r)"
definition local_AttachSink :: "string \<Rightarrow> string \<Rightarrow> LogRegistry \<Rightarrow> manager_error option \<times> LogRegistry" where
  "local_AttachSink l s r = lift_error r (AttachSink l s r)"
definition local_DetachSink :: "string \<Rightarrow> string \<Rightarrow> LogRegistry \<Rightarrow> manager_error option \<times> LogRegistry" where
  "local_DetachSink l s r = lift_error r (DetachSink l s r)"

definition sink_overlaps :: "string \<Rightarrow> string \<Rightarrow> Sink \<Rightarrow> bool" where
  "sink_overlaps sinkType filePath s =
     ((sinkType = ''stdout'' \<and> sk_type s = ''stdout'') \<or> (sinkType = ''stderr'' \<and> sk_type s = ''stderr'') \<or>
      (sinkType = ''file'' \<and> sk_type s = ''file'' \<and> sk_file_path s = filePath))"

text \<open>A text handler made without options lets info and above pass.\<close>

definition addSinkInternal :: "(string \<Rightarrow> bool) \<Rightarrow> string \<Rightarrow> string \<Rightarrow> string \<Rightarrow> Level \<Rightarrow> LogRegistry \<Rightarrow>
    manager_error option \<times> LogRegistry" where
  "addSinkInternal mkdirAll sinkName sinkType filePath level r =
     (if sinkType \<notin> {''stdout'', ''stderr'', ''file''} then (Some (UnsupportedSinkType sinkType), r)
      else case List.find (sink_overlaps sinkType filePath) (GetAllSinks r) of
        Some s \<Rightarrow> (Some (SinkOverlap sinkType (sk_name s)), r)
      | None \<Rightarrow>
          (let made = (if sinkType = ''stdout'' then Ok \<lparr>hd_kind = StdoutHandler, hd_level = Some LevelInfo\<rparr>
                 else if sinkType = ''stderr'' then Ok \<lparr>hd_kind = StderrHandler, hd_level = Some LevelInfo\<rparr>
                 else if filePath = '''' then Err FilePathRequired
                 else case FileSink mkdirAll
                     \<lparr>fc_path = Join [lg_dir r, filePath], fc_max_size_b = 100 * 1024 * 1024, fc_max_files = 10,
                      fc_max_age_days = 0, fc_json_format = False, fc_level = Some level\<rparr> of
                   None \<Rightarrow> Err FileSinkNotCreated | Some h \<Rightarrow> Ok h)
           in case made of
                Inl e \<Rightarrow> (Some e, r)
              | Inr handler \<Rightarrow>
                  lift_error r (RegisterSink
                    \<lparr>sk_name = sinkName, sk_type = sinkType, sk_file_path = filePath, sk_level = level,
                     sk_handler = handler, sk_max_size = 0, sk_max_backups = 0, sk_max_age_days = 0,
                     sk_json_format = False, sk_include_source = False\<rparr> r)))"

definition local_AddSink :: "(string \<Rightarrow> bool) \<Rightarrow> string \<Rightarrow> string \<Rightarrow> Level \<Rightarrow> LogRegistry \<Rightarrow>
    manager_error option \<times> LogRegistry" where
  "local_AddSink mkdirAll sinkName sinkType level r = addSinkInternal mkdirAll sinkName sinkType '''' level r"

fun drop_file_sinks :: "string \<Rightarrow> string list \<Rightarrow> LogRegistry \<Rightarrow> LogRegistry" where
  "drop_file_sinks l [] r = r"
| "drop_file_sinks l (n # ns) r =
     (case GetSink r n of
        Some s \<Rightarrow>
          (if sk_type s = ''file''
           then (let r1 = keep r (DetachSink l n r); r2 = keep r1 (RemoveSink n r1) in drop_file_sinks l ns r2)
           else drop_file_sinks l ns r)
      | None \<Rightarrow> drop_file_sinks l ns r)"

text \<open>The sizes, backups and age asked for are not used.\<close>

definition local_EnableFileSink :: "(string \<Rightarrow> bool) \<Rightarrow> string \<Rightarrow> string \<Rightarrow> int \<Rightarrow> int \<Rightarrow> int \<Rightarrow> LogRegistry \<Rightarrow>
    manager_error option \<times> LogRegistry" where
  "local_EnableFileSink mkdirAll loggerName filePath maxSizeMB maxBackups maxAgeDays r =
     (let sinkName = ''file-'' @ loggerName;
          r1 = (case GetLoggerSinks r loggerName of None \<Rightarrow> r | Some ns \<Rightarrow> drop_file_sinks loggerName ns r)
      in case addSinkInternal mkdirAll sinkName ''file'' filePath LevelDebug r1 of
           (Some e, r2) \<Rightarrow> (Some e, r2)
         | (None, r2) \<Rightarrow>
             (case AttachSink loggerName sinkName r2 of
                Inl e \<Rightarrow> (Some (Refused e), keep r2 (RemoveSink sinkName r2))
              | Inr r3 \<Rightarrow> (None, r3)))"

definition local_DisableFileSink :: "string \<Rightarrow> LogRegistry \<Rightarrow> manager_error option \<times> LogRegistry" where
  "local_DisableFileSink loggerName r =
     (case GetLoggerSinks r loggerName of
        None \<Rightarrow> (Some (Refused (LoggerNotFound loggerName)), r)
      | Some ns \<Rightarrow>
          (case List.find (\<lambda>n. case GetSink r n of Some s \<Rightarrow> sk_type s = ''file'' | None \<Rightarrow> False) ns of
             None \<Rightarrow> (Some (NoFileSinkAttached loggerName), r)
           | Some n \<Rightarrow>
               (if n = '''' then (Some (NoFileSinkAttached loggerName), r)
                else case DetachSink loggerName n r of
                  Inl e \<Rightarrow> (Some (Refused e), r)
                | Inr r1 \<Rightarrow> lift_error r1 (RemoveSink n r1))))"

definition getDefaultSinks :: "LogRegistry \<Rightarrow> string list" where
  "getDefaultSinks r =
     filter (\<lambda>n. n \<in> set (map sk_name (GetAllSinks r))) [''stdout'', ''buildozer-daemon.log'']"

definition local_AddLogger :: "string \<Rightarrow> Level \<Rightarrow> string list \<Rightarrow> LogRegistry \<Rightarrow> manager_error option \<times> LogRegistry" where
  "local_AddLogger loggerName level names r =
     (let sinkNames = (if names = [] then getDefaultSinks r else names)
      in case SetLoggerLevel loggerName level r of
           Inl e \<Rightarrow> (Some (Refused e), r)
         | Inr r1 \<Rightarrow>
             (if sinkNames = [] then (None, r1) else lift_error r1 (SetLoggerSinks loggerName sinkNames r1)))"

definition local_TailLogs :: "manager_error + unit" where
  "local_TailLogs = Err TailNotSupported"

section \<open>Status\<close>

record SinkStatus =
  ss_name :: string
  ss_type :: string
  ss_level :: Level
  ss_path :: string
  ss_json_format :: bool
  ss_max_size :: int
  ss_max_backups :: "32 word"
  ss_max_age_days :: "32 word"
  ss_include_source :: bool

record LoggerStatus =
  ls_name :: string
  ls_sink_names :: "string list"
  ls_level :: Level

record LoggingStatusSnapshot =
  sn_global_level :: Level
  sn_sinks :: "SinkStatus list"
  sn_loggers :: "LoggerStatus list"
  sn_active :: "(string \<times> string) list"
  sn_retrieved_at :: int

definition sink_status :: "Sink \<Rightarrow> SinkStatus" where
  "sink_status s = \<lparr>ss_name = sk_name s, ss_type = sk_type s, ss_level = sk_level s,
     ss_path = sk_file_path s, ss_json_format = sk_json_format s, ss_max_size = sk_max_size s,
     ss_max_backups = sk_max_backups s, ss_max_age_days = sk_max_age_days s,
     ss_include_source = sk_include_source s\<rparr>"

definition local_GetLoggingStatus :: "int \<Rightarrow> LogRegistry \<Rightarrow> LoggingStatusSnapshot" where
  "local_GetLoggingStatus now r =
     \<lparr>sn_global_level = lg_global_level r, sn_sinks = map sink_status (GetAllSinks r),
      sn_loggers = map (\<lambda>(n, c). \<lparr>ls_name = n, ls_sink_names = cl_sink_names c, ls_level = cl_level c\<rparr>) (lg_configs r),
      sn_active = GetActiveLoggersWithResolution r now, sn_retrieved_at = now\<rparr>"

record ProtoFileConfig =
  pf_path :: string
  pf_max_size_bytes :: int
  pf_max_backups :: "32 word"
  pf_max_age_days :: "32 word"
  pf_json_format :: bool

record ProtoSinkConfig =
  ps_name :: string
  ps_type :: ProtoSinkType
  ps_level :: ProtoLogLevel
  ps_file :: "ProtoFileConfig option"
  ps_include_source :: bool

record ProtoLoggingStatus =
  pl_global_level :: ProtoLogLevel
  pl_sinks :: "ProtoSinkConfig list"
  pl_loggers :: "(string \<times> string list \<times> ProtoLogLevel) list"
  pl_active :: "(string \<times> string) list"
  pl_retrieved_at_millis :: "int option"

definition sinkStatusToProto :: "SinkStatus \<Rightarrow> ProtoSinkConfig" where
  "sinkStatusToProto s =
     \<lparr>ps_name = ss_name s, ps_type = stringToSinkType (ss_type s), ps_level = SlogLevelToProtoLogLevel (ss_level s),
      ps_file = (if ss_type s = ''file'' \<and> ss_path s \<noteq> ''''
        then Some \<lparr>pf_path = ss_path s, pf_max_size_bytes = ss_max_size s, pf_max_backups = ss_max_backups s,
                   pf_max_age_days = ss_max_age_days s, pf_json_format = ss_json_format s\<rparr> else None),
      ps_include_source = ss_include_source s\<rparr>"

definition service_GetLoggingStatus :: "LoggingStatusSnapshot \<Rightarrow> ProtoLoggingStatus" where
  "service_GetLoggingStatus sn =
     \<lparr>pl_global_level = SlogLevelToProtoLogLevel (sn_global_level sn),
      pl_sinks = map sinkStatusToProto (sn_sinks sn),
      pl_loggers = map (\<lambda>l. (ls_name l, ls_sink_names l, SlogLevelToProtoLogLevel (ls_level l))) (sn_loggers sn),
      pl_active = sn_active sn, pl_retrieved_at_millis = Some (sn_retrieved_at sn div 10 ^ 6)\<rparr>"

definition remote_sink_status :: "ProtoSinkConfig \<Rightarrow> SinkStatus" where
  "remote_sink_status p =
     (let s = \<lparr>ss_name = ps_name p, ss_type = sinkTypeToString (ps_type p),
               ss_level = ProtoLogLevelToSlogLevel (ps_level p), ss_path = '''', ss_json_format = False,
               ss_max_size = 0, ss_max_backups = 0, ss_max_age_days = 0, ss_include_source = ps_include_source p\<rparr>
      in case ps_file p of
           None \<Rightarrow> s
         | Some f \<Rightarrow> s\<lparr>ss_path := pf_path f, ss_max_size := pf_max_size_bytes f,
             ss_max_backups := pf_max_backups f, ss_max_age_days := pf_max_age_days f,
             ss_json_format := pf_json_format f\<rparr>)"

text \<open>The zero time stands for a missing timestamp.\<close>

definition remote_GetLoggingStatus :: "ProtoLoggingStatus \<Rightarrow> LoggingStatusSnapshot" where
  "remote_GetLoggingStatus p =
     \<lparr>sn_global_level = ProtoLogLevelToSlogLevel (pl_global_level p),
      sn_sinks = map remote_sink_status (pl_sinks p),
      sn_loggers = map (\<lambda>(n, ss, l). \<lparr>ls_name = n, ls_sink_names = ss, ls_level = ProtoLogLevelToSlogLevel l\<rparr>) (pl_loggers p),
      sn_active = pl_active p,
      sn_retrieved_at = (case pl_retrieved_at_millis p of None \<Rightarrow> 0 | Some ms \<Rightarrow> ms * 10 ^ 6)\<rparr>"



section \<open>Requests and responses\<close>

datatype LoggingRequest =
  SetGlobalLevelRequest ProtoLogLevel
| SetLoggerLevelRequest string ProtoLogLevel
| SetSinkLevelRequest string ProtoLogLevel
| UpdateSinkConfigRequest string "ProtoLogLevel option" "bool option" "int option" "32 word option"
| EnableFileSinkRequest string string int "32 word" "32 word"
| DisableFileSinkRequest string
| AddSinkRequest string ProtoSinkType ProtoLogLevel
| RemoveSinkRequest string
| AddLoggerRequest string ProtoLogLevel "string list"
| RemoveLoggerRequest string
| AttachSinkRequest string string
| DetachSinkRequest string string

datatype LoggingResponse =
  SetGlobalLevelResponse ProtoLogLevel
| UpdateSinkConfigResponse string
| EnableFileSinkResponse string string string
| DisableFileSinkResponse string string
| AddSinkResponse string ProtoSinkType ProtoLogLevel
| RemoveSinkResponse string
| AddLoggerResponse string ProtoLogLevel "string list"
| RemoveLoggerResponse string
| AttachSinkResponse string string "string list"
| DetachSinkResponse string string "string list"

datatype rpc_error =
  CodeInternal manager_error
| CodeInvalidArgument "manager_error option"
| CodeUnimplemented

type_synonym service_result = "(rpc_error + LoggingResponse) call \<times> LogRegistry"

definition answer :: "(manager_error \<Rightarrow> rpc_error) \<Rightarrow> LoggingResponse \<Rightarrow> manager_error option \<times> LogRegistry \<Rightarrow> service_result" where
  "answer code resp res = (case res of
     (Some e, r) \<Rightarrow> (Returned (Err (code e)), r) | (None, r) \<Rightarrow> (Returned (Ok resp), r))"

text \<open>The sinks of a logger as the status lists them.\<close>

definition status_sinks :: "LogRegistry \<Rightarrow> string \<Rightarrow> string list" where
  "status_sinks r l = (case GetLoggerSinks r l of Some ss \<Rightarrow> ss | None \<Rightarrow> [])"

definition service_SetGlobalLevel :: "ProtoLogLevel \<Rightarrow> LogRegistry \<Rightarrow> service_result" where
  "service_SetGlobalLevel l r =
     answer CodeInternal (SetGlobalLevelResponse l) (local_SetGlobalLevel (ProtoLogLevelToSlogLevel l) r)"

definition service_SetLoggerLevel :: "string \<Rightarrow> ProtoLogLevel \<Rightarrow> LogRegistry \<Rightarrow> service_result" where
  "service_SetLoggerLevel n l r = (Returned (Err CodeUnimplemented), r)"

definition service_SetSinkLevel :: "string \<Rightarrow> ProtoLogLevel \<Rightarrow> LogRegistry \<Rightarrow> service_result" where
  "service_SetSinkLevel n l r = (Returned (Err CodeUnimplemented), r)"

definition service_UpdateSinkConfig :: "bool \<Rightarrow> string \<Rightarrow> ProtoLogLevel option \<Rightarrow> bool option \<Rightarrow> int option \<Rightarrow>
    32 word option \<Rightarrow> LogRegistry \<Rightarrow> service_result" where
  "service_UpdateSinkConfig own n l src sz age r =
     (case local_UpdateSinkConfig own n
        \<lparr>ch_level = map_option ProtoLogLevelToSlogLevel l, ch_include_source = src,
         ch_max_size = sz, ch_max_age = age\<rparr> r of
        (Blocked, r') \<Rightarrow> (Blocked, r')
      | (Returned e, r') \<Rightarrow> answer CodeInternal (UpdateSinkConfigResponse n) (e, r'))"

text \<open>Go's division of integers truncates towards zero.\<close>

definition quot :: "int \<Rightarrow> int \<Rightarrow> int" where
  "quot a b = sgn a * sgn b * (\<bar>a\<bar> div \<bar>b\<bar>)"

definition service_EnableFileSink :: "(string \<Rightarrow> bool) \<Rightarrow> string \<Rightarrow> string \<Rightarrow> int \<Rightarrow> 32 word \<Rightarrow> 32 word \<Rightarrow>
    LogRegistry \<Rightarrow> service_result" where
  "service_EnableFileSink mkdirAll l path maxSizeBytes maxBackups maxAgeDays r =
     (let mb = quot maxSizeBytes (1024 * 1024);
          maxSizeMB = (if mb = 0 \<and> 0 < maxSizeBytes then 1 else mb);
          sinkName = l @ ''_file''
      in answer CodeInternal (EnableFileSinkResponse sinkName l path)
           (local_EnableFileSink mkdirAll l path maxSizeMB (sint maxBackups) (sint maxAgeDays) r))"

definition service_DisableFileSink :: "string \<Rightarrow> LogRegistry \<Rightarrow> service_result" where
  "service_DisableFileSink l r =
     answer CodeInternal (DisableFileSinkResponse l (l @ ''_file'')) (local_DisableFileSink l r)"

definition service_AddSink :: "(string \<Rightarrow> bool) \<Rightarrow> string \<Rightarrow> ProtoSinkType \<Rightarrow> ProtoLogLevel \<Rightarrow> LogRegistry \<Rightarrow>
    service_result" where
  "service_AddSink mkdirAll n t l r =
     (let sinkType = sinkTypeToString t; level = ProtoLogLevelToSlogLevel l in
      if sinkType \<noteq> ''stdout'' \<and> sinkType \<noteq> ''stderr'' then (Returned (Err (CodeInvalidArgument None)), r)
      else answer (\<lambda>e. CodeInvalidArgument (Some e)) (AddSinkResponse n t l) (local_AddSink mkdirAll n sinkType level r))"

definition service_RemoveSink :: "string \<Rightarrow> LogRegistry \<Rightarrow> service_result" where
  "service_RemoveSink n r = answer CodeInternal (RemoveSinkResponse n) (local_RemoveSink n r)"

definition service_AddLogger :: "string \<Rightarrow> ProtoLogLevel \<Rightarrow> string list \<Rightarrow> LogRegistry \<Rightarrow> service_result" where
  "service_AddLogger n l ss r =
     answer CodeInternal (AddLoggerResponse n l ss) (local_AddLogger n (ProtoLogLevelToSlogLevel l) ss r)"

definition service_RemoveLogger :: "string \<Rightarrow> LogRegistry \<Rightarrow> service_result" where
  "service_RemoveLogger n r = answer CodeInternal (RemoveLoggerResponse n) (local_RemoveLogger n r)"

definition service_AttachSink :: "string \<Rightarrow> string \<Rightarrow> LogRegistry \<Rightarrow> service_result" where
  "service_AttachSink l s r =
     (let res = local_AttachSink l s r
      in answer CodeInternal (AttachSinkResponse l s (status_sinks (snd res) l)) res)"

definition service_DetachSink :: "string \<Rightarrow> string \<Rightarrow> LogRegistry \<Rightarrow> service_result" where
  "service_DetachSink l s r =
     (let res = local_DetachSink l s r
      in answer CodeInternal (DetachSinkResponse l s (status_sinks (snd res) l)) res)"

fun service :: "(string \<Rightarrow> bool) \<Rightarrow> bool \<Rightarrow> LoggingRequest \<Rightarrow> LogRegistry \<Rightarrow> service_result" where
  "service mk own (SetGlobalLevelRequest l) = service_SetGlobalLevel l"
| "service mk own (SetLoggerLevelRequest n l) = service_SetLoggerLevel n l"
| "service mk own (SetSinkLevelRequest n l) = service_SetSinkLevel n l"
| "service mk own (UpdateSinkConfigRequest n l src sz age) = service_UpdateSinkConfig own n l src sz age"
| "service mk own (EnableFileSinkRequest l p sz bk age) = service_EnableFileSink mk l p sz bk age"
| "service mk own (DisableFileSinkRequest l) = service_DisableFileSink l"
| "service mk own (AddSinkRequest n t l) = service_AddSink mk n t l"
| "service mk own (RemoveSinkRequest n) = service_RemoveSink n"
| "service mk own (AddLoggerRequest n l ss) = service_AddLogger n l ss"
| "service mk own (RemoveLoggerRequest n) = service_RemoveLogger n"
| "service mk own (AttachSinkRequest l s) = service_AttachSink l s"
| "service mk own (DetachSinkRequest l s) = service_DetachSink l s"

section \<open>The two managers\<close>

text \<open>The operations of the interface ConfigManager that change the configuration.\<close>

datatype ConfigOp =
  SetGlobalLevelOp Level
| SetLoggerLevelOp string Level
| SetSinkLevelOp string Level
| UpdateSinkConfigOp string SinkConfigChange
| EnableFileSinkOp string string int int int
| DisableFileSinkOp string
| AddSinkOp string string Level
| RemoveSinkOp string
| AddLoggerOp string Level "string list"
| RemoveLoggerOp string
| AttachSinkOp string string
| DetachSinkOp string string

fun local_exec :: "(string \<Rightarrow> bool) \<Rightarrow> bool \<Rightarrow> ConfigOp \<Rightarrow> LogRegistry \<Rightarrow> manager_error option call \<times> LogRegistry" where
  "local_exec mk own (SetGlobalLevelOp l) r = apfst Returned (local_SetGlobalLevel l r)"
| "local_exec mk own (SetLoggerLevelOp n l) r = apfst Returned (local_SetLoggerLevel n l r)"
| "local_exec mk own (SetSinkLevelOp n l) r = apfst Returned (local_SetSinkLevel n l r)"
| "local_exec mk own (UpdateSinkConfigOp n c) r = local_UpdateSinkConfig own n c r"
| "local_exec mk own (EnableFileSinkOp l p mb bk age) r = apfst Returned (local_EnableFileSink mk l p mb bk age r)"
| "local_exec mk own (DisableFileSinkOp l) r = apfst Returned (local_DisableFileSink l r)"
| "local_exec mk own (AddSinkOp n t l) r = apfst Returned (local_AddSink mk n t l r)"
| "local_exec mk own (RemoveSinkOp n) r = apfst Returned (local_RemoveSink n r)"
| "local_exec mk own (AddLoggerOp n l ss) r = apfst Returned (local_AddLogger n l ss r)"
| "local_exec mk own (RemoveLoggerOp n) r = apfst Returned (local_RemoveLogger n r)"
| "local_exec mk own (AttachSinkOp l s) r = apfst Returned (local_AttachSink l s r)"
| "local_exec mk own (DetachSinkOp l s) r = apfst Returned (local_DetachSink l s r)"

definition positive :: "('a \<Rightarrow> bool) \<Rightarrow> 'a option \<Rightarrow> 'a option" where
  "positive P v = (case v of Some x \<Rightarrow> if P x then Some x else None | None \<Rightarrow> None)"

definition remote_sink_type :: "string \<Rightarrow> ProtoSinkType option" where
  "remote_sink_type t =
     (if t = ''stdout'' \<or> t = ''text'' then Some SINK_TYPE_STDOUT
      else if t = ''stderr'' then Some SINK_TYPE_STDERR
      else if t = ''json'' \<or> t = ''json-stderr'' then Some SINK_TYPE_STDOUT else None)"

text \<open>The request the remote manager sends for an operation.\<close>

fun remote_request :: "ConfigOp \<Rightarrow> manager_error + LoggingRequest" where
  "remote_request (SetGlobalLevelOp l) = Ok (SetGlobalLevelRequest (SlogLevelToProtoLogLevel l))"
| "remote_request (SetLoggerLevelOp n l) = Ok (SetLoggerLevelRequest n (SlogLevelToProtoLogLevel l))"
| "remote_request (SetSinkLevelOp n l) = Ok (SetSinkLevelRequest n (SlogLevelToProtoLogLevel l))"
| "remote_request (UpdateSinkConfigOp n c) =
     Ok (UpdateSinkConfigRequest n (map_option SlogLevelToProtoLogLevel (ch_level c)) (ch_include_source c)
       (positive (\<lambda>v. 0 < v) (ch_max_size c)) (positive (\<lambda>d. 0 < sint d) (ch_max_age c)))"
| "remote_request (EnableFileSinkOp l p mb bk age) =
     Ok (EnableFileSinkRequest l p (wrap64 (mb * 1024 * 1024)) (word_of_int bk) (word_of_int age))"
| "remote_request (DisableFileSinkOp l) = Ok (DisableFileSinkRequest l)"
| "remote_request (AddSinkOp n t l) =
     (case remote_sink_type t of
        None \<Rightarrow> Err (UnsupportedSinkType t) | Some pt \<Rightarrow> Ok (AddSinkRequest n pt (SlogLevelToProtoLogLevel l)))"
| "remote_request (RemoveSinkOp n) = Ok (RemoveSinkRequest n)"
| "remote_request (AddLoggerOp n l ss) = Ok (AddLoggerRequest n (SlogLevelToProtoLogLevel l) ss)"
| "remote_request (RemoveLoggerOp n) = Ok (RemoveLoggerRequest n)"
| "remote_request (AttachSinkOp l s) = Ok (AttachSinkRequest l s)"
| "remote_request (DetachSinkOp l s) = Ok (DetachSinkRequest l s)"

text \<open>Against a daemon that serves the registry. A call the daemon never answers does not return.\<close>

definition remote_manager_exec :: "(string \<Rightarrow> bool) \<Rightarrow> bool \<Rightarrow> ConfigOp \<Rightarrow> LogRegistry \<Rightarrow> manager_error option call \<times> LogRegistry" where
  "remote_manager_exec mk own op r =
     (case remote_request op of
        Inl e \<Rightarrow> (Returned (Some e), r)
      | Inr req \<Rightarrow>
          (case service mk own req r of
             (Blocked, r') \<Rightarrow> (Blocked, r')
           | (Returned (Inl _), r') \<Rightarrow> (Returned (Some RpcFailed), r')
           | (Returned (Inr _), r') \<Rightarrow> (Returned None, r')))"

section \<open>Tailing\<close>

text \<open>A session: its broadcaster sink is attached to the loggers, and detached when the client leaves;
  the sink itself stays registered. An error ends the RPC at once.\<close>

definition tail_loggers :: "LogRegistry \<Rightarrow> string \<Rightarrow> string list" where
  "tail_loggers r loggerFilter = (if loggerFilter \<noteq> '''' then [loggerFilter] else GetAvailableLoggers r)"

definition tail_start :: "string \<Rightarrow> nat \<Rightarrow> string \<Rightarrow> LogRegistry \<Rightarrow> log_error option \<times> LogRegistry" where
  "tail_start sinkName b loggerFilter r =
     (case CreateBroadcasterSink sinkName b r of
        Inl e \<Rightarrow> (Some e, r)
      | Inr r1 \<Rightarrow> AddSinkToLoggers sinkName (tail_loggers r1 loggerFilter) r1)"

definition tail_stop :: "string \<Rightarrow> string list \<Rightarrow> LogRegistry \<Rightarrow> LogRegistry" where
  "tail_stop sinkName loggers r = snd (RemoveSinkFromLoggers sinkName loggers r)"

definition log_matchesFilter :: "string \<Rightarrow> string \<Rightarrow> bool" where
  "log_matchesFilter loggerName filt =
     (if filt = '''' then True
      else if last filt = CHR ''*'' then
        length filt - 1 \<le> length loggerName \<and> take (length filt - 1) loggerName = butlast filt
      else loggerName = filt)"

definition shouldIncludeLog :: "LogEntry \<Rightarrow> Level list \<Rightarrow> string \<Rightarrow> bool" where
  "shouldIncludeLog entry levels loggerFilter =
     (if levels \<noteq> [] \<and> le_level entry \<notin> set levels then False
      else if loggerFilter \<noteq> '''' \<and> \<not> log_matchesFilter (le_logger_name entry) loggerFilter then False
      else True)"

record TailLogsResponse =
  tl_millis :: int
  tl_logger_name :: string
  tl_level :: ProtoLogLevel
  tl_message :: string
  tl_attributes :: "(string, string) gomap"

definition entryToResponse :: "LogEntry \<Rightarrow> TailLogsResponse" where
  "entryToResponse e = \<lparr>tl_millis = le_timestamp e div 10 ^ 6, tl_logger_name = le_logger_name e,
     tl_level = SlogLevelToProtoLogLevel (le_level e), tl_message = le_message e,
     tl_attributes = le_attributes e\<rparr>"

text \<open>One turn of the loop on an entry received: what is sent, if anything.\<close>

definition tail_entry :: "ProtoLogLevel list \<Rightarrow> string \<Rightarrow> LogEntry \<Rightarrow> TailLogsResponse option" where
  "tail_entry levels loggerFilter entry =
     (if shouldIncludeLog entry (map ProtoLogLevelToSlogLevel levels) loggerFilter
      then Some (entryToResponse entry) else None)"

definition tail_record :: "TailLogsResponse \<Rightarrow> LogEntry" where
  "tail_record m = \<lparr>le_timestamp = tl_millis m * 10 ^ 6, le_logger_name = tl_logger_name m,
     le_level = ProtoLogLevelToSlogLevel (tl_level m), le_message = tl_message m,
     le_attributes = tl_attributes m\<rparr>"

section \<open>The remote manager is the local one\<close>

definition named_level :: "Level \<Rightarrow> bool" where
  "named_level l = (l \<in> {LevelError, LevelWarn, LevelInfo, LevelDebug, LevelTrace})"

lemma level_proto_id [simp]: "named_level l \<Longrightarrow> ProtoLogLevelToSlogLevel (SlogLevelToProtoLogLevel l) = l"
  by (auto simp: named_level_def SlogLevelToProtoLogLevel_def)

text \<open>The operations whose values the requests can carry.\<close>

fun carried :: "ConfigOp \<Rightarrow> bool" where
  "carried (SetGlobalLevelOp l) = named_level l"
| "carried (SetLoggerLevelOp n l) = False"
| "carried (SetSinkLevelOp n l) = False"
| "carried (UpdateSinkConfigOp n c) =
     ((case ch_level c of None \<Rightarrow> True | Some l \<Rightarrow> named_level l) \<and>
      (case ch_max_size c of None \<Rightarrow> True | Some v \<Rightarrow> 0 < v) \<and>
      (case ch_max_age c of None \<Rightarrow> True | Some d \<Rightarrow> 0 < sint d))"
| "carried (AddSinkOp n t l) = (named_level l \<and> t \<notin> {''text'', ''json'', ''json-stderr''})"
| "carried (AddLoggerOp n l ss) = named_level l"
| "carried op = True"

definition same_outcome :: "manager_error option call \<times> 's \<Rightarrow> manager_error option call \<times> 's \<Rightarrow> bool" where
  "same_outcome a b = (snd a = snd b \<and> (fst a = Blocked \<longleftrightarrow> fst b = Blocked) \<and>
     (fst a = Returned None \<longleftrightarrow> fst b = Returned None))"

lemma EnableFileSink_sizes: "local_EnableFileSink mk l p a b c r = local_EnableFileSink mk l p a' b' c' r"
  by (simp add: local_EnableFileSink_def)

text \<open>What the caller of the remote manager sees of an answer of the service.\<close>

definition seen :: "service_result \<Rightarrow> manager_error option call \<times> LogRegistry" where
  "seen a = (case a of
     (Blocked, r') \<Rightarrow> (Blocked, r')
   | (Returned (Inl _), r') \<Rightarrow> (Returned (Some RpcFailed), r')
   | (Returned (Inr _), r') \<Rightarrow> (Returned None, r'))"

lemma remote_exec_seen:
  "remote_manager_exec mk own op r =
     (case remote_request op of Inl e \<Rightarrow> (Returned (Some e), r) | Inr req \<Rightarrow> seen (service mk own req r))"
  by (auto simp: remote_manager_exec_def seen_def split: sum.splits prod.splits call.splits)

lemma seen_answer: "seen (answer code resp res) =
    (Returned (map_option (\<lambda>_. RpcFailed) (fst res)), snd res)"
  by (cases res) (auto simp: seen_def answer_def split: option.splits)

lemma same_outcome_answer: "same_outcome (seen (answer code resp res)) (apfst Returned res)"
  by (cases res) (auto simp: same_outcome_def seen_answer)

lemma positive_id: "(case v of None \<Rightarrow> True | Some x \<Rightarrow> P x) \<Longrightarrow> positive P v = v"
  by (cases v) (auto simp: positive_def)

lemma same_outcome_update:
  assumes "carried (UpdateSinkConfigOp n c)"
  shows "same_outcome (remote_manager_exec mk own (UpdateSinkConfigOp n c) r) (local_exec mk own (UpdateSinkConfigOp n c) r)"
proof -
  obtain l src v d where c: "c = \<lparr>ch_level = l, ch_include_source = src, ch_max_size = v, ch_max_age = d\<rparr>"
    by (cases c)
  have l: "map_option ProtoLogLevelToSlogLevel (map_option SlogLevelToProtoLogLevel l) = l"
    using assms by (cases l) (auto simp: c)
  have vd: "positive (\<lambda>v. 0 < v) v = v" "positive (\<lambda>d. 0 < sint d) d = d"
    using assms by (auto intro!: positive_id simp: c)
  show ?thesis
    by (auto simp: remote_exec_seen service_UpdateSinkConfig_def c l vd same_outcome_def seen_def answer_def
        split: prod.splits call.splits option.splits)
qed

lemma same_outcome_add_sink:
  assumes "carried (AddSinkOp n t l)"
  shows "same_outcome (remote_manager_exec mk own (AddSinkOp n t l) r) (local_exec mk own (AddSinkOp n t l) r)"
proof (cases "t = ''stdout'' \<or> t = ''stderr''")
  case True
  then show ?thesis
    using assms by (auto simp: remote_exec_seen remote_sink_type_def service_AddSink_def same_outcome_answer Let_def)
next
  case False
  have no_path: "\<exists>e. local_AddSink mk n t l r = (Some e, r)"
    using False by (auto simp: local_AddSink_def addSinkInternal_def Let_def split: option.splits)
  have "remote_request (AddSinkOp n t l) = Err (UnsupportedSinkType t)"
    using False assms by (auto simp: remote_sink_type_def)
  then show ?thesis
    using no_path by (auto simp: remote_exec_seen same_outcome_def)
qed

lemma remote_refines_local:
  "carried op \<Longrightarrow> same_outcome (remote_manager_exec mk own op r) (local_exec mk own op r)"
  "remote_manager_exec mk own (SetLoggerLevelOp n l) r = (Returned (Some RpcFailed), r)"
  "remote_manager_exec mk own (SetSinkLevelOp n l) r = (Returned (Some RpcFailed), r)"
proof -
  assume "carried op"
  then show "same_outcome (remote_manager_exec mk own op r) (local_exec mk own op r)"
  proof (cases op)
    case (UpdateSinkConfigOp n c)
    then show ?thesis using \<open>carried op\<close> same_outcome_update by blast
  next
    case (AddSinkOp n t l)
    then show ?thesis using \<open>carried op\<close> same_outcome_add_sink by blast
  next
    case (EnableFileSinkOp l p mb bk age)
    show ?thesis
      unfolding EnableFileSinkOp remote_exec_seen remote_request.simps sum.case service.simps
        service_EnableFileSink_def Let_def local_exec.simps
      by (subst EnableFileSink_sizes [where a' = mb and b' = bk and c' = age]) (rule same_outcome_answer)
  qed (auto simp: remote_exec_seen same_outcome_answer service_SetGlobalLevel_def service_DisableFileSink_def
      service_RemoveSink_def service_AddLogger_def service_RemoveLogger_def service_AttachSink_def
      service_DetachSink_def Let_def)
qed (auto simp: remote_exec_seen service_SetLoggerLevel_def service_SetSinkLevel_def seen_def)

text \<open>The remote manager refines the local one: when the values of an operation are ones its request
  can carry, calling it through the service changes the registry of the daemon exactly as the local
  manager would, and it fails, succeeds or never returns exactly when the local one does. Setting the
  level of one logger or of one sink is the exception: it works locally, and remotely it always fails
  and changes nothing.\<close>
theorem remote_manager_refines_local:
  "(carried op \<longrightarrow> same_outcome (remote_manager_exec mk own op r) (local_exec mk own op r)) \<and>
   remote_manager_exec mk own (SetLoggerLevelOp n l) r = (Returned (Some RpcFailed), r) \<and>
   remote_manager_exec mk own (SetSinkLevelOp n l) r = (Returned (Some RpcFailed), r)"
  using remote_refines_local by blast

text \<open>A warning level for everything, and a second terminal for the logs.\<close>
theorem remote_manager_refines_local_witness:
  "same_outcome (remote_manager_exec (\<lambda>_. True) True (SetGlobalLevelOp LevelWarn) NewLogRegistry)
     (local_exec (\<lambda>_. True) True (SetGlobalLevelOp LevelWarn) NewLogRegistry) \<and>
   same_outcome (remote_manager_exec (\<lambda>_. True) True (AddSinkOp ''err'' ''stderr'' LevelInfo) NewLogRegistry)
     (local_exec (\<lambda>_. True) True (AddSinkOp ''err'' ''stderr'' LevelInfo) NewLogRegistry)"
  using remote_manager_refines_local [of "SetGlobalLevelOp LevelWarn" "\<lambda>_. True" True NewLogRegistry]
    remote_manager_refines_local [of "AddSinkOp ''err'' ''stderr'' LevelInfo" "\<lambda>_. True" True NewLogRegistry]
  by (auto simp: named_level_def)

section \<open>What the managers can and cannot do\<close>

lemma GetSink_SetSinkLevel: "map_option sk_type (GetSink (keep r (SetSinkLevel n l r)) m) = map_option sk_type (GetSink r m)"
  by (auto simp: SetSinkLevel_def GetSink_def keep_def gm_get_put split: option.splits)

text \<open>C40. Updating a sink waits for ever exactly when the sink is a file sink and a positive size or age
  is asked for: the manager logs the update while it holds the lock that its own logger needs. A manager
  whose logger is in another registry always returns.\<close>
theorem update_sink_deadlock:
  "fst (local_UpdateSinkConfig own n ch r) = Blocked \<longleftrightarrow>
     own \<and> (\<exists>s. GetSink r n = Some s \<and> sk_type s = ''file'') \<and>
     ((\<exists>v. ch_max_size ch = Some v \<and> 0 < v) \<or> (\<exists>d. ch_max_age ch = Some d \<and> 0 < sint d))"
proof (cases "GetSink r n")
  case None
  then show ?thesis by (simp add: local_UpdateSinkConfig_def)
next
  case (Some s)
  then show ?thesis
    by (cases "ch_max_size ch"; cases "ch_max_age ch") (auto simp: local_UpdateSinkConfig_def Let_def)
qed

definition no_new_logger :: "LogRegistry \<Rightarrow> LogRegistry \<Rightarrow> bool" where
  "no_new_logger r r' = (\<forall>n \<in> set (gm_keys (lg_configs r')). gm_get (lg_configs r) n \<noteq> None)"

lemma no_new_iff:
  "no_new_logger r r' \<longleftrightarrow> (\<forall>n. gm_get (lg_configs r) n = None \<longrightarrow> gm_get (lg_configs r') n = None)"
  unfolding no_new_logger_def gm_get_None_iff by blast

lemma no_new_trans: "no_new_logger r r' \<Longrightarrow> no_new_logger r' r'' \<Longrightarrow> no_new_logger r r''"
  by (simp add: no_new_iff)

lemma no_new_same: "lg_configs r' = lg_configs r \<Longrightarrow> no_new_logger r r'"
  by (simp add: no_new_iff)

lemma no_new_keep: "(\<And>r'. res = Ok r' \<Longrightarrow> no_new_logger r r') \<Longrightarrow> no_new_logger r (keep r res)"
  by (auto simp: keep_def no_new_same split: sum.splits)

lemma no_new_lift: "(\<And>r'. res = Ok r' \<Longrightarrow> no_new_logger r r') \<Longrightarrow> no_new_logger r (snd (lift_error r res))"
  by (auto simp: lift_error_def no_new_same split: sum.splits)

lemma no_new_registry:
  "SetLoggerLevel n l r = Ok r' \<Longrightarrow> no_new_logger r r'"
  "SetSinkLevel n l r = Ok r' \<Longrightarrow> no_new_logger r r'"
  "RemoveSink n r = Ok r' \<Longrightarrow> no_new_logger r r'"
  "RemoveLogger n r = Ok r' \<Longrightarrow> no_new_logger r r'"
  "AttachSink n s r = Ok r' \<Longrightarrow> no_new_logger r r'"
  "DetachSink n s r = Ok r' \<Longrightarrow> no_new_logger r r'"
  "RegisterSink sink r = Ok r' \<Longrightarrow> no_new_logger r r'"
  by (auto simp: no_new_iff SetLoggerLevel_def SetSinkLevel_def RemoveSink_def RemoveLogger_def AttachSink_def
      DetachSink_def RegisterSink_def Let_def gm_get_put gm_get_del split: option.splits if_splits)

lemma no_new_results [simp]:
  "no_new_logger r (keep r (SetLoggerLevel n l r))" "no_new_logger r (snd (lift_error r (SetLoggerLevel n l r)))"
  "no_new_logger r (keep r (SetSinkLevel n l r))" "no_new_logger r (snd (lift_error r (SetSinkLevel n l r)))"
  "no_new_logger r (keep r (RemoveSink n r))" "no_new_logger r (snd (lift_error r (RemoveSink n r)))"
  "no_new_logger r (snd (lift_error r (RemoveLogger n r)))" "no_new_logger r (snd (lift_error r (AttachSink n s r)))"
  "no_new_logger r (keep r (DetachSink n s r))" "no_new_logger r (snd (lift_error r (DetachSink n s r)))"
  "no_new_logger r (snd (lift_error r (RegisterSink sink r)))"
  by (rule no_new_keep no_new_lift, erule no_new_registry)+

lemma no_new_change_sink [simp]: "no_new_logger r (change_sink n f r') = no_new_logger r r'"
  by (auto simp: change_sink_def no_new_iff split: option.splits)

lemma no_new_addSink: "no_new_logger r (snd (addSinkInternal mk n t p l r))"
  by (auto simp: addSinkInternal_def Let_def no_new_same split: option.splits sum.splits)

lemma no_new_drop: "no_new_logger r (drop_file_sinks l ns r)"
proof (induction l ns r rule: drop_file_sinks.induct)
  case (2 l n ns r)
  have "no_new_logger r (keep (keep r (DetachSink l n r)) (RemoveSink n (keep r (DetachSink l n r))))"
    by (rule no_new_trans [OF no_new_results(9) no_new_results(5)])
  then show ?case
    using 2 by (auto simp: Let_def split: option.splits intro: no_new_trans)
qed (simp add: no_new_same)

lemma no_new_enable: "no_new_logger r (snd (local_EnableFileSink mk l p a b c r))"
proof -
  define r1 where "r1 = (case GetLoggerSinks r l of None \<Rightarrow> r | Some ns \<Rightarrow> drop_file_sinks l ns r)"
  define sn where "sn = ''file-'' @ l"
  obtain e r2 where r2: "addSinkInternal mk sn ''file'' p LevelDebug r1 = (e, r2)"
    by (cases "addSinkInternal mk sn ''file'' p LevelDebug r1")
  have "no_new_logger r r1"
    by (auto simp: r1_def no_new_same no_new_drop split: option.splits)
  moreover have "no_new_logger r1 r2"
    using no_new_addSink [of r1 mk sn "''file''" p LevelDebug] r2 by simp
  ultimately have "no_new_logger r r2" by (rule no_new_trans)
  moreover have "no_new_logger r2 (keep r2 (RemoveSink sn r2))"
    "\<And>r3. AttachSink l sn r2 = Ok r3 \<Longrightarrow> no_new_logger r2 r3"
    by (simp, rule no_new_registry)
  ultimately show ?thesis
    unfolding local_EnableFileSink_def Let_def r1_def [symmetric] sn_def [symmetric] r2
    by (auto split: option.splits sum.splits intro: no_new_trans)
qed

lemma no_new_local: "no_new_logger r (snd (local_exec mk own op r))"
proof (cases op)
  case (UpdateSinkConfigOp n c)
  then show ?thesis
    by (auto simp: local_UpdateSinkConfig_def Let_def no_new_same split: option.splits)
next
  case (AddLoggerOp n l ss)
  show ?thesis
  proof (cases "SetLoggerLevel n l r")
    case (Inl e)
    then show ?thesis by (simp add: AddLoggerOp local_AddLogger_def Let_def no_new_same)
  next
    case (Inr r1)
    then have "gm_get (lg_configs r1) n \<noteq> None" "no_new_logger r r1"
      using no_new_registry(1) by (auto simp: SetLoggerLevel_def split: option.splits)
    then show ?thesis
      using Inr by (auto simp: AddLoggerOp local_AddLogger_def Let_def lift_error_def SetLoggerSinks_def no_new_iff
          gm_get_put split: option.splits)
  qed
next
  case (DisableFileSinkOp l)
  then show ?thesis
    by (auto simp: local_DisableFileSink_def no_new_same split: option.splits sum.splits
        dest!: no_new_registry(6) intro: no_new_trans [OF _ no_new_results(6)])
qed (auto simp: local_SetGlobalLevel_def local_SetLoggerLevel_def local_SetSinkLevel_def no_new_enable
    local_AddSink_def no_new_addSink local_RemoveSink_def local_RemoveLogger_def local_AttachSink_def
    local_DetachSink_def SetGlobalLevel_def no_new_same)

lemma snd_seen [simp]: "snd (seen a) = snd a"
  by (auto simp: seen_def split: prod.splits call.splits sum.splits)

lemma snd_answer [simp]: "snd (answer code resp res) = snd res"
  by (auto simp: answer_def split: prod.splits option.splits)

lemma no_new_service: "no_new_logger r (snd (service mk own req r))"
proof (cases req)
  case (UpdateSinkConfigRequest n l src sz age)
  have "snd (service_UpdateSinkConfig own n l src sz age r) = snd (local_UpdateSinkConfig own n
      \<lparr>ch_level = map_option ProtoLogLevelToSlogLevel l, ch_include_source = src, ch_max_size = sz, ch_max_age = age\<rparr> r)"
    by (auto simp: service_UpdateSinkConfig_def split: prod.splits call.splits)
  then show ?thesis
    using no_new_local [of r mk own "UpdateSinkConfigOp n
      \<lparr>ch_level = map_option ProtoLogLevelToSlogLevel l, ch_include_source = src, ch_max_size = sz, ch_max_age = age\<rparr>"]
    by (simp add: UpdateSinkConfigRequest)
next
  case (AddLoggerRequest n l ss)
  then show ?thesis
    using no_new_local [of r mk own "AddLoggerOp n (ProtoLogLevelToSlogLevel l) ss"] by (simp add: service_AddLogger_def)
next
  case (DisableFileSinkRequest l)
  then show ?thesis
    using no_new_local [of r mk own "DisableFileSinkOp l"] by (simp add: service_DisableFileSink_def)
qed (auto simp: service_SetGlobalLevel_def service_SetLoggerLevel_def service_SetSinkLevel_def service_EnableFileSink_def
    service_AddSink_def service_RemoveSink_def service_RemoveLogger_def service_AttachSink_def service_DetachSink_def
    Let_def no_new_enable local_SetGlobalLevel_def SetGlobalLevel_def local_AddSink_def no_new_addSink
    local_RemoveSink_def local_RemoveLogger_def local_AttachSink_def local_DetachSink_def no_new_same)

lemma no_new_remote: "no_new_logger r (snd (remote_manager_exec mk own op r))"
  by (auto simp: remote_exec_seen no_new_service no_new_same split: sum.splits)

text \<open>No operation of the manager configures a logger that was not configured: AddLogger sets its level
  first, which the registry refuses for an unknown name, and so does the remote manager. Adding a
  logger returns without an error only when it is there already.\<close>
theorem managers_add_no_logger:
  "no_new_logger r (snd (local_exec mk own op r)) \<and> no_new_logger r (snd (remote_manager_exec mk own op r)) \<and>
   (gm_get (lg_configs r) n = None \<longrightarrow>
      local_exec mk own (AddLoggerOp n l ss) r = (Returned (Some (Refused (LoggerNotFound n))), r))"
proof (intro conjI impI)
  show "no_new_logger r (snd (local_exec mk own op r))" by (rule no_new_local)
  show "no_new_logger r (snd (remote_manager_exec mk own op r))" by (rule no_new_remote)
  assume "gm_get (lg_configs r) n = None"
  then show "local_exec mk own (AddLoggerOp n l ss) r = (Returned (Some (Refused (LoggerNotFound n))), r)"
    by (simp add: local_AddLogger_def SetLoggerLevel_def Let_def)
qed

theorem managers_add_no_logger_witness:
  "local_exec (\<lambda>_. True) True (AddLoggerOp ''app'' LevelInfo [''stdout'']) NewLogRegistry =
     (Returned (Some (Refused (LoggerNotFound ''app''))), NewLogRegistry)"
  using managers_add_no_logger [of NewLogRegistry "\<lambda>_. True" True _ "''app''" LevelInfo "[''stdout'']"]
  by (simp add: NewLogRegistry_def)

section \<open>The status through the protocol\<close>

text \<open>What a status may hold for the messages to carry it: named levels, sinks of the three types the
  managers make, file settings on file sinks only, and a file name on those.\<close>

definition plain_sink :: "SinkStatus \<Rightarrow> bool" where
  "plain_sink s = (named_level (ss_level s) \<and>
     (if ss_type s = ''file'' then ss_path s \<noteq> ''''
      else ss_type s \<in> {''stdout'', ''stderr''} \<and> ss_path s = '''' \<and> \<not> ss_json_format s \<and> ss_max_size s = 0 \<and>
        ss_max_backups s = 0 \<and> ss_max_age_days s = 0))"

definition plain_status :: "LoggingStatusSnapshot \<Rightarrow> bool" where
  "plain_status sn = (named_level (sn_global_level sn) \<and> list_all plain_sink (sn_sinks sn) \<and>
     list_all (\<lambda>l. named_level (ls_level l)) (sn_loggers sn))"

lemma sink_status_roundtrip: "plain_sink s \<Longrightarrow> remote_sink_status (sinkStatusToProto s) = s"
  by (cases s) (auto simp: plain_sink_def remote_sink_status_def sinkStatusToProto_def stringToSinkType_def split: if_splits)

lemma map_roundtrip: "list_all P xs \<Longrightarrow> (\<And>x. P x \<Longrightarrow> g (f x) = x) \<Longrightarrow> map g (map f xs) = xs"
  by (induction xs) auto

text \<open>The status of the logging that a remote manager gets is the status of the daemon, with the time
  cut to the millisecond, when it holds only what the messages can carry.\<close>
theorem logging_status_roundtrip:
  assumes "plain_status sn"
  shows "remote_GetLoggingStatus (service_GetLoggingStatus sn) =
    sn\<lparr>sn_retrieved_at := sn_retrieved_at sn div 10 ^ 6 * 10 ^ 6\<rparr>"
proof -
  have "map remote_sink_status (map sinkStatusToProto (sn_sinks sn)) = sn_sinks sn"
    using assms by (intro map_roundtrip [where P = plain_sink]) (auto simp: plain_status_def sink_status_roundtrip)
  moreover have "map (\<lambda>(n, ss, l). \<lparr>ls_name = n, ls_sink_names = ss, ls_level = ProtoLogLevelToSlogLevel l\<rparr>)
      (map (\<lambda>l. (ls_name l, ls_sink_names l, SlogLevelToProtoLogLevel (ls_level l))) (sn_loggers sn)) = sn_loggers sn"
    using assms by (intro map_roundtrip [where P = "\<lambda>l. named_level (ls_level l)"]) (auto simp: plain_status_def)
  ultimately show ?thesis
    using assms by (cases sn) (simp add: remote_GetLoggingStatus_def service_GetLoggingStatus_def plain_status_def)
qed

text \<open>The daemon that logs to its terminal and to a file.\<close>

definition two_sinks :: LogRegistry where
  "two_sinks = NewLogRegistry\<lparr>
     lg_sinks := [(''stdout'', stdout_sink),
       (''file'', stdout_sink\<lparr>sk_name := ''file'', sk_type := ''file'', sk_file_path := ''daemon.log'', sk_max_size := 1000\<rparr>)],
     lg_configs := [(''app'', \<lparr>cl_level = LevelDebug, cl_sink_names = [''stdout'']\<rparr>)]\<rparr>"

theorem logging_status_roundtrip_witness:
  "remote_GetLoggingStatus (service_GetLoggingStatus (local_GetLoggingStatus 3500000 two_sinks)) =
     (local_GetLoggingStatus 3500000 two_sinks)\<lparr>sn_retrieved_at := 3000000\<rparr>"
  using logging_status_roundtrip [of "local_GetLoggingStatus 3500000 two_sinks"]
  by (simp add: plain_status_def plain_sink_def local_GetLoggingStatus_def two_sinks_def NewLogRegistry_def
      GetAllSinks_def sink_status_def stdout_sink_def named_level_def)

section \<open>Tailing one logger\<close>

lemma last_attr_absent: "key \<notin> fst ` set attrs \<Longrightarrow> last_attr key attrs acc = acc"
  by (induction key attrs acc rule: last_attr.induct) auto

lemma last_attr_append: "last_attr key (xs @ [(key, v)]) acc = v"
  by (induction key xs acc rule: last_attr.induct) auto

lemma matchesFilter_empty: "log_matchesFilter '''' f \<longleftrightarrow> f = '''' \<or> f = ''*''"
  by (cases f rule: rev_cases) (auto simp: log_matchesFilter_def)

text \<open>Tailing one logger by its name. The entries of a broadcaster carry the attribute named component
  as the name of their logger, which the loggers do not set, so no entry passes the filter. When the
  logger had no configuration of its own, tailing gives it one, which stays when the client leaves: the
  logger then has no sinks and what it logs goes nowhere, and the sink of the session stays registered.\<close>
theorem tailing_one_logger:
  assumes "l \<noteq> ''''" "l \<noteq> ''*''"
  shows "(''component'' \<notin> fst ` set (lr_attrs rec) \<longrightarrow> tail_entry levels l (broadcast_entry now rec) = None) \<and>
    (gm_get (lg_configs r) l = None \<and> GetSink r s = None \<longrightarrow>
      (let r' = tail_stop s [l] (snd (tail_start s b l r)) in
        getLoggerConfig r' l = Some \<lparr>cl_level = LevelInfo, cl_sink_names = []\<rparr> \<and> GetSink r' s \<noteq> None \<and>
        (\<forall>rec now'. fst (handler_Handle \<lparr>rh_logger_name = l, rh_attrs = ags\<rparr> rec now' r') = [])))"
proof (intro conjI impI)
  assume "''component'' \<notin> fst ` set (lr_attrs rec)"
  then show "tail_entry levels l (broadcast_entry now rec) = None"
    using assms by (simp add: tail_entry_def shouldIncludeLog_def broadcast_entry_def last_attr_absent matchesFilter_empty)
next
  assume none: "gm_get (lg_configs r) l = None \<and> GetSink r s = None"
  define r' where "r' = tail_stop s [l] (snd (tail_start s b l r))"
  have r': "gm_get (lg_configs r') l = Some \<lparr>cl_level = LevelInfo, cl_sink_names = []\<rparr>" "GetSink r' s \<noteq> None"
    using none assms by (auto simp: r'_def tail_stop_def tail_start_def CreateBroadcasterSink_def RegisterSink_def
        GetSink_def tail_loggers_def GetLoggerSinks_def SetLoggerSinks_def gm_get_put Let_def)
  then have "\<forall>rec now'. fst (handler_Handle \<lparr>rh_logger_name = l, rh_attrs = ags\<rparr> rec now' r') = []"
    using assms by (auto simp: handler_Handle_def Registry_log_def Let_def last_attr_append getLoggerConfig_def)
  then show "let r' = tail_stop s [l] (snd (tail_start s b l r)) in
      getLoggerConfig r' l = Some \<lparr>cl_level = LevelInfo, cl_sink_names = []\<rparr> \<and> GetSink r' s \<noteq> None \<and>
      (\<forall>rec now'. fst (handler_Handle \<lparr>rh_logger_name = l, rh_attrs = ags\<rparr> rec now' r') = [])"
    using r' by (simp add: r'_def [symmetric] getLoggerConfig_def)
qed

text \<open>Tailing a logger of the application: its records reached the terminal before.\<close>
theorem tailing_one_logger_witness:
  "fst (handler_Handle \<lparr>rh_logger_name = ''app.db'', rh_attrs = []\<rparr> (info_record\<lparr>lr_level := LevelError\<rparr>) 0 two_sinks) \<noteq> [] \<and>
   tail_entry [] ''app.db'' (broadcast_entry 0 info_record) = None \<and>
   fst (handler_Handle \<lparr>rh_logger_name = ''app.db'', rh_attrs = []\<rparr> (info_record\<lparr>lr_level := LevelError\<rparr>) 0
     (tail_stop ''t'' [''app.db''] (snd (tail_start ''t'' 0 ''app.db'' two_sinks)))) = []"
proof (intro conjI)
  show "fst (handler_Handle \<lparr>rh_logger_name = ''app.db'', rh_attrs = []\<rparr> (info_record\<lparr>lr_level := LevelError\<rparr>) 0
      two_sinks) \<noteq> []" by code_simp
  note one = tailing_one_logger [of "''app.db''" info_record "[]" 0 two_sinks "''t''" 0 "[]"]
  show "tail_entry [] ''app.db'' (broadcast_entry 0 info_record) = None"
    using one by (simp add: info_record_def LoggerNameAttr_def)
  have "gm_get (lg_configs two_sinks) ''app.db'' = None \<and> GetSink two_sinks ''t'' = None" by code_simp
  then show "fst (handler_Handle \<lparr>rh_logger_name = ''app.db'', rh_attrs = []\<rparr> (info_record\<lparr>lr_level := LevelError\<rparr>) 0
      (tail_stop ''t'' [''app.db''] (snd (tail_start ''t'' 0 ''app.db'' two_sinks)))) = []"
    using one by (simp add: Let_def)
qed

end
