(* ===== verification/ToolchainMatch.thy ===== *)
theory ToolchainMatch
  imports RuntimeId Strings "HOL-Library.List_Lexorder" "HOL-Library.Char_ord"
begin

text \<open>
  The toolchain a driver is asked for, from its configuration and its command line, and the best of
  the runtimes a daemon lists for it (pkg/drivers/runtime_resolution.go and the matching in
  daemon_client.go; the RPC itself is an argument where the list is used).
\<close>

section \<open>The toolchain asked for\<close>

record ToolchainResolution =
  tr_compiler_version :: string
  tr_compiler_type :: string
  tr_c_runtime :: string
  tr_cpp_stdlib :: string
  tr_architecture :: string
  tr_description :: string

record CppDriverConfig =
  cd_compiler_version :: string
  cd_c_runtime :: string
  cd_c_runtime_version :: string
  cd_cpp_stdlib :: string
  cd_architecture :: string

definition ToolchainResolution_String :: "ToolchainResolution \<Rightarrow> string" where
  "ToolchainResolution_String r =
     (if tr_description r \<noteq> '''' then tr_description r
      else let parts = filter (\<lambda>p. p \<noteq> '''')
             [tr_compiler_type r, tr_compiler_version r, tr_c_runtime r, tr_cpp_stdlib r, tr_architecture r]
           in if parts = [] then ''default'' else join_with '' '' parts)"

text \<open>The architecture a name after -march stands for.\<close>

definition march_architecture :: "string \<Rightarrow> string option" where
  "march_architecture march =
     (if march \<in> {''armv8-a'', ''armv8'', ''aarch64''} then Some ''aarch64''
      else if march \<in> {''armv7-a'', ''armv7'', ''arm''} then Some ''armv7''
      else if march \<in> {''x86-64'', ''x86_64''} then Some ''x86_64'' else None)"

definition set_architecture :: "string option \<Rightarrow> ToolchainResolution \<Rightarrow> ToolchainResolution" where
  "set_architecture a r = (case a of None \<Rightarrow> r | Some v \<Rightarrow> r\<lparr>tr_architecture := v\<rparr>)"

definition m_flag :: "string \<Rightarrow> string option" where
  "m_flag arg =
     (if \<not> has_prefix arg ''-m'' then None
      else let text' = drop 2 arg in
        if text' = ''64'' then Some ''x86_64''
        else if text' = ''32'' then Some ''i386''
        else if has_prefix text' ''march='' then march_architecture (drop 6 text')
        else None)"

fun parseGccArchitectureFlags :: "string list \<Rightarrow> ToolchainResolution \<Rightarrow> ToolchainResolution" where
  "parseGccArchitectureFlags [] r = r"
| "parseGccArchitectureFlags [arg] r = set_architecture (m_flag arg) r"
| "parseGccArchitectureFlags (arg # next # rest) r =
     (let r1 = set_architecture (m_flag arg) r
      in if arg = ''-march'' then parseGccArchitectureFlags rest (set_architecture (march_architecture next) r1)
         else parseGccArchitectureFlags (next # rest) r1)"

definition static_libgcc :: "string \<Rightarrow> ToolchainResolution \<Rightarrow> ToolchainResolution" where
  "static_libgcc arg r =
     (if arg = ''-static-libgcc'' \<and> tr_c_runtime r = '''' then r\<lparr>tr_c_runtime := ''glibc''\<rparr> else r)"

fun parseGccRuntimeFlags :: "string list \<Rightarrow> ToolchainResolution \<Rightarrow> ToolchainResolution" where
  "parseGccRuntimeFlags [] r = r"
| "parseGccRuntimeFlags [arg] r = static_libgcc arg r"
| "parseGccRuntimeFlags (arg # next # rest) r =
     (if arg = ''-run-time'' then parseGccRuntimeFlags rest (r\<lparr>tr_c_runtime := next\<rparr>)
      else if arg = ''-mlibc'' then
        parseGccRuntimeFlags rest (if next = ''glibc'' \<or> next = ''musl'' then r\<lparr>tr_c_runtime := next\<rparr> else r)
      else parseGccRuntimeFlags (next # rest) (static_libgcc arg r))"

definition known_stdlib :: "string \<Rightarrow> ToolchainResolution \<Rightarrow> ToolchainResolution" where
  "known_stdlib s r = (if s = ''libc++'' \<or> s = ''libstdc++'' then r\<lparr>tr_cpp_stdlib := s\<rparr> else r)"

definition stdlib_flag :: "string \<Rightarrow> ToolchainResolution \<Rightarrow> ToolchainResolution" where
  "stdlib_flag arg r = (if has_prefix arg ''-stdlib='' then known_stdlib (drop 8 arg) r else r)"

fun parseGxxStdLibFlags :: "string list \<Rightarrow> ToolchainResolution \<Rightarrow> ToolchainResolution" where
  "parseGxxStdLibFlags [] r = r"
| "parseGxxStdLibFlags [arg] r = stdlib_flag arg r"
| "parseGxxStdLibFlags (arg # next # rest) r =
     (if arg = ''-stdlib'' then parseGxxStdLibFlags rest (known_stdlib next (stdlib_flag arg r))
      else parseGxxStdLibFlags (next # rest) (stdlib_flag arg r))"

definition ResolveGccToolchain :: "CppDriverConfig \<Rightarrow> string list \<Rightarrow> ToolchainResolution" where
  "ResolveGccToolchain cfg args =
     parseGccRuntimeFlags args (parseGccArchitectureFlags args
       \<lparr>tr_compiler_version = cd_compiler_version cfg, tr_compiler_type = ''gcc'', tr_c_runtime = cd_c_runtime cfg,
        tr_cpp_stdlib = '''', tr_architecture = cd_architecture cfg, tr_description = ''''\<rparr>)"

definition ResolveGxxToolchain :: "CppDriverConfig \<Rightarrow> string list \<Rightarrow> ToolchainResolution" where
  "ResolveGxxToolchain cfg args =
     parseGxxStdLibFlags args (parseGccRuntimeFlags args (parseGccArchitectureFlags args
       \<lparr>tr_compiler_version = cd_compiler_version cfg, tr_compiler_type = ''gcc'', tr_c_runtime = cd_c_runtime cfg,
        tr_cpp_stdlib = cd_cpp_stdlib cfg, tr_architecture = cd_architecture cfg, tr_description = ''''\<rparr>))"

definition versionFromResolution :: "string \<Rightarrow> Version option" where
  "versionFromResolution s = (if s = '''' then None else Some (empty_version\<lparr>ver_prerelease := Some s\<rparr>))"

definition CppToolchainForResolution :: "ToolchainResolution \<Rightarrow> CppLanguage \<Rightarrow> CppToolchain" where
  "CppToolchainForResolution r language =
     \<lparr>cpp_language = language, cpp_compiler = CPP_COMPILER_GCC,
      cpp_compiler_version = versionFromResolution (tr_compiler_version r),
      cpp_architecture =
        (if tr_architecture r = ''x86_64'' \<or> tr_architecture r = ''i386'' then CPU_ARCHITECTURE_X86_64
         else if tr_architecture r = ''aarch64'' then CPU_ARCHITECTURE_AARCH64
         else if tr_architecture r = ''armv7'' \<or> tr_architecture r = ''arm'' then CPU_ARCHITECTURE_ARM
         else CPU_ARCHITECTURE_UNSPECIFIED),
      cpp_c_runtime =
        (if tr_c_runtime r = ''glibc'' then C_RUNTIME_GLIBC
         else if tr_c_runtime r = ''musl'' then C_RUNTIME_MUSL else C_RUNTIME_UNSPECIFIED),
      cpp_c_runtime_version = None, cpp_abi = CPP_ABI_UNSPECIFIED,
      cpp_stdlib =
        (if tr_cpp_stdlib r = ''libstdc++'' then CPP_STDLIB_LIBSTDCXX
         else if tr_cpp_stdlib r = ''libc++'' then CPP_STDLIB_LIBCXX else CPP_STDLIB_UNSPECIFIED),
      cpp_abi_modifiers = []\<rparr>"

section \<open>The best runtime\<close>

definition stringToCppCompiler :: "string \<Rightarrow> CppCompiler" where
  "stringToCppCompiler s =
     (if s = ''gcc'' then CPP_COMPILER_GCC else if s = ''clang'' then CPP_COMPILER_CLANG else CPP_COMPILER_UNSPECIFIED)"

definition stringToCpuArchitecture :: "string \<Rightarrow> CpuArchitecture" where
  "stringToCpuArchitecture s =
     (if s = ''x86_64'' then CPU_ARCHITECTURE_X86_64
      else if s = ''i386'' \<or> s = ''i686'' then CPU_ARCHITECTURE_X86_64
      else if s = ''aarch64'' then CPU_ARCHITECTURE_AARCH64
      else if s = ''armv7'' \<or> s = ''arm'' then CPU_ARCHITECTURE_ARM else CPU_ARCHITECTURE_UNSPECIFIED)"

definition stringToCRuntime :: "string \<Rightarrow> CRuntime" where
  "stringToCRuntime s =
     (if s = ''glibc'' then C_RUNTIME_GLIBC else if s = ''musl'' then C_RUNTIME_MUSL else C_RUNTIME_UNSPECIFIED)"

definition stringToCppStdlib :: "string \<Rightarrow> CppStdlib" where
  "stringToCppStdlib s =
     (if s = ''libstdc++'' then CPP_STDLIB_LIBSTDCXX else if s = ''libc++'' then CPP_STDLIB_LIBCXX
      else CPP_STDLIB_UNSPECIFIED)"

definition versionFromString :: "string \<Rightarrow> Version option" where
  "versionFromString s =
     (if s = '''' then None
      else Some (empty_version\<lparr>ver_minor := Some 0, ver_patch := Some 0, ver_prerelease := Some s\<rparr>))"

definition or_default :: "'a \<Rightarrow> 'a option \<Rightarrow> 'a" where
  "or_default d v = (case v of None \<Rightarrow> d | Some x \<Rightarrow> x)"

definition versionEqual :: "Version option \<Rightarrow> Version option \<Rightarrow> bool" where
  "versionEqual a b =
     (case (a, b) of
        (None, None) \<Rightarrow> True
      | (Some v, Some w) \<Rightarrow>
          ver_major v = ver_major w \<and> or_default 0 (ver_minor v) = or_default 0 (ver_minor w) \<and>
          or_default 0 (ver_patch v) = or_default 0 (ver_patch w) \<and>
          or_default '''' (ver_prerelease v) = or_default '''' (ver_prerelease w)
      | _ \<Rightarrow> False)"

definition wildcard_score :: "bool \<Rightarrow> string \<Rightarrow> int \<Rightarrow> int \<Rightarrow> int" where
  "wildcard_score same requested full part = (if same then full else if requested = '''' then part else 0)"

definition scoreToolchainMatch :: "ToolchainResolution \<Rightarrow> CppToolchain option \<Rightarrow> int" where
  "scoreToolchainMatch r available =
     (case available of
        None \<Rightarrow> 0
      | Some c \<Rightarrow>
          (let requested = stringToCppCompiler (tr_compiler_type r) in
           if requested \<noteq> cpp_compiler c \<and> requested \<noteq> CPP_COMPILER_UNSPECIFIED then 0
           else (if requested = cpp_compiler c then 500 else 250) +
             (if versionFromString (tr_compiler_version r) \<noteq> None \<and>
                 versionEqual (versionFromString (tr_compiler_version r)) (cpp_compiler_version c) then 250
              else if tr_compiler_version r = '''' then 125 else 50) +
             wildcard_score (stringToCpuArchitecture (tr_architecture r) = cpp_architecture c) (tr_architecture r) 100 50 +
             wildcard_score (stringToCRuntime (tr_c_runtime r) = cpp_c_runtime c) (tr_c_runtime r) 75 37 +
             wildcard_score (stringToCppStdlib (tr_cpp_stdlib r) = cpp_stdlib c) (tr_cpp_stdlib r) 75 37))"

definition getRuntimeCppToolchain :: "Runtime option \<Rightarrow> CppToolchain option" where
  "getRuntimeCppToolchain runtime = (case runtime of None \<Rightarrow> None | Some rt \<Rightarrow> GetCpp rt)"

fun best_runtime :: "ToolchainResolution \<Rightarrow> Runtime option list \<Rightarrow> Runtime option \<times> int \<Rightarrow> Runtime option \<times> int" where
  "best_runtime r [] best = best"
| "best_runtime r (rt # rts) best =
     (case getRuntimeCppToolchain rt of
        None \<Rightarrow> best_runtime r rts best
      | Some cpp \<Rightarrow>
          (let score = scoreToolchainMatch r (Some cpp)
           in best_runtime r rts (if snd best < score then (rt, score) else best)))"

definition FindMatchingRuntime :: "ToolchainResolution \<Rightarrow> Runtime option list \<Rightarrow> Runtime option \<times> int" where
  "FindMatchingRuntime r runtimes = (if runtimes = [] then (None, 0) else best_runtime r runtimes (None, 0))"

section \<open>Texts\<close>

definition to_lower_char :: "char \<Rightarrow> char" where
  "to_lower_char c = (if (65::nat) \<le> of_char c \<and> of_char c \<le> (90::nat) then char_of (of_char c + 32 :: nat) else c)"

definition ToLower :: "string \<Rightarrow> string" where
  "ToLower s = map to_lower_char s"

definition formatCppToolchain :: "CppToolchain \<Rightarrow> string" where
  "formatCppToolchain c = join_with '' ''
     ((case cpp_compiler c of CPP_COMPILER_GCC \<Rightarrow> [''gcc''] | CPP_COMPILER_CLANG \<Rightarrow> [''clang''] | _ \<Rightarrow> [''unknown'']) @
      (case cpp_compiler_version c of None \<Rightarrow> []
       | Some v \<Rightarrow> (case ver_prerelease v of None \<Rightarrow> [] | Some p \<Rightarrow> [p])) @
      (if cpp_language c = CPP_LANGUAGE_CPP then [''c++''] else []) @
      (if cpp_architecture c \<noteq> CPU_ARCHITECTURE_UNSPECIFIED
       then [''('' @ ToLower (drop (length ''CPU_ARCHITECTURE_'') (CpuArchitecture_name (cpp_architecture c))) @ '')''] else []) @
      (if cpp_c_runtime c \<noteq> C_RUNTIME_UNSPECIFIED
       then [ToLower (drop (length ''C_RUNTIME_'') (CRuntime_name (cpp_c_runtime c)))] else []) @
      (if cpp_stdlib c \<noteq> CPP_STDLIB_UNSPECIFIED
       then [ToLower (drop (length ''CPP_STDLIB_'') (CppStdlib_name (cpp_stdlib c)))] else []))"

definition newline :: string where "newline = [CHR 0x0A]"

definition quoted :: "string \<Rightarrow> string" where
  "quoted s = [CHR 0x27] @ s @ [CHR 0x27]"

definition FormatUnavailableRuntimeWarning :: "string \<Rightarrow> ToolchainResolution \<Rightarrow> Runtime list \<Rightarrow> string" where
  "FormatUnavailableRuntimeWarning compilerName r availableRuntimes =
     ''Warning: The '' @ compilerName @ '' toolchain '' @ quoted (ToolchainResolution_String r) @
     '' is not available on this machine.'' @ newline @ newline @
     ''This means you cannot build the project locally without Buildozer.'' @ newline @
     (if availableRuntimes \<noteq> [] then
        ''Available toolchains on this machine:'' @ newline @
        concat (map (\<lambda>rt. case GetCpp rt of None \<Rightarrow> ''''
          | Some cpp \<Rightarrow> if formatCppToolchain cpp \<noteq> '''' then ''  - '' @ formatCppToolchain cpp @ newline else '''')
          availableRuntimes) @ newline
      else '''') @
     ''Requested toolchain: '' @ ToolchainResolution_String r @ newline"

definition formatToolchain :: "CppToolchain option \<Rightarrow> string" where
  "formatToolchain toolchain =
     (case toolchain of
        None \<Rightarrow> ''(unknown)''
      | Some c \<Rightarrow> join_with '' ''
          ((case cpp_language c of CPP_LANGUAGE_C \<Rightarrow> [''c''] | CPP_LANGUAGE_CPP \<Rightarrow> [''cpp''] | _ \<Rightarrow> []) @
           (if cpp_compiler c \<noteq> CPP_COMPILER_UNSPECIFIED
            then [drop (length ''CPP_COMPILER_'') (CppCompiler_name (cpp_compiler c))] else []) @
           (case cpp_compiler_version c of None \<Rightarrow> []
            | Some v \<Rightarrow> (case ver_prerelease v of None \<Rightarrow> [] | Some p \<Rightarrow> if p \<noteq> '''' then [p] else [])) @
           (if cpp_architecture c \<noteq> CPU_ARCHITECTURE_UNSPECIFIED
            then [drop (length ''CPU_ARCHITECTURE_'') (CpuArchitecture_name (cpp_architecture c))] else []) @
           (if cpp_c_runtime c \<noteq> C_RUNTIME_UNSPECIFIED
            then [drop (length ''C_RUNTIME_'') (CRuntime_name (cpp_c_runtime c))] else []) @
           (if cpp_stdlib c \<noteq> CPP_STDLIB_UNSPECIFIED
            then [''['' @ drop (length ''CPP_STDLIB_'') (CppStdlib_name (cpp_stdlib c)) @ '']''] else [])))"

text \<open>The text of the error, over the toolchains sorted by their texts.\<close>

definition NoRuntimeFound :: "string \<Rightarrow> Runtime option list \<Rightarrow> string" where
  "NoRuntimeFound runtime availableRuntimes =
     (let available = List.map_filter getRuntimeCppToolchain availableRuntimes in
      if available = [] then ''no C/C++ runtimes available on this machine''
      else ''Requested C/C++ runtime configuration ['' @ runtime @ ''] not found.'' @ newline @
        ''Available runtimes:'' @ newline @
        concat (map (\<lambda>tc. ''  - '' @ formatToolchain (Some tc) @ newline)
          (sort_key (\<lambda>tc. formatToolchain (Some tc)) available)))"

section \<open>What is found\<close>

lemma wildcard_bounds: "0 \<le> p \<Longrightarrow> p \<le> f \<Longrightarrow> 0 \<le> wildcard_score b s f p \<and> wildcard_score b s f p \<le> f"
  by (simp add: wildcard_score_def)

lemma score_bounds: "0 \<le> scoreToolchainMatch r c \<and> scoreToolchainMatch r c \<le> 1000"
proof (cases c)
  case (Some c')
  have a: "0 \<le> wildcard_score b1 s1 100 50 \<and> wildcard_score b1 s1 100 50 \<le> 100" for b1 s1
    by (rule wildcard_bounds) simp_all
  have w: "0 \<le> wildcard_score b1 s1 75 37 \<and> wildcard_score b1 s1 75 37 \<le> 75" for b1 s1
    by (rule wildcard_bounds) simp_all
  show ?thesis
    using a [of "stringToCpuArchitecture (tr_architecture r) = cpp_architecture c'" "tr_architecture r"]
      w [of "stringToCRuntime (tr_c_runtime r) = cpp_c_runtime c'" "tr_c_runtime r"]
      w [of "stringToCppStdlib (tr_cpp_stdlib r) = cpp_stdlib c'" "tr_cpp_stdlib r"]
    by (simp add: Some scoreToolchainMatch_def Let_def)
qed (simp add: scoreToolchainMatch_def)

lemma score_same_compiler:
  "stringToCppCompiler (tr_compiler_type r) = cpp_compiler c \<Longrightarrow> 0 < scoreToolchainMatch r (Some c)"
  by (simp add: scoreToolchainMatch_def Let_def wildcard_score_def)

abbreviation runtime_score :: "ToolchainResolution \<Rightarrow> Runtime option \<Rightarrow> int" where
  "runtime_score r rt \<equiv> scoreToolchainMatch r (getRuntimeCppToolchain rt)"

lemma best_runtime_step:
  assumes "0 \<le> snd best"
  shows "best_runtime r (rt # rts) best =
    best_runtime r rts (if snd best < runtime_score r rt then (rt, runtime_score r rt) else best)"
  using assms by (cases "getRuntimeCppToolchain rt") (simp_all add: Let_def scoreToolchainMatch_def)

lemma best_runtime_max:
  assumes "best_runtime r rts best = (m, s)" "0 \<le> snd best"
  shows "snd best \<le> s \<and> (\<forall>rt \<in> set rts. runtime_score r rt \<le> s) \<and>
    (if s = snd best then m = fst best
     else \<exists>as bs. rts = as @ m # bs \<and> runtime_score r m = s \<and> (\<forall>rt \<in> set as. runtime_score r rt < s))"
  using assms
proof (induction rts arbitrary: best)
  case (Cons rt rts)
  define best' where "best' = (if snd best < runtime_score r rt then (rt, runtime_score r rt) else best)"
  have "best_runtime r rts best' = (m, s)" "0 \<le> snd best'"
    using Cons.prems score_bounds [of r "getRuntimeCppToolchain rt"]
    by (simp_all only: best_runtime_step best'_def) (auto simp: best'_def)
  note IH = Cons.IH [OF this]
  have le: "snd best \<le> snd best'" "runtime_score r rt \<le> snd best'" by (simp_all add: best'_def)
  show ?case
  proof (cases "s = snd best'")
    case True
    then have m: "m = fst best'" using IH by simp
    show ?thesis
    proof (cases "snd best < runtime_score r rt")
      case better: True
      then have "m = rt" "s = runtime_score r rt" using True m by (simp_all add: best'_def)
      moreover have "\<forall>x \<in> set rts. runtime_score r x \<le> s" using IH by simp
      ultimately show ?thesis using better by (auto intro: exI [of _ "[]"])
    next
      case False
      then show ?thesis using True m IH le by (simp add: best'_def)
    qed
  next
    case False
    then obtain as bs where split: "rts = as @ m # bs" "runtime_score r m = s" "\<forall>x \<in> set as. runtime_score r x < s"
      using IH by auto
    have less: "runtime_score r rt < s" "snd best < s" using False IH le by auto
    have "rt # rts = (rt # as) @ m # bs" "\<forall>x \<in> set (rt # as). runtime_score r x < s"
      using split less by auto
    then have "\<exists>as bs. rt # rts = as @ m # bs \<and> runtime_score r m = s \<and> (\<forall>x \<in> set as. runtime_score r x < s)"
      using split(2) by blast
    moreover have "\<forall>x \<in> set (rt # rts). runtime_score r x \<le> s" using IH less by auto
    ultimately show ?thesis using less by auto
  qed
qed simp

text \<open>C33. The runtime found has the highest score of all, the first one with it, and none is found exactly
  when every score is zero; a score is at most 1000.\<close>
theorem FindMatchingRuntime_best:
  assumes "FindMatchingRuntime r rts = (m, s)"
  shows "s \<le> 1000 \<and> (\<forall>rt \<in> set rts. runtime_score r rt \<le> s) \<and>
    (if s = 0 then m = None
     else \<exists>as bs. rts = as @ m # bs \<and> runtime_score r m = s \<and> (\<forall>rt \<in> set as. runtime_score r rt < s))"
proof (cases "rts = []")
  case False
  then have "best_runtime r rts (None, 0) = (m, s)" using assms by (simp add: FindMatchingRuntime_def)
  then have max: "0 \<le> s \<and> (\<forall>rt \<in> set rts. runtime_score r rt \<le> s) \<and>
    (if s = 0 then m = None
     else \<exists>as bs. rts = as @ m # bs \<and> runtime_score r m = s \<and> (\<forall>rt \<in> set as. runtime_score r rt < s))"
    using best_runtime_max [of r rts "(None, 0)" m s]
    by (simp split: if_split_asm)
  then have "s \<le> 1000" using score_bounds by (cases "s = 0") auto
  then show ?thesis using max by blast
qed (use assms in \<open>simp add: FindMatchingRuntime_def\<close>)

text \<open>The version asked for is compared with the prerelease of a runtime's version, which parsed
  versions do not have: two runtimes that differ in the version of their compiler have the same score, and
  the right version counts no more than a wrong one.\<close>
theorem version_never_matches:
  "tr_compiler_version r \<noteq> '''' \<Longrightarrow>
   scoreToolchainMatch r (Some (c\<lparr>cpp_compiler_version := Some (parseVersion v)\<rparr>)) =
   scoreToolchainMatch r (Some (c\<lparr>cpp_compiler_version := Some (parseVersion w)\<rparr>))"
proof -
  assume r: "tr_compiler_version r \<noteq> ''''"
  have "ver_prerelease (parseVersion u) = None" for u
    by (simp add: parseVersion_def empty_version_def Let_def)
  then have "\<not> versionEqual (versionFromString (tr_compiler_version r)) (Some (parseVersion u))" for u
    using r by (simp add: versionEqual_def versionFromString_def or_default_def)
  then show ?thesis by (simp add: scoreToolchainMatch_def Let_def)
qed

text \<open>The flag -march=armv8-a is cut after -m, and what is left does not start with march=.\<close>
lemma march_flag_ignored: "m_flag (''-march='' @ a) = None"
  by (simp add: m_flag_def has_prefix_def)

text \<open>Two gcc runtimes of an x86_64 machine, the older one listed first.\<close>

definition gcc_cpp :: CppToolchain where
  "gcc_cpp = \<lparr>cpp_language = CPP_LANGUAGE_C, cpp_compiler = CPP_COMPILER_GCC, cpp_compiler_version = None,
     cpp_architecture = CPU_ARCHITECTURE_X86_64, cpp_c_runtime = C_RUNTIME_GLIBC, cpp_c_runtime_version = None,
     cpp_abi = CPP_ABI_UNSPECIFIED, cpp_stdlib = CPP_STDLIB_UNSPECIFIED, cpp_abi_modifiers = []\<rparr>"

definition gcc_runtime :: "string \<Rightarrow> Runtime" where
  "gcc_runtime v = \<lparr>rt_id = v, rt_platform = RUNTIME_PLATFORM_NATIVE_LINUX, rt_toolchain = RUNTIME_TOOLCHAIN_C,
     rt_spec = Runtime_Cpp (Some (gcc_cpp\<lparr>cpp_compiler_version := Some (parseVersion v)\<rparr>)),
     rt_description = None, rt_peer_ids = []\<rparr>"

definition gcc_11_asked :: ToolchainResolution where
  "gcc_11_asked = ResolveGccToolchain \<lparr>cd_compiler_version = ''11.2.0'', cd_c_runtime = ''glibc'',
     cd_c_runtime_version = '''', cd_cpp_stdlib = '''', cd_architecture = ''x86_64''\<rparr> [''-O2'', ''-m64'']"

theorem FindMatchingRuntime_best_witness:
  "\<exists>m s. FindMatchingRuntime gcc_11_asked [None, Some (gcc_runtime ''9.3.0''), Some (gcc_runtime ''11.2.0'')] = (m, s) \<and>
     s \<le> 1000 \<and> runtime_score gcc_11_asked (Some (gcc_runtime ''11.2.0'')) \<le> s"
proof -
  let ?rts = "[None, Some (gcc_runtime ''9.3.0''), Some (gcc_runtime ''11.2.0'')]"
  obtain m s where "FindMatchingRuntime gcc_11_asked ?rts = (m, s)" by (cases "FindMatchingRuntime gcc_11_asked ?rts")
  with FindMatchingRuntime_best [OF this] show ?thesis by auto
qed

text \<open>Asked for gcc 11.2.0, the driver takes gcc 9.3.0.\<close>
theorem version_never_matches_witness:
  "scoreToolchainMatch gcc_11_asked (GetCpp (gcc_runtime ''11.2.0'')) =
     scoreToolchainMatch gcc_11_asked (GetCpp (gcc_runtime ''9.3.0'')) \<and>
   fst (FindMatchingRuntime gcc_11_asked [Some (gcc_runtime ''9.3.0''), Some (gcc_runtime ''11.2.0'')]) =
     Some (gcc_runtime ''9.3.0'')"
proof
  have c: "GetCpp (gcc_runtime v) = Some (gcc_cpp\<lparr>cpp_compiler_version := Some (parseVersion v)\<rparr>)" for v
    by (simp add: gcc_runtime_def GetCpp_def)
  have "tr_compiler_version gcc_11_asked \<noteq> ''''" by code_simp
  then show same: "scoreToolchainMatch gcc_11_asked (GetCpp (gcc_runtime ''11.2.0'')) =
     scoreToolchainMatch gcc_11_asked (GetCpp (gcc_runtime ''9.3.0''))"
    unfolding c by (rule version_never_matches)
  have "stringToCppCompiler (tr_compiler_type gcc_11_asked) = CPP_COMPILER_GCC" by code_simp
  then have "0 < scoreToolchainMatch gcc_11_asked (GetCpp (gcc_runtime ''9.3.0''))"
    unfolding c by (intro score_same_compiler) (simp add: gcc_cpp_def)
  then show "fst (FindMatchingRuntime gcc_11_asked [Some (gcc_runtime ''9.3.0''), Some (gcc_runtime ''11.2.0'')]) =
     Some (gcc_runtime ''9.3.0'')"
    using same by (simp add: FindMatchingRuntime_def getRuntimeCppToolchain_def c Let_def)
qed

end
