(* ===== verification/ArDriver.thy ===== *)
theory ArDriver
  imports GccDriver RuntimeMatch
begin

text \<open>
  The archiver driver (pkg/drivers/cpp/ar_common: types.go, parser.go, config.go, job.go,
  runtime_validation.go; pkg/drivers/cpp/ar/interface.go): the command line of ar, the
  configuration of the driver and the job, which asks for any runtime with a matching ABI.
\<close>

section \<open>Command lines\<close>

datatype ArchiveMode = ModeWrite | ModeUpdate | ModeCreate | ModeVerbose | ModeQuick

record ArParsedArgs =
  ap_flags :: "string list"
  ap_input_files :: "string list"
  ap_output_file :: string
  ap_original_args :: "string list"
  ap_mode :: ArchiveMode

fun ArchiveMode_String :: "ArchiveMode \<Rightarrow> string" where
  "ArchiveMode_String ModeWrite = ''write''"
| "ArchiveMode_String ModeUpdate = ''update''"
| "ArchiveMode_String ModeCreate = ''create''"
| "ArchiveMode_String ModeVerbose = ''verbose''"
| "ArchiveMode_String ModeQuick = ''quick''"

datatype ar_error = ErrNoOutputFile | ErrMissingArg

text \<open>A word is a command when its first character is one of ar's commands and the others are
  modifiers, after an optional dash.\<close>

definition undash :: "string \<Rightarrow> string" where
  "undash s = (if has_prefix s ''-'' then drop 1 s else s)"

definition isCommandString :: "string \<Rightarrow> bool" where
  "isCommandString s =
     (if s = '''' then False
      else (let str = undash s
            in if str = '''' then False
               else str ! 0 \<in> set ''dDmMpPqQrRsStTxX'' \<and>
                 list_all (\<lambda>ch. ch \<in> set ''aAbBcCDfFiIlLMNoOPsSTuUvV'') (drop 1 str)))"

definition extractCommandAndModifiers :: "string \<Rightarrow> string list" where
  "extractCommandAndModifiers s = map (\<lambda>ch. [ch]) (undash s)"

text \<open>skipOption moves the index: the result is what is left of the arguments, or None when the
  first is no option.\<close>

definition skipOption :: "string \<Rightarrow> string list \<Rightarrow> string list option" where
  "skipOption arg rest =
     (if has_prefix arg ''--'' \<and> CHR ''='' \<in> set arg then Some rest
      else if arg = ''--plugin'' \<or> arg = ''--target'' \<or> arg = ''--output'' then Some (drop 1 rest)
      else if has_prefix arg ''@'' then Some rest
      else if has_prefix arg ''--'' then Some rest
      else if has_prefix arg ''-'' \<and> \<not> isCommandString arg then Some rest
      else None)"

lemma skipOption_length: "skipOption arg rest = Some left \<Longrightarrow> length left \<le> length rest"
  by (auto simp: skipOption_def split: if_splits)

text \<open>The first loop finds the command and gives its flags and the arguments after it; the second
  skips options.\<close>

function find_command :: "string list \<Rightarrow> string list \<times> string list" where
  "find_command [] = ([], [])"
| "find_command (arg # rest) =
     (if isCommandString arg then (extractCommandAndModifiers arg, rest)
      else (case skipOption arg rest of Some left \<Rightarrow> find_command left | None \<Rightarrow> ([], arg # rest)))"
  by pat_completeness auto
termination by (relation "measure length") (auto dest: skipOption_length)

function skip_options :: "string list \<Rightarrow> string list" where
  "skip_options [] = []"
| "skip_options (arg # rest) =
     (case skipOption arg rest of Some left \<Rightarrow> skip_options left | None \<Rightarrow> arg # rest)"
  by pat_completeness auto
termination by (relation "measure length") (auto dest: skipOption_length)

definition flag_mode :: "string \<Rightarrow> ArchiveMode \<Rightarrow> ArchiveMode" where
  "flag_mode flag m =
     (if flag = ''r'' \<or> flag = ''R'' then ModeWrite else if flag = ''u'' \<or> flag = ''U'' then ModeUpdate
      else if flag = ''c'' \<or> flag = ''C'' then ModeCreate else if flag = ''v'' \<or> flag = ''V'' then ModeVerbose
      else if flag = ''q'' \<or> flag = ''Q'' then ModeQuick else m)"

definition updateModeFromFlags :: "ArParsedArgs \<Rightarrow> ArParsedArgs" where
  "updateModeFromFlags p = p\<lparr>ap_mode := fold flag_mode (ap_flags p) ModeWrite\<rparr>"

definition ar_ParseCommandLine :: "string list \<Rightarrow> ArParsedArgs" where
  "ar_ParseCommandLine args =
     (if length args = 0
      then \<lparr>ap_flags = [], ap_input_files = [], ap_output_file = '''', ap_original_args = args, ap_mode = ModeWrite\<rparr>
      else case find_command args of (flags, rest) \<Rightarrow>
        (let left = skip_options rest
         in updateModeFromFlags
              \<lparr>ap_flags = flags, ap_input_files = drop 1 left,
               ap_output_file = (case left of [] \<Rightarrow> '''' | archive # _ \<Rightarrow> archive),
               ap_original_args = args, ap_mode = ModeWrite\<rparr>))"

definition ar_ValidateAndParseArgs :: "string list \<Rightarrow> ar_error + ArParsedArgs" where
  "ar_ValidateAndParseArgs args =
     (if length args < 2 then Err ErrMissingArg
      else (let parsed = ar_ParseCommandLine args
            in if ap_output_file parsed = '''' then Err ErrNoOutputFile else Ok parsed))"

section \<open>Configuration\<close>

record ArConfig =
  ac_c_runtime :: NativeCRuntime
  ac_c_runtime_version :: string
  ac_architecture :: Architecture

definition ar_extractCRuntime :: "config_map \<Rightarrow> config_error + NativeCRuntime" where
  "ar_extractCRuntime m = (case required_string m ''c_runtime'' of
     Inl e \<Rightarrow> Err e
   | Inr s \<Rightarrow> if s = ''glibc'' then Ok CRuntimeGlibc else if s = ''musl'' then Ok CRuntimeMusl
             else Err (InvalidField ''c_runtime'' s))"

definition ar_extractArchitecture :: "config_map \<Rightarrow> config_error + Architecture" where
  "ar_extractArchitecture m = (case required_string m ''architecture'' of
     Inl e \<Rightarrow> Err e
   | Inr s \<Rightarrow> if s = ''x86_64'' then Ok ArchitectureX86_64 else if s = ''aarch64'' then Ok ArchitectureAArch64
             else if s = ''arm'' then Ok ArchitectureARM else Err (InvalidField ''architecture'' s))"

definition ar_ConfigFromMap :: "config_map option \<Rightarrow> config_error + ArConfig" where
  "ar_ConfigFromMap cfgMap =
     (case cfgMap of None \<Rightarrow> Err ConfigMapNil
      | Some m \<Rightarrow> (case ar_extractCRuntime m of
          Inl e \<Rightarrow> Err e
        | Inr cRuntime \<Rightarrow> (case required_string m ''c_runtime_version'' of
          Inl e \<Rightarrow> Err e
        | Inr cRuntimeVersion \<Rightarrow> (case ar_extractArchitecture m of
          Inl e \<Rightarrow> Err e
        | Inr architecture \<Rightarrow> Ok \<lparr>ac_c_runtime = cRuntime, ac_c_runtime_version = cRuntimeVersion,
            ac_architecture = architecture\<rparr>))))"

section \<open>Jobs\<close>

text \<open>The package has its own copy of the path functions of the compiler drivers.\<close>

definition ar_normalizePathToRelative :: "string \<Rightarrow> string \<Rightarrow> string" where
  "ar_normalizePathToRelative filePath workDir =
     (if \<not> path_is_abs filePath then filePath
      else if workDir \<noteq> '''' then (case Rel workDir filePath of Some r \<Rightarrow> r | None \<Rightarrow> filePath)
      else filePath)"

definition ar_normalizePaths :: "string list \<Rightarrow> string \<Rightarrow> string list" where
  "ar_normalizePaths paths workDir = map (\<lambda>p. ar_normalizePathToRelative p workDir) paths"

lemma ar_normalize_same:
  "ar_normalizePathToRelative = normalizePathToRelative" "ar_normalizePaths = normalizePaths"
proof -
  show "ar_normalizePathToRelative = normalizePathToRelative"
    by (intro ext) (simp add: ar_normalizePathToRelative_def normalizePathToRelative_def)
  then show "ar_normalizePaths = normalizePaths"
    by (intro ext) (simp add: ar_normalizePaths_def normalizePaths_def)
qed

definition archive_job :: "ArParsedArgs \<Rightarrow> string \<Rightarrow> CppArchiveJob" where
  "archive_job p workDir =
     \<lparr>ca_input_files = ar_normalizePaths (ap_input_files p) workDir,
      ca_ar_flags = ap_flags p, ca_output_file = ar_normalizePathToRelative (ap_output_file p) workDir\<rparr>"

text \<open>A job without inputs, outputs or timeout; the time is set by the daemon.\<close>

definition bare_archive_job :: "string \<Rightarrow> RuntimeRequirement \<Rightarrow> ArParsedArgs \<Rightarrow> string \<Rightarrow> Job" where
  "bare_archive_job jobID req p workDir =
     \<lparr>job_id = jobID, job_requirement = req, job_input_data_ids = [],
      job_spec = Job_CppArchive (Some (archive_job p workDir)), job_content_hash = None,
      job_source_client_id = '''', job_submitted_at = Some 0, job_timeout = None, job_dependency_ids = [],
      job_inputs = [], job_outputs = [], job_cwd = workDir\<rparr>"

datatype archive_error =
  ParsedNil | RuntimeNil | ArConfigNil
| CRuntimeUnknown | CRuntimeVersionNil | ArchitectureUnknown | NoCppToolchain
| StagingFailed staging_error
| LoadConfigFailed | ArConfigMissing | ArConfigInvalid config_error

definition CreateArchiveJob ::
  "string \<Rightarrow> ArParsedArgs option \<Rightarrow> Runtime option \<Rightarrow> string \<Rightarrow> archive_error + Job" where
  "CreateArchiveJob jobID parsed runtime workDir =
     (case parsed of None \<Rightarrow> Err ParsedNil
      | Some p \<Rightarrow> (case runtime of None \<Rightarrow> Err RuntimeNil
        | Some rt \<Rightarrow> Ok (bare_archive_job jobID (Job_Runtime (Some rt)) p workDir)))"

text \<open>A query for a C runtime, its version and an architecture, whatever the standard library.\<close>

definition abi_query :: "string \<Rightarrow> string \<Rightarrow> string \<Rightarrow> RuntimeMatchQuery" where
  "abi_query cruntime cruntimeVersion arch =
     \<lparr>q_platforms = [], q_toolchains = [RUNTIME_TOOLCHAIN_C, RUNTIME_TOOLCHAIN_CPP],
      q_params = [(''c_runtime'', Some [cruntime]), (''c_runtime_version'', Some [cruntimeVersion]),
        (''architecture'', Some [arch]), (''cpp_stdlib'', Some [])]\<rparr>"

definition CreateArchiveJobWithRuntimeABI ::
  "(Version \<Rightarrow> string) \<Rightarrow> string \<Rightarrow> ArParsedArgs option \<Rightarrow> Runtime option \<Rightarrow> string \<Rightarrow> archive_error + Job" where
  "CreateArchiveJobWithRuntimeABI vstr jobID parsed runtime workDir =
     (case parsed of None \<Rightarrow> Err ParsedNil
      | Some p \<Rightarrow> (case runtime of None \<Rightarrow> Err RuntimeNil
        | Some rt \<Rightarrow> (case rt_spec rt of
            Runtime_Cpp (Some cpp) \<Rightarrow>
              if cpp_c_runtime cpp = C_RUNTIME_UNSPECIFIED then Err CRuntimeUnknown
              else (case cpp_c_runtime_version cpp of
                None \<Rightarrow> Err CRuntimeVersionNil
              | Some v \<Rightarrow>
                  if cpp_architecture cpp = CPU_ARCHITECTURE_UNSPECIFIED then Err ArchitectureUnknown
                  else Ok (bare_archive_job jobID (Job_RuntimeMatchQuery (Some (abi_query
                    (CRuntime_name (cpp_c_runtime cpp)) (vstr v) (CpuArchitecture_name (cpp_architecture cpp)))))
                    p workDir))
          | _ \<Rightarrow> Err NoCppToolchain)))"

definition config_query :: "ArConfig \<Rightarrow> RuntimeMatchQuery" where
  "config_query cfg = abi_query (CRuntime_String (ac_c_runtime cfg)) (ac_c_runtime_version cfg)
     (Architecture_String (ac_architecture cfg))"

definition CreateArchiveJobWithRuntimeABIFromConfig ::
  "string \<Rightarrow> int \<Rightarrow> Fs \<Rightarrow> ArParsedArgs option \<Rightarrow> ArConfig option \<Rightarrow> string \<Rightarrow> archive_error + Job" where
  "CreateArchiveJobWithRuntimeABIFromConfig jobID now fs parsed cfg workDir =
     (case parsed of None \<Rightarrow> Err ParsedNil
      | Some p \<Rightarrow> (case cfg of None \<Rightarrow> Err ArConfigNil
        | Some c \<Rightarrow> (case CreateJobDataListForFiles fs (NewJobDataStager workDir) (ap_input_files p) JobDataModeReference of
            Inl e \<Rightarrow> Err (StagingFailed e)
          | Inr inputs \<Rightarrow> Ok ((bare_archive_job jobID (Job_RuntimeMatchQuery (Some (config_query c))) p workDir)
              \<lparr>job_inputs := inputs, job_outputs := [Some (announced_output now (ap_output_file p))]\<rparr>))))"

text \<open>The driver's CreateJob, with the configuration that was loaded for its working directory.\<close>

definition ar_CreateJob ::
  "(string, config_map) gomap option \<Rightarrow> string \<Rightarrow> int \<Rightarrow> Fs \<Rightarrow> ArParsedArgs \<Rightarrow> string \<Rightarrow> archive_error + Job" where
  "ar_CreateJob drivers jobID now fs parsed workDir =
     (case drivers of None \<Rightarrow> Err LoadConfigFailed
      | Some ds \<Rightarrow> (case gm_get ds ''ar'' of
          None \<Rightarrow> Err ArConfigMissing
        | Some m \<Rightarrow> (case ar_ConfigFromMap (Some m) of
            Inl e \<Rightarrow> Err (ArConfigInvalid e)
          | Inr cfg \<Rightarrow> CreateArchiveJobWithRuntimeABIFromConfig jobID now fs (Some parsed) (Some cfg) workDir)))"

definition ar_ValidateArgs :: "string list \<Rightarrow> ar_error option" where
  "ar_ValidateArgs args = (case ar_ValidateAndParseArgs args of Inl e \<Rightarrow> Some e | Inr _ \<Rightarrow> None)"

definition ValidateRuntimeForArchive :: "Runtime option \<Rightarrow> bool \<times> string" where
  "ValidateRuntimeForArchive runtime =
     (case runtime of None \<Rightarrow> (False, ''runtime is nil'')
      | Some rt \<Rightarrow>
          if rt_toolchain rt \<noteq> RUNTIME_TOOLCHAIN_C \<and> rt_toolchain rt \<noteq> RUNTIME_TOOLCHAIN_CPP
          then (False, ''archive operations require C or C++ toolchain'')
          else if GetCpp rt \<noteq> None then (True, '''')
          else (False, ''runtime does not support archive operations (requires C/C++ toolchain)''))"

definition ar_ConstructRuntimeID :: "config_map option \<Rightarrow> config_error + string" where
  "ar_ConstructRuntimeID cfgMap = Err NoConstructRuntimeID"

definition ar_ApplyToolArgs :: "Runtime \<Rightarrow> string list \<Rightarrow> config_error + Runtime" where
  "ar_ApplyToolArgs baseRuntime toolArgs = Ok baseRuntime"

section \<open>What ar is asked to do\<close>

text \<open>A word that is skipped on its own, and an option with its argument.\<close>

inductive ar_option :: "string list \<Rightarrow> bool" where
  alone: "has_prefix arg ''@'' \<or> has_prefix arg ''-'' \<and> (has_prefix arg ''--'' \<longrightarrow> arg \<notin> {''--plugin'', ''--target'', ''--output''})
     \<Longrightarrow> \<not> isCommandString arg \<Longrightarrow> ar_option [arg]"
| with_argument: "arg \<in> {''--plugin'', ''--target'', ''--output''} \<Longrightarrow> ar_option [arg, v]"

definition positional :: "string \<Rightarrow> bool" where
  "positional a = (skipOption a [] = None)"

lemma double_dash_no_command: "has_prefix arg ''--'' \<Longrightarrow> \<not> isCommandString arg"
proof -
  assume "has_prefix arg ''--''"
  then obtain q where "arg = CHR ''-'' # CHR ''-'' # q" by (auto simp: strs prefix_def)
  then show ?thesis by (simp add: isCommandString_def undash_def has_prefix_def)
qed

lemma skip_ar_option:
  "ar_option w \<Longrightarrow> \<exists>a v. w = a # v \<and> \<not> isCommandString a \<and> skipOption a (v @ rest) = Some rest"
proof (induction rule: ar_option.induct)
  case (alone arg)
  then show ?case by (auto simp: skipOption_def has_prefix_def)
next
  case (with_argument arg v)
  then show ?case using double_dash_no_command [of arg] by (auto simp: skipOption_def has_prefix_def)
qed

lemma skip_positional: "positional a \<Longrightarrow> skipOption a rest = None"
  by (auto simp: positional_def skipOption_def split: if_splits)

lemma find_after_options:
  "list_all ar_option ws \<Longrightarrow> find_command (concat ws @ rest) = find_command rest"
proof (induction ws)
  case (Cons w ws)
  then obtain a v where "w = a # v" "\<not> isCommandString a" "skipOption a (v @ (concat ws @ rest)) = Some (concat ws @ rest)"
    using skip_ar_option [of w "concat ws @ rest"] by auto
  with Cons show ?case by simp
qed simp

lemma skip_after_options:
  "list_all ar_option ws \<Longrightarrow> skip_options (concat ws @ rest) = skip_options rest"
proof (induction ws)
  case (Cons w ws)
  then obtain a v where "w = a # v" "skipOption a (v @ (concat ws @ rest)) = Some (concat ws @ rest)"
    using skip_ar_option [of w "concat ws @ rest"] by auto
  with Cons show ?case by simp
qed simp

lemma ar_ParseCommandLine_words:
  assumes "list_all ar_option before" "list_all ar_option after" "isCommandString cmd" "positional archive"
    and "args = concat before @ [cmd] @ concat after @ archive # inputs"
  shows "ap_flags (ar_ParseCommandLine args) = map (\<lambda>c. [c]) (undash cmd)"
    "ap_output_file (ar_ParseCommandLine args) = archive" "ap_input_files (ar_ParseCommandLine args) = inputs"
proof -
  have "find_command args = (map (\<lambda>c. [c]) (undash cmd), concat after @ archive # inputs)"
    unfolding assms(5) using find_after_options [OF assms(1)] assms(3) by (simp add: extractCommandAndModifiers_def)
  moreover have "skip_options (concat after @ archive # inputs) = archive # inputs"
    unfolding skip_after_options [OF assms(2)] using skip_positional [OF assms(4)] by simp
  moreover have "args \<noteq> []" by (simp add: assms(5))
  ultimately show "ap_flags (ar_ParseCommandLine args) = map (\<lambda>c. [c]) (undash cmd)"
    "ap_output_file (ar_ParseCommandLine args) = archive" "ap_input_files (ar_ParseCommandLine args) = inputs"
    by (simp_all add: ar_ParseCommandLine_def updateModeFromFlags_def)
qed

lemma concat_singletons [simp]: "concat (map (\<lambda>c. [c]) xs) = xs"
  by (induction xs) simp_all

lemma archive_job_created:
  assumes "CreateArchiveJobWithRuntimeABIFromConfig jobID now fs (Some p) (Some cfg) wd = Ok job"
  shows "CreateJobDataListForFiles fs (NewJobDataStager wd) (ap_input_files p) JobDataModeReference = Ok (job_inputs job)"
    "job_spec job = Job_CppArchive (Some (archive_job p wd))" "job_cwd job = wd"
    "job_requirement job = Job_RuntimeMatchQuery (Some (config_query cfg))"
    "job_outputs job = [Some (announced_output now (ap_output_file p))]"
  using assms
  by (auto simp: CreateArchiveJobWithRuntimeABIFromConfig_def bare_archive_job_def split: sum.splits)

lemma archive_native:
  assumes "ap_flags p \<noteq> []"
  shows "native_command (Job_CppArchive (Some (archive_job p wd))) =
    Some (concat (ap_flags p) # normalizePathToRelative (ap_output_file p) wd # normalizePaths (ap_input_files p) wd)"
  using assms
  by (simp add: archive_args_def protoArchiveJobToConcrete_def archive_job_def ar_normalize_same)

lemma command_not_bare: "isCommandString cmd \<Longrightarrow> undash cmd \<noteq> []"
  by (auto simp: isCommandString_def Let_def split: if_splits)

text \<open>C32. A command line of ar goes round: options, a command, options, the archive and its members give
  a job whose native command is the command without its dash, the archive and the members by their
  places relative to the working directory; the inputs verify there, and the job asks for the ABI
  of the configuration. The options are dropped.\<close>
theorem ar_command_roundtrip:
  assumes "list_all ar_option before" and "list_all ar_option after" and "isCommandString cmd" and "positional archive"
    and "args = concat before @ [cmd] @ concat after @ archive # inputs" and "path_is_abs wd"
    and "CreateArchiveJobWithRuntimeABIFromConfig jobID now fs (Some (ar_ParseCommandLine args)) (Some cfg) wd = Ok job"
  shows "native_command (job_spec job) =
      Some (undash cmd # normalizePathToRelative archive wd # normalizePaths inputs wd) \<and>
    length (job_inputs job) = length inputs \<and>
    VerifyJobInputs fs (Some job) VerificationModeIntegrity = None \<and>
    job_requirement job = Job_RuntimeMatchQuery (Some (config_query cfg))"
proof -
  note p = ar_ParseCommandLine_words [OF assms(1-5)]
  note job = archive_job_created [OF assms(7)]
  have wd: "path_is_abs (st_work_dir (NewJobDataStager wd))" "st_work_dir (NewJobDataStager wd) = wd" "wd \<noteq> ''''"
    using assms(6) path_is_abs_not_Nil by (simp_all add: NewJobDataStager_def)
  note verified = list_data_verifies [OF job(1) wd(1), of 0, unfolded wd(2)]
  have "ap_flags (ar_ParseCommandLine args) \<noteq> []" using command_not_bare [OF assms(3)] by (simp add: p)
  from archive_native [OF this, of wd] have "native_command (job_spec job) =
      Some (undash cmd # normalizePathToRelative archive wd # normalizePaths inputs wd)"
    by (simp add: job p)
  with list_data_length [OF job(1)] verified job wd p show ?thesis
    by (simp add: VerifyJobInputs_def VerifyJobDataList_def)
qed

section \<open>Which runtimes serve an archive job\<close>

lemma native_abi_parameters:
  assumes "mset ps = mset (q_params (abi_query cr crv arch))"
  shows "matchesRuntimeParameters vstr t ps = Some (Ok
    (accepts [cr] (CRuntime_name (ProtoCRuntime t)) (CRuntime_String (tc_c_runtime t)) \<and>
     accepts [crv] (vstr (NativeParseVersionString (tc_c_runtime_version t))) (tc_c_runtime_version t) \<and>
     accepts [arch] (CpuArchitecture_name (ProtoArchitecture t)) (Architecture_String (tc_architecture t))))"
proof -
  let ?m = "\<lambda>(k, c). case c of None \<Rightarrow> False | Some vs \<Rightarrow> matchesRuntimeParameter vstr t k vs = Ok True"
  have all: "\<forall>(k, c)\<in>set ps. c \<noteq> None \<and> (\<exists>b. matchesRuntimeParameter vstr t k (the c) = Ok b)"
    using mset_eq_setD [OF assms] by (auto simp: abi_query_def matchesRuntimeParameter_def)
  have "matchesRuntimeParameters vstr t ps = Some (Ok (list_all ?m ps))"
    using all
  proof (induction ps)
    case (Cons p ps)
    obtain k c where p: "p = (k, c)" by (cases p)
    with Cons.prems obtain vs b where "c = Some vs" "matchesRuntimeParameter vstr t k vs = Ok b" by auto
    with Cons p show ?case by (cases b) auto
  qed simp
  moreover have "list_all ?m ps \<longleftrightarrow> list_all ?m (q_params (abi_query cr crv arch))"
    using mset_eq_setD [OF assms] by (simp add: list_all_iff)
  ultimately show ?thesis
    by (simp add: abi_query_def matchesRuntimeParameter_def accepts_def)
qed

lemma plain_names_differ:
  "c \<noteq> CRuntimeUnspecified \<Longrightarrow> CRuntime_String c \<noteq> CRuntime_name d"
  "a \<noteq> ArchitectureUnspecified \<Longrightarrow> Architecture_String a \<noteq> CpuArchitecture_name b"
proof -
  show "c \<noteq> CRuntimeUnspecified \<Longrightarrow> CRuntime_String c \<noteq> CRuntime_name d" by (cases c; cases d) simp_all
  show "a \<noteq> ArchitectureUnspecified \<Longrightarrow> Architecture_String a \<noteq> CpuArchitecture_name b" by (cases a; cases b) simp_all
qed

lemma configured_names:
  assumes "ar_ConfigFromMap (Some m) = Ok cfg"
  shows "ac_c_runtime cfg \<noteq> CRuntimeUnspecified" "ac_architecture cfg \<noteq> ArchitectureUnspecified"
  using assms
  by (auto simp: ar_ConfigFromMap_def ar_extractCRuntime_def ar_extractArchitecture_def
      split: sum.splits if_splits)

lemma names_injective:
  "CRuntime_String c = CRuntime_String d \<longleftrightarrow> c = d"
  "Architecture_String a = Architecture_String b \<longleftrightarrow> a = b"
proof -
  show "CRuntime_String c = CRuntime_String d \<longleftrightarrow> c = d" by (cases c; cases d) simp_all
  show "Architecture_String a = Architecture_String b \<longleftrightarrow> a = b" by (cases a; cases b) simp_all
qed

lemma plain_names_unmet:
  assumes "c \<noteq> CRuntimeUnspecified"
  shows "\<not> constraint_met (daemon_extractRuntimeParameters vstr rt) (''c_runtime'', Some [CRuntime_String c])"
    "\<not> constraint_met (peers_value_of vstr rt) (''c_runtime'', Some [CRuntime_String c])"
proof -
  have never: "(CRuntime_String c = CRuntime_name d) = False" "(CRuntime_name d = CRuntime_String c) = False" for d
    using plain_names_differ(1) [OF assms, of d] by auto
  show "\<not> constraint_met (daemon_extractRuntimeParameters vstr rt) (''c_runtime'', Some [CRuntime_String c])"
    "\<not> constraint_met (peers_value_of vstr rt) (''c_runtime'', Some [CRuntime_String c])"
    by (auto simp: constraint_met_def daemon_extractRuntimeParameters_def peers_value_of_def never
      peers_extractRuntimeParameters_def split: ToolchainSpec.splits option.splits)
qed

text \<open>Whom an archive job can run on: a native C or C++ runtime matches the query of a configuration exactly
  when it has that C runtime, in that version as it writes it or as protobuf does, and that
  architecture, in whatever order the parameters are visited; the matchers of the daemon and of the
  peers, which compare protobuf's names with the plain names of the query, take no runtime at all.\<close>
theorem archive_query_matches:
  assumes "ar_ConfigFromMap (Some m) = Ok cfg" and "mset ps = mset (q_params (config_query cfg))"
    and "tc_language t \<noteq> LanguageUnspecified"
  shows "NativeMatchesQuery vstr t (Some ((config_query cfg)\<lparr>q_params := ps\<rparr>)) = Some (Ok
      (tc_c_runtime t = ac_c_runtime cfg \<and> tc_architecture t = ac_architecture cfg \<and>
       ac_c_runtime_version cfg \<in> {tc_c_runtime_version t, vstr (NativeParseVersionString (tc_c_runtime_version t))})) \<and>
    \<not> daemon_runtimeMatchesQuery vstr rt ((config_query cfg)\<lparr>q_params := ps\<rparr>) \<and>
    peers_runtimeMatchesQuery vstr rt ((config_query cfg)\<lparr>q_params := ps\<rparr>) = Some False"
proof -
  let ?q = "(config_query cfg)\<lparr>q_params := ps\<rparr>"
  note named = configured_names [OF assms(1)]
  have "ProtoCppToolchain t \<in> set [RUNTIME_TOOLCHAIN_C, RUNTIME_TOOLCHAIN_CPP]"
    using assms(3) by (cases "tc_language t") (simp_all add: ProtoCppToolchain_def)
  then have native: "NativeMatchesQuery vstr t (Some ?q) = matchesRuntimeParameters vstr t ps"
    by (simp add: NativeMatchesQuery_def config_query_def abi_query_def)
  have cr: "accepts [CRuntime_String (ac_c_runtime cfg)] (CRuntime_name (ProtoCRuntime t)) (CRuntime_String (tc_c_runtime t))
      \<longleftrightarrow> tc_c_runtime t = ac_c_runtime cfg"
    using plain_names_differ(1) [OF named(1), of "ProtoCRuntime t"] by (auto simp: accepts_def names_injective)
  have arch: "accepts [Architecture_String (ac_architecture cfg)] (CpuArchitecture_name (ProtoArchitecture t))
      (Architecture_String (tc_architecture t)) \<longleftrightarrow> tc_architecture t = ac_architecture cfg"
    using plain_names_differ(2) [OF named(2), of "ProtoArchitecture t"] by (auto simp: accepts_def names_injective)
  have "matchesRuntimeParameters vstr t ps = Some (Ok
      (tc_c_runtime t = ac_c_runtime cfg \<and> tc_architecture t = ac_architecture cfg \<and>
       ac_c_runtime_version cfg \<in> {tc_c_runtime_version t, vstr (NativeParseVersionString (tc_c_runtime_version t))}))"
    using native_abi_parameters [OF assms(2) [unfolded config_query_def], of vstr t]
    unfolding cr arch by (auto simp: accepts_def)
  moreover
  have crt: "(''c_runtime'', Some [CRuntime_String (ac_c_runtime cfg)]) \<in> set (q_params ?q)"
    using mset_eq_setD [OF assms(2)] by (simp add: config_query_def abi_query_def)
  moreover have "no_nil_constraint ?q"
    using mset_eq_setD [OF assms(2)] by (auto simp: no_nil_constraint_def list_all_iff config_query_def abi_query_def)
  moreover have "\<not> query_met (daemon_extractRuntimeParameters vstr rt) rt ?q"
    "\<not> query_met (peers_value_of vstr rt) rt ?q"
    using plain_names_unmet [OF named(1), of vstr rt] crt by (auto simp: query_met_def)
  ultimately show ?thesis
    using native by (simp add: daemon_runtimeMatchesQuery_iff peers_runtimeMatchesQuery_iff)
qed

text \<open>An archive named by an absolute path is lost: a driver's job announces it as it was named, and a
  result that brings it does not materialise, while the compiler drivers announce the place relative
  to the working directory, and its results are not refused for their paths.\<close>
theorem absolute_archive_refused:
  assumes "CreateArchiveJobWithRuntimeABIFromConfig jobID now fs (Some p) (Some cfg) wd = Ok job"
    and "CreateCppJob jobID now fs parsed rt wd = Ok job'" and "path_is_abs wd" and "path_is_abs (ap_output_file p)"
  shows "MaterializeJobOutputs job res workDir fs' = (Err (AtIndex 0 (AbsolutePath (ap_output_file p))), fs') \<and>
    validateJobDataPathList (job_outputs job') = None"
proof -
  have "validateJobDataPathList (job_outputs job) = Some (AtIndex 0 (AbsolutePath (ap_output_file p)))"
    using assms(4) by (simp add: archive_job_created [OF assms(1)] validateJobDataPathList_def announced_output_def
      validateJobDataPath_def GetReference_def GetFile_def)
  then have "MaterializeJobOutputs job res workDir fs' = (Err (AtIndex 0 (AbsolutePath (ap_output_file p))), fs')"
    by (simp add: MaterializeJobOutputs_def archive_job_created [OF assms(1)])
  moreover from CreateCppJob_Ok [OF assms(2)]
  have "job_outputs job' = [Some (announced_output now (normalizePathToRelative (pa_output_file parsed) wd))]" by metis
  then have "validateJobDataPathList (job_outputs job') = None"
    using normalize_relative [OF assms(3), of "pa_output_file parsed"]
    by (simp add: validateJobDataPathList_def announced_output_def
      validateJobDataPath_def GetReference_def GetFile_def GetDirectory_def)
  ultimately show ?thesis by blast
qed

text \<open>An archive job without members is no job for a native runtime, though the driver accepts it, as
  for listing an archive.\<close>
lemma archive_without_members:
  "ap_input_files p = [] \<Longrightarrow>
   ExecuteArchiveJob env e (protoArchiveJobToConcrete (archive_job p wd)) = Err NoInputFiles"
  by (simp add: ExecuteArchiveJob_def protoArchiveJobToConcrete_def archive_job_def ar_normalizePaths_def)

section \<open>Samples\<close>

definition ar_line :: "string list" where
  "ar_line = [''--plugin'', ''lto'', ''-rcs'', ''/w/libx.a'', ''m.c'']"

definition ar_settings :: config_map where
  "ar_settings = [(''c_runtime'', CfgString ''glibc''), (''c_runtime_version'', CfgString ''2.31''),
     (''architecture'', CfgString ''x86_64'')]"

definition ar_cfg :: ArConfig where
  "ar_cfg = \<lparr>ac_c_runtime = CRuntimeGlibc, ac_c_runtime_version = ''2.31'', ac_architecture = ArchitectureX86_64\<rparr>"

lemma ar_settings_valid: "ar_ConfigFromMap (Some ar_settings) = Ok ar_cfg"
  by (simp add: ar_ConfigFromMap_def ar_settings_def ar_extractCRuntime_def ar_extractArchitecture_def
      required_string_def ar_cfg_def)

lemma ar_line_job: "\<exists>job. CreateArchiveJobWithRuntimeABIFromConfig ''j'' 0 sample_fs
  (Some (ar_ParseCommandLine ar_line)) (Some ar_cfg) ''/w'' = Ok job"
proof -
  have "is_ok (CreateArchiveJobWithRuntimeABIFromConfig ''j'' 0 sample_fs
      (Some (ar_ParseCommandLine ar_line)) (Some ar_cfg) ''/w'')" by code_simp
  then show ?thesis by (auto simp: is_ok_def split: sum.splits)
qed

theorem ar_command_roundtrip_witness:
  "\<exists>job. CreateArchiveJobWithRuntimeABIFromConfig ''j'' 0 sample_fs
     (Some (ar_ParseCommandLine ar_line)) (Some ar_cfg) ''/w'' = Ok job \<and>
   native_command (job_spec job) = Some [''rcs'', ''libx.a'', ''m.c'']"
proof -
  from ar_line_job obtain job where job: "CreateArchiveJobWithRuntimeABIFromConfig ''j'' 0 sample_fs
     (Some (ar_ParseCommandLine ar_line)) (Some ar_cfg) ''/w'' = Ok job" by blast
  have "list_all ar_option [[''--plugin'', ''lto'']]" by (simp add: ar_option.intros)
  moreover have "list_all ar_option []" by simp
  moreover have "isCommandString ''-rcs''" "positional ''/w/libx.a''" by code_simp+
  moreover have "ar_line = concat [[''--plugin'', ''lto'']] @ [''-rcs''] @ concat [] @ ''/w/libx.a'' # [''m.c'']"
    by (simp add: ar_line_def)
  moreover have "path_is_abs ''/w''" by simp
  ultimately have "native_command (job_spec job) =
      Some (undash ''-rcs'' # normalizePathToRelative ''/w/libx.a'' ''/w'' # normalizePaths [''m.c''] ''/w'')"
    using ar_command_roundtrip [OF _ _ _ _ _ _ job] by blast
  moreover have "undash ''-rcs'' # normalizePathToRelative ''/w/libx.a'' ''/w'' # normalizePaths [''m.c''] ''/w'' =
    [''rcs'', ''libx.a'', ''m.c'']" by code_simp
  ultimately show ?thesis using job by simp
qed

theorem archive_query_matches_witness:
  "NativeMatchesQuery (\<lambda>_. ''v'') clang_14 (Some (config_query ar_cfg)) = Some (Ok False) \<and>
   \<not> daemon_runtimeMatchesQuery (\<lambda>_. ''v'') (NativeProto clang_14) (config_query ar_cfg)"
  using archive_query_matches [OF ar_settings_valid refl, of clang_14 "\<lambda>_. ''v''" "NativeProto clang_14"]
  by (simp add: ar_cfg_def clang_14_def)

theorem absolute_archive_refused_witness:
  "\<exists>job e. CreateArchiveJobWithRuntimeABIFromConfig ''j'' 0 sample_fs
     (Some (ar_ParseCommandLine ar_line)) (Some ar_cfg) ''/w'' = Ok job \<and>
   MaterializeJobOutputs job None ''/w'' sample_fs = (Err e, sample_fs)"
proof -
  from ar_line_job obtain job where job: "CreateArchiveJobWithRuntimeABIFromConfig ''j'' 0 sample_fs
     (Some (ar_ParseCommandLine ar_line)) (Some ar_cfg) ''/w'' = Ok job" by blast
  obtain job' where job': "CreateCppJob ''j'' 0 sample_fs (ParseCommandLine sample_line) (NativeProto clang_14) ''/w'' = Ok job'"
    using sample_job_created by blast
  have "path_is_abs ''/w''" "path_is_abs (ap_output_file (ar_ParseCommandLine ar_line))" by code_simp+
  from absolute_archive_refused [OF job job' this] job show ?thesis by blast
qed

end
