(* ===== verification/Resolution.thy ===== *)
theory Resolution
  imports GccDriver ArDriver
begin

text \<open>
  The configuration file of a directory (FindConfigFile and LoadDriverConfig of
  pkg/config/manager.go), the interface of a driver and its registry (pkg/driver/driver.go,
  pkg/drivers/registry.go), and the resolution of the runtime a driver needs against the daemon
  (RuntimeResolver of pkg/drivers/runtime_resolution.go). Reading a configuration
  file with viper, and what the daemon answers, are arguments. Errors are values of a datatype where the
  code formats a text.
\<close>

section \<open>The configuration file\<close>

text \<open>Looking below a regular file is an error that is not the absence of the file.\<close>

definition config_stat :: "Fs \<Rightarrow> string \<Rightarrow> os_error + Node" where
  "config_stat fs p =
     (if list_ex (\<lambda>a. case gm_get (fs_nodes fs) a of Some n \<Rightarrow> \<not> nd_dir n | None \<Rightarrow> False)
           (butlast (ancestors (os_place fs p)))
      then Err OsFailed else os_stat fs p)"

datatype find_result = Found string | NotFound | CheckFailed string

text \<open>The directory is given by its elements, the last one first.\<close>

definition dir_of_elems :: "string list \<Rightarrow> string" where
  "dir_of_elems es = ''/'' @ join_with ''/'' (rev es)"

definition check_dir :: "Fs \<Rightarrow> string \<Rightarrow> find_result" where
  "check_dir fs d =
     (let p = Join [d, ''.buildozer''] in
      case config_stat fs p of
        Inr _ \<Rightarrow> Found p
      | Inl OsFailed \<Rightarrow> CheckFailed p
      | Inl NotExist \<Rightarrow>
          (let y = Join [d, ''.buildozer.yaml''] in
           case config_stat fs y of Inr _ \<Rightarrow> Found y | Inl OsFailed \<Rightarrow> CheckFailed y | Inl NotExist \<Rightarrow> NotFound))"

fun search_up :: "Fs \<Rightarrow> string list \<Rightarrow> find_result" where
  "search_up fs [] = check_dir fs (dir_of_elems [])"
| "search_up fs (e # es) =
     (case check_dir fs (dir_of_elems (e # es)) of NotFound \<Rightarrow> search_up fs es | res \<Rightarrow> res)"

definition FindConfigFile :: "Fs \<Rightarrow> string \<Rightarrow> find_result" where
  "FindConfigFile fs startDir =
     (let absDir = (if startDir = '''' then Clean (fs_cwd fs) else Abs (fs_cwd fs) startDir)
      in search_up fs (rev (abs_elems absDir)))"

type_synonym DriverMaps = "(string, config_map) gomap"

datatype load_error = SearchFailed string | ReadFailed string

text \<open>Of the configuration, the settings of the drivers. The defaults have none.\<close>

definition LoadDriverConfig :: "(string \<Rightarrow> DriverMaps option) \<Rightarrow> Fs \<Rightarrow> string \<Rightarrow> load_error + DriverMaps" where
  "LoadDriverConfig readConfig fs startDir =
     (case FindConfigFile fs startDir of
        CheckFailed p \<Rightarrow> Err (SearchFailed p)
      | NotFound \<Rightarrow> Ok []
      | Found p \<Rightarrow> (case readConfig p of None \<Rightarrow> Err (ReadFailed p) | Some ds \<Rightarrow> Ok ds))"

section \<open>Drivers\<close>

text \<open>What the resolver uses of a driver.\<close>

record Driver =
  drv_name :: string
  drv_version :: string
  drv_error_prefix :: string
  drv_apply_tool_args :: "Runtime \<Rightarrow> string list \<Rightarrow> Runtime option"
  drv_validate_runtime :: "Runtime option \<Rightarrow> bool"
  drv_construct_runtime_id :: "config_map option \<Rightarrow> config_error + string"

definition compiler_driver :: "CompilerType \<Rightarrow> Driver" where
  "compiler_driver d = \<lparr>drv_name = driver_name d,
     drv_version = (if d = GCC \<or> d = GXX then ''10.2.1'' else ''14.0.0''),
     drv_error_prefix = driver_name d @ '': error:'', drv_apply_tool_args = ApplyToolArgs,
     drv_validate_runtime = (\<lambda>rt. rc_is_compatible (ValidateRuntime d rt)),
     drv_construct_runtime_id = ConstructRuntimeID (driver_name d)\<rparr>"

definition ar_driver :: Driver where
  "ar_driver = \<lparr>drv_name = ''ar'', drv_version = ''2.37'', drv_error_prefix = ''ar: error:'',
     drv_apply_tool_args = (\<lambda>rt args. case ar_ApplyToolArgs rt args of Inl _ \<Rightarrow> None | Inr rt' \<Rightarrow> Some rt'),
     drv_validate_runtime = (\<lambda>rt. fst (ValidateRuntimeForArchive rt)),
     drv_construct_runtime_id = ar_ConstructRuntimeID\<rparr>"

type_synonym DriverRegistry = "(string, Driver) gomap"

definition RegisterDriver :: "string \<Rightarrow> Driver \<Rightarrow> DriverRegistry \<Rightarrow> DriverRegistry" where
  "RegisterDriver name d reg = gm_put reg name d"

definition GetDriver :: "DriverRegistry \<Rightarrow> string \<Rightarrow> Driver option" where
  "GetDriver reg name = gm_get reg name"

definition registry_ConstructRuntimeID :: "DriverRegistry \<Rightarrow> string \<Rightarrow> config_map option \<Rightarrow> config_error + string" where
  "registry_ConstructRuntimeID reg name cfgMap =
     (case GetDriver reg name of None \<Rightarrow> Err (DriverNotFound name) | Some d \<Rightarrow> drv_construct_runtime_id d cfgMap)"

section \<open>The daemon\<close>

text \<open>What the runtime service answers: the RPC fails, or there is an error in the message, or a
  runtime that may be nil.\<close>

datatype runtime_answer = RpcFailure | RuntimeAnswer "string option" "Runtime option"

datatype daemon_error = DaemonRpcFailed | DaemonError string

definition isNativeRuntime :: "Runtime option \<Rightarrow> bool" where
  "isNativeRuntime runtime = (runtime \<noteq> None)"

definition queryDaemon :: "(string \<Rightarrow> runtime_answer) \<Rightarrow> string \<Rightarrow> daemon_error + (Runtime option \<times> bool)" where
  "queryDaemon getRuntime runtimeID =
     (case getRuntime runtimeID of
        RpcFailure \<Rightarrow> Err DaemonRpcFailed
      | RuntimeAnswer (Some e) _ \<Rightarrow> Err (DaemonError e)
      | RuntimeAnswer None None \<Rightarrow> Ok (None, False)
      | RuntimeAnswer None (Some rt) \<Rightarrow> Ok (Some rt, isNativeRuntime (Some rt)))"

text \<open>The list of runtimes: None is a failed RPC.\<close>

definition resolver_ListCompatibleRuntimes :: "Runtime option list option \<Rightarrow> Driver \<Rightarrow> daemon_error + Runtime option list" where
  "resolver_ListCompatibleRuntimes listed d =
     (case listed of None \<Rightarrow> Err DaemonRpcFailed | Some rts \<Rightarrow> Ok (filter (drv_validate_runtime d) rts))"

section \<open>Resolving\<close>

datatype resolution_error =
  NoCompilerRuntime
| NoRuntimeDetermined
| InvalidRuntimeID string id_error
| InvalidToolArguments
| DaemonQueryFailed daemon_error
| RuntimeNotOnDaemon string

record RuntimeResolutionResult =
  rr_required :: "Runtime option"
  rr_found :: "Runtime option"
  rr_is_native :: bool
  rr_warning :: string
  rr_error :: "resolution_error option"

text \<open>An error is recognized by its text.\<close>

definition isRuntimeMatchQueryDriver :: "string \<Rightarrow> bool" where
  "isRuntimeMatchQueryDriver errMsg =
     (errMsg = ''ar driver does not use ConstructRuntimeID: it uses RuntimeMatchQuery for flexible runtime matching'')"

definition isExplicitRuntimeIDDriver :: "Driver \<Rightarrow> bool" where
  "isExplicitRuntimeIDDriver d = (drv_name d \<noteq> ''ar'')"

text \<open>The identifier from the configuration: nothing without a file, without settings for the driver,
  or with settings no identifier can be made of.\<close>

definition base_runtime_id :: "DriverRegistry \<Rightarrow> load_error + DriverMaps \<Rightarrow> Driver \<Rightarrow> string" where
  "base_runtime_id reg loaded d =
     (case loaded of
        Inl _ \<Rightarrow> ''''
      | Inr drivers \<Rightarrow>
          (case gm_get drivers (drv_name d) of
             None \<Rightarrow> ''''
           | Some m \<Rightarrow> (case registry_ConstructRuntimeID reg (drv_name d) (Some m) of
               Inl e \<Rightarrow> '''' | Inr rid \<Rightarrow> rid)))"

definition not_resolved :: "Runtime option \<Rightarrow> resolution_error \<Rightarrow> RuntimeResolutionResult" where
  "not_resolved required e =
     \<lparr>rr_required = required, rr_found = None, rr_is_native = False, rr_warning = '''', rr_error = Some e\<rparr>"

definition remote_warning :: "Runtime \<Rightarrow> string" where
  "remote_warning rt = ''runtime '' @ [CHR 0x27] @ rt_id rt @ [CHR 0x27] @
     '' is available on a peer or as a Docker image, but not natively on this machine. Job execution will use remote runtime.''"

definition Resolve :: "DriverRegistry \<Rightarrow> (string \<Rightarrow> DriverMaps option) \<Rightarrow> Fs \<Rightarrow> (string \<Rightarrow> runtime_answer) \<Rightarrow>
    string \<Rightarrow> string \<Rightarrow> string \<Rightarrow> string list \<Rightarrow> Driver \<Rightarrow> RuntimeResolutionResult" where
  "Resolve reg readConfig fs getRuntime configPath startDir initialRuntime toolArgs d =
     (let loaded = LoadDriverConfig readConfig fs (if configPath \<noteq> '''' then configPath else startDir);
          fromConfig = base_runtime_id reg loaded d;
          baseRuntimeID = (if initialRuntime \<noteq> '''' then initialRuntime else fromConfig)
      in if isExplicitRuntimeIDDriver d \<and> baseRuntimeID = '''' then not_resolved None NoCompilerRuntime
         else if baseRuntimeID = '''' \<and> \<not> isRuntimeMatchQueryDriver (''driver '' @ drv_name d @ '' uses RuntimeMatchQuery'')
         then not_resolved None NoRuntimeDetermined
         else if baseRuntimeID = ''''
         then \<lparr>rr_required = None, rr_found = None, rr_is_native = False, rr_warning = '''', rr_error = None\<rparr>
         else case ParseRuntimeID baseRuntimeID of
           Inl e \<Rightarrow> not_resolved None (InvalidRuntimeID baseRuntimeID e)
         | Inr baseRuntime \<Rightarrow>
             (case drv_apply_tool_args d baseRuntime toolArgs of
                None \<Rightarrow> not_resolved (Some baseRuntime) InvalidToolArguments
              | Some requested \<Rightarrow>
                  (case queryDaemon getRuntime (rt_id requested) of
                     Inl e \<Rightarrow> not_resolved (Some requested) (DaemonQueryFailed e)
                   | Inr (None, _) \<Rightarrow> not_resolved (Some requested) (RuntimeNotOnDaemon (rt_id requested))
                   | Inr (Some found, native) \<Rightarrow>
                       \<lparr>rr_required = Some requested, rr_found = Some found, rr_is_native = native,
                        rr_warning = (if native then '''' else remote_warning requested), rr_error = None\<rparr>)))"

text \<open>What the CreateJob of a compiler driver makes of the result: it asks without an initial runtime.\<close>

definition driver_resolver :: "DriverRegistry \<Rightarrow> (string \<Rightarrow> DriverMaps option) \<Rightarrow> Fs \<Rightarrow> (string \<Rightarrow> runtime_answer) \<Rightarrow>
    string \<Rightarrow> string \<Rightarrow> CompilerType \<Rightarrow> string list \<Rightarrow> Runtime option" where
  "driver_resolver reg readConfig fs getRuntime configPath workDir d toolArgs =
     rr_found (Resolve reg readConfig fs getRuntime configPath workDir '''' toolArgs (compiler_driver d))"

definition resolved_CreateJob :: "DriverRegistry \<Rightarrow> (string \<Rightarrow> DriverMaps option) \<Rightarrow> (string \<Rightarrow> runtime_answer) \<Rightarrow>
    string \<Rightarrow> CompilerType \<Rightarrow> string \<Rightarrow> int \<Rightarrow> Fs \<Rightarrow> ParsedArgs \<Rightarrow> string \<Rightarrow> driver_error + Job" where
  "resolved_CreateJob reg readConfig getRuntime configPath d jobID now fs parsed workDir =
     driver_CreateJob (driver_resolver reg readConfig fs getRuntime configPath workDir d) jobID now fs parsed workDir"

section \<open>What is found\<close>

lemma no_match_query_text [simp]: "\<not> isRuntimeMatchQueryDriver (''driver '' @ n @ '' uses RuntimeMatchQuery'')"
  by (simp add: isRuntimeMatchQueryDriver_def)

lemma queryDaemon_found: "queryDaemon g rid = Ok (Some rt, native) \<longleftrightarrow> g rid = RuntimeAnswer None (Some rt) \<and> native"
  by (auto simp: queryDaemon_def isNativeRuntime_def split: runtime_answer.splits option.splits)

text \<open>The identifier the resolution starts from.\<close>

definition start_id :: "DriverRegistry \<Rightarrow> (string \<Rightarrow> DriverMaps option) \<Rightarrow> Fs \<Rightarrow> string \<Rightarrow> string \<Rightarrow> string \<Rightarrow> Driver \<Rightarrow> string" where
  "start_id reg readConfig fs configPath startDir initialRuntime d =
     (if initialRuntime \<noteq> '''' then initialRuntime
      else base_runtime_id reg (LoadDriverConfig readConfig fs (if configPath \<noteq> '''' then configPath else startDir)) d)"

lemma Resolve_cases:
  "Resolve reg readConfig fs getRuntime configPath startDir initialRuntime toolArgs d =
    (let rid = start_id reg readConfig fs configPath startDir initialRuntime d in
     if rid = '''' then not_resolved None (if isExplicitRuntimeIDDriver d then NoCompilerRuntime else NoRuntimeDetermined)
     else case ParseRuntimeID rid of
       Inl e \<Rightarrow> not_resolved None (InvalidRuntimeID rid e)
     | Inr base \<Rightarrow> (case drv_apply_tool_args d base toolArgs of
         None \<Rightarrow> not_resolved (Some base) InvalidToolArguments
       | Some req \<Rightarrow> (case getRuntime (rt_id req) of
           RpcFailure \<Rightarrow> not_resolved (Some req) (DaemonQueryFailed DaemonRpcFailed)
         | RuntimeAnswer (Some e) _ \<Rightarrow> not_resolved (Some req) (DaemonQueryFailed (DaemonError e))
         | RuntimeAnswer None None \<Rightarrow> not_resolved (Some req) (RuntimeNotOnDaemon (rt_id req))
         | RuntimeAnswer None (Some rt) \<Rightarrow> \<lparr>rr_required = Some req, rr_found = Some rt, rr_is_native = True,
             rr_warning = '''', rr_error = None\<rparr>)))"
proof -
  define rid where "rid = start_id reg readConfig fs configPath startDir initialRuntime d"
  note unfolds = Resolve_def Let_def start_id_def [symmetric] rid_def [symmetric]
  show ?thesis
  proof (cases "rid = ''''")
    case True
    then show ?thesis unfolding unfolds by (simp add: isRuntimeMatchQueryDriver_def)
  next
    case False
    show ?thesis
    proof (cases "ParseRuntimeID rid")
      case (Inl e)
      then show ?thesis unfolding unfolds using False by simp
    next
      case (Inr base)
      then show ?thesis unfolding unfolds using False
        by (simp add: queryDaemon_def isNativeRuntime_def split: option.split runtime_answer.split)
    qed
  qed
qed

text \<open>A runtime is found exactly when there is an identifier (the initial one, or the one made of the
  driver's settings in the configuration), it parses, the driver can apply the tool's arguments to it, and
  the daemon has the runtime with the resulting identifier. Otherwise there is an error. A runtime found is
  always taken as native, with no warning, wherever it is.\<close>
theorem Resolve_found_iff:
  "(rr_found (Resolve reg readConfig fs getRuntime configPath startDir initialRuntime toolArgs d) = Some rt \<longleftrightarrow>
     (\<exists>rid base req. rid = start_id reg readConfig fs configPath startDir initialRuntime d \<and> rid \<noteq> '''' \<and>
        ParseRuntimeID rid = Ok base \<and> drv_apply_tool_args d base toolArgs = Some req \<and>
        getRuntime (rt_id req) = RuntimeAnswer None (Some rt))) \<and>
   (rr_error (Resolve reg readConfig fs getRuntime configPath startDir initialRuntime toolArgs d) = None \<longleftrightarrow>
    rr_found (Resolve reg readConfig fs getRuntime configPath startDir initialRuntime toolArgs d) \<noteq> None) \<and>
   (rr_is_native (Resolve reg readConfig fs getRuntime configPath startDir initialRuntime toolArgs d) \<longleftrightarrow>
    rr_found (Resolve reg readConfig fs getRuntime configPath startDir initialRuntime toolArgs d) \<noteq> None) \<and>
   rr_warning (Resolve reg readConfig fs getRuntime configPath startDir initialRuntime toolArgs d) = ''''"
  unfolding Resolve_cases Let_def not_resolved_def
  by (auto split: sum.splits option.splits runtime_answer.splits)

text \<open>The archiver has no identifier of its own, so nothing is resolved for it without an initial runtime.\<close>
lemma ar_never_resolved:
  "gm_get reg ''ar'' = Some ar_driver \<Longrightarrow>
   rr_error (Resolve reg readConfig fs getRuntime configPath startDir '''' toolArgs ar_driver) = Some NoRuntimeDetermined"
  by (auto simp: Resolve_cases start_id_def base_runtime_id_def registry_ConstructRuntimeID_def GetDriver_def
      ar_driver_def ar_ConstructRuntimeID_def isExplicitRuntimeIDDriver_def not_resolved_def Let_def split: sum.splits option.splits)

section \<open>The search for the file\<close>

lemma dir_of_elems_abs: "path_is_abs (dir_of_elems es)"
  by (simp add: dir_of_elems_def)

lemma proper_buildozer: "proper_elem ''.buildozer''" "proper_elem ''.buildozer.yaml''"
  by (simp_all add: proper_elem_def)

lemma abs_elems_dir [simp]: "proper es \<Longrightarrow> abs_elems (dir_of_elems (rev es)) = es"
  by (simp only: dir_of_elems_def rev_rev_ident abs_elems_join)

lemma path_elems_plain: "proper_elem f \<Longrightarrow> path_elems f = [f]"
  by (simp add: path_elems_def proper_elem_def split_on_single)

lemma abs_elems_below: "proper es \<Longrightarrow> proper_elem f \<Longrightarrow> abs_elems (Join [dir_of_elems (rev es), f]) = es @ [f]"
  by (auto simp: abs_elems_Join dir_of_elems_abs path_elems_plain proper_elem_def)

lemma place_below: "proper es \<Longrightarrow> proper_elem f \<Longrightarrow>
    os_place fs (Join [dir_of_elems (rev es), f]) = ''/'' @ join_with ''/'' (es @ [f])"
  by (simp only: os_place_def Abs_def Join_is_abs dir_of_elems_abs if_True Clean_abs abs_elems_below)

lemma stat_below_file:
  assumes "proper es" "proper_elem f" "gm_get (fs_nodes fs) (''/'' @ join_with ''/'' es) = Some n" "\<not> nd_dir n"
  shows "config_stat fs (Join [dir_of_elems (rev es), f]) = Err OsFailed"
proof -
  have "proper (es @ [f])" using assms by simp
  then have "abs_elems (''/'' @ join_with ''/'' (es @ [f])) = es @ [f]" by (rule abs_elems_join)
  then have "''/'' @ join_with ''/'' es \<in> set (butlast (ancestors (os_place fs (Join [dir_of_elems (rev es), f]))))"
    by (simp only: place_below [OF assms(1,2)] ancestors_def) (auto simp: butlast_append intro!: image_eqI [of _ _ "length es"])
  then show ?thesis
    using assms(3,4) by (auto simp: config_stat_def list_ex_iff)
qed

lemma check_below_file:
  assumes "proper es" "gm_get (fs_nodes fs) (''/'' @ join_with ''/'' es) = Some n" "\<not> nd_dir n"
  shows "check_dir fs (dir_of_elems (rev es)) = CheckFailed (Join [dir_of_elems (rev es), ''.buildozer''])"
  using stat_below_file [OF assms(1) proper_buildozer(1) assms(2,3)] by (simp add: check_dir_def Let_def)

lemma search_up_file:
  assumes "proper es" "gm_get (fs_nodes fs) (''/'' @ join_with ''/'' es) = Some n" "\<not> nd_dir n"
  shows "\<exists>p. search_up fs (rev es) = CheckFailed p"
  using check_below_file [OF assms] by (cases "rev es") simp_all

text \<open>A configuration file given by its path is never read. The resolver takes the path as the
  directory the search starts from, and a file below it cannot be looked at: the configuration counts as
  missing, and no compiler driver finds a runtime or makes a job.\<close>
theorem explicit_config_refused:
  assumes "configPath \<noteq> ''''" "path_is_abs (fs_cwd fs)"
    and "gm_get (fs_nodes fs) (os_place fs configPath) = Some n" "\<not> nd_dir n"
  shows "(\<exists>p. LoadDriverConfig readConfig fs configPath = Err (SearchFailed p)) \<and>
    rr_error (Resolve reg readConfig fs getRuntime configPath startDir '''' toolArgs (compiler_driver d)) = Some NoCompilerRuntime \<and>
    resolved_CreateJob reg readConfig getRuntime configPath d jobID now fs parsed workDir = Err ResolutionFailed"
proof -
  have place: "os_place fs configPath = ''/'' @ join_with ''/'' (abs_elems (os_place fs configPath))"
  proof -
    have "os_place fs configPath = Clean (if path_is_abs configPath then configPath else fs_cwd fs @ ''/'' @ configPath)"
      "path_is_abs (if path_is_abs configPath then configPath else fs_cwd fs @ ''/'' @ configPath)"
      using assms(2) by (simp_all add: os_place_def Abs_def Join_abs)
    then show ?thesis by (metis Clean_abs abs_elems_Clean)
  qed
  have "FindConfigFile fs configPath = search_up fs (rev (abs_elems (os_place fs configPath)))"
    using assms(1) by (simp add: FindConfigFile_def os_place_def Let_def)
  moreover have "\<exists>p. search_up fs (rev (abs_elems (os_place fs configPath))) = CheckFailed p"
    using assms(3,4) place by (intro search_up_file [where n = n]) simp_all
  ultimately obtain p where load: "LoadDriverConfig readConfig fs configPath = Err (SearchFailed p)"
    by (auto simp: LoadDriverConfig_def)
  have name: "drv_name (compiler_driver d) \<noteq> ''ar''" by (cases d) (simp_all add: compiler_driver_def)
  have "start_id reg readConfig fs configPath dir '''' (compiler_driver d) = ''''" for dir
    using assms(1) load by (simp add: start_id_def base_runtime_id_def)
  then have res: "Resolve reg readConfig fs getRuntime configPath dir '''' args (compiler_driver d) = not_resolved None NoCompilerRuntime"
    for dir args
    using name by (simp add: Resolve_cases isExplicitRuntimeIDDriver_def)
  then have "driver_resolver reg readConfig fs getRuntime configPath workDir d = (\<lambda>_. None)"
    by (simp add: driver_resolver_def not_resolved_def fun_eq_iff)
  then show ?thesis
    using load res by (simp add: resolved_CreateJob_def driver_CreateJob_def not_resolved_def Let_def)
qed

text \<open>A file in the working directory.\<close>

definition config_fs :: Fs where
  "config_fs = empty_fs\<lparr>fs_cwd := ''/w'', fs_nodes :=
     [(''/w'', \<lparr>nd_dir = True, nd_content = [], nd_mode = 0, nd_mtime = 0\<rparr>),
      (''/w/gcc.yaml'', \<lparr>nd_dir = False, nd_content = [1], nd_mode = 0, nd_mtime = 0\<rparr>)]\<rparr>"

theorem explicit_config_refused_witness:
  "rr_error (Resolve [] (\<lambda>_. Some []) config_fs (\<lambda>_. RpcFailure) ''gcc.yaml'' ''/w'' '''' [] (compiler_driver GCC)) =
     Some NoCompilerRuntime"
proof -
  have "path_is_abs (fs_cwd config_fs)" by code_simp
  moreover have "gm_get (fs_nodes config_fs) (os_place config_fs ''gcc.yaml'') =
      Some \<lparr>nd_dir = False, nd_content = [1], nd_mode = 0, nd_mtime = 0\<rparr>" by code_simp
  ultimately show ?thesis
    using explicit_config_refused [of "''gcc.yaml''" config_fs] by simp
qed

end
