(* ===== verification/Flags.thy ===== *)
theory Flags
  imports Prelude Strings "HOL-Library.Multiset"
begin

text \<open>
  The flags of the drivers (pkg/drivers/flagparser.go): typed values filled from the words that start
  with --buildozer-, the other words being the tool's. The flags of a set are listed in the order the
  map is walked; a pointer to a value is the value, nil for an optional flag not given is None.
\<close>

section \<open>Flags\<close>

text \<open>A value of an enumeration is given by its place in the list of valid values.\<close>

datatype FlagValue = StringValue string | IntValue int | BoolValue bool | EnumValue nat

datatype FlagParser = StringParser | IntParser | BoolParser | BoolOptParser | EnumParser "string list"

record FlagInfo =
  fl_value :: "FlagValue option"
  fl_parser :: FlagParser
  fl_optional :: bool
  fl_is_bool :: bool

type_synonym FlagSet = "(string, FlagInfo) gomap"

text \<open>The map of an enumeration holds the last value with a text.\<close>

definition last_index :: "string list \<Rightarrow> string \<Rightarrow> nat option" where
  "last_index names s = (case filter (\<lambda>i. names ! i = s) (rev [0..<length names]) of [] \<Rightarrow> None | i # _ \<Rightarrow> Some i)"

fun run_parser :: "FlagParser \<Rightarrow> string \<Rightarrow> FlagValue option" where
  "run_parser StringParser s = Some (StringValue s)"
| "run_parser IntParser s = map_option IntValue (Atoi s)"
| "run_parser BoolParser s = Some (BoolValue (s = ''true'' \<or> s = ''1'' \<or> s = ''yes'' \<or> s = ''''))"
| "run_parser BoolOptParser s = Some (BoolValue (s = ''true'' \<or> s = ''1'' \<or> s = ''yes''))"
| "run_parser (EnumParser names) s = map_option EnumValue (last_index names s)"

section \<open>Registering flags\<close>

definition NewFlagSet :: FlagSet where
  "NewFlagSet = []"

definition flag_String :: "string \<Rightarrow> string \<Rightarrow> FlagSet \<Rightarrow> FlagSet" where
  "flag_String name d fs = gm_put fs name
     \<lparr>fl_value = Some (StringValue d), fl_parser = StringParser, fl_optional = False, fl_is_bool = False\<rparr>"
definition flag_StringOpt :: "string \<Rightarrow> FlagSet \<Rightarrow> FlagSet" where
  "flag_StringOpt name fs = gm_put fs name
     \<lparr>fl_value = None, fl_parser = StringParser, fl_optional = True, fl_is_bool = False\<rparr>"
definition flag_Int :: "string \<Rightarrow> int \<Rightarrow> FlagSet \<Rightarrow> FlagSet" where
  "flag_Int name d fs = gm_put fs name
     \<lparr>fl_value = Some (IntValue d), fl_parser = IntParser, fl_optional = False, fl_is_bool = False\<rparr>"
definition flag_IntOpt :: "string \<Rightarrow> FlagSet \<Rightarrow> FlagSet" where
  "flag_IntOpt name fs = gm_put fs name
     \<lparr>fl_value = None, fl_parser = IntParser, fl_optional = True, fl_is_bool = False\<rparr>"
definition flag_Bool :: "string \<Rightarrow> bool \<Rightarrow> FlagSet \<Rightarrow> FlagSet" where
  "flag_Bool name d fs = gm_put fs name
     \<lparr>fl_value = Some (BoolValue d), fl_parser = BoolParser, fl_optional = False, fl_is_bool = True\<rparr>"
definition flag_BoolOpt :: "string \<Rightarrow> FlagSet \<Rightarrow> FlagSet" where
  "flag_BoolOpt name fs = gm_put fs name
     \<lparr>fl_value = None, fl_parser = BoolOptParser, fl_optional = True, fl_is_bool = False\<rparr>"
definition flag_Enum :: "string \<Rightarrow> nat \<Rightarrow> string list \<Rightarrow> FlagSet \<Rightarrow> FlagSet" where
  "flag_Enum name d names fs = gm_put fs name
     \<lparr>fl_value = Some (EnumValue d), fl_parser = EnumParser names, fl_optional = False, fl_is_bool = False\<rparr>"
definition flag_EnumOpt :: "string \<Rightarrow> string list \<Rightarrow> FlagSet \<Rightarrow> FlagSet" where
  "flag_EnumOpt name names fs = gm_put fs name
     \<lparr>fl_value = None, fl_parser = EnumParser names, fl_optional = True, fl_is_bool = False\<rparr>"

section \<open>Parsing\<close>

definition flag_prefix :: string where "flag_prefix = ''--buildozer-''"

text \<open>The word of a flag's value and the arguments left, when the argument is the flag.\<close>

definition flag_word :: "string \<Rightarrow> FlagInfo \<Rightarrow> string \<Rightarrow> string list \<Rightarrow> (string \<times> string list) option" where
  "flag_word flagName info arg rest =
     (let prefix = flag_prefix @ flagName in
      if arg = prefix then
        (if fl_is_bool info then Some (''true'', rest)
         else case rest of v # rest' \<Rightarrow> Some (v, rest') | [] \<Rightarrow> None)
      else if has_prefix arg (prefix @ ''='') then Some (drop (length prefix + 1) arg, rest)
      else None)"

text \<open>The walk over the flags for one argument. A value that does not parse is skipped, and stays consumed.\<close>

fun match_flag :: "string \<Rightarrow> FlagSet \<Rightarrow> string list \<Rightarrow> (string \<times> FlagValue) option \<times> string list" where
  "match_flag arg [] rest = (None, rest)"
| "match_flag arg ((n, info) # fs) rest =
     (case flag_word n info arg rest of
        None \<Rightarrow> match_flag arg fs rest
      | Some (val, rest') \<Rightarrow>
          (case run_parser (fl_parser info) val of
             None \<Rightarrow> match_flag arg fs rest'
           | Some v \<Rightarrow> (Some (n, v), rest')))"

definition set_flag :: "FlagSet \<Rightarrow> string \<Rightarrow> FlagValue \<Rightarrow> FlagSet" where
  "set_flag fs n v = (case gm_get fs n of None \<Rightarrow> fs | Some info \<Rightarrow> gm_put fs n (info\<lparr>fl_value := Some v\<rparr>))"

lemma flag_word_shorter: "flag_word n info arg rest = Some (v, rest') \<Longrightarrow> length rest' \<le> length rest"
  by (auto simp: flag_word_def Let_def split: if_splits list.splits)

lemma match_flag_shorter: "match_flag arg fs rest = (m, rest') \<Longrightarrow> length rest' \<le> length rest"
proof (induction arg fs rest rule: match_flag.induct)
  case (2 arg n info fs rest)
  show ?case
  proof (cases "flag_word n info arg rest")
    case None
    then show ?thesis using 2 by simp
  next
    case (Some w)
    obtain v r where w: "w = (v, r)" by (cases w)
    then have "length r \<le> length rest" using Some flag_word_shorter by blast
    then show ?thesis using 2 Some w by (force split: option.splits dest: le_trans)
  qed
qed simp

function flags_Parse :: "FlagSet \<Rightarrow> string list \<Rightarrow> FlagSet \<times> string list" where
  "flags_Parse fs [] = (fs, [])"
| "flags_Parse fs (arg # rest) =
     (case match_flag arg fs rest of
        (Some (n, v), rest') \<Rightarrow> flags_Parse (set_flag fs n v) rest'
      | (None, rest') \<Rightarrow> (case flags_Parse fs rest' of (fs', toolArgs) \<Rightarrow> (fs', arg # toolArgs)))"
  by pat_completeness auto
termination
  by (relation "measure (\<lambda>(fs, args). length args)") (auto dest: match_flag_shorter [OF sym])

text \<open>The flags every driver has.\<close>

definition StandardDriverFlags :: FlagSet where
  "StandardDriverFlags =
     flag_IntOpt ''daemon-port'' (flag_StringOpt ''daemon-host'' (flag_Bool ''standalone'' False
       (flag_Bool ''list-runtimes'' False (flag_String ''runtime'' '''' (flag_String ''config'' ''''
         (flag_String ''log-level'' ''warn'' NewFlagSet))))))"

section \<open>Types of values\<close>

fun value_fits :: "FlagParser \<Rightarrow> FlagValue \<Rightarrow> bool" where
  "value_fits StringParser (StringValue s) = True"
| "value_fits IntParser (IntValue i) = is_int64 i"
| "value_fits BoolParser (BoolValue b) = True"
| "value_fits BoolOptParser (BoolValue b) = True"
| "value_fits (EnumParser names) (EnumValue i) = (i < length names)"
| "value_fits _ _ = False"

definition flag_ok :: "FlagInfo \<Rightarrow> bool" where
  "flag_ok info = (case fl_value info of None \<Rightarrow> fl_optional info | Some v \<Rightarrow> value_fits (fl_parser info) v)"

definition flags_ok :: "FlagSet \<Rightarrow> bool" where
  "flags_ok fs = list_all (\<lambda>(n, info). flag_ok info) fs"

lemma last_index_less:
  assumes "last_index names s = Some i"
  shows "i < length names \<and> names ! i = s"
proof -
  obtain r where "filter (\<lambda>i. names ! i = s) (rev [0..<length names]) = i # r"
    using assms by (auto simp: last_index_def split: list.splits)
  then have "i \<in> set (filter (\<lambda>i. names ! i = s) (rev [0..<length names]))" by simp
  then show ?thesis by auto
qed

lemma run_parser_fits: "run_parser p s = Some v \<Longrightarrow> value_fits p v"
  by (cases p) (auto dest: Atoi_int64 last_index_less)

lemma match_flag_fits:
  "match_flag arg fs rest = (Some (n, v), rest') \<Longrightarrow> \<exists>info. (n, info) \<in> set fs \<and> value_fits (fl_parser info) v"
  by (induction arg fs rest rule: match_flag.induct) (fastforce split: option.splits dest: run_parser_fits)+

lemma set_flag_ok:
  assumes "flags_ok fs" "gm_ok fs" "(n, info) \<in> set fs" "value_fits (fl_parser info) v"
  shows "flags_ok (set_flag fs n v) \<and> gm_ok (set_flag fs n v)"
proof -
  have "gm_get fs n = Some info" using assms(2,3) by (simp add: map_of_eq_Some_iff)
  then show ?thesis
    using assms by (auto simp: set_flag_def flags_ok_def flag_ok_def intro!: gm_put_list_all)
qed

text \<open>The values keep the types of their flags: an integer fits the machine's int, an enumeration's
  value is one of the valid ones, and a flag that is not optional has a value, whatever words are parsed.\<close>
theorem flags_typed:
  "flags_ok fs \<Longrightarrow> gm_ok fs \<Longrightarrow> flags_ok (fst (flags_Parse fs args)) \<and> gm_ok (fst (flags_Parse fs args))"
proof (induction fs args rule: flags_Parse.induct)
  case (2 fs arg rest)
  obtain m rest' where m: "match_flag arg fs rest = (m, rest')" by (cases "match_flag arg fs rest")
  show ?case
  proof (cases m)
    case None
    then show ?thesis using 2 m by (auto split: prod.splits)
  next
    case (Some nv)
    obtain n v where nv: "nv = (n, v)" by (cases nv)
    obtain info where "(n, info) \<in> set fs" "value_fits (fl_parser info) v"
      using m Some nv match_flag_fits by blast
    then have "flags_ok (set_flag fs n v) \<and> gm_ok (set_flag fs n v)"
      using set_flag_ok 2 by blast
    then show ?thesis using 2 m Some nv by simp
  qed
qed simp

theorem flags_typed_witness:
  "flags_ok (fst (flags_Parse StandardDriverFlags [''--buildozer-daemon-port'', ''7000'', ''a.c'']))"
proof -
  have "flags_ok StandardDriverFlags" "gm_ok StandardDriverFlags" by code_simp+
  then show ?thesis using flags_typed by blast
qed

section \<open>Flags by name\<close>

text \<open>The flag an argument names, and the word after the equals sign.\<close>

definition split_flag :: "string \<Rightarrow> (string \<times> string option) option" where
  "split_flag arg =
     (if \<not> has_prefix arg flag_prefix then None
      else let s = drop (length flag_prefix) arg; n = takeWhile (\<lambda>c. c \<noteq> CHR ''='') s
           in Some (n, if n = s then None else Some (drop (length n + 1) s)))"

definition flag_take_value :: "string \<Rightarrow> FlagInfo \<Rightarrow> string option \<Rightarrow> string list \<Rightarrow>
    (string \<times> FlagValue) option \<times> string list" where
  "flag_take_value n info w rest =
     (let used = (\<lambda>v r. (map_option (Pair n) (run_parser (fl_parser info) v), r))
      in case w of
           Some v \<Rightarrow> used v rest
         | None \<Rightarrow> (if fl_is_bool info then used ''true'' rest
             else case rest of v # r \<Rightarrow> used v r | [] \<Rightarrow> (None, rest)))"

definition lookup_flag :: "string \<Rightarrow> FlagSet \<Rightarrow> string list \<Rightarrow> (string \<times> FlagValue) option \<times> string list" where
  "lookup_flag arg fs rest =
     (case split_flag arg of
        None \<Rightarrow> (None, rest)
      | Some (n, w) \<Rightarrow> (case gm_get fs n of None \<Rightarrow> (None, rest) | Some info \<Rightarrow> flag_take_value n info w rest))"

definition plain_name :: "string \<Rightarrow> bool" where
  "plain_name n = (CHR ''='' \<notin> set n)"

lemma takeWhile_plain: "plain_name n \<Longrightarrow> takeWhile (\<lambda>c. c \<noteq> CHR ''='') (n @ CHR ''='' # v) = n"
  "plain_name n \<Longrightarrow> takeWhile (\<lambda>c. c \<noteq> CHR ''='') n = n"
  by (induction n) (auto simp: plain_name_def)

lemma has_prefix_ex: "has_prefix s p \<longleftrightarrow> (\<exists>t. s = p @ t)"
  by (auto simp: has_prefix_def) (metis append_take_drop_id)

lemma has_prefix_append_same: "has_prefix (p @ t) p"
  by (simp add: has_prefix_def)

text \<open>An argument is a flag of a plain name exactly when it splits into that name.\<close>
lemma split_flag_plain:
  assumes "plain_name n"
  shows "split_flag arg = Some (n, w) \<longleftrightarrow>
    (case w of None \<Rightarrow> arg = flag_prefix @ n | Some v \<Rightarrow> arg = flag_prefix @ n @ ''='' @ v)"
proof
  assume "split_flag arg = Some (n, w)"
  then obtain s where s: "arg = flag_prefix @ s" "n = takeWhile (\<lambda>c. c \<noteq> CHR ''='') s"
    "w = (if n = s then None else Some (drop (length n + 1) s))"
    by (auto simp: split_flag_def has_prefix_ex Let_def split: if_splits)
  show "case w of None \<Rightarrow> arg = flag_prefix @ n | Some v \<Rightarrow> arg = flag_prefix @ n @ ''='' @ v"
  proof (cases "n = s")
    case False
    let ?d = "dropWhile (\<lambda>c. c \<noteq> CHR ''='') s"
    have parts: "n @ ?d = s" by (simp only: s(2) takeWhile_dropWhile_id)
    then have "?d \<noteq> []" using False by (metis append.right_neutral)
    moreover from this have "hd ?d = CHR ''=''" using hd_dropWhile by blast
    ultimately have "?d = CHR ''='' # tl ?d" by (metis list.collapse)
    then obtain v where "n @ CHR ''='' # v = s" using parts by metis
    then have "s = n @ CHR ''='' # v" by (rule sym)
    then show ?thesis using s(1,3) False by simp
  qed (use s(1,3) in simp)
next
  assume "case w of None \<Rightarrow> arg = flag_prefix @ n | Some v \<Rightarrow> arg = flag_prefix @ n @ ''='' @ v"
  then have arg: "arg = flag_prefix @ (case w of None \<Rightarrow> n | Some v \<Rightarrow> n @ CHR ''='' # v)"
    by (cases w) auto
  define s where "s = (case w of None \<Rightarrow> n | Some v \<Rightarrow> n @ CHR ''='' # v)"
  have s: "takeWhile (\<lambda>c. c \<noteq> CHR ''='') s = n" "(if n = s then None else Some (drop (length n + 1) s)) = w"
    using takeWhile_plain [OF assms] by (cases w; simp add: s_def)+
  have p: "has_prefix arg flag_prefix" "drop (length flag_prefix) arg = s"
    by (simp_all add: arg s_def has_prefix_append_same)
  show "split_flag arg = Some (n, w)"
    unfolding split_flag_def Let_def p(2) s by (simp only: p(1) not_True_eq_False if_False)
qed

lemma flag_word_split:
  assumes "plain_name n"
  shows "flag_word n info arg rest =
    (case split_flag arg of
       Some (m, Some v) \<Rightarrow> if m = n then Some (v, rest) else None
     | Some (m, None) \<Rightarrow> if m = n then (if fl_is_bool info then Some (''true'', rest)
         else case rest of v # r \<Rightarrow> Some (v, r) | [] \<Rightarrow> None) else None
     | None \<Rightarrow> None)"
proof -
  have bare: "split_flag arg = Some (n, None) \<longleftrightarrow> arg = flag_prefix @ n"
    using split_flag_plain [OF assms, where w = None] by simp
  have eq: "split_flag arg = Some (n, Some v) \<longleftrightarrow> arg = flag_prefix @ n @ ''='' @ v" for v
    using split_flag_plain [OF assms, where w = "Some v"] by simp
  show ?thesis
  proof (cases "\<exists>w. split_flag arg = Some (n, w)")
    case True
    then obtain w where w: "split_flag arg = Some (n, w)" by blast
    show ?thesis
    proof (cases w)
      case None
      then show ?thesis using w bare by (simp add: flag_word_def Let_def)
    next
      case (Some v)
      then have "arg = (flag_prefix @ n @ ''='') @ v" using w eq by simp
      then show ?thesis
        using w Some by (simp add: flag_word_def Let_def has_prefix_def)
    qed
  next
    case False
    then have "arg \<noteq> flag_prefix @ n" "\<not> has_prefix arg (flag_prefix @ n @ ''='')"
      using bare eq by (auto simp: has_prefix_ex)
    then show ?thesis
      using False by (auto simp: flag_word_def Let_def split: option.splits)
  qed
qed

lemma match_flag_other:
  assumes "\<forall>(n, info) \<in> set fs. plain_name n \<and> (\<forall>w. split_flag arg \<noteq> Some (n, w))"
  shows "match_flag arg fs rest = (None, rest)"
  using assms
proof (induction fs)
  case (Cons p fs)
  obtain n info where p: "p = (n, info)" by (cases p)
  have "flag_word n info arg rest = None"
    using Cons.prems by (subst flag_word_split) (auto simp: p split: option.splits)
  then show ?case using Cons by (auto simp: p)
qed simp

lemma match_flag_lookup:
  assumes "gm_ok fs" "\<forall>(n, info) \<in> set fs. plain_name n"
  shows "match_flag arg fs rest = lookup_flag arg fs rest"
proof (cases "\<exists>n w info. split_flag arg = Some (n, w) \<and> (n, info) \<in> set fs")
  case False
  then have "match_flag arg fs rest = (None, rest)"
    using assms(2) by (intro match_flag_other) fastforce
  moreover have "lookup_flag arg fs rest = (None, rest)"
    using False by (auto simp: lookup_flag_def split: option.splits dest: map_of_SomeD)
  ultimately show ?thesis by simp
next
  case True
  then obtain n w info where split: "split_flag arg = Some (n, w)" and mem: "(n, info) \<in> set fs" by blast
  have get: "gm_get fs n = Some info" using assms(1) mem by (simp add: map_of_eq_Some_iff)
  obtain as bs where fs: "fs = as @ (n, info) # bs" using mem by (meson split_list)
  have "n \<notin> fst ` set as" "n \<notin> fst ` set bs" using assms(1) by (simp_all add: fs)
  then have dist: "\<forall>(m, i) \<in> set as \<union> set bs. m \<noteq> n" by force
  have plain: "plain_name n" "\<forall>(m, i) \<in> set as \<union> set bs. plain_name m"
    using assms(2) by (auto simp: fs)
  have skip: "match_flag arg (as' @ gs) r = match_flag arg gs r" if "set as' \<subseteq> set as" for as' gs r
    using that
  proof (induction as')
    case (Cons p as')
    obtain m i where p: "p = (m, i)" by (cases p)
    then have "plain_name m" "m \<noteq> n" using Cons.prems dist plain by auto
    then have "flag_word m i arg r = None"
      by (subst flag_word_split) (auto simp: split split: option.splits)
    then show ?case using Cons by (simp add: p)
  qed simp
  have tail: "match_flag arg bs r = (None, r)" for r
    using plain(2) dist split by (intro match_flag_other) auto
  have "match_flag arg fs rest = match_flag arg ((n, info) # bs) rest"
    unfolding fs by (rule skip) simp
  also have "\<dots> = flag_take_value n info w rest"
    using plain(1)
    by (auto simp: flag_word_split split flag_take_value_def Let_def tail split: option.splits list.splits)
  finally show ?thesis by (simp add: lookup_flag_def split get)
qed



text \<open>An optional boolean flag is not a boolean flag for the parser: it takes the next argument.\<close>
lemma bool_opt_takes_argument:
  "flags_Parse (flag_BoolOpt ''verbose'' NewFlagSet) [''--buildozer-verbose'', ''a.c''] =
     ([(''verbose'', \<lparr>fl_value = Some (BoolValue False), fl_parser = BoolOptParser, fl_optional = True, fl_is_bool = False\<rparr>)], [])"
  by code_simp

text \<open>Arguments without the prefix pass through.\<close>
lemma tool_arguments_pass:
  assumes "gm_ok fs" "\<forall>n \<in> set (gm_keys fs). plain_name n" "\<forall>a \<in> set args. \<not> has_prefix a flag_prefix"
  shows "flags_Parse fs args = (fs, args)"
  using assms(3)
proof (induction args)
  case (Cons a args)
  have "match_flag a fs args = lookup_flag a fs args"
    using assms(1,2) by (intro match_flag_lookup) auto
  also have "\<dots> = (None, args)" using Cons.prems by (simp add: lookup_flag_def split_flag_def)
  finally show ?case using Cons by simp
qed simp

end
