(* ===== verification/DriverRun.thy ===== *)
theory DriverRun
  imports Resolution Flags JobManager LogConfig
begin

text \<open>
  A run of a driver: the command line's own flags (pkg/drivers/driver_cli.go), the orchestration from
  the arguments to the exit code (driver_orchestrator.go), and the submission of the job with the stream
  of its progress (job_submission.go). What the daemon does with the submission is the list of messages
  it streams and how the stream ends; starting an in-process daemon, the environment variables and the
  clock are arguments. Texts for the user are the values of an error type, except what is printed of the
  compiler's output.
\<close>

section \<open>Who asks\<close>

record RequesterInfo =
  ri_requester_id :: string
  ri_requester_type :: string
  ri_requester_version :: "Version option"
  ri_timestamp_millis :: int

text \<open>The values of the context: the driver's name and version, if they are there.\<close>

definition extractRequesterInfo :: "string option \<Rightarrow> string option \<Rightarrow> int \<Rightarrow> RequesterInfo" where
  "extractRequesterInfo driverName driverVersion nowMillis =
     (let info = \<lparr>ri_requester_id = '''', ri_requester_type = '''', ri_requester_version = None,
            ri_timestamp_millis = nowMillis\<rparr>
      in case driverName of
           Some name \<Rightarrow>
             (if name \<noteq> '''' then info\<lparr>ri_requester_id := name, ri_requester_type := ''driver''\<rparr>
              else (case driverVersion of
                Some v \<Rightarrow> if v \<noteq> '''' then info\<lparr>ri_requester_version :=
                    Some (empty_version\<lparr>ver_major := 1, ver_prerelease := Some v\<rparr>)\<rparr> else info
              | None \<Rightarrow> info)\<lparr>ri_requester_id := ''driver'', ri_requester_type := ''driver''\<rparr>)
         | None \<Rightarrow>
             (case driverVersion of
                Some v \<Rightarrow> if v \<noteq> '''' then info\<lparr>ri_requester_version :=
                    Some (empty_version\<lparr>ver_major := 1, ver_prerelease := Some v\<rparr>)\<rparr> else info
              | None \<Rightarrow> info)\<lparr>ri_requester_id := ''driver'', ri_requester_type := ''driver''\<rparr>)"

section \<open>Submitting\<close>

text \<open>A message without a variant is None. A stream ends, breaks, or stays open without a further
  message.\<close>

datatype stream_end = StreamEnd | StreamBroken | StreamOpen

datatype submit_answer = ConnectFailed | SubmitStream "SubmitMsg option list" stream_end

datatype submit_error =
  SubmitConnectFailed
| ConfirmationNotReceived
| EndedBeforeConfirmation
| NotAConfirmation
| DaemonRejected string

record ConfirmationMsg =
  cm_status :: "JobStatusMsg option"
  cm_accepted :: bool
  cm_error :: string

definition GetConfirmation :: "SubmitMsg option \<Rightarrow> ConfirmationMsg option" where
  "GetConfirmation m = (case m of
     Some (Confirmation s a e) \<Rightarrow> Some \<lparr>cm_status = s, cm_accepted = a, cm_error = e\<rparr> | _ \<Rightarrow> None)"

text \<open>None is a call that never returns.\<close>

definition SubmitJobStreamingWithStream ::
  "submit_answer \<Rightarrow> (submit_error + ConfirmationMsg \<times> SubmitMsg option list \<times> stream_end) option" where
  "SubmitJobStreamingWithStream answer =
     (case answer of
        ConnectFailed \<Rightarrow> Some (Err SubmitConnectFailed)
      | SubmitStream [] StreamOpen \<Rightarrow> None
      | SubmitStream [] StreamBroken \<Rightarrow> Some (Err ConfirmationNotReceived)
      | SubmitStream [] StreamEnd \<Rightarrow> Some (Err EndedBeforeConfirmation)
      | SubmitStream (m # ms) e \<Rightarrow>
          Some (case GetConfirmation m of None \<Rightarrow> Err NotAConfirmation | Some c \<Rightarrow> Ok (c, ms, e)))"

definition drivers_SubmitJob ::
  "(RequesterInfo \<Rightarrow> Job \<Rightarrow> submit_answer) \<Rightarrow> RequesterInfo \<Rightarrow> Job \<Rightarrow>
    (submit_error + ConfirmationMsg \<times> SubmitMsg option list \<times> stream_end) option" where
  "drivers_SubmitJob submit info job =
     (case SubmitJobStreamingWithStream (submit info job) of
        None \<Rightarrow> None
      | Some (Inl e) \<Rightarrow> Some (Err e)
      | Some (Inr (c, ms, e)) \<Rightarrow>
          Some (if \<not> cm_accepted c then Err (DaemonRejected (cm_error c)) else Ok (c, ms, e)))"

section \<open>Watching\<close>

record WatchState =
  wa_last_length :: nat
  wa_final :: "JobStatusMsg option"
  wa_stderr :: "string list"
  wa_logged :: "string list"

definition watch_start :: WatchState where
  "watch_start = \<lparr>wa_last_length = 0, wa_final = None, wa_stderr = [], wa_logged = []\<rparr>"

definition msg_status :: "SubmitMsg option \<Rightarrow> JobStatusMsg option" where
  "msg_status m = (case m of
     Some (StatusUpdate s _) \<Rightarrow> Some s | Some (Confirmation s _ _) \<Rightarrow> s | None \<Rightarrow> None)"

definition compiler_line :: "string \<Rightarrow> bool" where
  "compiler_line line = (has_prefix line ''[stdout]'' \<or> has_prefix line ''[stderr]'')"

definition take_status :: "JobStatusMsg \<Rightarrow> WatchState \<Rightarrow> WatchState" where
  "take_status s w =
     (let output' = jp_log_output (jsm_progress s); w1 = w\<lparr>wa_final := Some s\<rparr> in
      if wa_last_length w < length output' then
        (let lines = filter (\<lambda>l. l \<noteq> '''') (split_on (CHR 0x0A) (drop (wa_last_length w) output'))
         in w1\<lparr>wa_stderr := wa_stderr w @ filter compiler_line lines,
               wa_logged := wa_logged w @ filter (\<lambda>l. \<not> compiler_line l) lines,
               wa_last_length := length output'\<rparr>)
      else w1)"

definition terminal_status :: "JobStatus \<Rightarrow> bool" where
  "terminal_status st = (st \<in> {JOB_STATUS_COMPLETED, JOB_STATUS_FAILED, JOB_STATUS_CANCELLED})"

text \<open>The loop up to a terminal status or the end of the stream; the flag is the stream's error.\<close>

fun watch_loop :: "SubmitMsg option list \<Rightarrow> stream_end \<Rightarrow> WatchState \<Rightarrow> (bool \<times> WatchState) option" where
  "watch_loop [] e w = (case e of StreamOpen \<Rightarrow> None | StreamBroken \<Rightarrow> Some (True, w) | StreamEnd \<Rightarrow> Some (False, w))"
| "watch_loop (m # ms) e w =
     (case msg_status m of
        None \<Rightarrow> watch_loop ms e w
      | Some s \<Rightarrow>
          (if terminal_status (jp_status (jsm_progress s)) then Some (False, take_status s w)
           else watch_loop ms e (take_status s w)))"

definition buildJobResultFromStatus :: "JobStatusMsg \<Rightarrow> JobResult" where
  "buildJobResultFromStatus s =
     \<lparr>jr_job_id = jsm_job_id s,
      jr_status = (case jp_status (jsm_progress s) of
         JOB_STATUS_COMPLETED \<Rightarrow> RESULT_COMPLETED | JOB_STATUS_FAILED \<Rightarrow> RESULT_FAILED
       | JOB_STATUS_CANCELLED \<Rightarrow> RESULT_CANCELLED | _ \<Rightarrow> RESULT_UNSPECIFIED),
      jr_output_data_ids = [], jr_log_output = jp_log_output (jsm_progress s), jr_error_message = '''',
      jr_executing_peer_id = jsm_submitter s, jr_started_at = None,
      jr_completed_at = jp_updated_at (jsm_progress s), jr_runtime_used = None, jr_exit_code = 0, jr_outputs = []\<rparr>"

definition writeJobOutputs :: "JobData option list \<Rightarrow> string \<Rightarrow> Fs \<Rightarrow> staging_error option \<times> Fs" where
  "writeJobOutputs outputData outputDir fs =
     (if outputDir = '''' \<or> outputData = [] then (None, fs)
      else case WriteJobDataListToFiles (NewJobDataStager outputDir) outputData outputDir fs of
        (Some e, fs') \<Rightarrow> (Some e, fs')
      | (None, fs') \<Rightarrow> (VerifyJobDataList fs' outputData outputDir VerificationModeSaved, fs'))"

datatype watch_error = StreamFailed | NoStatusReceived

definition status_exit_code :: "JobStatus \<Rightarrow> int" where
  "status_exit_code st = (case st of JOB_STATUS_FAILED \<Rightarrow> 1 | JOB_STATUS_CANCELLED \<Rightarrow> 1 | _ \<Rightarrow> 0)"

record Watched =
  wd_outcome :: "watch_error + JobResult \<times> int"
  wd_state :: WatchState
  wd_outputs_error :: "staging_error option"
  wd_fs :: Fs

text \<open>A failure to write or verify the outputs is logged as a warning.\<close>

definition WatchAndStreamJobProgressFromStream ::
  "SubmitMsg option list \<Rightarrow> stream_end \<Rightarrow> string \<Rightarrow> Fs \<Rightarrow> Watched option" where
  "WatchAndStreamJobProgressFromStream ms e outputDir fs =
     (case watch_loop ms e watch_start of
        None \<Rightarrow> None
      | Some (True, w) \<Rightarrow> Some \<lparr>wd_outcome = Err StreamFailed, wd_state = w, wd_outputs_error = None, wd_fs = fs\<rparr>
      | Some (False, w) \<Rightarrow>
          Some (case wa_final w of
             None \<Rightarrow> \<lparr>wd_outcome = Err NoStatusReceived, wd_state = w, wd_outputs_error = None, wd_fs = fs\<rparr>
           | Some s \<Rightarrow>
               (let result = (case jp_result (jsm_progress s) of Some r \<Rightarrow> r | None \<Rightarrow> buildJobResultFromStatus s);
                    exitCode = status_exit_code (jp_status (jsm_progress s));
                    written = (if outputDir \<noteq> '''' \<and> exitCode = 0
                      then writeJobOutputs (jr_outputs result) outputDir fs else (None, fs))
                in \<lparr>wd_outcome = Ok (result, exitCode), wd_state = w, wd_outputs_error = fst written,
                    wd_fs = snd written\<rparr>)))"

section \<open>Running\<close>

record RunConfig =
  rn_standalone :: bool
  rn_daemon_host :: string
  rn_daemon_port :: int
  rn_log_level :: string
  rn_start_dir :: string
  rn_config_path :: string
  rn_initial_runtime :: string
  rn_logging_dir :: string

definition driver_logging_config :: "string option \<Rightarrow> string \<Rightarrow> RunConfig \<Rightarrow> LoggingConfig" where
  "driver_logging_config home name config =
     (let dir = (if rn_logging_dir config = '''' then ''~/.cache/buildozer/logs'' else rn_logging_dir config)
      in \<lparr>gc_global_level = ''debug'', gc_logging_dir = ExpandHome home dir,
          gc_sinks = [empty_sink_config\<lparr>sc_name := ''stdout'', sc_type := ''stdout'', sc_level := rn_log_level config\<rparr>,
            empty_sink_config\<lparr>sc_name := ''file-'' @ name, sc_type := ''file'', sc_level := ''debug'',
              sc_filename := name @ ''.log'', sc_max_size_b := 50 * 1024 * 1024, sc_max_files := 5,
              sc_max_age_days := 30\<rparr>],
          gc_loggers = [\<lparr>lc_name = ''buildozer'', lc_level = ''debug'', lc_sinks = [''stdout'', ''file-'' @ name]\<rparr>]\<rparr>)"

datatype daemon_start = DaemonNotCreated | DaemonNotStarted | DaemonStarted

definition standalone_address :: "RunConfig \<Rightarrow> string \<times> int" where
  "standalone_address config =
     (if rn_daemon_host config \<noteq> ''localhost'' then rn_daemon_host config else ''127.0.0.1'',
      if rn_daemon_port config \<noteq> 6789 then rn_daemon_port config else 6789)"

datatype 'e run_error =
  LoggingNotInitialized
| StandaloneDaemonFailed daemon_start
| JobCreationFailed 'e
| NilJobCreated
| InputVerificationFailed staging_error
| SubmissionFailed submit_error
| JobRejectedByDaemon string
| WatchingFailed watch_error

text \<open>The surroundings of a run: the file system and the parts that are not the driver's.\<close>

record 'e RunWorld =
  rw_mkdir_all :: "string \<Rightarrow> bool"
  rw_home :: "string option"
  rw_logging :: GlobalLogging
  rw_start_daemon :: "string \<Rightarrow> int \<Rightarrow> daemon_start"
  rw_create_job :: "string \<Rightarrow> string list \<Rightarrow> string \<Rightarrow> 'e + Job option"
  rw_submit :: "RequesterInfo \<Rightarrow> Job \<Rightarrow> submit_answer"
  rw_now :: int
  rw_fs :: Fs

definition isVersionFlag :: "string list \<Rightarrow> bool" where
  "isVersionFlag args = (case args of [] \<Rightarrow> False | a # _ \<Rightarrow> a = ''--version'')"

record 'e RunResult =
  ru_exit_code :: int
  ru_error :: "'e run_error option"
  ru_printed_version :: bool
  ru_stderr :: "string list"
  ru_fs :: Fs

definition run_failed :: "Fs \<Rightarrow> 'e run_error \<Rightarrow> 'e RunResult option" where
  "run_failed fs e = Some \<lparr>ru_exit_code = 1, ru_error = Some e, ru_printed_version = False, ru_stderr = [], ru_fs = fs\<rparr>"

definition run_job :: "'e RunWorld \<Rightarrow> Driver \<Rightarrow> RunConfig \<Rightarrow> Job option \<Rightarrow> string \<Rightarrow> 'e RunResult option" where
  "run_job w d config job workDir =
     (case job of
        None \<Rightarrow> run_failed (rw_fs w) NilJobCreated
      | Some j \<Rightarrow>
          (case VerifyJobInputs (rw_fs w) (Some j) VerificationModeSaved of
             Some e \<Rightarrow> run_failed (rw_fs w) (InputVerificationFailed e)
           | None \<Rightarrow>
               (case drivers_SubmitJob (rw_submit w)
                   (extractRequesterInfo (Some (drv_name d)) (Some (drv_version d)) (rw_now w)) j of
                  None \<Rightarrow> None
                | Some (Inl e) \<Rightarrow> run_failed (rw_fs w) (SubmissionFailed e)
                | Some (Inr (c, ms, e)) \<Rightarrow>
                    (if \<not> cm_accepted c then run_failed (rw_fs w) (JobRejectedByDaemon (cm_error c))
                     else case WatchAndStreamJobProgressFromStream ms e workDir (rw_fs w) of
                       None \<Rightarrow> None
                     | Some wd \<Rightarrow>
                         (case wd_outcome wd of
                            Inl err \<Rightarrow> Some \<lparr>ru_exit_code = 1, ru_error = Some (WatchingFailed err),
                              ru_printed_version = False, ru_stderr = wa_stderr (wd_state wd), ru_fs = wd_fs wd\<rparr>
                          | Inr (result, exitCode) \<Rightarrow> Some \<lparr>ru_exit_code = exitCode, ru_error = None,
                              ru_printed_version = False, ru_stderr = wa_stderr (wd_state wd), ru_fs = wd_fs wd\<rparr>)))))"

definition RunDriver :: "'e RunWorld \<Rightarrow> Driver \<Rightarrow> string list \<Rightarrow> RunConfig \<Rightarrow> 'e RunResult option" where
  "RunDriver w d args config =
     (case InitializeGlobal (rw_mkdir_all w) (rw_home w) (rw_now w)
          (driver_logging_config (rw_home w) (drv_name d) config) (rw_logging w) of
        (Some _, _) \<Rightarrow> run_failed (rw_fs w) LoggingNotInitialized
      | (None, _) \<Rightarrow>
          (let started = (if rn_standalone config
                 then (case standalone_address config of (host, port) \<Rightarrow> rw_start_daemon w host port) else DaemonStarted)
           in if started \<noteq> DaemonStarted then run_failed (rw_fs w) (StandaloneDaemonFailed started)
              else if isVersionFlag args then
                Some \<lparr>ru_exit_code = 0, ru_error = None, ru_printed_version = True, ru_stderr = [], ru_fs = rw_fs w\<rparr>
              else let workDir = (if rn_start_dir config = '''' then fs_cwd (rw_fs w) else rn_start_dir config)
                   in case rw_create_job w (rn_config_path config) args workDir of
                        Inl e \<Rightarrow> run_failed (rw_fs w) (JobCreationFailed e)
                      | Inr job \<Rightarrow> run_job w d config job workDir))"

section \<open>The command line\<close>

definition to_upper_char :: "char \<Rightarrow> char" where
  "to_upper_char c = (if (97::nat) \<le> of_char c \<and> of_char c \<le> (122::nat) then char_of (of_char c - 32 :: nat) else c)"

definition ToUpper :: "string \<Rightarrow> string" where
  "ToUpper s = map to_upper_char s"

record CommonDriverConfig =
  cc_daemon_host :: string
  cc_daemon_port :: int
  cc_standalone :: bool
  cc_log_level :: string
  cc_config_path :: string
  cc_initial_runtime :: string

definition string_flag :: "FlagSet \<Rightarrow> string \<Rightarrow> string \<Rightarrow> string" where
  "string_flag fs n d = (case gm_get fs n of
     Some info \<Rightarrow> (case fl_value info of Some (StringValue s) \<Rightarrow> s | _ \<Rightarrow> d) | None \<Rightarrow> d)"

definition int_flag :: "FlagSet \<Rightarrow> string \<Rightarrow> int \<Rightarrow> int" where
  "int_flag fs n d = (case gm_get fs n of
     Some info \<Rightarrow> (case fl_value info of Some (IntValue i) \<Rightarrow> i | _ \<Rightarrow> d) | None \<Rightarrow> d)"

definition bool_flag :: "FlagSet \<Rightarrow> string \<Rightarrow> bool" where
  "bool_flag fs n = (case gm_get fs n of
     Some info \<Rightarrow> (case fl_value info of Some (BoolValue b) \<Rightarrow> b | _ \<Rightarrow> False) | None \<Rightarrow> False)"

definition ExtractCommonConfig :: "FlagSet \<Rightarrow> CommonDriverConfig" where
  "ExtractCommonConfig fs =
     \<lparr>cc_daemon_host = string_flag fs ''daemon-host'' ''localhost'', cc_daemon_port = int_flag fs ''daemon-port'' 6789,
      cc_standalone = bool_flag fs ''standalone'', cc_log_level = string_flag fs ''log-level'' ''warn'',
      cc_config_path = string_flag fs ''config'' '''', cc_initial_runtime = string_flag fs ''runtime'' ''''\<rparr>"

definition help_flag :: "string \<Rightarrow> bool" where
  "help_flag arg = (arg = ''--help'' \<or> arg = ''-h'' \<or> arg = ''-help'')"

definition verbose_level :: "(string \<Rightarrow> string option) \<Rightarrow> string \<Rightarrow> string \<Rightarrow> string" where
  "verbose_level env name level =
     (if env ''VERBOSE'' = None then level
      else case env (''BUILDOZER_'' @ ToUpper name @ ''_VERBOSE_LOG_LEVEL'') of
        Some (c # cs) \<Rightarrow> c # cs
      | _ \<Rightarrow> (case env ''BUILDOZER_DRIVER_VERBOSE_LOG_LEVEL'' of Some (c # cs) \<Rightarrow> c # cs | _ \<Rightarrow> ''debug''))"

datatype cli_outcome =
  HelpShown
| ArgsInvalid
| VersionShown string
| ListRuntimes RunConfig
| Run "string list" RunConfig

definition runDriver :: "(string \<Rightarrow> string option) \<Rightarrow> (string list \<Rightarrow> bool) \<Rightarrow> Driver \<Rightarrow> string list \<Rightarrow> cli_outcome" where
  "runDriver env validateArgs d args =
     (if list_ex help_flag args then HelpShown
      else case flags_Parse StandardDriverFlags args of
        (fs, parsedArgs) \<Rightarrow>
          (let c = ExtractCommonConfig fs; level = verbose_level env (drv_name d) (cc_log_level c) in
           if \<not> validateArgs parsedArgs then ArgsInvalid
           else if isVersionFlag parsedArgs then VersionShown (drv_version d)
           else if bool_flag fs ''list-runtimes'' then
             ListRuntimes \<lparr>rn_standalone = False, rn_daemon_host = cc_daemon_host c, rn_daemon_port = cc_daemon_port c,
               rn_log_level = level, rn_start_dir = '''', rn_config_path = '''', rn_initial_runtime = '''',
               rn_logging_dir = ''''\<rparr>
           else Run parsedArgs
             \<lparr>rn_standalone = cc_standalone c, rn_daemon_host = cc_daemon_host c, rn_daemon_port = cc_daemon_port c,
               rn_log_level = level, rn_start_dir = '''', rn_config_path = cc_config_path c,
               rn_initial_runtime = cc_initial_runtime c, rn_logging_dir = ''''\<rparr>))"

text \<open>The lines printed for the list, and the exit code.\<close>

definition ListCompatibleRuntimes :: "Runtime option list option \<Rightarrow> Driver \<Rightarrow> string list \<times> int" where
  "ListCompatibleRuntimes listed d =
     (case resolver_ListCompatibleRuntimes listed d of
        Inl _ \<Rightarrow> ([], 1)
      | Inr [] \<Rightarrow> ([''No compatible runtimes found''], 0)
      | Inr rts \<Rightarrow>
          ([''Compatible runtimes for '' @ drv_name d @ '':'', ''''] @
           concat (map (\<lambda>rt. case rt of None \<Rightarrow> [] | Some r \<Rightarrow>
             (''  '' @ rt_id r) # (case rt_description r of
                Some (c # cs) \<Rightarrow> [''    '' @ c # cs] | _ \<Rightarrow> [])) rts) @
           ['''', ''Total: '' @ format_int (int (length rts)) @ '' runtimes available''], 0))"

section \<open>Exit codes\<close>

text \<open>The statuses received until the stream ended or one was terminal; the last one decides.\<close>

fun statuses :: "SubmitMsg option list \<Rightarrow> JobStatus list" where
  "statuses [] = []"
| "statuses (m # ms) =
     (case msg_status m of
        None \<Rightarrow> statuses ms
      | Some s \<Rightarrow> (let st = jp_status (jsm_progress s) in if terminal_status st then [st] else st # statuses ms))"

lemma take_status_final [simp]: "wa_final (take_status s w) = Some s"
  by (simp add: take_status_def Let_def)

lemma watch_loop_final:
  "watch_loop ms e w = Some (False, w') \<Longrightarrow>
   map_option (\<lambda>s. jp_status (jsm_progress s)) (wa_final w') =
     (if statuses ms = [] then map_option (\<lambda>s. jp_status (jsm_progress s)) (wa_final w) else Some (last (statuses ms)))"
proof (induction ms e w rule: watch_loop.induct)
  case (1 e w)
  then show ?case by (cases e) auto
next
  case (2 m ms e w)
  show ?case
  proof (cases "msg_status m")
    case None
    then show ?thesis using 2 by simp
  next
    case (Some s)
    then show ?thesis
      using 2 by (cases "terminal_status (jp_status (jsm_progress s))") (auto simp: Let_def)
  qed
qed

definition watch_done :: "SubmitMsg option list \<Rightarrow> bool" where
  "watch_done ms = (\<exists>st \<in> set (statuses ms). terminal_status st)"

lemma watch_loop_ends:
  "watch_loop ms e w = None \<longleftrightarrow> e = StreamOpen \<and> \<not> watch_done ms"
  "(\<exists>w'. watch_loop ms e w = Some (True, w')) \<longleftrightarrow> e = StreamBroken \<and> \<not> watch_done ms"
proof (induction ms e w rule: watch_loop.induct)
  case (1 e w)
  { case 1 show ?case by (cases e) (simp_all add: watch_done_def) }
  { case 2 show ?case by (cases e) (simp_all add: watch_done_def) }
next
  case (2 m ms e w)
  have "watch_loop (m # ms) e w = None \<longleftrightarrow> e = StreamOpen \<and> \<not> watch_done (m # ms)"
    "(\<exists>w'. watch_loop (m # ms) e w = Some (True, w')) \<longleftrightarrow> e = StreamBroken \<and> \<not> watch_done (m # ms)"
    using 2 by (cases "msg_status m"; simp add: watch_done_def Let_def)+
  then show "watch_loop (m # ms) e w = None \<longleftrightarrow> e = StreamOpen \<and> \<not> watch_done (m # ms)"
    "(\<exists>w'. watch_loop (m # ms) e w = Some (True, w')) \<longleftrightarrow> e = StreamBroken \<and> \<not> watch_done (m # ms)" by blast+
qed

text \<open>The exit code for the statuses received and the end of the stream; None is a run that waits.\<close>

definition expected_exit :: "SubmitMsg option list \<Rightarrow> stream_end \<Rightarrow> int option" where
  "expected_exit ms e =
     (if \<not> watch_done ms \<and> e = StreamOpen then None
      else if \<not> watch_done ms \<and> e = StreamBroken then Some 1
      else if statuses ms = [] then Some 1 else Some (status_exit_code (last (statuses ms))))"

definition watched_exit :: "Watched \<Rightarrow> int" where
  "watched_exit wd = (case wd_outcome wd of Inl _ \<Rightarrow> 1 | Inr (_, c) \<Rightarrow> c)"

lemma watch_exit:
  "map_option watched_exit (WatchAndStreamJobProgressFromStream ms e outputDir fs) = expected_exit ms e"
proof (cases "watch_loop ms e watch_start")
  case None
  then have "e = StreamOpen \<and> \<not> watch_done ms" using watch_loop_ends(1) [of ms e watch_start] by simp
  then show ?thesis unfolding WatchAndStreamJobProgressFromStream_def None expected_exit_def by simp
next
  case (Some r)
  obtain b w where r: "r = (b, w)" by (cases r)
  have alive: "\<not> (e = StreamOpen \<and> \<not> watch_done ms)" using watch_loop_ends(1) [of ms e watch_start] Some by auto
  show ?thesis
  proof (cases b)
    case True
    then have "e = StreamBroken \<and> \<not> watch_done ms"
      using watch_loop_ends(2) [of ms e watch_start] Some r by auto
    then show ?thesis
      using Some r True by (simp add: WatchAndStreamJobProgressFromStream_def expected_exit_def watched_exit_def)
  next
    case False
    then have ok: "\<not> (e = StreamBroken \<and> \<not> watch_done ms)"
      using watch_loop_ends(2) [of ms e watch_start] Some r by auto
    have final: "map_option (\<lambda>s. jp_status (jsm_progress s)) (wa_final w) =
        (if statuses ms = [] then None else Some (last (statuses ms)))"
      using watch_loop_final [of ms e watch_start w] Some r False by (simp add: watch_start_def)
    show ?thesis
    proof (cases "wa_final w")
      case None
      then have "statuses ms = []" using final by (auto split: if_splits)
      then show ?thesis using Some r False None alive ok
        by (auto simp: WatchAndStreamJobProgressFromStream_def expected_exit_def watched_exit_def)
    next
      case (Some s)
      then have "statuses ms \<noteq> []" "last (statuses ms) = jp_status (jsm_progress s)"
        using final by (auto split: if_splits)
      then show ?thesis using \<open>watch_loop ms e watch_start = Some r\<close> r False Some alive ok
        by (auto simp: WatchAndStreamJobProgressFromStream_def expected_exit_def watched_exit_def Let_def)
    qed
  qed
qed

definition asks_as :: "'e RunWorld \<Rightarrow> Driver \<Rightarrow> RequesterInfo" where
  "asks_as w d = extractRequesterInfo (Some (drv_name d)) (Some (drv_version d)) (rw_now w)"

text \<open>A run that comes as far as an accepted submission: logging is set up, no daemon of its own is
  started, and the job is made and its inputs are there.\<close>

definition submits :: "'e RunWorld \<Rightarrow> Driver \<Rightarrow> string list \<Rightarrow> RunConfig \<Rightarrow> Job \<Rightarrow> bool" where
  "submits w d args config j =
     (fst (InitializeGlobal (rw_mkdir_all w) (rw_home w) (rw_now w)
        (driver_logging_config (rw_home w) (drv_name d) config) (rw_logging w)) = None \<and>
      \<not> rn_standalone config \<and> \<not> isVersionFlag args \<and>
      rw_create_job w (rn_config_path config) args
        (if rn_start_dir config = '''' then fs_cwd (rw_fs w) else rn_start_dir config) = Ok (Some j) \<and>
      VerifyJobInputs (rw_fs w) (Some j) VerificationModeSaved = None)"

lemma RunDriver_submits:
  assumes "submits w d args config j"
  shows "RunDriver w d args config =
    run_job w d config (Some j) (if rn_start_dir config = '''' then fs_cwd (rw_fs w) else rn_start_dir config)"
proof -
  obtain g where "InitializeGlobal (rw_mkdir_all w) (rw_home w) (rw_now w)
      (driver_logging_config (rw_home w) (drv_name d) config) (rw_logging w) = (None, g)"
    using assms by (cases "InitializeGlobal (rw_mkdir_all w) (rw_home w) (rw_now w)
      (driver_logging_config (rw_home w) (drv_name d) config) (rw_logging w)") (auto simp: submits_def)
  then show ?thesis using assms by (simp add: RunDriver_def submits_def Let_def)
qed

text \<open>C8. The exit code of a driver whose job was accepted. The run waits for ever exactly when the stream
  stays open without a terminal status. It is 1 when the stream breaks before a terminal status or brings
  no status, and otherwise the last status decides: 1 for FAILED and CANCELLED, 0 for any other one, so a
  stream that ends while the job is running is a success.\<close>
theorem driver_exit_code:
  assumes "submits w d args config j"
    and "rw_submit w (asks_as w d) j = SubmitStream (Some (Confirmation st True err) # ms) e"
  shows "map_option ru_exit_code (RunDriver w d args config) = expected_exit ms e"
proof -
  let ?dir = "if rn_start_dir config = '''' then fs_cwd (rw_fs w) else rn_start_dir config"
  have "VerifyJobInputs (rw_fs w) (Some j) VerificationModeSaved = None" using assms(1) by (simp add: submits_def)
  then have "run_job w d config (Some j) dir =
      (case WatchAndStreamJobProgressFromStream ms e dir (rw_fs w) of
         None \<Rightarrow> None
       | Some wd \<Rightarrow> (case wd_outcome wd of
           Inl er \<Rightarrow> Some \<lparr>ru_exit_code = 1, ru_error = Some (WatchingFailed er),
              ru_printed_version = False, ru_stderr = wa_stderr (wd_state wd), ru_fs = wd_fs wd\<rparr>
         | Inr (result, exitCode) \<Rightarrow> Some \<lparr>ru_exit_code = exitCode, ru_error = None,
              ru_printed_version = False, ru_stderr = wa_stderr (wd_state wd), ru_fs = wd_fs wd\<rparr>))" for dir
    using assms(2) by (simp add: run_job_def drivers_SubmitJob_def SubmitJobStreamingWithStream_def
        GetConfirmation_def asks_as_def)
  then have "map_option ru_exit_code (run_job w d config (Some j) dir) =
      map_option watched_exit (WatchAndStreamJobProgressFromStream ms e dir (rw_fs w))" for dir
    by (auto simp: watched_exit_def split: option.splits sum.splits)
  then show ?thesis by (simp only: RunDriver_submits [OF assms(1)] watch_exit)
qed


text \<open>The version of a driver never reaches the daemon: its name is found first.\<close>
lemma driver_version_not_sent: "drv_name d \<noteq> '''' \<Longrightarrow> ri_requester_version (asks_as w d) = None"
  by (simp add: asks_as_def extractRequesterInfo_def Let_def)

text \<open>The runtime given on the command line changes nothing of a run.\<close>
lemma run_job_config: "run_job w d c job dir = run_job w d c' job dir"
  by (simp add: run_job_def)

lemma initial_runtime_ignored: "RunDriver w d args (config\<lparr>rn_initial_runtime := x\<rparr>) = RunDriver w d args config"
proof -
  have "driver_logging_config h n (config\<lparr>rn_initial_runtime := x\<rparr>) = driver_logging_config h n config" for h n
    by (simp add: driver_logging_config_def)
  moreover have "standalone_address (config\<lparr>rn_initial_runtime := x\<rparr>) = standalone_address config"
    by (simp add: standalone_address_def)
  moreover have "rn_standalone (config\<lparr>rn_initial_runtime := x\<rparr>) = rn_standalone config"
    "rn_start_dir (config\<lparr>rn_initial_runtime := x\<rparr>) = rn_start_dir config"
    "rn_config_path (config\<lparr>rn_initial_runtime := x\<rparr>) = rn_config_path config" by simp_all
  ultimately show ?thesis
    unfolding RunDriver_def run_job_config [of w d "config\<lparr>rn_initial_runtime := x\<rparr>" _ _ config]
    by (simp only:)
qed

text \<open>Whether the outputs could be written does not change the outcome.\<close>
lemma outcome_ignores_outputs:
  "map_option wd_outcome (WatchAndStreamJobProgressFromStream ms e dir fs) =
   map_option wd_outcome (WatchAndStreamJobProgressFromStream ms e dir' fs')"
  by (auto simp: WatchAndStreamJobProgressFromStream_def Let_def split: option.splits bool.splits)

section \<open>A run\<close>

text \<open>A compilation of nothing, submitted to a daemon that goes away while the job runs.\<close>

definition running_status :: JobStatusMsg where
  "running_status = \<lparr>jsm_job_id = ''j'', jsm_submitter = '''', jsm_submitted_at = None,
     jsm_progress = \<lparr>jp_job_id = ''j'', jp_status = JOB_STATUS_RUNNING, jp_percent = None, jp_updated_at = None,
       jp_executing_peer_id = '''', jp_log_output = '''', jp_result = None\<rparr>\<rparr>"

definition plain_job :: Job where
  "plain_job = \<lparr>job_id = ''j'', job_requirement = Job_Runtime None, job_input_data_ids = [], job_spec = NoJobSpec,
     job_content_hash = None, job_source_client_id = '''', job_submitted_at = None, job_timeout = None,
     job_dependency_ids = [], job_inputs = [], job_outputs = [], job_cwd = ''/w''\<rparr>"

definition sample_run :: "(SubmitMsg option list \<times> stream_end) \<Rightarrow> unit RunWorld" where
  "sample_run a = \<lparr>rw_mkdir_all = (\<lambda>_. True), rw_home = Some ''/h'', rw_logging = NoLogging,
     rw_start_daemon = (\<lambda>_ _. DaemonStarted), rw_create_job = (\<lambda>_ _ _. Ok (Some plain_job)),
     rw_submit = (\<lambda>_ _. SubmitStream (fst a) (snd a)), rw_now = 0, rw_fs = empty_fs\<rparr>"

definition plain_config :: RunConfig where
  "plain_config = \<lparr>rn_standalone = False, rn_daemon_host = ''localhost'', rn_daemon_port = 6789, rn_log_level = ''warn'',
     rn_start_dir = ''/w'', rn_config_path = '''', rn_initial_runtime = '''', rn_logging_dir = ''''\<rparr>"

lemma sample_submits: "submits (sample_run a) (compiler_driver GCC) [''a.c''] plain_config plain_job"
proof -
  have "fst (InitializeGlobal (\<lambda>_. True) (Some ''/h'') 0
      (driver_logging_config (Some ''/h'') ''gcc'' plain_config) NoLogging) = None" by code_simp
  then show ?thesis
    by (simp add: submits_def sample_run_def plain_config_def isVersionFlag_def VerifyJobInputs_def plain_job_def
        compiler_driver_def)
qed

theorem driver_exit_code_witness:
  "map_option ru_exit_code (RunDriver
     (sample_run ([Some (Confirmation None True ''''), Some (StatusUpdate running_status None)], StreamEnd))
     (compiler_driver GCC) [''a.c''] plain_config) = Some 0"
proof -
  let ?w = "sample_run ([Some (Confirmation None True ''''), Some (StatusUpdate running_status None)], StreamEnd)"
  have "rw_submit ?w (asks_as ?w (compiler_driver GCC)) plain_job =
      SubmitStream (Some (Confirmation None True '''') # [Some (StatusUpdate running_status None)]) StreamEnd"
    by (simp add: sample_run_def)
  from driver_exit_code [OF sample_submits this] show ?thesis
    by (simp add: expected_exit_def watch_done_def msg_status_def running_status_def terminal_status_def
        status_exit_code_def Let_def)
qed


section \<open>A compiler driver\<close>

text \<open>The run of a compiler driver: it makes its job with the resolver of the daemon's answers.\<close>

definition compiler_world ::
  "DriverRegistry \<Rightarrow> (string \<Rightarrow> DriverMaps option) \<Rightarrow> (string \<Rightarrow> runtime_answer) \<Rightarrow> CompilerType \<Rightarrow> string \<Rightarrow>
    unit RunWorld \<Rightarrow> driver_error RunWorld" where
  "compiler_world reg readConfig getRuntime d jobID w =
     \<lparr>rw_mkdir_all = rw_mkdir_all w, rw_home = rw_home w, rw_logging = rw_logging w,
      rw_start_daemon = rw_start_daemon w,
      rw_create_job = (\<lambda>configPath args workDir. map_sum id Some
        (resolved_CreateJob reg readConfig getRuntime configPath d jobID (rw_now w) (rw_fs w) (ParseCommandLine args) workDir)),
      rw_submit = rw_submit w, rw_now = rw_now w, rw_fs = rw_fs w\<rparr>"

lemma run_job_zero:
  assumes "run_job w d config job dir = Some r" "ru_exit_code r = 0"
  shows "\<exists>j c ms e. job = Some j \<and> VerifyJobInputs (rw_fs w) (Some j) VerificationModeSaved = None \<and>
    drivers_SubmitJob (rw_submit w) (asks_as w d) j = Some (Ok (c, ms, e)) \<and> statuses ms \<noteq> [] \<and>
    last (statuses ms) \<notin> {JOB_STATUS_FAILED, JOB_STATUS_CANCELLED}"
proof -
  obtain j where j: "job = Some j" "VerifyJobInputs (rw_fs w) (Some j) VerificationModeSaved = None"
    using assms by (auto simp: run_job_def run_failed_def split: option.splits)
  obtain c ms e where sub: "drivers_SubmitJob (rw_submit w) (asks_as w d) j = Some (Ok (c, ms, e))"
    using assms j by (auto simp: run_job_def run_failed_def asks_as_def split: option.splits sum.splits)
  obtain wd where wd: "WatchAndStreamJobProgressFromStream ms e dir (rw_fs w) = Some wd" "watched_exit wd = 0"
    using assms j sub by (auto simp: run_job_def run_failed_def asks_as_def watched_exit_def
        split: option.splits sum.splits if_splits)
  have "expected_exit ms e = Some 0" using watch_exit [of ms e dir "rw_fs w"] wd by simp
  then have "statuses ms \<noteq> [] \<and> status_exit_code (last (statuses ms)) = 0"
    by (auto simp: expected_exit_def split: if_splits)
  then have "statuses ms \<noteq> []" "last (statuses ms) \<notin> {JOB_STATUS_FAILED, JOB_STATUS_CANCELLED}"
    by (auto simp: status_exit_code_def)
  then show ?thesis using j sub by blast
qed

text \<open>C7. When a compiler driver succeeds without printing its version, a runtime was found for the
  arguments, the job it submitted is the one made for that runtime, its inputs are on disk with the hashes
  the job says, and the daemon accepted the job and reported a status for it, the last one neither failed
  nor cancelled.\<close>
theorem compiler_run_success:
  assumes "RunDriver (compiler_world reg readConfig getRuntime d jobID w) (compiler_driver d) args config = Some r"
    and "ru_exit_code r = 0" "\<not> ru_printed_version r"
  shows "\<exists>rt j c ms e.
    driver_resolver reg readConfig (rw_fs w) getRuntime (rn_config_path config)
      (if rn_start_dir config = '''' then fs_cwd (rw_fs w) else rn_start_dir config) d
      (pa_compiler_flags (ParseCommandLine args) @ pa_linker_flags (ParseCommandLine args)) = Some rt \<and>
    CreateCppJob jobID (rw_now w) (rw_fs w) (ParseCommandLine args) rt
      (if rn_start_dir config = '''' then fs_cwd (rw_fs w) else rn_start_dir config) = Ok j \<and>
    VerifyJobInputs (rw_fs w) (Some j) VerificationModeSaved = None \<and>
    drivers_SubmitJob (rw_submit w) (asks_as w (compiler_driver d)) j = Some (Ok (c, ms, e)) \<and>
    statuses ms \<noteq> [] \<and> last (statuses ms) \<notin> {JOB_STATUS_FAILED, JOB_STATUS_CANCELLED}"
proof -
  let ?w = "compiler_world reg readConfig getRuntime d jobID w"
  define dir where "dir = (if rn_start_dir config = '''' then fs_cwd (rw_fs w) else rn_start_dir config)"
  have fields: "rw_fs ?w = rw_fs w" "rw_submit ?w = rw_submit w" "asks_as ?w (compiler_driver d) = asks_as w (compiler_driver d)"
    by (simp_all add: compiler_world_def asks_as_def)
  obtain job where job: "rw_create_job ?w (rn_config_path config) args dir = Ok job"
    and run: "run_job ?w (compiler_driver d) config job dir = Some r"
    using assms unfolding dir_def
    by (auto simp: RunDriver_def run_failed_def fields Let_def split: prod.splits option.splits if_splits sum.splits)
  obtain j c ms e where j: "job = Some j" "VerifyJobInputs (rw_fs w) (Some j) VerificationModeSaved = None"
    "drivers_SubmitJob (rw_submit w) (asks_as w (compiler_driver d)) j = Some (Ok (c, ms, e))" "statuses ms \<noteq> []"
    "last (statuses ms) \<notin> {JOB_STATUS_FAILED, JOB_STATUS_CANCELLED}"
    using run_job_zero [OF run assms(2)] by (auto simp: fields)
  have "resolved_CreateJob reg readConfig getRuntime (rn_config_path config) d jobID (rw_now w) (rw_fs w)
      (ParseCommandLine args) dir = Ok j"
    using job j(1) by (cases "resolved_CreateJob reg readConfig getRuntime (rn_config_path config) d jobID (rw_now w) (rw_fs w)
      (ParseCommandLine args) dir") (simp_all add: compiler_world_def)
  moreover have "\<exists>rt. resolve (pa_compiler_flags p @ pa_linker_flags p) = Some rt \<and> CreateCppJob jid now fs p rt wd = Ok j"
    if "driver_CreateJob resolve jid now fs p wd = Ok j" for resolve jid now fs p wd
    using that by (cases "resolve (pa_compiler_flags p @ pa_linker_flags p)";
      cases "CreateCppJob jid now fs p (the (resolve (pa_compiler_flags p @ pa_linker_flags p))) wd")
      (simp_all add: driver_CreateJob_def Let_def)
  ultimately obtain rt where "driver_resolver reg readConfig (rw_fs w) getRuntime (rn_config_path config) dir d
      (pa_compiler_flags (ParseCommandLine args) @ pa_linker_flags (ParseCommandLine args)) = Some rt"
    "CreateCppJob jobID (rw_now w) (rw_fs w) (ParseCommandLine args) rt dir = Ok j"
    unfolding resolved_CreateJob_def by blast
  then show ?thesis unfolding dir_def using j(2-5) by blast
qed

text \<open>A directory with a configuration for gcc, and a daemon that has gcc.\<close>

definition configured_fs :: Fs where
  "configured_fs = put_node ''/w/.buildozer'' \<lparr>nd_dir = False, nd_content = [1], nd_mode = 420, nd_mtime = 0\<rparr> sample_fs"

definition gcc_daemon :: "string \<Rightarrow> runtime_answer" where
  "gcc_daemon rid = RuntimeAnswer None (Some native_gcc_10)"

definition gcc_registry :: DriverRegistry where
  "gcc_registry = RegisterDriver ''gcc'' (compiler_driver GCC) []"

definition gcc_settings :: "string \<Rightarrow> DriverMaps option" where
  "gcc_settings p = (if p = ''/w/.buildozer'' then Some [(''gcc'', sample_config)] else None)"

definition gcc_answers :: "SubmitMsg option list" where
  "gcc_answers = [Some (Confirmation None True ''''), Some (StatusUpdate running_status None)]"

lemma gcc_base_id:
  "start_id gcc_registry gcc_settings configured_fs '''' ''/w'' '''' (compiler_driver GCC) =
     ''native_linux-c-gcc-10-glibc-2.31-aarch64''"
proof -
  have "FindConfigFile configured_fs ''/w'' = Found ''/w/.buildozer''" by code_simp
  then have "LoadDriverConfig gcc_settings configured_fs ''/w'' = Ok [(''gcc'', sample_config)]"
    by (simp add: LoadDriverConfig_def gcc_settings_def)
  moreover have "ConstructRuntimeID ''gcc'' (Some sample_config) = Ok ''native_linux-c-gcc-10-glibc-2.31-aarch64''"
    by (simp add: ConstructRuntimeID_def ConfigFromMap_def config_c_def extractCRuntime_def
        extractArchitecture_def required_string_def sample_config_def construct_c_def)
  ultimately show ?thesis
    by (simp add: start_id_def base_runtime_id_def registry_ConstructRuntimeID_def GetDriver_def gcc_registry_def
        RegisterDriver_def compiler_driver_def)
qed

lemma gcc_found:
  "driver_resolver gcc_registry gcc_settings configured_fs gcc_daemon '''' ''/w'' GCC toolArgs = Some native_gcc_10"
proof -
  have "ParseRuntimeID (join_with ''-'' (''native_linux'' # ''c'' # [''gcc'', ''10'', ''glibc'', ''2.31'', ''aarch64''])) =
      (case CppRuntimeParser_Parse [''gcc'', ''10'', ''glibc'', ''2.31'', ''aarch64''] of
         Inl e \<Rightarrow> Err (ParserFailed (join_with ''-'' (''native_linux'' # ''c'' # [''gcc'', ''10'', ''glibc'', ''2.31'', ''aarch64''])) e)
       | Inr r \<Rightarrow> Ok (r\<lparr>rt_id := join_with ''-'' (''native_linux'' # ''c'' # [''gcc'', ''10'', ''glibc'', ''2.31'', ''aarch64'']),
           rt_platform := RUNTIME_PLATFORM_NATIVE_LINUX\<rparr>))"
    by (rule ParseRuntimeID_segments) auto
  moreover have "\<exists>r. CppRuntimeParser_Parse [''gcc'', ''10'', ''glibc'', ''2.31'', ''aarch64''] = Ok r \<and> GetCpp r \<noteq> None"
    by (simp add: CppRuntimeParser_Parse_def Let_def parseCompiler_def parseCRuntime_def parseArchitecture_def GetCpp_def)
  ultimately obtain base where base: "ParseRuntimeID ''native_linux-c-gcc-10-glibc-2.31-aarch64'' = Ok base"
    "GetCpp base \<noteq> None" by (auto simp: GetCpp_def)
  from base(2) have "ApplyToolArgs base toolArgs \<noteq> None"
    by (auto simp: ApplyToolArgs_def ModifyRuntimeWithFlags_def Let_def)
  then obtain req where "ApplyToolArgs base toolArgs = Some req" by blast
  moreover have "drv_apply_tool_args (compiler_driver GCC) = ApplyToolArgs" by (simp add: compiler_driver_def)
  ultimately show ?thesis using base(1)
    by (simp add: driver_resolver_def Resolve_cases gcc_base_id gcc_daemon_def Let_def queryDaemon_found
        queryDaemon_def isNativeRuntime_def)
qed

lemma configured_job:
  "\<exists>job. CreateCppJob ''j'' 0 configured_fs (ParseCommandLine sample_line) rt ''/w'' = Ok job \<and>
     VerifyJobInputs configured_fs (Some job) VerificationModeSaved = None"
proof -
  let ?in = "normalizePaths (given_inputs (ParseCommandLine sample_line)) ''/w''"
  have "is_ok (CreateJobDataListForFiles configured_fs (NewJobDataStager ''/w'') ?in JobDataModeReference)" by code_simp
  from CreateCppJob_exists [OF this] obtain job
    where job: "CreateCppJob ''j'' 0 configured_fs (ParseCommandLine sample_line) rt ''/w'' = Ok job" by blast
  have "job_input_paths (submission_context (ParseCommandLine sample_line) rt ''/w'') = ?in"
    by (simp add: job_input_paths_def submission_context_def normalizePaths_def given_inputs_def)
  with CreateCppJob_Ok [OF job]
  have inputs: "CreateJobDataListForFiles configured_fs (NewJobDataStager ''/w'') ?in JobDataModeReference = Ok (job_inputs job)"
    and cwd: "job_cwd job = ''/w''" by metis+
  have "list_all (\<lambda>r. case r of Inl _ \<Rightarrow> False | Inr ds \<Rightarrow>
      VerifyJobDataList configured_fs ds ''/w'' VerificationModeSaved = None)
    [CreateJobDataListForFiles configured_fs (NewJobDataStager ''/w'') ?in JobDataModeReference]" by code_simp
  then have "VerifyJobDataList configured_fs (job_inputs job) ''/w'' VerificationModeSaved = None"
    using inputs by simp
  then show ?thesis using job cwd by (simp add: VerifyJobInputs_def)
qed

text \<open>The world of that run, for the job it makes.\<close>

definition configured_run :: "driver_error RunWorld" where
  "configured_run = compiler_world gcc_registry gcc_settings gcc_daemon GCC ''j''
     (sample_run (gcc_answers, StreamEnd)\<lparr>rw_fs := configured_fs\<rparr>)"

lemma configured_run_submits:
  assumes "CreateCppJob ''j'' 0 configured_fs (ParseCommandLine sample_line) native_gcc_10 ''/w'' = Ok job"
    "VerifyJobInputs configured_fs (Some job) VerificationModeSaved = None"
  shows "submits configured_run (compiler_driver GCC) sample_line plain_config job"
proof -
  have "fst (InitializeGlobal (\<lambda>_. True) (Some ''/h'') 0
      (driver_logging_config (Some ''/h'') ''gcc'' plain_config) NoLogging) = None" by code_simp
  moreover have "drv_name (compiler_driver GCC) = ''gcc''" by (simp add: compiler_driver_def)
  moreover have "\<not> isVersionFlag sample_line" by (simp add: isVersionFlag_def sample_line_def)
  moreover have "rw_create_job configured_run '''' sample_line ''/w'' = Ok (Some job)"
    using gcc_found assms(1)
    by (simp add: configured_run_def compiler_world_def resolved_CreateJob_def driver_CreateJob_def sample_run_def Let_def)
  ultimately show ?thesis using assms(2)
    by (simp add: submits_def configured_run_def compiler_world_def sample_run_def plain_config_def)
qed

theorem compiler_run_success_witness:
  "\<exists>j c ms e. CreateCppJob ''j'' 0 configured_fs (ParseCommandLine sample_line) native_gcc_10 ''/w'' = Ok j \<and>
     drivers_SubmitJob (rw_submit configured_run) (asks_as configured_run (compiler_driver GCC)) j = Some (Ok (c, ms, e)) \<and>
     statuses ms \<noteq> []"
proof -
  obtain job where job: "CreateCppJob ''j'' 0 configured_fs (ParseCommandLine sample_line) native_gcc_10 ''/w'' = Ok job"
    "VerifyJobInputs configured_fs (Some job) VerificationModeSaved = None" using configured_job by blast
  let ?w = "sample_run (gcc_answers, StreamEnd)\<lparr>rw_fs := configured_fs\<rparr>"
  have w: "rw_submit configured_run = rw_submit ?w" "asks_as configured_run = asks_as ?w" "rw_now ?w = 0" "rw_fs ?w = configured_fs"
    by (simp_all add: configured_run_def compiler_world_def asks_as_def fun_eq_iff sample_run_def)
  have "\<exists>r. run_job configured_run (compiler_driver GCC) plain_config (Some job) ''/w'' = Some r \<and>
      ru_exit_code r = 0 \<and> \<not> ru_printed_version r"
    using job(2)
    by (simp add: run_job_def configured_run_def compiler_world_def sample_run_def drivers_SubmitJob_def
        SubmitJobStreamingWithStream_def GetConfirmation_def gcc_answers_def WatchAndStreamJobProgressFromStream_def
        watch_start_def take_status_def msg_status_def running_status_def terminal_status_def status_exit_code_def
        buildJobResultFromStatus_def Let_def)
  moreover have "RunDriver configured_run (compiler_driver GCC) sample_line plain_config =
      run_job configured_run (compiler_driver GCC) plain_config (Some job) ''/w''"
    using RunDriver_submits [OF configured_run_submits [OF job]] by (simp add: plain_config_def)
  ultimately obtain r where r: "RunDriver configured_run (compiler_driver GCC) sample_line plain_config = Some r"
    "ru_exit_code r = 0" "\<not> ru_printed_version r" by auto
  from compiler_run_success [OF r(1) [unfolded configured_run_def] r(2, 3)]
  show ?thesis unfolding w using gcc_found by (auto simp: plain_config_def sample_run_def)
qed

end
