(* ===== verification/PeerRuntimes.thy ===== *)
theory PeerRuntimes
  imports RuntimeManagers
begin

text \<open>
  The runtimes of the registered peers without asking them (pkg/peers/remote_manager.go): what the table of
  peers holds, as they announced it. The matching itself is in RuntimeMatch. A peer manager that is missing
  is None; a nil entry in a query is a panic.
\<close>

datatype remote_list_error = ExecutionNotSupported string | NilMatchQuery

definition remote_entries :: "PeerManager \<Rightarrow> PeerInfo list" where
  "remote_entries pm = filter (\<lambda>p. \<not> pi_is_local p \<and> pi_runtimes p \<noteq> []) (GetAllPeersIncludingLocal pm)"

definition peers_ListRuntimes :: "PeerManager option \<Rightarrow> Runtime list \<times> string" where
  "peers_ListRuntimes pmo =
     (case pmo of
        None \<Rightarrow> ([], ''No peer manager configured'')
      | Some pm \<Rightarrow> (concat (map pi_runtimes (remote_entries pm)),
          ''Retrieved runtimes from '' @ rune_string (length (remote_entries pm)) @ '' remote peers''))"

definition peers_GetRuntimes :: "remote_list_error + RuntimeImpl list" where
  "peers_GetRuntimes = Err (ExecutionNotSupported ''GetRuntimes'')"

definition peers_GetRuntimeByID :: "string \<Rightarrow> remote_list_error + RuntimeImpl" where
  "peers_GetRuntimeByID rid = Err (ExecutionNotSupported ''GetRuntimeByID'')"

fun peers_match_loop :: "(Version \<Rightarrow> string) \<Rightarrow> RuntimeMatchQuery \<Rightarrow> Runtime list \<Rightarrow> Runtime list option" where
  "peers_match_loop vstr q [] = Some []"
| "peers_match_loop vstr q (rt # rts) =
     (case peers_runtimeMatchesQuery vstr rt q of
        None \<Rightarrow> None
      | Some b \<Rightarrow> map_option (\<lambda>ms. if b then rt # ms else ms) (peers_match_loop vstr q rts))"

definition peers_Match ::
  "(Version \<Rightarrow> string) \<Rightarrow> PeerManager option \<Rightarrow> RuntimeMatchQuery option \<Rightarrow> (remote_list_error + Runtime list) option" where
  "peers_Match vstr pmo query =
     (case query of
        None \<Rightarrow> Some (Err NilMatchQuery)
      | Some q \<Rightarrow> map_option Ok (peers_match_loop vstr q (fst (peers_ListRuntimes pmo))))"

lemma peers_match_loop_filter:
  "no_nil_constraint q \<Longrightarrow>
     peers_match_loop vstr q rts = Some (filter (\<lambda>rt. query_met (peers_value_of vstr rt) rt q) rts)"
  by (induction rts) (simp_all add: peers_runtimeMatchesQuery_iff)

text \<open>The matches of a query are the runtimes of the other peers in the table that meet it, whether a peer is
  marked offline or not.\<close>
theorem peers_Match_spec:
  assumes "no_nil_constraint q" and "peers_Match vstr (Some pm) (Some q) = Some (Ok ms)"
  shows "rt \<in> set ms \<longleftrightarrow>
    (\<exists>p. p \<in> set (GetAllPeersIncludingLocal pm) \<and> \<not> pi_is_local p \<and> rt \<in> set (pi_runtimes p) \<and>
      query_met (peers_value_of vstr rt) rt q)"
  using assms(2) peers_match_loop_filter [OF assms(1), of vstr]
  by (force simp: peers_Match_def peers_ListRuntimes_def remote_entries_def)

end
