(* ===== verification/Detection.thy ===== *)
theory Detection
  imports RuntimeManagers
begin

text \<open>
  Callers of the local runtime manager at the same time (pkg/runtimes/manager.go, GetRuntimes with
  detectAndCacheSuper and waitForDetectionSuper): a step relation with a step for each stretch of code under
  the lock of the manager. \<open>Ds\<close> are the discoverers a detection may run with, so that
  \<open>detectRuntimesSuper ` Ds\<close> is what it may find.
\<close>

section \<open>The steps\<close>

type_synonym 'e detected = "RuntimeImpl list \<times> string \<times> 'e option"

text \<open>Where a caller is: before the first look at the cache, past it with a detection of its own to start,
  detecting, with a result to store, with the mark to remove, waiting for another's detection, or back with
  a result or an ended context.\<close>

datatype 'e caller =
  Arrived
| Deciding
| Detecting
| Storing "'e detected"
| Leaving "'e detected"
| WaitingFor
| GotRuntimes "'e detected"
| GaveUp

record 'e detecting =
  dt_manager :: "'e LocalRuntimesManager"
  dt_callers :: "'e caller list"

definition start_callers :: "nat \<Rightarrow> 'e detecting" where
  "start_callers n = \<lparr>dt_manager = NewLocalRuntimesManager, dt_callers = replicate n Arrived\<rparr>"

abbreviation at :: "'e detecting \<Rightarrow> nat \<Rightarrow> 'e caller \<Rightarrow> bool" where
  "at s i c \<equiv> i < length (dt_callers s) \<and> dt_callers s ! i = c"

definition move :: "nat \<Rightarrow> 'e caller \<Rightarrow> 'e LocalRuntimesManager \<Rightarrow> 'e detecting \<Rightarrow> 'e detecting" where
  "move i c m s = s\<lparr>dt_manager := m, dt_callers := (dt_callers s)[i := c]\<rparr>"

text \<open>What the first look at the cache decides.\<close>

definition first_look :: "'e LocalRuntimesManager \<Rightarrow> 'e caller" where
  "first_look m =
     (if lrm_detected_at m \<noteq> None then GotRuntimes (local_cached m)
      else if lrm_is_detecting m then WaitingFor else Deciding)"

inductive detect_step ::
  "(RuntimeImpl, 'd) Discoverer list set \<Rightarrow> 'e detecting \<Rightarrow> 'e detecting \<Rightarrow> bool"
  for Ds :: "(RuntimeImpl, 'd) Discoverer list set" where
  look: "at s i Arrived \<Longrightarrow> detect_step Ds s (move i (first_look (dt_manager s)) (dt_manager s) s)"
| mark: "at s i Deciding \<Longrightarrow> detect_step Ds s (move i Detecting (local_begin_detect (dt_manager s)) s)"
| detect: "at s i Detecting \<Longrightarrow> ds \<in> Ds \<Longrightarrow>
    detect_step Ds s (move i (Storing (detectRuntimesSuper ds)) (dt_manager s) s)"
| keep: "at s i (Storing r) \<Longrightarrow> detect_step Ds s (move i (Leaving r) (local_cache_result now r (dt_manager s)) s)"
| unmark: "at s i (Leaving r) \<Longrightarrow> detect_step Ds s (move i (GotRuntimes r) (local_end_detect (dt_manager s)) s)"
| poll: "at s i WaitingFor \<Longrightarrow> lrm_detected_at (dt_manager s) \<noteq> None \<Longrightarrow>
    detect_step Ds s (move i (GotRuntimes (local_cached (dt_manager s))) (dt_manager s) s)"
| give_up: "at s i WaitingFor \<Longrightarrow> detect_step Ds s (move i GaveUp (dt_manager s) s)"

inductive_cases detect_stepE: "detect_step Ds s s'"

section \<open>What holds of every state\<close>

fun may_hold :: "'e detected set \<Rightarrow> 'e caller \<Rightarrow> bool" where
  "may_hold D (Storing r) = (r \<in> D)"
| "may_hold D (Leaving r) = (r \<in> D)"
| "may_hold D (GotRuntimes r) = (r \<in> D)"
| "may_hold D c = True"

fun at_work :: "'e caller \<Rightarrow> bool" where
  "at_work Detecting = True"
| "at_work (Storing r) = True"
| "at_work c = False"

definition detecting_ok :: "'e detected set \<Rightarrow> 'e detecting \<Rightarrow> bool" where
  "detecting_ok D s =
     (list_all (may_hold D) (dt_callers s) \<and>
      (lrm_detected_at (dt_manager s) \<noteq> None \<longrightarrow> local_cached (dt_manager s) \<in> D) \<and>
      (lrm_is_detecting (dt_manager s) \<or> WaitingFor \<in> set (dt_callers s) \<longrightarrow>
         lrm_detected_at (dt_manager s) \<noteq> None \<or> list_ex at_work (dt_callers s)))"

lemma list_all_move: "list_all P xs \<Longrightarrow> P c \<Longrightarrow> list_all P (xs[i := c])"
  by (auto simp: list_all_iff dest!: set_update_subset_insert [THEN subsetD])

lemma list_ex_move: "i < length xs \<Longrightarrow> P c \<Longrightarrow> list_ex P (xs[i := c])"
  by (auto simp: list_ex_iff intro!: bexI [of _ c] set_update_memI)

lemma list_ex_move_other:
  assumes "list_ex P xs" "i < length xs \<Longrightarrow> \<not> P (xs ! i)"
  shows "list_ex P (xs[i := c])"
proof -
  obtain j where j: "j < length xs" "P (xs ! j)" using assms(1) by (auto simp: list_ex_length)
  with assms(2) have "j \<noteq> i" by auto
  with j show ?thesis by (auto simp: list_ex_length intro!: exI [of _ j])
qed

lemma waiting_move: "WaitingFor \<in> set (xs[i := c]) \<Longrightarrow> c \<noteq> WaitingFor \<Longrightarrow> WaitingFor \<in> set xs"
  using set_update_subset_insert [of xs i c] by auto

lemma local_marks:
  "lrm_detected_at (local_begin_detect m) = lrm_detected_at m" "lrm_is_detecting (local_begin_detect m)"
  "local_cached (local_begin_detect m) = local_cached m"
  "lrm_detected_at (local_cache_result now r m) = Some now" "local_cached (local_cache_result now r m) = r"
  "lrm_detected_at (local_end_detect m) = lrm_detected_at m" "\<not> lrm_is_detecting (local_end_detect m)"
  "local_cached (local_end_detect m) = local_cached m"
  by (simp_all add: local_begin_detect_def local_cache_result_def local_end_detect_def local_cached_def
      split: prod.split)

lemma step_ok:
  assumes "detect_step Ds s s'" and ok: "detecting_ok (detectRuntimesSuper ` Ds) s"
  shows "detecting_ok (detectRuntimesSuper ` Ds) s'"
  using assms(1)
proof (cases rule: detect_step.cases)
  case (look i)
  have "list_ex at_work (dt_callers s) \<Longrightarrow> list_ex at_work ((dt_callers s)[i := c])" for c
    using look by (intro list_ex_move_other) auto
  with look ok show ?thesis
    by (auto simp: detecting_ok_def move_def first_look_def intro!: list_all_move dest: waiting_move)
next
  case (mark i)
  with ok show ?thesis
    by (auto simp: detecting_ok_def move_def local_marks intro!: list_all_move list_ex_move)
next
  case (detect i ds)
  with ok show ?thesis
    by (auto simp: detecting_ok_def move_def intro!: list_all_move list_ex_move dest: waiting_move)
next
  case (keep i r now)
  then have "r \<in> detectRuntimesSuper ` Ds" using ok by (auto simp: detecting_ok_def list_all_length)
  with keep ok show ?thesis
    by (auto simp: detecting_ok_def move_def local_marks intro!: list_all_move)
next
  case (unmark i r)
  have "list_ex at_work (dt_callers s) \<Longrightarrow> list_ex at_work ((dt_callers s)[i := c])" for c
    using unmark by (intro list_ex_move_other) auto
  moreover have "r \<in> detectRuntimesSuper ` Ds" using unmark ok by (auto simp: detecting_ok_def list_all_length)
  ultimately show ?thesis using unmark ok
    by (auto simp: detecting_ok_def move_def local_marks intro!: list_all_move dest: waiting_move)
next
  case (poll i)
  with ok show ?thesis
    by (auto simp: detecting_ok_def move_def intro!: list_all_move)
next
  case (give_up i)
  have "list_ex at_work (dt_callers s) \<Longrightarrow> list_ex at_work ((dt_callers s)[i := c])" for c
    using give_up by (intro list_ex_move_other) auto
  with give_up ok show ?thesis
    by (auto simp: detecting_ok_def move_def intro!: list_all_move dest: waiting_move)
qed

lemma start_ok: "detecting_ok D (start_callers n)"
  by (simp add: detecting_ok_def start_callers_def NewLocalRuntimesManager_def list_all_iff)

interpretation detecting: step_system "\<lambda>s. s = start_callers n" "\<lambda>s (_ :: unit) s'. detect_step Ds s s'"
  "detecting_ok (detectRuntimesSuper ` Ds)" for n Ds
  by unfold_locales (auto intro: start_ok step_ok)

lemma reachable_ok:
  assumes "(detect_step Ds)\<^sup>*\<^sup>* (start_callers n) s"
  shows "detecting_ok (detectRuntimesSuper ` Ds) s"
proof (rule detecting.reach_inv)
  show "reach (\<lambda>s. s = start_callers n) (\<lambda>s (_ :: unit) s'. detect_step Ds s s') s"
    using assms by (induction rule: rtranclp_induct) (auto intro: reach_start reach_step)
qed

section \<open>Every run ends\<close>

text \<open>The steps a caller may still make.\<close>

fun steps_left :: "'e caller \<Rightarrow> nat" where
  "steps_left Arrived = 5"
| "steps_left Deciding = 4"
| "steps_left Detecting = 3"
| "steps_left (Storing r) = 2"
| "steps_left (Leaving r) = 1"
| "steps_left WaitingFor = 1"
| "steps_left (GotRuntimes r) = 0"
| "steps_left GaveUp = 0"

definition all_left :: "'e detecting \<Rightarrow> nat" where
  "all_left s = sum_list (map steps_left (dt_callers s))"

lemma all_left_move:
  assumes "i < length (dt_callers s)" "steps_left c < steps_left (dt_callers s ! i)"
  shows "all_left (move i c m s) < all_left s"
  using assms
proof (induction "dt_callers s" arbitrary: s i)
  case (Cons x xs)
  then show ?case
  proof (cases i)
    case 0
    with Cons.prems Cons.hyps(2) [symmetric] show ?thesis by (simp add: all_left_def move_def)
  next
    case (Suc j)
    have "xs = dt_callers (s\<lparr>dt_callers := xs\<rparr>)" by simp
    from Cons.hyps(1) [OF this, of j] Cons.prems Cons.hyps(2) [symmetric] Suc show ?thesis
      by (simp add: all_left_def move_def)
  qed
qed simp

lemma step_left: "detect_step Ds s s' \<Longrightarrow> all_left s' < all_left s"
  by (erule detect_stepE; hypsubst; rule all_left_move) (auto simp: first_look_def)

lemma run_left: "(detect_step Ds ^^ k) s s' \<Longrightarrow> all_left s' + k \<le> all_left s"
proof (induction k arbitrary: s')
  case (Suc k)
  then obtain s1 where "(detect_step Ds ^^ k) s s1" "detect_step Ds s1 s'" by auto
  with Suc.IH [of s1] step_left [of Ds s1 s'] show ?case by simp
qed simp

definition returned :: "'e detected set \<Rightarrow> 'e caller \<Rightarrow> bool" where
  "returned D c = (case c of GotRuntimes r \<Rightarrow> r \<in> D | GaveUp \<Rightarrow> True | _ \<Rightarrow> False)"

lemma stuck_returned:
  assumes "\<And>s'. \<not> detect_step Ds s s'" "Ds \<noteq> {}" "at s i c" "may_hold D c"
  shows "returned D c"
proof (cases c)
  case Arrived
  with assms(1,3) show ?thesis by (metis look)
next
  case Deciding
  with assms(1,3) show ?thesis by (metis mark)
next
  case Detecting
  with assms(1-3) show ?thesis by (metis detect ex_in_conv)
next
  case (Storing r)
  with assms(1,3) show ?thesis by (metis keep)
next
  case (Leaving r)
  with assms(1,3) show ?thesis by (metis unmark)
next
  case WaitingFor
  with assms(1,3) show ?thesis by (metis give_up)
qed (use assms(4) in \<open>simp_all add: returned_def\<close>)

text \<open>A caller that waits is woken by a poll, without giving up, as soon as the detections at work are over.\<close>
lemma waiter_wakes:
  assumes "(detect_step Ds)\<^sup>*\<^sup>* (start_callers n) s" and "at s i WaitingFor" and "\<not> list_ex at_work (dt_callers s)"
  shows "detect_step Ds s (move i (GotRuntimes (local_cached (dt_manager s))) (dt_manager s) s)"
proof -
  have "WaitingFor \<in> set (dt_callers s)" using assms(2) nth_mem by fastforce
  then have "lrm_detected_at (dt_manager s) \<noteq> None"
    using reachable_ok [OF assms(1)] assms(3) by (auto simp: detecting_ok_def)
  with assms(2) show ?thesis by (rule poll)
qed



text \<open>The look at the cache and the mark are not one step: two callers can both detect, and the result that is
  cached in the end need not be the one the first of them returned.\<close>
theorem double_detection:
  fixes ds :: "(RuntimeImpl, 'd) Discoverer list"
  shows "\<exists>s :: 'e detecting. (detect_step {ds})\<^sup>*\<^sup>* (start_callers 2) s \<and> dt_callers s = [Detecting, Detecting]"
proof -
  define m :: "'e LocalRuntimesManager" where "m = NewLocalRuntimesManager"
  define s1 :: "'e detecting" where "s1 = \<lparr>dt_manager = m, dt_callers = [Deciding, Arrived]\<rparr>"
  define s2 :: "'e detecting" where "s2 = \<lparr>dt_manager = m, dt_callers = [Deciding, Deciding]\<rparr>"
  define s3 :: "'e detecting" where "s3 = \<lparr>dt_manager = local_begin_detect m, dt_callers = [Detecting, Deciding]\<rparr>"
  define s4 :: "'e detecting" where
    "s4 = \<lparr>dt_manager = local_begin_detect (local_begin_detect m), dt_callers = [Detecting, Detecting]\<rparr>"
  have f: "first_look m = Deciding" by (simp add: first_look_def m_def NewLocalRuntimesManager_def)
  have "detect_step {ds} (start_callers 2) s1"
    using look [where s = "start_callers 2 :: 'e detecting" and i = 0 and Ds = "{ds}"] f
    by (simp add: start_callers_def s1_def move_def m_def numeral_2_eq_2)
  moreover have "detect_step {ds} s1 s2"
    using look [where s = s1 and i = 1 and Ds = "{ds}"] f by (simp add: s1_def s2_def move_def)
  moreover have "detect_step {ds} s2 s3"
    using mark [where s = s2 and i = 0 and Ds = "{ds}"] by (simp add: s2_def s3_def move_def)
  moreover have "detect_step {ds} s3 s4"
    using mark [where s = s3 and i = 1 and Ds = "{ds}"] by (simp add: s3_def s4_def move_def)
  ultimately have "(detect_step {ds})\<^sup>*\<^sup>* (start_callers 2) s4" by (meson converse_rtranclp_into_rtranclp rtranclp.rtrancl_refl)
  then show ?thesis by (auto simp: s4_def)
qed

end
