(* ===== verification/Execution.thy ===== *)
theory Execution
  imports RemoteRuntime
begin

text \<open>
  Running a command and reporting its output line by line (pkg/runtime/executor.go). What the command
  writes, in the pieces in which it writes it, and how it ends is an argument; the pipe between the copy of
  its output and the goroutine that reads it, and the scanner of that goroutine, are Go's io.Pipe and
  bufio.Scanner. A call that never returns is None.
\<close>

section \<open>The scanner behind a pipe\<close>

abbreviation line_feed :: byte where "line_feed \<equiv> 10"
abbreviation carriage_return :: byte where "carriage_return \<equiv> 13"

text \<open>The longest line the scanner holds, with its newline.\<close>

definition MaxScanTokenSize :: nat where
  "MaxScanTokenSize = 64 * 1024"

record Scanner =
  sn_line :: "byte list"
  sn_tokens :: "byte list list"
  sn_stopped :: bool

definition NewScanner :: Scanner where
  "NewScanner = \<lparr>sn_line = [], sn_tokens = [], sn_stopped = False\<rparr>"

definition dropCR :: "byte list \<Rightarrow> byte list" where
  "dropCR line = (if line \<noteq> [] \<and> last line = carriage_return then butlast line else line)"

definition scan_byte :: "nat \<Rightarrow> byte \<Rightarrow> Scanner \<Rightarrow> Scanner" where
  "scan_byte limit b s =
     (if b = line_feed then s\<lparr>sn_line := [], sn_tokens := sn_tokens s @ [dropCR (sn_line s)]\<rparr>
      else if length (sn_line s) + 1 < limit then s\<lparr>sn_line := sn_line s @ [b]\<rparr>
      else s\<lparr>sn_line := [], sn_stopped := True\<rparr>)"

text \<open>A write returns when everything has been read. A scanner that has stopped reads nothing more, and
  the reading end of the pipe stays open.\<close>

fun write_pipe :: "nat \<Rightarrow> byte list \<Rightarrow> Scanner \<Rightarrow> Scanner option" where
  "write_pipe limit [] s = Some s"
| "write_pipe limit (b # bs) s = (if sn_stopped s then None else write_pipe limit bs (scan_byte limit b s))"

fun copy_output :: "nat \<Rightarrow> byte list list \<Rightarrow> Scanner \<Rightarrow> Scanner option" where
  "copy_output limit [] s = Some s"
| "copy_output limit (c # cs) s = Option.bind (write_pipe limit c s) (copy_output limit cs)"

text \<open>The end of the output, when the writing end is closed.\<close>

definition scanned_lines :: "Scanner \<Rightarrow> byte list list" where
  "scanned_lines s =
     (if sn_stopped s \<or> sn_line s = [] then sn_tokens s else sn_tokens s @ [dropCR (sn_line s)])"

definition reportProgress :: "int \<Rightarrow> string \<Rightarrow> Scanner \<Rightarrow> Progress list" where
  "reportProgress now source s =
     map (\<lambda>line. \<lparr>prg_type = ProgressTypeOutput, prg_source = source, prg_data = line @ [line_feed],
       prg_timestamp = now, prg_execution_id = ''''\<rparr>) (scanned_lines s)"

section \<open>Running a command\<close>

text \<open>A command that cannot be started, or one with what it writes to its two outputs and its exit code; None
  is any other error of the run.\<close>

datatype command_run = NotStarted | Ran "byte list list" "byte list list" "int option"

datatype executor_error = WorkDirNotMade

text \<open>The reports of the two outputs come in some order of the two goroutines.\<close>

fun interleave :: "bool list \<Rightarrow> 'a list \<Rightarrow> 'a list \<Rightarrow> 'a list" where
  "interleave (True # order) (x # xs) ys = x # interleave order xs ys"
| "interleave (False # order) xs (y # ys) = y # interleave order xs ys"
| "interleave order xs ys = xs @ ys"

definition ExecuteCommand ::
  "(string \<Rightarrow> bool) \<Rightarrow> (string \<Rightarrow> string \<Rightarrow> string list \<Rightarrow> command_run) \<Rightarrow> bool \<Rightarrow> int \<Rightarrow> bool list
    \<Rightarrow> string \<Rightarrow> string \<Rightarrow> string list
    \<Rightarrow> ((executor_error + byte list \<times> byte list \<times> int) \<times> Progress list) option" where
  "ExecuteCommand mkdirAll run callback now order workDir command args =
     (if \<not> mkdirAll workDir then Some (Err WorkDirNotMade, [])
      else case run workDir command args of
        NotStarted \<Rightarrow> Some (Ok ([], [], 1), [])
      | Ran outs errs code \<Rightarrow>
          (case (copy_output MaxScanTokenSize outs NewScanner, copy_output MaxScanTokenSize errs NewScanner) of
             (Some so, Some se) \<Rightarrow>
               Some (Ok (concat outs, concat errs, case code of Some c \<Rightarrow> c | None \<Rightarrow> 1),
                 if callback then interleave order (reportProgress now ''stdout'' so) (reportProgress now ''stderr'' se)
                 else [])
           | _ \<Rightarrow> None))"

section \<open>When a run returns\<close>

lemma write_pipe_append: "write_pipe limit (bs @ cs) s = Option.bind (write_pipe limit bs s) (write_pipe limit cs)"
  by (induction bs arbitrary: s) simp_all

lemma copy_output_concat: "copy_output limit cs s = write_pipe limit (concat cs) s"
proof (induction cs arbitrary: s)
  case (Cons c cs)
  then have "copy_output limit cs = write_pipe limit (concat cs)" by blast
  then show ?case by (simp add: write_pipe_append)
qed simp

text \<open>More output after as many bytes as the scanner holds without a newline.\<close>

definition overlong :: "nat \<Rightarrow> byte list \<Rightarrow> bool" where
  "overlong limit bs =
     (\<exists>before line after. bs = before @ line @ after \<and> (before = [] \<or> last before = line_feed) \<and>
        length line = limit \<and> line_feed \<notin> set line \<and> after \<noteq> [])"

lemma overlongI:
  "bs = before @ line @ after \<Longrightarrow> before = [] \<or> last before = line_feed \<Longrightarrow> length line = limit \<Longrightarrow>
     line_feed \<notin> set line \<Longrightarrow> after \<noteq> [] \<Longrightarrow> overlong limit bs"
  unfolding overlong_def by blast

lemma overlong_line:
  assumes "line_feed \<notin> set line" "length line < limit"
  shows "overlong limit (line @ line_feed # bs) \<longleftrightarrow> overlong limit bs"
proof
  assume "overlong limit bs"
  then obtain p q r where o: "bs = p @ q @ r" "p = [] \<or> last p = line_feed" "length q = limit" "line_feed \<notin> set q" "r \<noteq> []"
    unfolding overlong_def by blast
  show "overlong limit (line @ line_feed # bs)"
    by (rule overlongI [of _ "line @ line_feed # p" q r]) (use o in auto)
next
  assume "overlong limit (line @ line_feed # bs)"
  then obtain p q r where o: "line @ line_feed # bs = p @ q @ r" "p = [] \<or> last p = line_feed" "length q = limit"
      "line_feed \<notin> set q" "r \<noteq> []"
    unfolding overlong_def by blast
  obtain us where "line = p @ us \<and> us @ line_feed # bs = q @ r \<or> line @ us = p \<and> line_feed # bs = us @ q @ r"
    using o(1) by (auto simp: append_eq_append_conv2)
  then show "overlong limit bs"
  proof (elim disjE conjE)
    assume l: "line = p @ us" "us @ line_feed # bs = q @ r"
    with o(2) assms(1) have "p = []" by (cases p rule: rev_cases) auto
    with l assms(2) o(3) have "length us < length q" by simp
    then have "line_feed = q ! length us" using l(2) by (metis nth_append nth_append_length)
    with o(4) \<open>length us < length q\<close> show ?thesis by (metis nth_mem)
  next
    assume l: "line @ us = p" "line_feed # bs = us @ q @ r"
    show ?thesis
    proof (cases us)
      case Nil
      with l o(4) have "q = []" by (cases q) auto
      with o(3) assms(2) show ?thesis by simp
    next
      case (Cons u us')
      show ?thesis
        by (rule overlongI [of _ us' q r]) (use Cons l o in \<open>auto split: if_splits\<close>)
    qed
  qed
qed

lemma overlong_full:
  assumes "line_feed \<notin> set line" "length line = limit" "line \<noteq> []"
  shows "overlong limit (line @ bs) \<longleftrightarrow> bs \<noteq> []"
proof
  assume "bs \<noteq> []"
  then show "overlong limit (line @ bs)" by (rule overlongI [of _ "[]" line, rotated -1]) (use assms in simp_all)
next
  assume "overlong limit (line @ bs)"
  then obtain p q r where "line @ bs = p @ q @ r" "length q = limit" "r \<noteq> []" unfolding overlong_def by blast
  then show "bs \<noteq> []" using assms(2) by (auto dest: arg_cong [of _ _ length])
qed

text \<open>What a scanner that has not stopped does not take of a text: the line it holds goes before it.\<close>
lemma write_pipe_None:
  assumes "\<not> sn_stopped s" "line_feed \<notin> set (sn_line s)" "length (sn_line s) < limit"
  shows "write_pipe limit bs s = None \<longleftrightarrow> overlong limit (sn_line s @ bs)"
  using assms
proof (induction bs arbitrary: s)
  case Nil
  then show ?case by (auto simp: overlong_def dest: arg_cong [of _ _ length])
next
  case (Cons b bs)
  consider "b = line_feed" | "b \<noteq> line_feed" "length (sn_line s) + 1 < limit" | "b \<noteq> line_feed" "length (sn_line s) + 1 = limit"
    using Cons.prems(3) by linarith
  then show ?case
  proof cases
    case 1
    with Cons overlong_line [OF Cons.prems(2,3)] show ?thesis by (simp add: scan_byte_def)
  next
    case 2
    with Cons show ?thesis by (simp add: scan_byte_def)
  next
    case 3
    then have "write_pipe limit (b # bs) s = None \<longleftrightarrow> bs \<noteq> []"
      using Cons.prems(1) by (cases bs) (simp_all add: scan_byte_def)
    with overlong_full [of "sn_line s @ [b]" limit bs] 3 Cons.prems(2) show ?thesis by simp
  qed
qed

lemma copy_output_None: "copy_output MaxScanTokenSize cs NewScanner = None \<longleftrightarrow> overlong MaxScanTokenSize (concat cs)"
  using write_pipe_None [of NewScanner MaxScanTokenSize "concat cs"]
  by (simp add: copy_output_concat NewScanner_def MaxScanTokenSize_def)

section \<open>What is reported\<close>

definition with_newlines :: "byte list list \<Rightarrow> byte list" where
  "with_newlines lines = concat (map (\<lambda>line. line @ [line_feed]) lines)"

lemma dropCR_id: "carriage_return \<notin> set line \<Longrightarrow> dropCR line = line"
  by (auto simp: dropCR_def dest: last_in_set)

lemma write_pipe_scanned:
  assumes "write_pipe limit bs NewScanner = Some s" "carriage_return \<notin> set bs"
  shows "if sn_stopped s then bs \<noteq> [] \<and> last bs \<noteq> line_feed
    else with_newlines (sn_tokens s) @ sn_line s = bs \<and> line_feed \<notin> set (sn_line s)"
  using assms
proof (induction bs arbitrary: s rule: rev_induct)
  case Nil
  then show ?case by (auto simp: NewScanner_def with_newlines_def)
next
  case (snoc b bs)
  then obtain t where t: "write_pipe limit bs NewScanner = Some t" "\<not> sn_stopped t" "s = scan_byte limit b t"
    by (auto simp: write_pipe_append bind_eq_Some_conv split: if_splits)
  with snoc.IH [OF t(1)] snoc.prems(2)
  have h: "with_newlines (sn_tokens t) @ sn_line t = bs" "line_feed \<notin> set (sn_line t)" "dropCR (sn_line t) = sn_line t"
    by (auto intro!: dropCR_id)
  show ?case
    by (auto simp: t(2,3) scan_byte_def h(2,3) with_newlines_def simp flip: h(1))
qed

text \<open>A text of whole lines that end as on Unix.\<close>

definition unix_text :: "byte list \<Rightarrow> bool" where
  "unix_text bs = ((bs = [] \<or> last bs = line_feed) \<and> carriage_return \<notin> set bs)"

lemma scanned_unix_text:
  assumes "copy_output limit cs NewScanner = Some s" "unix_text (concat cs)"
  shows "with_newlines (scanned_lines s) = concat cs"
proof -
  have "write_pipe limit (concat cs) NewScanner = Some s" "carriage_return \<notin> set (concat cs)"
    using assms unfolding copy_output_concat unix_text_def by blast+
  from write_pipe_scanned [OF this] have
    s: "if sn_stopped s then concat cs \<noteq> [] \<and> last (concat cs) \<noteq> line_feed
      else with_newlines (sn_tokens s) @ sn_line s = concat cs \<and> line_feed \<notin> set (sn_line s)" .
  have whole: "concat cs = [] \<or> last (concat cs) = line_feed" using assms(2) by (simp only: unix_text_def)
  then have ns: "\<not> sn_stopped s" using s by auto
  then have *: "with_newlines (sn_tokens s) @ sn_line s = concat cs" "line_feed \<notin> set (sn_line s)" using s by simp_all
  have "sn_line s = []"
  proof (rule ccontr)
    assume ne: "sn_line s \<noteq> []"
    then have "last (concat cs) = last (sn_line s)" "concat cs \<noteq> []" using *(1) by (metis last_appendR, metis append_is_Nil_conv)
    with whole *(2) ne show False by (metis last_in_set)
  qed
  with * ns show ?thesis by (simp add: scanned_lines_def)
qed

definition streamed :: "string \<Rightarrow> Progress list \<Rightarrow> byte list" where
  "streamed source ps = concat (map prg_data (filter (\<lambda>p. prg_source p = source) ps))"

lemma filter_interleave:
  assumes "list_all P xs" "list_all (\<lambda>y. \<not> P y) ys"
  shows "filter P (interleave order xs ys) = xs" "filter (\<lambda>z. \<not> P z) (interleave order xs ys) = ys"
  using assms by (induction order xs ys rule: interleave.induct) (auto simp: list_all_iff filter_id_conv)

lemma sources_reported:
  "list_all (\<lambda>p. prg_source p = source) (reportProgress now source s)"
  "source \<noteq> other \<Longrightarrow> list_all (\<lambda>p. prg_source p \<noteq> other) (reportProgress now source s)"
  by (auto simp: list_all_iff reportProgress_def)

lemma concat_reported: "concat (map prg_data (reportProgress now source s)) = with_newlines (scanned_lines s)"
  by (simp add: reportProgress_def with_newlines_def o_def)

lemma streamed_interleave:
  "streamed ''stdout'' (interleave order (reportProgress now ''stdout'' so) (reportProgress now ''stderr'' se)) =
     with_newlines (scanned_lines so)" (is ?out)
  "streamed ''stderr'' (interleave order (reportProgress now ''stdout'' so) (reportProgress now ''stderr'' se)) =
     with_newlines (scanned_lines se)" (is ?err)
proof -
  let ?xs = "reportProgress now ''stdout'' so" and ?ys = "reportProgress now ''stderr'' se"
  show ?out
    using filter_interleave(1) [of "\<lambda>p. prg_source p = ''stdout''" ?xs ?ys order]
    by (simp add: streamed_def sources_reported concat_reported)
  show ?err
    using filter_interleave(2) [of "\<lambda>p. prg_source p \<noteq> ''stderr''" ?xs ?ys order]
    by (simp add: streamed_def sources_reported concat_reported)
qed

text \<open>C11. A command that runs is waited for for ever exactly when one of its outputs goes on after 65,536 bytes
  without a newline, however it is cut into writes: the scanner gives up on the line and nobody reads the
  pipe any more. Otherwise both outputs are captured whole, and what is reported while it runs, with the two
  outputs in any order, is what was captured, for texts of whole lines without carriage returns.\<close>
theorem command_output:
  fixes callback :: bool and now :: int and order :: "bool list"
  assumes "mkdirAll workDir" "run workDir command args = Ran outs errs code"
  defines "result \<equiv> ExecuteCommand mkdirAll run callback now order workDir command args"
  shows "(result = None \<longleftrightarrow> overlong 65536 (concat outs) \<or> overlong 65536 (concat errs)) \<and>
    (\<forall>r ps. result = Some (r, ps) \<longrightarrow>
       r = Ok (concat outs, concat errs, case code of Some c \<Rightarrow> c | None \<Rightarrow> 1) \<and>
       (callback \<and> unix_text (concat outs) \<longrightarrow> streamed ''stdout'' ps = concat outs) \<and>
       (callback \<and> unix_text (concat errs) \<longrightarrow> streamed ''stderr'' ps = concat errs))"
proof -
  have m: "MaxScanTokenSize = 65536" by (simp add: MaxScanTokenSize_def)
  show ?thesis
  proof (cases "copy_output MaxScanTokenSize outs NewScanner")
    case None
    with assms copy_output_None [of outs] show ?thesis by (simp add: ExecuteCommand_def m)
  next
    case so: (Some so)
    show ?thesis
    proof (cases "copy_output MaxScanTokenSize errs NewScanner")
      case None
      with so assms copy_output_None [of errs] show ?thesis by (simp add: ExecuteCommand_def m)
    next
      case se: (Some se)
      have "\<not> overlong 65536 (concat outs)" "\<not> overlong 65536 (concat errs)"
        using so se copy_output_None [of outs] copy_output_None [of errs] by (simp_all add: m)
      with so se assms scanned_unix_text [OF so] scanned_unix_text [OF se] show ?thesis
        by (auto simp: ExecuteCommand_def streamed_interleave)
    qed
  qed
qed

text \<open>A compiler that prints one line of 65,537 bytes and its newline.\<close>

definition long_line :: "byte list list" where
  "long_line = [replicate 65537 97, [line_feed]]"

lemma short_not_overlong: "length bs \<le> limit \<Longrightarrow> \<not> overlong limit bs"
  by (auto simp: overlong_def)

text \<open>The same command waits for ever, and one that prints a short line and an error message returns.\<close>
theorem command_output_witness:
  "ExecuteCommand (\<lambda>_. True) (\<lambda>_ _ _. Ran [] long_line (Some 0)) True 0 [] ''/tmp'' ''gcc'' [] = None \<and>
   (\<exists>ps. ExecuteCommand (\<lambda>_. True) (\<lambda>_ _ _. Ran [[104], [105, 10]] [[33, 10]] (Some 1)) True 0 [False] ''/tmp'' ''gcc'' [] =
      Some (Ok ([104, 105, 10], [33, 10], 1), ps) \<and> streamed ''stdout'' ps = [104, 105, 10] \<and> streamed ''stderr'' ps = [33, 10])"
proof
  have l: "overlong 65536 (concat long_line)"
    by (rule overlongI [of _ "[]" "replicate 65536 97" "[97, line_feed]"])
      (use replicate_add [of 65536 "Suc 0" "97 :: byte"] in \<open>simp_all add: long_line_def\<close>)
  then show "ExecuteCommand (\<lambda>_. True) (\<lambda>_ _ _. Ran [] long_line (Some 0)) True 0 [] ''/tmp'' ''gcc'' [] = None"
    using command_output [of "\<lambda>_. True" "''/tmp''" "\<lambda>_ _ _. Ran [] long_line (Some 0)" "''gcc''" "[]" "[]" long_line
      "Some 0" True 0 "[]"] by simp
next
  have s: "\<not> overlong 65536 (concat [[104], [105, 10]])" "\<not> overlong 65536 (concat [[33, 10]])"
    by (simp_all add: short_not_overlong)
  show "\<exists>ps. ExecuteCommand (\<lambda>_. True) (\<lambda>_ _ _. Ran [[104], [105, 10]] [[33, 10]] (Some 1)) True 0 [False] ''/tmp'' ''gcc'' [] =
      Some (Ok ([104, 105, 10], [33, 10], 1), ps) \<and> streamed ''stdout'' ps = [104, 105, 10] \<and> streamed ''stderr'' ps = [33, 10]"
    using s command_output [of "\<lambda>_. True" "''/tmp''" "\<lambda>_ _ _. Ran [[104], [105, 10]] [[33, 10]] (Some 1)" "''gcc''" "[]"
      "[[104], [105, 10]]" "[[33, 10]]" "Some 1" True 0 "[False]"]
    by (auto simp: unix_text_def)
qed

text \<open>A command that cannot be started is not an error: its exit code is 1, as if it had run, and nothing
  says why.\<close>
theorem not_started_is_silent:
  "mkdirAll workDir \<Longrightarrow> run workDir command args = NotStarted \<Longrightarrow>
     ExecuteCommand mkdirAll run callback now order workDir command args = Some (Ok ([], [], 1), [])"
  by (simp add: ExecuteCommand_def)

end
