(* ===== verification/DaemonServer.thy ===== *)
theory DaemonServer
  imports Gossip JobManager LogConfig
begin

text \<open>
  The daemon (pkg/daemon/daemon.go, options.go, url.go, requester.go, discovery_service.go,
  introspection_service.go): its configuration and builder, the HTTP server with the goroutine that
  serves, the start and stop of the whole, and the services that answer about peers and the queue.

  The server is a transition system. An event is a call of start or stop, a step of the goroutine of
  a start, or a choice of the select that start waits in; the two channels of the server, with room for
  one value each, are an option and a flag. The name of the host and its address are arguments.
\<close>

section \<open>Configuration\<close>

record DaemonConfig =
  dc_host :: string
  dc_port :: int
  dc_max_concurrent_jobs :: int
  dc_max_ram_mb :: int
  dc_enable_mdns :: bool
  dc_mdns_interval_secs :: int
  dc_logging :: LoggingConfig

definition DefaultDaemonLoggingConfig :: LoggingConfig where
  "DefaultDaemonLoggingConfig =
     \<lparr>gc_global_level = ''debug'', gc_logging_dir = ''~/.cache/buildozer/logs'',
      gc_sinks = [empty_sink_config\<lparr>sc_name := ''stdout'', sc_type := ''stdout'', sc_level := ''debug'',
                    sc_include_source := True, sc_omit_logger_name := True\<rparr>,
                  empty_sink_config\<lparr>sc_name := ''daemon_file'', sc_type := ''file'', sc_level := ''debug'',
                    sc_filename := ''buildozer-daemon.log'', sc_max_size_b := 100 * 1024 * 1024,
                    sc_max_files := 10, sc_max_age_days := 30, sc_json_format := False,
                    sc_include_source := True, sc_omit_logger_name := True\<rparr>],
      gc_loggers = [\<lparr>lc_name = ''buildozer'', lc_level = ''debug'',
                      lc_sinks = [''stdout'', ''daemon_file'']\<rparr>]\<rparr>"

definition daemon_DefaultConfig :: DaemonConfig where
  "daemon_DefaultConfig =
     \<lparr>dc_host = ''127.0.0.1'', dc_port = 6789, dc_max_concurrent_jobs = 4, dc_max_ram_mb = 8192,
      dc_enable_mdns = True, dc_mdns_interval_secs = 30, dc_logging = DefaultDaemonLoggingConfig\<rparr>"

text \<open>The builder; None is a panic.\<close>

definition NewConfigBuilder :: DaemonConfig where
  "NewConfigBuilder =
     \<lparr>dc_host = ''localhost'', dc_port = 6789, dc_max_concurrent_jobs = 4, dc_max_ram_mb = 4096,
      dc_enable_mdns = False, dc_mdns_interval_secs = 0,
      dc_logging = \<lparr>gc_global_level = '''', gc_logging_dir = '''', gc_sinks = [], gc_loggers = []\<rparr>\<rparr>"

definition Builder_Host :: "string \<Rightarrow> DaemonConfig \<Rightarrow> DaemonConfig option" where
  "Builder_Host host b = Some (b\<lparr>dc_host := host\<rparr>)"

definition Builder_Port :: "int \<Rightarrow> DaemonConfig \<Rightarrow> DaemonConfig option" where
  "Builder_Port port b = (if port \<le> 0 \<or> 65535 < port then None else Some (b\<lparr>dc_port := port\<rparr>))"

definition Builder_MaxConcurrentJobs :: "int \<Rightarrow> DaemonConfig \<Rightarrow> DaemonConfig option" where
  "Builder_MaxConcurrentJobs n b = (if n \<le> 0 then None else Some (b\<lparr>dc_max_concurrent_jobs := n\<rparr>))"

definition Builder_MaxRAMMB :: "int \<Rightarrow> DaemonConfig \<Rightarrow> DaemonConfig option" where
  "Builder_MaxRAMMB mb b = (if mb \<le> 0 then None else Some (b\<lparr>dc_max_ram_mb := mb\<rparr>))"

definition Builder_EnableMDNS :: "bool \<Rightarrow> DaemonConfig \<Rightarrow> DaemonConfig option" where
  "Builder_EnableMDNS enable b = Some (b\<lparr>dc_enable_mdns := enable\<rparr>)"

section \<open>Addresses\<close>

text \<open>os.Hostname, None on an error, and the address of the primary interface, empty when there is none.\<close>

definition getAdvertisedHost :: "string option \<Rightarrow> string \<Rightarrow> string \<Rightarrow> string" where
  "getAdvertisedHost hostname localIP listenHost =
     (if listenHost = ''0.0.0.0'' then
        (case hostname of
           Some h \<Rightarrow> if h \<noteq> '''' then h else if localIP \<noteq> '''' then localIP else ''localhost''
         | None \<Rightarrow> if localIP \<noteq> '''' then localIP else ''localhost'')
      else listenHost)"

definition host_port :: "string \<Rightarrow> int \<Rightarrow> string" where
  "host_port host port = host @ '':'' @ format_int port"

definition RpcURL :: "string \<Rightarrow> int \<Rightarrow> string" where
  "RpcURL host port = ''http://'' @ host_port host port"

text \<open>The identifier of the requester of a message, None for a message without one.\<close>

definition getRequesterID :: "string option \<Rightarrow> string" where
  "getRequesterID requesterId =
     (case requesterId of None \<Rightarrow> ''unknown'' | Some rid \<Rightarrow> if rid = '''' then ''unknown'' else rid)"

definition parseEndpoint :: "string \<Rightarrow> string list" where
  "parseEndpoint endpoint = split_on (CHR '':'') endpoint"

definition parsePort :: "string \<Rightarrow> 32 word option" where
  "parsePort portStr = parse_uint32 portStr"

section \<open>The HTTP server\<close>

text \<open>The goroutine of a start: about to listen, serving, with an error to report, or about to signal that
  the startup sequence is over.\<close>

datatype serve_state = Listening | Serving | Failing string | Signalling | Finished

text \<open>Where start is: not running, in its select, or past it and about to look for an error once more. The
  lock is held meanwhile.\<close>

datatype start_pc = NotStarting | Selecting | Settling

datatype start_result = AlreadyRunningServer | StartFailed string | StartedServer

record httpServer =
  hs_running :: bool
  hs_has_server :: bool
  hs_startup_err :: "string option"
  hs_startup_ready :: bool
  hs_goroutines :: "serve_state list"
  hs_pc :: start_pc
  hs_result :: "start_result option"
  hs_routes :: "string list"

definition newHTTPServer :: httpServer where
  "newHTTPServer = \<lparr>hs_running = False, hs_has_server = False, hs_startup_err = None, hs_startup_ready = False,
     hs_goroutines = [], hs_pc = NotStarting, hs_result = None, hs_routes = []\<rparr>"

text \<open>A path registered twice makes the mux panic.\<close>

definition registerHandler :: "string \<Rightarrow> httpServer \<Rightarrow> httpServer option" where
  "registerHandler path hs =
     (if path \<in> set (hs_routes hs) then None else Some (hs\<lparr>hs_routes := hs_routes hs @ [path]\<rparr>))"

text \<open>Events of the server. Bind i r is the end of the attempt of goroutine i to listen, with None when it
  can; TakeError, TakeReady and Timeout are the cases of the select. Shutdown closes the listener of the
  last server even when the context ends before its connections do.\<close>

datatype server_event =
  CallStart
| Bind nat "string option"
| Report nat
| Signal nat
| TakeError
| TakeReady
| Timeout
| Settle
| CallStop bool

definition set_goroutine :: "nat \<Rightarrow> serve_state \<Rightarrow> httpServer \<Rightarrow> httpServer" where
  "set_goroutine i g hs = hs\<lparr>hs_goroutines := (hs_goroutines hs)[i := g]\<rparr>"

definition goroutine_at :: "httpServer \<Rightarrow> nat \<Rightarrow> serve_state option" where
  "goroutine_at hs i = (if i < length (hs_goroutines hs) then Some (hs_goroutines hs ! i) else None)"

definition fail_start :: "string \<Rightarrow> httpServer \<Rightarrow> httpServer" where
  "fail_start e hs = hs\<lparr>hs_running := False, hs_startup_err := None, hs_pc := NotStarting,
     hs_result := Some (StartFailed e)\<rparr>"

text \<open>The server of the last start: what Shutdown does to its goroutine. One that has not listened yet
  will not any more.\<close>

definition close_server :: "httpServer \<Rightarrow> httpServer" where
  "close_server hs =
     (let n = length (hs_goroutines hs) in
      if hs_has_server hs \<and> 0 < n \<and> hs_goroutines hs ! (n - 1) \<in> {Listening, Serving}
      then set_goroutine (n - 1) Signalling hs else hs)"

fun server_step :: "server_event \<Rightarrow> httpServer \<Rightarrow> httpServer option" where
  "server_step CallStart hs =
     (if hs_pc hs \<noteq> NotStarting then None
      else if hs_running hs then Some (hs\<lparr>hs_result := Some AlreadyRunningServer\<rparr>)
      else Some (hs\<lparr>hs_running := True, hs_has_server := True, hs_pc := Selecting, hs_result := None,
                   hs_goroutines := hs_goroutines hs @ [Listening]\<rparr>))"
| "server_step (Bind i r) hs =
     (if goroutine_at hs i = Some Listening
      then Some (set_goroutine i (case r of None \<Rightarrow> Serving | Some e \<Rightarrow> Failing e) hs) else None)"
| "server_step (Report i) hs =
     (case goroutine_at hs i of
        Some (Failing e) \<Rightarrow> Some (set_goroutine i Signalling
          (hs\<lparr>hs_startup_err := (case hs_startup_err hs of None \<Rightarrow> Some e | Some e' \<Rightarrow> Some e')\<rparr>))
      | _ \<Rightarrow> None)"
| "server_step (Signal i) hs =
     (if goroutine_at hs i = Some Signalling
      then Some (set_goroutine i Finished (hs\<lparr>hs_startup_ready := True\<rparr>)) else None)"
| "server_step TakeError hs =
     (if hs_pc hs = Selecting then map_option (\<lambda>e. fail_start e hs) (hs_startup_err hs) else None)"
| "server_step TakeReady hs =
     (if hs_pc hs = Selecting \<and> hs_startup_ready hs
      then Some (hs\<lparr>hs_startup_ready := False, hs_pc := Settling\<rparr>) else None)"
| "server_step Timeout hs = (if hs_pc hs = Selecting then Some (hs\<lparr>hs_pc := Settling\<rparr>) else None)"
| "server_step Settle hs =
     (if hs_pc hs \<noteq> Settling then None
      else case hs_startup_err hs of
        Some e \<Rightarrow> Some (fail_start e hs)
      | None \<Rightarrow> Some (hs\<lparr>hs_pc := NotStarting, hs_result := Some StartedServer\<rparr>))"
| "server_step (CallStop ok) hs =
     (if hs_pc hs \<noteq> NotStarting then None
      else if \<not> hs_running hs then Some hs
      else if ok then Some ((close_server hs)\<lparr>hs_running := False\<rparr>) else Some (close_server hs))"

fun server_run :: "server_event list \<Rightarrow> httpServer \<Rightarrow> httpServer option" where
  "server_run [] hs = Some hs"
| "server_run (e # es) hs = (case server_step e hs of None \<Rightarrow> None | Some hs' \<Rightarrow> server_run es hs')"

definition isRunning :: "httpServer \<Rightarrow> bool" where
  "isRunning hs = hs_running hs"

text \<open>A server that answers requests.\<close>

definition serving :: "httpServer \<Rightarrow> bool" where
  "serving hs = (Serving \<in> set (hs_goroutines hs))"

section \<open>What start reports\<close>

lemma server_run_append:
  "server_run (es @ fs) hs = (case server_run es hs of None \<Rightarrow> None | Some hs' \<Rightarrow> server_run fs hs')"
  by (induction es arbitrary: hs) (auto split: option.splits)

text \<open>The half second that start waits is enough when it only ends after the attempt to listen has, and
  its error is reported.\<close>

definition settled :: "serve_state \<Rightarrow> bool" where
  "settled g = (case g of Listening \<Rightarrow> False | Failing _ \<Rightarrow> False | _ \<Rightarrow> True)"

fun prompt_run :: "server_event list \<Rightarrow> httpServer \<Rightarrow> bool" where
  "prompt_run [] hs = True"
| "prompt_run (e # es) hs =
     ((e = Timeout \<longrightarrow> hs_goroutines hs \<noteq> [] \<and> settled (last (hs_goroutines hs))) \<and>
      (case server_step e hs of None \<Rightarrow> True | Some hs' \<Rightarrow> prompt_run es hs'))"

text \<open>One start after another call of start or stop.\<close>

definition is_call :: "server_event \<Rightarrow> bool" where
  "is_call e = (case e of CallStart \<Rightarrow> True | CallStop _ \<Rightarrow> True | _ \<Rightarrow> False)"

definition first_start_inv :: "httpServer \<Rightarrow> bool" where
  "first_start_inv hs = (\<exists>g. hs_goroutines hs = [g] \<and>
     (\<not> settled g \<or> g = Serving \<longrightarrow> hs_startup_err hs = None \<and> \<not> hs_startup_ready hs) \<and>
     (case hs_pc hs of
        Selecting \<Rightarrow> (settled g \<and> g \<noteq> Serving \<longrightarrow> hs_startup_err hs \<noteq> None) \<and> hs_running hs \<and> hs_result hs = None
      | Settling \<Rightarrow> settled g \<and> (g \<noteq> Serving \<longrightarrow> hs_startup_err hs \<noteq> None) \<and> hs_running hs \<and> hs_result hs = None
      | NotStarting \<Rightarrow>
          (hs_result hs = Some StartedServer \<and> g = Serving \<and> hs_running hs) \<or>
          (\<exists>e. hs_result hs = Some (StartFailed e)) \<and> settled g \<and> g \<noteq> Serving \<and> \<not> hs_running hs))"

lemma goroutine_at_single: "hs_goroutines hs = [g] \<Longrightarrow> goroutine_at hs i = (if i = 0 then Some g else None)"
  by (simp add: goroutine_at_def)

lemma first_start_step:
  assumes inv: "first_start_inv hs" and call: "\<not> is_call e" and step: "server_step e hs = Some hs'"
    and prompt: "e = Timeout \<longrightarrow> hs_goroutines hs \<noteq> [] \<and> settled (last (hs_goroutines hs))"
  shows "first_start_inv hs'"
proof -
  from inv obtain g where g: "hs_goroutines hs = [g]" by (auto simp: first_start_inv_def)
  note simps = first_start_inv_def g goroutine_at_single [OF g] set_goroutine_def settled_def
  show ?thesis
  proof (cases e)
    case (Bind i r)
    then show ?thesis using inv step
      by (cases r; cases "hs_pc hs") (auto simp: simps split: if_splits)
  next
    case (Report i)
    then show ?thesis using inv step
      by (cases g; cases "hs_pc hs") (auto simp: simps split: if_splits)
  next
    case (Signal i)
    then show ?thesis using inv step
      by (cases "hs_pc hs") (auto simp: simps split: if_splits)
  next
    case TakeError
    then show ?thesis using inv step
      by (cases g; cases "hs_pc hs") (auto simp: simps fail_start_def)
  next
    case TakeReady
    then show ?thesis using inv step
      by (cases g; cases "hs_pc hs") (auto simp: simps split: if_splits)
  next
    case Timeout
    then show ?thesis using inv step prompt
      by (cases g; cases "hs_pc hs") (auto simp: simps split: if_splits)
  next
    case Settle
    then show ?thesis using inv step
      by (cases g; cases "hs_pc hs") (auto simp: simps fail_start_def split: option.splits if_splits)
  qed (use call in \<open>simp_all add: is_call_def\<close>)
qed

lemma first_start_run:
  assumes "first_start_inv hs" "list_all (\<lambda>e. \<not> is_call e) es" "server_run es hs = Some hs'" "prompt_run es hs"
  shows "first_start_inv hs'"
  using assms
proof (induction es arbitrary: hs)
  case (Cons e es)
  from Cons.prems(3) obtain hs1 where "server_step e hs = Some hs1" "server_run es hs1 = Some hs'"
    by (auto split: option.splits)
  with Cons show ?case using first_start_step [of hs e hs1] by auto
qed simp

text \<open>C19. The first start of a server tells the truth, when its half second is enough: whatever the order of
  its steps and those of its goroutine, it reports success only if the server answers requests, and after
  an error nothing does and the server does not count as running.\<close>
theorem first_start_faithful:
  assumes "server_run (CallStart # es) (newHTTPServer\<lparr>hs_routes := routes\<rparr>) = Some hs"
    and "list_all (\<lambda>e. \<not> is_call e) es" and "prompt_run (CallStart # es) (newHTTPServer\<lparr>hs_routes := routes\<rparr>)"
    and "hs_pc hs = NotStarting"
  shows "(hs_result hs = Some StartedServer \<and> serving hs \<and> isRunning hs) \<or>
    (\<exists>e. hs_result hs = Some (StartFailed e) \<and> \<not> serving hs \<and> \<not> isRunning hs)"
proof -
  let ?hs = "newHTTPServer\<lparr>hs_routes := routes\<rparr>"
  obtain hs1 where hs1: "server_step CallStart ?hs = Some hs1" "server_run es hs1 = Some hs" "prompt_run es hs1"
    using assms(1,3) by (auto simp: newHTTPServer_def)
  then have "first_start_inv hs1" by (auto simp: first_start_inv_def newHTTPServer_def settled_def)
  from first_start_run [OF this assms(2) hs1(2,3)] show ?thesis
    using assms(4) by (auto simp: first_start_inv_def serving_def isRunning_def)
qed


theorem first_start_faithful_witness:
  "\<exists>hs. server_run [CallStart, Bind 0 None, Timeout, Settle] newHTTPServer = Some hs \<and>
     hs_result hs = Some StartedServer \<and> serving hs"
proof -
  let ?es = "[Bind 0 None, Timeout, Settle]"
  have init: "newHTTPServer\<lparr>hs_routes := []\<rparr> = newHTTPServer" by (simp add: newHTTPServer_def)
  define hs where "hs = \<lparr>hs_running = True, hs_has_server = True, hs_startup_err = None, hs_startup_ready = False,
     hs_goroutines = [Serving], hs_pc = NotStarting, hs_result = Some StartedServer, hs_routes = []\<rparr>"
  have run: "server_run (CallStart # ?es) newHTTPServer = Some hs" unfolding hs_def by code_simp
  have "prompt_run (CallStart # ?es) newHTTPServer" by code_simp
  then have "serving hs"
    using first_start_faithful [of ?es "[]" hs] run by (simp add: init is_call_def hs_def)
  with run show ?thesis by (auto simp: hs_def)
qed

end
