(* ===== verification/DaemonMain.thy ===== *)
theory DaemonMain
  imports DaemonServer
begin

text \<open>
  The daemon as a whole (pkg/daemon/daemon.go): what NewDaemon wires together, Start and Stop, and the
  two services that answer about its state (discovery_service.go, introspection_service.go). Each piece
  is the model of its own theory: the multicast discoverer, which holds the shared table of peers, the
  local runtime manager, the job manager with its scheduler, and the HTTP server.

  The machine's discoverers, the network and the order of the steps of the server are arguments. The
  operations run one at a time; the calls that wait for a lock held by another are None.
\<close>

section \<open>Wiring\<close>

record 'e Daemon =
  dm_id :: string
  dm_config :: DaemonConfig
  dm_http :: httpServer
  dm_discoverer :: MulticastDiscoverer
  dm_runtimes :: "'e LocalRuntimesManager"
  dm_job_manager :: JobManager

definition service_path :: "string \<Rightarrow> string" where
  "service_path name = ''/buildozer.proto.v1.'' @ name @ ''/''"

fun register_handlers :: "string list \<Rightarrow> httpServer \<Rightarrow> httpServer option" where
  "register_handlers [] hs = Some hs"
| "register_handlers (p # ps) hs =
     (case registerHandler p hs of None \<Rightarrow> None | Some hs' \<Rightarrow> register_handlers ps hs')"

text \<open>The error of NewScheduler is logged, and then there is no scheduler.\<close>

definition createScheduler :: "string \<Rightarrow> PeerManager \<Rightarrow> unit ManagerIface \<Rightarrow> Scheduler option" where
  "createScheduler daemonID pm rm =
     (case NewScheduler (Some \<lparr>cfg_heuristic = Some SimpleLocalFirst_Schedule, cfg_manager = Some rm,
         cfg_peer_manager = Some pm, cfg_local_id = daemonID\<rparr>) of
        Err _ \<Rightarrow> None | Ok s \<Rightarrow> Some s)"

text \<open>None is a panic.\<close>

definition NewDaemon :: "string option \<Rightarrow> string \<Rightarrow> unit ManagerIface \<Rightarrow> DaemonConfig \<Rightarrow> 'e Daemon option" where
  "NewDaemon hostname localIP rm config =
     (let advertisedHost = getAdvertisedHost hostname localIP (dc_host config);
          daemonID = host_port advertisedHost (dc_port config);
          peerManager = NewPeerManager;
          jobManager = NewJobManager daemonID;
          jobManager = (case createScheduler daemonID peerManager rm of
            None \<Rightarrow> jobManager | Some s \<Rightarrow> SetScheduler s jobManager);
          rpcURI = host_port advertisedHost (dc_port config)
      in map_option (\<lambda>hs. \<lparr>dm_id = daemonID, dm_config = config, dm_http = hs,
           dm_discoverer = NewMulticastDiscoverer daemonID rpcURI (dc_mdns_interval_secs config) peerManager,
           dm_runtimes = NewLocalRuntimesManager, dm_job_manager = jobManager\<rparr>)
         (register_handlers (''/health'' # map service_path
            [''LoggingService'', ''RuntimeService'', ''JobService'', ''SchedulerService'',
             ''DiscoveryService'', ''IntrospectionService'']) newHTTPServer))"

section \<open>Start and stop\<close>

text \<open>A call of the server's start: the steps that happen before it returns and, of its goroutines,
  maybe some after.\<close>

definition http_start :: "server_event list \<Rightarrow> httpServer \<Rightarrow> (start_result \<times> httpServer) option" where
  "http_start es hs =
     (if list_ex is_call es then None
      else case server_run (CallStart # es) hs of
        None \<Rightarrow> None
      | Some hs' \<Rightarrow> (if hs_pc hs' = NotStarting then map_option (\<lambda>r. (r, hs')) (hs_result hs') else None))"

text \<open>The stop of the server fails when it is running and its context ends first.\<close>

definition http_stop :: "bool \<Rightarrow> httpServer \<Rightarrow> (bool \<times> httpServer) option" where
  "http_stop ok hs = map_option (\<lambda>hs'. (ok \<or> \<not> hs_running hs, hs')) (server_step (CallStop ok) hs)"

datatype lifecycle_error = DiscoveryNotStarted start_error | ServerNotStarted start_result | ShutdownFailed

definition Daemon_Stop :: "bool \<Rightarrow> 'e Daemon \<Rightarrow> (lifecycle_error option \<times> 'e Daemon) option" where
  "Daemon_Stop ok d =
     (let disc = (if IsRunning (dm_discoverer d) then Stop (dm_discoverer d) else dm_discoverer d)
      in map_option (\<lambda>(stopped, hs). (if stopped then None else Some ShutdownFailed,
           d\<lparr>dm_discoverer := disc, dm_http := hs\<rparr>)) (http_stop ok (dm_http d)))"

definition local_peer_info :: "string option \<Rightarrow> string \<Rightarrow> Runtime list \<Rightarrow> 'e Daemon \<Rightarrow> PeerInfo" where
  "local_peer_info hostname localIP rts d =
     (let advertisedHost = getAdvertisedHost hostname localIP (dc_host (dm_config d)) in
      \<lparr>pi_id = dm_id d, pi_host = advertisedHost, pi_port = dc_port (dm_config d), pi_runtimes = rts,
       pi_is_alive = True, pi_discovered_at = 0, pi_last_seen_at = 0,
       pi_endpoint = host_port advertisedHost (dc_port (dm_config d)), pi_is_local = True\<rparr>)"

record 'd daemon_env =
  de_hostname :: "string option"
  de_local_ip :: string
  de_discoverers :: "(RuntimeImpl, 'd) Discoverer list"
  de_network :: start_env
  de_now :: int

definition set_local_peer :: "'d daemon_env \<Rightarrow> Runtime list \<Rightarrow> 'e Daemon \<Rightarrow> 'e Daemon" where
  "set_local_peer env rts d =
     d\<lparr>dm_discoverer := (dm_discoverer d)\<lparr>md_peers := SetLocalPeer (de_now env)
        (Some (local_peer_info (de_hostname env) (de_local_ip env) rts d)) (md_peers (dm_discoverer d))\<rparr>\<rparr>"

text \<open>The discoverer, when the configuration has it enabled, and then the server.\<close>

definition start_services ::
  "'d daemon_env \<Rightarrow> server_event list \<Rightarrow> bool \<Rightarrow> 'e Daemon \<Rightarrow> (lifecycle_error option \<times> 'e Daemon) option" where
  "start_services env es stop_ok d =
     (let (failed, disc) = (if dc_enable_mdns (dm_config d)
            then Start (de_network env) (de_now env) (dm_discoverer d) else (None, dm_discoverer d));
          d2 = d\<lparr>dm_discoverer := disc\<rparr>
      in case failed of
        Some e \<Rightarrow> map_option (\<lambda>(_, d3). (Some (DiscoveryNotStarted e), d3)) (Daemon_Stop stop_ok d2)
      | None \<Rightarrow>
          (case http_start es (dm_http d2) of
             None \<Rightarrow> None
           | Some (StartedServer, hs) \<Rightarrow> Some (None, d2\<lparr>dm_http := hs\<rparr>)
           | Some (r, hs) \<Rightarrow> Some (Some (ServerNotStarted r), d2\<lparr>dm_http := hs\<rparr>)))"

text \<open>The error of the runtimes is logged only.\<close>

definition Daemon_Start ::
  "'d daemon_env \<Rightarrow> server_event list \<Rightarrow> bool \<Rightarrow> 'e Daemon \<Rightarrow> (lifecycle_error option \<times> 'e Daemon) option" where
  "Daemon_Start env es stop_ok d =
     (case local_GetRuntimes (de_now env) (de_discoverers env) (dm_runtimes d) of
        (None, _) \<Rightarrow> None
      | (Some _, rm1) \<Rightarrow>
     (case local_GetRuntimes (de_now env) (de_discoverers env) rm1 of
        (None, _) \<Rightarrow> None
      | (Some got, rm2) \<Rightarrow> start_services env es stop_ok
          (set_local_peer env (fst (local_ListRuntimes got)) (d\<lparr>dm_runtimes := rm2\<rparr>))))"

definition Daemon_IsRunning :: "'e Daemon \<Rightarrow> bool" where
  "Daemon_IsRunning d = isRunning (dm_http d)"

definition Daemon_GetDiscoveredPeers :: "'e Daemon \<Rightarrow> PeerInfo list" where
  "Daemon_GetDiscoveredPeers d = GetDiscoveredPeers (dm_discoverer d)"

definition RegisterServiceHandler :: "string \<Rightarrow> 'e Daemon \<Rightarrow> 'e Daemon option" where
  "RegisterServiceHandler path d = map_option (\<lambda>hs. d\<lparr>dm_http := hs\<rparr>) (registerHandler path (dm_http d))"

section \<open>The services\<close>

text \<open>A peer of the answer; its times are Unix milliseconds, its port the low word of what was parsed.\<close>

record ListedPeer =
  lp_peer_id :: string
  lp_uri :: ApiUri
  lp_is_online :: bool
  lp_is_local :: bool
  lp_runtimes :: "Runtime list"
  lp_last_seen :: int

definition listed_uri :: "string \<Rightarrow> ApiUri" where
  "listed_uri endpoint =
     (let parts = parseEndpoint endpoint in
      if 2 \<le> length parts
      then \<lparr>uri_host = parts ! 0, uri_port = (case parsePort (parts ! 1) of Some p \<Rightarrow> p | None \<Rightarrow> 0),
            uri_protocol = API_PROTOCOL_GRPC, uri_subpath = ''''\<rparr>
      else \<lparr>uri_host = '''', uri_port = 0, uri_protocol = API_PROTOCOL_GRPC, uri_subpath = ''''\<rparr>)"

definition listed_peer :: "Runtime list \<Rightarrow> PeerInfo \<Rightarrow> ListedPeer" where
  "listed_peer localRuntimes p =
     \<lparr>lp_peer_id = pi_id p, lp_uri = listed_uri (pi_endpoint p), lp_is_online = pi_is_alive p,
      lp_is_local = pi_is_local p,
      lp_runtimes = (if pi_is_local p \<and> localRuntimes \<noteq> [] then localRuntimes else pi_runtimes p),
      lp_last_seen = pi_last_seen_at p div 10 ^ 6\<rparr>"

text \<open>The peers and their count; None as the answer of the runtime manager is its error.\<close>

definition ListPeers :: "Runtime list option \<Rightarrow> PeerManager \<Rightarrow> ListedPeer list \<times> 32 word" where
  "ListPeers provided pm =
     (let peers = map (listed_peer (case provided of Some rts \<Rightarrow> rts | None \<Rightarrow> [])) (GetAllPeersIncludingLocal pm)
      in (peers, of_nat (length peers)))"

text \<open>True is success, False the answer that discovery is not running.\<close>

definition TriggerDiscovery :: "MulticastDiscoverer \<Rightarrow> bool \<times> MulticastDiscoverer" where
  "TriggerDiscovery md = (IsRunning md, md)"

text \<open>A queued job of the answer; its time in the queue is in milliseconds.\<close>

record QueuedJobInfo =
  qi_job_id :: string
  qi_progress :: "JobProgress option"
  qi_time_in_queue :: "int option"
  qi_position :: "32 word"

record JobQueueInfo =
  jq_queued :: "QueuedJobInfo list"
  jq_running :: int
  jq_size :: int

definition getQueueDetails :: "'e Daemon \<Rightarrow> QueuedJobInfo list" where
  "getQueueDetails d = []"

text \<open>None as the daemon is its missing; the answer None is an internal error.\<close>

definition GetJobQueue :: "'e Daemon option \<Rightarrow> JobQueueInfo option" where
  "GetJobQueue d = (case d of None \<Rightarrow> None | Some _ \<Rightarrow> Some \<lparr>jq_queued = [], jq_running = 0, jq_size = 0\<rparr>)"

section \<open>The builder\<close>

datatype builder_call =
  CallHost string
| CallPort int
| CallMaxConcurrentJobs int
| CallMaxRAMMB int
| CallEnableMDNS bool

fun builder_call_exec :: "builder_call \<Rightarrow> DaemonConfig \<Rightarrow> DaemonConfig option" where
  "builder_call_exec (CallHost h) = Builder_Host h"
| "builder_call_exec (CallPort p) = Builder_Port p"
| "builder_call_exec (CallMaxConcurrentJobs n) = Builder_MaxConcurrentJobs n"
| "builder_call_exec (CallMaxRAMMB n) = Builder_MaxRAMMB n"
| "builder_call_exec (CallEnableMDNS e) = Builder_EnableMDNS e"

fun build :: "builder_call list \<Rightarrow> DaemonConfig \<Rightarrow> DaemonConfig option" where
  "build [] b = Some b"
| "build (c # cs) b = (case builder_call_exec c b of None \<Rightarrow> None | Some b' \<Rightarrow> build cs b')"

definition config_in_bounds :: "DaemonConfig \<Rightarrow> bool" where
  "config_in_bounds c = (0 < dc_port c \<and> dc_port c \<le> 65535 \<and> 0 < dc_max_concurrent_jobs c \<and> 0 < dc_max_ram_mb c)"

text \<open>Whatever calls a builder has been through, its configuration has a port and positive limits.\<close>
theorem builder_bounds:
  assumes "build cs NewConfigBuilder = Some c"
  shows "config_in_bounds c"
proof -
  have "config_in_bounds b \<Longrightarrow> build cs b = Some c \<Longrightarrow> config_in_bounds c" for b
  proof (induction cs arbitrary: b)
    case (Cons x cs)
    then obtain b' where b': "builder_call_exec x b = Some b'" "build cs b' = Some c"
      by (auto split: option.splits)
    have "config_in_bounds b'"
      using b'(1) Cons.prems(1)
      by (cases x) (auto simp: config_in_bounds_def Builder_Host_def Builder_Port_def
          Builder_MaxConcurrentJobs_def Builder_MaxRAMMB_def Builder_EnableMDNS_def split: if_splits)
    from Cons.IH [OF this b'(2)] show ?case .
  qed simp
  from this [OF _ assms] show ?thesis by (simp add: config_in_bounds_def NewConfigBuilder_def)
qed

section \<open>A new daemon\<close>

lemma register_handlers_Some:
  "distinct (hs_routes hs @ ps) \<Longrightarrow> register_handlers ps hs = Some (hs\<lparr>hs_routes := hs_routes hs @ ps\<rparr>)"
  by (induction ps arbitrary: hs) (auto simp: registerHandler_def)

definition daemon_routes :: "string list" where
  "daemon_routes = ''/health'' # map service_path
     [''LoggingService'', ''RuntimeService'', ''JobService'', ''SchedulerService'',
      ''DiscoveryService'', ''IntrospectionService'']"

lemma daemon_routes_distinct: "distinct daemon_routes"
  by code_simp

lemma host_port_not_Nil [simp]: "host_port h p \<noteq> ''''"
  by (simp add: host_port_def)

lemma createScheduler_Some:
  "daemonID \<noteq> '''' \<Longrightarrow> createScheduler daemonID pm rm =
     Some \<lparr>sch_local_id = daemonID, sch_queue = NewJobQueue, sch_started = []\<rparr>"
  by (simp add: createScheduler_def NewScheduler_def)

text \<open>Setting up a daemon never panics, and gives it a scheduler.\<close>
lemma NewDaemon_Some:
  fixes d :: "'e Daemon"
  assumes "NewDaemon hostname localIP rm config = Some d"
  defines "addr \<equiv> host_port (getAdvertisedHost hostname localIP (dc_host config)) (dc_port config)"
  shows "dm_id d = addr" "dm_config d = config" "dm_http d = newHTTPServer\<lparr>hs_routes := daemon_routes\<rparr>"
    "dm_discoverer d = NewMulticastDiscoverer addr addr (dc_mdns_interval_secs config) NewPeerManager"
    "dm_runtimes d = NewLocalRuntimesManager"
    "jm_daemon_id (dm_job_manager d) = addr \<and> jm_jobs (dm_job_manager d) = []"
    "jm_scheduler (dm_job_manager d) = Some \<lparr>sch_local_id = addr, sch_queue = NewJobQueue, sch_started = []\<rparr>"
  using assms(1) register_handlers_Some [of newHTTPServer daemon_routes] daemon_routes_distinct
  by (auto simp: NewDaemon_def Let_def addr_def createScheduler_Some NewJobManager_def SetScheduler_def
      newHTTPServer_def daemon_routes_def)

lemma NewDaemon_total: "\<exists>d. NewDaemon hostname localIP rm config = Some d"
  using register_handlers_Some [of newHTTPServer daemon_routes] daemon_routes_distinct
  by (auto simp: NewDaemon_def Let_def newHTTPServer_def daemon_routes_def)

section \<open>Starting and stopping a daemon\<close>

lemma step_keeps_server: "server_step e hs = Some hs' \<Longrightarrow> hs_has_server hs \<Longrightarrow> hs_has_server hs'"
  by (cases e) (auto simp: set_goroutine_def fail_start_def close_server_def Let_def
      split: if_splits option.splits serve_state.splits)

lemma run_keeps_server: "server_run es hs = Some hs' \<Longrightarrow> hs_has_server hs \<Longrightarrow> hs_has_server hs'"
  by (induction es arbitrary: hs) (auto split: option.splits intro: step_keeps_server)

text \<open>The first start of a server, and what it leaves.\<close>
lemma http_first_start:
  assumes "http_start es (newHTTPServer\<lparr>hs_routes := routes\<rparr>) = Some (r, hs)"
    and "prompt_run (CallStart # es) (newHTTPServer\<lparr>hs_routes := routes\<rparr>)"
  shows "hs_pc hs = NotStarting" "hs_has_server hs"
    "r = StartedServer \<and> hs_goroutines hs = [Serving] \<and> hs_running hs \<or>
     (\<exists>e g. r = StartFailed e \<and> hs_goroutines hs = [g] \<and> g \<noteq> Serving \<and> settled g \<and> \<not> hs_running hs)"
proof -
  let ?hs = "newHTTPServer\<lparr>hs_routes := routes\<rparr>"
  have run: "list_all (\<lambda>e. \<not> is_call e) es" "server_run (CallStart # es) ?hs = Some hs"
    "hs_pc hs = NotStarting" "hs_result hs = Some r"
    using assms(1) by (auto simp: http_start_def list_all_iff list_ex_iff split: if_splits option.splits)
  then obtain hs1 where hs1: "server_step CallStart ?hs = Some hs1" "server_run es hs1 = Some hs" "prompt_run es hs1"
    using assms(2) by (auto simp: newHTTPServer_def)
  then have "first_start_inv hs1" "hs_has_server hs1"
    by (auto simp: first_start_inv_def newHTTPServer_def settled_def)
  then have "first_start_inv hs" "hs_has_server hs"
    using first_start_run [OF _ run(1) hs1(2,3)] run_keeps_server [OF hs1(2)] by blast+
  then show "hs_pc hs = NotStarting" "hs_has_server hs"
    "r = StartedServer \<and> hs_goroutines hs = [Serving] \<and> hs_running hs \<or>
     (\<exists>e g. r = StartFailed e \<and> hs_goroutines hs = [g] \<and> g \<noteq> Serving \<and> settled g \<and> \<not> hs_running hs)"
    using run(3,4) by (auto simp: first_start_inv_def)
qed

lemma http_stop_spec:
  assumes "hs_pc hs = NotStarting" "hs_has_server hs" "hs_goroutines hs = [g]"
    "hs_running hs = (g = Serving)"
  shows "\<exists>hs'. http_stop True hs = Some (True, hs') \<and> \<not> serving hs' \<and> \<not> hs_running hs' \<and> hs_pc hs' = NotStarting"
  using assms by (auto simp: http_stop_def close_server_def set_goroutine_def serving_def)

text \<open>Start is in two parts: the runtimes, the local peer and the discoverer first.\<close>
lemma Start_spec:
  "\<not> md_running md \<Longrightarrow> md_listener md = NoConn \<Longrightarrow> Start env now md = (r, md') \<Longrightarrow>
     md_running md' \<and> md_peers md' = md_peers md \<and>
     (if r = None then md_listener md' = OpenConn \<and> md_sender md' = OpenConn
      else md_listener md' \<noteq> OpenConn)"
  by (auto simp: Start_def Let_def split: if_splits)

definition prepared :: "'d daemon_env \<Rightarrow> 'e Daemon \<Rightarrow> 'e Daemon option" where
  "prepared env d =
     (case local_GetRuntimes (de_now env) (de_discoverers env) (dm_runtimes d) of
        (None, _) \<Rightarrow> None
      | (Some got, rm) \<Rightarrow> Some (set_local_peer env (fst (local_ListRuntimes got)) (d\<lparr>dm_runtimes := rm\<rparr>)))"

lemma local_GetRuntimes_again:
  "local_GetRuntimes now ds m = (Some got, m') \<Longrightarrow> local_GetRuntimes now ds m' = (Some got, m')"
  by (cases "detectRuntimesSuper ds :: RuntimeImpl list \<times> string \<times> 'a option")
     (auto simp: local_GetRuntimes_def local_end_detect_def local_cache_result_def local_begin_detect_def
        local_cached_def Let_def split: if_splits)

lemma Daemon_Start_prepared:
  "Daemon_Start env es stop_ok d = Option.bind (prepared env d) (start_services env es stop_ok)"
proof (cases "local_GetRuntimes (de_now env) (de_discoverers env) (dm_runtimes d)")
  case (Pair got rm)
  then show ?thesis by (cases got) (simp_all add: Daemon_Start_def prepared_def local_GetRuntimes_again)
qed

lemma prepared_simps:
  assumes "prepared env d = Some d1"
  shows "dm_id d1 = dm_id d" "dm_config d1 = dm_config d" "dm_http d1 = dm_http d"
    "\<exists>pm. dm_discoverer d1 = (dm_discoverer d)\<lparr>md_peers := pm\<rparr> \<and> pm_peers pm = pm_peers (md_peers (dm_discoverer d)) \<and>
       (\<exists>p. pm_local_peer pm = Some p \<and> pi_id p = dm_id d \<and> pi_is_alive p \<and> pi_is_local p \<and>
         pi_endpoint p = host_port (getAdvertisedHost (de_hostname env) (de_local_ip env) (dc_host (dm_config d)))
           (dc_port (dm_config d)))"
  using assms by (auto simp: prepared_def set_local_peer_def SetLocalPeer_def local_peer_info_def Let_def
      split: option.splits prod.splits)

lemma prepared_detected: "prepared env d = Some d1 \<Longrightarrow> lrm_detected_at (dm_runtimes d1) \<noteq> None"
  by (auto simp: prepared_def set_local_peer_def local_GetRuntimes_def local_end_detect_def local_cache_result_def
      Let_def split: option.splits prod.splits if_splits)

lemma prepared_Some: "lrm_detected_at (dm_runtimes d) \<noteq> None \<Longrightarrow> \<exists>d1. prepared env d = Some d1"
  by (auto simp: prepared_def local_GetRuntimes_def)

text \<open>What a start of a new daemon leaves when its server has been reached.\<close>
lemma new_daemon_started:
  fixes d :: "'e Daemon"
  assumes new: "NewDaemon (de_hostname env) (de_local_ip env) rm cfg = Some d"
    and start: "Daemon_Start env es ok d = Some (res, d1)" and res: "\<And>e. res \<noteq> Some (DiscoveryNotStarted e)"
    and prompt: "prompt_run (CallStart # es) (dm_http d)"
  obtains r p where "res = (if r = StartedServer then None else Some (ServerNotStarted r))"
    and "dm_config d1 = cfg" and "lrm_detected_at (dm_runtimes d1) \<noteq> None"
    and "md_running (dm_discoverer d1) = dc_enable_mdns cfg"
    and "dc_enable_mdns cfg \<longrightarrow> md_listener (dm_discoverer d1) = OpenConn \<and> md_sender (dm_discoverer d1) = OpenConn"
    and "\<not> dc_enable_mdns cfg \<longrightarrow> md_listener (dm_discoverer d1) = NoConn \<and> md_sender (dm_discoverer d1) = NoConn"
    and "md_peers (dm_discoverer d1) = \<lparr>pm_peers = [], pm_local_peer = Some p, pm_on_discovered = False,
      pm_on_offline = False\<rparr>"
    and "pi_id p = dm_id d \<and> pi_is_local p \<and> pi_is_alive p"
    and "hs_pc (dm_http d1) = NotStarting" and "hs_has_server (dm_http d1)"
    and "r = StartedServer \<and> hs_goroutines (dm_http d1) = [Serving] \<and> hs_running (dm_http d1) \<or>
     (\<exists>e g. r = StartFailed e \<and> hs_goroutines (dm_http d1) = [g] \<and> g \<noteq> Serving \<and> settled g \<and>
        \<not> hs_running (dm_http d1))"
proof -
  note d = NewDaemon_Some [OF new]
  obtain d0 where d0: "prepared env d = Some d0" "start_services env es ok d0 = Some (res, d1)"
    using start by (auto simp: Daemon_Start_prepared bind_eq_Some_conv)
  note s = prepared_simps(2,3) [OF d0(1)]
  obtain pm p where pm: "dm_discoverer d0 = (dm_discoverer d)\<lparr>md_peers := pm\<rparr>"
    "pm = \<lparr>pm_peers = [], pm_local_peer = Some p, pm_on_discovered = False, pm_on_offline = False\<rparr>"
    "pi_id p = dm_id d \<and> pi_is_local p \<and> pi_is_alive p"
    using d0(1) d(4) by (auto simp: prepared_def set_local_peer_def SetLocalPeer_def local_peer_info_def Let_def
        NewMulticastDiscoverer_def NewPeerManager_def split: option.splits prod.splits)
  have fresh: "\<not> md_running (dm_discoverer d0)" "md_listener (dm_discoverer d0) = NoConn"
    "md_sender (dm_discoverer d0) = NoConn" "md_peers (dm_discoverer d0) = pm"
    using d(4) by (simp_all add: pm(1) NewMulticastDiscoverer_def)
  obtain failed disc where disc: "(if dc_enable_mdns (dm_config d0)
      then Start (de_network env) (de_now env) (dm_discoverer d0) else (None, dm_discoverer d0)) = (failed, disc)"
    by (metis surj_pair)
  have ok: "failed = None" using d0(2) disc res
    by (cases failed) (auto simp: start_services_def Let_def)
  obtain r hs where r: "http_start es (dm_http d) = Some (r, hs)"
    "res = (if r = StartedServer then None else Some (ServerNotStarted r))"
    "d1 = d0\<lparr>dm_discoverer := disc, dm_http := hs\<rparr>"
    using d0(2) disc ok s by (auto simp: start_services_def Let_def split: option.splits start_result.splits)
  have c: "md_running disc = dc_enable_mdns cfg" "md_peers disc = pm"
    "dc_enable_mdns cfg \<longrightarrow> md_listener disc = OpenConn \<and> md_sender disc = OpenConn"
    "\<not> dc_enable_mdns cfg \<longrightarrow> md_listener disc = NoConn \<and> md_sender disc = NoConn"
    using Start_spec [OF fresh(1,2)] disc ok s d(2) fresh by (auto split: if_splits)
  have h: "http_start es (newHTTPServer\<lparr>hs_routes := daemon_routes\<rparr>) = Some (r, hs)"
    "prompt_run (CallStart # es) (newHTTPServer\<lparr>hs_routes := daemon_routes\<rparr>)"
    using r(1) prompt d(3) by simp_all
  show ?thesis
    by (rule that [of r p]) (use r(2,3) c pm(2,3) s d(2) prepared_detected [OF d0(1)] http_first_start [OF h] in simp_all)
qed


text \<open>C28. When the address of a new daemon with discovery enabled cannot be listened at, Start reports the
  error but leaves the discoverer running: the daemon announces an address that nobody answers at. The
  next call of Start is refused, whatever the network does, because of that very discoverer, which it stops.\<close>
theorem failed_bind_announces:
  fixes d :: "'e Daemon" and env env' :: "'d daemon_env"
  assumes "NewDaemon (de_hostname env) (de_local_ip env) rm cfg = Some d" and "dc_enable_mdns cfg"
    and "Daemon_Start env es ok d = Some (Some (ServerNotStarted r), d1)"
    and "prompt_run (CallStart # es) (dm_http d)"
  shows "\<not> serving (dm_http d1) \<and> \<not> Daemon_IsRunning d1 \<and> IsRunning (dm_discoverer d1) \<and>
    md_listener (dm_discoverer d1) = OpenConn \<and> md_sender (dm_discoverer d1) = OpenConn \<and>
    (\<exists>d2. Daemon_Start env' es' True d1 = Some (Some (DiscoveryNotStarted AlreadyRunning), d2) \<and>
       \<not> IsRunning (dm_discoverer d2) \<and> \<not> serving (dm_http d2))"
proof -
  obtain r' p where s: "Some (ServerNotStarted r) = (if r' = StartedServer then None else Some (ServerNotStarted r'))"
    "dm_config d1 = cfg" "lrm_detected_at (dm_runtimes d1) \<noteq> None"
    "md_running (dm_discoverer d1) = dc_enable_mdns cfg"
    "dc_enable_mdns cfg \<longrightarrow> md_listener (dm_discoverer d1) = OpenConn \<and> md_sender (dm_discoverer d1) = OpenConn"
    "hs_pc (dm_http d1) = NotStarting" "hs_has_server (dm_http d1)"
    "r' = StartedServer \<and> hs_goroutines (dm_http d1) = [Serving] \<and> hs_running (dm_http d1) \<or>
     (\<exists>e g. r' = StartFailed e \<and> hs_goroutines (dm_http d1) = [g] \<and> g \<noteq> Serving \<and> settled g \<and>
        \<not> hs_running (dm_http d1))"
    by (rule new_daemon_started [OF assms(1,3) _ assms(4)]) auto
  then obtain g where failed: "hs_goroutines (dm_http d1) = [g]" "g \<noteq> Serving" "\<not> hs_running (dm_http d1)"
    by (auto split: if_splits)
  obtain hs where hs: "http_stop True (dm_http d1) = Some (True, hs)" "\<not> serving hs"
    using http_stop_spec [OF s(6,7) failed(1)] failed(2,3) by auto
  obtain d0 where d0: "prepared env' d1 = Some d0" using prepared_Some [OF s(3)] by auto
  note p = prepared_simps [OF d0]
  have "md_running (dm_discoverer d0)" using p(4) s(4) assms(2) by auto
  then show ?thesis using s failed hs p assms(2)
    by (auto simp: serving_def Daemon_IsRunning_def isRunning_def IsRunning_def Daemon_Start_prepared d0
        start_services_def Start_def Daemon_Stop_def Let_def Stop_def)
qed

section \<open>The address a daemon is listed under\<close>

lemma colon_not_digit: "is_digit c \<Longrightarrow> c \<noteq> CHR '':''"
  by (auto simp: is_digit_def)

lemma format_int_port:
  assumes "0 \<le> p" "p < 2 ^ 32"
  shows "format_int p = format_uint32 (word_of_int p)"
proof -
  have "uint (word_of_int p :: 32 word) = p" using assms by (simp add: uint_word_of_int)
  then have "unat (word_of_int p :: 32 word) = nat p" by (simp add: unat_eq_nat_uint)
  then show ?thesis using assms by (simp add: format_int_def format_uint32_def)
qed

lemma format_uint32_no_colon: "CHR '':'' \<notin> set (format_uint32 w)"
  using format_uint32_digits [of w] colon_not_digit by (auto simp: list_all_iff)

lemma split_address:
  "CHR '':'' \<notin> set h \<Longrightarrow> split_on (CHR '':'') (h @ '':'' @ format_uint32 w) = [h, format_uint32 w]"
  using split_on_append [of "CHR '':''" h "format_uint32 w"] split_on_single [OF format_uint32_no_colon, of w]
  by simp

lemma listed_uri_endpoint:
  assumes "CHR '':'' \<notin> set (uri_host u)"
  shows "uri_host (listed_uri (endpoint_of u)) = uri_host u \<and> uri_port (listed_uri (endpoint_of u)) = uri_port u"
  by (simp add: listed_uri_def parseEndpoint_def parsePort_def endpoint_of_def
      split_address [OF assms, simplified])

text \<open>The host of a listed address never has a colon.\<close>
lemma listed_uri_no_colon: "CHR '':'' \<notin> set (uri_host (listed_uri ep))"
proof -
  have "CHR '':'' \<notin> set (parseEndpoint ep ! 0)"
    using split_on_notin [of "split_on (CHR '':'') ep ! 0" "CHR '':''" ep]
    by (simp add: parseEndpoint_def)
  then show ?thesis by (simp add: listed_uri_def Let_def)
qed

text \<open>C10. What a daemon announces and its peers list fit together for hosts without a colon, and for those
  only: a daemon that receives the announcement of another lists it, alive, and under the host and the port
  it is configured with exactly when the host has no colon. An address of version 6 is always listed wrongly.\<close>
theorem announced_address:
  fixes a :: "'e Daemon"
  assumes new: "NewDaemon hostname localIP rm cfg = Some a"
    and host: "h = getAdvertisedHost hostname localIP (dc_host cfg)"
    and port: "0 \<le> dc_port cfg" "dc_port cfg < 2 ^ 32"
    and md: "md_daemon_id md = dm_id a" "md_rpc_uri md = md_rpc_uri (dm_discoverer a)"
      "\<forall>p\<in>set (GetAllPeers (md_peers md)). pi_id p \<noteq> dm_id a"
    and b: "peers_ok (md_peers b)" "md_daemon_id b \<noteq> dm_id a"
    and received: "listener_receive now provided (sendAnnouncement sent rts md) b = (ans, b')"
  shows "\<exists>p\<in>set (fst (ListPeers listed (md_peers b'))). lp_peer_id p = dm_id a \<and> lp_is_online p \<and> \<not> lp_is_local p \<and>
    (uri_host (lp_uri p) = h \<and> uri_port (lp_uri p) = word_of_int (dc_port cfg) \<longleftrightarrow> CHR '':'' \<notin> set h)"
proof -
  note d = NewDaemon_Some [OF new]
  let ?ev = "sendAnnouncement sent rts md" and ?p = "own_peer rts md" and ?w = "word_of_int (dc_port cfg) :: 32 word"
  define u where "u = \<lparr>uri_host = fst (parseRPCURI (md_rpc_uri md)), uri_port = snd (parseRPCURI (md_rpc_uri md)),
    uri_protocol = API_PROTOCOL_GRPC, uri_subpath = ''''\<rparr>"
  have ev: "an_peer ?ev = Some ?p" "pr_api_uri ?p = Some u" "pr_peer_id ?p = dm_id a"
    "pr_peer_id ?p \<notin> pr_peer_id ` set (an_known_peers ?ev)"
    using md by (auto simp: sendAnnouncement_def u_def known_peer_def)
  have filed: "GetPeer (md_peers b') (dm_id a) =
      Some (registered now (peer_info ?p u (announced_runtimes ?p)) (GetPeer (md_peers b) (dm_id a)))"
    using announcement_spec [OF b(1) ev(1,2) _ received] ev(3,4) b(2) by simp
  define q where "q = registered now (peer_info ?p u (announced_runtimes ?p)) (GetPeer (md_peers b) (dm_id a))"
  have q: "pi_id q = dm_id a" "pi_endpoint q = endpoint_of u" "pi_is_alive q" "\<not> pi_is_local q"
    using ev(3) peers_ok_get [OF b(1), of "dm_id a"]
    by (auto simp: q_def registered_def peer_info_def GetPeer_def split: option.split)
  have "q \<in> set (GetAllPeersIncludingLocal (md_peers b'))"
    using filed gm_get_mem [of "pm_peers (md_peers b')" "dm_id a" q] receive_ok [OF b(1), of now provided ?ev] received
    by (force simp: q_def GetPeer_def GetAllPeersIncludingLocal_def peers_ok_def)
  then obtain p where p: "p \<in> set (fst (ListPeers listed (md_peers b')))" "lp_peer_id p = dm_id a"
    "lp_is_online p" "\<not> lp_is_local p" "lp_uri p = listed_uri (endpoint_of u)"
    using q that [of "listed_peer (case listed of Some rts \<Rightarrow> rts | None \<Rightarrow> []) q"]
    by (simp add: ListPeers_def) (simp add: listed_peer_def)
  have uri: "md_rpc_uri md = h @ '':'' @ format_uint32 ?w"
    using d(4) md(2) host format_int_port [OF port] by (simp add: NewMulticastDiscoverer_def host_port_def)
  have "uri_host (lp_uri p) = h \<and> uri_port (lp_uri p) = ?w \<longleftrightarrow> CHR '':'' \<notin> set h"
  proof (cases "CHR '':'' \<in> set h")
    case False
    then have "uri_host u = h" "uri_port u = ?w"
      using split_address [OF False, of ?w] by (simp_all add: u_def parseRPCURI_def uri)
    with listed_uri_endpoint [of u] False show ?thesis by (simp add: p(5))
  next
    case True
    with listed_uri_no_colon [of "endpoint_of u"] show ?thesis by (auto simp: p(5))
  qed
  with p show ?thesis by blast
qed

section \<open>Examples\<close>

definition quiet_env :: "nat daemon_env" where
  "quiet_env = \<lparr>de_hostname = None, de_local_ip = '''', de_discoverers = [],
     de_network = \<lparr>se_resolve = True, se_listen = True, se_resolve_sender = True, se_dial = True\<rparr>, de_now = 5\<rparr>"

definition good_start :: "server_event list" where
  "good_start = [Bind 0 None, Timeout, Settle]"

definition bad_start :: "server_event list" where
  "bad_start = [Bind 0 (Some ''in use''), Report 0, TakeError]"

lemma sample_starts:
  "prompt_run (CallStart # good_start) (newHTTPServer\<lparr>hs_routes := routes\<rparr>)"
  "prompt_run (CallStart # bad_start) (newHTTPServer\<lparr>hs_routes := routes\<rparr>)"
  "\<exists>hs. http_start good_start (newHTTPServer\<lparr>hs_routes := routes\<rparr>) = Some (StartedServer, hs)"
  "\<exists>hs. http_start bad_start (newHTTPServer\<lparr>hs_routes := routes\<rparr>) = Some (StartFailed ''in use'', hs)"
  by (simp_all add: good_start_def bad_start_def newHTTPServer_def goroutine_at_def set_goroutine_def settled_def
      http_start_def is_call_def fail_start_def)

lemma sample_daemon:
  obtains d :: "nat Daemon" where "NewDaemon (de_hostname quiet_env) (de_local_ip quiet_env) rm daemon_DefaultConfig = Some d"
    "dm_http d = newHTTPServer\<lparr>hs_routes := daemon_routes\<rparr>"
    "\<exists>d0. prepared quiet_env d = Some d0 \<and> \<not> md_running (dm_discoverer d0) \<and> dc_enable_mdns (dm_config d0) \<and>
       dm_http d0 = newHTTPServer\<lparr>hs_routes := daemon_routes\<rparr>"
proof -
  obtain d :: "nat Daemon" where d: "NewDaemon (de_hostname quiet_env) (de_local_ip quiet_env) rm daemon_DefaultConfig = Some d"
    using NewDaemon_total by blast
  note f = NewDaemon_Some [OF d]
  obtain d0 where d0: "prepared quiet_env d = Some d0"
    by (auto simp: prepared_def local_GetRuntimes_def f(5) NewLocalRuntimesManager_def Let_def)
  show thesis
    by (rule that [OF d f(3)])
       (use d0 prepared_simps [OF d0] f(2-4) in \<open>auto simp: NewMulticastDiscoverer_def daemon_DefaultConfig_def\<close>)
qed

lemma start_services_sample:
  "\<not> md_running (dm_discoverer d0) \<Longrightarrow> dc_enable_mdns (dm_config d0) \<Longrightarrow> http_start es (dm_http d0) = Some (r, hs) \<Longrightarrow>
     \<exists>d1. start_services quiet_env es ok d0 = Some (if r = StartedServer then None else Some (ServerNotStarted r), d1)"
  by (cases r) (auto simp: start_services_def Start_def quiet_env_def Let_def)


theorem failed_bind_announces_witness:
  "\<exists>(d :: nat Daemon) d1. NewDaemon None '''' local_only daemon_DefaultConfig = Some d \<and>
     Daemon_Start quiet_env bad_start True d = Some (Some (ServerNotStarted (StartFailed ''in use'')), d1) \<and>
     \<not> serving (dm_http d1) \<and> IsRunning (dm_discoverer d1)"
proof -
  obtain d :: "nat Daemon" and d0 where d: "NewDaemon (de_hostname quiet_env) (de_local_ip quiet_env) local_only
      daemon_DefaultConfig = Some d" "dm_http d = newHTTPServer\<lparr>hs_routes := daemon_routes\<rparr>"
    "prepared quiet_env d = Some d0" "\<not> md_running (dm_discoverer d0)" "dc_enable_mdns (dm_config d0)"
    "dm_http d0 = newHTTPServer\<lparr>hs_routes := daemon_routes\<rparr>"
    by (rule sample_daemon [of local_only]) blast
  obtain d1 where d1: "Daemon_Start quiet_env bad_start True d = Some (Some (ServerNotStarted (StartFailed ''in use'')), d1)"
    using start_services_sample [OF d(4,5)] sample_starts(4) [of daemon_routes] d(6)
    by (fastforce simp: Daemon_Start_prepared d(3))
  have "dc_enable_mdns daemon_DefaultConfig" by (simp add: daemon_DefaultConfig_def)
  from failed_bind_announces [OF d(1) this d1] sample_starts(2) d(1,2) d1 show ?thesis
    by (auto simp: quiet_env_def)
qed

theorem announced_address_witness:
  "\<exists>(a :: nat Daemon) b' p. NewDaemon None '''' local_only daemon_DefaultConfig = Some a \<and>
     snd (listener_receive 7 None (sendAnnouncement 6 None (dm_discoverer a))
       (NewMulticastDiscoverer ''b'' ''b:1'' 30 NewPeerManager)) = b' \<and>
     p \<in> set (fst (ListPeers None (md_peers b'))) \<and> lp_peer_id p = dm_id a \<and>
     uri_host (lp_uri p) = ''127.0.0.1'' \<and> uri_port (lp_uri p) = 6789"
proof -
  let ?b = "NewMulticastDiscoverer ''b'' ''b:1'' 30 NewPeerManager"
  obtain a :: "nat Daemon" where a: "NewDaemon None '''' local_only daemon_DefaultConfig = Some a"
    using NewDaemon_total by blast
  note f = NewDaemon_Some [OF a]
  let ?r = "listener_receive 7 None (sendAnnouncement 6 None (dm_discoverer a)) ?b"
  have h: "''127.0.0.1'' = getAdvertisedHost None '''' (dc_host daemon_DefaultConfig)"
    by (simp add: getAdvertisedHost_def daemon_DefaultConfig_def)
  have "dm_id a \<noteq> ''b''" by (simp add: f(1) h [symmetric] host_port_def)
  moreover obtain ans b' where r: "?r = (ans, b')" by (metis surj_pair)
  moreover have "md_daemon_id (dm_discoverer a) = dm_id a" "GetAllPeers (md_peers (dm_discoverer a)) = []"
    by (simp_all add: f(1,4) NewMulticastDiscoverer_def GetAllPeers_def NewPeerManager_def)
  ultimately obtain p where p: "p \<in> set (fst (ListPeers None (md_peers b')))" "lp_peer_id p = dm_id a"
    "uri_host (lp_uri p) = ''127.0.0.1'' \<and> uri_port (lp_uri p) = word_of_int (dc_port daemon_DefaultConfig)
      \<longleftrightarrow> CHR '':'' \<notin> set ''127.0.0.1''"
    using announced_address [OF a h, of "dm_discoverer a" ?b 7 None 6 None ans b' None]
    by (auto simp: NewMulticastDiscoverer_def daemon_DefaultConfig_def)
  then have "uri_host (lp_uri p) = ''127.0.0.1'' \<and> uri_port (lp_uri p) = 6789"
    by (simp add: daemon_DefaultConfig_def)
  with a r p(1,2) show ?thesis by auto
qed

end
