(* ===== verification/ConfigBind.thy ===== *)
theory ConfigBind
  imports DaemonServer DriverRun ToolchainMatch
begin

text \<open>
  The effective configuration of the client and the daemon (pkg/config/config.go, viper_binding.go,
  manager.go, and the root command of cmd/buildozer-client/cmd/root.go).

  A Go value is reflected as a tree: a struct is the list of its fields with their tags, and a value of a
  kind that no case of setFieldFromViper handles (a slice, a map) is opaque. The configuration is a record,
  and \<open>reflected_config\<close> is what reflection shows of it. Viper, with the file, the environment and
  the flags it has read, is what it answers for each key.
\<close>

section \<open>Reflected values\<close>

record StructField =
  sf_name :: string
  sf_exported :: bool
  sf_yaml :: string
  sf_json :: string

text \<open>Integers come with the width of their type, pointers with whether their type points to structs.\<close>

datatype ('f, 'o) go_value =
  GString string
| GInt nat int
| GUint nat nat
| GBool bool
| GFloat 'f
| GOther 'o
| GStruct "(StructField \<times> ('f, 'o) go_value) list"
| GPtr bool "('f, 'o) go_value option"

record 'f Viper =
  vp_is_set :: "string \<Rightarrow> bool"
  vp_string :: "string \<Rightarrow> string"
  vp_int :: "string \<Rightarrow> int"
  vp_uint :: "string \<Rightarrow> nat"
  vp_bool :: "string \<Rightarrow> bool"
  vp_float :: "string \<Rightarrow> 'f"

definition tag_name :: "string \<Rightarrow> string option" where
  "tag_name tag =
     (if tag = '''' then None
      else let name = hd (split_on (CHR '','') tag) in if name \<noteq> ''-'' \<and> name \<noteq> '''' then Some name else None)"

definition getKeyName :: "StructField \<Rightarrow> string" where
  "getKeyName field =
     (case tag_name (sf_yaml field) of
        Some name \<Rightarrow> name
      | None \<Rightarrow> (case tag_name (sf_json field) of Some name \<Rightarrow> name | None \<Rightarrow> ToLower (sf_name field)))"

definition makeEnvVarName :: "string \<Rightarrow> string" where
  "makeEnvVarName viperKey = ''BUILDOZER_'' @ join_with ''_'' (map ToUpper (split_on (CHR ''.'') viperKey))"

definition full_key :: "string \<Rightarrow> StructField \<Rightarrow> string" where
  "full_key pre field = (if pre \<noteq> '''' then pre @ ''.'' @ getKeyName field else getKeyName field)"

section \<open>Binding the environment\<close>

text \<open>The keys that are bound, with their variables, in the order of the calls of viper.\<close>

fun bind_fields :: "string \<Rightarrow> (StructField \<times> ('f, 'o) go_value) list \<Rightarrow> (string \<times> string) list"
  and bind_field :: "string \<Rightarrow> ('f, 'o) go_value \<Rightarrow> (string \<times> string) list" where
  "bind_fields pre [] = []"
| "bind_fields pre ((field, v) # fs) =
     (if sf_exported field then bind_field (full_key pre field) v else []) @ bind_fields pre fs"
| "bind_field key (GStruct fs) = bind_fields key fs"
| "bind_field key (GPtr True (Some (GStruct fs))) = bind_fields key fs"
| "bind_field key (GPtr True v) = []"
| "bind_field key v = [(key, makeEnvVarName key)]"

fun bindStructToViper :: "string \<Rightarrow> ('f, 'o) go_value \<Rightarrow> (string \<times> string) list" where
  "bindStructToViper pre (GPtr b (Some (GStruct fs))) = bind_fields pre fs"
| "bindStructToViper pre (GStruct fs) = bind_fields pre fs"
| "bindStructToViper pre v = []"

section \<open>Reading the values\<close>

definition signed_cut :: "nat \<Rightarrow> int \<Rightarrow> int" where
  "signed_cut w i = (i + 2 ^ (w - 1)) mod 2 ^ w - 2 ^ (w - 1)"

fun setFieldFromViper :: "'f Viper \<Rightarrow> string \<Rightarrow> ('f, 'o) go_value \<Rightarrow> ('f, 'o) go_value" where
  "setFieldFromViper vp key (GString s) = GString (vp_string vp key)"
| "setFieldFromViper vp key (GInt w i) = GInt w (signed_cut w (vp_int vp key))"
| "setFieldFromViper vp key (GUint w n) = GUint w (vp_uint vp key mod 2 ^ w)"
| "setFieldFromViper vp key (GBool b) = GBool (vp_bool vp key)"
| "setFieldFromViper vp key (GFloat f) = GFloat (vp_float vp key)"
| "setFieldFromViper vp key v = v"

fun populate_fields ::
    "'f Viper \<Rightarrow> string \<Rightarrow> (StructField \<times> ('f, 'o) go_value) list \<Rightarrow> (StructField \<times> ('f, 'o) go_value) list"
  and populate_field :: "'f Viper \<Rightarrow> string \<Rightarrow> ('f, 'o) go_value \<Rightarrow> ('f, 'o) go_value" where
  "populate_fields vp pre [] = []"
| "populate_fields vp pre ((field, v) # fs) =
     (field, if sf_exported field then populate_field vp (full_key pre field) v else v)
       # populate_fields vp pre fs"
| "populate_field vp key (GStruct fs) = GStruct (populate_fields vp key fs)"
| "populate_field vp key (GPtr True (Some (GStruct fs))) = GPtr True (Some (GStruct (populate_fields vp key fs)))"
| "populate_field vp key (GPtr True v) = GPtr True v"
| "populate_field vp key v = (if vp_is_set vp key then setFieldFromViper vp key v else v)"

fun populateStructFromViper :: "'f Viper \<Rightarrow> string \<Rightarrow> ('f, 'o) go_value \<Rightarrow> ('f, 'o) go_value" where
  "populateStructFromViper vp pre (GPtr b (Some (GStruct fs))) = GPtr b (Some (GStruct (populate_fields vp pre fs)))"
| "populateStructFromViper vp pre (GStruct fs) = GStruct (populate_fields vp pre fs)"
| "populateStructFromViper vp pre v = v"

section \<open>What the two walks share\<close>

text \<open>Viper is read at the keys that were bound to the environment and at no others.\<close>

definition agree_on :: "string set \<Rightarrow> 'f Viper \<Rightarrow> 'f Viper \<Rightarrow> bool" where
  "agree_on K v w = (\<forall>k\<in>K. vp_is_set v k = vp_is_set w k \<and> vp_string v k = vp_string w k \<and>
     vp_int v k = vp_int w k \<and> vp_uint v k = vp_uint w k \<and> vp_bool v k = vp_bool w k \<and> vp_float v k = vp_float w k)"

lemma set_field_agrees: "agree_on {key} v w \<Longrightarrow> setFieldFromViper v key x = setFieldFromViper w key x"
  by (cases x) (auto simp: agree_on_def)

lemma populate_field_agrees:
  fixes v w :: "'f Viper" and fs :: "(StructField \<times> ('f, 'o) go_value) list" and x :: "('f, 'o) go_value"
  shows "agree_on (fst ` set (bind_fields pre fs)) v w \<Longrightarrow> populate_fields v pre fs = populate_fields w pre fs"
    and "agree_on (fst ` set (bind_field key x)) v w \<Longrightarrow> populate_field v key x = populate_field w key x"
proof (induction pre fs and key x rule: bind_fields_bind_field.induct)
  case (2 pre field x fs)
  have "agree_on (fst ` set (bind_fields pre fs)) v w"
    "sf_exported field \<Longrightarrow> agree_on (fst ` set (bind_field (full_key pre field) x)) v w"
    using 2(3) by (auto simp: agree_on_def)
  with 2 show ?case by simp
qed (simp_all add: set_field_agrees agree_on_def)

text \<open>Reading twice is reading once.\<close>
lemma set_field_idem: "setFieldFromViper v key (setFieldFromViper v key x) = setFieldFromViper v key x"
  by (cases x) auto

lemma populate_field_idem:
  fixes vp :: "'f Viper" and fs :: "(StructField \<times> ('f, 'o) go_value) list" and x :: "('f, 'o) go_value"
  shows "populate_fields vp pre (populate_fields vp pre fs) = populate_fields vp pre fs"
    and "populate_field vp key (populate_field vp key x) = populate_field vp key x"
proof (induction pre fs and key x rule: bind_fields_bind_field.induct)
qed (simp_all add: set_field_idem)

section \<open>The configuration\<close>

record CacheConfig =
  ca_dir :: string
  ca_max_size_gb :: int
  ca_retention_days :: int

definition DefaultCacheConfig :: CacheConfig where
  "DefaultCacheConfig = \<lparr>ca_dir = '''', ca_max_size_gb = 100, ca_retention_days = 30\<rparr>"

record PeerDiscoveryConfig =
  pd_enabled :: bool
  pd_mdns_interval_secs :: int

definition DefaultPeerDiscoveryConfig :: PeerDiscoveryConfig where
  "DefaultPeerDiscoveryConfig = \<lparr>pd_enabled = True, pd_mdns_interval_secs = 300\<rparr>"

record Config =
  cg_standalone :: bool
  cg_daemon :: DaemonConfig
  cg_logging :: LoggingConfig
  cg_cache :: CacheConfig
  cg_peer_discovery :: PeerDiscoveryConfig
  cg_drivers :: DriverMaps

definition config_DefaultConfig :: Config where
  "config_DefaultConfig =
     \<lparr>cg_standalone = False, cg_daemon = daemon_DefaultConfig, cg_logging = DefaultLoggingConfig,
      cg_cache = DefaultCacheConfig, cg_peer_discovery = DefaultPeerDiscoveryConfig, cg_drivers = []\<rparr>"

text \<open>The slices and the map of the configuration, and the structs as reflection shows them.\<close>

datatype opaque = Sinks "SinkConfig list" | Loggers "LoggerConfig list" | Drivers DriverMaps

type_synonym config_tree = "(unit, opaque) go_value"

definition tagged :: "string \<Rightarrow> string \<Rightarrow> config_tree \<Rightarrow> StructField \<times> config_tree" where
  "tagged name tag v = (\<lparr>sf_name = name, sf_exported = True, sf_yaml = tag, sf_json = tag\<rparr>, v)"

definition logging_value :: "LoggingConfig \<Rightarrow> config_tree" where
  "logging_value c = GStruct
     [tagged ''GlobalLevel'' ''global_level'' (GString (gc_global_level c)),
      tagged ''LoggingDir'' ''logging_dir'' (GString (gc_logging_dir c)),
      tagged ''Sinks'' ''sinks'' (GOther (Sinks (gc_sinks c))),
      tagged ''Loggers'' ''loggers'' (GOther (Loggers (gc_loggers c)))]"

definition daemon_value :: "DaemonConfig \<Rightarrow> config_tree" where
  "daemon_value c = GStruct
     [tagged ''Host'' ''host'' (GString (dc_host c)),
      tagged ''Port'' ''port'' (GInt 64 (dc_port c)),
      tagged ''MaxConcurrentJobs'' ''max_concurrent_jobs'' (GInt 64 (dc_max_concurrent_jobs c)),
      tagged ''MaxRAMMB'' ''max_ram_mb'' (GInt 64 (dc_max_ram_mb c)),
      tagged ''EnableMDNS'' ''enable_mdns'' (GBool (dc_enable_mdns c)),
      tagged ''MDNSIntervalSecs'' ''mdns_interval_secs'' (GInt 64 (dc_mdns_interval_secs c)),
      tagged ''Logging'' ''logging'' (logging_value (dc_logging c))]"

definition cache_value :: "CacheConfig \<Rightarrow> config_tree" where
  "cache_value c = GStruct
     [tagged ''Dir'' ''dir'' (GString (ca_dir c)),
      tagged ''MaxSizeGB'' ''max_size_gb'' (GInt 64 (ca_max_size_gb c)),
      tagged ''RetentionDays'' ''retention_days'' (GInt 64 (ca_retention_days c))]"

definition discovery_value :: "PeerDiscoveryConfig \<Rightarrow> config_tree" where
  "discovery_value c = GStruct
     [tagged ''Enabled'' ''enabled'' (GBool (pd_enabled c)),
      tagged ''MDNSIntervalSecs'' ''mDNS_interval_seconds'' (GInt 64 (pd_mdns_interval_secs c))]"

definition reflected_config :: "Config \<Rightarrow> config_tree" where
  "reflected_config c = GPtr True (Some (GStruct
     [tagged ''Standalone'' ''standalone'' (GBool (cg_standalone c)),
      tagged ''Daemon'' ''daemon'' (daemon_value (cg_daemon c)),
      tagged ''Logging'' ''logging'' (logging_value (cg_logging c)),
      tagged ''Cache'' ''cache'' (cache_value (cg_cache c)),
      tagged ''PeerDiscovery'' ''peer_discovery'' (discovery_value (cg_peer_discovery c)),
      tagged ''Drivers'' ''drivers'' (GOther (Drivers (cg_drivers c)))]))"

lemmas config_trees = reflected_config_def daemon_value_def logging_value_def cache_value_def
  discovery_value_def tagged_def

text \<open>The record a tree of this shape shows.\<close>

fun field_at :: "config_tree \<Rightarrow> nat \<Rightarrow> config_tree" where
  "field_at (GPtr b (Some v)) i = field_at v i"
| "field_at (GStruct fs) i = snd (fs ! i)"
| "field_at v i = v"

definition as_string :: "config_tree \<Rightarrow> string" where
  "as_string v = (case v of GString s \<Rightarrow> s | _ \<Rightarrow> '''')"

definition as_int :: "config_tree \<Rightarrow> int" where
  "as_int v = (case v of GInt _ i \<Rightarrow> i | _ \<Rightarrow> 0)"

definition as_bool :: "config_tree \<Rightarrow> bool" where
  "as_bool v = (case v of GBool b \<Rightarrow> b | _ \<Rightarrow> False)"

definition as_sinks :: "config_tree \<Rightarrow> SinkConfig list" where
  "as_sinks v = (case v of GOther (Sinks ss) \<Rightarrow> ss | _ \<Rightarrow> [])"

definition as_loggers :: "config_tree \<Rightarrow> LoggerConfig list" where
  "as_loggers v = (case v of GOther (Loggers ls) \<Rightarrow> ls | _ \<Rightarrow> [])"

definition as_drivers :: "config_tree \<Rightarrow> DriverMaps" where
  "as_drivers v = (case v of GOther (Drivers ds) \<Rightarrow> ds | _ \<Rightarrow> [])"

definition logging_of :: "config_tree \<Rightarrow> LoggingConfig" where
  "logging_of v = \<lparr>gc_global_level = as_string (field_at v 0), gc_logging_dir = as_string (field_at v 1),
     gc_sinks = as_sinks (field_at v 2), gc_loggers = as_loggers (field_at v 3)\<rparr>"

definition daemon_of :: "config_tree \<Rightarrow> DaemonConfig" where
  "daemon_of v = \<lparr>dc_host = as_string (field_at v 0), dc_port = as_int (field_at v 1),
     dc_max_concurrent_jobs = as_int (field_at v 2), dc_max_ram_mb = as_int (field_at v 3),
     dc_enable_mdns = as_bool (field_at v 4), dc_mdns_interval_secs = as_int (field_at v 5),
     dc_logging = logging_of (field_at v 6)\<rparr>"

definition config_of :: "config_tree \<Rightarrow> Config" where
  "config_of v = \<lparr>cg_standalone = as_bool (field_at v 0), cg_daemon = daemon_of (field_at v 1),
     cg_logging = logging_of (field_at v 2),
     cg_cache = \<lparr>ca_dir = as_string (field_at (field_at v 3) 0), ca_max_size_gb = as_int (field_at (field_at v 3) 1),
       ca_retention_days = as_int (field_at (field_at v 3) 2)\<rparr>,
     cg_peer_discovery = \<lparr>pd_enabled = as_bool (field_at (field_at v 4) 0),
       pd_mdns_interval_secs = as_int (field_at (field_at v 4) 1)\<rparr>,
     cg_drivers = as_drivers (field_at v 5)\<rparr>"

lemmas config_of_defs = config_of_def daemon_of_def logging_of_def as_string_def as_int_def as_bool_def
  as_sinks_def as_loggers_def as_drivers_def

lemma config_of_value [simp]: "config_of (reflected_config c) = c"
  by (simp add: config_trees config_of_defs)

section \<open>The manager\<close>

text \<open>What the manager asks of viper, in order.\<close>

datatype viper_call =
  SetEnvPrefix string
| BindEnv string string
| SetConfigName string
| SetConfigType string
| SetConfigFile string
| AddConfigPath string
| ReadInConfig
| BindPFlag string string

record ConfigManager =
  cm_initialized :: bool

definition NewConfigManager :: ConfigManager where
  "NewConfigManager = \<lparr>cm_initialized = False\<rparr>"

definition zero_config :: Config where
  "zero_config =
     \<lparr>cg_standalone = False,
      cg_daemon = \<lparr>dc_host = '''', dc_port = 0, dc_max_concurrent_jobs = 0, dc_max_ram_mb = 0, dc_enable_mdns = False,
        dc_mdns_interval_secs = 0,
        dc_logging = \<lparr>gc_global_level = '''', gc_logging_dir = '''', gc_sinks = [], gc_loggers = []\<rparr>\<rparr>,
      cg_logging = \<lparr>gc_global_level = '''', gc_logging_dir = '''', gc_sinks = [], gc_loggers = []\<rparr>,
      cg_cache = \<lparr>ca_dir = '''', ca_max_size_gb = 0, ca_retention_days = 0\<rparr>,
      cg_peer_discovery = \<lparr>pd_enabled = False, pd_mdns_interval_secs = 0\<rparr>, cg_drivers = []\<rparr>"

definition bind_calls :: "(string \<times> string) list \<Rightarrow> viper_call list" where
  "bind_calls bs = map (\<lambda>(key, env). BindEnv key env) bs"

definition BindConfigToViper :: "Config \<Rightarrow> viper_call list" where
  "BindConfigToViper cfg = SetEnvPrefix ''BUILDOZER'' # bind_calls (bindStructToViper '''' (reflected_config cfg))"

definition Manager_Initialize :: "string \<Rightarrow> string \<Rightarrow> ConfigManager \<Rightarrow> viper_call list \<times> ConfigManager" where
  "Manager_Initialize home configFile m =
     (SetEnvPrefix ''BUILDOZER'' # bind_calls (bindStructToViper '''' (reflected_config zero_config)) @
      [SetConfigName ''buildozer'', SetConfigType ''yaml''] @
      (if configFile \<noteq> '''' then [SetConfigFile configFile]
       else [AddConfigPath (Join [home, ''.config'', ''buildozer'']), AddConfigPath ''/etc/buildozer'', AddConfigPath ''.'']) @
      [ReadInConfig],
      m\<lparr>cm_initialized := True\<rparr>)"

text \<open>The flags, in the order the range over the map takes them; a name without a flag is skipped. Binding
  a flag that there is does not fail.\<close>

definition BindFlags :: "(string \<Rightarrow> bool) \<Rightarrow> (string \<times> string) list \<Rightarrow> viper_call list" where
  "BindFlags lookup flagMappings =
     map (\<lambda>(flagName, viperKey). BindPFlag viperKey flagName) (filter (\<lambda>(flagName, _). lookup flagName) flagMappings)"

text \<open>Get, with the calls of viper before it reads it as \<open>vp\<close>.\<close>

definition Manager_Get ::
  "string \<Rightarrow> unit Viper \<Rightarrow> ConfigManager \<Rightarrow> viper_call list \<times> Config \<times> ConfigManager" where
  "Manager_Get home vp m =
     (let (calls, m1) = (if cm_initialized m then ([], m) else Manager_Initialize home '''' m);
          cfg = config_of (populateStructFromViper vp '''' (reflected_config config_DefaultConfig))
      in (calls, if ca_dir (cg_cache cfg) = ''''
           then cfg\<lparr>cg_cache := (cg_cache cfg)\<lparr>ca_dir := Join [home, ''.cache'', ''buildozer'']\<rparr>\<rparr> else cfg, m1))"

section \<open>The command line of the root command\<close>

text \<open>The arguments after the name of the program.\<close>

definition isDaemonBeingRun :: "string list \<Rightarrow> bool" where
  "isDaemonBeingRun args =
     (case List.find (\<lambda>arg. \<not> has_prefix arg ''-'') args of None \<Rightarrow> False | Some arg \<Rightarrow> arg = ''daemon'')"

definition flagMappings :: "(string \<times> string) list" where
  "flagMappings =
     [(''log-level'', ''logging.global_level''), (''host'', ''daemon.host''), (''port'', ''daemon.port''),
      (''standalone'', ''standalone'')]"

text \<open>What viper is asked, and the logging configuration that the process starts with. Viper is \<open>vp\<close>
  after those calls.\<close>

definition initializeConfig ::
  "string \<Rightarrow> string list \<Rightarrow> string \<Rightarrow> (string \<Rightarrow> bool) \<Rightarrow> unit Viper \<Rightarrow> ConfigManager \<Rightarrow> viper_call list \<times> LoggingConfig" where
  "initializeConfig home args settingsFile lookup vp m =
     (let (calls, m1) = Manager_Initialize home settingsFile m;
          (calls', cfg, m2) = Manager_Get home vp m1
      in (calls @ BindFlags lookup flagMappings @ calls',
          if isDaemonBeingRun args then dc_logging (cg_daemon cfg) else cg_logging cfg))"

section \<open>The bindings of the configuration\<close>

lemma getKeyName_tagged:
  "tag \<noteq> '''' \<Longrightarrow> tag \<noteq> ''-'' \<Longrightarrow> CHR '','' \<notin> set tag \<Longrightarrow>
     getKeyName \<lparr>sf_name = n, sf_exported = True, sf_yaml = tag, sf_json = tag\<rparr> = tag"
  by (simp add: getKeyName_def tag_name_def split_on_single)

lemma upper_table: "map to_upper_char ''abcdefghijklmnopqrstuvwxyz_DNMS'' = ''ABCDEFGHIJKLMNOPQRSTUVWXYZ_DNMS''"
  by code_simp

lemma upper_letters:
  "to_upper_char (CHR ''a'') = CHR ''A''"
  "to_upper_char (CHR ''b'') = CHR ''B''"
  "to_upper_char (CHR ''c'') = CHR ''C''"
  "to_upper_char (CHR ''d'') = CHR ''D''"
  "to_upper_char (CHR ''e'') = CHR ''E''"
  "to_upper_char (CHR ''f'') = CHR ''F''"
  "to_upper_char (CHR ''g'') = CHR ''G''"
  "to_upper_char (CHR ''h'') = CHR ''H''"
  "to_upper_char (CHR ''i'') = CHR ''I''"
  "to_upper_char (CHR ''j'') = CHR ''J''"
  "to_upper_char (CHR ''k'') = CHR ''K''"
  "to_upper_char (CHR ''l'') = CHR ''L''"
  "to_upper_char (CHR ''m'') = CHR ''M''"
  "to_upper_char (CHR ''n'') = CHR ''N''"
  "to_upper_char (CHR ''o'') = CHR ''O''"
  "to_upper_char (CHR ''p'') = CHR ''P''"
  "to_upper_char (CHR ''q'') = CHR ''Q''"
  "to_upper_char (CHR ''r'') = CHR ''R''"
  "to_upper_char (CHR ''s'') = CHR ''S''"
  "to_upper_char (CHR ''t'') = CHR ''T''"
  "to_upper_char (CHR ''u'') = CHR ''U''"
  "to_upper_char (CHR ''v'') = CHR ''V''"
  "to_upper_char (CHR ''w'') = CHR ''W''"
  "to_upper_char (CHR ''x'') = CHR ''X''"
  "to_upper_char (CHR ''y'') = CHR ''Y''"
  "to_upper_char (CHR ''z'') = CHR ''Z''"
  "to_upper_char (CHR ''_'') = CHR ''_''"
  "to_upper_char (CHR ''D'') = CHR ''D''"
  "to_upper_char (CHR ''N'') = CHR ''N''"
  "to_upper_char (CHR ''M'') = CHR ''M''"
  "to_upper_char (CHR ''S'') = CHR ''S''"
  using upper_table by simp_all

text \<open>C30. Every scalar of the configuration, and each of its slices and maps, is bound to an environment
  variable of its own, named by its path: no two fields share a key or a variable, though joining paths with
  underscores could confuse them.\<close>
theorem config_bindings:
  "map snd (bindStructToViper '''' (reflected_config c)) =
     map (\<lambda>v. ''BUILDOZER_'' @ v)
      [''STANDALONE'', ''DAEMON_HOST'', ''DAEMON_PORT'', ''DAEMON_MAX_CONCURRENT_JOBS'', ''DAEMON_MAX_RAM_MB'',
       ''DAEMON_ENABLE_MDNS'', ''DAEMON_MDNS_INTERVAL_SECS'', ''DAEMON_LOGGING_GLOBAL_LEVEL'',
       ''DAEMON_LOGGING_LOGGING_DIR'', ''DAEMON_LOGGING_SINKS'', ''DAEMON_LOGGING_LOGGERS'',
       ''LOGGING_GLOBAL_LEVEL'', ''LOGGING_LOGGING_DIR'', ''LOGGING_SINKS'', ''LOGGING_LOGGERS'',
       ''CACHE_DIR'', ''CACHE_MAX_SIZE_GB'', ''CACHE_RETENTION_DAYS'', ''PEER_DISCOVERY_ENABLED'',
       ''PEER_DISCOVERY_MDNS_INTERVAL_SECONDS'', ''DRIVERS''] \<and>
   distinct (map fst (bindStructToViper '''' (reflected_config c))) \<and>
   distinct (map snd (bindStructToViper '''' (reflected_config c))) \<and>
   snd ` set flagMappings \<subseteq> fst ` set (bindStructToViper '''' (reflected_config c))"
proof -
  have same: "bindStructToViper '''' (reflected_config c) = bindStructToViper '''' (reflected_config zero_config)"
    by (simp add: config_trees full_key_def)
  have keys: "map fst (bindStructToViper '''' (reflected_config zero_config)) =
     [''standalone'', ''daemon.host'', ''daemon.port'', ''daemon.max_concurrent_jobs'', ''daemon.max_ram_mb'',
      ''daemon.enable_mdns'', ''daemon.mdns_interval_secs'', ''daemon.logging.global_level'',
      ''daemon.logging.logging_dir'', ''daemon.logging.sinks'', ''daemon.logging.loggers'',
      ''logging.global_level'', ''logging.logging_dir'', ''logging.sinks'', ''logging.loggers'',
      ''cache.dir'', ''cache.max_size_gb'', ''cache.retention_days'', ''peer_discovery.enabled'',
      ''peer_discovery.mDNS_interval_seconds'', ''drivers'']"
    by (simp add: config_trees full_key_def getKeyName_tagged)
  then have "snd ` set flagMappings \<subseteq> fst ` set (bindStructToViper '''' (reflected_config zero_config))"
    unfolding set_map [symmetric] keys by (simp add: flagMappings_def)
  moreover have "map snd (bindStructToViper '''' (reflected_config zero_config)) =
     map (\<lambda>v. ''BUILDOZER_'' @ v)
      [''STANDALONE'', ''DAEMON_HOST'', ''DAEMON_PORT'', ''DAEMON_MAX_CONCURRENT_JOBS'', ''DAEMON_MAX_RAM_MB'',
       ''DAEMON_ENABLE_MDNS'', ''DAEMON_MDNS_INTERVAL_SECS'', ''DAEMON_LOGGING_GLOBAL_LEVEL'',
       ''DAEMON_LOGGING_LOGGING_DIR'', ''DAEMON_LOGGING_SINKS'', ''DAEMON_LOGGING_LOGGERS'',
       ''LOGGING_GLOBAL_LEVEL'', ''LOGGING_LOGGING_DIR'', ''LOGGING_SINKS'', ''LOGGING_LOGGERS'',
       ''CACHE_DIR'', ''CACHE_MAX_SIZE_GB'', ''CACHE_RETENTION_DAYS'', ''PEER_DISCOVERY_ENABLED'',
       ''PEER_DISCOVERY_MDNS_INTERVAL_SECONDS'', ''DRIVERS'']"
    by (simp add: config_trees full_key_def getKeyName_tagged makeEnvVarName_def ToUpper_def upper_letters)
  ultimately show ?thesis unfolding same keys by simp
qed

section \<open>The effective configuration\<close>

definition pick :: "unit Viper \<Rightarrow> (unit Viper \<Rightarrow> string \<Rightarrow> 'a) \<Rightarrow> string \<Rightarrow> 'a \<Rightarrow> 'a" where
  "pick vp get key dflt = (if vp_is_set vp key then get vp key else dflt)"

definition effective_logging :: "unit Viper \<Rightarrow> string \<Rightarrow> LoggingConfig \<Rightarrow> LoggingConfig" where
  "effective_logging vp path dflt = dflt\<lparr>
     gc_global_level := pick vp vp_string (path @ ''.global_level'') (gc_global_level dflt),
     gc_logging_dir := pick vp vp_string (path @ ''.logging_dir'') (gc_logging_dir dflt)\<rparr>"

definition effective_config :: "string \<Rightarrow> unit Viper \<Rightarrow> Config" where
  "effective_config home vp =
     \<lparr>cg_standalone = pick vp vp_bool ''standalone'' False,
      cg_daemon = \<lparr>dc_host = pick vp vp_string ''daemon.host'' ''127.0.0.1'',
        dc_port = pick vp vp_int ''daemon.port'' 6789,
        dc_max_concurrent_jobs = pick vp vp_int ''daemon.max_concurrent_jobs'' 4,
        dc_max_ram_mb = pick vp vp_int ''daemon.max_ram_mb'' 8192,
        dc_enable_mdns = pick vp vp_bool ''daemon.enable_mdns'' True,
        dc_mdns_interval_secs = pick vp vp_int ''daemon.mdns_interval_secs'' 30,
        dc_logging = effective_logging vp ''daemon.logging'' DefaultDaemonLoggingConfig\<rparr>,
      cg_logging = effective_logging vp ''logging'' DefaultLoggingConfig,
      cg_cache = \<lparr>ca_dir = (let dir = pick vp vp_string ''cache.dir'' ''''
          in if dir = '''' then Join [home, ''.cache'', ''buildozer''] else dir),
        ca_max_size_gb = pick vp vp_int ''cache.max_size_gb'' 100,
        ca_retention_days = pick vp vp_int ''cache.retention_days'' 30\<rparr>,
      cg_peer_discovery = \<lparr>pd_enabled = pick vp vp_bool ''peer_discovery.enabled'' True,
        pd_mdns_interval_secs = pick vp vp_int ''peer_discovery.mDNS_interval_seconds'' 300\<rparr>,
      cg_drivers = []\<rparr>"

lemma signed_cut_id: "- (2 ^ 63) \<le> i \<Longrightarrow> i < 2 ^ 63 \<Longrightarrow> signed_cut 64 i = i"
  by (simp add: signed_cut_def)

lemma as_pick:
  "as_string (if b then setFieldFromViper vp key (GString y) else GString y) = (if b then vp_string vp key else y)"
  "as_int (if b then setFieldFromViper vp key (GInt w j) else GInt w j) =
     (if b then signed_cut w (vp_int vp key) else j)"
  "as_bool (if b then setFieldFromViper vp key (GBool q) else GBool q) = (if b then vp_bool vp key else q)"
  "as_sinks (if b then setFieldFromViper vp key (GOther (Sinks ss)) else GOther (Sinks ss)) = ss"
  "as_loggers (if b then setFieldFromViper vp key (GOther (Loggers ls)) else GOther (Loggers ls)) = ls"
  "as_drivers (if b then setFieldFromViper vp key (GOther (Drivers ds)) else GOther (Drivers ds)) = ds"
  by (simp_all add: as_string_def as_int_def as_bool_def as_sinks_def as_loggers_def as_drivers_def)

lemmas populate_value = full_key_def getKeyName_tagged as_pick pick_def

lemma logging_populated:
  "path \<noteq> '''' \<Longrightarrow> logging_of (populate_field vp path (logging_value c)) = effective_logging vp path c"
  by (cases c) (simp add: logging_value_def tagged_def logging_of_def effective_logging_def populate_value split del: if_split)

lemma Manager_Get_effective:
  assumes "\<forall>key. - (2 ^ 63) \<le> vp_int vp key \<and> vp_int vp key < 2 ^ 63"
  shows "fst (snd (Manager_Get home vp m)) = effective_config home vp"
proof -
  have cut: "(if b then signed_cut 64 (vp_int vp key) else j) = (if b then vp_int vp key else j)" for b key j
    using assms signed_cut_id [of "vp_int vp key"] by simp
  let ?v = "populateStructFromViper vp '''' (reflected_config config_DefaultConfig)"
  have d: "daemon_of (field_at ?v 1) = cg_daemon (effective_config home vp)"
    by (simp add: reflected_config_def daemon_value_def tagged_def daemon_of_def populate_value logging_populated cut
        effective_config_def config_DefaultConfig_def daemon_DefaultConfig_def split del: if_split)
  have "config_of ?v = (effective_config home vp)\<lparr>cg_cache := (cg_cache (effective_config home vp))\<lparr>ca_dir :=
      pick vp vp_string ''cache.dir'' ''''\<rparr>\<rparr>"
    using d
    by (simp add: config_of_def reflected_config_def cache_value_def discovery_value_def tagged_def populate_value logging_populated
        cut effective_config_def config_DefaultConfig_def DefaultCacheConfig_def DefaultPeerDiscoveryConfig_def
        split del: if_split)
  then show ?thesis
    by (cases "Manager_Initialize home '''' m")
       (simp add: Manager_Get_def effective_config_def Let_def)
qed

text \<open>C18. The effective configuration, read by reflection, is the one the sources ask for field by field: each
  scalar is what viper has for its key when it has it, else the default of its package, and the directory of
  the cache is below the home directory when nothing else is said. The sinks, the loggers and the settings
  of the drivers are always the defaults: no file, variable or flag changes them.\<close>
theorem effective_config_spec:
  assumes "\<forall>key. - (2 ^ 63) \<le> vp_int vp key \<and> vp_int vp key < 2 ^ 63"
    and "Manager_Get home vp m = (calls, cfg, m')"
  shows "cfg = effective_config home vp \<and> cm_initialized m' \<and> (calls = [] \<longleftrightarrow> cm_initialized m) \<and>
    gc_sinks (dc_logging (cg_daemon cfg)) = gc_sinks DefaultDaemonLoggingConfig \<and>
    gc_sinks (cg_logging cfg) = gc_sinks DefaultLoggingConfig \<and>
    gc_loggers (cg_logging cfg) = gc_loggers DefaultLoggingConfig \<and> cg_drivers cfg = []"
proof -
  have cfg: "cfg = effective_config home vp"
    using Manager_Get_effective [OF assms(1), of home m] assms(2) by simp
  have "cm_initialized m' \<and> (calls = [] \<longleftrightarrow> cm_initialized m)"
    using assms(2) by (auto simp: Manager_Get_def Manager_Initialize_def Let_def split: if_splits)
  then show ?thesis by (simp add: cfg effective_config_def effective_logging_def)
qed

definition file_viper :: "unit Viper" where
  "file_viper = \<lparr>vp_is_set = (\<lambda>k. k = ''daemon.port'' \<or> k = ''logging.sinks''), vp_string = (\<lambda>_. ''''),
     vp_int = (\<lambda>k. if k = ''daemon.port'' then 7000 else 0), vp_uint = (\<lambda>_. 0), vp_bool = (\<lambda>_. False),
     vp_float = (\<lambda>_. ())\<rparr>"

theorem effective_config_spec_witness:
  "dc_port (cg_daemon (fst (snd (Manager_Get ''/home/u'' file_viper NewConfigManager)))) = 7000 \<and>
   dc_host (cg_daemon (fst (snd (Manager_Get ''/home/u'' file_viper NewConfigManager)))) = ''127.0.0.1'' \<and>
   gc_sinks (cg_logging (fst (snd (Manager_Get ''/home/u'' file_viper NewConfigManager)))) = gc_sinks DefaultLoggingConfig"
proof -
  have r: "\<forall>key. - (2 ^ 63) \<le> vp_int file_viper key \<and> vp_int file_viper key < 2 ^ 63"
    by (simp add: file_viper_def)
  obtain calls cfg m' where g: "Manager_Get ''/home/u'' file_viper NewConfigManager = (calls, cfg, m')"
    by (metis surj_pair)
  have "cfg = effective_config ''/home/u'' file_viper" "gc_sinks (cg_logging cfg) = gc_sinks DefaultLoggingConfig"
    using effective_config_spec [OF r g] by blast+
  then show ?thesis unfolding g fst_conv snd_conv by (simp add: effective_config_def pick_def file_viper_def)
qed

lemma isDaemonBeingRun_iff:
  "isDaemonBeingRun args \<longleftrightarrow> (\<exists>fs rest. args = fs @ ''daemon'' # rest \<and> list_all (\<lambda>f. has_prefix f ''-'') fs)"
proof (induction args)
  case Nil
  then show ?case by (simp add: isDaemonBeingRun_def)
next
  case (Cons a args)
  show ?case
  proof (cases "has_prefix a ''-''")
    case True
    then have "isDaemonBeingRun (a # args) = isDaemonBeingRun args" by (simp add: isDaemonBeingRun_def)
    moreover have "a \<noteq> ''daemon''" using True by (auto simp: has_prefix_def)
    ultimately show ?thesis using True
      by (auto simp: Cons.IH Cons_eq_append_conv) (metis append_Cons list.pred_inject(2))
  next
    case False
    then show ?thesis
      by (auto simp: isDaemonBeingRun_def Cons_eq_append_conv)
  qed
qed

text \<open>The command counts as the daemon exactly when only flags come before the word daemon. Then the flag
  for the level of the logs has no effect: whatever viper has for it, the daemon logs as its own section
  says. A flag with its value as a word of its own before the command hides it: the daemon is then set up to
  log as the other commands do.\<close>
theorem root_logging:
  assumes range: "\<forall>key. - (2 ^ 63) \<le> vp_int v key \<and> vp_int v key < 2 ^ 63"
    "\<forall>key. - (2 ^ 63) \<le> vp_int w key \<and> vp_int w key < 2 ^ 63"
    and agree: "agree_on (- {''logging.global_level''}) v w"
  shows "(isDaemonBeingRun args \<longleftrightarrow> (\<exists>fs rest. args = fs @ ''daemon'' # rest \<and> list_all (\<lambda>f. has_prefix f ''-'') fs)) \<and>
    (isDaemonBeingRun args \<longrightarrow>
       snd (initializeConfig home args file lookup v m) = snd (initializeConfig home args file lookup w m)) \<and>
    (\<not> has_prefix port ''-'' \<and> port \<noteq> ''daemon'' \<longrightarrow>
       gc_sinks (snd (initializeConfig home (''--port'' # port # ''daemon'' # rest) file lookup v m)) =
         gc_sinks DefaultLoggingConfig)"
proof -
  have logging: "snd (initializeConfig home as file lookup vp m) =
      (if isDaemonBeingRun as then dc_logging (cg_daemon (effective_config home vp))
       else cg_logging (effective_config home vp))"
    if "\<forall>key. - (2 ^ 63) \<le> vp_int vp key \<and> vp_int vp key < 2 ^ 63" for as vp
    using Manager_Get_effective [OF that, of home "snd (Manager_Initialize home file m)"]
    by (auto simp: initializeConfig_def Let_def split: prod.split)
  have "dc_logging (cg_daemon (effective_config home v)) = dc_logging (cg_daemon (effective_config home w))"
    using agree by (simp add: effective_config_def effective_logging_def pick_def agree_on_def)
  moreover have "\<not> isDaemonBeingRun (''--port'' # port # ''daemon'' # rest)"
    if "\<not> has_prefix port ''-''" "port \<noteq> ''daemon''"
    using that by (simp add: isDaemonBeingRun_def has_prefix_def)
  moreover have "gc_sinks (cg_logging (effective_config home v)) = gc_sinks DefaultLoggingConfig"
    by (simp add: effective_config_def effective_logging_def)
  ultimately show ?thesis
    using isDaemonBeingRun_iff [of args] by (simp add: logging [OF range(1)] logging [OF range(2)])
qed

theorem root_logging_witness:
  "snd (initializeConfig ''/home/u'' [''-v'', ''daemon''] '''' (\<lambda>_. True)
      (file_viper\<lparr>vp_is_set := \<lambda>k. k = ''logging.global_level'', vp_string := \<lambda>k. if k = ''logging.global_level'' then ''error'' else ''''\<rparr>) NewConfigManager) =
   snd (initializeConfig ''/home/u'' [''-v'', ''daemon''] '''' (\<lambda>_. True)
      (file_viper\<lparr>vp_is_set := \<lambda>k. False\<rparr>) NewConfigManager)"
proof -
  let ?v = "file_viper\<lparr>vp_is_set := \<lambda>k. k = ''logging.global_level'',
    vp_string := \<lambda>k. if k = ''logging.global_level'' then ''error'' else ''''\<rparr>"
  let ?w = "file_viper\<lparr>vp_is_set := \<lambda>k. False\<rparr>"
  have r: "\<forall>key. - (2 ^ 63) \<le> vp_int ?v key \<and> vp_int ?v key < 2 ^ 63"
    "\<forall>key. - (2 ^ 63) \<le> vp_int ?w key \<and> vp_int ?w key < 2 ^ 63"
    "agree_on (- {''logging.global_level''}) ?v ?w"
    by (simp_all add: file_viper_def agree_on_def)
  have "isDaemonBeingRun [''-v'', ''daemon'']" by (simp add: isDaemonBeingRun_def has_prefix_def)
  with root_logging [OF r, of "[''-v'', ''daemon'']" "''/home/u''" "''''" "\<lambda>_. True" NewConfigManager] show ?thesis
    by blast
qed

section \<open>Any configuration struct\<close>

lemma bind_populated:
  fixes vp :: "'f Viper" and fs :: "(StructField \<times> ('f, 'o) go_value) list" and x :: "('f, 'o) go_value"
  shows "bind_fields pre (populate_fields vp pre fs) = bind_fields pre fs"
    and "bind_field key (populate_field vp key x) = bind_field key x"
  by (induction pre fs and key x rule: bind_fields_bind_field.induct) simp_all

text \<open>For any struct, not only the one the program has: the values are read at exactly the keys bound to the
  environment, so nothing else viper knows changes the result; reading keeps what is bound; and reading
  again changes nothing.\<close>
theorem reflection_reads_bound:
  fixes vp wp :: "'f Viper" and x :: "('f, 'o) go_value"
  assumes "agree_on (fst ` set (bindStructToViper pre x)) vp wp"
  shows "populateStructFromViper vp pre x = populateStructFromViper wp pre x \<and>
    bindStructToViper pre (populateStructFromViper vp pre x) = bindStructToViper pre x \<and>
    populateStructFromViper vp pre (populateStructFromViper vp pre x) = populateStructFromViper vp pre x"
  using assms
proof (cases "(pre, x)" rule: bindStructToViper.cases)
  case (1 p b fs)
  then show ?thesis using assms populate_field_agrees(1) [of pre fs vp wp] populate_field_idem(1) [of vp pre fs]
    by (simp add: bind_populated)
next
  case (2 p fs)
  then show ?thesis using assms populate_field_agrees(1) [of pre fs vp wp] populate_field_idem(1) [of vp pre fs]
    by (simp add: bind_populated)
qed simp_all

theorem reflection_reads_bound_witness:
  "populateStructFromViper file_viper '''' (cache_value DefaultCacheConfig) =
   populateStructFromViper (file_viper\<lparr>vp_is_set := \<lambda>_. False\<rparr>) '''' (cache_value DefaultCacheConfig)"
proof -
  have "agree_on (fst ` set (bindStructToViper '''' (cache_value DefaultCacheConfig)))
      file_viper (file_viper\<lparr>vp_is_set := \<lambda>_. False\<rparr>)"
    by (simp add: agree_on_def file_viper_def cache_value_def tagged_def full_key_def getKeyName_tagged)
  from reflection_reads_bound [OF this] show ?thesis by blast
qed

section \<open>Showing the configuration\<close>

definition show_bool :: "bool \<Rightarrow> string" where
  "show_bool b = (if b then ''true'' else ''false'')"

text \<open>A slice of strings as the verb v prints it.\<close>

definition show_strings :: "string list \<Rightarrow> string" where
  "show_strings ss = ''['' @ join_with '' '' ss @ '']''"

abbreviation nl :: string where "nl \<equiv> [CHR 10]"

definition show_sink :: "SinkConfig \<Rightarrow> string" where
  "show_sink s = ''    - '' @ sc_name s @ '' ('' @ sc_type s @ '', level: '' @ sc_level s @ '')'' @ nl"

definition show_logger :: "LoggerConfig \<Rightarrow> string" where
  "show_logger l = ''    - '' @ lc_name l @ '' (level: '' @ lc_level l @ '', sinks: '' @ show_strings (lc_sinks l) @ '')'' @ nl"

definition ShowConfig :: "Config \<Rightarrow> string" where
  "ShowConfig cfg =
     ''Effective Configuration:'' @ nl @
     ''======================'' @ nl @
     ''Daemon:'' @ nl @
     ''  Host: '' @ dc_host (cg_daemon cfg) @ nl @
     ''  Port: '' @ format_int (dc_port (cg_daemon cfg)) @ nl @
     ''  Max Concurrent Jobs: '' @ format_int (dc_max_concurrent_jobs (cg_daemon cfg)) @ nl @
     ''  Max RAM: '' @ format_int (dc_max_ram_mb (cg_daemon cfg)) @ '' MB'' @ nl @
     ''  Enable mDNS: '' @ show_bool (dc_enable_mdns (cg_daemon cfg)) @ nl @
     nl @ ''Logging:'' @ nl @
     ''  Global Level: '' @ gc_global_level (cg_logging cfg) @ nl @
     ''  Sinks: '' @ format_nat (length (gc_sinks (cg_logging cfg))) @ nl @
     concat (map show_sink (gc_sinks (cg_logging cfg))) @
     ''  Loggers: '' @ format_nat (length (gc_loggers (cg_logging cfg))) @ nl @
     concat (map show_logger (gc_loggers (cg_logging cfg))) @
     nl @ ''Cache:'' @ nl @
     ''  Directory: '' @ ca_dir (cg_cache cfg) @ nl @
     ''  Max Size: '' @ format_int (ca_max_size_gb (cg_cache cfg)) @ '' GB'' @ nl @
     ''  Retention: '' @ format_int (ca_retention_days (cg_cache cfg)) @ '' days'' @ nl @
     nl @ ''Peer Discovery:'' @ nl @
     ''  Enabled: '' @ show_bool (pd_enabled (cg_peer_discovery cfg)) @ nl @
     ''  mDNS Interval: '' @ format_int (pd_mdns_interval_secs (cg_peer_discovery cfg)) @ '' seconds'' @ nl"

text \<open>The same on the standard output, written line by line; viper names the file it has read.\<close>

fun print_sinks :: "SinkConfig list \<Rightarrow> string \<Rightarrow> string" where
  "print_sinks [] out = out"
| "print_sinks (s # ss) out =
     print_sinks ss (out @ ''    - '' @ sc_name s @ '' ('' @ sc_type s @ '', level: '' @ sc_level s @ '')'' @ nl)"

fun print_loggers :: "LoggerConfig list \<Rightarrow> string \<Rightarrow> string" where
  "print_loggers [] out = out"
| "print_loggers (l # ls) out =
     print_loggers ls (out @ ''    - '' @ lc_name l @ '' (level: '' @ lc_level l @ '', sinks: '' @
       show_strings (lc_sinks l) @ '')'' @ nl)"

definition PrintConfigSummary :: "Config \<Rightarrow> string \<Rightarrow> string" where
  "PrintConfigSummary cfg configFileUsed =
     (let d = cg_daemon cfg;
          out = ''Effective Configuration:'' @ nl @ ''======================'' @ nl;
          out = out @ ''Daemon:'' @ nl;
          out = out @ ''  Host: '' @ dc_host d @ nl;
          out = out @ ''  Port: '' @ format_int (dc_port d) @ nl;
          out = out @ ''  Max Concurrent Jobs: '' @ format_int (dc_max_concurrent_jobs d) @ nl;
          out = out @ ''  Max RAM: '' @ format_int (dc_max_ram_mb d) @ '' MB'' @ nl;
          out = out @ ''  Enable mDNS: '' @ show_bool (dc_enable_mdns d) @ nl;
          out = out @ nl @ ''Logging:'' @ nl;
          out = out @ ''  Global Level: '' @ gc_global_level (cg_logging cfg) @ nl;
          out = out @ ''  Sinks: '' @ format_nat (length (gc_sinks (cg_logging cfg))) @ nl;
          out = print_sinks (gc_sinks (cg_logging cfg)) out;
          out = out @ ''  Loggers: '' @ format_nat (length (gc_loggers (cg_logging cfg))) @ nl;
          out = print_loggers (gc_loggers (cg_logging cfg)) out;
          out = out @ nl @ ''Cache:'' @ nl;
          out = out @ ''  Directory: '' @ ca_dir (cg_cache cfg) @ nl;
          out = out @ ''  Max Size: '' @ format_int (ca_max_size_gb (cg_cache cfg)) @ '' GB'' @ nl;
          out = out @ ''  Retention: '' @ format_int (ca_retention_days (cg_cache cfg)) @ '' days'' @ nl;
          out = out @ nl @ ''Peer Discovery:'' @ nl;
          out = out @ ''  Enabled: '' @ show_bool (pd_enabled (cg_peer_discovery cfg)) @ nl;
          out = out @ ''  mDNS Interval: '' @ format_int (pd_mdns_interval_secs (cg_peer_discovery cfg)) @ '' seconds'' @ nl
      in if configFileUsed \<noteq> '''' then out @ nl @ ''Config file used: '' @ configFileUsed @ nl else out)"

lemma print_sinks_eq: "print_sinks ss out = out @ concat (map show_sink ss)"
  by (induction ss arbitrary: out) (simp_all add: show_sink_def)

lemma print_loggers_eq: "print_loggers ls out = out @ concat (map show_logger ls)"
  by (induction ls arbitrary: out) (simp_all add: show_logger_def)

text \<open>The two ways to show the configuration print the same text, but for the name of the file.\<close>
theorem summaries_agree:
  "PrintConfigSummary cfg file =
     ShowConfig cfg @ (if file \<noteq> '''' then nl @ ''Config file used: '' @ file @ nl else '''')"
  by (simp add: PrintConfigSummary_def ShowConfig_def print_sinks_eq print_loggers_eq Let_def)

end
