(* ===== verification/Client.thy ===== *)
theory Client
  imports DaemonMain ConfigBind LogService
begin

text \<open>
  The command line client (pkg/cli and cmd/buildozer-client/cmd): the logging commands and the levels
  they read, the daemon command with its several daemons, and what is shown of runtimes, peers and the
  queue. The parsing of the command line by cobra, and the RPC transport, are not modelled: a command is its
  arguments, and the logging commands act on the registry of the daemon through the remote manager. What is
  printed is a string of bytes.
\<close>

section \<open>Levels\<close>

definition stringToSlogLevel :: "string \<Rightarrow> Level option" where
  "stringToSlogLevel s =
     (if s = ''error'' \<or> s = ''ERROR'' then Some LevelError
      else if s = ''warn'' \<or> s = ''warning'' \<or> s = ''WARN'' \<or> s = ''WARNING'' then Some LevelWarn
      else if s = ''info'' \<or> s = ''INFO'' then Some LevelInfo
      else if s = ''debug'' \<or> s = ''DEBUG'' then Some LevelDebug
      else if s = ''trace'' \<or> s = ''TRACE'' then Some LevelTrace
      else None)"

definition cmd_parseLevel :: "string \<Rightarrow> Level option" where
  "cmd_parseLevel levelStr =
     (let s = ToLower levelStr in
      if s = ''error'' then Some LevelError
      else if s = ''warn'' \<or> s = ''warning'' then Some LevelWarn
      else if s = ''info'' then Some LevelInfo
      else if s = ''debug'' then Some LevelDebug
      else if s = ''trace'' then Some LevelTrace
      else None)"

fun collect_levels :: "string list \<Rightarrow> Level list" where
  "collect_levels [] = []"
| "collect_levels (part # parts) =
     (case stringToSlogLevel (TrimSpace part) of
        Some level \<Rightarrow> level # collect_levels parts
      | None \<Rightarrow> collect_levels parts)"

definition ParseLogLevels :: "string \<Rightarrow> Level list" where
  "ParseLogLevels levelStr = (if levelStr = '''' then [] else collect_levels (split_on (CHR '','') levelStr))"

lemma lower_letters:
  "to_lower_char (CHR ''A'') = CHR ''a''" "to_lower_char (CHR ''B'') = CHR ''b''"
  "to_lower_char (CHR ''C'') = CHR ''c''" "to_lower_char (CHR ''D'') = CHR ''d''"
  "to_lower_char (CHR ''E'') = CHR ''e''" "to_lower_char (CHR ''F'') = CHR ''f''"
  "to_lower_char (CHR ''G'') = CHR ''g''" "to_lower_char (CHR ''I'') = CHR ''i''"
  "to_lower_char (CHR ''N'') = CHR ''n''" "to_lower_char (CHR ''O'') = CHR ''o''"
  "to_lower_char (CHR ''R'') = CHR ''r''" "to_lower_char (CHR ''T'') = CHR ''t''"
  "to_lower_char (CHR ''U'') = CHR ''u''" "to_lower_char (CHR ''W'') = CHR ''w''"
  "to_lower_char (CHR ''a'') = CHR ''a''" "to_lower_char (CHR ''b'') = CHR ''b''"
  "to_lower_char (CHR ''c'') = CHR ''c''" "to_lower_char (CHR ''d'') = CHR ''d''"
  "to_lower_char (CHR ''e'') = CHR ''e''" "to_lower_char (CHR ''f'') = CHR ''f''"
  "to_lower_char (CHR ''g'') = CHR ''g''" "to_lower_char (CHR ''i'') = CHR ''i''"
  "to_lower_char (CHR ''n'') = CHR ''n''" "to_lower_char (CHR ''o'') = CHR ''o''"
  "to_lower_char (CHR ''r'') = CHR ''r''" "to_lower_char (CHR ''t'') = CHR ''t''"
  "to_lower_char (CHR ''u'') = CHR ''u''" "to_lower_char (CHR ''w'') = CHR ''w''"
  by code_simp+

lemma lower_words:
  "ToLower ''error'' = ''error''"
  "ToLower ''ERROR'' = ''error''"
  "ToLower ''warn'' = ''warn''"
  "ToLower ''WARN'' = ''warn''"
  "ToLower ''warning'' = ''warning''"
  "ToLower ''WARNING'' = ''warning''"
  "ToLower ''info'' = ''info''"
  "ToLower ''INFO'' = ''info''"
  "ToLower ''debug'' = ''debug''"
  "ToLower ''DEBUG'' = ''debug''"
  "ToLower ''trace'' = ''trace''"
  "ToLower ''TRACE'' = ''trace''"
  by (simp_all add: ToLower_def lower_letters)

text \<open>The two readers of a level agree where the first accepts, and the second also takes mixed case.\<close>
lemma levels_agree:
  assumes "stringToSlogLevel s = Some l"
  shows "cmd_parseLevel s = Some l \<and> named_level l"
proof -
  have "s \<in> {''error'', ''ERROR'', ''warn'', ''warning'', ''WARN'', ''WARNING'', ''info'', ''INFO'', ''debug'', ''DEBUG'',
      ''trace'', ''TRACE''}"
    by (rule ccontr) (use assms in \<open>simp add: stringToSlogLevel_def\<close>)
  then show ?thesis
    using assms by (elim insertE emptyE) (simp_all add: stringToSlogLevel_def cmd_parseLevel_def lower_words named_level_def)
qed

lemma mixed_case: "cmd_parseLevel ''Error'' = Some LevelError" "stringToSlogLevel ''Error'' = None"
  by (simp_all add: stringToSlogLevel_def cmd_parseLevel_def ToLower_def lower_letters)

lemma parseLevel_named: "cmd_parseLevel s = Some l \<Longrightarrow> named_level l"
  by (auto simp: cmd_parseLevel_def named_level_def Let_def split: if_splits)

section \<open>The logging commands\<close>

datatype logs_error = UnknownCommand string | WrongArgs | InvalidLogLevel string | ManagerFailed manager_error

text \<open>The methods of LoggingCommands, as the operation they ask of the manager, or the level they refuse.\<close>

definition with_level :: "(string \<Rightarrow> Level option) \<Rightarrow> string \<Rightarrow> (Level \<Rightarrow> ConfigOp) \<Rightarrow> logs_error + ConfigOp" where
  "with_level parse s f = (case parse s of None \<Rightarrow> Err (InvalidLogLevel s) | Some l \<Rightarrow> Ok (f l))"

definition cli_SetGlobalLevel :: "string \<Rightarrow> logs_error + ConfigOp" where
  "cli_SetGlobalLevel levelStr = with_level stringToSlogLevel levelStr SetGlobalLevelOp"

definition cli_SetLoggerLevel :: "string \<Rightarrow> string \<Rightarrow> logs_error + ConfigOp" where
  "cli_SetLoggerLevel loggerName levelStr = with_level stringToSlogLevel levelStr (SetLoggerLevelOp loggerName)"

definition cli_SetSinkLevel :: "string \<Rightarrow> string \<Rightarrow> logs_error + ConfigOp" where
  "cli_SetSinkLevel sinkName levelStr = with_level stringToSlogLevel levelStr (SetSinkLevelOp sinkName)"

definition cli_EnableFileSink :: "string \<Rightarrow> string \<Rightarrow> int \<Rightarrow> int \<Rightarrow> int \<Rightarrow> logs_error + ConfigOp" where
  "cli_EnableFileSink loggerName filePath maxSizeMB maxBackups maxAgeDays =
     Ok (EnableFileSinkOp loggerName filePath maxSizeMB maxBackups maxAgeDays)"

definition cli_DisableFileSink :: "string \<Rightarrow> logs_error + ConfigOp" where
  "cli_DisableFileSink loggerName = Ok (DisableFileSinkOp loggerName)"

definition cli_AddSink :: "string \<Rightarrow> string \<Rightarrow> Level \<Rightarrow> logs_error + ConfigOp" where
  "cli_AddSink sinkName sinkType level = Ok (AddSinkOp sinkName sinkType level)"

definition cli_RemoveSink :: "string \<Rightarrow> logs_error + ConfigOp" where
  "cli_RemoveSink sinkName = Ok (RemoveSinkOp sinkName)"

definition cli_AddLogger :: "string \<Rightarrow> Level \<Rightarrow> string list \<Rightarrow> logs_error + ConfigOp" where
  "cli_AddLogger loggerName level sinkNames = Ok (AddLoggerOp loggerName level sinkNames)"

definition cli_RemoveLogger :: "string \<Rightarrow> logs_error + ConfigOp" where
  "cli_RemoveLogger loggerName = Ok (RemoveLoggerOp loggerName)"

definition cli_AttachSink :: "string \<Rightarrow> string \<Rightarrow> logs_error + ConfigOp" where
  "cli_AttachSink loggerName sinkName = Ok (AttachSinkOp loggerName sinkName)"

definition cli_DetachSink :: "string \<Rightarrow> string \<Rightarrow> logs_error + ConfigOp" where
  "cli_DetachSink loggerName sinkName = Ok (DetachSinkOp loggerName sinkName)"

text \<open>The subcommands of logs that change the configuration, on their arguments and flags.\<close>

record logs_flags =
  lf_max_size :: int
  lf_max_backups :: int
  lf_max_age :: int
  lf_sinks :: string
  lf_level :: string

definition default_logs_flags :: logs_flags where
  "default_logs_flags = \<lparr>lf_max_size = 100, lf_max_backups = 10, lf_max_age = 0, lf_sinks = '''', lf_level = ''info''\<rparr>"

definition exact_args :: "nat \<Rightarrow> string list \<Rightarrow> (logs_error + ConfigOp) \<Rightarrow> logs_error + ConfigOp" where
  "exact_args n args res = (if length args = n then res else Err WrongArgs)"

definition newLogsSetGlobalLevelCommand :: "string list \<Rightarrow> logs_error + ConfigOp" where
  "newLogsSetGlobalLevelCommand args = exact_args 1 args (cli_SetGlobalLevel (args ! 0))"

definition newLogsSetLoggerLevelCommand :: "string list \<Rightarrow> logs_error + ConfigOp" where
  "newLogsSetLoggerLevelCommand args = exact_args 2 args (cli_SetLoggerLevel (args ! 0) (args ! 1))"

definition newLogsSetSinkLevelCommand :: "string list \<Rightarrow> logs_error + ConfigOp" where
  "newLogsSetSinkLevelCommand args = exact_args 2 args (cli_SetSinkLevel (args ! 0) (args ! 1))"

definition newLogsEnableFileSinkCommand :: "logs_flags \<Rightarrow> string list \<Rightarrow> logs_error + ConfigOp" where
  "newLogsEnableFileSinkCommand fl args = exact_args 2 args
     (cli_EnableFileSink (args ! 0) (args ! 1) (lf_max_size fl) (lf_max_backups fl) (lf_max_age fl))"

definition newLogsDisableFileSinkCommand :: "string list \<Rightarrow> logs_error + ConfigOp" where
  "newLogsDisableFileSinkCommand args = exact_args 1 args (cli_DisableFileSink (args ! 0))"

definition newLogsAddSinkCommand :: "string list \<Rightarrow> logs_error + ConfigOp" where
  "newLogsAddSinkCommand args = exact_args 1 args
     (let sinkType = args ! 0; sinkName = sinkType in cli_AddSink sinkName sinkType LevelInfo)"

definition newLogsRemoveSinkCommand :: "string list \<Rightarrow> logs_error + ConfigOp" where
  "newLogsRemoveSinkCommand args = exact_args 1 args (cli_RemoveSink (args ! 0))"

definition newLogsAddLoggerCommand :: "logs_flags \<Rightarrow> string list \<Rightarrow> logs_error + ConfigOp" where
  "newLogsAddLoggerCommand fl args = exact_args 1 args
     (case cmd_parseLevel (lf_level fl) of
        None \<Rightarrow> Err (InvalidLogLevel (lf_level fl))
      | Some logLevel \<Rightarrow>
          (let sinkList = (if lf_sinks fl \<noteq> '''' then map TrimSpace (split_on (CHR '','') (lf_sinks fl)) else [])
           in cli_AddLogger (args ! 0) logLevel sinkList))"

definition newLogsRemoveLoggerCommand :: "string list \<Rightarrow> logs_error + ConfigOp" where
  "newLogsRemoveLoggerCommand args = exact_args 1 args (cli_RemoveLogger (args ! 0))"

definition newLogsAttachSinkCommand :: "string list \<Rightarrow> logs_error + ConfigOp" where
  "newLogsAttachSinkCommand args = exact_args 2 args (cli_AttachSink (args ! 0) (args ! 1))"

definition newLogsDetachSinkCommand :: "string list \<Rightarrow> logs_error + ConfigOp" where
  "newLogsDetachSinkCommand args = exact_args 2 args (cli_DetachSink (args ! 0) (args ! 1))"

definition NewLogsCommand :: "string \<Rightarrow> logs_flags \<Rightarrow> string list \<Rightarrow> logs_error + ConfigOp" where
  "NewLogsCommand name fl args =
     (if name = ''set-global-level'' then newLogsSetGlobalLevelCommand args
      else if name = ''set-logger-level'' then newLogsSetLoggerLevelCommand args
      else if name = ''set-sink-level'' then newLogsSetSinkLevelCommand args
      else if name = ''enable-file-sink'' then newLogsEnableFileSinkCommand fl args
      else if name = ''disable-file-sink'' then newLogsDisableFileSinkCommand args
      else if name = ''add-sink'' then newLogsAddSinkCommand args
      else if name = ''remove-sink'' then newLogsRemoveSinkCommand args
      else if name = ''add-logger'' then newLogsAddLoggerCommand fl args
      else if name = ''remove-logger'' then newLogsRemoveLoggerCommand args
      else if name = ''attach-sink'' then newLogsAttachSinkCommand args
      else if name = ''detach-sink'' then newLogsDetachSinkCommand args
      else Err (UnknownCommand name))"

lemmas cli_commands = newLogsSetGlobalLevelCommand_def newLogsSetLoggerLevelCommand_def newLogsSetSinkLevelCommand_def
  newLogsEnableFileSinkCommand_def newLogsDisableFileSinkCommand_def newLogsAddSinkCommand_def
  newLogsRemoveSinkCommand_def newLogsAddLoggerCommand_def newLogsRemoveLoggerCommand_def
  newLogsAttachSinkCommand_def newLogsDetachSinkCommand_def exact_args_def

lemmas cli_methods = cli_SetGlobalLevel_def cli_SetLoggerLevel_def cli_SetSinkLevel_def cli_EnableFileSink_def
  cli_DisableFileSink_def cli_AddSink_def cli_RemoveSink_def cli_AddLogger_def cli_RemoveLogger_def
  cli_AttachSink_def cli_DetachSink_def with_level_def

text \<open>Running a command with a manager. The client always makes a remote one, for the daemon with the
  registry \<open>r\<close>.\<close>

definition run_with ::
  "(ConfigOp \<Rightarrow> LogRegistry \<Rightarrow> manager_error option call \<times> LogRegistry) \<Rightarrow> logs_error + ConfigOp \<Rightarrow> LogRegistry
    \<Rightarrow> logs_error option call \<times> LogRegistry" where
  "run_with manager c r =
     (case c of
        Inl e \<Rightarrow> (Returned (Some e), r)
      | Inr op \<Rightarrow>
          (case manager op r of
             (Blocked, r') \<Rightarrow> (Blocked, r')
           | (Returned e, r') \<Rightarrow> (Returned (map_option ManagerFailed e), r')))"

definition run_logs ::
  "(string \<Rightarrow> bool) \<Rightarrow> bool \<Rightarrow> string \<Rightarrow> logs_flags \<Rightarrow> string list \<Rightarrow> LogRegistry \<Rightarrow> logs_error option call \<times> LogRegistry" where
  "run_logs mk own name fl args = run_with (remote_manager_exec mk own) (NewLogsCommand name fl args)"

definition succeeded :: "'e option call \<times> 's \<Rightarrow> bool" where
  "succeeded res = (fst res = Returned None)"

text \<open>The commands for one level, and the sink types the protocol takes for another one.\<close>

definition level_command :: "string \<Rightarrow> bool" where
  "level_command name = (name = ''set-logger-level'' \<or> name = ''set-sink-level'')"

definition odd_sink :: "string \<Rightarrow> string list \<Rightarrow> bool" where
  "odd_sink name args = (name = ''add-sink'' \<and> set args \<inter> {''text'', ''json'', ''json-stderr''} \<noteq> {})"

lemma command_carried:
  "NewLogsCommand name fl args = Ok op \<Longrightarrow> \<not> level_command name \<Longrightarrow> \<not> odd_sink name args \<Longrightarrow> carried op"
  unfolding NewLogsCommand_def level_command_def
  by (simp split: if_splits)
     (auto simp: cli_commands cli_methods odd_sink_def named_level_def length_Suc_conv
       dest: levels_agree parseLevel_named split: if_splits option.splits)

lemma level_command_op:
  "level_command name \<Longrightarrow> NewLogsCommand name fl args = Ok op \<Longrightarrow>
     \<exists>n l. op = SetLoggerLevelOp n l \<or> op = SetSinkLevelOp n l"
  by (auto simp: level_command_def NewLogsCommand_def cli_commands cli_methods split: if_splits option.splits)

lemma run_with_same:
  assumes "\<And>op. c = Ok op \<Longrightarrow> same_outcome (m op r) (m' op r)"
  shows "snd (run_with m c r) = snd (run_with m' c r) \<and> succeeded (run_with m c r) = succeeded (run_with m' c r) \<and>
    (fst (run_with m c r) = Blocked) = (fst (run_with m' c r) = Blocked)"
proof (cases c)
  case (Inr op)
  with assms [of op] show ?thesis
    by (cases "m op r"; cases "m' op r")
       (auto simp: run_with_def same_outcome_def succeeded_def split: call.splits)
qed (simp add: run_with_def)



section \<open>Several daemons\<close>

text \<open>The answers of the system to the listens at port 0, in order: the port it gave, or None for an error.
  The listeners stay open until the function returns. None means that it is still asking when they are over.\<close>

datatype commands_error = StandaloneMode | BadCount int | DaemonPanic | NoFreePorts

fun find_ports :: "nat \<Rightarrow> int option list \<Rightarrow> int list \<Rightarrow> (commands_error + int list) option" where
  "find_ports n answers ports =
     (if n \<le> length ports then Some (Ok ports)
      else case answers of
        [] \<Rightarrow> None
      | None # _ \<Rightarrow> Some (Err NoFreePorts)
      | Some port # rest \<Rightarrow> find_ports n rest (if port \<notin> set ports then ports @ [port] else ports))"

declare find_ports.simps [simp del]

definition findFreeRandomPorts :: "int option list \<Rightarrow> nat \<Rightarrow> (commands_error + int list) option" where
  "findFreeRandomPorts answers n = find_ports n answers []"

fun new_daemons :: "(DaemonConfig \<Rightarrow> 'e Daemon option) \<Rightarrow> DaemonConfig \<Rightarrow> int list \<Rightarrow> commands_error + 'e Daemon list" where
  "new_daemons mk base [] = Ok []"
| "new_daemons mk base (port # ports) =
     (case mk (base\<lparr>dc_port := port\<rparr>) of
        None \<Rightarrow> Err DaemonPanic
      | Some d \<Rightarrow> (case new_daemons mk base ports of Inl e \<Rightarrow> Err e | Inr ds \<Rightarrow> Ok (d # ds)))"

text \<open>A daemon is made by \<open>mk\<close>, which is NewDaemon on this machine.\<close>

definition NewDaemonCommands ::
  "(DaemonConfig \<Rightarrow> 'e Daemon option) \<Rightarrow> int option list \<Rightarrow> Config \<Rightarrow> int
    \<Rightarrow> (commands_error + 'e Daemon list) option" where
  "NewDaemonCommands mk answers cfg n =
     (if cg_standalone cfg then Some (Err StandaloneMode)
      else if n < 1 then Some (Err (BadCount n))
      else case mk (cg_daemon cfg) of
        None \<Rightarrow> Some (Err DaemonPanic)
      | Some d \<Rightarrow>
          if n > 1 then
            (case findFreeRandomPorts answers (nat (n - 1)) of
               None \<Rightarrow> None
             | Some (Inl e) \<Rightarrow> Some (Err e)
             | Some (Inr ports) \<Rightarrow> Some (case new_daemons mk (cg_daemon cfg) ports of
                 Inl e \<Rightarrow> Err e | Inr ds \<Rightarrow> Ok (d # ds)))
          else Some (Ok [d]))"

text \<open>Start, given what the concurrent starts and stops of the daemons return and the order in which their
  errors reach the channel: the process exits at the first error with the daemons as they are, or runs until
  a signal and stops them all, returning the first error of that.\<close>

datatype 'e commands_outcome =
  ExitedWith lifecycle_error "'e Daemon list"
| ShutDown "lifecycle_error option" "'e Daemon list"

definition reported_errors :: "(lifecycle_error option \<times> 'e Daemon) list \<Rightarrow> lifecycle_error list" where
  "reported_errors rs = List.map_filter fst rs"

definition DaemonCommands_Start ::
  "('e Daemon \<Rightarrow> (lifecycle_error option \<times> 'e Daemon) option) \<Rightarrow> ('e Daemon \<Rightarrow> (lifecycle_error option \<times> 'e Daemon) option)
    \<Rightarrow> (lifecycle_error list \<Rightarrow> lifecycle_error list) \<Rightarrow> 'e Daemon list \<Rightarrow> 'e commands_outcome option" where
  "DaemonCommands_Start start stop arrival ds =
     (case those (map start ds) of
        None \<Rightarrow> None
      | Some started \<Rightarrow>
          (case arrival (reported_errors started) of
             e # _ \<Rightarrow> Some (ExitedWith e (map snd started))
           | [] \<Rightarrow>
               (case those (map stop (map snd started)) of
                  None \<Rightarrow> None
                | Some stopped \<Rightarrow> Some (ShutDown
                    (case arrival (reported_errors stopped) of e # _ \<Rightarrow> Some e | [] \<Rightarrow> None) (map snd stopped)))))"

lemma find_ports_run:
  "find_ports n answers ports = Some (Ok ps) \<Longrightarrow> distinct ports \<Longrightarrow> length ports \<le> n \<Longrightarrow>
     distinct ps \<and> length ps = n \<and> set ps \<subseteq> set ports \<union> {p. Some p \<in> set answers}"
proof (induction n answers ports rule: find_ports.induct)
  case (1 n answers ports)
  show ?case
  proof (cases "n \<le> length ports")
    case True
    with 1(2-) show ?thesis by (simp add: find_ports.simps [of n])
  next
    case False
    then obtain port rest where a: "answers = Some port # rest"
      using 1(2) by (auto simp: find_ports.simps [of n] split: list.splits option.splits)
    with 1(2) False have "find_ports n rest (if port \<notin> set ports then ports @ [port] else ports) = Some (Ok ps)"
      by (simp add: find_ports.simps [of n "Some port # rest"])
    from 1(1) [OF False a refl this] 1(3) False a show ?thesis by (cases \<open>port \<in> set ports\<close>) auto
  qed
qed

text \<open>As the listeners are open, the system never gives a port twice, and then as many answers are enough.\<close>
lemma find_ports_total:
  "distinct ports \<Longrightarrow> distinct answers \<Longrightarrow> None \<notin> set answers \<Longrightarrow> \<forall>p\<in>set ports. Some p \<notin> set answers \<Longrightarrow>
     n \<le> length ports + length answers \<Longrightarrow> length ports \<le> n \<Longrightarrow>
     find_ports n answers ports = Some (Ok (ports @ map the (take (n - length ports) answers)))"
proof (induction n answers ports rule: find_ports.induct)
  case (1 n answers ports)
  show ?case
  proof (cases "n \<le> length ports")
    case True
    with 1(7) show ?thesis by (simp add: find_ports.simps [of n])
  next
    case False
    then obtain a rest where a': "answers = a # rest" using 1(6) by (cases answers) auto
    then obtain port where a: "answers = Some port # rest" using 1(4) by (cases a) auto
    have fresh: "port \<notin> set ports" using 1(5) a by auto
    have "find_ports n rest (ports @ [port]) =
        Some (Ok ((ports @ [port]) @ map the (take (n - length (ports @ [port])) rest)))"
      using 1(1) [OF False a refl] fresh 1(2-7) a False by auto
    moreover have "take (n - length ports) (Some port # rest) = Some port # take (n - length (ports @ [port])) rest"
      using False by (simp add: Suc_diff_Suc [symmetric] not_le)
    ultimately show ?thesis
      using False fresh by (simp add: a find_ports.simps [of n "Some port # rest"])
  qed
qed

lemma format_int_inj: "format_int i = format_int j \<longleftrightarrow> i = j"
proof
  have nat_eq: "m = n" if "format_nat m = format_nat n" for m n
    using arg_cong [OF that, of digits_val] by simp
  have sign: "format_nat m \<noteq> CHR ''-'' # cs" for m cs
    using format_nat_digits [of m] by (auto simp: is_digit_def)
  assume "format_int i = format_int j"
  then show "i = j"
    using sign [symmetric] by (auto simp: format_int_def sign split: if_splits dest!: nat_eq)
qed simp

lemma new_daemons_all:
  fixes mk :: "DaemonConfig \<Rightarrow> 'e Daemon option"
  assumes "\<And>c. \<exists>d. mk c = Some d \<and> dm_config d = c"
  shows "\<exists>ds. new_daemons mk base ports = Ok ds \<and> map Some ds = map mk (map (\<lambda>p. base\<lparr>dc_port := p\<rparr>) ports)"
proof (induction ports)
  case (Cons p ports)
  then obtain ds where "new_daemons mk base ports = Ok ds"
    "map Some ds = map mk (map (\<lambda>p. base\<lparr>dc_port := p\<rparr>) ports)" by blast
  moreover obtain d where "mk (base\<lparr>dc_port := p\<rparr>) = Some d" using assms by blast
  ultimately show ?case by simp
qed simp

text \<open>C29. The daemon command with a count makes that many daemons, when the system gives the ports: the first
  with the configuration as it is, the others with it but for their ports, all different. They have
  different identifiers exactly when none of the free ports is the configured one, which nothing prevents,
  as the first daemon does not listen yet.\<close>
theorem many_daemons:
  fixes cfg :: Config and n :: int and hostname :: "string option" and localIP :: string and rm :: "unit ManagerIface"
  defines "base \<equiv> cg_daemon cfg" and "mk \<equiv> NewDaemon hostname localIP rm :: DaemonConfig \<Rightarrow> 'e Daemon option"
  assumes "\<not> cg_standalone cfg" and n: "1 \<le> n" and answers: "distinct answers" "None \<notin> set answers" "nat (n - 1) \<le> length answers"
  shows "\<exists>ds. NewDaemonCommands mk answers cfg n = Some (Ok ds) \<and>
    map dm_config ds = base # map (\<lambda>p. base\<lparr>dc_port := the p\<rparr>) (take (nat (n - 1)) answers) \<and>
    (distinct (map dm_id ds) \<longleftrightarrow> Some (dc_port base) \<notin> set (take (nat (n - 1)) answers))"
proof -
  let ?k = "nat (n - 1)"
  let ?ports = "map the (take ?k answers)" and ?cfg = "\<lambda>p. base\<lparr>dc_port := p\<rparr>"
  have total: "\<exists>d. mk c = Some d \<and> dm_config d = c" for c
    using NewDaemon_total NewDaemon_Some(2) unfolding mk_def by blast
  have found: "findFreeRandomPorts answers ?k = Some (Ok ?ports)"
    using find_ports_total [of "[]" answers ?k] answers by (simp add: findFreeRandomPorts_def)
  obtain ds where ds: "new_daemons mk base ?ports = Ok ds" "map Some ds = map mk (map ?cfg ?ports)"
    using new_daemons_all [of mk base ?ports, OF total] by blast
  obtain d where d: "mk base = Some d" using total by blast
  have made: "NewDaemonCommands mk answers cfg n = Some (Ok (d # ds))"
  proof (cases "n > 1")
    case True
    with assms(3) d ds found show ?thesis by (simp add: NewDaemonCommands_def base_def)
  next
    case False
    then have "ds = []" using ds n by simp
    with False n assms(3) d show ?thesis by (simp add: NewDaemonCommands_def base_def)
  qed
  have all: "map Some (d # ds) = map mk (base # map ?cfg ?ports)" using d ds by simp
  have one: "dm_config x = c \<and> dm_id x = host_port (getAdvertisedHost hostname localIP (dc_host c)) (dc_port c)"
    if "mk c = Some x" for c x
    using that NewDaemon_Some(1,2) [of hostname localIP rm c x] by (simp add: mk_def)
  have each: "map dm_config xs = cs \<and>
      map dm_id xs = map (\<lambda>c. host_port (getAdvertisedHost hostname localIP (dc_host c)) (dc_port c)) cs"
    if "map Some xs = map mk cs" for xs cs
    using that
  proof (induction xs arbitrary: cs)
    case (Cons x xs)
    then obtain c cs' where "cs = c # cs'" "mk c = Some x" "map Some xs = map mk cs'"
      by (auto simp: Cons_eq_map_conv)
    with Cons.IH [of cs'] one [of c x] show ?case by simp
  qed simp
  have c: "map dm_config (d # ds) = base # map ?cfg ?ports"
    and i: "map dm_id (d # ds) = map (\<lambda>c. host_port (getAdvertisedHost hostname localIP (dc_host c)) (dc_port c)) (base # map ?cfg ?ports)"
    using each [OF all] by blast+
  have "x = Some (the x)" if "x \<in> set (take ?k answers)" for x
    using answers(2) in_set_takeD [OF that] by (cases x) auto
  then have some_ports: "map Some ?ports = take ?k answers"
    by (simp only: map_map) (auto intro!: map_idI simp: o_def)
  have dist: "distinct ?ports"
    using distinct_take [OF answers(1), of ?k] distinct_map [of Some ?ports] some_ports by metis
  have "distinct (map dm_id (d # ds)) \<longleftrightarrow> dc_port base \<notin> set ?ports"
    unfolding i using dist by (auto simp: distinct_map inj_on_def host_port_def format_int_inj)
  also have "\<dots> \<longleftrightarrow> Some (dc_port base) \<notin> set (map Some ?ports)"
    by (simp only: set_map [of Some]) blast
  also have "\<dots> \<longleftrightarrow> Some (dc_port base) \<notin> set (take ?k answers)"
    by (simp only: some_ports)
  finally show ?thesis using c made
    by (intro exI [of _ "d # ds"]) (simp add: comp_def)
qed

theorem many_daemons_witness:
  "\<exists>ds :: nat Daemon list. NewDaemonCommands (NewDaemon None '''' local_only) [Some 7000, Some 6789] config_DefaultConfig 3 =
      Some (Ok ds) \<and> length ds = 3 \<and> \<not> distinct (map dm_id ds)"
proof -
  have c: "\<not> cg_standalone config_DefaultConfig" "dc_port (cg_daemon config_DefaultConfig) = 6789"
    by (simp_all add: config_DefaultConfig_def daemon_DefaultConfig_def)
  let ?answers = "[Some 7000, Some 6789] :: int option list"
  have p: "1 \<le> (3::int)" "distinct ?answers" "None \<notin> set ?answers" "nat (3 - 1) \<le> length ?answers"
    and t: "take (nat (3 - 1)) ?answers = ?answers"
    by simp_all
  obtain ds :: "nat Daemon list" where ds:
    "NewDaemonCommands (NewDaemon None '''' local_only) ?answers config_DefaultConfig 3 = Some (Ok ds)"
    "map dm_config ds = cg_daemon config_DefaultConfig #
       map (\<lambda>p. (cg_daemon config_DefaultConfig)\<lparr>dc_port := the p\<rparr>) ?answers"
    "distinct (map dm_id ds) \<longleftrightarrow> Some (dc_port (cg_daemon config_DefaultConfig)) \<notin> set ?answers"
    using many_daemons [where ?'e = nat, OF c(1) p, of None "''''" local_only, unfolded t] by (elim exE conjE) (rule that)
  have "length ds = 3" using arg_cong [OF ds(2), of length] by simp
  with ds(1,3) c(2) show ?thesis by auto
qed

section \<open>Versions\<close>

text \<open>Every operand that is not a string stands next to one, so Sprint puts no spaces between them.\<close>

definition is_positive :: "32 word option \<Rightarrow> bool" where
  "is_positive v = (case v of None \<Rightarrow> False | Some n \<Rightarrow> 0 < n)"

definition formatVersion :: "Version option \<Rightarrow> string" where
  "formatVersion version =
     (case version of
        None \<Rightarrow> ''''
      | Some v \<Rightarrow>
          (let parts = [format_uint32 (ver_major v)];
               parts = (if is_positive (ver_minor v) \<or> is_positive (ver_patch v)
                 then (case ver_minor v of Some m \<Rightarrow> parts @ [''.'', format_uint32 m] | None \<Rightarrow> parts) else parts);
               parts = (if is_positive (ver_patch v)
                 then (if ver_minor v = None then parts @ [''.0''] else parts) @
                   (case ver_patch v of Some p \<Rightarrow> [''.'', format_uint32 p] | None \<Rightarrow> []) else parts)
           in concat parts))"

text \<open>What a version is taken for once it has been shown: zeros at its end are left out, and so is all but
  its numbers.\<close>

definition shown_version :: "Version \<Rightarrow> Version" where
  "shown_version v = empty_version\<lparr>ver_major := ver_major v,
     ver_minor := (if is_positive (ver_patch v) then Some (case ver_minor v of Some m \<Rightarrow> m | None \<Rightarrow> 0)
       else if is_positive (ver_minor v) then ver_minor v else None),
     ver_patch := (if is_positive (ver_patch v) then ver_patch v else None)\<rparr>"

lemma zero_text: "''0'' = format_uint32 0"
  by code_simp

lemma version_not_unknown: "format_uint32 a @ s \<noteq> ''unknown''"
proof
  assume "format_uint32 a @ s = ''unknown''"
  moreover obtain c cs where "format_uint32 a = c # cs" "is_digit c"
    using format_nat_digit_head [of "unat a"] unfolding format_uint32_def by blast
  ultimately show False by (auto simp: is_digit_def)
qed

lemma parse_numbers:
  "parseVersion (format_uint32 a) = empty_version\<lparr>ver_major := a\<rparr>"
  "parseVersion (format_uint32 a @ ''.'' @ format_uint32 b) = empty_version\<lparr>ver_major := a, ver_minor := Some b\<rparr>"
  "parseVersion (format_uint32 a @ ''.'' @ format_uint32 b @ ''.'' @ format_uint32 c) =
     empty_version\<lparr>ver_major := a, ver_minor := Some b, ver_patch := Some c\<rparr>"
  using parseVersion_versionToString [of "empty_version\<lparr>ver_major := a\<rparr>"]
    parseVersion_versionToString [of "empty_version\<lparr>ver_major := a, ver_minor := Some b\<rparr>"]
    parseVersion_versionToString [of "empty_version\<lparr>ver_major := a, ver_minor := Some b, ver_patch := Some c\<rparr>"]
  by (simp_all add: versionToString_def version_canonical_def empty_version_def)

text \<open>The version the client shows for a toolchain can be read back, and as it was but for zeros at its end:
  14.2.0 is shown as 14.2, and a patch without a minor gets a zero.\<close>
theorem shown_version_roundtrip:
  "parseVersion (formatVersion (Some v)) = shown_version v"
proof -
  obtain a m p where v: "ver_major v = a" "ver_minor v = m" "ver_patch v = p" by blast
  show ?thesis
  proof (cases "is_positive p")
    case True
    then obtain c where c: "p = Some c" by (auto simp: is_positive_def split: option.splits)
    have "formatVersion (Some v) = format_uint32 a @ ''.'' @ format_uint32 (case m of Some b \<Rightarrow> b | None \<Rightarrow> 0) @ ''.'' @ format_uint32 c"
      using True c v by (auto simp: formatVersion_def zero_text [symmetric] Let_def split: option.splits)
    then have "parseVersion (formatVersion (Some v)) = empty_version\<lparr>ver_major := a,
        ver_minor := Some (case m of Some b \<Rightarrow> b | None \<Rightarrow> 0), ver_patch := Some c\<rparr>"
      by (simp only: parse_numbers)
    with True c v show ?thesis by (simp add: shown_version_def)
  next
    case False
    show ?thesis
    proof (cases "is_positive m")
      case True
      then obtain b where b: "m = Some b" by (auto simp: is_positive_def split: option.splits)
      have "formatVersion (Some v) = format_uint32 a @ ''.'' @ format_uint32 b"
        using True False b v by (simp add: formatVersion_def)
      then have "parseVersion (formatVersion (Some v)) = empty_version\<lparr>ver_major := a, ver_minor := Some b\<rparr>"
        by (simp only: parse_numbers)
      with True False b v show ?thesis by (simp add: shown_version_def empty_version_def)
    next
      case m: False
      with False v have "formatVersion (Some v) = format_uint32 a" by (simp add: formatVersion_def)
      with m False v show ?thesis by (simp add: parse_numbers shown_version_def empty_version_def)
    qed
  qed
qed

section \<open>Showing runtimes\<close>

text \<open>A line is a text with a newline at its end.\<close>

definition line :: "string \<Rightarrow> string" where
  "line s = s @ nl"

definition archName :: "CpuArchitecture \<Rightarrow> string" where
  "archName a = (case a of CPU_ARCHITECTURE_X86_64 \<Rightarrow> ''x86_64'' | CPU_ARCHITECTURE_AARCH64 \<Rightarrow> ''aarch64''
     | CPU_ARCHITECTURE_ARM \<Rightarrow> ''arm'' | _ \<Rightarrow> ''Unknown'')"

definition display_cpp :: "CppToolchain \<Rightarrow> string" where
  "display_cpp cpp =
     (let lang = (case cpp_language cpp of CPP_LANGUAGE_C \<Rightarrow> ''C'' | CPP_LANGUAGE_CPP \<Rightarrow> ''C++'' | _ \<Rightarrow> ''Unknown'');
          compilerName = (case cpp_compiler cpp of CPP_COMPILER_GCC \<Rightarrow> ''GCC'' | CPP_COMPILER_CLANG \<Rightarrow> ''Clang''
            | _ \<Rightarrow> ''Unknown'');
          cruntimeName = (case cpp_c_runtime cpp of C_RUNTIME_GLIBC \<Rightarrow> ''glibc'' | C_RUNTIME_MUSL \<Rightarrow> ''musl''
            | _ \<Rightarrow> ''Unknown'');
          version = (\<lambda>v. case v of None \<Rightarrow> '''' | Some _ \<Rightarrow> '' '' @ formatVersion v)
      in line ''   Type:        C/C++'' @
         line (''   Language:    '' @ lang) @
         line (''   Compiler:    '' @ compilerName @ version (cpp_compiler_version cpp)) @
         line (''   Architecture: '' @ archName (cpp_architecture cpp)) @
         line (''   C Runtime:   '' @ cruntimeName @ version (cpp_c_runtime_version cpp)) @
         (if cpp_stdlib cpp \<noteq> CPP_STDLIB_UNSPECIFIED
          then line (''   C++ Stdlib:  '' @ (case cpp_stdlib cpp of CPP_STDLIB_LIBSTDCXX \<Rightarrow> ''libstdc++''
            | CPP_STDLIB_LIBCXX \<Rightarrow> ''libc++'' | _ \<Rightarrow> ''Unknown''))
          else ''''))"

definition displayRuntime :: "nat \<Rightarrow> Runtime \<Rightarrow> string" where
  "displayRuntime num rt =
     line (format_nat num @ ''. '' @ rt_id rt) @
     line (''   Platform:    '' @ RuntimePlatform_name (rt_platform rt)) @
     line (''   Toolchain:   '' @ RuntimeToolchain_name (rt_toolchain rt)) @
     (case rt_spec rt of
        Runtime_Cpp c \<Rightarrow> (case c of None \<Rightarrow> '''' | Some cpp \<Rightarrow> display_cpp cpp)
      | Runtime_Go g \<Rightarrow> line ''   Type:        Go'' @
          (case g of None \<Rightarrow> '''' | Some go \<Rightarrow>
             line (''   Go Version:  '' @ formatVersion (go_version go)) @
             line (''   GOOS:        '' @ go_os go) @ line (''   GOARCH:      '' @ go_arch go))
      | Runtime_Rust r \<Rightarrow> line ''   Type:        Rust'' @
          (case r of None \<Rightarrow> '''' | Some rust \<Rightarrow>
             line (''   Rust Version: '' @ formatVersion (rust_version rust)) @
             line (''   Target:      '' @ rust_target_triple rust))
      | NoSpec \<Rightarrow> '''') @
     line (''   Platform:    '' @ RuntimePlatform_name (rt_platform rt)) @
     (if rt_peer_ids rt \<noteq> []
      then line (''   Peers (total '' @ format_nat (length (rt_peer_ids rt)) @ ''):'') @
        concat (map (\<lambda>p. line (''     - '' @ p)) (rt_peer_ids rt))
      else '''') @
     (case rt_description rt of None \<Rightarrow> '''' | Some d \<Rightarrow> if d \<noteq> '''' then line (''   Description: '' @ d) else '''') @
     line ''''"

text \<open>The counts of the summary, and its text with the entries of the two maps in one of their orders.\<close>

definition bump :: "string \<Rightarrow> (string, nat) gomap \<Rightarrow> (string, nat) gomap" where
  "bump k m = gm_put m k (case gm_get m k of None \<Rightarrow> 1 | Some n \<Rightarrow> n + 1)"

fun summary_counts :: "Runtime list \<Rightarrow> (string, nat) gomap \<times> (string, nat) gomap \<Rightarrow> (string, nat) gomap \<times> (string, nat) gomap" where
  "summary_counts [] (types, archs) = (types, archs)"
| "summary_counts (rt # rts) (types, archs) = summary_counts rts
     (case rt_spec rt of
        Runtime_Cpp _ \<Rightarrow> (bump ''C/C++'' types, case GetCpp rt of None \<Rightarrow> archs | Some cpp \<Rightarrow> bump (archName (cpp_architecture cpp)) archs)
      | Runtime_Go _ \<Rightarrow> (bump ''Go'' types, archs)
      | Runtime_Rust _ \<Rightarrow> (bump ''Rust'' types, archs)
      | NoSpec \<Rightarrow> (types, archs))"

definition count_lines :: "(string, nat) gomap \<Rightarrow> string" where
  "count_lines m = concat (map (\<lambda>(k, n). line (''    '' @ k @ '': '' @ format_nat n)) m)"

definition displayRuntimeSummary :: "Runtime list \<Rightarrow> string" where
  "displayRuntimeSummary runtimes =
     (case summary_counts runtimes ([], []) of (types, archs) \<Rightarrow>
        line ''Summary:'' @ line (''Total: '' @ format_nat (length runtimes) @ '' runtime(s)'') @
        (if types \<noteq> [] then line ''  By Type:'' @ count_lines types else '''') @
        (if archs \<noteq> [] then line ''  By Architecture (C/C++):'' @ count_lines archs else ''''))"

fun display_numbered :: "nat \<Rightarrow> Runtime list \<Rightarrow> string" where
  "display_numbered i [] = ''''"
| "display_numbered i (rt # rts) = displayRuntime (i + 1) rt @ display_numbered (i + 1) rts"

text \<open>The commands of runtime, given the answer of the daemon; None is a failed call, an error for the caller.\<close>

definition RuntimeCommands_List :: "(Runtime list \<times> string) option \<Rightarrow> string option" where
  "RuntimeCommands_List resp =
     map_option (\<lambda>(runtimes, notes).
       if runtimes = [] then line ''No runtimes available'' @ (if notes \<noteq> '''' then line (''Note: '' @ notes) else '''')
       else line ''Available Runtimes:'' @ line '''' @ display_numbered 0 runtimes @
         (if notes \<noteq> '''' then line (''Notes: '' @ notes) @ line '''' else '''') @ displayRuntimeSummary runtimes) resp"

definition RuntimeCommands_Info :: "string \<Rightarrow> GetRuntimeResponse option \<Rightarrow> string option" where
  "RuntimeCommands_Info runtimeID resp =
     (if runtimeID = '''' then None
      else map_option (\<lambda>r. case grr_error r of
          Some e \<Rightarrow> if e \<noteq> '''' then line (''Error: '' @ e) else (case grr_runtime r of
              None \<Rightarrow> line (''Runtime not found: '' @ runtimeID)
            | Some rt \<Rightarrow> line (''Runtime Information for: '' @ runtimeID) @ line '''' @ displayRuntime 1 rt)
        | None \<Rightarrow> (case grr_runtime r of
              None \<Rightarrow> line (''Runtime not found: '' @ runtimeID)
            | Some rt \<Rightarrow> line (''Runtime Information for: '' @ runtimeID) @ line '''' @ displayRuntime 1 rt)) resp)"

definition count_total :: "(string, nat) gomap \<Rightarrow> nat" where
  "count_total m = sum_list (map snd m)"

lemma count_total_put:
  "gm_ok m \<Longrightarrow> count_total (gm_put m k n) + (case gm_get m k of None \<Rightarrow> 0 | Some v \<Rightarrow> v) = count_total m + n"
  by (induction m) (auto simp: count_total_def split: option.splits)

lemma count_total_bump: "gm_ok m \<Longrightarrow> count_total (bump k m) = count_total m + 1"
  using count_total_put [of m k 1] count_total_put [of m k "the (gm_get m k) + 1"]
  by (cases "gm_get m k") (simp_all add: bump_def)

lemma bump_ok: "gm_ok m \<Longrightarrow> gm_ok (bump k m)"
  by (simp add: bump_def)

text \<open>Every runtime with a toolchain is counted once by its type, and every C or C++ toolchain once by its
  architecture.\<close>
lemma summary_total:
  assumes "gm_ok types" "gm_ok archs" "summary_counts rts (types, archs) = (types', archs')"
  shows "count_total types' = count_total types + length (filter (\<lambda>rt. rt_spec rt \<noteq> NoSpec) rts) \<and>
    count_total archs' = count_total archs + length (filter (\<lambda>rt. GetCpp rt \<noteq> None) rts)"
  using assms
proof (induction rts arbitrary: types archs)
  case (Cons rt rts)
  obtain t a where step: "summary_counts (rt # rts) (types, archs) = summary_counts rts (t, a)"
    "gm_ok t" "gm_ok a" "count_total t = count_total types + (if rt_spec rt \<noteq> NoSpec then 1 else 0)"
    "count_total a = count_total archs + (if GetCpp rt \<noteq> None then 1 else 0)"
  proof (cases "rt_spec rt")
    case NoSpec
    with Cons.prems show thesis by (intro that [of types archs]) (simp_all add: GetCpp_def)
  next
    case (Runtime_Cpp c)
    show thesis
    proof (cases c)
      case None
      with Runtime_Cpp Cons.prems show thesis
        by (intro that [of "bump ''C/C++'' types" archs]) (simp_all add: GetCpp_def bump_ok count_total_bump)
    next
      case (Some cpp)
      with Runtime_Cpp Cons.prems show thesis
        by (intro that [of "bump ''C/C++'' types" "bump (archName (cpp_architecture cpp)) archs"])
           (simp_all add: GetCpp_def bump_ok count_total_bump)
    qed
  next
    case (Runtime_Go g)
    with Cons.prems show thesis
      by (intro that [of "bump ''Go'' types" archs]) (simp_all add: GetCpp_def bump_ok count_total_bump)
  next
    case (Runtime_Rust r)
    with Cons.prems show thesis
      by (intro that [of "bump ''Rust'' types" archs]) (simp_all add: GetCpp_def bump_ok count_total_bump)
  qed
  with Cons.IH [OF step(2,3)] Cons.prems(3) show ?case by simp
qed simp

section \<open>Showing the peers and the queue\<close>

text \<open>A green and a red circle, in UTF-8.\<close>

definition green_circle :: string where
  "green_circle = [CHR 0xF0, CHR 0x9F, CHR 0x9F, CHR 0xA2]"

definition red_circle :: string where
  "red_circle = [CHR 0xF0, CHR 0x9F, CHR 0x94, CHR 0xB4]"

text \<open>A peer as the daemon lists it, with its optional fields set and no host name.\<close>

definition display_peer :: "(int \<Rightarrow> string) \<Rightarrow> nat \<Rightarrow> ListedPeer \<Rightarrow> string" where
  "display_peer show_time i p =
     line '''' @
     line (format_nat i @ ''. '' @ lp_peer_id p @ (if lp_is_local p then '' [THIS DAEMON]'' else '''') @ '' ('' @
       (if lp_is_online p then green_circle @ '' Online'' else red_circle @ '' Offline'') @ '')'') @
     line (''   Endpoint: '' @ uri_host (lp_uri p) @ '':'' @ format_uint32 (uri_port (lp_uri p))) @
     line (''   Last Seen:  '' @ show_time (lp_last_seen p)) @
     (if lp_runtimes p \<noteq> []
      then line (''   Runtimes: '' @ format_nat (length (lp_runtimes p)) @ '' available'') @
        concat (map (\<lambda>rt. line (''     - '' @ rt_id rt)) (lp_runtimes p))
      else '''')"

fun display_peers :: "(int \<Rightarrow> string) \<Rightarrow> nat \<Rightarrow> ListedPeer list \<Rightarrow> string" where
  "display_peers show_time i [] = ''''"
| "display_peers show_time i (p # ps) = display_peer show_time (i + 1) p @ display_peers show_time (i + 1) ps"

definition PeersCommands_List :: "(int \<Rightarrow> string) \<Rightarrow> (ListedPeer list \<times> 32 word) option \<Rightarrow> string option" where
  "PeersCommands_List show_time resp =
     map_option (\<lambda>(peers, n).
       line (''Discovered Peers ('' @ format_int (sint n) @ '' total):'') @ line ''============================'' @
       (if n = 0 then line ''No peers discovered'' else display_peers show_time 0 peers)) resp"

definition PeersCommands_Discover :: "bool \<Rightarrow> string option" where
  "PeersCommands_Discover triggered =
     (if triggered then Some (line ''Discovery triggered:'' @ line ''Status: SUCCESS'' @
        line ''Message: Discovery cycle triggered'') else None)"

fun formatJobStatus :: "JobStatus \<Rightarrow> string" where
  "formatJobStatus JOB_STATUS_UNSPECIFIED = ''Unspecified''"
| "formatJobStatus JOB_STATUS_READY = ''Ready''"
| "formatJobStatus JOB_STATUS_SCHEDULED = ''Scheduled''"
| "formatJobStatus JOB_STATUS_INPUT_TRANSFER = ''Input Transfer''"
| "formatJobStatus JOB_STATUS_RUNNING = ''Running''"
| "formatJobStatus JOB_STATUS_COMPLETED = ''Completed''"
| "formatJobStatus JOB_STATUS_OUTPUT_TRANSFER = ''Output Transfer''"
| "formatJobStatus JOB_STATUS_FAILED = ''Failed''"
| "formatJobStatus JOB_STATUS_CANCELLED = ''Cancelled''"
| "formatJobStatus JOB_STATUS_QUEUED = ''Queued''"
| "formatJobStatus JOB_STATUS_RECEIVED = ''Unknown (1)''"

definition display_queued :: "(int \<Rightarrow> string) \<Rightarrow> nat \<Rightarrow> QueuedJobInfo \<Rightarrow> string" where
  "display_queued show_duration i j =
     line '''' @
     line (format_nat i @ ''. Job ID: '' @ qi_job_id j) @
     (case qi_progress j of
        None \<Rightarrow> ''''
      | Some p \<Rightarrow>
          line (''   Status: '' @ formatJobStatus (jp_status p)) @
          (case jp_percent p of None \<Rightarrow> '''' | Some n \<Rightarrow> line (''   Progress: '' @ format_uint32 n @ ''%'')) @
          (if jp_executing_peer_id p \<noteq> '''' then line (''   Executing on: '' @ jp_executing_peer_id p) else '''')) @
     (case qi_time_in_queue j of None \<Rightarrow> '''' | Some t \<Rightarrow> line (''   Time in Queue: '' @ show_duration t)) @
     line (''   Queue Position: '' @ format_uint32 (qi_position j))"

fun display_queue :: "(int \<Rightarrow> string) \<Rightarrow> nat \<Rightarrow> QueuedJobInfo list \<Rightarrow> string" where
  "display_queue show_duration i [] = ''''"
| "display_queue show_duration i (j # js) =
     display_queued show_duration (i + 1) j @ display_queue show_duration (i + 1) js"

definition QueueCommands_Show :: "(int \<Rightarrow> string) \<Rightarrow> JobQueueInfo option \<Rightarrow> string option" where
  "QueueCommands_Show show_duration resp =
     map_option (\<lambda>q.
       line ''Job Queue Status:'' @ line ''================'' @
       line (''Total Queue Size: '' @ format_int (jq_size q)) @
       line (''Running Jobs: '' @ format_int (jq_running q)) @
       line (''Pending Jobs: '' @ format_nat (length (jq_queued q))) @
       (if jq_queued q = [] then line '''' @ line ''No jobs in queue''
        else line '''' @ line ''Queued Jobs:'' @ line ''-----------'' @ display_queue show_duration 0 (jq_queued q))) resp"

end
