(* ===== verification/Spec2Isabelle.thy ===== *)
theory Spec2Isabelle
  imports RuntimeRegistry RuntimeManagers JobManager Gossip RemoteRuntime Detector ToolchainRegistry
    LogText LogService ToolchainMatch DriverRun PeerRuntimes Detection Execution Client
begin

text \<open>
  Verification of buildozer, a peer-to-peer distributed build system written in Go.

  A daemon runs on every machine. A client hands it a job (compile, link or archive) with either a
  runtime or a query for runtimes; the daemon's job manager tracks the job, its scheduler decides
  which runtime on which peer executes it, and the runtime runs the command. Daemons learn of each
  other and of each other's runtimes over RPC.

  Theories, in the order they build on each other.

  Prelude: results and errors, Go maps as association lists with distinct keys (a range loop visits
  them in the order of the list, and theorems hold for every list), Go strings as lists of bytes,
  buffered channels. Interfaces: the contracts between components, as locales; each is interpreted on
  the model's definitions in the theory of the component that provides it.

  ProtoTypes, JobTypes (internal/gen/buildozer/proto/v1): the messages the code exchanges. An enum
  is a datatype, a message a record, a nil pointer None, a oneof a datatype with a constructor for
  the unset field. Timestamps are their milliseconds.

  RuntimeId (pkg/runtime/proto.go, parsers.go): runtime identifiers such as
  native_linux-c-gcc-10-glibc-2.31-x86_64, their parser and printer. Printing the parse of an
  identifier and parsing the print of a runtime are each other's inverse where the code supports it,
  and the theorems say where it does not. RuntimeRegistry (pkg/runtime/registry.go, discoverer.go):
  the table of runtimes.

  RuntimeMatch (pkg/daemon/runtime_matcher.go, runtime_manager.go, pkg/peers/remote_manager.go): the
  two matchers of a query against a runtime, and when they agree. The text of a version inside a
  parameter is a function vstr of the version, as it is printed by protobuf's String.

  ParMap (internal/utils/map.go): the fork-join helpers. The completions of the goroutines are a
  permutation of the indices; the theorems hold for every permutation.

  NativeRuntime (pkg/runtimes/cpp/native): the runtimes that run a compiler on the machine:
  identifiers, protobuf form, matching, command lines and execution. Running a command, making a
  directory and reading the outputs are the fields of a record exec_env.

  Peers (pkg/peers/manager.go, types.go): the table of peers. RuntimeManagers (pkg/runtimes): the local manager
  and its cache, the remote manager that asks every peer in parallel, the aggregated manager that
  merges both, and the RPC service. The answers of the peers are a function of the peer. A daemon
  network with nested requests is run with fuel: network_ListRuntimes answers None while the fuel is
  not enough, and the theorem about it holds for every fuel.

  JobQueue, Heuristic, Scheduler (pkg/scheduler): the FIFO queue, the SimpleLocalFirst heuristic, and
  the scheduler. The executions the scheduler starts in goroutines are recorded in its state, in the
  order they start. The loop of OnJobCompletion is total: each turn shortens the queue. Two
  completions at once are a step relation at the granularity of the locks.

  JobManager (pkg/daemon/job_manager.go, job_service.go): submitted jobs, their progress and the
  channels that watch it, the callbacks given to the scheduler, and the RPC handlers. A panic of the
  daemon, or a send that blocks for good, is None; reachable states never are, when operations run
  one after the other.

  Gossip (pkg/peers/discoverer.go): the announcements of the daemons; a round of them between two
  daemons ends, and leaves each known to the other.

  Paths (Go's path/filepath), Files: absolute paths as their elements, and a file system whose nodes
  are found by clean absolute path; hashing is a field of it. Staging (pkg/staging): describing,
  verifying, writing, embedding and materialising files. Sandbox (pkg/sandbox): the wrappers of an
  execution, a function of the request and the file system that returns both as they are afterwards.

  GccArgs, GccConfig, GccDriver (pkg/drivers/cpp/gcc_common, gcc, gxx, clang, clangxx): the command
  lines of the compiler drivers, their configuration and runtime identifiers, and their jobs.
  ArDriver (pkg/drivers/cpp/ar_common, ar): the same for the archiver, whose jobs ask for any runtime
  with a matching ABI. A string on the command line is its list of bytes.

  RemoteJobs (pkg/scheduler/remote_preparer.go, remote_tracker.go, remote_executor.go),
  RemoteRuntime (pkg/runtimes/remote/runtime.go): jobs handed to other daemons, whose answers are
  functions of the request. The reader of a stream takes one message at a time, so that other
  operations come in between.

  Execution (pkg/runtime/executor.go): the run of a command, with the pipes of its outputs and the
  scanners that report them line by line; a run that does not return is None.

  Detector (pkg/runtimes/cpp/native/detector.go, discoverer.go, variant_detector.go): what the daemon
  finds on its machine: the search of the path, the commands it runs and the scraping of what they
  print, into toolchains that are registered. The machine is a record of functions, a regular
  expression a function written after it. ToolchainRegistry (pkg/toolchain/registry.go): the table of
  them. Strings: Go's strconv and strings.

  LogRegistry (pkg/logging/logger.go): the registry of loggers and sinks and the path of a record to
  its sinks. LogConfig (config.go, global.go, log_buffer.go, broadcaster_handler.go, and the making of
  sinks): configuration, the global registry, and the broadcaster with the channels of its
  subscribers. LogText (sinks/sinks.go): the text handler. LogService (config_manager.go,
  remote_config.go, service_handler.go): the manager of a daemon's logging, the service in front of
  it, and the remote manager that calls the service. A call that waits for a lock its own caller
  holds is the value Blocked.

  Flags, ToolchainMatch, Resolution, DriverRun (pkg/drivers, pkg/driver, and the search for a
  configuration file of pkg/config/manager.go): the flags of the drivers, the toolchain a command line
  asks for and the best runtime for it, the resolution of a runtime from a configuration and a
  daemon's answers, and the run of a driver up to its exit code. The messages of a stream are a list
  with how it ends; one that stays open is a run that does not return, None.

  PeerRuntimes (pkg/peers/remote_manager.go): the runtimes of the peers as the table of peers has them.
  Detection (pkg/runtimes/manager.go): callers of the local runtime manager at the same time, as a step
  relation at the granularity of its lock; every run is bounded, and ends with an answer for each caller.

  DaemonServer, DaemonMain (pkg/daemon/daemon.go, options.go, url.go, discovery_service.go,
  introspection_service.go): the configuration of a daemon and its builder; the HTTP server as a
  transition system, whose starts each leave a goroutine with two channels of one place, and whose half
  second is the event Settle; what NewDaemon wires, Start and Stop over the discoverer, the runtime manager
  and the server, and the services that show the peers and the queue. The order of the steps of a start is a
  list of events, and prompt_run says of it that the goroutine was faster than the half second.

  ConfigBind (pkg/config, cmd/buildozer-client/cmd/root.go): the configuration as a record, and as the tree
  of fields with their tags that reflection walks over; the keys bound to environment variables, the values
  read, the manager, and the choice of the root command. What viper knows is a record of functions of the
  key; its integers are those of Go where a theorem says so. Client (pkg/cli, cmd/buildozer-client/cmd):
  the logging commands down to the registry of the daemon, several daemons in one process, and how
  runtimes, peers and the queue are shown, as the lines printed.

  What the lemmas show. Functional behaviour of the operations on every branch, errors and panics
  included; invariants kept by every operation of the peer table, the scheduler's queue, the job
  manager, the tracker, the remote executor, the registry of loggers and the broadcaster; conservation
  of jobs by the scheduling loop; equivalence of the parallel maps with a sequential one, of the two
  query matchers with each other, of the parsing of flags with a lookup by name for every order of the
  flags, and of the native runtimes with their messages; refinement of the local logging manager by
  the remote one and by the commands of the client, and of a daemon's answer to a submission by the
  driver's reading of it; equivalence of the configuration read by reflection with one read field by field;
  the life of a daemon from its making to its stop; round trips
  of identifiers, configurations, command lines and staged files. The theorems on RemoteRuntime,
  GccDriver, ArDriver and DriverRun compose the drivers, the stager, the runtimes, the resolution and
  the completion of a job. Where the code does not do what its comments say, a theorem states what it
  does.

  Not modelled: the RPC transport and the generated message code, operating system processes (what a
  command writes and how it ends is an argument), the writing and rotation of log files, what the viper
  library reads from files and the environment, the parsing of a command line by the cobra library, the log
  that the client tails on the screen, and the commands cache, cancel and status, which print that they are
  placeholders.
\<close>

end
